(* ===== verification/OSAL_Prelude.thy ===== *)
theory OSAL_Prelude
  imports Main "HOL-Library.Word" "HOL-Library.Signed_Division"
begin

unbundle bit_operations_syntax

text \<open>
  Shared vocabulary of the development: names for the fixed-width C types
  (\<^verbatim>\<open>src/src/os/inc/common_types.h\<close>), the status codes of
  \<^verbatim>\<open>src/src/os/inc/osapi-error.h\<close>, C strings and the argument-checking macros of
  \<^verbatim>\<open>src/src/os/inc/osapi-macros.h\<close> and
  \<^verbatim>\<open>src/src/os/shared/inc/os-shared-globaldefs.h\<close>, the named collections
  of rewrite rules the component theories use, and generic lemmas on words and lists.

  A \<^verbatim>\<open>const char *\<close> argument is a \<open>string option\<close>: \<open>None\<close> is
  \<open>NULL\<close>, and \<open>Some cs\<close> points to the characters \<open>cs\<close> followed by the
  terminating zero byte. A fixed-size \<^verbatim>\<open>char\<close> buffer that the code keeps
  zero-terminated is the \<open>string\<close> before its terminator. A status code is an
  \<open>int\<close>: no arithmetic is ever done on it.
\<close>

subsection \<open>Collections\<close>

named_theorems osal_defs \<open>unfolding rules of small source definitions\<close>
named_theorems osal_frame \<open>what an operation leaves unchanged\<close>

subsection \<open>C types\<close>

type_synonym u8 = "8 word"
type_synonym u16 = "16 word"
type_synonym u32 = "32 word"
type_synonym u64 = "64 word"

type_synonym osal_id_t = u32
type_synonym osal_objtype_t = u32
type_synonym osal_index_t = u32
type_synonym status = int

text \<open>A function pointer or an opaque \<^verbatim>\<open>void *\<close> is an address; \<open>None\<close> is NULL.\<close>

type_synonym addr = nat
type_synonym ptr = "addr option"

subsection \<open>Status codes\<close>

abbreviation (input) OS_SUCCESS :: status where "OS_SUCCESS \<equiv> 0"
abbreviation (input) OS_ERROR :: status where "OS_ERROR \<equiv> - 1"
abbreviation (input) OS_INVALID_POINTER :: status where "OS_INVALID_POINTER \<equiv> - 2"
abbreviation (input) OS_ERROR_ADDRESS_MISALIGNED :: status where "OS_ERROR_ADDRESS_MISALIGNED \<equiv> - 3"
abbreviation (input) OS_ERROR_TIMEOUT :: status where "OS_ERROR_TIMEOUT \<equiv> - 4"
abbreviation (input) OS_INVALID_INT_NUM :: status where "OS_INVALID_INT_NUM \<equiv> - 5"
abbreviation (input) OS_SEM_FAILURE :: status where "OS_SEM_FAILURE \<equiv> - 6"
abbreviation (input) OS_SEM_TIMEOUT :: status where "OS_SEM_TIMEOUT \<equiv> - 7"
abbreviation (input) OS_QUEUE_EMPTY :: status where "OS_QUEUE_EMPTY \<equiv> - 8"
abbreviation (input) OS_QUEUE_FULL :: status where "OS_QUEUE_FULL \<equiv> - 9"
abbreviation (input) OS_QUEUE_TIMEOUT :: status where "OS_QUEUE_TIMEOUT \<equiv> - 10"
abbreviation (input) OS_QUEUE_INVALID_SIZE :: status where "OS_QUEUE_INVALID_SIZE \<equiv> - 11"
abbreviation (input) OS_QUEUE_ID_ERROR :: status where "OS_QUEUE_ID_ERROR \<equiv> - 12"
abbreviation (input) OS_ERR_NAME_TOO_LONG :: status where "OS_ERR_NAME_TOO_LONG \<equiv> - 13"
abbreviation (input) OS_ERR_NO_FREE_IDS :: status where "OS_ERR_NO_FREE_IDS \<equiv> - 14"
abbreviation (input) OS_ERR_NAME_TAKEN :: status where "OS_ERR_NAME_TAKEN \<equiv> - 15"
abbreviation (input) OS_ERR_INVALID_ID :: status where "OS_ERR_INVALID_ID \<equiv> - 16"
abbreviation (input) OS_ERR_NAME_NOT_FOUND :: status where "OS_ERR_NAME_NOT_FOUND \<equiv> - 17"
abbreviation (input) OS_ERR_SEM_NOT_FULL :: status where "OS_ERR_SEM_NOT_FULL \<equiv> - 18"
abbreviation (input) OS_ERR_INVALID_PRIORITY :: status where "OS_ERR_INVALID_PRIORITY \<equiv> - 19"
abbreviation (input) OS_INVALID_SEM_VALUE :: status where "OS_INVALID_SEM_VALUE \<equiv> - 20"
abbreviation (input) OS_ERR_FILE :: status where "OS_ERR_FILE \<equiv> - 27"
abbreviation (input) OS_ERR_NOT_IMPLEMENTED :: status where "OS_ERR_NOT_IMPLEMENTED \<equiv> - 28"
abbreviation (input) OS_TIMER_ERR_INVALID_ARGS :: status where "OS_TIMER_ERR_INVALID_ARGS \<equiv> - 29"
abbreviation (input) OS_TIMER_ERR_TIMER_ID :: status where "OS_TIMER_ERR_TIMER_ID \<equiv> - 30"
abbreviation (input) OS_TIMER_ERR_UNAVAILABLE :: status where "OS_TIMER_ERR_UNAVAILABLE \<equiv> - 31"
abbreviation (input) OS_TIMER_ERR_INTERNAL :: status where "OS_TIMER_ERR_INTERNAL \<equiv> - 32"
abbreviation (input) OS_ERR_OBJECT_IN_USE :: status where "OS_ERR_OBJECT_IN_USE \<equiv> - 33"
abbreviation (input) OS_ERR_BAD_ADDRESS :: status where "OS_ERR_BAD_ADDRESS \<equiv> - 34"
abbreviation (input) OS_ERR_INCORRECT_OBJ_STATE :: status where "OS_ERR_INCORRECT_OBJ_STATE \<equiv> - 35"
abbreviation (input) OS_ERR_INCORRECT_OBJ_TYPE :: status where "OS_ERR_INCORRECT_OBJ_TYPE \<equiv> - 36"
abbreviation (input) OS_ERR_STREAM_DISCONNECTED :: status where "OS_ERR_STREAM_DISCONNECTED \<equiv> - 37"
abbreviation (input) OS_ERR_OPERATION_NOT_SUPPORTED :: status where "OS_ERR_OPERATION_NOT_SUPPORTED \<equiv> - 38"
abbreviation (input) OS_ERR_INVALID_SIZE :: status where "OS_ERR_INVALID_SIZE \<equiv> - 40"
abbreviation (input) OS_ERR_OUTPUT_TOO_LARGE :: status where "OS_ERR_OUTPUT_TOO_LARGE \<equiv> - 41"
abbreviation (input) OS_ERR_INVALID_ARGUMENT :: status where "OS_ERR_INVALID_ARGUMENT \<equiv> - 42"
abbreviation (input) OS_ERR_TRY_AGAIN :: status where "OS_ERR_TRY_AGAIN \<equiv> - 43"
abbreviation (input) OS_ERR_EMPTY_SET :: status where "OS_ERR_EMPTY_SET \<equiv> - 44"
abbreviation (input) OS_FS_ERR_PATH_TOO_LONG :: status where "OS_FS_ERR_PATH_TOO_LONG \<equiv> - 103"
abbreviation (input) OS_FS_ERR_NAME_TOO_LONG :: status where "OS_FS_ERR_NAME_TOO_LONG \<equiv> - 104"
abbreviation (input) OS_FS_ERR_DRIVE_NOT_CREATED :: status where "OS_FS_ERR_DRIVE_NOT_CREATED \<equiv> - 106"
abbreviation (input) OS_FS_ERR_DEVICE_NOT_FREE :: status where "OS_FS_ERR_DEVICE_NOT_FREE \<equiv> - 107"
abbreviation (input) OS_FS_ERR_PATH_INVALID :: status where "OS_FS_ERR_PATH_INVALID \<equiv> - 108"

subsection \<open>C strings and argument checks\<close>

text \<open>
  \<open>OS_strnlen\<close> is \<^verbatim>\<open>memchr\<close> for the terminator within the first \<open>maxlen\<close> bytes:
  the offset of the terminator when it is there, \<open>maxlen\<close> otherwise.
\<close>

definition OS_strnlen :: "string \<Rightarrow> nat \<Rightarrow> nat" where
  "OS_strnlen cs maxlen = (if length cs < maxlen then length cs else maxlen)"

text \<open>
  \<^verbatim>\<open>memset\<close> to zero followed by \<^verbatim>\<open>strncpy(dst, src, sizeof(dst) - 1)\<close>: at most
  \<open>n - 1\<close> characters, and the last byte of the buffer stays zero.
\<close>

definition strncpy_cleared :: "string \<Rightarrow> nat \<Rightarrow> string" where
  "strncpy_cleared src n = take (n - 1) src"

text \<open>\<^verbatim>\<open>LENGTHCHECK\<close>: the string and its terminator fit into \<open>len\<close> bytes.\<close>

definition LENGTHCHECK :: "string \<Rightarrow> nat \<Rightarrow> bool" where
  "LENGTHCHECK cs len \<longleftrightarrow> length cs < len"

definition OS_CHECK_SIZE :: "nat \<Rightarrow> bool" where
  "OS_CHECK_SIZE val \<longleftrightarrow> 0 < val \<and> val < (2 ^ 32 - 1) div 2"

lemma OS_strnlen_le [simp]: "OS_strnlen cs n \<le> n"
  by (simp add: OS_strnlen_def)

lemma OS_strnlen_min: "OS_strnlen cs n = min (length cs) n"
  by (simp add: OS_strnlen_def)

lemma OS_strnlen_fits: "length cs < n \<Longrightarrow> OS_strnlen cs n = length cs"
  by (simp add: OS_strnlen_def)

lemma strncpy_cleared_fits: "length cs < n \<Longrightarrow> strncpy_cleared cs n = cs"
  by (simp add: strncpy_cleared_def)

lemma strncpy_cleared_length: "0 < n \<Longrightarrow> length (strncpy_cleared cs n) < n"
  by (simp add: strncpy_cleared_def)

subsection \<open>Words\<close>

lemma unat_plus1_less: "(x::'a::len word) < c \<Longrightarrow> unat (x + 1) = unat x + 1"
  by (metis Suc_eq_plus1 add.commute add.right_neutral add_diff_cancel_left' diff_0
      not_less_iff_gr_or_eq unatSuc word_n1_ge word_order.not_eq_extremum)

lemma residue_reached:
  fixes c m k :: nat
  assumes "k < m"
  shows "\<exists>d < m. (c + d) mod m = k"
proof -
  have le: "c \<le> k + m * c" using assms by (cases m) simp_all
  have "(c + (k + m * c - c) mod m) mod m = (c + (k + m * c - c)) mod m"
    by (rule mod_add_right_eq)
  also have "\<dots> = (k + m * c) mod m" using le by (simp only: le_add_diff_inverse)
  also have "\<dots> = k" using assms by (simp only: mod_mult_self2 mod_less)
  finally show ?thesis using assms by (intro exI[of _ "(k + m * c - c) mod m"]) simp
qed

end
