(* ===== verification/OSAL_State.thy ===== *)
theory OSAL_State
  imports OSAL_Prelude
begin

text \<open>
  The data of the OS-independent layer: the compile-time limits of \<^verbatim>\<open>osconfig.h\<close>
  (generated from \<^verbatim>\<open>src/default_config.cmake\<close>; the default values are used),
  object types and the fields of an object ID (\<^verbatim>\<open>osapi-idmap.h\<close>), the common
  record, lock modes and tokens (\<^verbatim>\<open>os-shared-idmap.h\<close>), the internal record of
  every object type (\<^verbatim>\<open>os-shared-*.h\<close>), and one record \<open>os_state\<close> that holds
  every global variable of the layer.

  An array is a function from its index; \<^verbatim>\<open>memset\<close> to zero makes it constantly the
  zero record. That no index ever leaves the bounds of the C array is proved, not built in.
  The \<^verbatim>\<open>name_entry\<close> of a common record is a pointer into the name field of the
  object's own record: it is modelled as such (\<open>name_ptr\<close>), so a later write to that
  field is seen through the common record as it is in C.

  The state is parameterised by \<open>'i\<close>, the state of everything below and beside this
  layer: the implementation layer's own tables, the operating system and the application.
\<close>

subsection \<open>Compile-time limits\<close>

definition OS_MAX_TASKS :: u32 where "OS_MAX_TASKS = 64"
definition OS_MAX_QUEUES :: u32 where "OS_MAX_QUEUES = 64"
definition OS_MAX_COUNT_SEMAPHORES :: u32 where "OS_MAX_COUNT_SEMAPHORES = 20"
definition OS_MAX_BIN_SEMAPHORES :: u32 where "OS_MAX_BIN_SEMAPHORES = 20"
definition OS_MAX_MUTEXES :: u32 where "OS_MAX_MUTEXES = 20"
definition OS_MAX_RWLOCKS :: u32 where "OS_MAX_RWLOCKS = 20"
definition OS_MAX_CONDVARS :: u32 where "OS_MAX_CONDVARS = 4"
definition OS_MAX_MODULES :: u32 where "OS_MAX_MODULES = 20"
definition OS_MAX_TIMEBASES :: u32 where "OS_MAX_TIMEBASES = 5"
definition OS_MAX_TIMERS :: u32 where "OS_MAX_TIMERS = 10"
definition OS_MAX_NUM_OPEN_FILES :: u32 where "OS_MAX_NUM_OPEN_FILES = 50"
definition OS_MAX_NUM_OPEN_DIRS :: u32 where "OS_MAX_NUM_OPEN_DIRS = 4"
definition OS_MAX_FILE_SYSTEMS :: u32 where "OS_MAX_FILE_SYSTEMS = 14"
definition OS_MAX_CONSOLES :: u32 where "OS_MAX_CONSOLES = 1"

definition OS_MAX_API_NAME :: nat where "OS_MAX_API_NAME = 20"
definition OS_MAX_FILE_NAME :: nat where "OS_MAX_FILE_NAME = 20"
definition OS_MAX_PATH_LEN :: nat where "OS_MAX_PATH_LEN = 64"
definition OS_QUEUE_MAX_DEPTH :: nat where "OS_QUEUE_MAX_DEPTH = 50"
definition OS_FS_DEV_NAME_LEN :: nat where "OS_FS_DEV_NAME_LEN = 32"
definition OS_FS_PHYS_NAME_LEN :: nat where "OS_FS_PHYS_NAME_LEN = 64"
definition OS_FS_VOL_NAME_LEN :: nat where "OS_FS_VOL_NAME_LEN = 32"
definition OS_ADD_TASK_FLAGS :: u32 where "OS_ADD_TASK_FLAGS = 0"
definition OS_MAX_LOCAL_PATH_LEN :: nat where
  "OS_MAX_LOCAL_PATH_LEN = OS_MAX_PATH_LEN + OS_FS_PHYS_NAME_LEN"

lemmas os_max_defs =
  OS_MAX_TASKS_def OS_MAX_QUEUES_def OS_MAX_COUNT_SEMAPHORES_def OS_MAX_BIN_SEMAPHORES_def
  OS_MAX_MUTEXES_def OS_MAX_RWLOCKS_def OS_MAX_CONDVARS_def OS_MAX_MODULES_def
  OS_MAX_TIMEBASES_def OS_MAX_TIMERS_def OS_MAX_NUM_OPEN_FILES_def OS_MAX_NUM_OPEN_DIRS_def
  OS_MAX_FILE_SYSTEMS_def OS_MAX_CONSOLES_def

subsection \<open>Object types\<close>

abbreviation (input) OS_OBJECT_TYPE_UNDEFINED :: osal_objtype_t where "OS_OBJECT_TYPE_UNDEFINED \<equiv> 0x00"
abbreviation (input) OS_OBJECT_TYPE_OS_TASK :: osal_objtype_t where "OS_OBJECT_TYPE_OS_TASK \<equiv> 0x01"
abbreviation (input) OS_OBJECT_TYPE_OS_QUEUE :: osal_objtype_t where "OS_OBJECT_TYPE_OS_QUEUE \<equiv> 0x02"
abbreviation (input) OS_OBJECT_TYPE_OS_COUNTSEM :: osal_objtype_t where "OS_OBJECT_TYPE_OS_COUNTSEM \<equiv> 0x03"
abbreviation (input) OS_OBJECT_TYPE_OS_BINSEM :: osal_objtype_t where "OS_OBJECT_TYPE_OS_BINSEM \<equiv> 0x04"
abbreviation (input) OS_OBJECT_TYPE_OS_MUTEX :: osal_objtype_t where "OS_OBJECT_TYPE_OS_MUTEX \<equiv> 0x05"
abbreviation (input) OS_OBJECT_TYPE_OS_STREAM :: osal_objtype_t where "OS_OBJECT_TYPE_OS_STREAM \<equiv> 0x06"
abbreviation (input) OS_OBJECT_TYPE_OS_DIR :: osal_objtype_t where "OS_OBJECT_TYPE_OS_DIR \<equiv> 0x07"
abbreviation (input) OS_OBJECT_TYPE_OS_TIMEBASE :: osal_objtype_t where "OS_OBJECT_TYPE_OS_TIMEBASE \<equiv> 0x08"
abbreviation (input) OS_OBJECT_TYPE_OS_TIMECB :: osal_objtype_t where "OS_OBJECT_TYPE_OS_TIMECB \<equiv> 0x09"
abbreviation (input) OS_OBJECT_TYPE_OS_MODULE :: osal_objtype_t where "OS_OBJECT_TYPE_OS_MODULE \<equiv> 0x0A"
abbreviation (input) OS_OBJECT_TYPE_OS_FILESYS :: osal_objtype_t where "OS_OBJECT_TYPE_OS_FILESYS \<equiv> 0x0B"
abbreviation (input) OS_OBJECT_TYPE_OS_CONSOLE :: osal_objtype_t where "OS_OBJECT_TYPE_OS_CONSOLE \<equiv> 0x0C"
abbreviation (input) OS_OBJECT_TYPE_OS_CONDVAR :: osal_objtype_t where "OS_OBJECT_TYPE_OS_CONDVAR \<equiv> 0x0D"
abbreviation (input) OS_OBJECT_TYPE_OS_RWLOCK :: osal_objtype_t where "OS_OBJECT_TYPE_OS_RWLOCK \<equiv> 0x0E"
abbreviation (input) OS_OBJECT_TYPE_USER :: osal_objtype_t where "OS_OBJECT_TYPE_USER \<equiv> 0x10"

abbreviation (input) OS_OBJECT_ID_UNDEFINED :: osal_id_t where "OS_OBJECT_ID_UNDEFINED \<equiv> 0"
abbreviation (input) OS_OBJECT_CREATOR_ANY :: osal_id_t where "OS_OBJECT_CREATOR_ANY \<equiv> OS_OBJECT_ID_UNDEFINED"
abbreviation (input) OS_OBJECT_ID_RESERVED :: osal_id_t where "OS_OBJECT_ID_RESERVED \<equiv> 0xFFFFFFFF"
abbreviation (input) OS_OBJECT_INDEX_MASK :: u32 where "OS_OBJECT_INDEX_MASK \<equiv> 0xFFFF"

subsection \<open>Layout of the common table\<close>

definition OS_TASK_BASE :: u32 where "OS_TASK_BASE = 0"
definition OS_QUEUE_BASE :: u32 where "OS_QUEUE_BASE = OS_TASK_BASE + OS_MAX_TASKS"
definition OS_BINSEM_BASE :: u32 where "OS_BINSEM_BASE = OS_QUEUE_BASE + OS_MAX_QUEUES"
definition OS_COUNTSEM_BASE :: u32 where "OS_COUNTSEM_BASE = OS_BINSEM_BASE + OS_MAX_BIN_SEMAPHORES"
definition OS_MUTEX_BASE :: u32 where "OS_MUTEX_BASE = OS_COUNTSEM_BASE + OS_MAX_COUNT_SEMAPHORES"
definition OS_RWLOCK_BASE :: u32 where "OS_RWLOCK_BASE = OS_MUTEX_BASE + OS_MAX_MUTEXES"
definition OS_STREAM_BASE :: u32 where "OS_STREAM_BASE = OS_RWLOCK_BASE + OS_MAX_RWLOCKS"
definition OS_DIR_BASE :: u32 where "OS_DIR_BASE = OS_STREAM_BASE + OS_MAX_NUM_OPEN_FILES"
definition OS_TIMEBASE_BASE :: u32 where "OS_TIMEBASE_BASE = OS_DIR_BASE + OS_MAX_NUM_OPEN_DIRS"
definition OS_TIMECB_BASE :: u32 where "OS_TIMECB_BASE = OS_TIMEBASE_BASE + OS_MAX_TIMEBASES"
definition OS_MODULE_BASE :: u32 where "OS_MODULE_BASE = OS_TIMECB_BASE + OS_MAX_TIMERS"
definition OS_FILESYS_BASE :: u32 where "OS_FILESYS_BASE = OS_MODULE_BASE + OS_MAX_MODULES"
definition OS_CONSOLE_BASE :: u32 where "OS_CONSOLE_BASE = OS_FILESYS_BASE + OS_MAX_FILE_SYSTEMS"
definition OS_CONDVAR_BASE :: u32 where "OS_CONDVAR_BASE = OS_CONSOLE_BASE + OS_MAX_CONSOLES"
definition OS_MAX_TOTAL_RECORDS :: u32 where "OS_MAX_TOTAL_RECORDS = OS_CONDVAR_BASE + OS_MAX_CONDVARS"

lemmas os_base_defs =
  OS_TASK_BASE_def OS_QUEUE_BASE_def OS_BINSEM_BASE_def OS_COUNTSEM_BASE_def OS_MUTEX_BASE_def
  OS_RWLOCK_BASE_def OS_STREAM_BASE_def OS_DIR_BASE_def OS_TIMEBASE_BASE_def OS_TIMECB_BASE_def
  OS_MODULE_BASE_def OS_FILESYS_BASE_def OS_CONSOLE_BASE_def OS_CONDVAR_BASE_def
  OS_MAX_TOTAL_RECORDS_def

subsection \<open>Common records, lock modes and tokens\<close>

text \<open>The name field a common record can point to: the constructor names the array of the
  field's owner, the argument the element.\<close>

datatype name_ptr =
    Task_name nat | Queue_name nat | BinSem_name nat | CountSem_name nat | Mutex_name nat
  | RwLock_name nat | Stream_name nat | Dir_name nat | Timebase_name nat | Timer_name nat
  | Module_name nat | Filesys_device_name nat | Filesys_virtual_mountpt nat
  | Console_name nat | CondVar_name nat

record OS_common_record =
  name_entry :: "name_ptr option"
  active_id :: osal_id_t
  creator :: osal_id_t
  refcount :: u16

datatype OS_lock_mode =
    OS_LOCK_MODE_NONE | OS_LOCK_MODE_GLOBAL | OS_LOCK_MODE_REFCOUNT
  | OS_LOCK_MODE_EXCLUSIVE | OS_LOCK_MODE_RESERVED

record OS_object_token =
  lock_mode :: OS_lock_mode
  lock_key :: u32
  obj_type :: osal_objtype_t
  obj_idx :: osal_index_t
  obj_id :: osal_id_t

record OS_objtype_state =
  last_id_issued :: osal_id_t
  transaction_count :: u32
  owner_key :: u32

definition zero_common_record :: OS_common_record where
  "zero_common_record = \<lparr>name_entry = None, active_id = 0, creator = 0, refcount = 0\<rparr>"

definition zero_token :: OS_object_token where
  "zero_token = \<lparr>lock_mode = OS_LOCK_MODE_NONE, lock_key = 0, obj_type = 0, obj_idx = 0, obj_id = 0\<rparr>"

definition zero_objtype_state :: OS_objtype_state where
  "zero_objtype_state = \<lparr>last_id_issued = 0, transaction_count = 0, owner_key = 0\<rparr>"

subsection \<open>Internal records of the object types\<close>

record OS_task_internal_record =
  task_name :: string
  task_stack_size :: nat
  task_priority :: u8
  entry_function_pointer :: ptr
  delete_hook_pointer :: ptr
  entry_arg :: ptr
  task_stack_pointer :: ptr

record OS_queue_internal_record =
  queue_name :: string
  max_size :: nat
  max_depth :: nat

record OS_bin_sem_internal_record =
  binsem_obj_name :: string

record OS_count_sem_internal_record =
  countsem_obj_name :: string

record OS_mutex_internal_record =
  mutex_obj_name :: string
  last_owner :: osal_id_t

record OS_rwlock_internal_record =
  rwlock_obj_name :: string
  last_writer :: osal_id_t

record OS_condvar_internal_record =
  condvar_obj_name :: string

record OS_stream_internal_record =
  stream_name :: string
  socket_domain :: u8
  socket_type :: u8
  stream_state :: u16

record OS_dir_internal_record =
  dir_name :: string

record OS_timebase_internal_record =
  timebase_name :: string
  external_sync :: ptr
  accuracy_usec :: u32
  first_cb :: osal_id_t
  freerun_time :: u32
  nominal_start_time :: u32
  nominal_interval_time :: u32

record OS_timecb_internal_record =
  timer_name :: string
  timecb_flags :: u32
  timebase_token :: OS_object_token
  prev_cb :: osal_id_t
  next_cb :: osal_id_t
  backlog_resets :: u32
  wait_time :: u32
  interval_time :: u32
  callback_ptr :: ptr
  callback_arg :: ptr

datatype OS_module_type = OS_MODULE_TYPE_UNKNOWN | OS_MODULE_TYPE_DYNAMIC | OS_MODULE_TYPE_STATIC

record OS_module_internal_record =
  mod_name :: string
  file_name :: string
  module_type :: OS_module_type
  module_flags :: u32
  entry_point :: nat

record OS_filesys_internal_record =
  device_name :: string
  volume_name :: string
  system_mountpt :: string
  virtual_mountpt :: string
  fs_address :: ptr
  blocksize :: nat
  numblocks :: nat
  fs_flags :: u8
  fstype :: u8

record OS_console_internal_record =
  console_device_name :: string
  BufBase :: "nat \<Rightarrow> char"
  BufSize :: nat
  ReadPos :: nat
  WritePos :: nat
  OverflowEvents :: u32
  IsAsync :: bool

definition zero_task :: OS_task_internal_record where
  "zero_task = \<lparr>task_name = [], task_stack_size = 0, task_priority = 0, entry_function_pointer = None,
     delete_hook_pointer = None, entry_arg = None, task_stack_pointer = None\<rparr>"

definition zero_queue :: OS_queue_internal_record where
  "zero_queue = \<lparr>queue_name = [], max_size = 0, max_depth = 0\<rparr>"

definition zero_bin_sem :: OS_bin_sem_internal_record where
  "zero_bin_sem = \<lparr>binsem_obj_name = []\<rparr>"

definition zero_count_sem :: OS_count_sem_internal_record where
  "zero_count_sem = \<lparr>countsem_obj_name = []\<rparr>"

definition zero_mutex :: OS_mutex_internal_record where
  "zero_mutex = \<lparr>mutex_obj_name = [], last_owner = 0\<rparr>"

definition zero_rwlock :: OS_rwlock_internal_record where
  "zero_rwlock = \<lparr>rwlock_obj_name = [], last_writer = 0\<rparr>"

definition zero_condvar :: OS_condvar_internal_record where
  "zero_condvar = \<lparr>condvar_obj_name = []\<rparr>"

definition zero_stream :: OS_stream_internal_record where
  "zero_stream = \<lparr>stream_name = [], socket_domain = 0, socket_type = 0, stream_state = 0\<rparr>"

definition zero_dir :: OS_dir_internal_record where
  "zero_dir = \<lparr>dir_name = []\<rparr>"

definition zero_timebase :: OS_timebase_internal_record where
  "zero_timebase = \<lparr>timebase_name = [], external_sync = None, accuracy_usec = 0, first_cb = 0,
     freerun_time = 0, nominal_start_time = 0, nominal_interval_time = 0\<rparr>"

definition zero_timecb :: OS_timecb_internal_record where
  "zero_timecb = \<lparr>timer_name = [], timecb_flags = 0, timebase_token = zero_token, prev_cb = 0,
     next_cb = 0, backlog_resets = 0, wait_time = 0, interval_time = 0, callback_ptr = None,
     callback_arg = None\<rparr>"

definition zero_module :: OS_module_internal_record where
  "zero_module = \<lparr>mod_name = [], file_name = [], module_type = OS_MODULE_TYPE_UNKNOWN,
     module_flags = 0, entry_point = 0\<rparr>"

definition zero_filesys :: OS_filesys_internal_record where
  "zero_filesys = \<lparr>device_name = [], volume_name = [], system_mountpt = [], virtual_mountpt = [],
     fs_address = None, blocksize = 0, numblocks = 0, fs_flags = 0, fstype = 0\<rparr>"

definition zero_console :: OS_console_internal_record where
  "zero_console = \<lparr>console_device_name = [], BufBase = (\<lambda>_. CHR 0x00), BufSize = 0, ReadPos = 0,
     WritePos = 0, OverflowEvents = 0, IsAsync = False\<rparr>"

subsection \<open>The global variables\<close>

abbreviation (input) OS_INIT_MAGIC_NUMBER :: u32 where "OS_INIT_MAGIC_NUMBER \<equiv> 0xBE57C0DE"
abbreviation (input) OS_SHUTDOWN_MAGIC_NUMBER :: u32 where "OS_SHUTDOWN_MAGIC_NUMBER \<equiv> 0xABADC0DE"

record OS_SharedGlobalVars =
  GlobalState :: u32
  PrintfConsoleId :: osal_id_t
  PrintfEnabled :: bool
  MicroSecPerTick :: u32
  TicksPerSecond :: u32
  EventHandler :: ptr

definition zero_SharedGlobalVars :: OS_SharedGlobalVars where
  "zero_SharedGlobalVars = \<lparr>GlobalState = 0, PrintfConsoleId = 0, PrintfEnabled = False,
     MicroSecPerTick = 0, TicksPerSecond = 0, EventHandler = None\<rparr>"

text \<open>The diagnostics the layer can report through \<^verbatim>\<open>OS_DEBUG\<close>.\<close>

datatype debug_msg =
    Dbg_global_already_owned osal_objtype_t
  | Dbg_cannot_lock osal_objtype_t
  | Dbg_key_mismatch osal_objtype_t
  | Dbg_cannot_unlock osal_objtype_t
  | Dbg_mutex_not_owner osal_id_t
  | Dbg_rwlock_writer osal_id_t
  | Dbg_redundant_init
  | Dbg_impl_init_failed osal_objtype_t
  | Dbg_shared_init_failed osal_objtype_t
  | Dbg_tick_globals
  | Dbg_usec_per_sec
  | Dbg_sync_spin
  | Dbg_printf_uninitialized
  | Dbg_note string

text \<open>
  \<open>table_lock t\<close> is how often the mutex that guards the common table for object type
  \<open>t\<close> has been acquired and not yet released by the running task
  (\<^verbatim>\<open>OS_Lock_Global_Impl\<close> and \<^verbatim>\<open>OS_Unlock_Global_Impl\<close>). The POSIX
  implementation creates these mutexes as \<^verbatim>\<open>PTHREAD_MUTEX_NORMAL\<close> (``There should not
  be any instances of OSAL locking its own table more than once''), so a task that takes the
  count from 1 to 2 blocks on itself for ever: the field \<open>stuck\<close> records that this
  has happened.
\<close>

record 'i os_state =
  OS_common_table :: "nat \<Rightarrow> OS_common_record"
  OS_objtype_state_tbl :: "nat \<Rightarrow> OS_objtype_state"
  OS_SharedGlobalVars :: OS_SharedGlobalVars
  OS_task_table :: "nat \<Rightarrow> OS_task_internal_record"
  OS_queue_table :: "nat \<Rightarrow> OS_queue_internal_record"
  OS_bin_sem_table :: "nat \<Rightarrow> OS_bin_sem_internal_record"
  OS_count_sem_table :: "nat \<Rightarrow> OS_count_sem_internal_record"
  OS_mutex_table :: "nat \<Rightarrow> OS_mutex_internal_record"
  OS_rwlock_table :: "nat \<Rightarrow> OS_rwlock_internal_record"
  OS_condvar_table :: "nat \<Rightarrow> OS_condvar_internal_record"
  OS_stream_table :: "nat \<Rightarrow> OS_stream_internal_record"
  OS_dir_table :: "nat \<Rightarrow> OS_dir_internal_record"
  OS_timebase_table :: "nat \<Rightarrow> OS_timebase_internal_record"
  OS_timecb_table :: "nat \<Rightarrow> OS_timecb_internal_record"
  OS_module_table :: "nat \<Rightarrow> OS_module_internal_record"
  OS_filesys_table :: "nat \<Rightarrow> OS_filesys_internal_record"
  OS_console_table :: "nat \<Rightarrow> OS_console_internal_record"
  table_lock :: "nat \<Rightarrow> nat"
  stuck :: bool
  debug_log :: "debug_msg list"
  impl :: 'i

text \<open>Dereferencing \<^verbatim>\<open>name_entry\<close>.\<close>

fun deref_name :: "'i os_state \<Rightarrow> name_ptr \<Rightarrow> string" where
  "deref_name s (Task_name i) = task_name (OS_task_table s i)"
| "deref_name s (Queue_name i) = queue_name (OS_queue_table s i)"
| "deref_name s (BinSem_name i) = binsem_obj_name (OS_bin_sem_table s i)"
| "deref_name s (CountSem_name i) = countsem_obj_name (OS_count_sem_table s i)"
| "deref_name s (Mutex_name i) = mutex_obj_name (OS_mutex_table s i)"
| "deref_name s (RwLock_name i) = rwlock_obj_name (OS_rwlock_table s i)"
| "deref_name s (Stream_name i) = stream_name (OS_stream_table s i)"
| "deref_name s (Dir_name i) = dir_name (OS_dir_table s i)"
| "deref_name s (Timebase_name i) = timebase_name (OS_timebase_table s i)"
| "deref_name s (Timer_name i) = timer_name (OS_timecb_table s i)"
| "deref_name s (Module_name i) = mod_name (OS_module_table s i)"
| "deref_name s (Filesys_device_name i) = device_name (OS_filesys_table s i)"
| "deref_name s (Filesys_virtual_mountpt i) = virtual_mountpt (OS_filesys_table s i)"
| "deref_name s (Console_name i) = console_device_name (OS_console_table s i)"
| "deref_name s (CondVar_name i) = condvar_obj_name (OS_condvar_table s i)"

text \<open>
  The characters at a name pointer. Reading through NULL has no meaning in C; that live objects
  never have a NULL name is part of the invariant \<open>idle\<close>.
\<close>

definition name_chars :: "'i os_state \<Rightarrow> name_ptr option \<Rightarrow> string" where
  "name_chars s p = (case p of None \<Rightarrow> [] | Some q \<Rightarrow> deref_name s q)"

text \<open>Updates the operations share.\<close>

definition upd_common :: "nat \<Rightarrow> (OS_common_record \<Rightarrow> OS_common_record) \<Rightarrow> 'i os_state \<Rightarrow> 'i os_state" where
  "upd_common r f s = s\<lparr>OS_common_table := (OS_common_table s)(r := f (OS_common_table s r))\<rparr>"

definition upd_objtype :: "osal_objtype_t \<Rightarrow> (OS_objtype_state \<Rightarrow> OS_objtype_state) \<Rightarrow> 'i os_state \<Rightarrow> 'i os_state" where
  "upd_objtype t f s = s\<lparr>OS_objtype_state_tbl :=
     (OS_objtype_state_tbl s)(unat t := f (OS_objtype_state_tbl s (unat t)))\<rparr>"

definition objtype_state :: "osal_objtype_t \<Rightarrow> 'i os_state \<Rightarrow> OS_objtype_state" where
  "objtype_state t s = OS_objtype_state_tbl s (unat t)"

definition OS_DEBUG :: "debug_msg \<Rightarrow> 'i os_state \<Rightarrow> 'i os_state" where
  "OS_DEBUG m s = s\<lparr>debug_log := debug_log s @ [m]\<rparr>"

text \<open>The state before \<^verbatim>\<open>OS_API_Init\<close>: cleared memory around a given environment.\<close>

definition boot_state :: "'i \<Rightarrow> 'i os_state" where
  "boot_state i = \<lparr>OS_common_table = (\<lambda>_. zero_common_record), OS_objtype_state_tbl = (\<lambda>_. zero_objtype_state),
     OS_SharedGlobalVars = zero_SharedGlobalVars, OS_task_table = (\<lambda>_. zero_task),
     OS_queue_table = (\<lambda>_. zero_queue), OS_bin_sem_table = (\<lambda>_. zero_bin_sem),
     OS_count_sem_table = (\<lambda>_. zero_count_sem), OS_mutex_table = (\<lambda>_. zero_mutex),
     OS_rwlock_table = (\<lambda>_. zero_rwlock), OS_condvar_table = (\<lambda>_. zero_condvar),
     OS_stream_table = (\<lambda>_. zero_stream), OS_dir_table = (\<lambda>_. zero_dir),
     OS_timebase_table = (\<lambda>_. zero_timebase), OS_timecb_table = (\<lambda>_. zero_timecb),
     OS_module_table = (\<lambda>_. zero_module), OS_filesys_table = (\<lambda>_. zero_filesys),
     OS_console_table = (\<lambda>_. zero_console), table_lock = (\<lambda>_. 0), stuck = False, debug_log = [], impl = i\<rparr>"

end
