(* ===== verification/Object_Id.thy ===== *)
theory Object_Id
  imports OSAL_State
begin

unbundle bit_operations_syntax

text \<open>
  Object IDs as values: the inline functions of \<^verbatim>\<open>src/src/os/inc/osapi-idmap.h\<close> and
  \<^verbatim>\<open>src/src/os/shared/inc/os-shared-idmap.h\<close> that take an ID apart and put it
  together, the two lookup functions of \<^verbatim>\<open>osapi-idmap.c\<close> that give the size and the
  place of each object type in the common table, and the conversion of an ID to an array
  index. The lemmas give the layout of the table (every type's records are a range inside the
  table, ranges of different types are disjoint) and the round trips between an ID and its
  type, serial number and index.
\<close>

subsection \<open>Fields of an ID\<close>

definition OS_ObjectIdToSerialNumber_Impl :: "osal_id_t \<Rightarrow> u32" where
  "OS_ObjectIdToSerialNumber_Impl i = i AND OS_OBJECT_INDEX_MASK"

definition OS_ObjectIdToType_Impl :: "osal_id_t \<Rightarrow> osal_objtype_t" where
  "OS_ObjectIdToType_Impl i = drop_bit 16 i"

definition OS_ObjectIdCompose_Impl :: "osal_objtype_t \<Rightarrow> u32 \<Rightarrow> osal_id_t" where
  "OS_ObjectIdCompose_Impl idtype idserial = push_bit 16 idtype OR idserial"

definition OS_ObjectIdDefined :: "osal_id_t \<Rightarrow> bool" where
  "OS_ObjectIdDefined i \<longleftrightarrow> i \<noteq> 0"

definition OS_ObjectIdIsValid :: "osal_id_t \<Rightarrow> bool" where
  "OS_ObjectIdIsValid i \<longleftrightarrow> OS_OBJECT_TYPE_UNDEFINED < OS_ObjectIdToType_Impl i
     \<and> OS_ObjectIdToType_Impl i < OS_OBJECT_TYPE_USER"

definition OS_IdentifyObject :: "osal_id_t \<Rightarrow> osal_objtype_t" where
  "OS_IdentifyObject i = OS_ObjectIdToType_Impl i"

subsection \<open>Size and place of the object types\<close>

definition OS_GetMaxForObjectType :: "osal_objtype_t \<Rightarrow> u32" where
  "OS_GetMaxForObjectType idtype =
    (if idtype = OS_OBJECT_TYPE_OS_TASK then OS_MAX_TASKS
     else if idtype = OS_OBJECT_TYPE_OS_QUEUE then OS_MAX_QUEUES
     else if idtype = OS_OBJECT_TYPE_OS_BINSEM then OS_MAX_BIN_SEMAPHORES
     else if idtype = OS_OBJECT_TYPE_OS_COUNTSEM then OS_MAX_COUNT_SEMAPHORES
     else if idtype = OS_OBJECT_TYPE_OS_MUTEX then OS_MAX_MUTEXES
     else if idtype = OS_OBJECT_TYPE_OS_RWLOCK then OS_MAX_RWLOCKS
     else if idtype = OS_OBJECT_TYPE_OS_STREAM then OS_MAX_NUM_OPEN_FILES
     else if idtype = OS_OBJECT_TYPE_OS_DIR then OS_MAX_NUM_OPEN_DIRS
     else if idtype = OS_OBJECT_TYPE_OS_TIMEBASE then OS_MAX_TIMEBASES
     else if idtype = OS_OBJECT_TYPE_OS_TIMECB then OS_MAX_TIMERS
     else if idtype = OS_OBJECT_TYPE_OS_MODULE then OS_MAX_MODULES
     else if idtype = OS_OBJECT_TYPE_OS_FILESYS then OS_MAX_FILE_SYSTEMS
     else if idtype = OS_OBJECT_TYPE_OS_CONSOLE then OS_MAX_CONSOLES
     else if idtype = OS_OBJECT_TYPE_OS_CONDVAR then OS_MAX_CONDVARS
     else 0)"

definition OS_GetBaseForObjectType :: "osal_objtype_t \<Rightarrow> u32" where
  "OS_GetBaseForObjectType idtype =
    (if idtype = OS_OBJECT_TYPE_OS_TASK then OS_TASK_BASE
     else if idtype = OS_OBJECT_TYPE_OS_QUEUE then OS_QUEUE_BASE
     else if idtype = OS_OBJECT_TYPE_OS_BINSEM then OS_BINSEM_BASE
     else if idtype = OS_OBJECT_TYPE_OS_COUNTSEM then OS_COUNTSEM_BASE
     else if idtype = OS_OBJECT_TYPE_OS_MUTEX then OS_MUTEX_BASE
     else if idtype = OS_OBJECT_TYPE_OS_RWLOCK then OS_RWLOCK_BASE
     else if idtype = OS_OBJECT_TYPE_OS_STREAM then OS_STREAM_BASE
     else if idtype = OS_OBJECT_TYPE_OS_DIR then OS_DIR_BASE
     else if idtype = OS_OBJECT_TYPE_OS_TIMEBASE then OS_TIMEBASE_BASE
     else if idtype = OS_OBJECT_TYPE_OS_TIMECB then OS_TIMECB_BASE
     else if idtype = OS_OBJECT_TYPE_OS_MODULE then OS_MODULE_BASE
     else if idtype = OS_OBJECT_TYPE_OS_FILESYS then OS_FILESYS_BASE
     else if idtype = OS_OBJECT_TYPE_OS_CONSOLE then OS_CONSOLE_BASE
     else if idtype = OS_OBJECT_TYPE_OS_CONDVAR then OS_CONDVAR_BASE
     else 0)"

subsection \<open>From an ID to an array index\<close>

text \<open>The index is written only on success; \<open>has_ptr\<close> is whether
  \<^verbatim>\<open>ArrayIndex\<close> is not NULL.\<close>

definition OS_ObjectIdToArrayIndex ::
    "bool \<Rightarrow> osal_objtype_t \<Rightarrow> osal_id_t \<Rightarrow> status \<times> osal_index_t option" where
  "OS_ObjectIdToArrayIndex has_ptr idtype object_id =
    (if \<not> has_ptr then (OS_INVALID_POINTER, None)
     else
       let obj_index = OS_ObjectIdToSerialNumber_Impl object_id;
           actual_type = OS_ObjectIdToType_Impl object_id
       in if idtype \<noteq> OS_OBJECT_TYPE_UNDEFINED \<and> actual_type \<noteq> idtype then (OS_ERR_INVALID_ID, None)
          else
            let max_id = OS_GetMaxForObjectType actual_type
            in if max_id = 0 then (OS_ERR_INVALID_ID, None)
               else (OS_SUCCESS, Some (obj_index mod max_id)))"

definition OS_ConvertToArrayIndex :: "bool \<Rightarrow> osal_id_t \<Rightarrow> status \<times> osal_index_t option" where
  "OS_ConvertToArrayIndex has_ptr object_id =
     OS_ObjectIdToArrayIndex has_ptr OS_OBJECT_TYPE_UNDEFINED object_id"

subsection \<open>Layout of the table\<close>

lemmas os_type_defs = OS_GetMaxForObjectType_def OS_GetBaseForObjectType_def

lemma max_nonzero_type:
  assumes "OS_GetMaxForObjectType t \<noteq> 0"
  shows "t \<in> {1,2,3,4,5,6,7,8,9,0xA,0xB,0xC,0xD,0xE}"
  using assms by (auto simp: OS_GetMaxForObjectType_def split: if_splits)

lemma max_nonzero_valid_type:
  assumes "OS_GetMaxForObjectType t \<noteq> 0"
  shows "0 < t" and "t < OS_OBJECT_TYPE_USER"
  using max_nonzero_type [OF assms] by auto

lemma unat_max_le: "unat (OS_GetMaxForObjectType t) \<le> 64"
  by (simp add: OS_GetMaxForObjectType_def os_max_defs)

lemma max_lt_mask: "OS_GetMaxForObjectType t < OS_OBJECT_INDEX_MASK"
  by (simp add: OS_GetMaxForObjectType_def os_max_defs)

lemma unat_base_max:
  "unat (OS_GetBaseForObjectType t) + unat (OS_GetMaxForObjectType t) \<le> unat OS_MAX_TOTAL_RECORDS"
  by (simp add: os_type_defs os_max_defs os_base_defs)

lemma unat_base_le: "unat (OS_GetBaseForObjectType t) \<le> 316"
  by (simp add: os_type_defs os_max_defs os_base_defs)

text \<open>Record index of element \<open>i\<close> of type \<open>t\<close>: the address computation never wraps.\<close>

lemma unat_base_plus:
  assumes "i < OS_GetMaxForObjectType t"
  shows "unat (OS_GetBaseForObjectType t + i) = unat (OS_GetBaseForObjectType t) + unat i"
proof -
  from assms have "unat i < unat (OS_GetMaxForObjectType t)"
    by (simp add: word_less_nat_alt)
  with unat_max_le [of t] unat_base_le [of t]
  have "unat (OS_GetBaseForObjectType t) + unat i < 2 ^ LENGTH(32)"
    by simp
  then show ?thesis
    by (simp add: unat_word_ariths)
qed

lemma base_plus_in_table:
  assumes "i < OS_GetMaxForObjectType t"
  shows "unat (OS_GetBaseForObjectType t + i) < unat OS_MAX_TOTAL_RECORDS"
  using unat_base_max [of t] assms by (simp add: unat_base_plus word_less_nat_alt)

lemma base_ranges_disjoint:
  assumes "t \<noteq> u" and "OS_GetMaxForObjectType t \<noteq> 0" and "OS_GetMaxForObjectType u \<noteq> 0"
  shows "unat (OS_GetBaseForObjectType t) + unat (OS_GetMaxForObjectType t) \<le> unat (OS_GetBaseForObjectType u)
    \<or> unat (OS_GetBaseForObjectType u) + unat (OS_GetMaxForObjectType u) \<le> unat (OS_GetBaseForObjectType t)"
  using assms(1) max_nonzero_type [OF assms(2)] max_nonzero_type [OF assms(3)]
  by (elim insertE emptyE) (simp_all add: os_type_defs os_max_defs os_base_defs)

lemma base_plus_inj:
  assumes "i < OS_GetMaxForObjectType t" and "j < OS_GetMaxForObjectType u"
    and "unat (OS_GetBaseForObjectType t + i) = unat (OS_GetBaseForObjectType u + j)"
  shows "t = u \<and> i = j"
proof -
  have nz: "OS_GetMaxForObjectType t \<noteq> 0" "OS_GetMaxForObjectType u \<noteq> 0"
    using assms(1,2) by auto
  have eq: "unat (OS_GetBaseForObjectType t) + unat i = unat (OS_GetBaseForObjectType u) + unat j"
    using assms by (simp add: unat_base_plus)
  have tu: "t = u"
  proof (rule ccontr)
    assume "t \<noteq> u"
    from base_ranges_disjoint [OF this nz] eq assms(1,2) show False
      by (auto simp: word_less_nat_alt)
  qed
  with eq have "unat i = unat j" by simp
  with tu show ?thesis by (simp add: word_unat_eq_iff)
qed

subsection \<open>Round trips\<close>

lemma mask16: "(x :: u32) AND OS_OBJECT_INDEX_MASK = take_bit 16 x"
  by (simp add: take_bit_eq_mask mask_eq_exp_minus_1)

lemma take_bit_small: "(n :: u32) < 2 ^ k \<Longrightarrow> k < 32 \<Longrightarrow> take_bit k n = n"
  using less_mask_eq [of n k] by (simp add: take_bit_eq_mask)

lemma serial_fits: "(n :: u32) \<le> OS_OBJECT_INDEX_MASK \<Longrightarrow> take_bit 16 n = n"
  by (rule take_bit_small) (simp_all add: word_le_nat_alt word_less_nat_alt)

lemma bit_serial: "(n :: u32) \<le> OS_OBJECT_INDEX_MASK \<Longrightarrow> bit n k \<Longrightarrow> k < 16"
  using serial_fits [of n] by (metis bit_take_bit_iff)

lemma bit_objtype: "(t :: u32) < OS_OBJECT_TYPE_USER \<Longrightarrow> bit t k \<Longrightarrow> k < 4"
proof -
  assume a: "t < OS_OBJECT_TYPE_USER" and b: "bit t k"
  from a have "take_bit 4 t = t"
    by (intro take_bit_small) simp_all
  with b show "k < 4" by (metis bit_take_bit_iff)
qed

lemma serial_compose [simp]:
  assumes "n \<le> OS_OBJECT_INDEX_MASK"
  shows "OS_ObjectIdToSerialNumber_Impl (OS_ObjectIdCompose_Impl t n) = n"
proof -
  have "take_bit 16 (push_bit 16 t OR n) = take_bit 16 n"
    by (rule bit_word_eqI) (auto simp: bit_simps)
  then show ?thesis
    using serial_fits [OF assms]
    by (simp add: OS_ObjectIdToSerialNumber_Impl_def OS_ObjectIdCompose_Impl_def mask16)
qed

lemma type_compose [simp]:
  assumes "t < OS_OBJECT_TYPE_USER" and "n \<le> OS_OBJECT_INDEX_MASK"
  shows "OS_ObjectIdToType_Impl (OS_ObjectIdCompose_Impl t n) = t"
  unfolding OS_ObjectIdToType_Impl_def OS_ObjectIdCompose_Impl_def
  by (rule bit_word_eqI) (use bit_objtype [OF assms(1)] bit_serial [OF assms(2)] in
      \<open>force simp: bit_simps\<close>)

lemma compose_type_serial: "OS_ObjectIdCompose_Impl (OS_ObjectIdToType_Impl i) (OS_ObjectIdToSerialNumber_Impl i) = i"
  unfolding OS_ObjectIdToType_Impl_def OS_ObjectIdCompose_Impl_def OS_ObjectIdToSerialNumber_Impl_def mask16
  by (rule bit_word_eqI) (auto simp: bit_simps)

lemma serial_le_mask: "OS_ObjectIdToSerialNumber_Impl i \<le> OS_OBJECT_INDEX_MASK"
  unfolding OS_ObjectIdToSerialNumber_Impl_def by (rule word_and_le1)

lemma compose_valid:
  assumes "0 < t" "t < OS_OBJECT_TYPE_USER" "n \<le> OS_OBJECT_INDEX_MASK"
  shows "OS_ObjectIdIsValid (OS_ObjectIdCompose_Impl t n)"
  using assms by (simp add: OS_ObjectIdIsValid_def)

lemma valid_not_undefined: "OS_ObjectIdIsValid i \<Longrightarrow> i \<noteq> 0"
  by (auto simp: OS_ObjectIdIsValid_def OS_ObjectIdToType_Impl_def)

lemma valid_not_reserved: "OS_ObjectIdIsValid i \<Longrightarrow> i \<noteq> OS_OBJECT_ID_RESERVED"
  by (auto simp: OS_ObjectIdIsValid_def OS_ObjectIdToType_Impl_def)

lemma reserved_not_valid [simp]: "\<not> OS_ObjectIdIsValid OS_OBJECT_ID_RESERVED"
  using valid_not_reserved by blast

lemma undefined_not_valid [simp]: "\<not> OS_ObjectIdIsValid 0"
  using valid_not_undefined by blast

lemma ToArrayIndex_bound:
  assumes "OS_ObjectIdToArrayIndex p t i = (OS_SUCCESS, Some k)"
  shows "k < OS_GetMaxForObjectType (OS_ObjectIdToType_Impl i)"
    and "t = OS_OBJECT_TYPE_UNDEFINED \<or> t = OS_ObjectIdToType_Impl i"
  using assms
  by (auto simp: OS_ObjectIdToArrayIndex_def Let_def word_mod_less_divisor word_greater_zero_iff
      split: if_splits)

lemma ToArrayIndex_status:
  "OS_ObjectIdToArrayIndex p t i = (st, r) \<Longrightarrow> st = OS_SUCCESS \<longleftrightarrow> r \<noteq> None"
  by (auto simp: OS_ObjectIdToArrayIndex_def Let_def split: if_splits)

end
