(* ===== verification/Idmap.thy ===== *)
theory Idmap
  imports Object_Id
begin

unbundle bit_operations_syntax

text \<open>
  The object ID map, \<^verbatim>\<open>src/src/os/shared/src/osapi-idmap.c\<close>, function by function.

  Every operation takes the environment (\<open>idmap_env\<close>) and the state and returns its
  results with the new state; a token that C changes through a pointer is returned as well.
  The environment gives what this file calls outside itself: the ID of the running task
  (\<^verbatim>\<open>OS_TaskGetId_Impl\<close>), the application's event handler, and what the other
  tasks do to the state while \<^verbatim>\<open>OS_WaitForStateChange_Impl\<close> has released the table
  mutex. An event handler may change the application's state, which is part of \<open>'i\<close>,
  but not the tables of this layer.
\<close>

subsection \<open>Environment\<close>

datatype OS_Event =
    OS_EVENT_RESERVED | OS_EVENT_RESOURCE_ALLOCATED | OS_EVENT_RESOURCE_CREATED
  | OS_EVENT_RESOURCE_DELETED | OS_EVENT_TASK_STARTUP

record 'i idmap_env =
  OS_TaskGetId_Impl :: "'i \<Rightarrow> osal_id_t"
  call_event_handler :: "addr \<Rightarrow> OS_Event \<Rightarrow> osal_id_t \<Rightarrow> 'i \<Rightarrow> status \<times> 'i"
  other_tasks :: "osal_objtype_t \<Rightarrow> nat \<Rightarrow> 'i os_state \<Rightarrow> 'i os_state"

definition OS_TaskGetId :: "'i idmap_env \<Rightarrow> 'i os_state \<Rightarrow> osal_id_t" where
  "OS_TaskGetId env s = OS_TaskGetId_Impl env (impl s)"

definition OS_NotifyEvent :: "'i idmap_env \<Rightarrow> OS_Event \<Rightarrow> osal_id_t \<Rightarrow> 'i os_state \<Rightarrow> status \<times> 'i os_state" where
  "OS_NotifyEvent env event object_id s =
    (case EventHandler (OS_SharedGlobalVars s) of
       Some h \<Rightarrow> (case call_event_handler env h event object_id (impl s) of
                    (st, i) \<Rightarrow> (st, s\<lparr>impl := i\<rparr>))
     | None \<Rightarrow> (OS_SUCCESS, s))"

subsection \<open>Initialisation, records and tokens\<close>

definition OS_ObjectIdInit :: "'i os_state \<Rightarrow> status \<times> 'i os_state" where
  "OS_ObjectIdInit s =
    (OS_SUCCESS, s\<lparr>OS_common_table := (\<lambda>_. zero_common_record),
                   OS_objtype_state_tbl := (\<lambda>_. zero_objtype_state)\<rparr>)"

text \<open>The address of a record is its index in \<^verbatim>\<open>OS_common_table\<close>.\<close>

definition OS_ObjectIdGlobalFromToken :: "OS_object_token \<Rightarrow> nat" where
  "OS_ObjectIdGlobalFromToken token =
     unat (OS_GetBaseForObjectType (obj_type token) + obj_idx token)"

text \<open>A match function, with its \<^verbatim>\<open>ref\<close> argument already given.\<close>

type_synonym 'i match_func = "'i os_state \<Rightarrow> OS_object_token \<Rightarrow> OS_common_record \<Rightarrow> bool"

definition OS_ObjectNameMatch :: "string \<Rightarrow> 'i match_func" where
  "OS_ObjectNameMatch name s token obj =
    (case name_entry obj of None \<Rightarrow> False | Some p \<Rightarrow> deref_name s p = name)"

definition OS_ObjectFilterActive :: "'i match_func" where
  "OS_ObjectFilterActive s token obj = OS_ObjectIdDefined (active_id obj)"

definition OS_ForEachFilterCreator :: "osal_id_t \<Rightarrow> 'i match_func" where
  "OS_ForEachFilterCreator creator_id s token obj =
    (OS_ObjectIdIsValid (active_id obj) \<and>
     (creator_id = OS_OBJECT_CREATOR_ANY \<or> creator obj = creator_id))"

subsection \<open>Locking the table of an object type\<close>

text \<open>
  The POSIX implementation (\<^verbatim>\<open>src/src/os/posix/src/os-impl-idmap.c\<close>). The lock table has an
  entry for every object type from \<^verbatim>\<open>OS_OBJECT_TYPE_OS_TASK\<close> to
  \<^verbatim>\<open>OS_OBJECT_TYPE_OS_CONDVAR\<close>; the one for \<^verbatim>\<open>OS_OBJECT_TYPE_OS_RWLOCK\<close> is missing,
  so it is NULL and nothing is locked for that type.
\<close>

definition OS_impl_objtype_lock_table :: "osal_objtype_t \<Rightarrow> bool" where
  "OS_impl_objtype_lock_table t \<longleftrightarrow> OS_OBJECT_TYPE_OS_TASK \<le> t \<and> t \<le> OS_OBJECT_TYPE_OS_CONDVAR"

definition OS_Lock_Global_Impl :: "osal_objtype_t \<Rightarrow> 'i os_state \<Rightarrow> 'i os_state" where
  "OS_Lock_Global_Impl t s =
    (if OS_impl_objtype_lock_table t
     then s\<lparr>table_lock := (table_lock s)(unat t := table_lock s (unat t) + 1),
            stuck := stuck s \<or> 0 < table_lock s (unat t)\<rparr>
     else s)"

definition OS_Unlock_Global_Impl :: "osal_objtype_t \<Rightarrow> 'i os_state \<Rightarrow> 'i os_state" where
  "OS_Unlock_Global_Impl t s =
    (if OS_impl_objtype_lock_table t
     then s\<lparr>table_lock := (table_lock s)(unat t := table_lock s (unat t) - 1)\<rparr> else s)"

definition OS_Lock_Global ::
    "'i idmap_env \<Rightarrow> OS_object_token \<Rightarrow> 'i os_state \<Rightarrow> OS_object_token \<times> 'i os_state" where
  "OS_Lock_Global env token s =
    (let t = obj_type token in
     if t < OS_OBJECT_TYPE_USER \<and> lock_mode token \<noteq> OS_LOCK_MODE_NONE then
       let self_task_id = OS_TaskGetId_Impl env (impl s);
           s1 = OS_Lock_Global_Impl t s;
           self_task_id = (if \<not> OS_ObjectIdIsValid self_task_id then OS_OBJECT_ID_RESERVED
                           else self_task_id);
           key = 0x4D000000 OR ((self_task_id XOR transaction_count (objtype_state t s1)) AND 0xFFFFFF);
           token' = token\<lparr>lock_key := key\<rparr>;
           s2 = upd_objtype t (\<lambda>ob. ob\<lparr>transaction_count := transaction_count ob + 1\<rparr>) s1
       in if owner_key (objtype_state t s2) \<noteq> 0 then (token', OS_DEBUG (Dbg_global_already_owned t) s2)
          else (token', upd_objtype t (\<lambda>ob. ob\<lparr>owner_key := key\<rparr>) s2)
     else (token, OS_DEBUG (Dbg_cannot_lock t) s))"

definition OS_Unlock_Global ::
    "OS_object_token \<Rightarrow> 'i os_state \<Rightarrow> OS_object_token \<times> 'i os_state" where
  "OS_Unlock_Global token s =
    (let t = obj_type token in
     if t < OS_OBJECT_TYPE_USER \<and> lock_mode token \<noteq> OS_LOCK_MODE_NONE then
       let okey = owner_key (objtype_state t s);
           s1 = (if okey AND 0xFF000000 \<noteq> 0x4D000000 \<or> okey \<noteq> lock_key token
                 then OS_DEBUG (Dbg_key_mismatch t) s else s);
           s2 = upd_objtype t (\<lambda>ob. ob\<lparr>owner_key := 0\<rparr>) s1
       in (token\<lparr>lock_key := 0\<rparr>, OS_Unlock_Global_Impl t s2)
     else (token, OS_DEBUG (Dbg_cannot_unlock t) s))"

text \<open>
  \<^verbatim>\<open>OS_WaitForStateChange_Impl\<close> releases the mutex, lets other tasks run, and
  acquires the mutex again.
\<close>

definition OS_WaitForStateChange_Impl ::
    "'i idmap_env \<Rightarrow> osal_objtype_t \<Rightarrow> nat \<Rightarrow> 'i os_state \<Rightarrow> 'i os_state" where
  "OS_WaitForStateChange_Impl env t attempts s =
     OS_Lock_Global_Impl t (other_tasks env t attempts (OS_Unlock_Global_Impl t s))"

definition OS_WaitForStateChange ::
    "'i idmap_env \<Rightarrow> OS_object_token \<Rightarrow> nat \<Rightarrow> 'i os_state \<Rightarrow> 'i os_state" where
  "OS_WaitForStateChange env token attempts s =
    (let t = obj_type token;
         saved_unlock_key = owner_key (objtype_state t s);
         s1 = upd_objtype t (\<lambda>ob. ob\<lparr>owner_key := 0\<rparr>) s;
         s2 = OS_WaitForStateChange_Impl env t attempts s1
     in upd_objtype t (\<lambda>ob. ob\<lparr>owner_key := saved_unlock_key\<rparr>) s2)"

subsection \<open>Transactions\<close>

definition OS_ObjectIdTransactionInit ::
    "'i idmap_env \<Rightarrow> OS_lock_mode \<Rightarrow> osal_objtype_t \<Rightarrow> 'i os_state
      \<Rightarrow> status \<times> OS_object_token \<times> 'i os_state" where
  "OS_ObjectIdTransactionInit env mode idtype s =
    (let gs = GlobalState (OS_SharedGlobalVars s) in
     if gs \<noteq> OS_INIT_MAGIC_NUMBER \<and> gs \<noteq> OS_SHUTDOWN_MAGIC_NUMBER then (OS_ERROR, zero_token, s)
     else if gs = OS_SHUTDOWN_MAGIC_NUMBER \<and> mode \<noteq> OS_LOCK_MODE_EXCLUSIVE
       then (OS_ERR_INCORRECT_OBJ_STATE, zero_token, s)
     else if OS_GetMaxForObjectType idtype = 0 then (OS_ERR_INVALID_ID, zero_token, s)
     else
       let token = zero_token\<lparr>lock_mode := mode, obj_type := idtype, obj_idx := - 1\<rparr>
       in if mode \<noteq> OS_LOCK_MODE_NONE
          then (case OS_Lock_Global env token s of (token', s') \<Rightarrow> (OS_SUCCESS, token', s'))
          else (OS_SUCCESS, token, s))"

definition OS_ObjectIdTransactionCancel ::
    "OS_object_token \<Rightarrow> 'i os_state \<Rightarrow> OS_object_token \<times> 'i os_state" where
  "OS_ObjectIdTransactionCancel token s =
    (if lock_mode token \<noteq> OS_LOCK_MODE_NONE
     then (case OS_Unlock_Global token s of
             (token', s') \<Rightarrow> (token'\<lparr>lock_mode := OS_LOCK_MODE_NONE\<rparr>, s'))
     else (token, s))"

text \<open>
  The loop of \<^verbatim>\<open>OS_ObjectIdConvertToken\<close>. One pass over its body either decides the
  return code or finds contention; the expected ID changes when an exclusive request reserves
  the record.
\<close>

datatype convert_outcome = Convert_done status | Convert_contention

definition ConvertToken_body ::
    "OS_object_token \<Rightarrow> osal_id_t \<Rightarrow> 'i os_state \<Rightarrow> convert_outcome \<times> osal_id_t \<times> 'i os_state" where
  "ConvertToken_body token expected_id s =
    (let r = OS_ObjectIdGlobalFromToken token;
         obj = OS_common_table s r
     in if active_id obj = expected_id then
          (if lock_mode token = OS_LOCK_MODE_EXCLUSIVE then
             let (expected_id', s1) =
                   (if expected_id \<noteq> OS_OBJECT_ID_RESERVED
                    then (OS_OBJECT_ID_RESERVED,
                          upd_common r (\<lambda>ob. ob\<lparr>active_id := OS_OBJECT_ID_RESERVED\<rparr>) s)
                    else (expected_id, s))
             in if refcount (OS_common_table s1 r) = 0
                then (Convert_done OS_SUCCESS, expected_id', s1)
                else (Convert_contention, expected_id', s1)
           else (Convert_done OS_SUCCESS, expected_id, s))
        else if lock_mode token = OS_LOCK_MODE_NONE \<or> active_id obj \<noteq> OS_OBJECT_ID_RESERVED
          then (Convert_done OS_ERR_INVALID_ID, expected_id, s)
        else (Convert_contention, expected_id, s))"

function ConvertToken_loop ::
    "'i idmap_env \<Rightarrow> OS_object_token \<Rightarrow> osal_id_t \<Rightarrow> nat \<Rightarrow> 'i os_state
      \<Rightarrow> status \<times> osal_id_t \<times> 'i os_state" where
  "ConvertToken_loop env token expected_id attempts s =
    (case ConvertToken_body token expected_id s of
       (Convert_done return_code, expected_id', s') \<Rightarrow> (return_code, expected_id', s')
     | (Convert_contention, expected_id', s') \<Rightarrow>
         (if attempts + 1 \<ge> 5 then (OS_ERR_OBJECT_IN_USE, expected_id', s')
          else ConvertToken_loop env token expected_id' (attempts + 1)
                 (OS_WaitForStateChange env token (attempts + 1) s')))"
  by pat_completeness auto
termination
  by (relation "measure (\<lambda>(env, token, e, attempts, s). 5 - attempts)") auto

declare ConvertToken_loop.simps [simp del]

definition OS_ObjectIdConvertToken ::
    "'i idmap_env \<Rightarrow> OS_object_token \<Rightarrow> 'i os_state \<Rightarrow> status \<times> OS_object_token \<times> 'i os_state" where
  "OS_ObjectIdConvertToken env token s =
    (let r = OS_ObjectIdGlobalFromToken token
     in if \<not> OS_ObjectIdIsValid (obj_id token) then (OS_ERR_INCORRECT_OBJ_STATE, token, s)
        else
          let expected_id = (if lock_mode token = OS_LOCK_MODE_RESERVED then OS_OBJECT_ID_RESERVED
                             else obj_id token)
          in case ConvertToken_loop env token expected_id 0 s of
               (return_code, expected_id', s1) \<Rightarrow>
                 (if lock_mode token \<noteq> OS_LOCK_MODE_NONE then
                    (if return_code = OS_SUCCESS then
                       let s2 = upd_common r (\<lambda>ob. ob\<lparr>refcount := refcount ob + 1\<rparr>) s1
                       in if lock_mode token = OS_LOCK_MODE_REFCOUNT \<or> lock_mode token = OS_LOCK_MODE_EXCLUSIVE
                          then (case OS_Unlock_Global token s2 of
                                  (token', s3) \<Rightarrow> (return_code, token', s3))
                          else (return_code, token, s2)
                     else if lock_mode token = OS_LOCK_MODE_EXCLUSIVE \<and> expected_id' = OS_OBJECT_ID_RESERVED
                       then (return_code, token, upd_common r (\<lambda>ob. ob\<lparr>active_id := obj_id token\<rparr>) s1)
                     else (return_code, token, s1))
                  else (return_code, token, s1)))"

subsection \<open>Searching the table\<close>

text \<open>
  The search loops of this file increment the index first, stop when it reaches the number of
  objects of the type, and otherwise stop at the first entry they accept. The index starts at
  \<^verbatim>\<open>OSAL_INDEX_C(-1)\<close>, so the first increment wraps to 0.
\<close>

function scan_from :: "(osal_index_t \<Rightarrow> bool) \<Rightarrow> u32 \<Rightarrow> osal_index_t \<Rightarrow> osal_index_t" where
  "scan_from accept count idx =
    (let idx' = idx + 1
     in if idx' \<ge> count then idx' else if accept idx' then idx' else scan_from accept count idx')"
  by pat_completeness auto
termination
proof (relation "measure (\<lambda>(accept, count, idx). unat count - unat (idx + 1))")
  fix accept :: "osal_index_t \<Rightarrow> bool" and count idx x :: u32
  assume "x = idx + 1" and "\<not> count \<le> x"
  then have "x < count" by simp
  then have "unat (x + 1) = unat x + 1"
    by (rule unat_plus1_less)
  with \<open>x < count\<close> \<open>x = idx + 1\<close>
  show "((accept, count, x), accept, count, idx)
      \<in> measure (\<lambda>(accept, count, idx). unat count - unat (idx + 1))"
    by (simp add: word_less_nat_alt)
qed simp

declare scan_from.simps [simp del]

definition table_entry :: "'i os_state \<Rightarrow> u32 \<Rightarrow> osal_index_t \<Rightarrow> OS_common_record" where
  "table_entry s base_idx i = OS_common_table s (unat base_idx + unat i)"

definition OS_ObjectIdFindNextMatch ::
    "'i match_func \<Rightarrow> OS_object_token \<Rightarrow> 'i os_state \<Rightarrow> status \<times> OS_object_token" where
  "OS_ObjectIdFindNextMatch MatchFunc token s =
    (let base_idx = OS_GetBaseForObjectType (obj_type token);
         obj_count = OS_GetMaxForObjectType (obj_type token);
         token1 = token\<lparr>obj_id := OS_OBJECT_ID_UNDEFINED\<rparr>;
         accept = (\<lambda>i. OS_ObjectIdDefined (active_id (table_entry s base_idx i))
                     \<and> MatchFunc s (token1\<lparr>obj_idx := i\<rparr>) (table_entry s base_idx i));
         idx = scan_from accept obj_count (obj_idx token);
         token2 = token1\<lparr>obj_idx := idx\<rparr>
     in if idx \<ge> obj_count then (OS_ERR_NAME_NOT_FOUND, token2)
        else (OS_SUCCESS, token2\<lparr>obj_id := active_id (table_entry s base_idx idx)\<rparr>))"

text \<open>
  The loop of \<^verbatim>\<open>OS_ObjectIdFindNextFree\<close>, by the number of passes left: the local
  index and the serial number of the first free entry, \<open>None\<close> when there is none.
\<close>

fun FindNextFree_loop ::
    "'i os_state \<Rightarrow> u32 \<Rightarrow> u32 \<Rightarrow> nat \<Rightarrow> u32 \<Rightarrow> (u32 \<times> u32) option" where
  "FindNextFree_loop s base_id max_id 0 serial = None"
| "FindNextFree_loop s base_id max_id (Suc n) serial =
    (let serial1 = serial + 1;
         local_id = serial1 mod max_id;
         serial2 = (if serial1 \<ge> OS_OBJECT_INDEX_MASK then local_id else serial1)
     in if \<not> OS_ObjectIdDefined (active_id (OS_common_table s (unat (local_id + base_id))))
        then Some (local_id, serial2)
        else FindNextFree_loop s base_id max_id n serial2)"

definition OS_ObjectIdFindNextFree ::
    "'i idmap_env \<Rightarrow> OS_object_token \<Rightarrow> 'i os_state \<Rightarrow> status \<times> OS_object_token \<times> 'i os_state" where
  "OS_ObjectIdFindNextFree env token s =
    (let t = obj_type token;
         base_id = OS_GetBaseForObjectType t;
         max_id = OS_GetMaxForObjectType t;
         failed = token\<lparr>obj_idx := - 1, obj_id := OS_OBJECT_ID_UNDEFINED\<rparr>
     in if max_id = 0 then (OS_ERR_NOT_IMPLEMENTED, failed, s)
        else
          case FindNextFree_loop s base_id max_id (unat max_id)
                 (OS_ObjectIdToSerialNumber_Impl (last_id_issued (objtype_state t s))) of
            None \<Rightarrow> (OS_ERR_NO_FREE_IDS, failed, s)
          | Some (local_id, serial) \<Rightarrow>
              let new_id = OS_ObjectIdCompose_Impl t serial;
                  s1 = upd_common (unat (local_id + base_id))
                         (\<lambda>_. \<lparr>name_entry = None, active_id = new_id, creator = OS_TaskGetId env s,
                               refcount = 0\<rparr>) s;
                  s2 = upd_objtype t (\<lambda>ob. ob\<lparr>last_id_issued := new_id\<rparr>) s1
              in (OS_SUCCESS, token\<lparr>obj_idx := local_id, obj_id := new_id\<rparr>, s2))"

subsection \<open>Finishing a transaction\<close>

definition OS_ObjectIdTransactionFinish ::
    "'i idmap_env \<Rightarrow> OS_object_token \<Rightarrow> osal_id_t option \<Rightarrow> 'i os_state \<Rightarrow> OS_object_token \<times> 'i os_state" where
  "OS_ObjectIdTransactionFinish env token final_id s =
    (if lock_mode token = OS_LOCK_MODE_NONE then (token, s)
     else
       let r = OS_ObjectIdGlobalFromToken token;
           (token1, s1) = (if lock_mode token = OS_LOCK_MODE_EXCLUSIVE \<or> lock_mode token = OS_LOCK_MODE_REFCOUNT
                           then OS_Lock_Global env token s else (token, s));
           s2 = (if 0 < refcount (OS_common_table s1 r)
                 then upd_common r (\<lambda>ob. ob\<lparr>refcount := refcount ob - 1\<rparr>) s1 else s1);
           s3 = (case final_id of
                   Some i \<Rightarrow> upd_common r (\<lambda>ob. ob\<lparr>active_id := i\<rparr>) s2
                 | None \<Rightarrow> (if lock_mode token1 = OS_LOCK_MODE_EXCLUSIVE
                            then upd_common r (\<lambda>ob. ob\<lparr>active_id := obj_id token1\<rparr>) s2 else s2));
           (token2, s4) = OS_Unlock_Global token1 s3
       in (token2\<lparr>lock_mode := OS_LOCK_MODE_NONE\<rparr>, s4))"

definition OS_ObjectIdRelease ::
    "'i idmap_env \<Rightarrow> OS_object_token \<Rightarrow> 'i os_state \<Rightarrow> OS_object_token \<times> 'i os_state" where
  "OS_ObjectIdRelease env token s = OS_ObjectIdTransactionFinish env token None s"

text \<open>The second component of the result is the ID written through \<^verbatim>\<open>outid\<close>.\<close>

definition OS_ObjectIdFinalizeNew ::
    "'i idmap_env \<Rightarrow> status \<Rightarrow> OS_object_token \<Rightarrow> 'i os_state
      \<Rightarrow> status \<times> osal_id_t \<times> OS_object_token \<times> 'i os_state" where
  "OS_ObjectIdFinalizeNew env operation_status token s =
    (let final_id = (if operation_status = OS_SUCCESS then obj_id token else OS_OBJECT_ID_UNDEFINED);
         (token1, s1) = OS_ObjectIdTransactionFinish env token (Some final_id) s;
         s2 = (if operation_status = OS_SUCCESS
               then snd (OS_NotifyEvent env OS_EVENT_RESOURCE_CREATED (obj_id token1) s1) else s1)
     in (operation_status, final_id, token1, s2))"

definition OS_ObjectIdFinalizeDelete ::
    "'i idmap_env \<Rightarrow> status \<Rightarrow> OS_object_token \<Rightarrow> 'i os_state
      \<Rightarrow> status \<times> OS_object_token \<times> 'i os_state" where
  "OS_ObjectIdFinalizeDelete env operation_status token s =
    (let final_id = (if operation_status = OS_SUCCESS then OS_OBJECT_ID_UNDEFINED else obj_id token);
         (token1, s1) = OS_ObjectIdTransactionFinish env token (Some final_id) s;
         s2 = (if operation_status = OS_SUCCESS
               then snd (OS_NotifyEvent env OS_EVENT_RESOURCE_DELETED (obj_id token1) s1) else s1)
     in (operation_status, token1, s2))"

subsection \<open>Obtaining an object\<close>

definition OS_ObjectIdGetBySearch ::
    "'i idmap_env \<Rightarrow> OS_lock_mode \<Rightarrow> osal_objtype_t \<Rightarrow> 'i match_func \<Rightarrow> 'i os_state
      \<Rightarrow> status \<times> OS_object_token \<times> 'i os_state" where
  "OS_ObjectIdGetBySearch env mode idtype MatchFunc s =
    (case OS_ObjectIdTransactionInit env mode idtype s of
       (_, token, s1) \<Rightarrow>
         (case OS_ObjectIdFindNextMatch MatchFunc token s1 of
            (return_code, token1) \<Rightarrow>
              (if return_code = OS_SUCCESS then OS_ObjectIdConvertToken env token1 s1
               else (case OS_ObjectIdTransactionCancel token1 s1 of
                       (token2, s2) \<Rightarrow> (return_code, token2, s2)))))"

definition OS_ObjectIdGetByName ::
    "'i idmap_env \<Rightarrow> OS_lock_mode \<Rightarrow> osal_objtype_t \<Rightarrow> string \<Rightarrow> 'i os_state
      \<Rightarrow> status \<times> OS_object_token \<times> 'i os_state" where
  "OS_ObjectIdGetByName env mode idtype name s =
     OS_ObjectIdGetBySearch env mode idtype (OS_ObjectNameMatch name) s"

text \<open>The ID is written through \<^verbatim>\<open>object_id\<close> only on success.\<close>

definition OS_ObjectIdFindByName ::
    "'i idmap_env \<Rightarrow> osal_objtype_t \<Rightarrow> string option \<Rightarrow> 'i os_state
      \<Rightarrow> status \<times> osal_id_t option \<times> 'i os_state" where
  "OS_ObjectIdFindByName env idtype name s =
    (case name of
       None \<Rightarrow> (OS_ERR_NAME_NOT_FOUND, None, s)
     | Some nm \<Rightarrow>
         (if \<not> LENGTHCHECK nm OS_MAX_API_NAME then (OS_ERR_NAME_TOO_LONG, None, s)
          else
            case OS_ObjectIdGetByName env OS_LOCK_MODE_GLOBAL idtype nm s of
              (return_code, token, s1) \<Rightarrow>
                (if return_code = OS_SUCCESS
                 then (return_code, Some (obj_id token), snd (OS_ObjectIdRelease env token s1))
                 else (return_code, None, s1))))"

definition OS_ObjectIdGetById ::
    "'i idmap_env \<Rightarrow> OS_lock_mode \<Rightarrow> osal_objtype_t \<Rightarrow> osal_id_t \<Rightarrow> 'i os_state
      \<Rightarrow> status \<times> OS_object_token \<times> 'i os_state" where
  "OS_ObjectIdGetById env mode idtype i s =
    (case OS_ObjectIdTransactionInit env mode idtype s of
       (return_code, token, s1) \<Rightarrow>
         (if return_code \<noteq> OS_SUCCESS then (return_code, token, s1)
          else
            case OS_ObjectIdToArrayIndex True idtype i of
              (_, Some k) \<Rightarrow>
                (case OS_ObjectIdConvertToken env (token\<lparr>obj_idx := k, obj_id := i\<rparr>) s1 of
                   (return_code', token', s2) \<Rightarrow>
                     (if return_code' \<noteq> OS_SUCCESS
                      then (case OS_ObjectIdTransactionCancel token' s2 of
                              (token'', s3) \<Rightarrow> (return_code', token'', s3))
                      else (return_code', token', s2)))
            | (return_code', None) \<Rightarrow>
                (case OS_ObjectIdTransactionCancel token s1 of
                   (token', s2) \<Rightarrow> (return_code', token', s2))))"

definition OS_ObjectIdAllocateNew ::
    "'i idmap_env \<Rightarrow> osal_objtype_t \<Rightarrow> string option \<Rightarrow> 'i os_state
      \<Rightarrow> status \<times> OS_object_token \<times> 'i os_state" where
  "OS_ObjectIdAllocateNew env idtype name s =
    (if GlobalState (OS_SharedGlobalVars s) = OS_SHUTDOWN_MAGIC_NUMBER
     then (OS_ERR_INCORRECT_OBJ_STATE, zero_token, s)
     else
       case OS_ObjectIdTransactionInit env OS_LOCK_MODE_EXCLUSIVE idtype s of
         (return_code, token, s1) \<Rightarrow>
           (if return_code \<noteq> OS_SUCCESS then (return_code, token, s1)
            else
              let (found, token1) = (case name of
                                       Some nm \<Rightarrow> OS_ObjectIdFindNextMatch (OS_ObjectNameMatch nm) token s1
                                     | None \<Rightarrow> (OS_ERR_NAME_NOT_FOUND, token));
                  (alloc, token2, s2) = (if found = OS_SUCCESS then (OS_ERR_NAME_TAKEN, token1, s1)
                                         else OS_ObjectIdFindNextFree env token1 s1)
              in if alloc \<noteq> OS_SUCCESS
                 then (case OS_ObjectIdTransactionCancel token2 s2 of
                         (token3, s3) \<Rightarrow> (alloc, token3, s3))
                 else
                   let (ev, s3) = OS_NotifyEvent env OS_EVENT_RESOURCE_ALLOCATED (obj_id token2) s2;
                       (conv, token4, s4) = (if ev = OS_SUCCESS then OS_ObjectIdConvertToken env token2 s3
                                             else (ev, token2, s3))
                   in if conv \<noteq> OS_SUCCESS
                      then (case OS_ObjectIdFinalizeNew env conv token4 s4 of
                              (st, _, token5, s5) \<Rightarrow> (st, token5, s5))
                      else (conv, token4, s4)))"

definition OS_ObjectIdTransferToken :: "OS_object_token \<Rightarrow> OS_object_token \<times> OS_object_token" where
  "OS_ObjectIdTransferToken token_from = (token_from\<lparr>lock_mode := OS_LOCK_MODE_NONE\<rparr>, token_from)"

lemma scan_from_advances:
  assumes "scan_from accept count idx < count"
  shows "idx + 1 \<le> scan_from accept count idx \<and> accept (scan_from accept count idx)"
  using assms
proof (induction accept count idx rule: scan_from.induct)
  case (1 accept count idx)
  show ?case
  proof (cases "count \<le> idx + 1 \<or> accept (idx + 1)")
    case True
    with "1.prems" show ?thesis
      by (cases "count \<le> idx + 1") (simp_all add: scan_from.simps[of accept count idx] Let_def)
  next
    case False
    then have eq: "scan_from accept count idx = scan_from accept count (idx + 1)"
      by (simp add: scan_from.simps[of accept count idx] Let_def)
    with False "1.prems" "1.IH"[OF refl] have
      IH: "idx + 1 + 1 \<le> scan_from accept count (idx + 1) \<and> accept (scan_from accept count (idx + 1))"
      by simp
    from False have "idx + 1 \<le> idx + 1 + 1"
      unfolding word_le_nat_alt by (subst unat_plus1_less[of "idx + 1" count]) (auto simp: word_less_nat_alt)
    with IH eq show ?thesis by (metis order.trans)
  qed
qed

subsection \<open>Iterators\<close>

record 'i OS_object_iter =
  iter_match :: "'i match_func option"
  iter_limit :: u32
  iter_base :: u32
  iter_token :: OS_object_token

definition OS_ObjectIdIteratorInit ::
    "'i idmap_env \<Rightarrow> 'i match_func option \<Rightarrow> osal_objtype_t \<Rightarrow> 'i os_state
      \<Rightarrow> status \<times> 'i OS_object_iter \<times> 'i os_state" where
  "OS_ObjectIdIteratorInit env matchfunc objtype s =
    (case OS_ObjectIdTransactionInit env OS_LOCK_MODE_GLOBAL objtype s of
       (return_code, token, s1) \<Rightarrow>
         (return_code,
          \<lparr>iter_match = matchfunc, iter_limit = OS_GetMaxForObjectType objtype,
           iter_base = OS_GetBaseForObjectType objtype, iter_token = token\<rparr>, s1))"

definition OS_ObjectIdIterateActive ::
    "'i idmap_env \<Rightarrow> osal_objtype_t \<Rightarrow> 'i os_state \<Rightarrow> status \<times> 'i OS_object_iter \<times> 'i os_state" where
  "OS_ObjectIdIterateActive env objtype s = OS_ObjectIdIteratorInit env (Some OS_ObjectFilterActive) objtype s"

definition OS_ObjectIdIteratorGetNext :: "'i OS_object_iter \<Rightarrow> 'i os_state \<Rightarrow> bool \<times> 'i OS_object_iter" where
  "OS_ObjectIdIteratorGetNext iter s =
    (let token1 = (iter_token iter)\<lparr>obj_id := OS_OBJECT_ID_UNDEFINED\<rparr>;
         accept = (\<lambda>i. case iter_match iter of
                        None \<Rightarrow> True
                      | Some f \<Rightarrow> f s (token1\<lparr>obj_idx := i\<rparr>) (table_entry s (iter_base iter) i));
         idx = scan_from accept (iter_limit iter) (obj_idx token1);
         token2 = token1\<lparr>obj_idx := idx\<rparr>
     in if idx \<ge> iter_limit iter then (False, iter\<lparr>iter_token := token2\<rparr>)
        else (True, iter\<lparr>iter_token := token2\<lparr>obj_id := active_id (table_entry s (iter_base iter) idx)\<rparr>\<rparr>))"

definition OS_ObjectIdIteratorDestroy ::
    "'i OS_object_iter \<Rightarrow> 'i os_state \<Rightarrow> 'i OS_object_iter \<times> 'i os_state" where
  "OS_ObjectIdIteratorDestroy iter s =
    (case OS_ObjectIdTransactionCancel (iter_token iter) s of
       (token, s1) \<Rightarrow> (iter\<lparr>iter_token := token\<rparr>, s1))"

definition OS_ObjectIdIteratorProcessEntry ::
    "'i idmap_env \<Rightarrow> 'i OS_object_iter \<Rightarrow> (osal_id_t \<Rightarrow> 'i os_state \<Rightarrow> status \<times> 'i os_state) \<Rightarrow> 'i os_state
      \<Rightarrow> status \<times> 'i OS_object_iter \<times> 'i os_state" where
  "OS_ObjectIdIteratorProcessEntry env iter func s =
    (case OS_Unlock_Global (iter_token iter) s of
       (token1, s1) \<Rightarrow>
         (case func (obj_id token1) s1 of
            (st, s2) \<Rightarrow>
              (case OS_Lock_Global env token1 s2 of
                 (token3, s3) \<Rightarrow> (st, iter\<lparr>iter_token := token3\<rparr>, s3))))"

text \<open>A user callback may do anything to the state, including further calls of this layer.\<close>

type_synonym 'i arg_callback = "osal_id_t \<Rightarrow> 'i os_state \<Rightarrow> 'i os_state"

definition OS_ForEachDoCallback :: "'i arg_callback \<Rightarrow> osal_id_t \<Rightarrow> 'i os_state \<Rightarrow> status \<times> 'i os_state" where
  "OS_ForEachDoCallback user_callback i s = (OS_SUCCESS, user_callback i s)"

lemma Lock_Global_obj_idx [simp]: "obj_idx (fst (OS_Lock_Global env token s)) = obj_idx token"
  by (simp add: OS_Lock_Global_def Let_def)

lemma Unlock_Global_obj_idx [simp]: "obj_idx (fst (OS_Unlock_Global token s)) = obj_idx token"
  by (simp add: OS_Unlock_Global_def Let_def)

lemma ProcessEntry_iter:
  assumes "OS_ObjectIdIteratorProcessEntry env iter func s = (st, iter', s')"
  shows "iter_limit iter' = iter_limit iter \<and> obj_idx (iter_token iter') = obj_idx (iter_token iter)"
proof -
  obtain token1 s1 where u: "OS_Unlock_Global (iter_token iter) s = (token1, s1)" by fastforce
  obtain st2 s2 where f: "func (obj_id token1) s1 = (st2, s2)" by fastforce
  obtain token3 s3 where l: "OS_Lock_Global env token1 s2 = (token3, s3)" by fastforce
  from u f l assms have "iter' = iter\<lparr>iter_token := token3\<rparr>"
    by (simp add: OS_ObjectIdIteratorProcessEntry_def)
  with Lock_Global_obj_idx[of env token1 s2] Unlock_Global_obj_idx[of "iter_token iter" s] u l
  show ?thesis by simp
qed

lemma GetNext_advances:
  assumes "OS_ObjectIdIteratorGetNext iter s = (True, iter')"
  shows "iter_limit iter' = iter_limit iter \<and> obj_idx (iter_token iter') < iter_limit iter
    \<and> obj_idx (iter_token iter) + 1 \<le> obj_idx (iter_token iter')"
  using assms scan_from_advances
  by (fastforce simp: OS_ObjectIdIteratorGetNext_def Let_def not_le split: if_splits)

lemma ForEach_decreases:
  assumes n: "(True, iter1) = OS_ObjectIdIteratorGetNext iter s"
    and p: "(st, iter2, s2) = OS_ObjectIdIteratorProcessEntry env iter1 func s"
  shows "unat (iter_limit iter2) - unat (obj_idx (iter_token iter2) + 1)
    < unat (iter_limit iter) - unat (obj_idx (iter_token iter) + 1)"
  using GetNext_advances[OF n[symmetric]] ProcessEntry_iter[OF p[symmetric]]
    unat_plus1_less[of "obj_idx (iter_token iter1)" "iter_limit iter"]
  by (simp add: word_less_nat_alt word_le_nat_alt) linarith

text \<open>
  The loop of \<^verbatim>\<open>OS_ForEachObjectOfType\<close>. Whatever the callback does, it cannot reach
  the iterator, so the loop ends.
\<close>

function ForEach_loop ::
    "'i idmap_env \<Rightarrow> 'i arg_callback \<Rightarrow> 'i OS_object_iter \<Rightarrow> 'i os_state \<Rightarrow> 'i OS_object_iter \<times> 'i os_state" where
  "ForEach_loop env callback iter s =
    (case OS_ObjectIdIteratorGetNext iter s of
       (False, iter1) \<Rightarrow> (iter1, s)
     | (True, iter1) \<Rightarrow>
         (case OS_ObjectIdIteratorProcessEntry env iter1 (OS_ForEachDoCallback callback) s of
            (_, iter2, s2) \<Rightarrow> ForEach_loop env callback iter2 s2))"
  by pat_completeness auto
termination
  by (relation "measure (\<lambda>(env, cb, iter, s). unat (iter_limit iter) - unat (obj_idx (iter_token iter) + 1))")
    (auto intro: ForEach_decreases)

declare ForEach_loop.simps [simp del]

definition OS_ForEachObjectOfType ::
    "'i idmap_env \<Rightarrow> osal_objtype_t \<Rightarrow> osal_id_t \<Rightarrow> 'i arg_callback \<Rightarrow> 'i os_state \<Rightarrow> 'i os_state" where
  "OS_ForEachObjectOfType env objtype creator_id callback s =
    (case OS_ObjectIdIteratorInit env (Some (OS_ForEachFilterCreator creator_id)) objtype s of
       (return_code, iter, s1) \<Rightarrow>
         (if return_code = OS_SUCCESS
          then (case ForEach_loop env callback iter s1 of
                  (iter2, s2) \<Rightarrow> snd (OS_ObjectIdIteratorDestroy iter2 s2))
          else s1))"

definition OS_ForEachObject :: "'i idmap_env \<Rightarrow> osal_id_t \<Rightarrow> 'i arg_callback \<Rightarrow> 'i os_state \<Rightarrow> 'i os_state" where
  "OS_ForEachObject env creator_id callback s =
     fold (\<lambda>idtype. OS_ForEachObjectOfType env (of_nat idtype) creator_id callback)
          [0..<unat OS_OBJECT_TYPE_USER] s"

text \<open>The second component is the buffer's content after the call, \<open>None\<close> when it was not written.\<close>

definition OS_GetResourceName ::
    "'i idmap_env \<Rightarrow> osal_id_t \<Rightarrow> bool \<Rightarrow> nat \<Rightarrow> 'i os_state \<Rightarrow> status \<times> string option \<times> 'i os_state" where
  "OS_GetResourceName env object_id has_buffer buffer_size s =
    (if \<not> has_buffer then (OS_INVALID_POINTER, None, s)
     else if \<not> OS_CHECK_SIZE buffer_size then (OS_ERR_INVALID_SIZE, None, s)
     else
       case OS_ObjectIdGetById env OS_LOCK_MODE_GLOBAL (OS_ObjectIdToType_Impl object_id) object_id s of
         (return_code, token, s1) \<Rightarrow>
           (if return_code = OS_SUCCESS then
              let (return_code', buffer) =
                    (case name_entry (OS_common_table s1 (OS_ObjectIdGlobalFromToken token)) of
                       None \<Rightarrow> (OS_SUCCESS, [])
                     | Some p \<Rightarrow>
                         let name_len = OS_strnlen (deref_name s1 p) buffer_size
                         in if buffer_size \<le> name_len
                            then (OS_ERR_NAME_TOO_LONG, take (buffer_size - 1) (deref_name s1 p))
                            else (OS_SUCCESS, take name_len (deref_name s1 p)))
              in (return_code', Some buffer, snd (OS_ObjectIdRelease env token s1))
            else (return_code, Some [], s1)))"

end
