(* ===== verification/Idmap_Facts.thy ===== *)
theory Idmap_Facts
  imports Idmap
begin

unbundle bit_operations_syntax

text \<open>
  What the operations of the object ID map do when nothing else is going on: the table mutex of
  the type is free when the operation starts, so it never has to wait. Every result is given as
  an equation between states, from which the components' own operations follow by rewriting. The
  interleaving of several tasks is the subject of \<^verbatim>\<open>Idmap_Concurrent\<close>.
\<close>

subsection \<open>Selectors and updates\<close>

lemma upd_common_simps [simp]:
  "OS_common_table (upd_common r f s) = (OS_common_table s)(r := f (OS_common_table s r))"
  "OS_objtype_state_tbl (upd_common r f s) = OS_objtype_state_tbl s"
  "OS_SharedGlobalVars (upd_common r f s) = OS_SharedGlobalVars s"
  "table_lock (upd_common r f s) = table_lock s"
  "stuck (upd_common r f s) = stuck s"
  "debug_log (upd_common r f s) = debug_log s"
  "impl (upd_common r f s) = impl s"
  by (simp_all add: upd_common_def)

lemma upd_objtype_simps [simp]:
  "OS_common_table (upd_objtype t g s) = OS_common_table s"
  "OS_objtype_state_tbl (upd_objtype t g s) =
     (OS_objtype_state_tbl s)(unat t := g (OS_objtype_state_tbl s (unat t)))"
  "OS_SharedGlobalVars (upd_objtype t g s) = OS_SharedGlobalVars s"
  "table_lock (upd_objtype t g s) = table_lock s"
  "stuck (upd_objtype t g s) = stuck s"
  "debug_log (upd_objtype t g s) = debug_log s"
  "impl (upd_objtype t g s) = impl s"
  by (simp_all add: upd_objtype_def)

lemma deref_name_upd [simp]:
  "deref_name (upd_common r f s) = deref_name s"
  "deref_name (upd_objtype t g s) = deref_name s"
  "deref_name (s\<lparr>impl := i\<rparr>) = deref_name s"
  "deref_name (s\<lparr>table_lock := l\<rparr>) = deref_name s"
  "deref_name (s\<lparr>stuck := b\<rparr>) = deref_name s"
  "deref_name (s\<lparr>debug_log := d\<rparr>) = deref_name s"
  "deref_name (s\<lparr>OS_common_table := c\<rparr>) = deref_name s"
  "deref_name (s\<lparr>OS_objtype_state_tbl := ob\<rparr>) = deref_name s"
  "deref_name (s\<lparr>OS_SharedGlobalVars := g'\<rparr>) = deref_name s"
  by (rule ext, case_tac x; simp add: upd_common_def upd_objtype_def)+

text \<open>The tables of the object types are separate from the common table.\<close>

lemma tables_upd_common [simp]:
  "OS_task_table (upd_common r f s) = OS_task_table s"
  "OS_queue_table (upd_common r f s) = OS_queue_table s"
  "OS_bin_sem_table (upd_common r f s) = OS_bin_sem_table s"
  "OS_count_sem_table (upd_common r f s) = OS_count_sem_table s"
  "OS_mutex_table (upd_common r f s) = OS_mutex_table s"
  "OS_rwlock_table (upd_common r f s) = OS_rwlock_table s"
  "OS_condvar_table (upd_common r f s) = OS_condvar_table s"
  "OS_stream_table (upd_common r f s) = OS_stream_table s"
  "OS_dir_table (upd_common r f s) = OS_dir_table s"
  "OS_timebase_table (upd_common r f s) = OS_timebase_table s"
  "OS_timecb_table (upd_common r f s) = OS_timecb_table s"
  "OS_module_table (upd_common r f s) = OS_module_table s"
  "OS_filesys_table (upd_common r f s) = OS_filesys_table s"
  "OS_console_table (upd_common r f s) = OS_console_table s"
  by (simp_all add: upd_common_def)

lemma tables_upd_objtype [simp]:
  "OS_task_table (upd_objtype t g s) = OS_task_table s"
  "OS_queue_table (upd_objtype t g s) = OS_queue_table s"
  "OS_bin_sem_table (upd_objtype t g s) = OS_bin_sem_table s"
  "OS_count_sem_table (upd_objtype t g s) = OS_count_sem_table s"
  "OS_mutex_table (upd_objtype t g s) = OS_mutex_table s"
  "OS_rwlock_table (upd_objtype t g s) = OS_rwlock_table s"
  "OS_condvar_table (upd_objtype t g s) = OS_condvar_table s"
  "OS_stream_table (upd_objtype t g s) = OS_stream_table s"
  "OS_dir_table (upd_objtype t g s) = OS_dir_table s"
  "OS_timebase_table (upd_objtype t g s) = OS_timebase_table s"
  "OS_timecb_table (upd_objtype t g s) = OS_timecb_table s"
  "OS_module_table (upd_objtype t g s) = OS_module_table s"
  "OS_filesys_table (upd_objtype t g s) = OS_filesys_table s"
  "OS_console_table (upd_objtype t g s) = OS_console_table s"
  by (simp_all add: upd_objtype_def)

text \<open>The state while the table of type \<open>t\<close> is locked with key \<open>k\<close>, and after one
  lock and unlock.\<close>

definition acquired :: "osal_objtype_t \<Rightarrow> u32 \<Rightarrow> 'i os_state \<Rightarrow> 'i os_state" where
  "acquired t k s = OS_Lock_Global_Impl t
     (upd_objtype t (\<lambda>ob. ob\<lparr>transaction_count := transaction_count ob + 1, owner_key := k\<rparr>) s)"

definition ticked :: "osal_objtype_t \<Rightarrow> 'i os_state \<Rightarrow> 'i os_state" where
  "ticked t s = upd_objtype t (\<lambda>ob. ob\<lparr>transaction_count := transaction_count ob + 1, owner_key := 0\<rparr>) s"

lemma acquired_simps [simp]:
  "OS_common_table (acquired t k s) = OS_common_table s"
  "OS_SharedGlobalVars (acquired t k s) = OS_SharedGlobalVars s"
  "debug_log (acquired t k s) = debug_log s"
  "impl (acquired t k s) = impl s"
  "deref_name (acquired t k s) = deref_name s"
  by (simp_all add: acquired_def OS_Lock_Global_Impl_def)

lemma ticked_simps [simp]:
  "OS_common_table (ticked t s) = OS_common_table s"
  "OS_SharedGlobalVars (ticked t s) = OS_SharedGlobalVars s"
  "table_lock (ticked t s) = table_lock s"
  "stuck (ticked t s) = stuck s"
  "debug_log (ticked t s) = debug_log s"
  "impl (ticked t s) = impl s"
  "deref_name (ticked t s) = deref_name s"
  "owner_key (objtype_state u (ticked t s)) = (if unat u = unat t then 0 else owner_key (objtype_state u s))"
  "last_id_issued (objtype_state u (ticked t s)) = last_id_issued (objtype_state u s)"
  by (simp_all add: ticked_def objtype_state_def)

lemma tables_acquired [simp]:
  "OS_task_table (acquired t k s) = OS_task_table s"
  "OS_queue_table (acquired t k s) = OS_queue_table s"
  "OS_bin_sem_table (acquired t k s) = OS_bin_sem_table s"
  "OS_count_sem_table (acquired t k s) = OS_count_sem_table s"
  "OS_mutex_table (acquired t k s) = OS_mutex_table s"
  "OS_rwlock_table (acquired t k s) = OS_rwlock_table s"
  "OS_condvar_table (acquired t k s) = OS_condvar_table s"
  "OS_stream_table (acquired t k s) = OS_stream_table s"
  "OS_dir_table (acquired t k s) = OS_dir_table s"
  "OS_timebase_table (acquired t k s) = OS_timebase_table s"
  "OS_timecb_table (acquired t k s) = OS_timecb_table s"
  "OS_module_table (acquired t k s) = OS_module_table s"
  "OS_filesys_table (acquired t k s) = OS_filesys_table s"
  "OS_console_table (acquired t k s) = OS_console_table s"
  by (simp_all add: acquired_def OS_Lock_Global_Impl_def)

lemma tables_ticked [simp]:
  "OS_task_table (ticked t s) = OS_task_table s"
  "OS_queue_table (ticked t s) = OS_queue_table s"
  "OS_bin_sem_table (ticked t s) = OS_bin_sem_table s"
  "OS_count_sem_table (ticked t s) = OS_count_sem_table s"
  "OS_mutex_table (ticked t s) = OS_mutex_table s"
  "OS_rwlock_table (ticked t s) = OS_rwlock_table s"
  "OS_condvar_table (ticked t s) = OS_condvar_table s"
  "OS_stream_table (ticked t s) = OS_stream_table s"
  "OS_dir_table (ticked t s) = OS_dir_table s"
  "OS_timebase_table (ticked t s) = OS_timebase_table s"
  "OS_timecb_table (ticked t s) = OS_timecb_table s"
  "OS_module_table (ticked t s) = OS_module_table s"
  "OS_filesys_table (ticked t s) = OS_filesys_table s"
  "OS_console_table (ticked t s) = OS_console_table s"
  by (simp_all add: ticked_def)

text \<open>Changes of other parts of the state move inside.\<close>

lemma upd_common_acquired: "upd_common r f (acquired t k s) = acquired t k (upd_common r f s)"
  by (simp add: acquired_def upd_common_def upd_objtype_def OS_Lock_Global_Impl_def)

lemma upd_common_ticked: "upd_common r f (ticked t s) = ticked t (upd_common r f s)"
  by (simp add: ticked_def upd_common_def upd_objtype_def)

lemma impl_acquired: "(acquired t k s)\<lparr>impl := i\<rparr> = acquired t k (s\<lparr>impl := i\<rparr>)"
  by (simp add: acquired_def upd_objtype_def OS_Lock_Global_Impl_def)

lemma upd_common_upd_common [simp]: "upd_common r f (upd_common r g s) = upd_common r (f \<circ> g) s"
  by (simp add: upd_common_def)

subsection \<open>Lock keys\<close>

lemma key_prefix: "(0x4D000000 OR (x AND 0xFFFFFF)) AND 0xFF000000 = (0x4D000000 :: u32)"
proof -
  have "(x AND 0xFFFFFF) AND 0xFF000000 = x AND ((0xFFFFFF :: u32) AND 0xFF000000)"
    by (simp only: and.assoc)
  also have "\<dots> = 0" by simp
  finally show ?thesis by (simp add: bit.conj_disj_distrib2)
qed

lemma key_nonzero: "0x4D000000 OR (x AND 0xFFFFFF) \<noteq> (0 :: u32)"
  using key_prefix[of x] by auto

definition lock_free :: "osal_objtype_t \<Rightarrow> 'i os_state \<Rightarrow> bool" where
  "lock_free t s \<longleftrightarrow> owner_key (objtype_state t s) = 0 \<and> table_lock s (unat t) = 0"

lemma lock_free_simps [simp]:
  "lock_free t (upd_common r f s) = lock_free t s"
  "lock_free t (s\<lparr>impl := i\<rparr>) = lock_free t s"
  by (simp_all add: lock_free_def objtype_state_def)

lemma lock_free_ticked [simp]: "lock_free t s \<Longrightarrow> lock_free t (ticked u s)"
  by (simp add: lock_free_def)

text \<open>Locking a free table succeeds without a diagnostic; the key carries the marker byte.\<close>

lemma Lock_Global_free:
  assumes "lock_free (obj_type token) s" "obj_type token < OS_OBJECT_TYPE_USER"
    and "lock_mode token \<noteq> OS_LOCK_MODE_NONE"
  obtains k where "k AND 0xFF000000 = 0x4D000000"
    and "OS_Lock_Global env token s = (token\<lparr>lock_key := k\<rparr>, acquired (obj_type token) k s)"
proof -
  define x where "x = (if OS_ObjectIdIsValid (OS_TaskGetId_Impl env (impl s)) then OS_TaskGetId_Impl env (impl s)
                       else OS_OBJECT_ID_RESERVED) XOR transaction_count (objtype_state (obj_type token) s)"
  let ?k = "0x4D000000 OR (x AND 0xFFFFFF)"
  have "OS_Lock_Global env token s = (token\<lparr>lock_key := ?k\<rparr>, acquired (obj_type token) ?k s)"
    using assms
    by (simp add: OS_Lock_Global_def Let_def x_def acquired_def OS_Lock_Global_Impl_def
        objtype_state_def lock_free_def upd_objtype_def)
  then show thesis using that key_prefix by blast
qed

lemma Unlock_Global_acquired:
  assumes "lock_free (obj_type token) s" "obj_type token < OS_OBJECT_TYPE_USER"
    and "lock_mode token \<noteq> OS_LOCK_MODE_NONE" "lock_key token AND 0xFF000000 = 0x4D000000"
  shows "OS_Unlock_Global token (acquired (obj_type token) (lock_key token) s)
    = (token\<lparr>lock_key := 0\<rparr>, ticked (obj_type token) s)"
  using assms
  by (simp add: OS_Unlock_Global_def Let_def acquired_def ticked_def OS_Lock_Global_Impl_def
      OS_Unlock_Global_Impl_def objtype_state_def upd_objtype_def lock_free_def fun_upd_idem_iff)

subsection \<open>Live objects and tokens\<close>

definition running :: "'i os_state \<Rightarrow> bool" where
  "running s \<longleftrightarrow> GlobalState (OS_SharedGlobalVars s) = OS_INIT_MAGIC_NUMBER"

definition index_of :: "osal_id_t \<Rightarrow> osal_index_t" where
  "index_of i = OS_ObjectIdToSerialNumber_Impl i mod OS_GetMaxForObjectType (OS_ObjectIdToType_Impl i)"

definition record_of :: "osal_objtype_t \<Rightarrow> osal_index_t \<Rightarrow> nat" where
  "record_of t k = unat (OS_GetBaseForObjectType t + k)"

definition id_of_type :: "osal_objtype_t \<Rightarrow> osal_id_t \<Rightarrow> bool" where
  "id_of_type t i \<longleftrightarrow> OS_ObjectIdToType_Impl i = t \<and> OS_GetMaxForObjectType t \<noteq> 0"

definition live :: "osal_objtype_t \<Rightarrow> osal_id_t \<Rightarrow> 'i os_state \<Rightarrow> bool" where
  "live t i s \<longleftrightarrow> id_of_type t i \<and> active_id (OS_common_table s (record_of t (index_of i))) = i"

abbreviation tok :: "OS_lock_mode \<Rightarrow> u32 \<Rightarrow> osal_objtype_t \<Rightarrow> osal_index_t \<Rightarrow> osal_id_t \<Rightarrow> OS_object_token" where
  "tok m k t j i \<equiv> \<lparr>lock_mode = m, lock_key = k, obj_type = t, obj_idx = j, obj_id = i\<rparr>"

lemma running_simps [simp]:
  "running (upd_common r f s) = running s" "running (upd_objtype t g s) = running s"
  "running (acquired t k s) = running s" "running (ticked t s) = running s"
  "running (s\<lparr>impl := i\<rparr>) = running s"
  by (simp_all add: running_def)

lemma id_of_type_facts:
  assumes "id_of_type t i"
  shows "OS_ObjectIdIsValid i" "i \<noteq> 0" "i \<noteq> OS_OBJECT_ID_RESERVED" "t < OS_OBJECT_TYPE_USER" "0 < t"
    and "index_of i < OS_GetMaxForObjectType t"
    and "OS_ObjectIdToArrayIndex True t i = (OS_SUCCESS, Some (index_of i))"
proof -
  from assms have t: "OS_ObjectIdToType_Impl i = t" and m: "OS_GetMaxForObjectType t \<noteq> 0"
    by (auto simp: id_of_type_def)
  from max_nonzero_valid_type[OF m] show "0 < t" "t < OS_OBJECT_TYPE_USER" by auto
  then show v: "OS_ObjectIdIsValid i" by (simp add: OS_ObjectIdIsValid_def t)
  from v show "i \<noteq> 0" "i \<noteq> OS_OBJECT_ID_RESERVED"
    by (simp_all only: valid_not_undefined valid_not_reserved not_False_eq_True)
  from m show "index_of i < OS_GetMaxForObjectType t"
    by (simp add: index_of_def t word_mod_less_divisor word_greater_zero_iff)
  from m \<open>0 < t\<close> show "OS_ObjectIdToArrayIndex True t i = (OS_SUCCESS, Some (index_of i))"
    by (simp add: OS_ObjectIdToArrayIndex_def index_of_def t Let_def)
qed

lemma GlobalFromToken_tok [simp]: "OS_ObjectIdGlobalFromToken (tok m k t j i) = record_of t j"
  by (simp add: OS_ObjectIdGlobalFromToken_def record_of_def)

subsection \<open>Beginning a transaction\<close>

lemma TransactionInit_none:
  assumes "running s" "OS_GetMaxForObjectType t \<noteq> 0"
  shows "OS_ObjectIdTransactionInit env OS_LOCK_MODE_NONE t s
    = (OS_SUCCESS, tok OS_LOCK_MODE_NONE 0 t (- 1) 0, s)"
  using assms by (simp add: OS_ObjectIdTransactionInit_def running_def zero_token_def)

lemma TransactionInit_locked:
  assumes "running s" "OS_GetMaxForObjectType t \<noteq> 0" "lock_free t s" "m \<noteq> OS_LOCK_MODE_NONE"
  obtains k where "k AND 0xFF000000 = 0x4D000000"
    and "OS_ObjectIdTransactionInit env m t s = (OS_SUCCESS, tok m k t (- 1) 0, acquired t k s)"
proof -
  let ?t = "tok m 0 t (- 1) 0"
  have "lock_free (obj_type ?t) s" "obj_type ?t < OS_OBJECT_TYPE_USER" "lock_mode ?t \<noteq> OS_LOCK_MODE_NONE"
    using assms max_nonzero_valid_type(2)[OF assms(2)] by simp_all
  then obtain k where k: "k AND 0xFF000000 = 0x4D000000"
    and l: "OS_Lock_Global env ?t s = (?t\<lparr>lock_key := k\<rparr>, acquired (obj_type ?t) k s)"
    by (rule Lock_Global_free)
  from assms l have "OS_ObjectIdTransactionInit env m t s = (OS_SUCCESS, tok m k t (- 1) 0, acquired t k s)"
    by (simp add: OS_ObjectIdTransactionInit_def running_def zero_token_def)
  with k show thesis by (rule that)
qed

lemma TransactionCancel_acquired:
  assumes "lock_free t s" "t < OS_OBJECT_TYPE_USER" "m \<noteq> OS_LOCK_MODE_NONE" "k AND 0xFF000000 = 0x4D000000"
  shows "OS_ObjectIdTransactionCancel (tok m k t j i) (acquired t k s)
    = (tok OS_LOCK_MODE_NONE 0 t j i, ticked t s)"
  using assms Unlock_Global_acquired[of "tok m k t j i" s]
  by (simp add: OS_ObjectIdTransactionCancel_def)

subsection \<open>Converting a token without contention\<close>

lemma ConvertToken_invalid:
  assumes "OS_ObjectIdIsValid i" "active_id (OS_common_table s (record_of t j)) \<noteq> i"
    and "m = OS_LOCK_MODE_NONE \<or> active_id (OS_common_table s (record_of t j)) \<noteq> OS_OBJECT_ID_RESERVED"
    and "m \<noteq> OS_LOCK_MODE_RESERVED"
  shows "OS_ObjectIdConvertToken env (tok m k t j i) s = (OS_ERR_INVALID_ID, tok m k t j i, s)"
  using assms valid_not_reserved[OF assms(1)]
  by (auto simp: OS_ObjectIdConvertToken_def Let_def ConvertToken_loop.simps ConvertToken_body_def)

lemma ConvertToken_none:
  assumes "OS_ObjectIdIsValid i" "active_id (OS_common_table s (record_of t j)) = i"
  shows "OS_ObjectIdConvertToken env (tok OS_LOCK_MODE_NONE k t j i) s
    = (OS_SUCCESS, tok OS_LOCK_MODE_NONE k t j i, s)"
  using assms
  by (simp add: OS_ObjectIdConvertToken_def Let_def ConvertToken_loop.simps ConvertToken_body_def)

lemma ConvertToken_global:
  assumes "OS_ObjectIdIsValid i" "active_id (OS_common_table s (record_of t j)) = i"
  shows "OS_ObjectIdConvertToken env (tok OS_LOCK_MODE_GLOBAL k t j i) s
    = (OS_SUCCESS, tok OS_LOCK_MODE_GLOBAL k t j i,
       upd_common (record_of t j) (\<lambda>ob. ob\<lparr>refcount := refcount ob + 1\<rparr>) s)"
  using assms
  by (simp add: OS_ObjectIdConvertToken_def Let_def ConvertToken_loop.simps ConvertToken_body_def)

lemma ConvertToken_refcount:
  assumes "OS_ObjectIdIsValid i" "active_id (OS_common_table s (record_of t j)) = i"
    and "lock_free t s" "t < OS_OBJECT_TYPE_USER" "k AND 0xFF000000 = 0x4D000000"
  shows "OS_ObjectIdConvertToken env (tok OS_LOCK_MODE_REFCOUNT k t j i) (acquired t k s)
    = (OS_SUCCESS, tok OS_LOCK_MODE_REFCOUNT 0 t j i,
       ticked t (upd_common (record_of t j) (\<lambda>ob. ob\<lparr>refcount := refcount ob + 1\<rparr>) s))"
  using assms Unlock_Global_acquired[of "tok OS_LOCK_MODE_REFCOUNT k t j i"
      "upd_common (record_of t j) (\<lambda>ob. ob\<lparr>refcount := refcount ob + 1\<rparr>) s"]
  by (simp add: OS_ObjectIdConvertToken_def Let_def ConvertToken_loop.simps ConvertToken_body_def
      upd_common_acquired)

lemma ConvertToken_exclusive:
  assumes "OS_ObjectIdIsValid i" "active_id (OS_common_table s (record_of t j)) = i"
    and "refcount (OS_common_table s (record_of t j)) = 0"
    and "lock_free t s" "t < OS_OBJECT_TYPE_USER" "k AND 0xFF000000 = 0x4D000000"
  shows "OS_ObjectIdConvertToken env (tok OS_LOCK_MODE_EXCLUSIVE k t j i) (acquired t k s)
    = (OS_SUCCESS, tok OS_LOCK_MODE_EXCLUSIVE 0 t j i,
       ticked t (upd_common (record_of t j) (\<lambda>ob. ob\<lparr>active_id := OS_OBJECT_ID_RESERVED, refcount := 1\<rparr>) s))"
proof -
  let ?f = "\<lambda>ob. ob\<lparr>refcount := refcount ob + 1\<rparr>" and ?g = "\<lambda>ob. ob\<lparr>active_id := OS_OBJECT_ID_RESERVED\<rparr>"
  have eq: "upd_common (record_of t j) (\<lambda>ob. ob\<lparr>active_id := OS_OBJECT_ID_RESERVED, refcount := 1\<rparr>) s
      = upd_common (record_of t j) (?f \<circ> ?g) s"
    using assms(3) by (simp add: upd_common_def)
  show ?thesis
    unfolding eq
    using assms valid_not_reserved[OF assms(1)] Unlock_Global_acquired[of "tok OS_LOCK_MODE_EXCLUSIVE k t j i"
        "upd_common (record_of t j) (?f \<circ> ?g) s"]
    by (simp add: OS_ObjectIdConvertToken_def Let_def ConvertToken_loop.simps ConvertToken_body_def
        upd_common_acquired)
qed

subsection \<open>Obtaining an object by its ID\<close>

lemma GetById_none:
  assumes "running s" "live t i s"
  shows "OS_ObjectIdGetById env OS_LOCK_MODE_NONE t i s
    = (OS_SUCCESS, tok OS_LOCK_MODE_NONE 0 t (index_of i) i, s)"
  using assms id_of_type_facts[of t i]
  by (simp add: OS_ObjectIdGetById_def live_def id_of_type_def TransactionInit_none ConvertToken_none)

lemma GetById_global:
  assumes "running s" "live t i s" "lock_free t s"
  obtains k where "k AND 0xFF000000 = 0x4D000000"
    and "OS_ObjectIdGetById env OS_LOCK_MODE_GLOBAL t i s
      = (OS_SUCCESS, tok OS_LOCK_MODE_GLOBAL k t (index_of i) i,
         acquired t k (upd_common (record_of t (index_of i)) (\<lambda>ob. ob\<lparr>refcount := refcount ob + 1\<rparr>) s))"
proof -
  from assms(2) have id: "id_of_type t i" and m: "OS_GetMaxForObjectType t \<noteq> 0"
    by (auto simp: live_def id_of_type_def)
  from TransactionInit_locked[OF assms(1) m assms(3), of OS_LOCK_MODE_GLOBAL env]
  obtain k where "k AND 0xFF000000 = 0x4D000000"
    and "OS_ObjectIdTransactionInit env OS_LOCK_MODE_GLOBAL t s
      = (OS_SUCCESS, tok OS_LOCK_MODE_GLOBAL k t (- 1) 0, acquired t k s)" by auto
  with that[of k] id_of_type_facts[OF id] assms(2) show thesis
    by (simp add: OS_ObjectIdGetById_def live_def ConvertToken_global upd_common_acquired)
qed

lemma GetById_refcount:
  assumes "running s" "live t i s" "lock_free t s"
  shows "OS_ObjectIdGetById env OS_LOCK_MODE_REFCOUNT t i s
    = (OS_SUCCESS, tok OS_LOCK_MODE_REFCOUNT 0 t (index_of i) i,
       ticked t (upd_common (record_of t (index_of i)) (\<lambda>ob. ob\<lparr>refcount := refcount ob + 1\<rparr>) s))"
proof -
  from assms(2) have id: "id_of_type t i" and m: "OS_GetMaxForObjectType t \<noteq> 0"
    by (auto simp: live_def id_of_type_def)
  from TransactionInit_locked[OF assms(1) m assms(3), of OS_LOCK_MODE_REFCOUNT env]
  obtain k where "k AND 0xFF000000 = 0x4D000000"
    and "OS_ObjectIdTransactionInit env OS_LOCK_MODE_REFCOUNT t s
      = (OS_SUCCESS, tok OS_LOCK_MODE_REFCOUNT k t (- 1) 0, acquired t k s)" by auto
  with id_of_type_facts[OF id] assms show ?thesis
    by (simp add: OS_ObjectIdGetById_def live_def ConvertToken_refcount)
qed

lemma GetById_exclusive:
  assumes "running s" "live t i s" "lock_free t s"
    and "refcount (OS_common_table s (record_of t (index_of i))) = 0"
  shows "OS_ObjectIdGetById env OS_LOCK_MODE_EXCLUSIVE t i s
    = (OS_SUCCESS, tok OS_LOCK_MODE_EXCLUSIVE 0 t (index_of i) i,
       ticked t (upd_common (record_of t (index_of i))
         (\<lambda>ob. ob\<lparr>active_id := OS_OBJECT_ID_RESERVED, refcount := 1\<rparr>) s))"
proof -
  from assms(2) have id: "id_of_type t i" and m: "OS_GetMaxForObjectType t \<noteq> 0"
    by (auto simp: live_def id_of_type_def)
  from TransactionInit_locked[OF assms(1) m assms(3), of OS_LOCK_MODE_EXCLUSIVE env]
  obtain k where "k AND 0xFF000000 = 0x4D000000"
    and "OS_ObjectIdTransactionInit env OS_LOCK_MODE_EXCLUSIVE t s
      = (OS_SUCCESS, tok OS_LOCK_MODE_EXCLUSIVE k t (- 1) 0, acquired t k s)" by auto
  with id_of_type_facts[OF id] assms show ?thesis
    by (simp add: OS_ObjectIdGetById_def live_def ConvertToken_exclusive)
qed

text \<open>An ID of another type, or one that its record does not hold, is refused.\<close>

lemma GetById_not_live:
  assumes "running s" "OS_GetMaxForObjectType t \<noteq> 0" "lock_free t s" "m \<noteq> OS_LOCK_MODE_RESERVED"
    and "\<not> live t i s"
    and "id_of_type t i \<Longrightarrow> active_id (OS_common_table s (record_of t (index_of i))) \<noteq> OS_OBJECT_ID_RESERVED"
  obtains token where "lock_mode token = OS_LOCK_MODE_NONE"
    and "OS_ObjectIdGetById env m t i s
      = (OS_ERR_INVALID_ID, token, if m = OS_LOCK_MODE_NONE then s else ticked t s)"
proof (cases "id_of_type t i")
  case False
  then have a: "OS_ObjectIdToArrayIndex True t i = (OS_ERR_INVALID_ID, None)"
    using assms(2) max_nonzero_valid_type[OF assms(2)]
    by (auto simp: OS_ObjectIdToArrayIndex_def id_of_type_def Let_def)
  show thesis
  proof (cases "m = OS_LOCK_MODE_NONE")
    case True
    then show thesis using that[of "tok OS_LOCK_MODE_NONE 0 t (- 1) 0"] assms a
      by (simp add: OS_ObjectIdGetById_def TransactionInit_none OS_ObjectIdTransactionCancel_def)
  next
    case False
    from TransactionInit_locked[OF assms(1,2,3) this, of env] obtain k
      where k: "k AND 0xFF000000 = 0x4D000000"
        and "OS_ObjectIdTransactionInit env m t s = (OS_SUCCESS, tok m k t (- 1) 0, acquired t k s)" by auto
    with a that[of "tok OS_LOCK_MODE_NONE 0 t (- 1) 0"] assms False max_nonzero_valid_type(2)[OF assms(2)]
    show thesis by (simp add: OS_ObjectIdGetById_def TransactionCancel_acquired)
  qed
next
  case True': True
  note f = id_of_type_facts[OF True']
  from True' assms(5) have n: "active_id (OS_common_table s (record_of t (index_of i))) \<noteq> i"
    by (simp add: live_def)
  show thesis
  proof (cases "m = OS_LOCK_MODE_NONE")
    case True
    then show thesis using that[of "tok OS_LOCK_MODE_NONE 0 t (index_of i) i"] assms(1-5) assms(6)[OF True'] f n
      by (simp add: OS_ObjectIdGetById_def TransactionInit_none OS_ObjectIdTransactionCancel_def
          ConvertToken_invalid)
  next
    case False
    from TransactionInit_locked[OF assms(1,2,3) this, of env] obtain k
      where k: "k AND 0xFF000000 = 0x4D000000"
        and "OS_ObjectIdTransactionInit env m t s = (OS_SUCCESS, tok m k t (- 1) 0, acquired t k s)" by auto
    with that[of "tok OS_LOCK_MODE_NONE 0 t (index_of i) i"] assms(1-5) assms(6)[OF True'] False f n
    show thesis by (simp add: OS_ObjectIdGetById_def TransactionCancel_acquired ConvertToken_invalid)
  qed
qed

subsection \<open>Finishing a transaction\<close>

definition drop_ref :: "OS_common_record \<Rightarrow> OS_common_record" where
  "drop_ref ob = (if 0 < refcount ob then ob\<lparr>refcount := refcount ob - 1\<rparr> else ob)"

lemma drop_ref_1 [simp]: "refcount ob = 0 \<Longrightarrow> drop_ref (ob\<lparr>refcount := 1\<rparr>) = ob"
  by (cases ob) (simp add: drop_ref_def)

lemma upd_common_cong: "f (OS_common_table s r) = g (OS_common_table s r) \<Longrightarrow> upd_common r f s = upd_common r g s"
  by (simp add: upd_common_def)

lemma upd_common_id: "f (OS_common_table s r) = OS_common_table s r \<Longrightarrow> upd_common r f s = s"
  by (simp add: upd_common_def)

lemma TransactionFinish_none:
  "OS_ObjectIdTransactionFinish env (tok OS_LOCK_MODE_NONE k t j i) f s = (tok OS_LOCK_MODE_NONE k t j i, s)"
  by (simp add: OS_ObjectIdTransactionFinish_def)

text \<open>\<open>final_record\<close>: what the common record becomes when a token is given back.\<close>

definition final_record :: "OS_lock_mode \<Rightarrow> osal_id_t \<Rightarrow> osal_id_t option \<Rightarrow> OS_common_record \<Rightarrow> OS_common_record" where
  "final_record m i final_id ob =
    (case final_id of
       Some j \<Rightarrow> (drop_ref ob)\<lparr>active_id := j\<rparr>
     | None \<Rightarrow> if m = OS_LOCK_MODE_EXCLUSIVE then (drop_ref ob)\<lparr>active_id := i\<rparr> else drop_ref ob)"

lemma TransactionFinish_unlocked:
  assumes "lock_free t s" "t < OS_OBJECT_TYPE_USER"
    and "m = OS_LOCK_MODE_EXCLUSIVE \<or> m = OS_LOCK_MODE_REFCOUNT"
  shows "OS_ObjectIdTransactionFinish env (tok m k t j i) f s
    = (tok OS_LOCK_MODE_NONE 0 t j i, ticked t (upd_common (record_of t j) (final_record m i f) s))"
proof -
  from assms(3) have m: "m \<noteq> OS_LOCK_MODE_NONE" by auto
  let ?t = "tok m k t j i"
  from assms m obtain k' where k': "k' AND 0xFF000000 = 0x4D000000"
    and l: "OS_Lock_Global env ?t s = (tok m k' t j i, acquired t k' s)"
    using Lock_Global_free[of ?t s env] by auto
  have u: "OS_Unlock_Global (tok m' k' t j i) (acquired t k' s') = (tok m' 0 t j i, ticked t s')"
    if "lock_free t s'" "m' \<noteq> OS_LOCK_MODE_NONE" for s' m'
    using Unlock_Global_acquired[of "tok m' k' t j i" s'] that assms(2) k' by simp
  show ?thesis
    using assms m
    by (auto simp: OS_ObjectIdTransactionFinish_def l Let_def upd_common_acquired u final_record_def
        drop_ref_def comp_def split: option.splits
        intro!: upd_common_cong upd_common_id[symmetric] arg_cong[where f = "ticked t"])
qed

lemma TransactionFinish_global:
  assumes "lock_free t s" "t < OS_OBJECT_TYPE_USER" "k AND 0xFF000000 = 0x4D000000"
  shows "OS_ObjectIdTransactionFinish env (tok OS_LOCK_MODE_GLOBAL k t j i) f (acquired t k s)
    = (tok OS_LOCK_MODE_NONE 0 t j i, ticked t (upd_common (record_of t j) (final_record OS_LOCK_MODE_GLOBAL i f) s))"
proof -
  have u: "OS_Unlock_Global (tok OS_LOCK_MODE_GLOBAL k t j i) (acquired t k s')
      = (tok OS_LOCK_MODE_GLOBAL 0 t j i, ticked t s')" if "lock_free t s'" for s'
    using Unlock_Global_acquired[of "tok OS_LOCK_MODE_GLOBAL k t j i" s'] that assms by simp
  show ?thesis
    using assms
    by (auto simp: OS_ObjectIdTransactionFinish_def Let_def upd_common_acquired u drop_ref_def final_record_def
        comp_def split: option.splits
        intro!: upd_common_cong upd_common_id[symmetric] arg_cong[where f = "ticked t"])
qed

text \<open>Taking a reference and giving it back leaves the record as it was.\<close>

lemma Release_refcount:
  assumes "lock_free t s" "t < OS_OBJECT_TYPE_USER" "refcount (OS_common_table s (record_of t j)) = 0"
  shows "OS_ObjectIdRelease env (tok OS_LOCK_MODE_REFCOUNT k t j i)
      (ticked t (upd_common (record_of t j) (\<lambda>ob. ob\<lparr>refcount := refcount ob + 1\<rparr>) s))
    = (tok OS_LOCK_MODE_NONE 0 t j i, ticked t (ticked t s))"
  using assms
  by (simp add: OS_ObjectIdRelease_def TransactionFinish_unlocked upd_common_ticked)
    (simp add: upd_common_id final_record_def )

lemma Release_global:
  assumes "lock_free t s" "t < OS_OBJECT_TYPE_USER" "k AND 0xFF000000 = 0x4D000000"
    and "refcount (OS_common_table s (record_of t j)) = 0"
  shows "OS_ObjectIdRelease env (tok OS_LOCK_MODE_GLOBAL k t j i)
      (acquired t k (upd_common (record_of t j) (\<lambda>ob. ob\<lparr>refcount := refcount ob + 1\<rparr>) s))
    = (tok OS_LOCK_MODE_NONE 0 t j i, ticked t s)"
  using assms
  by (simp add: OS_ObjectIdRelease_def TransactionFinish_global)
    (simp add: upd_common_id final_record_def)

subsection \<open>The search for a free record\<close>

lemma next_serial:
  assumes "serial \<le> OS_OBJECT_INDEX_MASK" "0 < max_id" "max_id < OS_OBJECT_INDEX_MASK"
    and "serial2 = (if serial + 1 \<ge> OS_OBJECT_INDEX_MASK then (serial + 1) mod max_id else serial + 1)"
  shows "serial2 \<le> OS_OBJECT_INDEX_MASK" and "serial2 mod max_id = (serial + 1) mod max_id"
    and "unat serial2 mod unat max_id = (unat serial + 1) mod unat max_id"
proof -
  have lt: "(serial + 1) mod max_id < max_id"
    using assms(2) by (simp add: word_mod_less_divisor)
  with assms(3,4) show "serial2 \<le> OS_OBJECT_INDEX_MASK" by auto
  have "((serial + 1) mod max_id) mod max_id = (serial + 1) mod max_id"
    by (simp add: word_unat_eq_iff unat_mod_distrib)
  with assms(4) show m: "serial2 mod max_id = (serial + 1) mod max_id" by auto
  have "unat (serial + 1) = unat serial + 1"
    using assms(1) by (intro unat_plus1_less[of _ "0x10000"]) (simp add: word_le_nat_alt word_less_nat_alt)
  with m show "unat serial2 mod unat max_id = (unat serial + 1) mod unat max_id"
    by (metis unat_mod_distrib)
qed

lemma FindNextFree_loop_Some:
  assumes "FindNextFree_loop s base max_id n serial = Some (k, ser)"
    and "serial \<le> OS_OBJECT_INDEX_MASK" "0 < max_id" "max_id < OS_OBJECT_INDEX_MASK"
  shows "k < max_id \<and> ser \<le> OS_OBJECT_INDEX_MASK \<and> ser mod max_id = k
    \<and> \<not> OS_ObjectIdDefined (active_id (OS_common_table s (unat (k + base))))"
  using assms(1,2)
proof (induction n arbitrary: serial)
  case (Suc n)
  define serial2 where
    "serial2 = (if serial + 1 \<ge> OS_OBJECT_INDEX_MASK then (serial + 1) mod max_id else serial + 1)"
  note ns = next_serial[OF Suc.prems(2) assms(3,4) serial2_def]
  show ?case
  proof (cases "OS_ObjectIdDefined (active_id (OS_common_table s (unat ((serial + 1) mod max_id + base))))")
    case True
    with Suc.prems(1) have "FindNextFree_loop s base max_id n serial2 = Some (k, ser)"
      by (simp add: Let_def serial2_def)
    with ns(1) Suc.IH show ?thesis by blast
  next
    case False
    with Suc.prems(1) have "k = (serial + 1) mod max_id" "ser = serial2"
      by (auto simp: Let_def serial2_def)
    with False ns assms(3) show ?thesis by (simp add: word_mod_less_divisor)
  qed
qed simp

lemma FindNextFree_loop_None:
  assumes "FindNextFree_loop s base max_id n serial = None"
    and "serial \<le> OS_OBJECT_INDEX_MASK" "0 < max_id" "max_id < OS_OBJECT_INDEX_MASK"
    and "d < n" "unat k = (unat serial + 1 + d) mod unat max_id"
  shows "OS_ObjectIdDefined (active_id (OS_common_table s (unat (k + base))))"
  using assms(1,2,5,6)
proof (induction n arbitrary: serial d)
  case (Suc n)
  define serial2 where
    "serial2 = (if serial + 1 \<ge> OS_OBJECT_INDEX_MASK then (serial + 1) mod max_id else serial + 1)"
  note ns = next_serial[OF Suc.prems(2) assms(3,4) serial2_def]
  have here: "OS_ObjectIdDefined (active_id (OS_common_table s (unat ((serial + 1) mod max_id + base))))"
    and rest: "FindNextFree_loop s base max_id n serial2 = None"
    using Suc.prems(1) by (auto simp: Let_def serial2_def split: if_splits)
  show ?case
  proof (cases d)
    case 0
    with Suc.prems(4) ns have "unat k = unat ((serial + 1) mod max_id)"
      by (metis add.right_neutral unat_mod_distrib)
    then have "k = (serial + 1) mod max_id" by (simp only: word_unat_eq_iff)
    with here show ?thesis by simp
  next
    case (Suc d')
    have "unat k = (unat serial2 + 1 + d') mod unat max_id"
      using Suc.prems(4) ns(3) Suc by (simp add: mod_simps) (metis add_Suc_right mod_add_left_eq plus_1_eq_Suc add.assoc)
    with rest ns(1) Suc.IH[of serial2 d'] Suc.prems(3) Suc show ?thesis by simp
  qed
qed simp

text \<open>
  \<open>free_slot t s k\<close>: record \<open>k\<close> of type \<open>t\<close> holds no object. \<open>issued\<close> is the state
  after the ID \<open>i\<close> has been entered into record \<open>r\<close>.
\<close>

definition free_slot :: "osal_objtype_t \<Rightarrow> 'i os_state \<Rightarrow> osal_index_t \<Rightarrow> bool" where
  "free_slot t s k \<longleftrightarrow> k < OS_GetMaxForObjectType t
     \<and> \<not> OS_ObjectIdDefined (active_id (OS_common_table s (record_of t k)))"

definition issued :: "osal_objtype_t \<Rightarrow> osal_id_t \<Rightarrow> osal_id_t \<Rightarrow> u16 \<Rightarrow> osal_id_t \<Rightarrow> 'i os_state \<Rightarrow> 'i os_state" where
  "issued t i act rc c s =
     upd_objtype t (\<lambda>ob. ob\<lparr>last_id_issued := i\<rparr>)
       (upd_common (record_of t (index_of i)) (\<lambda>_. \<lparr>name_entry = None, active_id = act, creator = c, refcount = rc\<rparr>) s)"

text \<open>
  A free record is found exactly when there is one, whatever ID was issued last; the new ID has
  the right type and leads back to the record it was issued for.
\<close>

lemma FindNextFree_found:
  assumes "free_slot t s k0" "obj_type token = t"
  obtains i where "id_of_type t i" "free_slot t s (index_of i)"
    and "OS_ObjectIdFindNextFree env token s
      = (OS_SUCCESS, token\<lparr>obj_idx := index_of i, obj_id := i\<rparr>, issued t i i 0 (OS_TaskGetId env s) s)"
proof -
  let ?b = "OS_GetBaseForObjectType t" and ?m = "OS_GetMaxForObjectType t"
    and ?ser = "OS_ObjectIdToSerialNumber_Impl (last_id_issued (objtype_state t s))"
  from assms(1) have k0: "k0 < ?m" by (simp add: free_slot_def)
  then have m: "0 < ?m" by (metis word_not_simps(1) word_gt_0)
  have "FindNextFree_loop s ?b ?m (unat ?m) ?ser \<noteq> None"
  proof
    assume none: "FindNextFree_loop s ?b ?m (unat ?m) ?ser = None"
    have "unat k0 < unat ?m" using k0 by (simp add: word_less_nat_alt)
    from residue_reached[OF this] obtain d where "d < unat ?m" "unat k0 = (unat ?ser + 1 + d) mod unat ?m"
      by metis
    then have "OS_ObjectIdDefined (active_id (OS_common_table s (unat (k0 + ?b))))"
      using FindNextFree_loop_None[OF none serial_le_mask m max_lt_mask] by blast
    with assms(1) show False by (simp add: free_slot_def record_of_def add.commute)
  qed
  then obtain k ser where l: "FindNextFree_loop s ?b ?m (unat ?m) ?ser = Some (k, ser)" by auto
  note f = FindNextFree_loop_Some[OF l serial_le_mask m max_lt_mask]
  let ?i = "OS_ObjectIdCompose_Impl t ser"
  from m have t: "t < OS_OBJECT_TYPE_USER" "0 < t" using max_nonzero_valid_type[of t] by auto
  have id: "id_of_type t ?i" and ix: "index_of ?i = k"
    using f t m by (auto simp: id_of_type_def index_of_def)
  moreover have "free_slot t s (index_of ?i)"
    using f ix by (simp add: free_slot_def record_of_def add.commute)
  moreover have "OS_ObjectIdFindNextFree env token s
      = (OS_SUCCESS, token\<lparr>obj_idx := index_of ?i, obj_id := ?i\<rparr>, issued t ?i ?i 0 (OS_TaskGetId env s) s)"
    using m l ix assms(2)
    by (simp add: OS_ObjectIdFindNextFree_def Let_def issued_def record_of_def add.commute)
  ultimately show thesis using that by blast
qed

lemma FindNextFree_full:
  assumes "OS_GetMaxForObjectType t \<noteq> 0" "\<And>k. \<not> free_slot t s k" "obj_type token = t"
  shows "OS_ObjectIdFindNextFree env token s
    = (OS_ERR_NO_FREE_IDS, token\<lparr>obj_idx := - 1, obj_id := OS_OBJECT_ID_UNDEFINED\<rparr>, s)"
proof (cases "FindNextFree_loop s (OS_GetBaseForObjectType t) (OS_GetMaxForObjectType t)
    (unat (OS_GetMaxForObjectType t)) (OS_ObjectIdToSerialNumber_Impl (last_id_issued (objtype_state t s)))")
  case None
  with assms show ?thesis by (simp add: OS_ObjectIdFindNextFree_def Let_def)
next
  case (Some a)
  obtain k ser where a: "a = (k, ser)" by fastforce
  from assms(1) have m: "0 < OS_GetMaxForObjectType t" by (simp add: word_greater_zero_iff)
  from FindNextFree_loop_Some[OF Some[unfolded a] serial_le_mask m max_lt_mask]
  have "free_slot t s k" by (simp add: free_slot_def record_of_def add.commute)
  with assms(2) show ?thesis by blast
qed

subsection \<open>The search for a matching record\<close>

lemma scan_from_least:
  assumes "idx + 1 \<le> k" "k < count" "accept k"
  shows "scan_from accept count idx \<le> k"
  using assms
proof (induction accept count idx rule: scan_from.induct)
  case (1 accept count idx)
  show ?case
  proof (cases "accept (idx + 1)")
    case True
    with 1 show ?thesis by (simp add: scan_from.simps[of accept count idx] Let_def) 
  next
    case False
    from 1 False have ne: "idx + 1 \<noteq> k" by auto
    with 1 have "idx + 1 < k" by simp
    then have "idx + 1 + 1 \<le> k" by (simp only: inc_le)
    moreover have "\<not> count \<le> idx + 1" using 1 by auto
    ultimately have "scan_from accept count (idx + 1) \<le> k" using 1 False by blast
    with False \<open>\<not> count \<le> idx + 1\<close> show ?thesis
      by (simp add: scan_from.simps[of accept count idx] Let_def)
  qed
qed

text \<open>From the start value the search succeeds exactly when some entry is acceptable.\<close>

lemma scan_from_start: "scan_from accept count (- 1) < count \<longleftrightarrow> (\<exists>k < count. accept k)"
proof
  assume "scan_from accept count (- 1) < count"
  with scan_from_advances show "\<exists>k < count. accept k" by blast
next
  assume "\<exists>k < count. accept k"
  then obtain k where "k < count" "accept k" by blast
  with scan_from_least[of "- 1" k count accept] show "scan_from accept count (- 1) < count"
    by simp
qed

lemma table_entry_record: "k < OS_GetMaxForObjectType t
  \<Longrightarrow> table_entry s (OS_GetBaseForObjectType t) k = OS_common_table s (record_of t k)"
  by (simp add: table_entry_def record_of_def unat_base_plus)

definition has_name :: "osal_objtype_t \<Rightarrow> string \<Rightarrow> 'i os_state \<Rightarrow> osal_index_t \<Rightarrow> bool" where
  "has_name t nm s k \<longleftrightarrow> k < OS_GetMaxForObjectType t
     \<and> OS_ObjectIdDefined (active_id (OS_common_table s (record_of t k)))
     \<and> (\<exists>p. name_entry (OS_common_table s (record_of t k)) = Some p \<and> deref_name s p = nm)"

lemma NameMatch_iff: "OS_ObjectNameMatch nm s token ob \<longleftrightarrow> (\<exists>p. name_entry ob = Some p \<and> deref_name s p = nm)"
  by (simp add: OS_ObjectNameMatch_def split: option.splits)

lemma FindNextMatch_name:
  assumes "obj_type token = t" "obj_idx token = - 1"
  shows "(\<exists>k. has_name t nm s k) \<Longrightarrow> \<exists>k. has_name t nm s k \<and>
      OS_ObjectIdFindNextMatch (OS_ObjectNameMatch nm) token s
        = (OS_SUCCESS, token\<lparr>obj_idx := k, obj_id := active_id (OS_common_table s (record_of t k))\<rparr>)"
    and "(\<nexists>k. has_name t nm s k) \<Longrightarrow> \<exists>k. OS_ObjectIdFindNextMatch (OS_ObjectNameMatch nm) token s
        = (OS_ERR_NAME_NOT_FOUND, token\<lparr>obj_idx := k, obj_id := 0\<rparr>)"
proof -
  let ?acc = "\<lambda>i. OS_ObjectIdDefined (active_id (table_entry s (OS_GetBaseForObjectType t) i))
      \<and> OS_ObjectNameMatch nm s (token\<lparr>obj_id := 0, obj_idx := i\<rparr>) (table_entry s (OS_GetBaseForObjectType t) i)"
  let ?k = "scan_from ?acc (OS_GetMaxForObjectType t) (- 1)"
  have acc: "k < OS_GetMaxForObjectType t \<and> ?acc k \<longleftrightarrow> has_name t nm s k" for k
    by (auto simp: has_name_def NameMatch_iff table_entry_record)
  have lt: "?k < OS_GetMaxForObjectType t \<longleftrightarrow> (\<exists>k. has_name t nm s k)"
    unfolding scan_from_start acc[symmetric] by blast
  { assume "\<exists>k. has_name t nm s k"
    with lt have k: "?k < OS_GetMaxForObjectType t" by blast
    with scan_from_advances[OF k] acc[of ?k] have "has_name t nm s ?k" by blast
    moreover have "OS_ObjectIdFindNextMatch (OS_ObjectNameMatch nm) token s
        = (OS_SUCCESS, token\<lparr>obj_idx := ?k, obj_id := active_id (OS_common_table s (record_of t ?k))\<rparr>)"
      using assms k by (simp add: OS_ObjectIdFindNextMatch_def Let_def table_entry_record not_le)
    ultimately show "\<exists>k. has_name t nm s k \<and> OS_ObjectIdFindNextMatch (OS_ObjectNameMatch nm) token s
        = (OS_SUCCESS, token\<lparr>obj_idx := k, obj_id := active_id (OS_common_table s (record_of t k))\<rparr>)" by blast }
  { assume "\<nexists>k. has_name t nm s k"
    with lt have "\<not> ?k < OS_GetMaxForObjectType t" by blast
    with assms show "\<exists>k. OS_ObjectIdFindNextMatch (OS_ObjectNameMatch nm) token s
        = (OS_ERR_NAME_NOT_FOUND, token\<lparr>obj_idx := k, obj_id := 0\<rparr>)"
      by (intro exI[of _ ?k]) (simp add: OS_ObjectIdFindNextMatch_def Let_def not_less) }
qed

lemma has_name_frame [simp]:
  "has_name t nm (acquired u k s) = has_name t nm s"
  "has_name t nm (ticked u s) = has_name t nm s"
  "has_name t nm (s\<lparr>impl := i\<rparr>) = has_name t nm s"
  by (simp_all add: has_name_def fun_eq_iff)

lemma free_slot_frame [simp]:
  "free_slot t (acquired u k s) = free_slot t s"
  "free_slot t (ticked u s) = free_slot t s"
  "free_slot t (s\<lparr>impl := i\<rparr>) = free_slot t s"
  by (simp_all add: free_slot_def fun_eq_iff)

subsection \<open>Events\<close>

definition event_impl :: "'i idmap_env \<Rightarrow> OS_Event \<Rightarrow> osal_id_t \<Rightarrow> 'i os_state \<Rightarrow> 'i" where
  "event_impl env ev i s =
    (case EventHandler (OS_SharedGlobalVars s) of
       Some h \<Rightarrow> snd (call_event_handler env h ev i (impl s))
     | None \<Rightarrow> impl s)"

definition event_ok :: "'i idmap_env \<Rightarrow> 'i os_state \<Rightarrow> bool" where
  "event_ok env s \<longleftrightarrow> (\<forall>h i a. EventHandler (OS_SharedGlobalVars s) = Some h \<longrightarrow>
     fst (call_event_handler env h OS_EVENT_RESOURCE_ALLOCATED i a) = OS_SUCCESS)"

lemma NotifyEvent_impl: "snd (OS_NotifyEvent env ev i s) = s\<lparr>impl := event_impl env ev i s\<rparr>"
  by (simp add: OS_NotifyEvent_def event_impl_def split: option.splits prod.splits)

lemma NotifyEvent_allocated:
  "event_ok env s \<Longrightarrow> fst (OS_NotifyEvent env OS_EVENT_RESOURCE_ALLOCATED i s) = OS_SUCCESS"
  by (auto simp: OS_NotifyEvent_def event_ok_def split: option.splits prod.splits) (metis fst_conv)

lemma event_frames [simp]:
  "event_ok env (acquired t k s) = event_ok env s" "event_impl env ev i (acquired t k s) = event_impl env ev i s"
  "event_ok env (ticked t s) = event_ok env s" "event_impl env ev i (ticked t s) = event_impl env ev i s"
  "event_ok env (upd_common r f s) = event_ok env s" "event_impl env ev i (upd_common r f s) = event_impl env ev i s"
  "event_ok env (upd_objtype t g s) = event_ok env s" "event_impl env ev i (upd_objtype t g s) = event_impl env ev i s"
  "event_ok env (s\<lparr>impl := a\<rparr>) = event_ok env s"
  by (simp_all add: event_ok_def event_impl_def split: option.split)

subsection \<open>Allocating and finding objects\<close>

lemma objtype_state_commute:
  "ob\<lparr>transaction_count := n, owner_key := k, last_id_issued := i\<rparr>
    = ob\<lparr>last_id_issued := i, transaction_count := n, owner_key := k\<rparr>"
  by (cases ob) simp

lemma issued_acquired: "issued t i a rc c (acquired t k s) = acquired t k (issued t i a rc c s)"
  by (rule os_state.equality)
    (simp_all add: issued_def acquired_def upd_common_def upd_objtype_def OS_Lock_Global_Impl_def
      objtype_state_commute)

lemma issued_simps [simp]:
  "OS_common_table (issued t i a rc c s) = (OS_common_table s)(record_of t (index_of i) :=
     \<lparr>name_entry = None, active_id = a, creator = c, refcount = rc\<rparr>)"
  "OS_SharedGlobalVars (issued t i a rc c s) = OS_SharedGlobalVars s"
  "table_lock (issued t i a rc c s) = table_lock s"
  "stuck (issued t i a rc c s) = stuck s"
  "debug_log (issued t i a rc c s) = debug_log s"
  "impl (issued t i a rc c s) = impl s"
  "deref_name (issued t i a rc c s) = deref_name s"
  "owner_key (objtype_state u (issued t i a rc c s)) = owner_key (objtype_state u s)"
  "lock_free u (issued t i a rc c s) = lock_free u s"
  "running (issued t i a rc c s) = running s"
  by (simp_all add: issued_def objtype_state_def lock_free_def)

lemma tables_issued [simp]:
  "OS_task_table (issued t i a rc c s) = OS_task_table s"
  "OS_queue_table (issued t i a rc c s) = OS_queue_table s"
  "OS_bin_sem_table (issued t i a rc c s) = OS_bin_sem_table s"
  "OS_count_sem_table (issued t i a rc c s) = OS_count_sem_table s"
  "OS_mutex_table (issued t i a rc c s) = OS_mutex_table s"
  "OS_rwlock_table (issued t i a rc c s) = OS_rwlock_table s"
  "OS_condvar_table (issued t i a rc c s) = OS_condvar_table s"
  "OS_stream_table (issued t i a rc c s) = OS_stream_table s"
  "OS_dir_table (issued t i a rc c s) = OS_dir_table s"
  "OS_timebase_table (issued t i a rc c s) = OS_timebase_table s"
  "OS_timecb_table (issued t i a rc c s) = OS_timecb_table s"
  "OS_module_table (issued t i a rc c s) = OS_module_table s"
  "OS_filesys_table (issued t i a rc c s) = OS_filesys_table s"
  "OS_console_table (issued t i a rc c s) = OS_console_table s"
  by (simp_all add: issued_def)

lemma issued_reserve:
  "ticked t (upd_common (record_of t (index_of i)) (\<lambda>ob. ob\<lparr>active_id := OS_OBJECT_ID_RESERVED, refcount := 1\<rparr>)
      ((issued t i i 0 c s)\<lparr>impl := a\<rparr>))
    = ticked t ((issued t i OS_OBJECT_ID_RESERVED 1 c s)\<lparr>impl := a\<rparr>)"
  by (rule arg_cong[where f = "ticked t"]) (simp add: issued_def upd_common_def upd_objtype_def)

lemma AllocateNew_ok:
  assumes "running s" "lock_free t s" "event_ok env s" "free_slot t s k0"
    and "\<And>nm k. name = Some nm \<Longrightarrow> \<not> has_name t nm s k"
  obtains i where "id_of_type t i" "free_slot t s (index_of i)"
    and "OS_ObjectIdAllocateNew env t name s
      = (OS_SUCCESS, tok OS_LOCK_MODE_EXCLUSIVE 0 t (index_of i) i,
         ticked t ((issued t i OS_OBJECT_ID_RESERVED 1 (OS_TaskGetId env s) s)
           \<lparr>impl := event_impl env OS_EVENT_RESOURCE_ALLOCATED i s\<rparr>))"
proof -
  let ?X = OS_LOCK_MODE_EXCLUSIVE
  from assms(4) have m: "OS_GetMaxForObjectType t \<noteq> 0" by (auto simp: free_slot_def)
  note t = max_nonzero_valid_type(2)[OF m]
  from TransactionInit_locked[OF assms(1) m assms(2), of ?X env] obtain k
    where k: "k AND 0xFF000000 = 0x4D000000"
      and init: "OS_ObjectIdTransactionInit env ?X t s = (OS_SUCCESS, tok ?X k t (- 1) 0, acquired t k s)" by auto
  have "\<exists>j. (case name of Some nm \<Rightarrow> OS_ObjectIdFindNextMatch (OS_ObjectNameMatch nm) (tok ?X k t (- 1) 0) (acquired t k s)
      | None \<Rightarrow> (OS_ERR_NAME_NOT_FOUND, tok ?X k t (- 1) 0)) = (OS_ERR_NAME_NOT_FOUND, tok ?X k t j 0)"
    using assms(5) FindNextMatch_name(2)[of "tok ?X k t (- 1) 0" t _ "acquired t k s"]
    by (cases name) auto
  then obtain j where fm: "(case name of Some nm \<Rightarrow>
        OS_ObjectIdFindNextMatch (OS_ObjectNameMatch nm) (tok ?X k t (- 1) 0) (acquired t k s)
      | None \<Rightarrow> (OS_ERR_NAME_NOT_FOUND, tok ?X k t (- 1) 0)) = (OS_ERR_NAME_NOT_FOUND, tok ?X k t j 0)" by blast
  have fs: "free_slot t (acquired t k s) k0" using assms(4) by simp
  obtain i where i: "id_of_type t i" "free_slot t s (index_of i)"
    and ff: "OS_ObjectIdFindNextFree env (tok ?X k t j 0) (acquired t k s)
      = (OS_SUCCESS, tok ?X k t (index_of i) i, acquired t k (issued t i i 0 (OS_TaskGetId env s) s))"
    using FindNextFree_found[OF fs, of "tok ?X k t j 0" env] by (auto simp: issued_acquired OS_TaskGetId_def)
  note f = id_of_type_facts[OF i(1)]
  let ?s = "issued t i i 0 (OS_TaskGetId env s) s"
  have ev: "OS_NotifyEvent env OS_EVENT_RESOURCE_ALLOCATED i (acquired t k ?s)
      = (OS_SUCCESS, acquired t k (?s\<lparr>impl := event_impl env OS_EVENT_RESOURCE_ALLOCATED i s\<rparr>))"
    using NotifyEvent_allocated[of env "acquired t k ?s" i] NotifyEvent_impl[of env OS_EVENT_RESOURCE_ALLOCATED i "acquired t k ?s"] assms(3)
    by (simp add: prod_eq_iff impl_acquired issued_def)
  from assms(1) have "GlobalState (OS_SharedGlobalVars s) \<noteq> OS_SHUTDOWN_MAGIC_NUMBER"
    by (simp add: running_def)
  then have "OS_ObjectIdAllocateNew env t name s
      = (OS_SUCCESS, tok ?X 0 t (index_of i) i,
         ticked t ((issued t i OS_OBJECT_ID_RESERVED 1 (OS_TaskGetId env s) s)
           \<lparr>impl := event_impl env OS_EVENT_RESOURCE_ALLOCATED i s\<rparr>))"
    using ConvertToken_exclusive[of i "?s\<lparr>impl := event_impl env OS_EVENT_RESOURCE_ALLOCATED i s\<rparr>" t "index_of i" k env]
      assms(2) f k
    by (simp add: OS_ObjectIdAllocateNew_def init fm ff ev Let_def issued_reserve)
  with i that show thesis by blast
qed

text \<open>A name that is in use, or a full table, is refused and nothing changes.\<close>

lemma AllocateNew_name_taken:
  assumes "running s" "lock_free t s" "has_name t nm s k0"
  obtains token where "lock_mode token = OS_LOCK_MODE_NONE"
    and "OS_ObjectIdAllocateNew env t (Some nm) s = (OS_ERR_NAME_TAKEN, token, ticked t s)"
proof -
  let ?X = OS_LOCK_MODE_EXCLUSIVE
  from assms(3) have m: "OS_GetMaxForObjectType t \<noteq> 0" by (auto simp: has_name_def)
  from TransactionInit_locked[OF assms(1) m assms(2), of ?X env] obtain k
    where k: "k AND 0xFF000000 = 0x4D000000"
      and init: "OS_ObjectIdTransactionInit env ?X t s = (OS_SUCCESS, tok ?X k t (- 1) 0, acquired t k s)" by auto
  from assms(3) FindNextMatch_name(1)[of "tok ?X k t (- 1) 0" t nm "acquired t k s"] obtain j
    where "OS_ObjectIdFindNextMatch (OS_ObjectNameMatch nm) (tok ?X k t (- 1) 0) (acquired t k s)
      = (OS_SUCCESS, tok ?X k t j (active_id (OS_common_table s (record_of t j))))" by auto
  with init k assms(1,2) max_nonzero_valid_type(2)[OF m]
    that[of "tok OS_LOCK_MODE_NONE 0 t j (active_id (OS_common_table s (record_of t j)))"]
  show thesis
    by (simp add: OS_ObjectIdAllocateNew_def running_def TransactionCancel_acquired)
qed

lemma AllocateNew_full:
  assumes "running s" "lock_free t s" "OS_GetMaxForObjectType t \<noteq> 0" "\<And>k. \<not> free_slot t s k"
    and "\<And>nm k. name = Some nm \<Longrightarrow> \<not> has_name t nm s k"
  obtains token where "lock_mode token = OS_LOCK_MODE_NONE"
    and "OS_ObjectIdAllocateNew env t name s = (OS_ERR_NO_FREE_IDS, token, ticked t s)"
proof -
  let ?X = OS_LOCK_MODE_EXCLUSIVE
  from TransactionInit_locked[OF assms(1,3,2), of ?X env] obtain k
    where k: "k AND 0xFF000000 = 0x4D000000"
      and init: "OS_ObjectIdTransactionInit env ?X t s = (OS_SUCCESS, tok ?X k t (- 1) 0, acquired t k s)" by auto
  have "\<exists>j. (case name of Some nm \<Rightarrow> OS_ObjectIdFindNextMatch (OS_ObjectNameMatch nm) (tok ?X k t (- 1) 0) (acquired t k s)
      | None \<Rightarrow> (OS_ERR_NAME_NOT_FOUND, tok ?X k t (- 1) 0)) = (OS_ERR_NAME_NOT_FOUND, tok ?X k t j 0)"
    using assms(5) FindNextMatch_name(2)[of "tok ?X k t (- 1) 0" t _ "acquired t k s"]
    by (cases name) auto
  moreover have "\<And>k'. \<not> free_slot t (acquired t k s) k'" using assms(4) by simp
  note ff = FindNextFree_full[OF assms(3) this]
  ultimately show thesis
    using that[of "tok OS_LOCK_MODE_NONE 0 t (- 1) 0"] assms(1,2) k max_nonzero_valid_type(2)[OF assms(3)]
    by (auto simp: OS_ObjectIdAllocateNew_def running_def init ff TransactionCancel_acquired)
qed

lemma GetByName_global:
  assumes "running s" "lock_free t s" "has_name t nm s k0"
    and "\<And>k. has_name t nm s k \<Longrightarrow> live t (active_id (OS_common_table s (record_of t k))) s"
  obtains k key where "has_name t nm s k" "key AND 0xFF000000 = 0x4D000000"
    and "OS_ObjectIdGetByName env OS_LOCK_MODE_GLOBAL t nm s
      = (OS_SUCCESS, tok OS_LOCK_MODE_GLOBAL key t k (active_id (OS_common_table s (record_of t k))),
         acquired t key (upd_common (record_of t k) (\<lambda>ob. ob\<lparr>refcount := refcount ob + 1\<rparr>) s))"
proof -
  let ?G = OS_LOCK_MODE_GLOBAL
  from assms(3) have m: "OS_GetMaxForObjectType t \<noteq> 0" by (auto simp: has_name_def)
  from TransactionInit_locked[OF assms(1) m assms(2), of ?G env] obtain key
    where key: "key AND 0xFF000000 = 0x4D000000"
      and init: "OS_ObjectIdTransactionInit env ?G t s = (OS_SUCCESS, tok ?G key t (- 1) 0, acquired t key s)" by auto
  from assms(3) FindNextMatch_name(1)[of "tok ?G key t (- 1) 0" t nm "acquired t key s"] obtain k
    where k: "has_name t nm s k"
      and fm: "OS_ObjectIdFindNextMatch (OS_ObjectNameMatch nm) (tok ?G key t (- 1) 0) (acquired t key s)
        = (OS_SUCCESS, tok ?G key t k (active_id (OS_common_table s (record_of t k))))" by auto
  from assms(4)[OF k] have id: "id_of_type t (active_id (OS_common_table s (record_of t k)))" by (simp add: live_def)
  note f = id_of_type_facts[OF id]
  have "OS_ObjectIdGetByName env ?G t nm s
      = (OS_SUCCESS, tok ?G key t k (active_id (OS_common_table s (record_of t k))),
         acquired t key (upd_common (record_of t k) (\<lambda>ob. ob\<lparr>refcount := refcount ob + 1\<rparr>) s))"
    by (simp add: OS_ObjectIdGetByName_def OS_ObjectIdGetBySearch_def init fm f ConvertToken_global upd_common_acquired)
  with that k key show thesis by blast
qed

lemma FindByName_found:
  assumes "running s" "lock_free t s" "length nm < OS_MAX_API_NAME" "has_name t nm s k0"
    and "\<And>k. has_name t nm s k \<Longrightarrow> live t (active_id (OS_common_table s (record_of t k))) s
          \<and> index_of (active_id (OS_common_table s (record_of t k))) = k
          \<and> refcount (OS_common_table s (record_of t k)) = 0"
  obtains k where "has_name t nm s k"
    and "OS_ObjectIdFindByName env t (Some nm) s
      = (OS_SUCCESS, Some (active_id (OS_common_table s (record_of t k))), ticked t s)"
proof -
  from GetByName_global[OF assms(1,2,4), of env] assms(5) obtain k key
    where k: "has_name t nm s k" "key AND 0xFF000000 = 0x4D000000"
      and get: "OS_ObjectIdGetByName env OS_LOCK_MODE_GLOBAL t nm s
      = (OS_SUCCESS, tok OS_LOCK_MODE_GLOBAL key t k (active_id (OS_common_table s (record_of t k))),
         acquired t key (upd_common (record_of t k) (\<lambda>ob. ob\<lparr>refcount := refcount ob + 1\<rparr>) s))" by blast
  let ?i = "active_id (OS_common_table s (record_of t k))"
  from assms(5)[OF k(1)] have id: "id_of_type t ?i" "refcount (OS_common_table s (record_of t k)) = 0"
    by (auto simp: live_def)
  have "OS_ObjectIdFindByName env t (Some nm) s = (OS_SUCCESS, Some ?i, ticked t s)"
    using assms(2,3) id_of_type_facts[OF id(1)] id(2) k(2) get
    by (simp add: OS_ObjectIdFindByName_def LENGTHCHECK_def Release_global)
  with k(1) that show thesis by blast
qed

lemma FindByName_not_found:
  assumes "running s" "lock_free t s" "OS_GetMaxForObjectType t \<noteq> 0" "length nm < OS_MAX_API_NAME"
    and "\<And>k. \<not> has_name t nm s k"
  shows "OS_ObjectIdFindByName env t (Some nm) s = (OS_ERR_NAME_NOT_FOUND, None, ticked t s)"
proof -
  let ?G = OS_LOCK_MODE_GLOBAL
  from TransactionInit_locked[OF assms(1,3,2), of ?G env] obtain key
    where key: "key AND 0xFF000000 = 0x4D000000"
      and init: "OS_ObjectIdTransactionInit env ?G t s = (OS_SUCCESS, tok ?G key t (- 1) 0, acquired t key s)" by auto
  from assms(5) FindNextMatch_name(2)[of "tok ?G key t (- 1) 0" t nm "acquired t key s"] obtain j
    where "OS_ObjectIdFindNextMatch (OS_ObjectNameMatch nm) (tok ?G key t (- 1) 0) (acquired t key s)
      = (OS_ERR_NAME_NOT_FOUND, tok ?G key t j 0)" by auto
  with init key assms max_nonzero_valid_type(2)[OF assms(3)] show ?thesis
    by (simp add: OS_ObjectIdFindByName_def LENGTHCHECK_def OS_ObjectIdGetByName_def
        OS_ObjectIdGetBySearch_def TransactionCancel_acquired)
qed

subsection \<open>Completing a creation or deletion\<close>

lemma FinalizeNew_exclusive:
  assumes "lock_free t s" "t < OS_OBJECT_TYPE_USER"
  shows "OS_ObjectIdFinalizeNew env st (tok OS_LOCK_MODE_EXCLUSIVE k t j i) s =
    (let final_id = (if st = OS_SUCCESS then i else 0);
         s1 = ticked t (upd_common (record_of t j) (\<lambda>ob. (drop_ref ob)\<lparr>active_id := final_id\<rparr>) s)
     in (st, final_id, tok OS_LOCK_MODE_NONE 0 t j i,
         if st = OS_SUCCESS then s1\<lparr>impl := event_impl env OS_EVENT_RESOURCE_CREATED i s\<rparr> else s1))"
  using assms
  by (simp add: OS_ObjectIdFinalizeNew_def TransactionFinish_unlocked final_record_def[abs_def] NotifyEvent_impl Let_def)

lemma FinalizeDelete_global:
  assumes "lock_free t s" "t < OS_OBJECT_TYPE_USER" "k AND 0xFF000000 = 0x4D000000"
  shows "OS_ObjectIdFinalizeDelete env OS_SUCCESS (tok OS_LOCK_MODE_GLOBAL k t j i) (acquired t k s) =
    (OS_SUCCESS, tok OS_LOCK_MODE_NONE 0 t j i,
     (ticked t (upd_common (record_of t j) (\<lambda>ob. (drop_ref ob)\<lparr>active_id := 0\<rparr>) s))
       \<lparr>impl := event_impl env OS_EVENT_RESOURCE_DELETED i s\<rparr>)"
  using assms
  by (simp add: OS_ObjectIdFinalizeDelete_def TransactionFinish_global final_record_def[abs_def] NotifyEvent_impl Let_def)

lemma FinalizeDelete_exclusive:
  assumes "lock_free t s" "t < OS_OBJECT_TYPE_USER"
  shows "OS_ObjectIdFinalizeDelete env st (tok OS_LOCK_MODE_EXCLUSIVE k t j i) s =
    (let final_id = (if st = OS_SUCCESS then 0 else i);
         s1 = ticked t (upd_common (record_of t j) (\<lambda>ob. (drop_ref ob)\<lparr>active_id := final_id\<rparr>) s)
     in (st, tok OS_LOCK_MODE_NONE 0 t j i,
         if st = OS_SUCCESS then s1\<lparr>impl := event_impl env OS_EVENT_RESOURCE_DELETED i s\<rparr> else s1))"
  using assms
  by (simp add: OS_ObjectIdFinalizeDelete_def TransactionFinish_unlocked final_record_def[abs_def] NotifyEvent_impl Let_def)

end
