(* ===== verification/Object_Lifecycle.thy ===== *)
theory Object_Lifecycle
  imports Idmap_Facts
begin

text \<open>
  The contract that every kind of object shares. \<open>registry\<close> abstracts the common table to a
  partial map from object type and index to ID, name and creator. \<open>idle\<close> is the invariant
  between API calls: every mutex free, no reference outstanding, no record reserved, every ID in
  the record it leads to, and every name pointer inside the object's own record.

  \<open>create_object\<close>, \<open>delete_object\<close> and \<open>with_object\<close> are the three shapes that the public
  operations of the object types have. Inside the locale \<open>object_table\<close>, whose parameters are
  what distinguishes one object type from another, they are shown to refine updates of the
  registry and to preserve the invariant. Each component interprets the locale for its own table.
\<close>

subsection \<open>The registry\<close>

type_synonym registry_entry = "osal_id_t \<times> string option \<times> osal_id_t"

definition registry :: "'i os_state \<Rightarrow> osal_objtype_t \<times> osal_index_t \<Rightarrow> registry_entry option" where
  "registry s = (\<lambda>(t, k).
     let ob = OS_common_table s (record_of t k)
     in if k < OS_GetMaxForObjectType t \<and> OS_ObjectIdDefined (active_id ob)
        then Some (active_id ob, map_option (deref_name s) (name_entry ob), creator ob) else None)"

definition registered_name :: "'i os_state \<Rightarrow> osal_objtype_t \<Rightarrow> string \<Rightarrow> osal_id_t \<Rightarrow> bool" where
  "registered_name s t nm i \<longleftrightarrow> (\<exists>k c. registry s (t, k) = Some (i, Some nm, c))"

text \<open>The name fields an object's name pointer can lead to.\<close>

fun name_owner :: "name_ptr \<Rightarrow> osal_objtype_t \<times> nat" where
  "name_owner (Task_name k) = (OS_OBJECT_TYPE_OS_TASK, k)"
| "name_owner (Queue_name k) = (OS_OBJECT_TYPE_OS_QUEUE, k)"
| "name_owner (BinSem_name k) = (OS_OBJECT_TYPE_OS_BINSEM, k)"
| "name_owner (CountSem_name k) = (OS_OBJECT_TYPE_OS_COUNTSEM, k)"
| "name_owner (Mutex_name k) = (OS_OBJECT_TYPE_OS_MUTEX, k)"
| "name_owner (RwLock_name k) = (OS_OBJECT_TYPE_OS_RWLOCK, k)"
| "name_owner (Stream_name k) = (OS_OBJECT_TYPE_OS_STREAM, k)"
| "name_owner (Dir_name k) = (OS_OBJECT_TYPE_OS_DIR, k)"
| "name_owner (Timebase_name k) = (OS_OBJECT_TYPE_OS_TIMEBASE, k)"
| "name_owner (Timer_name k) = (OS_OBJECT_TYPE_OS_TIMECB, k)"
| "name_owner (Module_name k) = (OS_OBJECT_TYPE_OS_MODULE, k)"
| "name_owner (Filesys_device_name k) = (OS_OBJECT_TYPE_OS_FILESYS, k)"
| "name_owner (Filesys_virtual_mountpt k) = (OS_OBJECT_TYPE_OS_FILESYS, k)"
| "name_owner (Console_name k) = (OS_OBJECT_TYPE_OS_CONSOLE, k)"
| "name_owner (CondVar_name k) = (OS_OBJECT_TYPE_OS_CONDVAR, k)"

definition idle_slot :: "osal_objtype_t \<Rightarrow> osal_index_t \<Rightarrow> OS_common_record \<Rightarrow> bool" where
  "idle_slot t k ob \<longleftrightarrow> refcount ob = 0 \<and>
     (active_id ob = 0 \<or>
      id_of_type t (active_id ob) \<and> index_of (active_id ob) = k \<and>
      (\<exists>p. name_entry ob = Some p \<and> name_owner p = (t, unat k)))"

definition idle :: "'i os_state \<Rightarrow> bool" where
  "idle s \<longleftrightarrow> running s \<and> \<not> stuck s \<and>
     (\<forall>t. OS_GetMaxForObjectType t \<noteq> 0 \<longrightarrow> lock_free t s) \<and>
     (\<forall>t k. k < OS_GetMaxForObjectType t \<longrightarrow> idle_slot t k (OS_common_table s (record_of t k)))"

lemma record_of_eq:
  "k < OS_GetMaxForObjectType t \<Longrightarrow> j < OS_GetMaxForObjectType u
    \<Longrightarrow> record_of t k = record_of u j \<longleftrightarrow> t = u \<and> k = j"
  using base_plus_inj[of k t j u] by (auto simp: record_of_def)

lemma idle_frame [simp]:
  "idle (s\<lparr>impl := a\<rparr>) = idle s"
  by (simp add: idle_def)

lemma idle_ticked [simp]: "idle s \<Longrightarrow> idle (ticked t s)"
  by (simp add: idle_def)

lemma registry_frame [simp]:
  "registry (s\<lparr>impl := a\<rparr>) = registry s"
  "registry (ticked t s) = registry s"
  "registry (acquired t k s) = registry s"
  by (simp_all add: registry_def Let_def cong: if_cong)

lemma idleD:
  assumes "idle s"
  shows "running s" "\<not> stuck s" "OS_GetMaxForObjectType t \<noteq> 0 \<Longrightarrow> lock_free t s"
    and "k < OS_GetMaxForObjectType t \<Longrightarrow> idle_slot t k (OS_common_table s (record_of t k))"
  using assms by (auto simp: idle_def)

lemma idle_live:
  assumes "idle s"
  shows "live t i s \<longleftrightarrow> (\<exists>v. registry s (t, index_of i) = Some (i, v) \<and> OS_GetMaxForObjectType t \<noteq> 0)"
proof
  assume l: "live t i s"
  then have id: "id_of_type t i" by (simp add: live_def)
  with id_of_type_facts[OF id] l show "\<exists>v. registry s (t, index_of i) = Some (i, v) \<and> OS_GetMaxForObjectType t \<noteq> 0"
    by (auto simp: registry_def live_def OS_ObjectIdDefined_def id_of_type_def Let_def)
next
  assume "\<exists>v. registry s (t, index_of i) = Some (i, v) \<and> OS_GetMaxForObjectType t \<noteq> 0"
  then have "index_of i < OS_GetMaxForObjectType t" "active_id (OS_common_table s (record_of t (index_of i))) = i" "i \<noteq> 0"
    by (auto simp: registry_def Let_def OS_ObjectIdDefined_def split: if_splits)
  with idleD(4)[OF assms, of "index_of i" t] show "live t i s"
    by (auto simp: live_def idle_slot_def)
qed

lemma free_slot_registry:
  "free_slot t s k \<longleftrightarrow> k < OS_GetMaxForObjectType t \<and> registry s (t, k) = None"
  by (auto simp: free_slot_def registry_def Let_def)

lemma has_name_registry: "has_name t nm s k \<longleftrightarrow> (\<exists>i c. registry s (t, k) = Some (i, Some nm, c))"
  by (auto simp: has_name_def registry_def Let_def)

lemma idle_has_name:
  assumes "idle s" "has_name t nm s k"
  shows "live t (active_id (OS_common_table s (record_of t k))) s"
    and "index_of (active_id (OS_common_table s (record_of t k))) = k"
    and "refcount (OS_common_table s (record_of t k)) = 0"
  using idleD(4)[OF assms(1), of k t] assms(2)
  by (auto simp: has_name_def OS_ObjectIdDefined_def idle_slot_def live_def)

text \<open>IDs are unique: an ID determines the record that holds it.\<close>

lemma registry_id_unique:
  assumes "idle s" "registry s (t, k) = Some (i, v)" "registry s (u, j) = Some (i, w)"
  shows "t = u \<and> k = j"
proof -
  have "id_of_type t i \<and> index_of i = k" if "registry s (t, k) = Some (i, v)" for t k v
    using that idleD(4)[OF assms(1), of k t]
    by (auto simp: registry_def Let_def idle_slot_def OS_ObjectIdDefined_def split: if_splits)
  from this[OF assms(2)] this[OF assms(3)] show ?thesis by (auto simp: id_of_type_def)
qed

text \<open>How a change of one record shows in the registry and in the invariant.\<close>

lemma registry_upd_common:
  assumes "k < OS_GetMaxForObjectType t" "f (OS_common_table s (record_of t k)) = ob"
    and "\<And>u j p. (u, j) \<noteq> (t, k) \<Longrightarrow> j < OS_GetMaxForObjectType u \<Longrightarrow>
           OS_ObjectIdDefined (active_id (OS_common_table s (record_of u j))) \<Longrightarrow>
           name_entry (OS_common_table s (record_of u j)) = Some p \<Longrightarrow> deref_name s' p = deref_name s p"
    and "OS_common_table s' = (OS_common_table s)(record_of t k := ob)"
  shows "registry s' = (registry s)((t, k) :=
    if OS_ObjectIdDefined (active_id ob) then Some (active_id ob, map_option (deref_name s') (name_entry ob), creator ob) else None)"
proof (rule ext)
  fix q :: "osal_objtype_t \<times> osal_index_t"
  obtain u j where q: "q = (u, j)" by fastforce
  show "registry s' q = ((registry s)((t, k) :=
    if OS_ObjectIdDefined (active_id ob) then Some (active_id ob, map_option (deref_name s') (name_entry ob), creator ob) else None)) q"
  proof (cases "(u, j) = (t, k)")
    case True
    with q assms(1,4) show ?thesis by (simp add: registry_def Let_def)
  next
    case False
    note n = assms(3)[OF False]
    show ?thesis
    proof (cases "j < OS_GetMaxForObjectType u")
      case True
      with False have "record_of u j \<noteq> record_of t k" using record_of_eq[OF True assms(1)] by auto
      with q False n True assms(4) show ?thesis
        by (cases "name_entry (OS_common_table s (record_of u j))") (auto simp: registry_def Let_def)
    qed (use q False in \<open>auto simp: registry_def Let_def\<close>)
  qed
qed

lemma idle_upd_common:
  assumes "idle s" "k < OS_GetMaxForObjectType t" "idle_slot t k ob"
    and "OS_common_table s' = (OS_common_table s)(record_of t k := ob)"
    and "running s'" "\<not> stuck s'" "\<And>u. OS_GetMaxForObjectType u \<noteq> 0 \<Longrightarrow> lock_free u s \<Longrightarrow> lock_free u s'"
  shows "idle s'"
  using assms record_of_eq[OF _ assms(2)] by (auto simp: idle_def)

text \<open>A state with every table empty, for concrete instances.\<close>

definition fresh_state :: "'i \<Rightarrow> 'i os_state" where
  "fresh_state i = (boot_state i)\<lparr>OS_SharedGlobalVars := zero_SharedGlobalVars\<lparr>GlobalState := OS_INIT_MAGIC_NUMBER\<rparr>\<rparr>"

definition quiet_env :: "'i idmap_env" where
  "quiet_env = \<lparr>OS_TaskGetId_Impl = (\<lambda>_. 0), call_event_handler = (\<lambda>_ _ _ i. (OS_SUCCESS, i)),
     other_tasks = (\<lambda>_ _ s. s)\<rparr>"

lemma fresh_idle [simp]: "idle (fresh_state i)"
  by (simp add: idle_def running_def fresh_state_def boot_state_def zero_SharedGlobalVars_def lock_free_def
      objtype_state_def zero_objtype_state_def idle_slot_def zero_common_record_def)

lemma fresh_registry [simp]: "registry (fresh_state i) q = None"
  by (cases q) (simp add: registry_def fresh_state_def boot_state_def zero_common_record_def OS_ObjectIdDefined_def)

lemma fresh_names [simp]: "\<not> registered_name (fresh_state i) t nm j"
  by (simp add: registered_name_def)

lemma fresh_event_ok [simp]: "event_ok env (fresh_state i)"
  by (simp add: event_ok_def fresh_state_def zero_SharedGlobalVars_def)

subsection \<open>The shapes of the public operations\<close>

text \<open>\<open>name\<close> is the name that must be new, if any: files and directories are not looked up by name.\<close>

definition create_object_as ::
    "'i idmap_env \<Rightarrow> osal_objtype_t \<Rightarrow> string option \<Rightarrow> (OS_object_token \<Rightarrow> 'i os_state \<Rightarrow> 'i os_state)
      \<Rightarrow> (OS_object_token \<Rightarrow> 'i os_state \<Rightarrow> status \<times> 'i) \<Rightarrow> 'i os_state \<Rightarrow> status \<times> osal_id_t option \<times> 'i os_state" where
  "create_object_as env t name ini create s =
    (case OS_ObjectIdAllocateNew env t name s of
       (return_code, token, s1) \<Rightarrow>
         (if return_code = OS_SUCCESS then
            (case create token (ini token s1) of
               (st, a) \<Rightarrow>
                 (case OS_ObjectIdFinalizeNew env st token ((ini token s1)\<lparr>impl := a\<rparr>) of
                    (st', i, token', s2) \<Rightarrow> (st', Some i, s2)))
          else (return_code, None, s1)))"

abbreviation create_object ::
    "'i idmap_env \<Rightarrow> osal_objtype_t \<Rightarrow> string \<Rightarrow> (OS_object_token \<Rightarrow> 'i os_state \<Rightarrow> 'i os_state)
      \<Rightarrow> (OS_object_token \<Rightarrow> 'i os_state \<Rightarrow> status \<times> 'i) \<Rightarrow> 'i os_state \<Rightarrow> status \<times> osal_id_t option \<times> 'i os_state" where
  "create_object env t nm \<equiv> create_object_as env t (Some nm)"

lemmas create_object_def = create_object_as_def

definition delete_object ::
    "'i idmap_env \<Rightarrow> osal_objtype_t \<Rightarrow> (OS_object_token \<Rightarrow> 'i os_state \<Rightarrow> status \<times> 'i) \<Rightarrow> osal_id_t \<Rightarrow> 'i os_state
      \<Rightarrow> status \<times> 'i os_state" where
  "delete_object env t del i s =
    (case OS_ObjectIdGetById env OS_LOCK_MODE_EXCLUSIVE t i s of
       (return_code, token, s1) \<Rightarrow>
         (if return_code = OS_SUCCESS then
            (case del token s1 of
               (st, a) \<Rightarrow>
                 (case OS_ObjectIdFinalizeDelete env st token (s1\<lparr>impl := a\<rparr>) of
                    (st', token', s2) \<Rightarrow> (st', s2)))
          else (return_code, s1)))"

lemma impl_ticked: "(ticked t s)\<lparr>impl := a\<rparr> = ticked t (s\<lparr>impl := a\<rparr>)"
  by (simp add: ticked_def upd_objtype_def)

lemma impl_upd_common: "(upd_common r f s)\<lparr>impl := a\<rparr> = upd_common r f (s\<lparr>impl := a\<rparr>)"
  by (simp add: upd_common_def)

subsection \<open>Deletion\<close>

text \<open>The state after a deletion for which the implementation returned \<open>st\<close> and left \<open>a\<close>.\<close>

definition deleted_state ::
    "'i idmap_env \<Rightarrow> osal_objtype_t \<Rightarrow> osal_id_t \<Rightarrow> status \<Rightarrow> 'i \<Rightarrow> 'i os_state \<Rightarrow> 'i os_state" where
  "deleted_state env t i st a s =
     ticked t (ticked t (upd_common (record_of t (index_of i))
       (\<lambda>ob. ob\<lparr>active_id := if st = OS_SUCCESS then 0 else i\<rparr>)
       (s\<lparr>impl := if st = OS_SUCCESS then event_impl env OS_EVENT_RESOURCE_DELETED i (s\<lparr>impl := a\<rparr>) else a\<rparr>)))"

definition claimed_state :: "osal_objtype_t \<Rightarrow> osal_id_t \<Rightarrow> 'i os_state \<Rightarrow> 'i os_state" where
  "claimed_state t i s = ticked t (upd_common (record_of t (index_of i))
     (\<lambda>ob. ob\<lparr>active_id := OS_OBJECT_ID_RESERVED, refcount := 1\<rparr>) s)"

lemma idle_live_record:
  assumes "idle s" "live t i s"
  shows "id_of_type t i" "OS_GetMaxForObjectType t \<noteq> 0" "lock_free t s"
    and "active_id (OS_common_table s (record_of t (index_of i))) = i"
    and "refcount (OS_common_table s (record_of t (index_of i))) = 0"
    and "\<exists>p. name_entry (OS_common_table s (record_of t (index_of i))) = Some p \<and> name_owner p = (t, unat (index_of i))"
proof -
  from assms(2) show id: "id_of_type t i" and act: "active_id (OS_common_table s (record_of t (index_of i))) = i"
    and m: "OS_GetMaxForObjectType t \<noteq> 0" by (auto simp: live_def id_of_type_def)
  from idleD(3)[OF assms(1) m] show "lock_free t s" .
  note f = id_of_type_facts[OF id]
  from idleD(4)[OF assms(1) f(6)] act f(2)
  show "refcount (OS_common_table s (record_of t (index_of i))) = 0"
    and "\<exists>p. name_entry (OS_common_table s (record_of t (index_of i))) = Some p \<and> name_owner p = (t, unat (index_of i))"
    by (auto simp: idle_slot_def)
qed

lemma GetById_claim:
  assumes "idle s" "live t i s"
  shows "OS_ObjectIdGetById env OS_LOCK_MODE_EXCLUSIVE t i s
    = (OS_SUCCESS, tok OS_LOCK_MODE_EXCLUSIVE 0 t (index_of i) i, claimed_state t i s)"
  using GetById_exclusive[OF idleD(1)[OF assms(1)] assms(2) idle_live_record(3,5)[OF assms]]
  by (simp add: claimed_state_def)

lemma FinalizeDelete_claimed:
  assumes "idle s" "live t i s"
  shows "OS_ObjectIdFinalizeDelete env st (tok OS_LOCK_MODE_EXCLUSIVE k t (index_of i) i) (claimed_state t i s\<lparr>impl := a\<rparr>)
    = (st, tok OS_LOCK_MODE_NONE 0 t (index_of i) i, deleted_state env t i st a s)"
proof -
  note l = idle_live_record[OF assms] and f = id_of_type_facts[OF idle_live_record(1)[OF assms]]
  let ?r = "record_of t (index_of i)"
  have fin: "upd_common ?r (\<lambda>ob. (drop_ref ob)\<lparr>active_id := x\<rparr>) (claimed_state t i s\<lparr>impl := b\<rparr>)
      = ticked t (upd_common ?r (\<lambda>ob. ob\<lparr>active_id := x\<rparr>) (s\<lparr>impl := b\<rparr>))" for x b
    unfolding claimed_state_def impl_ticked impl_upd_common upd_common_ticked upd_common_upd_common
    by (rule arg_cong[where f = "ticked t"], rule upd_common_cong)
      (use l(5) in \<open>cases "OS_common_table s ?r"; simp add: drop_ref_def\<close>)
  have "lock_free t (claimed_state t i s\<lparr>impl := a\<rparr>)" using l(3) by (simp add: claimed_state_def)
  from FinalizeDelete_exclusive[OF this f(4), of env st k "index_of i" i] show ?thesis
    unfolding Let_def fin by (simp add: deleted_state_def impl_ticked impl_upd_common claimed_state_def)
qed

lemma delete_object_live:
  assumes "idle s" "live t i s"
    and "del (tok OS_LOCK_MODE_EXCLUSIVE 0 t (index_of i) i) (claimed_state t i s) = (st, a)"
  shows "delete_object env t del i s = (st, deleted_state env t i st a s)"
  using assms(3) by (simp add: delete_object_def GetById_claim[OF assms(1,2)] FinalizeDelete_claimed[OF assms(1,2)])

lemma delete_object_dead:
  assumes "idle s" "\<not> live t i s" "OS_GetMaxForObjectType t \<noteq> 0"
  shows "delete_object env t del i s = (OS_ERR_INVALID_ID, ticked t s)"
proof -
  have r: "active_id (OS_common_table s (record_of t (index_of i))) \<noteq> OS_OBJECT_ID_RESERVED" if "id_of_type t i"
    using idleD(4)[OF assms(1) id_of_type_facts(6)[OF that]] id_of_type_facts(3)
    by (auto simp: idle_slot_def)
  obtain token where "OS_ObjectIdGetById env OS_LOCK_MODE_EXCLUSIVE t i s = (OS_ERR_INVALID_ID, token, ticked t s)"
    by (rule GetById_not_live[OF idleD(1)[OF assms(1)] assms(3) idleD(3)[OF assms(1,3)] _ assms(2) r, of OS_LOCK_MODE_EXCLUSIVE env]) auto
  then show ?thesis by (simp add: delete_object_def)
qed

lemma deleted_registry:
  assumes "idle s" "live t i s"
  shows "registry (deleted_state env t i st a s)
    = (if st = OS_SUCCESS then (registry s)((t, index_of i) := None) else registry s)"
proof -
  note l = idle_live_record[OF assms] and f = id_of_type_facts[OF idle_live_record(1)[OF assms]]
  let ?r = "record_of t (index_of i)"
  let ?f = "\<lambda>ob. ob\<lparr>active_id := if st = OS_SUCCESS then 0 else i\<rparr>"
  have "registry (upd_common ?r ?f (s\<lparr>impl := b\<rparr>)) = (registry s)((t, index_of i) :=
      if OS_ObjectIdDefined (active_id (?f (OS_common_table s ?r)))
      then Some (active_id (?f (OS_common_table s ?r)),
                 map_option (deref_name (upd_common ?r ?f (s\<lparr>impl := b\<rparr>))) (name_entry (?f (OS_common_table s ?r))),
                 creator (?f (OS_common_table s ?r))) else None)" for b
    by (rule registry_upd_common[OF f(6) refl]) simp_all
  then have "registry (deleted_state env t i st a s) = (registry s)((t, index_of i) :=
      if st = OS_SUCCESS then None else Some (i, map_option (deref_name s) (name_entry (OS_common_table s ?r)), creator (OS_common_table s ?r)))"
    using f(2) by (simp add: deleted_state_def OS_ObjectIdDefined_def)
  moreover have "registry s (t, index_of i) = Some (i, map_option (deref_name s) (name_entry (OS_common_table s ?r)), creator (OS_common_table s ?r))"
    using l f by (simp add: registry_def OS_ObjectIdDefined_def Let_def)
  ultimately show ?thesis by (simp add: fun_upd_idem)
qed

lemma deleted_idle:
  assumes "idle s" "live t i s"
  shows "idle (deleted_state env t i st a s)"
proof -
  note l = idle_live_record[OF assms] and f = id_of_type_facts[OF idle_live_record(1)[OF assms]]
  have "idle (upd_common (record_of t (index_of i)) (\<lambda>ob. ob\<lparr>active_id := if st = OS_SUCCESS then 0 else i\<rparr>) s)"
    by (rule idle_upd_common[OF assms(1) f(6)]) (use l idleD[OF assms(1)] in \<open>auto simp: idle_slot_def\<close>)
  then show ?thesis by (simp add: deleted_state_def impl_upd_common[symmetric])
qed

subsection \<open>Creation\<close>

definition reserved_state :: "'i idmap_env \<Rightarrow> osal_objtype_t \<Rightarrow> osal_id_t \<Rightarrow> 'i os_state \<Rightarrow> 'i os_state" where
  "reserved_state env t i s = ticked t ((issued t i OS_OBJECT_ID_RESERVED 1 (OS_TaskGetId env s) s)
     \<lparr>impl := event_impl env OS_EVENT_RESOURCE_ALLOCATED i s\<rparr>)"

definition created_state ::
    "'i idmap_env \<Rightarrow> osal_objtype_t \<Rightarrow> osal_id_t \<Rightarrow> status \<Rightarrow> 'i \<Rightarrow> 'i os_state \<Rightarrow> 'i os_state" where
  "created_state env t i st a s2 =
     ticked t (upd_common (record_of t (index_of i))
       (\<lambda>ob. ob\<lparr>active_id := if st = OS_SUCCESS then i else 0, refcount := 0\<rparr>)
       (s2\<lparr>impl := if st = OS_SUCCESS then event_impl env OS_EVENT_RESOURCE_CREATED i (s2\<lparr>impl := a\<rparr>) else a\<rparr>))"

text \<open>
  What an object type provides: its number, the name field of each element, and how a new element
  is filled in (\<^verbatim>\<open>OS_OBJECT_INIT\<close> and the assignments that follow it; \<open>'a\<close> is
  what the caller passed besides the name). \<open>elem\<close> reads the type's own table, and \<open>filled\<close>
  is the content a new element has; \<open>name_size\<close> is the size of the name field.
\<close>

locale slot_table =
  fixes objtype :: osal_objtype_t
    and name_field :: "nat \<Rightarrow> name_ptr"
    and fill :: "string \<Rightarrow> 'a \<Rightarrow> OS_object_token \<Rightarrow> 'i os_state \<Rightarrow> 'i os_state"
    and elem :: "'i os_state \<Rightarrow> nat \<Rightarrow> 'e"
    and filled :: "string \<Rightarrow> 'a \<Rightarrow> 'e"
    and name_size :: nat
  assumes objtype_supported: "OS_GetMaxForObjectType objtype \<noteq> 0"
    and name_field_owner: "name_owner (name_field k) = (objtype, k)"
    and fill_common: "OS_common_table (fill nm x token s) = (OS_common_table s)
          (OS_ObjectIdGlobalFromToken token :=
             (OS_common_table s (OS_ObjectIdGlobalFromToken token))\<lparr>name_entry := Some (name_field (unat (obj_idx token)))\<rparr>)"
    and fill_name: "length nm < name_size
          \<Longrightarrow> deref_name (fill nm x token s) (name_field (unat (obj_idx token))) = nm"
    and fill_other_names: "name_owner p \<noteq> (objtype, unat (obj_idx token))
          \<Longrightarrow> deref_name (fill nm x token s) p = deref_name s p"
    and fill_frame: "OS_objtype_state_tbl (fill nm x token s) = OS_objtype_state_tbl s"
          "OS_SharedGlobalVars (fill nm x token s) = OS_SharedGlobalVars s"
          "table_lock (fill nm x token s) = table_lock s" "stuck (fill nm x token s) = stuck s"
    and fill_elem: "elem (fill nm x token s) = (elem s)(unat (obj_idx token) := filled nm x)"
    and elem_frame: "elem (upd_common r f s) = elem s" "elem (upd_objtype t g s) = elem s"
          "elem (s\<lparr>impl := a\<rparr>) = elem s"
begin

lemma elem_ticked: "elem (ticked t s) = elem s"
  by (simp add: ticked_def elem_frame)

lemma elem_created:
  "elem (created_state env objtype i st a (fill nm x (tok m k objtype (index_of i) i) (reserved_state env objtype i s)))
    = (elem s)(unat (index_of i) := filled nm x)"
  by (simp add: created_state_def reserved_state_def issued_def elem_frame elem_ticked fill_elem)

lemma elem_deleted: "elem (deleted_state env t i st a s) = elem s"
  by (simp add: deleted_state_def elem_frame elem_ticked)

lemma lock_free_fill: "lock_free t (fill nm x token s) = lock_free t s"
  by (simp add: lock_free_def objtype_state_def fill_frame)

lemma create_object_ok:
  assumes "idle s" "event_ok env s" "\<exists>k < OS_GetMaxForObjectType objtype. registry s (objtype, k) = None"
    and "\<And>n i. name = Some n \<Longrightarrow> \<not> registered_name s objtype n i"
  obtains i where "id_of_type objtype i" "registry s (objtype, index_of i) = None"
    and "\<And>st a. create (tok OS_LOCK_MODE_EXCLUSIVE 0 objtype (index_of i) i)
            (fill nm x (tok OS_LOCK_MODE_EXCLUSIVE 0 objtype (index_of i) i) (reserved_state env objtype i s)) = (st, a)
         \<Longrightarrow> create_object_as env objtype name (fill nm x) create s
           = (st, Some (if st = OS_SUCCESS then i else 0),
              created_state env objtype i st a
                (fill nm x (tok OS_LOCK_MODE_EXCLUSIVE 0 objtype (index_of i) i) (reserved_state env objtype i s)))"
proof -
  let ?t = objtype and ?X = OS_LOCK_MODE_EXCLUSIVE
  from assms(3) obtain k0 where k0: "free_slot ?t s k0" by (auto simp: free_slot_registry)
  have nn: "\<not> has_name ?t n s k" if "name = Some n" for n k
    using assms(4)[OF that] by (auto simp: has_name_registry registered_name_def)
  obtain i where i: "id_of_type ?t i" "free_slot ?t s (index_of i)"
    and al: "OS_ObjectIdAllocateNew env ?t name s
      = (OS_SUCCESS, tok ?X 0 ?t (index_of i) i, reserved_state env ?t i s)"
    by (rule AllocateNew_ok[OF idleD(1)[OF assms(1)] idleD(3)[OF assms(1) objtype_supported] assms(2) k0, of name])
      (use nn in \<open>auto simp: reserved_state_def\<close>)
  note f = id_of_type_facts[OF i(1)]
  let ?tk = "tok ?X 0 ?t (index_of i) i" and ?r = "record_of ?t (index_of i)"
  let ?s2 = "fill nm x ?tk (reserved_state env ?t i s)"
  have lf: "lock_free ?t (?s2\<lparr>impl := a\<rparr>)" for a
    using idleD(3)[OF assms(1) objtype_supported]
    by (simp add: lock_free_fill reserved_state_def)
  have rc: "refcount (OS_common_table ?s2 ?r) = 1"
    by (simp add: fill_common reserved_state_def)
  have fin: "upd_common ?r (\<lambda>ob. (drop_ref ob)\<lparr>active_id := y\<rparr>) (?s2\<lparr>impl := b\<rparr>)
      = upd_common ?r (\<lambda>ob. ob\<lparr>active_id := y, refcount := 0\<rparr>) (?s2\<lparr>impl := b\<rparr>)" for y b
    by (rule upd_common_cong) (use rc in \<open>cases "OS_common_table ?s2 ?r"; simp add: drop_ref_def\<close>)
  have "create_object_as env ?t name (fill nm x) create s
      = (st, Some (if st = OS_SUCCESS then i else 0), created_state env ?t i st a ?s2)"
    if "create ?tk ?s2 = (st, a)" for st a
    using that FinalizeNew_exclusive[OF lf f(4), of env st 0 "index_of i" i a]
    by (auto simp: create_object_def al Let_def fin created_state_def impl_ticked impl_upd_common)
  with i show thesis using that by (simp add: free_slot_registry)
qed

lemma created_common:
  "OS_common_table (created_state env objtype i st a
      (fill nm x (tok m k objtype (index_of i) i) (reserved_state env objtype i s)))
    = (OS_common_table s)(record_of objtype (index_of i) :=
        \<lparr>name_entry = Some (name_field (unat (index_of i))), active_id = if st = OS_SUCCESS then i else 0,
         creator = OS_TaskGetId env s, refcount = 0\<rparr>)"
  by (simp add: created_state_def fill_common reserved_state_def)

text \<open>The new object appears in the registry under its name; nothing else changes there.\<close>

lemma created_registry:
  assumes "idle s" "id_of_type objtype i" "registry s (objtype, index_of i) = None" "length nm < name_size"
  shows "registry (created_state env objtype i st a
      (fill nm x (tok m k objtype (index_of i) i) (reserved_state env objtype i s)))
    = (registry s)((objtype, index_of i) :=
        if st = OS_SUCCESS then Some (i, Some nm, OS_TaskGetId env s) else None)"
proof -
  let ?tk = "tok m k objtype (index_of i) i" and ?r = "record_of objtype (index_of i)"
  let ?s2 = "fill nm x ?tk (reserved_state env objtype i s)"
  let ?s' = "created_state env objtype i st a ?s2"
  note f = id_of_type_facts[OF assms(2)]
  let ?ob = "\<lparr>name_entry = Some (name_field (unat (index_of i))), active_id = if st = OS_SUCCESS then i else 0,
         creator = OS_TaskGetId env s, refcount = 0\<rparr>"
  have names: "deref_name ?s' p = deref_name s p" if "name_owner p \<noteq> (objtype, unat (index_of i))" for p
    using that by (simp add: created_state_def fill_other_names reserved_state_def)
  have own: "deref_name ?s' (name_field (unat (index_of i))) = nm"
    using fill_name[OF assms(4), of x ?tk] by (simp add: created_state_def)
  have "registry ?s' = (registry s)((objtype, index_of i) :=
      if OS_ObjectIdDefined (active_id ?ob) then Some (active_id ?ob, map_option (deref_name ?s') (name_entry ?ob), creator ?ob) else None)"
  proof (rule registry_upd_common[OF f(6), of "\<lambda>_. ?ob"])
    fix u j p
    assume n: "(u, j) \<noteq> (objtype, index_of i)" and j: "j < OS_GetMaxForObjectType u"
      and d: "OS_ObjectIdDefined (active_id (OS_common_table s (record_of u j)))"
      and p: "name_entry (OS_common_table s (record_of u j)) = Some p"
    from idleD(4)[OF assms(1) j] d p have "name_owner p = (u, unat j)"
      by (auto simp: idle_slot_def OS_ObjectIdDefined_def)
    with n have "name_owner p \<noteq> (objtype, unat (index_of i))" by (auto simp: word_unat_eq_iff)
    then show "deref_name ?s' p = deref_name s p" by (rule names)
  qed (simp_all add: created_common)
  then show ?thesis using own f(2) by (cases "st = OS_SUCCESS") (simp_all add: OS_ObjectIdDefined_def)
qed

lemma created_idle:
  assumes "idle s" "id_of_type objtype i"
  shows "idle (created_state env objtype i st a
      (fill nm x (tok m k objtype (index_of i) i) (reserved_state env objtype i s)))"
proof (rule idle_upd_common[OF assms(1) _ _ created_common])
  note f = id_of_type_facts[OF assms(2)]
  show "index_of i < OS_GetMaxForObjectType objtype" by (rule f(6))
  show "idle_slot objtype (index_of i)
      \<lparr>name_entry = Some (name_field (unat (index_of i))), active_id = if st = OS_SUCCESS then i else 0,
         creator = OS_TaskGetId env s, refcount = 0\<rparr>"
    using assms(2) by (simp add: idle_slot_def name_field_owner)
qed (use idleD[OF assms(1)] in \<open>simp_all add: created_state_def reserved_state_def running_def lock_free_fill fill_frame\<close>)

end

subsection \<open>The lifecycle of an object\<close>

text \<open>The laws that hold for any object type, in terms of the registry alone.\<close>

context slot_table
begin

theorem create_as_refines:
  assumes "idle s" "event_ok env s" "length nm < name_size"
    and "\<exists>k < OS_GetMaxForObjectType objtype. registry s (objtype, k) = None"
    and "\<And>n i. name = Some n \<Longrightarrow> \<not> registered_name s objtype n i"
    and "create_object_as env objtype name (fill nm x) create s = (st, out, s')"
  shows "\<exists>i. id_of_type objtype i \<and> registry s (objtype, index_of i) = None \<and> idle s' \<and>
    elem s' = (elem s)(unat (index_of i) := filled nm x) \<and> (\<exists>token s0. fst (create token s0) = st) \<and>
    (if st = OS_SUCCESS
     then out = Some i \<and> registry s' = (registry s)((objtype, index_of i) \<mapsto> (i, Some nm, OS_TaskGetId env s))
     else out = Some 0 \<and> registry s' = registry s)"
proof -
  obtain i where i: "id_of_type objtype i" "registry s (objtype, index_of i) = None"
    and c: "\<And>st a. create (tok OS_LOCK_MODE_EXCLUSIVE 0 objtype (index_of i) i)
            (fill nm x (tok OS_LOCK_MODE_EXCLUSIVE 0 objtype (index_of i) i) (reserved_state env objtype i s)) = (st, a)
         \<Longrightarrow> create_object_as env objtype name (fill nm x) create s
           = (st, Some (if st = OS_SUCCESS then i else 0),
              created_state env objtype i st a
                (fill nm x (tok OS_LOCK_MODE_EXCLUSIVE 0 objtype (index_of i) i) (reserved_state env objtype i s)))"
    by (rule create_object_ok[where name = name and nm = nm and create = create and x = x, OF assms(1,2,4)]) (use assms(5) in blast)+
  obtain st0 a where cr: "create (tok OS_LOCK_MODE_EXCLUSIVE 0 objtype (index_of i) i)
      (fill nm x (tok OS_LOCK_MODE_EXCLUSIVE 0 objtype (index_of i) i) (reserved_state env objtype i s)) = (st0, a)"
    by fastforce
  from c[OF cr] assms(6) have "st0 = st" "out = Some (if st = OS_SUCCESS then i else 0)"
    and s': "s' = created_state env objtype i st a
                (fill nm x (tok OS_LOCK_MODE_EXCLUSIVE 0 objtype (index_of i) i) (reserved_state env objtype i s))"
    by auto
  moreover from cr \<open>st0 = st\<close> have "\<exists>token s0. fst (create token s0) = st" by (metis fst_conv)
  ultimately show ?thesis
    using i created_registry[OF assms(1) i assms(3)] created_idle[OF assms(1) i(1)]
    by (intro exI[of _ i]) (simp add: fun_upd_idem elem_created)
qed

theorem delete_refines:
  assumes "idle s" "delete_object env objtype del i s = (st, s')"
  shows "idle s' \<and> elem s' = elem s \<and>
    (if live objtype i s
     then registry s' = (if st = OS_SUCCESS then (registry s)((objtype, index_of i) := None) else registry s)
     else st = OS_ERR_INVALID_ID \<and> registry s' = registry s)"
proof (cases "live objtype i s")
  case True
  obtain st0 a where "del (tok OS_LOCK_MODE_EXCLUSIVE 0 objtype (index_of i) i) (claimed_state objtype i s) = (st0, a)"
    by fastforce
  from delete_object_live[where env = env and del = del, OF assms(1) True this] assms(2)
  have "s' = deleted_state env objtype i st a s" by auto
  with deleted_registry[OF assms(1) True] deleted_idle[OF assms(1) True] True show ?thesis
    by (simp add: elem_deleted)
next
  case False
  with delete_object_dead[where env = env and del = del, OF assms(1) False objtype_supported] assms show ?thesis
    by (simp add: elem_ticked)
qed

lemma created_live:
  assumes "idle s'" "id_of_type objtype i" "registry s' (objtype, index_of i) = Some (i, v)"
  shows "live objtype i s'"
  using assms objtype_supported by (auto simp: idle_live)

end

text \<open>
  An object type whose objects are looked up by name: the name is new when an object is created, and
  has the size of an API name.
\<close>

locale object_table = slot_table objtype name_field fill elem filled OS_MAX_API_NAME
  for objtype :: osal_objtype_t
    and name_field :: "nat \<Rightarrow> name_ptr"
    and fill :: "string \<Rightarrow> 'a \<Rightarrow> OS_object_token \<Rightarrow> 'i os_state \<Rightarrow> 'i os_state"
    and elem :: "'i os_state \<Rightarrow> nat \<Rightarrow> 'e"
    and filled :: "string \<Rightarrow> 'a \<Rightarrow> 'e"
begin

theorem create_refines:
  assumes "idle s" "event_ok env s" "length nm < OS_MAX_API_NAME"
    and "\<exists>k < OS_GetMaxForObjectType objtype. registry s (objtype, k) = None"
    and "\<nexists>i. registered_name s objtype nm i"
    and "create_object env objtype nm (fill nm x) create s = (st, out, s')"
  shows "\<exists>i. id_of_type objtype i \<and> registry s (objtype, index_of i) = None \<and> idle s' \<and>
    elem s' = (elem s)(unat (index_of i) := filled nm x) \<and> (\<exists>token s0. fst (create token s0) = st) \<and>
    (if st = OS_SUCCESS
     then out = Some i \<and> registry s' = (registry s)((objtype, index_of i) \<mapsto> (i, Some nm, OS_TaskGetId env s))
     else out = Some 0 \<and> registry s' = registry s)"
  by (rule create_as_refines[OF assms(1-4) _ assms(6)]) (use assms(5) in simp)

theorem create_name_taken:
  assumes "idle s" "registered_name s objtype nm i"
  shows "create_object env objtype nm (fill nm x) create s = (OS_ERR_NAME_TAKEN, None, ticked objtype s)"
proof -
  from assms(2) obtain k where k: "has_name objtype nm s k"
    by (auto simp: registered_name_def has_name_registry)
  obtain token where "OS_ObjectIdAllocateNew env objtype (Some nm) s = (OS_ERR_NAME_TAKEN, token, ticked objtype s)"
    by (rule AllocateNew_name_taken[OF idleD(1)[OF assms(1)] idleD(3)[OF assms(1) objtype_supported] k])
  then show ?thesis by (simp add: create_object_def)
qed

theorem create_table_full:
  assumes "idle s" "\<nexists>i. registered_name s objtype nm i"
    and "\<forall>k < OS_GetMaxForObjectType objtype. registry s (objtype, k) \<noteq> None"
  shows "create_object env objtype nm (fill nm x) create s = (OS_ERR_NO_FREE_IDS, None, ticked objtype s)"
proof -
  have n: "\<not> has_name objtype nm' s k" if "Some nm = Some nm'" for nm' k
    using assms(2) that by (auto simp: registered_name_def has_name_registry)
  have fr: "\<not> free_slot objtype s k" for k using assms(3) by (auto simp: free_slot_registry)
  obtain token where "OS_ObjectIdAllocateNew env objtype (Some nm) s = (OS_ERR_NO_FREE_IDS, token, ticked objtype s)"
    by (rule AllocateNew_full[OF idleD(1)[OF assms(1)] idleD(3)[OF assms(1) objtype_supported] objtype_supported fr n])
  then show ?thesis by (simp add: create_object_def)
qed

theorem find_refines:
  assumes "idle s" "length nm < OS_MAX_API_NAME"
  shows "\<exists>out. OS_ObjectIdFindByName env objtype (Some nm) s
      = (if out = None then OS_ERR_NAME_NOT_FOUND else OS_SUCCESS, out, ticked objtype s)
    \<and> (case out of None \<Rightarrow> \<nexists>i. registered_name s objtype nm i | Some i \<Rightarrow> registered_name s objtype nm i)"
proof (cases "\<exists>k. has_name objtype nm s k")
  case True
  then obtain k0 where k0: "has_name objtype nm s k0" ..
  obtain k where k: "has_name objtype nm s k"
    and fb: "OS_ObjectIdFindByName env objtype (Some nm) s
      = (OS_SUCCESS, Some (active_id (OS_common_table s (record_of objtype k))), ticked objtype s)"
    by (rule FindByName_found[OF idleD(1)[OF assms(1)] idleD(3)[OF assms(1) objtype_supported] assms(2) k0])
      (use idle_has_name[OF assms(1)] in blast)+
  from k have "registered_name s objtype nm (active_id (OS_common_table s (record_of objtype k)))"
    by (auto simp: registered_name_def has_name_def registry_def Let_def intro!: exI[of _ k])
  with fb show ?thesis by simp
next
  case False
  then have "OS_ObjectIdFindByName env objtype (Some nm) s = (OS_ERR_NAME_NOT_FOUND, None, ticked objtype s)"
    by (intro FindByName_not_found idleD[OF assms(1)] objtype_supported assms(2)) blast
  moreover from False have "\<nexists>i. registered_name s objtype nm i"
    by (auto simp: registered_name_def has_name_registry)
  ultimately show ?thesis by (intro exI[of _ None]) simp
qed

end

subsection \<open>Using and inspecting an object\<close>

definition use_object ::
    "'i idmap_env \<Rightarrow> osal_objtype_t \<Rightarrow> (OS_object_token \<Rightarrow> 'i os_state \<Rightarrow> status \<times> 'i) \<Rightarrow> osal_id_t \<Rightarrow> 'i os_state
      \<Rightarrow> status \<times> 'i os_state" where
  "use_object env t act i s =
    (case OS_ObjectIdGetById env OS_LOCK_MODE_NONE t i s of
       (return_code, token, s1) \<Rightarrow>
         (if return_code = OS_SUCCESS then (case act token s1 of (st, a) \<Rightarrow> (st, s1\<lparr>impl := a\<rparr>))
          else (return_code, s1)))"

lemma GetById_dead:
  assumes "idle s" "\<not> live t i s" "OS_GetMaxForObjectType t \<noteq> 0" "m \<noteq> OS_LOCK_MODE_RESERVED"
  obtains token where "lock_mode token = OS_LOCK_MODE_NONE"
    and "OS_ObjectIdGetById env m t i s = (OS_ERR_INVALID_ID, token, if m = OS_LOCK_MODE_NONE then s else ticked t s)"
proof -
  have r: "active_id (OS_common_table s (record_of t (index_of i))) \<noteq> OS_OBJECT_ID_RESERVED" if "id_of_type t i"
    using idleD(4)[OF assms(1) id_of_type_facts(6)[OF that]] id_of_type_facts(3)
    by (auto simp: idle_slot_def)
  show thesis
    by (rule GetById_not_live[OF idleD(1)[OF assms(1)] assms(3) idleD(3)[OF assms(1,3)] assms(4,2) r that])
qed

lemma use_object_live:
  assumes "idle s" "live t i s"
  shows "use_object env t act i s =
    (case act (tok OS_LOCK_MODE_NONE 0 t (index_of i) i) s of (st, a) \<Rightarrow> (st, s\<lparr>impl := a\<rparr>))"
  by (simp add: use_object_def GetById_none[OF idleD(1)[OF assms(1)] assms(2)])

lemma use_object_dead:
  assumes "idle s" "\<not> live t i s" "OS_GetMaxForObjectType t \<noteq> 0"
  shows "use_object env t act i s = (OS_ERR_INVALID_ID, s)"
proof -
  obtain token where "OS_ObjectIdGetById env OS_LOCK_MODE_NONE t i s = (OS_ERR_INVALID_ID, token, s)"
    by (rule GetById_dead[OF assms, of OS_LOCK_MODE_NONE env]) simp_all
  then show ?thesis by (simp add: use_object_def)
qed

lemma use_object_idle:
  assumes "idle s" "OS_GetMaxForObjectType t \<noteq> 0" "use_object env t act i s = (st, s')"
  shows "idle s'" "registry s' = registry s"
proof -
  have "\<exists>a. s' = s\<lparr>impl := a\<rparr> \<or> s' = s"
  proof (cases "live t i s")
    case True
    with assms show ?thesis by (auto simp: use_object_live split: prod.splits)
  next
    case False
    with assms show ?thesis by (simp add: use_object_dead)
  qed
  with assms(1) show "idle s'" "registry s' = registry s" by auto
qed

text \<open>Between taking an object under the table lock and releasing it, anything may be changed
  that is not part of the common table and its locks; releasing restores the rest.\<close>

lemma GetById_Release_global:
  assumes "idle s" "live t i s"
  obtains k where "k AND 0xFF000000 = 0x4D000000"
    and "OS_ObjectIdGetById env OS_LOCK_MODE_GLOBAL t i s
      = (OS_SUCCESS, tok OS_LOCK_MODE_GLOBAL k t (index_of i) i,
         acquired t k (upd_common (record_of t (index_of i)) (\<lambda>ob. ob\<lparr>refcount := refcount ob + 1\<rparr>) s))"
    and "\<forall>s'. lock_free t s' \<and> OS_common_table s' = OS_common_table s \<longrightarrow>
      OS_ObjectIdRelease env (tok OS_LOCK_MODE_GLOBAL k t (index_of i) i)
        (acquired t k (upd_common (record_of t (index_of i)) (\<lambda>ob. ob\<lparr>refcount := refcount ob + 1\<rparr>) s'))
      = (tok OS_LOCK_MODE_NONE 0 t (index_of i) i, ticked t s')"
proof -
  note l = idle_live_record[OF assms]
  from GetById_global[OF idleD(1)[OF assms(1)] assms(2) l(3), of env] obtain k
    where k: "k AND 0xFF000000 = 0x4D000000"
      and g: "OS_ObjectIdGetById env OS_LOCK_MODE_GLOBAL t i s
        = (OS_SUCCESS, tok OS_LOCK_MODE_GLOBAL k t (index_of i) i,
           acquired t k (upd_common (record_of t (index_of i)) (\<lambda>ob. ob\<lparr>refcount := refcount ob + 1\<rparr>) s))" .
  show thesis
    by (rule that[OF k g], intro allI impI, elim conjE, rule Release_global)
      (use k l id_of_type_facts(4)[OF l(1)] in simp_all)
qed

text \<open>The same for a reference held across a call of the implementation.\<close>

lemma GetById_Release_refcount:
  assumes "idle s" "live t i s"
  shows "OS_ObjectIdGetById env OS_LOCK_MODE_REFCOUNT t i s
      = (OS_SUCCESS, tok OS_LOCK_MODE_REFCOUNT 0 t (index_of i) i,
         ticked t (upd_common (record_of t (index_of i)) (\<lambda>ob. ob\<lparr>refcount := refcount ob + 1\<rparr>) s))"
    and "OS_ObjectIdRelease env (tok OS_LOCK_MODE_REFCOUNT k t (index_of i) i)
      ((ticked t (upd_common (record_of t (index_of i)) (\<lambda>ob. ob\<lparr>refcount := refcount ob + 1\<rparr>) s))\<lparr>impl := a\<rparr>)
        = (tok OS_LOCK_MODE_NONE 0 t (index_of i) i, ticked t (ticked t (s\<lparr>impl := a\<rparr>)))"
proof -
  note l = idle_live_record[OF assms]
  show "OS_ObjectIdGetById env OS_LOCK_MODE_REFCOUNT t i s
      = (OS_SUCCESS, tok OS_LOCK_MODE_REFCOUNT 0 t (index_of i) i,
         ticked t (upd_common (record_of t (index_of i)) (\<lambda>ob. ob\<lparr>refcount := refcount ob + 1\<rparr>) s))"
    by (rule GetById_refcount[OF idleD(1)[OF assms(1)] assms(2) l(3)])
  show "OS_ObjectIdRelease env (tok OS_LOCK_MODE_REFCOUNT k t (index_of i) i)
      ((ticked t (upd_common (record_of t (index_of i)) (\<lambda>ob. ob\<lparr>refcount := refcount ob + 1\<rparr>) s))\<lparr>impl := a\<rparr>)
        = (tok OS_LOCK_MODE_NONE 0 t (index_of i) i, ticked t (ticked t (s\<lparr>impl := a\<rparr>)))"
    unfolding impl_ticked impl_upd_common
    by (rule Release_refcount) (use l id_of_type_facts(4)[OF l(1)] in simp_all)
qed

subsection \<open>Consequences\<close>

context object_table
begin

lemma registered_after_create:
  assumes "registry s' = (registry s)((objtype, index_of i) \<mapsto> (i, Some nm, c))"
    and "\<nexists>j. registered_name s objtype nm j"
  shows "registered_name s' objtype nm j \<longleftrightarrow> j = i"
  using assms by (auto simp: registered_name_def)

theorem create_succeeds:
  assumes "idle s" "event_ok env s" "length nm < OS_MAX_API_NAME"
    and "\<exists>k < OS_GetMaxForObjectType objtype. registry s (objtype, k) = None"
    and "\<nexists>i. registered_name s objtype nm i"
    and "\<And>token s0. fst (create token s0) = OS_SUCCESS"
  obtains i s' where "create_object env objtype nm (fill nm x) create s = (OS_SUCCESS, Some i, s')"
    and "idle s'" "live objtype i s'" "elem s' = (elem s)(unat (index_of i) := filled nm x)"
    and "registry s (objtype, index_of i) = None"
    and "registry s' = (registry s)((objtype, index_of i) \<mapsto> (i, Some nm, OS_TaskGetId env s))"
    and "\<And>j. registered_name s' objtype nm j \<longleftrightarrow> j = i"
proof -
  obtain st out s' where c: "create_object env objtype nm (fill nm x) create s = (st, out, s')"
    by (metis prod_cases3)
  from create_refines[OF assms(1-5) c] assms(6) obtain i
    where i: "id_of_type objtype i" "idle s'" "st = OS_SUCCESS" "out = Some i" "registry s (objtype, index_of i) = None"
      "elem s' = (elem s)(unat (index_of i) := filled nm x)"
      and reg: "registry s' = (registry s)((objtype, index_of i) \<mapsto> (i, Some nm, OS_TaskGetId env s))"
    by auto
  then have "live objtype i s'" by (intro created_live) simp_all
  with i c reg registered_after_create[OF reg assms(5)] that show thesis by blast
qed

text \<open>There are states with an object of the type, under any short name.\<close>

lemma some_live:
  assumes "length nm < OS_MAX_API_NAME"
  obtains s :: "'i os_state" and i where "idle s" "live objtype i s"
    and "\<And>j. registered_name s objtype nm j \<longleftrightarrow> j = i" "elem s (unat (index_of i)) = filled nm x"
proof -
  have "\<exists>k < OS_GetMaxForObjectType objtype. registry (fresh_state a) (objtype, k) = None" for a :: 'i
    using objtype_supported by (auto simp: word_greater_zero_iff intro!: exI[of _ 0])
  then show thesis
    by (rule create_succeeds[of "fresh_state undefined" quiet_env nm "\<lambda>_ _. (OS_SUCCESS, undefined)" x, rotated 3])
      (use assms that in simp_all)
qed

theorem find_unique:
  assumes "idle s" "length nm < OS_MAX_API_NAME" "\<And>j. registered_name s objtype nm j \<longleftrightarrow> j = i"
  shows "OS_ObjectIdFindByName env objtype (Some nm) s = (OS_SUCCESS, Some i, ticked objtype s)"
  using find_refines[OF assms(1,2), of env] assms(3) by (auto split: option.splits)

theorem find_none:
  assumes "idle s" "length nm < OS_MAX_API_NAME" "\<nexists>j. registered_name s objtype nm j"
  shows "OS_ObjectIdFindByName env objtype (Some nm) s = (OS_ERR_NAME_NOT_FOUND, None, ticked objtype s)"
  using find_refines[OF assms(1,2), of env] assms(3) by (auto split: option.splits)

text \<open>The name that is read through the common record is the registered one.\<close>

lemma registered_record:
  assumes "idle s" "live objtype i s" "registry s (objtype, index_of i) = Some (i, Some nm, c)"
  shows "name_chars s (name_entry (OS_common_table s (record_of objtype (index_of i)))) = nm"
    and "creator (OS_common_table s (record_of objtype (index_of i))) = c"
  using assms by (auto simp: registry_def Let_def name_chars_def split: if_splits)

text \<open>
  Deleting the object that holds a name removes exactly that registration; if the name was unique
  it is free again, and the old ID is refused from then on.
\<close>

theorem delete_then_gone:
  fixes s :: "'i os_state"
  assumes "idle s" "live objtype i s" "\<And>j. registered_name s objtype nm j \<longleftrightarrow> j = i"
    and "delete_object env objtype del i s = (OS_SUCCESS, s')"
  shows "\<not> live objtype i s'" and "\<nexists>j. registered_name s' objtype nm j"
proof -
  from delete_refines[OF assms(1,4)] assms(2)
  have id: "idle s'" and r: "registry s' = (registry s)((objtype, index_of i) := None)" by auto
  show "\<not> live objtype i s'" by (simp add: idle_live[OF id] r)
  show "\<nexists>j. registered_name s' objtype nm j"
  proof
    assume "\<exists>j. registered_name s' objtype nm j"
    then obtain j k c where "registry s' (objtype, k) = Some (j, Some nm, c)"
      by (auto simp: registered_name_def)
    with r have k: "registry s (objtype, k) = Some (j, Some nm, c)" "k \<noteq> index_of i"
      by (auto split: if_splits)
    with assms(3) have "j = i" by (auto simp: registered_name_def)
    with k assms(1) idleD(4)[OF assms(1), of k objtype] show False
      by (auto simp: registry_def Let_def idle_slot_def OS_ObjectIdDefined_def split: if_splits)
  qed
qed

end

lemma name_chars_frame [simp]:
  "name_chars (upd_common r f s) p = name_chars s p" "name_chars (acquired t k s) p = name_chars s p"
  "name_chars (ticked t s) p = name_chars s p" "name_chars (s\<lparr>impl := a\<rparr>) p = name_chars s p"
  by (simp_all add: name_chars_def split: option.split)

subsection \<open>A whole lifecycle\<close>

text \<open>
  Create, look up, fail to create again, delete, fail to look up, fail to delete again: after it
  the registry is what it was.
\<close>

context object_table
begin

theorem lifecycle:
  assumes "idle s" "event_ok env s" "length nm < OS_MAX_API_NAME"
    and "\<exists>k < OS_GetMaxForObjectType objtype. registry s (objtype, k) = None"
    and "\<nexists>i. registered_name s objtype nm i"
    and "\<And>token s0. fst (create token s0) = OS_SUCCESS" "\<And>token s0. fst (del token s0) = OS_SUCCESS"
  shows "\<exists>i s1 s2. create_object env objtype nm (fill nm x) create s = (OS_SUCCESS, Some i, s1) \<and>
    registry s1 = (registry s)((objtype, index_of i) \<mapsto> (i, Some nm, OS_TaskGetId env s)) \<and>
    OS_ObjectIdFindByName env objtype (Some nm) s1 = (OS_SUCCESS, Some i, ticked objtype s1) \<and>
    create_object env objtype nm (fill nm x) create s1 = (OS_ERR_NAME_TAKEN, None, ticked objtype s1) \<and>
    delete_object env objtype del i s1 = (OS_SUCCESS, s2) \<and>
    OS_ObjectIdFindByName env objtype (Some nm) s2 = (OS_ERR_NAME_NOT_FOUND, None, ticked objtype s2) \<and>
    delete_object env objtype del i s2 = (OS_ERR_INVALID_ID, ticked objtype s2) \<and>
    idle s2 \<and> registry s2 = registry s"
proof -
  obtain i s1 where c: "create_object env objtype nm (fill nm x) create s = (OS_SUCCESS, Some i, s1)"
    and id: "idle s1" and lv: "live objtype i s1" and "elem s1 = (elem s)(unat (index_of i) := filled nm x)"
    and fresh: "registry s (objtype, index_of i) = None"
    and reg: "registry s1 = (registry s)((objtype, index_of i) \<mapsto> (i, Some nm, OS_TaskGetId env s))"
    and names: "\<And>j. registered_name s1 objtype nm j \<longleftrightarrow> j = i"
    by (rule create_succeeds[OF assms(1-5), of create x]) (use assms(6) in blast)+
  have names_i: "registered_name s1 objtype nm i" using names by blast
  obtain st s2 where "delete_object env objtype del i s1 = (st, s2)" by fastforce
  moreover obtain a where "del (tok OS_LOCK_MODE_EXCLUSIVE 0 objtype (index_of i) i) (claimed_state objtype i s1) = (OS_SUCCESS, a)"
    using assms(7) by (metis prod.collapse)
  ultimately have d: "delete_object env objtype del i s1 = (OS_SUCCESS, s2)"
    using delete_object_live[where del = del and env = env, OF id lv] by simp
  from delete_refines[OF id d] lv have id2: "idle s2" and reg2: "registry s2 = (registry s1)((objtype, index_of i) := None)"
    by auto
  note gone = delete_then_gone[OF id lv names d]
  have "registry s2 = registry s" by (simp add: reg2 reg fresh fun_upd_idem)
  with c d reg id2 find_unique[OF id assms(3) names, of env] create_name_taken[OF id names_i, of env x create]
    find_none[OF id2 assms(3) gone(2), of env] delete_object_dead[OF id2 gone(1) objtype_supported, of env del]
  show ?thesis by blast
qed

end

subsection \<open>Diagnostics\<close>

lemma OS_DEBUG_simps [simp]:
  "idle (OS_DEBUG m s) = idle s" "registry (OS_DEBUG m s) = registry s" "live t i (OS_DEBUG m s) = live t i s"
  "impl (OS_DEBUG m s) = impl s" "debug_log (OS_DEBUG m s) = debug_log s @ [m]"
  "running (OS_DEBUG m s) = running s"
  "OS_mutex_table (OS_DEBUG m s) = OS_mutex_table s" "OS_rwlock_table (OS_DEBUG m s) = OS_rwlock_table s"
  by (simp_all add: OS_DEBUG_def idle_def running_def lock_free_def objtype_state_def registry_def live_def
      Let_def cong: if_cong)

lemma live_impl [simp]: "live t i (s\<lparr>impl := a\<rparr>) = live t i s"
  by (simp add: live_def)

end
