(* ===== verification/Idmap_Properties.thy ===== *)
theory Idmap_Properties
  imports Object_Lifecycle
begin

unbundle bit_operations_syntax

text \<open>
  Properties of the object ID map in all states, with contention and with failing event handlers,
  and two defects of the locking that they bring to light.
\<close>

subsection \<open>The hold count of the table mutex\<close>

text \<open>What other tasks do while this one waits does not change which mutexes this one holds.\<close>

definition keeps_locks :: "'i idmap_env \<Rightarrow> bool" where
  "keeps_locks env \<longleftrightarrow> (\<forall>t n s. table_lock (other_tasks env t n s) = table_lock s)"

definition lock_plus :: "osal_objtype_t \<Rightarrow> (nat \<Rightarrow> nat) \<Rightarrow> nat \<Rightarrow> nat" where
  "lock_plus t l = (if OS_impl_objtype_lock_table t then l(unat t := l (unat t) + 1) else l)"

lemma table_lock_Lock_Global_Impl: "table_lock (OS_Lock_Global_Impl t s) = lock_plus t (table_lock s)"
  by (simp add: OS_Lock_Global_Impl_def lock_plus_def)

lemma table_lock_Unlock_Global_Impl:
  "table_lock s = lock_plus t l \<Longrightarrow> table_lock (OS_Unlock_Global_Impl t s) = l"
  by (auto simp: OS_Unlock_Global_Impl_def lock_plus_def split: if_splits)

lemma table_lock_DEBUG [simp]: "table_lock (OS_DEBUG m s) = table_lock s"
  by (simp add: OS_DEBUG_def)

lemma table_lock_Lock_Global:
  assumes "obj_type token < OS_OBJECT_TYPE_USER" "lock_mode token \<noteq> OS_LOCK_MODE_NONE"
  shows "table_lock (snd (OS_Lock_Global env token s)) = lock_plus (obj_type token) (table_lock s)"
  using assms by (simp add: OS_Lock_Global_def Let_def table_lock_Lock_Global_Impl)

lemma table_lock_Unlock_Global:
  assumes "obj_type token < OS_OBJECT_TYPE_USER" "lock_mode token \<noteq> OS_LOCK_MODE_NONE"
    and "table_lock s = lock_plus (obj_type token) l"
  shows "table_lock (snd (OS_Unlock_Global token s)) = l"
  using assms by (simp add: OS_Unlock_Global_def Let_def table_lock_Unlock_Global_Impl)

lemma table_lock_Wait:
  assumes "keeps_locks env" "table_lock s = lock_plus (obj_type token) l"
  shows "table_lock (OS_WaitForStateChange env token n s) = lock_plus (obj_type token) l"
  using assms
  by (simp add: OS_WaitForStateChange_def OS_WaitForStateChange_Impl_def Let_def table_lock_Lock_Global_Impl
      keeps_locks_def table_lock_Unlock_Global_Impl)

lemma ConvertToken_body_lock: "table_lock (snd (snd (ConvertToken_body token e s))) = table_lock s"
  by (simp add: ConvertToken_body_def Let_def split: prod.splits)

lemma ConvertToken_loop_lock:
  assumes "keeps_locks env" "table_lock s = lock_plus (obj_type token) l"
  shows "table_lock (snd (snd (ConvertToken_loop env token e n s))) = lock_plus (obj_type token) l"
  using assms
proof (induction env token e n s rule: ConvertToken_loop.induct)
  case (1 env token e n s)
  obtain oc e' s' where b: "ConvertToken_body token e s = (oc, e', s')" by (metis prod_cases3)
  have l': "table_lock s' = lock_plus (obj_type token) l"
    using ConvertToken_body_lock[of token e s] b "1.prems"(2) by simp
  show ?case
  proof (cases oc)
    case (Convert_done x1)
    then show ?thesis using b l' by (simp add: ConvertToken_loop.simps[of env token e n s])
  next
    case Convert_contention
    then show ?thesis
      using b l' "1.IH"[OF b[symmetric]] "1.prems"(1) table_lock_Wait[OF "1.prems"(1) l']
      by (simp add: ConvertToken_loop.simps[of env token e n s])
  qed
qed
lemma ConvertToken_none_state:
  "lock_mode token = OS_LOCK_MODE_NONE \<Longrightarrow> OS_ObjectIdConvertToken env token s
    = (fst (OS_ObjectIdConvertToken env token s), token, s)"
  by (auto simp: OS_ObjectIdConvertToken_def Let_def ConvertToken_loop.simps ConvertToken_body_def)

lemma ConvertToken_lock:
  assumes "keeps_locks env" "lock_mode token \<noteq> OS_LOCK_MODE_NONE" "obj_type token < OS_OBJECT_TYPE_USER"
    and "table_lock s = lock_plus (obj_type token) l"
  shows "table_lock (snd (snd (OS_ObjectIdConvertToken env token s)))
      = (if fst (OS_ObjectIdConvertToken env token s) = OS_SUCCESS
            \<and> lock_mode token \<in> {OS_LOCK_MODE_REFCOUNT, OS_LOCK_MODE_EXCLUSIVE}
         then l else lock_plus (obj_type token) l)"
    and "lock_mode (fst (snd (OS_ObjectIdConvertToken env token s))) = lock_mode token"
    and "obj_type (fst (snd (OS_ObjectIdConvertToken env token s))) = obj_type token"
proof -
  obtain rc1 e1 s1 where lp: "ConvertToken_loop env token
      (if lock_mode token = OS_LOCK_MODE_RESERVED then OS_OBJECT_ID_RESERVED else obj_id token) 0 s = (rc1, e1, s1)"
    by (metis prod_cases3)
  have l1: "table_lock s1 = lock_plus (obj_type token) l"
    using ConvertToken_loop_lock[OF assms(1,4)] lp by (metis snd_conv)
  have un: "table_lock (snd (OS_Unlock_Global token (upd_common r f s1))) = l" for r f
    by (rule table_lock_Unlock_Global[OF assms(3,2)]) (simp add: l1)
  have tk: "lock_mode (fst (OS_Unlock_Global token x)) = lock_mode token"
    "obj_type (fst (OS_Unlock_Global token x)) = obj_type token" for x :: "'a os_state"
    by (simp_all add: OS_Unlock_Global_def Let_def)
  have eq: "OS_ObjectIdConvertToken env token s =
    (let r = OS_ObjectIdGlobalFromToken token;
         s2 = upd_common r (\<lambda>ob. ob\<lparr>refcount := refcount ob + 1\<rparr>) s1
     in if \<not> OS_ObjectIdIsValid (obj_id token) then (OS_ERR_INCORRECT_OBJ_STATE, token, s)
        else if rc1 = OS_SUCCESS then
          (if lock_mode token \<in> {OS_LOCK_MODE_REFCOUNT, OS_LOCK_MODE_EXCLUSIVE}
           then (OS_SUCCESS, fst (OS_Unlock_Global token s2), snd (OS_Unlock_Global token s2))
           else (OS_SUCCESS, token, s2))
        else if lock_mode token = OS_LOCK_MODE_EXCLUSIVE \<and> e1 = OS_OBJECT_ID_RESERVED
          then (rc1, token, upd_common r (\<lambda>ob. ob\<lparr>active_id := obj_id token\<rparr>) s1)
        else (rc1, token, s1))"
    unfolding OS_ObjectIdConvertToken_def Let_def lp using assms(2) by (simp add: prod.case_eq_if)
  show "table_lock (snd (snd (OS_ObjectIdConvertToken env token s)))
      = (if fst (OS_ObjectIdConvertToken env token s) = OS_SUCCESS
            \<and> lock_mode token \<in> {OS_LOCK_MODE_REFCOUNT, OS_LOCK_MODE_EXCLUSIVE}
         then l else lock_plus (obj_type token) l)"
    and "lock_mode (fst (snd (OS_ObjectIdConvertToken env token s))) = lock_mode token"
    and "obj_type (fst (snd (OS_ObjectIdConvertToken env token s))) = obj_type token"
    unfolding eq Let_def using assms(4) l1 un tk by simp_all
qed

lemma TransactionCancel_lock:
  assumes "lock_mode token \<noteq> OS_LOCK_MODE_NONE" "obj_type token < OS_OBJECT_TYPE_USER"
    and "table_lock s = lock_plus (obj_type token) l"
  shows "table_lock (snd (OS_ObjectIdTransactionCancel token s)) = l"
    and "lock_mode (fst (OS_ObjectIdTransactionCancel token s)) = OS_LOCK_MODE_NONE"
  using assms table_lock_Unlock_Global[OF assms(2,1,3)]
  by (simp_all add: OS_ObjectIdTransactionCancel_def prod.case_eq_if)

lemma TransactionInit_lock:
  shows "fst (OS_ObjectIdTransactionInit env m t s) \<noteq> OS_SUCCESS \<Longrightarrow>
      snd (snd (OS_ObjectIdTransactionInit env m t s)) = s
      \<and> lock_mode (fst (snd (OS_ObjectIdTransactionInit env m t s))) = OS_LOCK_MODE_NONE"
    and "fst (OS_ObjectIdTransactionInit env m t s) = OS_SUCCESS \<Longrightarrow>
      lock_mode (fst (snd (OS_ObjectIdTransactionInit env m t s))) = m
      \<and> obj_type (fst (snd (OS_ObjectIdTransactionInit env m t s))) = t \<and> OS_GetMaxForObjectType t \<noteq> 0
      \<and> table_lock (snd (snd (OS_ObjectIdTransactionInit env m t s)))
          = (if m = OS_LOCK_MODE_NONE then table_lock s else lock_plus t (table_lock s))"
proof -
  let ?tk = "zero_token\<lparr>lock_mode := m, obj_type := t, obj_idx := - 1\<rparr>"
  have tk: "lock_mode (fst (OS_Lock_Global env ?tk s)) = m" "obj_type (fst (OS_Lock_Global env ?tk s)) = t"
    by (simp_all add: OS_Lock_Global_def Let_def)
  have lk: "m \<noteq> OS_LOCK_MODE_NONE \<Longrightarrow> OS_GetMaxForObjectType t \<noteq> 0 \<Longrightarrow>
      table_lock (snd (OS_Lock_Global env ?tk s)) = lock_plus t (table_lock s)"
    using table_lock_Lock_Global[of ?tk env s] max_nonzero_valid_type(2)[of t] by simp
  show "fst (OS_ObjectIdTransactionInit env m t s) \<noteq> OS_SUCCESS \<Longrightarrow>
      snd (snd (OS_ObjectIdTransactionInit env m t s)) = s
      \<and> lock_mode (fst (snd (OS_ObjectIdTransactionInit env m t s))) = OS_LOCK_MODE_NONE"
    by (simp add: OS_ObjectIdTransactionInit_def Let_def prod.case_eq_if zero_token_def split: if_splits)
  show "fst (OS_ObjectIdTransactionInit env m t s) = OS_SUCCESS \<Longrightarrow>
      lock_mode (fst (snd (OS_ObjectIdTransactionInit env m t s))) = m
      \<and> obj_type (fst (snd (OS_ObjectIdTransactionInit env m t s))) = t \<and> OS_GetMaxForObjectType t \<noteq> 0
      \<and> table_lock (snd (snd (OS_ObjectIdTransactionInit env m t s)))
          = (if m = OS_LOCK_MODE_NONE then table_lock s else lock_plus t (table_lock s))"
    using tk lk
    by (auto simp: OS_ObjectIdTransactionInit_def Let_def prod.case_eq_if split: if_splits)
qed

subsection \<open>Properties\<close>



text \<open>C15: The search for a free record is complete and its result is consistent: it succeeds
  exactly when the table of the type has a free record, whatever ID was issued last; the new ID
  is valid, has the type asked for, converts back to the index of the record it was issued for,
  and is entered there. When the table is full nothing changes.\<close>

theorem OS_ObjectIdFindNextFree_correct:
  assumes "OS_GetMaxForObjectType t \<noteq> 0" "obj_type token = t"
  shows "case OS_ObjectIdFindNextFree env token s of (rc, token', s') \<Rightarrow>
    if \<exists>k. free_slot t s k
    then rc = OS_SUCCESS \<and> free_slot t s (obj_idx token') \<and> OS_ObjectIdIsValid (obj_id token')
      \<and> OS_IdentifyObject (obj_id token') = t
      \<and> OS_ObjectIdToArrayIndex True t (obj_id token') = (OS_SUCCESS, Some (obj_idx token'))
      \<and> OS_common_table s' = (OS_common_table s)(record_of t (obj_idx token') :=
          \<lparr>name_entry = None, active_id = obj_id token', creator = OS_TaskGetId env s, refcount = 0\<rparr>)
    else rc = OS_ERR_NO_FREE_IDS \<and> s' = s"
proof (cases "\<exists>k. free_slot t s k")
  case True
  then obtain k where "free_slot t s k" ..
  from FindNextFree_found[OF this assms(2), of env] obtain i
    where i: "id_of_type t i" "free_slot t s (index_of i)"
      and e: "OS_ObjectIdFindNextFree env token s
        = (OS_SUCCESS, token\<lparr>obj_idx := index_of i, obj_id := i\<rparr>, issued t i i 0 (OS_TaskGetId env s) s)" .
  from i(1) have "OS_IdentifyObject i = t" by (simp add: OS_IdentifyObject_def id_of_type_def)
  with e i id_of_type_facts[OF i(1)] True show ?thesis by auto
next
  case False
  with FindNextFree_full[OF assms(1) _ assms(2), of s env] show ?thesis by auto
qed

theorem OS_ObjectIdFindNextFree_correct_witness:
  "fst (OS_ObjectIdFindNextFree quiet_env (zero_token\<lparr>obj_type := OS_OBJECT_TYPE_OS_QUEUE\<rparr>) (fresh_state ())) = OS_SUCCESS"
proof -
  have "\<exists>k. free_slot OS_OBJECT_TYPE_OS_QUEUE (fresh_state ()) k"
    by (rule exI[of _ 0]) (simp add: free_slot_registry OS_GetMaxForObjectType_def os_max_defs)
  then show ?thesis
    using OS_ObjectIdFindNextFree_correct[where t = OS_OBJECT_TYPE_OS_QUEUE and env = quiet_env and s = "fresh_state ()"
        and token = "zero_token\<lparr>obj_type := OS_OBJECT_TYPE_OS_QUEUE\<rparr>"]
    by (simp add: OS_GetMaxForObjectType_def os_max_defs prod.case_eq_if)
qed

text \<open>C22: A lookup by name that meets an object still being created or deleted does not release
  the table mutex: it returns an error with the mutex held, and the next lookup of the same task
  blocks on it for ever.\<close>

theorem OS_ObjectIdFindByName_leaks_lock:
  assumes "running s" "lock_free t s" "OS_impl_objtype_lock_table t" "length nm < OS_MAX_API_NAME"
    and "has_name t nm s k0"
    and "\<forall>k. has_name t nm s k \<longrightarrow> active_id (OS_common_table s (record_of t k)) = OS_OBJECT_ID_RESERVED"
  shows "\<exists>s'. OS_ObjectIdFindByName env t (Some nm) s = (OS_ERR_INCORRECT_OBJ_STATE, None, s')
    \<and> table_lock s' (unat t) = 1 \<and> stuck (snd (snd (OS_ObjectIdFindByName env t (Some nm) s')))"
proof -
  let ?G = OS_LOCK_MODE_GLOBAL
  from assms(5) have m: "OS_GetMaxForObjectType t \<noteq> 0" by (auto simp: has_name_def)
  obtain key where init: "OS_ObjectIdTransactionInit env ?G t s = (OS_SUCCESS, tok ?G key t (- 1) 0, acquired t key s)"
    by (rule TransactionInit_locked[OF assms(1) m assms(2), of ?G env]) simp_all
  let ?s' = "acquired t key s"
  have leak: "\<exists>j. OS_ObjectIdFindNextMatch (OS_ObjectNameMatch nm) (tok ?G key' t (- 1) 0) x
      = (OS_SUCCESS, tok ?G key' t j OS_OBJECT_ID_RESERVED)"
    if "has_name t nm x = has_name t nm s" "OS_common_table x = OS_common_table s" for x :: "'a os_state" and key'
  proof -
    have "\<exists>k. has_name t nm x k" using assms(5) that(1) by auto
    then obtain j where "has_name t nm x j" "OS_ObjectIdFindNextMatch (OS_ObjectNameMatch nm) (tok ?G key' t (- 1) 0) x
        = (OS_SUCCESS, tok ?G key' t j (active_id (OS_common_table x (record_of t j))))"
      using FindNextMatch_name(1)[of "tok ?G key' t (- 1) 0" t nm x] by auto
    with assms(6) show ?thesis unfolding that by auto
  qed
  have conv: "OS_ObjectIdConvertToken env (tok ?G key' t j OS_OBJECT_ID_RESERVED) x
      = (OS_ERR_INCORRECT_OBJ_STATE, tok ?G key' t j OS_OBJECT_ID_RESERVED, x)" for key' j and x :: "'a os_state"
    by (simp add: OS_ObjectIdConvertToken_def)
  have first: "OS_ObjectIdFindByName env t (Some nm) s = (OS_ERR_INCORRECT_OBJ_STATE, None, ?s')"
    using leak[of ?s' key] conv init assms(4)
    by (auto simp: OS_ObjectIdFindByName_def OS_ObjectIdGetByName_def OS_ObjectIdGetBySearch_def LENGTHCHECK_def)
  have held: "table_lock ?s' (unat t) = 1"
    using assms(2,3) by (simp add: acquired_def OS_Lock_Global_Impl_def lock_free_def)
  let ?tk = "zero_token\<lparr>lock_mode := ?G, obj_type := t, obj_idx := - 1\<rparr>"
  obtain tk2 s2 where lk: "OS_Lock_Global env ?tk ?s' = (tk2, s2)" by fastforce
  have tk2: "\<exists>key'. tk2 = tok ?G key' t (- 1) 0" and s2: "stuck s2" "OS_common_table s2 = OS_common_table s"
    "has_name t nm s2 = has_name t nm s"
    using lk held assms(3) max_nonzero_valid_type(2)[OF m]
    by (auto simp: OS_Lock_Global_def Let_def zero_token_def OS_Lock_Global_Impl_def OS_DEBUG_def has_name_def
        fun_eq_iff split: if_splits)
  then obtain key' where key': "tk2 = tok ?G key' t (- 1) 0" by blast
  have init2: "OS_ObjectIdTransactionInit env ?G t ?s' = (OS_SUCCESS, tok ?G key' t (- 1) 0, s2)"
    using assms(1) m lk key' by (simp add: OS_ObjectIdTransactionInit_def running_def)
  have "snd (snd (OS_ObjectIdFindByName env t (Some nm) ?s')) = s2"
    using leak[of s2 key'] conv init2 assms(4) s2
    by (auto simp: OS_ObjectIdFindByName_def OS_ObjectIdGetByName_def OS_ObjectIdGetBySearch_def LENGTHCHECK_def)
  with first held s2 show ?thesis by auto
qed


theorem OS_ObjectIdFindByName_leaks_lock_witness:
  "\<exists>s s'. OS_ObjectIdFindByName quiet_env OS_OBJECT_TYPE_OS_QUEUE (Some ''Q'') (s :: unit os_state)
      = (OS_ERR_INCORRECT_OBJ_STATE, None, s')
    \<and> table_lock s' (unat OS_OBJECT_TYPE_OS_QUEUE) = 1"
proof -
  let ?t = OS_OBJECT_TYPE_OS_QUEUE
  let ?s = "upd_common (record_of ?t 0) (\<lambda>ob. ob\<lparr>active_id := OS_OBJECT_ID_RESERVED, name_entry := Some (Queue_name 0)\<rparr>)
    ((fresh_state ())\<lparr>OS_queue_table := (\<lambda>_. \<lparr>queue_name = ''Q'', max_size = 0, max_depth = 0\<rparr>)\<rparr>)"
  have idle: "running ?s" "lock_free ?t ?s" "OS_impl_objtype_lock_table ?t"
    by (simp_all add: running_def lock_free_def fresh_state_def boot_state_def zero_SharedGlobalVars_def objtype_state_def
        zero_objtype_state_def OS_impl_objtype_lock_table_def)
  have hn: "has_name ?t ''Q'' ?s k \<longleftrightarrow> k = 0" for k
    by (auto simp: has_name_def record_of_def OS_GetMaxForObjectType_def OS_GetBaseForObjectType_def os_max_defs
        fresh_state_def boot_state_def zero_common_record_def OS_ObjectIdDefined_def
        simp flip: word_unat_eq_iff)
  from idle OS_ObjectIdFindByName_leaks_lock[of ?s ?t "''Q''" 0 quiet_env] hn show ?thesis
    by (auto simp: OS_MAX_API_NAME_def)
qed

text \<open>C23: An application's event handler may refuse a new object by returning an error for
  \<^verbatim>\<open>OS_EVENT_RESOURCE_ALLOCATED\<close>. The clean-up then locks the table mutex the caller already
  holds, so the call never returns.\<close>

theorem OS_ObjectIdAllocateNew_refused_deadlocks:
  assumes "running s" "lock_free t s" "OS_impl_objtype_lock_table t" "free_slot t s k0"
    and "\<forall>nm k. name = Some nm \<longrightarrow> \<not> has_name t nm s k"
    and "EventHandler (OS_SharedGlobalVars s) = Some h"
    and "\<forall>i. fst (call_event_handler env h OS_EVENT_RESOURCE_ALLOCATED i (impl s)) \<noteq> OS_SUCCESS"
  shows "stuck (snd (snd (OS_ObjectIdAllocateNew env t name s)))"
proof -
  let ?X = OS_LOCK_MODE_EXCLUSIVE
  from assms(4) have m: "OS_GetMaxForObjectType t \<noteq> 0" by (auto simp: free_slot_def)
  note t = max_nonzero_valid_type(2)[OF m]
  from TransactionInit_locked[OF assms(1) m assms(2), of ?X env] obtain k
    where init: "OS_ObjectIdTransactionInit env ?X t s = (OS_SUCCESS, tok ?X k t (- 1) 0, acquired t k s)" by auto
  have "\<exists>j. (case name of Some nm \<Rightarrow> OS_ObjectIdFindNextMatch (OS_ObjectNameMatch nm) (tok ?X k t (- 1) 0) (acquired t k s)
      | None \<Rightarrow> (OS_ERR_NAME_NOT_FOUND, tok ?X k t (- 1) 0)) = (OS_ERR_NAME_NOT_FOUND, tok ?X k t j 0)"
    using assms(5) FindNextMatch_name(2)[of "tok ?X k t (- 1) 0" t _ "acquired t k s"]
    by (cases name) auto
  then obtain j where fm: "(case name of Some nm \<Rightarrow>
        OS_ObjectIdFindNextMatch (OS_ObjectNameMatch nm) (tok ?X k t (- 1) 0) (acquired t k s)
      | None \<Rightarrow> (OS_ERR_NAME_NOT_FOUND, tok ?X k t (- 1) 0)) = (OS_ERR_NAME_NOT_FOUND, tok ?X k t j 0)" by blast
  have fs: "free_slot t (acquired t k s) k0" using assms(4) by simp
  obtain i where ff: "OS_ObjectIdFindNextFree env (tok ?X k t j 0) (acquired t k s)
      = (OS_SUCCESS, tok ?X k t (index_of i) i, acquired t k (issued t i i 0 (OS_TaskGetId env s) s))"
    using FindNextFree_found[OF fs, of "tok ?X k t j 0" env] by (auto simp: issued_acquired OS_TaskGetId_def)
  let ?s2 = "issued t i i 0 (OS_TaskGetId env s) s"
  obtain d a where d: "call_event_handler env h OS_EVENT_RESOURCE_ALLOCATED i (impl s) = (d, a)" by fastforce
  with assms(7) have "d \<noteq> OS_SUCCESS" by (metis fst_conv)
  let ?s3 = "(acquired t k ?s2)\<lparr>impl := a\<rparr>"
  have ev: "OS_NotifyEvent env OS_EVENT_RESOURCE_ALLOCATED i (acquired t k ?s2) = (d, ?s3)"
    using d assms(6) by (simp add: OS_NotifyEvent_def impl_acquired issued_def)
  have held: "0 < table_lock ?s3 (unat t)"
    using assms(3) by (simp add: acquired_def OS_Lock_Global_Impl_def)
  have fin: "stuck (snd (OS_ObjectIdTransactionFinish env (tok ?X k t (index_of i) i) (Some x) ?s3))" for x
    using held t assms(3)
    by (simp add: OS_ObjectIdTransactionFinish_def OS_Lock_Global_def OS_Unlock_Global_def OS_Lock_Global_Impl_def
        OS_Unlock_Global_Impl_def OS_DEBUG_def Let_def prod.case_eq_if)
  from assms(1) have "GlobalState (OS_SharedGlobalVars s) \<noteq> OS_SHUTDOWN_MAGIC_NUMBER"
    by (simp add: running_def)
  moreover obtain tk s4 where "OS_ObjectIdTransactionFinish env (tok ?X k t (index_of i) i) (Some 0) ?s3 = (tk, s4)"
    by fastforce
  ultimately show ?thesis
    using \<open>d \<noteq> OS_SUCCESS\<close> fin[of 0]
    by (simp add: OS_ObjectIdAllocateNew_def init fm ff ev OS_ObjectIdFinalizeNew_def Let_def)
qed

theorem OS_ObjectIdAllocateNew_refused_deadlocks_witness:
  "\<exists>env s. stuck (snd (snd (OS_ObjectIdAllocateNew env OS_OBJECT_TYPE_OS_QUEUE (Some ''Q'') (s :: unit os_state))))"
proof -
  let ?t = OS_OBJECT_TYPE_OS_QUEUE
  let ?s = "(fresh_state ())\<lparr>OS_SharedGlobalVars := zero_SharedGlobalVars\<lparr>GlobalState := OS_INIT_MAGIC_NUMBER,
    EventHandler := Some 1\<rparr>\<rparr>"
  let ?env = "quiet_env\<lparr>call_event_handler := (\<lambda>_ _ _ i. (OS_ERROR, i))\<rparr>"
  have "running ?s" "lock_free ?t ?s" "OS_impl_objtype_lock_table ?t" "EventHandler (OS_SharedGlobalVars ?s) = Some 1"
    by (simp_all add: running_def lock_free_def fresh_state_def boot_state_def objtype_state_def
        zero_objtype_state_def OS_impl_objtype_lock_table_def)
  moreover have "free_slot ?t ?s 0" "\<not> has_name ?t nm ?s k" for nm k
    by (simp_all add: free_slot_def has_name_def OS_GetMaxForObjectType_def os_max_defs
        fresh_state_def boot_state_def zero_common_record_def OS_ObjectIdDefined_def)
  ultimately have "stuck (snd (snd (OS_ObjectIdAllocateNew ?env ?t (Some ''Q'') ?s)))"
    by (intro OS_ObjectIdAllocateNew_refused_deadlocks[where h = 1]) simp_all
  then show ?thesis by blast
qed

subsection \<open>Visiting the objects of a type\<close>

lemma Lock_Global_frame [simp]:
  "impl (snd (OS_Lock_Global env token s)) = impl s"
  "OS_common_table (snd (OS_Lock_Global env token s)) = OS_common_table s"
  "obj_type (fst (OS_Lock_Global env token s)) = obj_type token"
  "lock_mode (fst (OS_Lock_Global env token s)) = lock_mode token"
  by (simp_all add: OS_Lock_Global_def OS_Lock_Global_Impl_def OS_DEBUG_def Let_def)

lemma Unlock_Global_frame [simp]:
  "impl (snd (OS_Unlock_Global token s)) = impl s"
  "OS_common_table (snd (OS_Unlock_Global token s)) = OS_common_table s"
  "obj_type (fst (OS_Unlock_Global token s)) = obj_type token"
  "obj_id (fst (OS_Unlock_Global token s)) = obj_id token"
  "lock_mode (fst (OS_Unlock_Global token s)) = lock_mode token"
  by (simp_all add: OS_Unlock_Global_def OS_Unlock_Global_Impl_def OS_DEBUG_def Let_def)

lemma scan_from_filter:
  "filter (\<lambda>k. accept (of_nat k)) [unat (idx + 1)..<unat count] =
    (if count \<le> scan_from accept count idx then []
     else unat (scan_from accept count idx)
       # filter (\<lambda>k. accept (of_nat k)) [unat (scan_from accept count idx + 1)..<unat count])"
proof (induction accept count idx rule: scan_from.induct)
  case (1 accept count idx)
  show ?case
  proof (cases "count \<le> idx + 1")
    case True
    then show ?thesis by (simp add: scan_from.simps[of accept count idx] Let_def word_le_nat_alt)
  next
    case False
    then have less: "unat (idx + 1) < unat count" and up: "unat (idx + 1 + 1) = Suc (unat (idx + 1))"
      using unat_plus1_less[of "idx + 1" count] by (simp_all add: word_le_nat_alt word_less_nat_alt)
    have upt: "[unat (idx + 1)..<unat count] = unat (idx + 1) # [unat (idx + 1 + 1)..<unat count]"
      using less up by (simp add: upt_conv_Cons)
    show ?thesis
    proof (cases "accept (idx + 1)")
      case True
      with False show ?thesis
        by (subst upt) (simp add: scan_from.simps[of accept count idx] Let_def)
    next
      case rej: False
      with False have "scan_from accept count idx = scan_from accept count (idx + 1)"
        by (simp add: scan_from.simps[of accept count idx] Let_def)
      with False rej "1.IH"[OF refl] show ?thesis by (subst upt) simp
    qed
  qed
qed

lemma unat_of_nat_below: "k < unat (n :: u32) \<Longrightarrow> unat (of_nat k :: u32) = k"
  using unsigned_less[of n, where ?'a = nat] by (simp add: unat_of_nat take_bit_nat_eq_self)

definition visits :: "osal_objtype_t \<Rightarrow> osal_id_t \<Rightarrow> (nat \<Rightarrow> OS_common_record) \<Rightarrow> osal_index_t \<Rightarrow> bool" where
  "visits t c tbl k \<longleftrightarrow> OS_ObjectIdIsValid (active_id (tbl (record_of t k)))
     \<and> (c = OS_OBJECT_CREATOR_ANY \<or> creator (tbl (record_of t k)) = c)"

text \<open>The IDs of the objects of a type that a creator filter lets through, from an index on.\<close>

definition visited_ids :: "osal_objtype_t \<Rightarrow> osal_id_t \<Rightarrow> (nat \<Rightarrow> OS_common_record) \<Rightarrow> nat \<Rightarrow> osal_id_t list" where
  "visited_ids t c tbl k0 = map (\<lambda>k. active_id (tbl (record_of t (of_nat k))))
     (filter (\<lambda>k. visits t c tbl (of_nat k)) [k0..<unat (OS_GetMaxForObjectType t)])"

definition iterates :: "osal_objtype_t \<Rightarrow> osal_id_t \<Rightarrow> 'i OS_object_iter \<Rightarrow> bool" where
  "iterates t c iter \<longleftrightarrow> iter_match iter = Some (OS_ForEachFilterCreator c) \<and> iter_limit iter = OS_GetMaxForObjectType t
     \<and> iter_base iter = OS_GetBaseForObjectType t \<and> obj_type (iter_token iter) = t
     \<and> lock_mode (iter_token iter) = OS_LOCK_MODE_GLOBAL"

text \<open>One step of the iterator yields the first of the remaining IDs.\<close>

lemma GetNext_iterates:
  assumes "iterates t c iter" "OS_ObjectIdIteratorGetNext iter s = (hit, iter')"
  shows "iterates t c iter' \<and> visited_ids t c (OS_common_table s) (unat (obj_idx (iter_token iter) + 1)) =
    (if hit then obj_id (iter_token iter') # visited_ids t c (OS_common_table s) (unat (obj_idx (iter_token iter') + 1)) else [])"
proof -
  let ?token1 = "(iter_token iter)\<lparr>obj_id := OS_OBJECT_ID_UNDEFINED\<rparr>"
  let ?acc = "\<lambda>i. OS_ForEachFilterCreator c s (?token1\<lparr>obj_idx := i\<rparr>) (table_entry s (OS_GetBaseForObjectType t) i)"
  let ?n = "OS_GetMaxForObjectType t"
  let ?j = "scan_from ?acc ?n (obj_idx (iter_token iter))"
  have acc: "filter (\<lambda>k. visits t c (OS_common_table s) (of_nat k)) [k0..<unat ?n]
      = filter (\<lambda>k. ?acc (of_nat k)) [k0..<unat ?n]" for k0
    by (rule filter_cong) (auto simp: visits_def OS_ForEachFilterCreator_def table_entry_record word_less_nat_alt
        unat_of_nat_below)
  from assms have "hit \<longleftrightarrow> \<not> ?n \<le> ?j" and it': "iterates t c iter'" and "obj_idx (iter_token iter') = ?j"
    and "hit \<Longrightarrow> obj_id (iter_token iter') = active_id (OS_common_table s (record_of t ?j))"
    by (auto simp: OS_ObjectIdIteratorGetNext_def iterates_def Let_def table_entry_record not_le split: if_splits)
  with scan_from_filter[of ?acc "obj_idx (iter_token iter)" ?n] show ?thesis
    by (cases hit) (simp_all add: visited_ids_def acc del: not_le)
qed

lemma ProcessEntry_iterates:
  assumes "iterates t c iter" "t < OS_OBJECT_TYPE_USER" "table_lock s = lock_plus t l"
    and "OS_ObjectIdIteratorProcessEntry env iter (OS_ForEachDoCallback (\<lambda>i x. x\<lparr>impl := g i (impl x)\<rparr>)) s = (st, iter', s')"
  shows "iterates t c iter' \<and> obj_idx (iter_token iter') = obj_idx (iter_token iter) \<and> table_lock s' = lock_plus t l
    \<and> OS_common_table s' = OS_common_table s \<and> impl s' = g (obj_id (iter_token iter)) (impl s)"
proof -
  obtain tk1 s1 where u: "OS_Unlock_Global (iter_token iter) s = (tk1, s1)" by fastforce
  let ?s2 = "s1\<lparr>impl := g (obj_id tk1) (impl s1)\<rparr>"
  obtain tk3 s3 where l: "OS_Lock_Global env tk1 ?s2 = (tk3, s3)" by fastforce
  have 1: "table_lock s1 = l" "impl s1 = impl s" "OS_common_table s1 = OS_common_table s" "obj_type tk1 = t"
    "obj_id tk1 = obj_id (iter_token iter)" "lock_mode tk1 = OS_LOCK_MODE_GLOBAL" "obj_idx tk1 = obj_idx (iter_token iter)"
    using assms(1-3) table_lock_Unlock_Global[of "iter_token iter" s l] Unlock_Global_frame[of "iter_token iter" s]
      Unlock_Global_obj_idx[of "iter_token iter" s]
    by (simp_all add: u iterates_def)
  have 3: "table_lock s3 = lock_plus t l" "impl s3 = impl ?s2" "OS_common_table s3 = OS_common_table s1" "obj_type tk3 = t"
    "lock_mode tk3 = OS_LOCK_MODE_GLOBAL" "obj_idx tk3 = obj_idx tk1"
    using 1 assms(2) table_lock_Lock_Global[of tk1 env ?s2, unfolded l] Lock_Global_frame[of env tk1 ?s2, unfolded l]
      Lock_Global_obj_idx[of env tk1 ?s2, unfolded l]
    by simp_all
  from assms(4) u l have "iter' = iter\<lparr>iter_token := tk3\<rparr>" "s' = s3"
    by (simp_all add: OS_ObjectIdIteratorProcessEntry_def OS_ForEachDoCallback_def)
  with assms(1) 1 3 show ?thesis by (simp add: iterates_def)
qed

lemma ForEach_loop_visits:
  assumes "iterates t c iter" "t < OS_OBJECT_TYPE_USER" "table_lock s = lock_plus t l" "cb = (\<lambda>i x. x\<lparr>impl := g i (impl x)\<rparr>)"
  shows "case ForEach_loop env cb iter s of (iter', s') \<Rightarrow>
    iterates t c iter' \<and> table_lock s' = lock_plus t l \<and> OS_common_table s' = OS_common_table s
    \<and> impl s' = fold g (visited_ids t c (OS_common_table s) (unat (obj_idx (iter_token iter) + 1))) (impl s)"
  using assms
proof (induction env cb iter s rule: ForEach_loop.induct)
  case (1 env cb iter s)
  obtain hit iter1 where n: "OS_ObjectIdIteratorGetNext iter s = (hit, iter1)" by fastforce
  note g = GetNext_iterates[OF "1.prems"(1) n]
  show ?case
  proof (cases hit)
    case False
    with n have "ForEach_loop env cb iter s = (iter1, s)" by (simp add: ForEach_loop.simps[of env cb iter s])
    with g False "1.prems"(3) show ?thesis by simp
  next
    case True
    obtain st iter2 s2 where p: "OS_ObjectIdIteratorProcessEntry env iter1 (OS_ForEachDoCallback cb) s = (st, iter2, s2)"
      by (metis prod_cases3)
    from g have "iterates t c iter1" by simp
    note q = ProcessEntry_iterates[OF this "1.prems"(2,3), of env g st iter2 s2]
    with p "1.prems"(4) have q: "iterates t c iter2" "obj_idx (iter_token iter2) = obj_idx (iter_token iter1)"
      "table_lock s2 = lock_plus t l" "OS_common_table s2 = OS_common_table s" "impl s2 = g (obj_id (iter_token iter1)) (impl s)"
      by auto
    have "ForEach_loop env cb iter s = ForEach_loop env cb iter2 s2"
      using n p True by (simp add: ForEach_loop.simps[of env cb iter s])
    with "1.IH"[OF n[symmetric] _ p[symmetric] refl q(1) "1.prems"(2) q(3) "1.prems"(4)] g q True show ?thesis
      by simp
  qed
qed

text \<open>C16: Going over the objects of a type calls the callback for every object that exists and was
  made by the given creator, once each and in the order of the table, and for no other; the
  table and its mutex are then as they were.\<close>

theorem OS_ForEachObjectOfType_visits:
  assumes "running s" "OS_GetMaxForObjectType t \<noteq> 0"
  shows "let s' = OS_ForEachObjectOfType env t c (\<lambda>i x. x\<lparr>impl := g i (impl x)\<rparr>) s in
    impl s' = fold g (visited_ids t c (OS_common_table s) 0) (impl s)
    \<and> OS_common_table s' = OS_common_table s \<and> table_lock s' = table_lock s"
proof -
  let ?cb = "\<lambda>i x. x\<lparr>impl := g i (impl x)\<rparr>"
  note u = max_nonzero_valid_type(2)[OF assms(2)]
  let ?tk = "zero_token\<lparr>lock_mode := OS_LOCK_MODE_GLOBAL, obj_type := t, obj_idx := - 1\<rparr>"
  obtain tk s1 where lk: "OS_Lock_Global env ?tk s = (tk, s1)" by fastforce
  have 1: "impl s1 = impl s" "OS_common_table s1 = OS_common_table s" "table_lock s1 = lock_plus t (table_lock s)"
    "obj_type tk = t" "obj_idx tk = - 1" "lock_mode tk = OS_LOCK_MODE_GLOBAL"
    using Lock_Global_frame[of env ?tk s] Lock_Global_obj_idx[of env ?tk s] table_lock_Lock_Global[of ?tk env s] u
    by (simp_all add: lk)
  let ?it = "\<lparr>iter_match = Some (OS_ForEachFilterCreator c), iter_limit = OS_GetMaxForObjectType t,
    iter_base = OS_GetBaseForObjectType t, iter_token = tk\<rparr>"
  have init: "OS_ObjectIdIteratorInit env (Some (OS_ForEachFilterCreator c)) t s = (OS_SUCCESS, ?it, s1)"
    using assms lk by (simp add: OS_ObjectIdIteratorInit_def OS_ObjectIdTransactionInit_def running_def Let_def)
  obtain it2 s2 where loop: "ForEach_loop env ?cb ?it s1 = (it2, s2)" by fastforce
  have it: "iterates t c ?it" using 1 by (simp add: iterates_def)
  from ForEach_loop_visits[OF it u 1(3) refl, of g env] loop 1
  have 2: "iterates t c it2" "table_lock s2 = lock_plus t (table_lock s)" "OS_common_table s2 = OS_common_table s"
    "impl s2 = fold g (visited_ids t c (OS_common_table s) 0) (impl s)" by simp_all
  have "OS_ForEachObjectOfType env t c ?cb s = snd (OS_Unlock_Global (iter_token it2) s2)"
    using 2(1) by (simp add: OS_ForEachObjectOfType_def init loop OS_ObjectIdIteratorDestroy_def
        OS_ObjectIdTransactionCancel_def iterates_def prod.case_eq_if)
  with 2 u table_lock_Unlock_Global[of "iter_token it2" s2 "table_lock s"] show ?thesis
    by (simp add: iterates_def)
qed

theorem OS_ForEachObjectOfType_visits_witness:
  "let s = upd_common (record_of OS_OBJECT_TYPE_OS_QUEUE 0) (\<lambda>ob. ob\<lparr>active_id := 0x20000\<rparr>) (fresh_state []) in
    impl (OS_ForEachObjectOfType quiet_env OS_OBJECT_TYPE_OS_QUEUE OS_OBJECT_CREATOR_ANY
      (\<lambda>i x. x\<lparr>impl := impl x @ [i]\<rparr>) s) = [0x20000]"
proof -
  let ?t = OS_OBJECT_TYPE_OS_QUEUE
  let ?s = "upd_common (record_of ?t 0) (\<lambda>ob. ob\<lparr>active_id := 0x20000\<rparr>) (fresh_state ([] :: osal_id_t list))"
  have "of_nat k = (0 :: u32) \<longleftrightarrow> k = 0" if "k < 64" for k
    using that by (auto simp: word_of_nat_eq_0_iff dest: dvd_imp_le)
  then have "k < 64 \<Longrightarrow> visits ?t OS_OBJECT_CREATOR_ANY (OS_common_table ?s) (of_nat k) \<longleftrightarrow> k = 0" for k
    by (auto simp: visits_def record_of_eq OS_GetMaxForObjectType_def os_max_defs fresh_state_def boot_state_def
        zero_common_record_def OS_ObjectIdIsValid_def OS_ObjectIdToType_Impl_def word_less_nat_alt unat_of_nat take_bit_nat_eq_self)
  then have "filter (\<lambda>k. visits ?t OS_OBJECT_CREATOR_ANY (OS_common_table ?s) (of_nat k)) [0..<64]
      = filter (\<lambda>k. k = 0) [0..<64]" by (intro filter_cong) auto
  also have "\<dots> = [0]" by code_simp
  finally have "visited_ids ?t OS_OBJECT_CREATOR_ANY (OS_common_table ?s) 0 = [0x20000]"
    by (simp add: visited_ids_def OS_GetMaxForObjectType_def os_max_defs)
  with OS_ForEachObjectOfType_visits[where s = ?s and t = ?t and env = quiet_env and c = OS_OBJECT_CREATOR_ANY
      and g = "\<lambda>i x. x @ [i]"] show ?thesis
    by (simp add: Let_def fresh_state_def running_def OS_GetMaxForObjectType_def os_max_defs boot_state_def)
qed
end
