(* ===== verification/Idmap_Concurrent.thy ===== *)
theory Idmap_Concurrent
  imports Idmap_Properties "HOL-Library.Multiset"
begin

text \<open>
  The object ID map under concurrency. The mutex of an object table makes each critical section
  of \<^verbatim>\<open>osapi-idmap.c\<close> atomic, so tasks interleave between critical sections only. A world
  holds the state, the requests that are waiting inside \<^verbatim>\<open>OS_ObjectIdConvertToken\<close> (the
  token, the ID it expects, the number of attempts so far) and the tokens that have been
  granted and not yet been finished. The steps are the critical sections, taken from the
  definitions of \<open>Idmap\<close>.
\<close>

type_synonym request = "OS_object_token \<times> osal_id_t \<times> nat"

record 'i world =
  os :: "'i os_state"
  requests :: "request multiset"
  held :: "OS_object_token multiset"

abbreviation record_at :: "'i world \<Rightarrow> nat \<Rightarrow> OS_common_record" where
  "record_at w r \<equiv> OS_common_table (os w) r"

definition request_token :: "osal_objtype_t \<Rightarrow> OS_object_token \<Rightarrow> bool" where
  "request_token t tk \<longleftrightarrow> obj_type tk = t \<and> OS_ObjectIdIsValid (obj_id tk)
     \<and> (lock_mode tk = OS_LOCK_MODE_REFCOUNT \<or> lock_mode tk = OS_LOCK_MODE_EXCLUSIVE)"

text \<open>What \<^verbatim>\<open>OS_ObjectIdConvertToken\<close> does after its loop failed: an exclusive request takes
  its reservation back.\<close>

definition withdraw :: "OS_object_token \<Rightarrow> osal_id_t \<Rightarrow> 'i os_state \<Rightarrow> 'i os_state" where
  "withdraw tk e s =
    (if lock_mode tk = OS_LOCK_MODE_EXCLUSIVE \<and> e = OS_OBJECT_ID_RESERVED
     then upd_common (OS_ObjectIdGlobalFromToken tk) (\<lambda>ob. ob\<lparr>active_id := obj_id tk\<rparr>) s else s)"

definition count_reference :: "OS_object_token \<Rightarrow> 'i os_state \<Rightarrow> 'i os_state" where
  "count_reference tk s = upd_common (OS_ObjectIdGlobalFromToken tk) (\<lambda>ob. ob\<lparr>refcount := refcount ob + 1\<rparr>) s"

definition may_finish :: "OS_object_token \<Rightarrow> osal_id_t option \<Rightarrow> bool" where
  "may_finish tk fid \<longleftrightarrow>
     fid = None \<or> lock_mode tk = OS_LOCK_MODE_EXCLUSIVE \<and> fid \<in> {Some OS_OBJECT_ID_UNDEFINED, Some (obj_id tk)}"

text \<open>
  The reference count is a 16-bit integer, so a reference is granted only while fewer than
  65535 tokens are out; every token belongs to a call in progress of some task.
\<close>

inductive idmap_step :: "'i idmap_env \<Rightarrow> osal_objtype_t \<Rightarrow> 'i world \<Rightarrow> 'i world \<Rightarrow> bool" for env t where
  Elsewhere: "(\<forall>r. active_id (OS_common_table s' r) = active_id (record_at w r)
      \<and> refcount (OS_common_table s' r) = refcount (record_at w r))
    \<Longrightarrow> idmap_step env t w (w\<lparr>os := s'\<rparr>)"
| Request: "request_token t tk \<Longrightarrow> idmap_step env t w (w\<lparr>requests := add_mset (tk, obj_id tk, 0) (requests w)\<rparr>)"
| Grant: "requests w = add_mset (tk, e, n) rq \<Longrightarrow> size (held w) < 65535
    \<Longrightarrow> ConvertToken_body tk e (os w) = (Convert_done OS_SUCCESS, e', s')
    \<Longrightarrow> idmap_step env t w \<lparr>os = count_reference tk s', requests = rq, held = add_mset tk (held w)\<rparr>"
| Refuse: "requests w = add_mset (tk, e, n) rq \<Longrightarrow> rc \<noteq> OS_SUCCESS
    \<Longrightarrow> ConvertToken_body tk e (os w) = (Convert_done rc, e', s')
    \<Longrightarrow> idmap_step env t w (w\<lparr>os := withdraw tk e' s', requests := rq\<rparr>)"
| Retry: "requests w = add_mset (tk, e, n) rq \<Longrightarrow> n + 1 < 5
    \<Longrightarrow> ConvertToken_body tk e (os w) = (Convert_contention, e', s')
    \<Longrightarrow> idmap_step env t w (w\<lparr>os := s', requests := add_mset (tk, e', n + 1) rq\<rparr>)"
| Give_up: "requests w = add_mset (tk, e, n) rq \<Longrightarrow> n + 1 \<ge> 5
    \<Longrightarrow> ConvertToken_body tk e (os w) = (Convert_contention, e', s')
    \<Longrightarrow> idmap_step env t w (w\<lparr>os := withdraw tk e' s', requests := rq\<rparr>)"
| Allocate: "OS_ObjectIdAllocateNew env t name (os w) = (OS_SUCCESS, tk, s') \<Longrightarrow> size (held w) < 65535
    \<Longrightarrow> idmap_step env t w (w\<lparr>os := s', held := add_mset tk (held w)\<rparr>)"
| Finish: "held w = add_mset tk h \<Longrightarrow> may_finish tk fid
    \<Longrightarrow> idmap_step env t w (w\<lparr>os := snd (OS_ObjectIdTransactionFinish env tk fid (os w)), held := h\<rparr>)"

subsection \<open>The invariant of one record\<close>

text \<open>
  A record \<open>ob\<close>, the granted tokens \<open>H\<close> for it and the waiting exclusive requests \<open>C\<close> that have
  reserved it: the reference count is the number of granted tokens; the record is reserved
  exactly when there is one exclusive token or one reservation, never more; an exclusive token
  is alone; and a shared token's object keeps its ID.
\<close>

abbreviation exclusive :: "OS_object_token \<Rightarrow> bool" where
  "exclusive tk \<equiv> lock_mode tk = OS_LOCK_MODE_EXCLUSIVE"

definition owners :: "OS_object_token multiset \<Rightarrow> OS_object_token multiset \<Rightarrow> OS_object_token multiset" where
  "owners H C = filter_mset exclusive H + C"

definition rec_ok :: "OS_common_record \<Rightarrow> OS_object_token multiset \<Rightarrow> OS_object_token multiset \<Rightarrow> bool" where
  "rec_ok ob H C \<longleftrightarrow> unat (refcount ob) = size H \<and> size (owners H C) \<le> 1
     \<and> (active_id ob = OS_OBJECT_ID_RESERVED \<longleftrightarrow> owners H C \<noteq> {#})
     \<and> (\<forall>tk \<in># H. exclusive tk \<longrightarrow> H = {#tk#})
     \<and> (\<forall>tk \<in># H. \<not> exclusive tk \<longrightarrow> active_id ob = obj_id tk \<or> (\<exists>c. C = {#c#} \<and> obj_id c = obj_id tk))"

lemma refcount_inc: "unat (c :: u16) = size H \<Longrightarrow> size H < 65535 \<Longrightarrow> unat (c + 1) = Suc (size H)"
  by (simp add: unat_word_ariths)

lemma refcount_dec: "unat (c :: u16) = Suc n \<Longrightarrow> unat (c - 1) = n"
  by (simp add: unat_minus_one flip: unat_gt_0)


lemma owners_simps [simp]:
  "owners {#} C = C"
  "owners (add_mset tk H) C = (if exclusive tk then add_mset tk (owners H C) else owners H C)"
  "owners H (add_mset c C) = add_mset c (owners H C)"
  by (simp_all add: owners_def)

lemma rec_ok_alone:
  assumes "rec_ok ob (add_mset tk H) C" "exclusive tk"
  shows "H = {#}" "C = {#}"
  using assms by (auto simp: rec_ok_def)

lemma rec_ok_claimed: "rec_ok ob H (add_mset c C) \<Longrightarrow> C = {#} \<and> filter_mset exclusive H = {#}"
  by (auto simp: rec_ok_def owners_def)

lemma rec_ok_share:
  assumes "rec_ok ob H C" "active_id ob = obj_id tk" "obj_id tk \<noteq> OS_OBJECT_ID_RESERVED" "\<not> exclusive tk" "size H < 65535"
  shows "rec_ok (ob\<lparr>refcount := refcount ob + 1\<rparr>) (add_mset tk H) C"
  using assms refcount_inc[of "refcount ob" H] by (auto simp: rec_ok_def owners_def)

lemma rec_ok_reserve:
  assumes "rec_ok ob H C" "active_id ob = obj_id tk" "obj_id tk \<noteq> OS_OBJECT_ID_RESERVED"
  shows "rec_ok (ob\<lparr>active_id := OS_OBJECT_ID_RESERVED\<rparr>) H (add_mset tk C)"
  using assms by (auto simp: rec_ok_def owners_def)

lemma rec_ok_claim:
  assumes "rec_ok ob H (add_mset tk C)" "refcount ob = 0" "exclusive tk"
  shows "rec_ok (ob\<lparr>refcount := refcount ob + 1\<rparr>) (add_mset tk H) C"
  using assms by (auto simp: rec_ok_def)

lemma rec_ok_withdraw:
  assumes "rec_ok ob H (add_mset tk C)" "obj_id tk \<noteq> OS_OBJECT_ID_RESERVED"
    and "\<And>x. x \<in># H \<Longrightarrow> obj_id x \<noteq> OS_OBJECT_ID_RESERVED"
  shows "rec_ok (ob\<lparr>active_id := obj_id tk\<rparr>) H C"
  using assms rec_ok_claimed[OF assms(1)] by (auto simp: rec_ok_def)

lemma rec_ok_release:
  assumes "rec_ok ob (add_mset tk H) C" "\<not> exclusive tk"
  shows "rec_ok (ob\<lparr>refcount := refcount ob - 1\<rparr>) H C"
  using assms refcount_dec[of "refcount ob" "size H"] by (auto simp: rec_ok_def)

lemma rec_ok_finish:
  assumes "rec_ok ob (add_mset tk H) C" "exclusive tk" "i \<noteq> OS_OBJECT_ID_RESERVED"
  shows "rec_ok (ob\<lparr>refcount := refcount ob - 1, active_id := i\<rparr>) H C"
  using assms rec_ok_alone[OF assms(1,2)] refcount_dec[of "refcount ob" "size H"] by (auto simp: rec_ok_def)

lemma rec_ok_free:
  assumes "rec_ok ob H C" "active_id ob = OS_OBJECT_ID_UNDEFINED" "\<And>x. x \<in># H \<Longrightarrow> obj_id x \<noteq> OS_OBJECT_ID_UNDEFINED"
  shows "H = {#} \<and> C = {#}"
proof -
  from assms(1,2) have "owners H C = {#}" by (simp add: rec_ok_def)
  then have "C = {#}" and "\<And>x. x \<in># H \<Longrightarrow> \<not> exclusive x" by (auto simp: owners_def)
  with assms have "\<And>x. x \<notin># H" by (auto simp: rec_ok_def)
  with \<open>C = {#}\<close> show ?thesis by (auto simp: multiset_eq_iff not_in_iff)
qed

subsection \<open>The invariant of the world\<close>

definition tokens_at :: "nat \<Rightarrow> OS_object_token multiset \<Rightarrow> OS_object_token multiset" where
  "tokens_at r = filter_mset (\<lambda>tk. OS_ObjectIdGlobalFromToken tk = r)"

definition claims :: "request multiset \<Rightarrow> OS_object_token multiset" where
  "claims rq = image_mset fst (filter_mset (\<lambda>(tk, e, n). exclusive tk \<and> e = OS_OBJECT_ID_RESERVED) rq)"

definition request_ok :: "osal_objtype_t \<Rightarrow> request \<Rightarrow> bool" where
  "request_ok t = (\<lambda>(tk, e, n). request_token t tk \<and> (e = obj_id tk \<or> exclusive tk \<and> e = OS_OBJECT_ID_RESERVED))"

definition idmap_inv :: "osal_objtype_t \<Rightarrow> 'i world \<Rightarrow> bool" where
  "idmap_inv t w \<longleftrightarrow> (\<forall>tk \<in># held w. request_token t tk) \<and> (\<forall>q \<in># requests w. request_ok t q)
     \<and> (\<forall>r. rec_ok (record_at w r) (tokens_at r (held w)) (tokens_at r (claims (requests w))))"

lemma tokens_at_simps [simp]:
  "tokens_at r {#} = {#}"
  "tokens_at r (add_mset tk H) = (if OS_ObjectIdGlobalFromToken tk = r then add_mset tk (tokens_at r H) else tokens_at r H)"
  by (simp_all add: tokens_at_def)

lemma claims_simps [simp]:
  "claims {#} = {#}"
  "claims (add_mset (tk, e, n) rq) = (if exclusive tk \<and> e = OS_OBJECT_ID_RESERVED then add_mset tk (claims rq) else claims rq)"
  by (simp_all add: claims_def)

lemma size_at: "size (tokens_at r H) \<le> size H"
  by (simp add: tokens_at_def size_filter_mset_lesseq)

lemma request_token_id: "request_token t tk \<Longrightarrow> obj_id tk \<noteq> OS_OBJECT_ID_RESERVED \<and> obj_id tk \<noteq> OS_OBJECT_ID_UNDEFINED"
  by (auto simp: request_token_def OS_ObjectIdIsValid_def OS_ObjectIdToType_Impl_def)


lemma inv_record:
  assumes "idmap_inv t w"
  shows "rec_ok (record_at w r) (tokens_at r (held w)) (tokens_at r (claims (requests w)))"
  using assms by (simp add: idmap_inv_def)

text \<open>A step that changes one record and the tokens for it keeps the invariant if the record's own is kept.\<close>

lemma inv_update:
  assumes "idmap_inv t w" "\<forall>tk \<in># h. request_token t tk" "\<forall>q \<in># rq. request_ok t q"
    and "\<And>r'. r' \<noteq> r \<Longrightarrow> tokens_at r' h = tokens_at r' (held w) \<and> tokens_at r' (claims rq) = tokens_at r' (claims (requests w))
      \<and> OS_common_table s r' = record_at w r'"
    and "rec_ok (OS_common_table s r) (tokens_at r h) (tokens_at r (claims rq))"
  shows "idmap_inv t \<lparr>os = s, requests = rq, held = h\<rparr>"
proof -
  have "rec_ok (OS_common_table s r') (tokens_at r' h) (tokens_at r' (claims rq))" for r'
    by (cases "r' = r") (use assms(4)[of r'] assms(5) inv_record[OF assms(1), of r'] in simp_all)
  with assms(2,3) show ?thesis by (simp add: idmap_inv_def)
qed

text \<open>The outcomes of one pass over the loop body.\<close>

lemma body_cases:
  assumes "ConvertToken_body tk e s = (oc, e', s')" "idmap_inv t w" "os w = s" "(tk, e, n) \<in># requests w"
  obtains
    (share) "oc = Convert_done OS_SUCCESS" "\<not> exclusive tk" "s' = s" "e' = e"
      "active_id (OS_common_table s (OS_ObjectIdGlobalFromToken tk)) = obj_id tk"
  | (reserve) "exclusive tk" "e = obj_id tk" "e' = OS_OBJECT_ID_RESERVED"
      "active_id (OS_common_table s (OS_ObjectIdGlobalFromToken tk)) = obj_id tk"
      "s' = upd_common (OS_ObjectIdGlobalFromToken tk) (\<lambda>ob. ob\<lparr>active_id := OS_OBJECT_ID_RESERVED\<rparr>) s"
      "oc = (if refcount (OS_common_table s (OS_ObjectIdGlobalFromToken tk)) = 0 then Convert_done OS_SUCCESS else Convert_contention)"
  | (wait) "exclusive tk" "e = OS_OBJECT_ID_RESERVED" "e' = e" "s' = s"
      "oc = (if refcount (OS_common_table s (OS_ObjectIdGlobalFromToken tk)) = 0 then Convert_done OS_SUCCESS else Convert_contention)"
  | (other) "e = obj_id tk" "e' = e" "s' = s" "oc \<noteq> Convert_done OS_SUCCESS"
proof -
  let ?r = "OS_ObjectIdGlobalFromToken tk"
  from assms(2,4) have q: "request_ok t (tk, e, n)" by (auto simp: idmap_inv_def)
  then have tk: "request_token t tk" by (simp add: request_ok_def)
  show thesis
  proof (cases "exclusive tk \<and> e = OS_OBJECT_ID_RESERVED")
    case True
    with assms(4) obtain rq where "requests w = add_mset (tk, e, n) rq" by (metis multi_member_split)
    with True inv_record[OF assms(2), of ?r] assms(3) have "active_id (OS_common_table s ?r) = OS_OBJECT_ID_RESERVED"
      by (auto simp: rec_ok_def)
    with True assms(1) show thesis
      by (intro wait) (simp_all add: ConvertToken_body_def Let_def split: if_splits)
  next
    case False
    with q have e: "e = obj_id tk" by (auto simp: request_ok_def)
    note id = request_token_id[OF tk]
    show thesis
    proof (cases "active_id (OS_common_table s ?r) = e")
      case act: True
      show thesis
      proof (cases "exclusive tk")
        case True
        with act e id assms(1) show thesis
          by (intro reserve) (simp_all add: ConvertToken_body_def Let_def split: if_splits)
      next
        case False
        with act e assms(1) show thesis
          by (intro share) (simp_all add: ConvertToken_body_def Let_def)
      qed
    next
      case False
      with e assms(1) show thesis
        by (intro other) (auto simp add: ConvertToken_body_def Let_def split: if_splits)
    qed
  qed
qed


subsection \<open>Every step keeps the invariant\<close>

lemma Lock_Global_obj_id [simp]: "obj_id (fst (OS_Lock_Global env token s)) = obj_id token"
  by (simp add: OS_Lock_Global_def Let_def)

lemma Finish_table:
  assumes "request_token t tk"
  shows "OS_common_table (snd (OS_ObjectIdTransactionFinish env tk fid s)) =
    (OS_common_table s)(OS_ObjectIdGlobalFromToken tk :=
      final_record (lock_mode tk) (obj_id tk) fid (OS_common_table s (OS_ObjectIdGlobalFromToken tk)))"
proof -
  obtain tk1 s1 where l: "OS_Lock_Global env tk s = (tk1, s1)" by fastforce
  with Lock_Global_frame[of env tk s] Lock_Global_obj_id[of env tk s]
  have 1: "OS_common_table s1 = OS_common_table s" "lock_mode tk1 = lock_mode tk" "obj_id tk1 = obj_id tk" by simp_all
  from assms have "lock_mode tk \<noteq> OS_LOCK_MODE_NONE" "lock_mode tk = OS_LOCK_MODE_EXCLUSIVE \<or> lock_mode tk = OS_LOCK_MODE_REFCOUNT"
    by (auto simp: request_token_def)
  with l 1 show ?thesis
    by (auto simp: OS_ObjectIdTransactionFinish_def Let_def final_record_def drop_ref_def prod.case_eq_if fun_upd_idem_iff
        split: option.splits)
qed

text \<open>Reserving a record that has just been issued needs no waiting.\<close>

lemma Unlock_Global_token: "\<exists>k. fst (OS_Unlock_Global token s) = token\<lparr>lock_key := k\<rparr>"
  by (cases token) (auto simp: OS_Unlock_Global_def Let_def)

lemma GlobalFromToken_lock_key [simp]:
  "OS_ObjectIdGlobalFromToken (tk\<lparr>lock_key := k\<rparr>) = OS_ObjectIdGlobalFromToken tk"
  by (simp add: OS_ObjectIdGlobalFromToken_def)

lemma ConvertToken_issued:
  assumes "request_token t tk" "exclusive tk"
    and "OS_common_table s (OS_ObjectIdGlobalFromToken tk) = ob" "active_id ob = obj_id tk" "refcount ob = 0"
  obtains k s' where "OS_ObjectIdConvertToken env tk s = (OS_SUCCESS, tk\<lparr>lock_key := k\<rparr>, s')"
    "OS_common_table s' = (OS_common_table s)(OS_ObjectIdGlobalFromToken tk := ob\<lparr>active_id := OS_OBJECT_ID_RESERVED, refcount := 1\<rparr>)"
proof -
  let ?r = "OS_ObjectIdGlobalFromToken tk"
  note id = request_token_id[OF assms(1)]
  let ?s1 = "upd_common ?r (\<lambda>ob. ob\<lparr>active_id := OS_OBJECT_ID_RESERVED\<rparr>) s"
  have "ConvertToken_body tk (obj_id tk) s = (Convert_done OS_SUCCESS, OS_OBJECT_ID_RESERVED, ?s1)"
    using assms id by (simp add: ConvertToken_body_def Let_def)
  then have loop: "ConvertToken_loop env tk (obj_id tk) 0 s = (OS_SUCCESS, OS_OBJECT_ID_RESERVED, ?s1)"
    by (simp add: ConvertToken_loop.simps)
  define s2 where "s2 = upd_common ?r (\<lambda>ob. ob\<lparr>refcount := refcount ob + 1\<rparr>) ?s1"
  obtain k s3 where u: "OS_Unlock_Global tk s2 = (tk\<lparr>lock_key := k\<rparr>, s3)"
    using Unlock_Global_token[of tk s2] by (metis prod.collapse)
  show thesis
  proof (rule that)
    show "OS_ObjectIdConvertToken env tk s = (OS_SUCCESS, tk\<lparr>lock_key := k\<rparr>, s3)"
      using assms(1,2) id loop u
      by (simp add: OS_ObjectIdConvertToken_def request_token_def Let_def s2_def)
    show "OS_common_table s3 = (OS_common_table s)(?r := ob\<lparr>active_id := OS_OBJECT_ID_RESERVED, refcount := 1\<rparr>)"
      using Unlock_Global_frame(2)[of tk s2, unfolded u] assms(3,5) by (simp add: s2_def)
  qed
qed

lemma TransactionInit_table:
  assumes "OS_ObjectIdTransactionInit env m t s = (OS_SUCCESS, tk, s')"
  shows "OS_common_table s' = OS_common_table s" "impl s' = impl s" "obj_type tk = t" "lock_mode tk = m"
    "OS_GetMaxForObjectType t \<noteq> 0"
proof -
  let ?tk = "zero_token\<lparr>lock_mode := m, obj_type := t, obj_idx := - 1\<rparr>"
  obtain tk1 s1 where l: "OS_Lock_Global env ?tk s = (tk1, s1)" by fastforce
  from Lock_Global_frame[of env ?tk s] l
  show "OS_common_table s' = OS_common_table s" "impl s' = impl s" "obj_type tk = t" "lock_mode tk = m"
    "OS_GetMaxForObjectType t \<noteq> 0"
    using assms by (auto simp: OS_ObjectIdTransactionInit_def Let_def split: if_splits)
qed

lemma NotifyEvent_table: "OS_common_table (snd (OS_NotifyEvent env ev i s)) = OS_common_table s"
  by (simp add: NotifyEvent_impl)

lemma FindNextMatch_token: "\<exists>j i. snd (OS_ObjectIdFindNextMatch f tk s) = tk\<lparr>obj_idx := j, obj_id := i\<rparr>"
  by (cases tk) (auto simp: OS_ObjectIdFindNextMatch_def Let_def)


text \<open>A successful allocation went through every part of the function.\<close>

lemma AllocateNew_parts:
  assumes "OS_ObjectIdAllocateNew env t name s = (OS_SUCCESS, tk, s')"
  obtains tk0 s1 tk1 tk2 s2 s3 where "OS_ObjectIdTransactionInit env OS_LOCK_MODE_EXCLUSIVE t s = (OS_SUCCESS, tk0, s1)"
    "\<exists>j i. tk1 = tk0\<lparr>obj_idx := j, obj_id := i\<rparr>"
    "OS_ObjectIdFindNextFree env tk1 s1 = (OS_SUCCESS, tk2, s2)"
    "OS_common_table s3 = OS_common_table s2"
    "OS_ObjectIdConvertToken env tk2 s3 = (OS_SUCCESS, tk, s')"
proof -
  let ?X = OS_LOCK_MODE_EXCLUSIVE
  obtain rc0 tk0 s1 where init: "OS_ObjectIdTransactionInit env ?X t s = (rc0, tk0, s1)" by (metis prod_cases3)
  obtain found tk1 where fm: "(case name of Some nm \<Rightarrow> OS_ObjectIdFindNextMatch (OS_ObjectNameMatch nm) tk0 s1
    | None \<Rightarrow> (OS_ERR_NAME_NOT_FOUND, tk0)) = (found, tk1)" by (metis surj_pair)
  obtain rc2 tk2 s2 where ff: "OS_ObjectIdFindNextFree env tk1 s1 = (rc2, tk2, s2)" by (metis prod_cases3)
  obtain ev s3 where nev: "OS_NotifyEvent env OS_EVENT_RESOURCE_ALLOCATED (obj_id tk2) s2 = (ev, s3)" by fastforce
  obtain rc4 tk4 s4 where cv: "OS_ObjectIdConvertToken env tk2 s3 = (rc4, tk4, s4)" by (metis prod_cases3)
  have fin: "\<exists>a b c. OS_ObjectIdFinalizeNew env st x y = (st, a, b, c)" for st x y
    by (simp add: OS_ObjectIdFinalizeNew_def Let_def prod.case_eq_if)
  have shut: "GlobalState (OS_SharedGlobalVars s) \<noteq> OS_SHUTDOWN_MAGIC_NUMBER"
  proof
    assume "GlobalState (OS_SharedGlobalVars s) = OS_SHUTDOWN_MAGIC_NUMBER"
    with assms show False by (simp add: OS_ObjectIdAllocateNew_def)
  qed
  have 0: "rc0 = OS_SUCCESS"
  proof (rule ccontr)
    assume "rc0 \<noteq> OS_SUCCESS"
    with assms shut show False by (simp add: OS_ObjectIdAllocateNew_def init)
  qed
  obtain ca cb da db where cancel: "OS_ObjectIdTransactionCancel tk1 s1 = (ca, cb)" "OS_ObjectIdTransactionCancel tk2 s2 = (da, db)"
    by (metis surj_pair)
  have 1: "found \<noteq> OS_SUCCESS"
  proof
    assume "found = OS_SUCCESS"
    with assms shut 0 cancel show False by (simp add: OS_ObjectIdAllocateNew_def init fm)
  qed
  have 2: "rc2 = OS_SUCCESS"
  proof (rule ccontr)
    assume "rc2 \<noteq> OS_SUCCESS"
    with assms shut 0 1 cancel show False by (simp add: OS_ObjectIdAllocateNew_def init fm ff)
  qed
  obtain conv x y where c: "(if ev = OS_SUCCESS then OS_ObjectIdConvertToken env tk2 s3 else (ev, tk2, s3)) = (conv, x, y)"
    by (metis prod_cases3)
  obtain fa fb fc where f: "OS_ObjectIdFinalizeNew env conv x y = (conv, fa, fb, fc)" using fin by blast
  have "conv = OS_SUCCESS"
  proof (rule ccontr)
    assume "conv \<noteq> OS_SUCCESS"
    with assms shut 0 1 2 f show False by (simp add: OS_ObjectIdAllocateNew_def init fm ff nev c)
  qed
  with assms shut 0 1 2 have "x = tk \<and> y = s'" by (simp add: OS_ObjectIdAllocateNew_def init fm ff nev c)
  with c \<open>conv = OS_SUCCESS\<close> have 3: "OS_ObjectIdConvertToken env tk2 s3 = (OS_SUCCESS, tk, s')"
    by (cases "ev = OS_SUCCESS") simp_all
  have "\<exists>j i. tk1 = tk0\<lparr>obj_idx := j, obj_id := i\<rparr>"
  proof (cases name)
    case None
    with fm have "tk1 = tk0\<lparr>obj_idx := obj_idx tk0, obj_id := obj_id tk0\<rparr>" by simp
    then show ?thesis by blast
  next
    case (Some nm)
    with fm FindNextMatch_token[of "OS_ObjectNameMatch nm" tk0 s1] show ?thesis by simp
  qed
  moreover have "OS_common_table s3 = OS_common_table s2"
    using NotifyEvent_table[of env OS_EVENT_RESOURCE_ALLOCATED "obj_id tk2" s2] by (simp add: nev)
  ultimately show thesis using init 0 ff 2 3 by (intro that[of tk0 s1 tk1 tk2 s2 s3]) simp_all
qed

lemma AllocateNew_table:
  assumes "OS_ObjectIdAllocateNew env t name s = (OS_SUCCESS, tk, s')"
  shows "request_token t tk \<and> exclusive tk
    \<and> active_id (OS_common_table s (OS_ObjectIdGlobalFromToken tk)) = OS_OBJECT_ID_UNDEFINED
    \<and> OS_common_table s' = (OS_common_table s)(OS_ObjectIdGlobalFromToken tk :=
       \<lparr>name_entry = None, active_id = OS_OBJECT_ID_RESERVED, creator = OS_TaskGetId env s, refcount = 1\<rparr>)"
proof -
  let ?X = OS_LOCK_MODE_EXCLUSIVE
  obtain tk0 s1 tk1 tk2 s2 s3 where p: "OS_ObjectIdTransactionInit env ?X t s = (OS_SUCCESS, tk0, s1)"
    "\<exists>j i. tk1 = tk0\<lparr>obj_idx := j, obj_id := i\<rparr>"
    "OS_ObjectIdFindNextFree env tk1 s1 = (OS_SUCCESS, tk2, s2)"
    "OS_common_table s3 = OS_common_table s2"
    "OS_ObjectIdConvertToken env tk2 s3 = (OS_SUCCESS, tk, s')"
    by (rule AllocateNew_parts[OF assms])
  note i = TransactionInit_table[OF p(1)]
  from p(2) i have tk1: "obj_type tk1 = t" "lock_mode tk1 = ?X" by auto
  have "\<exists>k. free_slot t s1 k"
    using FindNextFree_full[OF i(5) _ tk1(1), of s1 env] p(3) by (cases "\<exists>k. free_slot t s1 k") auto
  then obtain k0 where "free_slot t s1 k0" ..
  from FindNextFree_found[OF this tk1(1), of env] p(3) obtain j where j: "id_of_type t j" "free_slot t s1 (index_of j)"
    "tk2 = tk1\<lparr>obj_idx := index_of j, obj_id := j\<rparr>" "s2 = issued t j j 0 (OS_TaskGetId env s1) s1" by auto
  have r: "OS_ObjectIdGlobalFromToken tk2 = record_of t (index_of j)"
    using j(3) tk1 by (simp add: OS_ObjectIdGlobalFromToken_def record_of_def)
  have tk2: "request_token t tk2" "exclusive tk2"
    using j(3) tk1 id_of_type_facts(1)[OF j(1)] by (simp_all add: request_token_def)
  let ?ob = "\<lparr>name_entry = None, active_id = j, creator = OS_TaskGetId env s, refcount = 0\<rparr>"
  have t3: "OS_common_table s3 = (OS_common_table s)(record_of t (index_of j) := ?ob)"
    using p(4) j(4) i by (simp add: OS_TaskGetId_def)
  obtain k s4 where "OS_ObjectIdConvertToken env tk2 s3 = (OS_SUCCESS, tk2\<lparr>lock_key := k\<rparr>, s4)"
    "OS_common_table s4 = (OS_common_table s3)(OS_ObjectIdGlobalFromToken tk2 := ?ob\<lparr>active_id := OS_OBJECT_ID_RESERVED, refcount := 1\<rparr>)"
    by (rule ConvertToken_issued[OF tk2, of s3 ?ob env]) (use r t3 j(3) in simp_all)
  with p(5) tk2 r t3 j(2) i(1) show ?thesis
    by (auto simp: request_token_def free_slot_def OS_ObjectIdDefined_def)
qed


text \<open>A pass over the loop body, whatever its outcome, leaves the records consistent with the request as it is now.\<close>

lemma body_frame:
  assumes "ConvertToken_body tk e s = (oc, e', s')" "r \<noteq> OS_ObjectIdGlobalFromToken tk"
  shows "OS_common_table s' r = OS_common_table s r"
  using assms by (auto simp: ConvertToken_body_def Let_def split: if_splits)

lemma body_keeps:
  assumes "ConvertToken_body tk e (os w) = (oc, e', s')" "idmap_inv t w" "requests w = add_mset (tk, e, n) rq"
  shows "idmap_inv t \<lparr>os = s', requests = add_mset (tk, e', m) rq, held = held w\<rparr>"
proof (rule inv_update[OF assms(2), where r = "OS_ObjectIdGlobalFromToken tk"])
  let ?r = "OS_ObjectIdGlobalFromToken tk"
  note rec = inv_record[OF assms(2), of ?r]
  have mem: "(tk, e, n) \<in># requests w" using assms(3) by simp
  from assms(2,3) have ok: "request_ok t (tk, e, n)" "\<forall>q \<in># rq. request_ok t q" by (auto simp: idmap_inv_def)
  then have tk: "request_token t tk" by (simp add: request_ok_def)
  show "\<forall>x \<in># held w. request_token t x" using assms(2) by (simp add: idmap_inv_def)
  show "\<forall>q \<in># add_mset (tk, e', m) rq. request_ok t q"
    using assms(1,2) refl mem by (cases rule: body_cases) (use ok in \<open>auto simp: request_ok_def\<close>)
  show "rec_ok (OS_common_table s' ?r) (tokens_at ?r (held w)) (tokens_at ?r (claims (add_mset (tk, e', m) rq)))"
    using assms(1,2) refl mem
  proof (cases rule: body_cases)
    case reserve
    with rec assms(3) request_token_id[OF tk] show ?thesis by (auto intro: rec_ok_reserve)
  qed (use rec assms(3) in auto)
  fix r' assume "r' \<noteq> ?r"
  with body_frame[OF assms(1)] assms(3) show "tokens_at r' (held w) = tokens_at r' (held w)
    \<and> tokens_at r' (claims (add_mset (tk, e', m) rq)) = tokens_at r' (claims (requests w)) \<and> OS_common_table s' r' = record_at w r'"
    by simp
qed

text \<open>A request that ends without success leaves no trace.\<close>

lemma withdraw_keeps:
  assumes "idmap_inv t \<lparr>os = s, requests = add_mset (tk, e, n) rq, held = h\<rparr>"
  shows "idmap_inv t \<lparr>os = withdraw tk e s, requests = rq, held = h\<rparr>"
proof (rule inv_update[OF assms, where r = "OS_ObjectIdGlobalFromToken tk"])
  let ?r = "OS_ObjectIdGlobalFromToken tk"
  from assms have ok: "request_ok t (tk, e, n)" "\<forall>q \<in># rq. request_ok t q" "\<forall>x \<in># h. request_token t x" by (auto simp: idmap_inv_def)
  then show "\<forall>x \<in># h. request_token t x" "\<forall>q \<in># rq. request_ok t q" by auto
  have tk: "obj_id tk \<noteq> OS_OBJECT_ID_RESERVED" "\<And>x. x \<in># tokens_at ?r h \<Longrightarrow> obj_id x \<noteq> OS_OBJECT_ID_RESERVED"
    using ok request_token_id by (auto simp: request_ok_def tokens_at_def)
  from inv_record[OF assms, of ?r] tk
  show "rec_ok (OS_common_table (withdraw tk e s) ?r) (tokens_at ?r h) (tokens_at ?r (claims rq))"
    by (auto simp: withdraw_def intro: rec_ok_withdraw)
qed (simp add: withdraw_def)

text \<open>A request that succeeds becomes a granted token.\<close>

lemma grant_keeps:
  assumes "ConvertToken_body tk e (os w) = (Convert_done OS_SUCCESS, e', s')" "idmap_inv t w" "requests w = add_mset (tk, e, n) rq"
    and "size (held w) < 65535"
  shows "idmap_inv t \<lparr>os = count_reference tk s', requests = rq, held = add_mset tk (held w)\<rparr>"
proof (rule inv_update[OF body_keeps[OF assms(1-3), of 0], where r = "OS_ObjectIdGlobalFromToken tk"])
  let ?r = "OS_ObjectIdGlobalFromToken tk"
  note rec = inv_record[OF body_keeps[OF assms(1-3), of 0], of ?r, simplified]
  have mem: "(tk, e, n) \<in># requests w" using assms(3) by simp
  from assms(2,3) have ok: "request_ok t (tk, e, n)" "\<forall>q \<in># rq. request_ok t q" "\<forall>x \<in># held w. request_token t x"
    by (auto simp: idmap_inv_def)
  then have tk: "request_token t tk" by (simp add: request_ok_def)
  with ok show "\<forall>x \<in># add_mset tk (held w). request_token t x" "\<forall>q \<in># rq. request_ok t q" by auto
  have sz: "size (tokens_at ?r (held w)) < 65535" using assms(4) size_at[of ?r "held w"] by simp
  show "rec_ok (OS_common_table (count_reference tk s') ?r) (tokens_at ?r (add_mset tk (held w))) (tokens_at ?r (claims rq))"
    using assms(1,2) refl mem
  proof (cases rule: body_cases)
    case share
    with rec sz request_token_id[OF tk] show ?thesis by (auto simp: count_reference_def intro: rec_ok_share)
  next
    case reserve
    with rec rec_ok_claim[of "OS_common_table s' ?r" "tokens_at ?r (held w)" tk "tokens_at ?r (claims rq)"] show ?thesis
      by (auto simp: count_reference_def split: if_splits)
  next
    case wait
    with rec rec_ok_claim[of "OS_common_table s' ?r" "tokens_at ?r (held w)" tk "tokens_at ?r (claims rq)"] show ?thesis
      by (auto simp: count_reference_def split: if_splits)
  qed simp
qed (simp add: count_reference_def)

lemma allocate_keeps:
  assumes "OS_ObjectIdAllocateNew env t name (os w) = (OS_SUCCESS, tk, s')" "idmap_inv t w"
  shows "idmap_inv t \<lparr>os = s', requests = requests w, held = add_mset tk (held w)\<rparr>"
proof (rule inv_update[OF assms(2), where r = "OS_ObjectIdGlobalFromToken tk"])
  let ?r = "OS_ObjectIdGlobalFromToken tk"
  note a = AllocateNew_table[OF assms(1)]
  from assms(2) have ok: "\<forall>q \<in># requests w. request_ok t q" "\<forall>x \<in># held w. request_token t x" by (auto simp: idmap_inv_def)
  with a show "\<forall>x \<in># add_mset tk (held w). request_token t x" "\<forall>q \<in># requests w. request_ok t q" by auto
  have "tokens_at ?r (held w) = {#} \<and> tokens_at ?r (claims (requests w)) = {#}"
    using inv_record[OF assms(2)] a
    by (intro rec_ok_free[of "record_at w ?r"]) (use ok request_token_id in \<open>auto simp: tokens_at_def\<close>)
  with a show "rec_ok (OS_common_table s' ?r) (tokens_at ?r (add_mset tk (held w))) (tokens_at ?r (claims (requests w)))"
    by (simp add: rec_ok_def)
  fix r' assume "r' \<noteq> ?r"
  with a show "tokens_at r' (add_mset tk (held w)) = tokens_at r' (held w) \<and> tokens_at r' (claims (requests w)) = tokens_at r' (claims (requests w))
    \<and> OS_common_table s' r' = record_at w r'" by simp
qed

lemma finish_keeps:
  assumes "held w = add_mset tk h" "may_finish tk fid" "idmap_inv t w"
  shows "idmap_inv t \<lparr>os = snd (OS_ObjectIdTransactionFinish env tk fid (os w)), requests = requests w, held = h\<rparr>"
proof (rule inv_update[OF assms(3), where r = "OS_ObjectIdGlobalFromToken tk"])
  let ?r = "OS_ObjectIdGlobalFromToken tk"
  from assms(1,3) have tk: "request_token t tk" and ok: "\<forall>q \<in># requests w. request_ok t q" "\<forall>x \<in># h. request_token t x"
    by (auto simp: idmap_inv_def)
  then show "\<forall>x \<in># h. request_token t x" "\<forall>q \<in># requests w. request_ok t q" by auto
  have rec: "rec_ok (record_at w ?r) (add_mset tk (tokens_at ?r h)) (tokens_at ?r (claims (requests w)))"
    using inv_record[OF assms(3), of ?r] assms(1) by simp
  then have "0 < unat (refcount (record_at w ?r))" by (simp add: rec_ok_def)
  then have "0 < refcount (record_at w ?r)" by (simp add: unat_gt_0 word_gt_0)
  with rec assms(2) request_token_id[OF tk] Finish_table[OF tk, of env fid "os w"]
    rec_ok_finish[OF rec, of OS_OBJECT_ID_UNDEFINED]
  show "rec_ok (OS_common_table (snd (OS_ObjectIdTransactionFinish env tk fid (os w))) ?r) (tokens_at ?r h) (tokens_at ?r (claims (requests w)))"
    by (cases "exclusive tk")
      (auto simp: final_record_def drop_ref_def may_finish_def intro: rec_ok_finish rec_ok_release)
  fix r' assume "r' \<noteq> ?r"
  with Finish_table[OF tk, of env fid "os w"] assms(1)
  show "tokens_at r' h = tokens_at r' (held w) \<and> tokens_at r' (claims (requests w)) = tokens_at r' (claims (requests w))
    \<and> OS_common_table (snd (OS_ObjectIdTransactionFinish env tk fid (os w))) r' = record_at w r'" by simp
qed

lemma world_update:
  "w\<lparr>os := s, requests := q\<rparr> = \<lparr>os = s, requests = q, held = held w\<rparr>"
  "w\<lparr>os := s, held := h\<rparr> = \<lparr>os = s, requests = requests w, held = h\<rparr>"
  by (cases w, simp)+

lemma idmap_step_inv:
  assumes "idmap_step env t w w'" "idmap_inv t w"
  shows "idmap_inv t w'"
  using assms
proof (induction rule: idmap_step.induct)
  case (Elsewhere s' w)
  then show ?case by (simp add: idmap_inv_def rec_ok_def)
next
  case (Request tk w)
  then show ?case using request_token_id[of t tk] by (auto simp: idmap_inv_def request_ok_def)
next
  case (Grant w tk e n rq e' s')
  then show ?case using grant_keeps by blast
next
  case (Refuse w tk e n rq rc e' s')
  then show ?case using withdraw_keeps[OF body_keeps[OF Refuse(3) Refuse.prems Refuse(1)]] by (simp add: world_update)
next
  case (Retry w tk e n rq e' s')
  then show ?case using body_keeps[OF Retry(3) Retry.prems Retry(1)] by (simp add: world_update)
next
  case (Give_up w tk e n rq e' s')
  then show ?case using withdraw_keeps[OF body_keeps[OF Give_up(3) Give_up.prems Give_up(1)]] by (simp add: world_update)
next
  case (Allocate name w tk s')
  then show ?case using allocate_keeps[OF Allocate(1) Allocate.prems] by (simp add: world_update)
next
  case (Finish w tk h fid)
  then show ?case using finish_keeps[OF Finish] by (simp add: world_update)
qed

lemma idmap_steps_inv: "(idmap_step env t)\<^sup>*\<^sup>* w w' \<Longrightarrow> idmap_inv t w \<Longrightarrow> idmap_inv t w'"
  by (induction rule: rtranclp_induct) (auto intro: idmap_step_inv)

text \<open>Nothing is held and nothing is requested when \<^verbatim>\<open>OS_ObjectIdInit\<close> has run.\<close>

definition initial :: "'i world \<Rightarrow> bool" where
  "initial w \<longleftrightarrow> requests w = {#} \<and> held w = {#} \<and> (\<exists>s. os w = snd (OS_ObjectIdInit s))"

lemma initial_inv: "initial w \<Longrightarrow> idmap_inv t w"
  by (auto simp: initial_def idmap_inv_def rec_ok_def OS_ObjectIdInit_def zero_common_record_def owners_def)


subsection \<open>The functions are runs of steps\<close>

text \<open>
  What the other tasks do while this one waits is a run of steps that leaves this task's request
  alone, and no more than 65534 tokens are out.
\<close>

definition cooperative :: "'i idmap_env \<Rightarrow> osal_objtype_t \<Rightarrow> bool" where
  "cooperative env t \<longleftrightarrow> (\<forall>w q n. idmap_inv t w \<and> q \<in># requests w \<and> size (held w) < 65535 \<longrightarrow>
     (\<exists>w'. (idmap_step env t)\<^sup>*\<^sup>* w w' \<and> os w' = other_tasks env t n (os w) \<and> q \<in># requests w' \<and> size (held w') < 65535))"

lemma elsewhere_step:
  "OS_common_table s' = OS_common_table (os w) \<Longrightarrow> (idmap_step env t)\<^sup>*\<^sup>* w (w\<lparr>os := s'\<rparr>)"
  by (rule r_into_rtranclp) (simp add: Elsewhere)

lemma Wait_parts:
  obtains s1 where "OS_common_table s1 = OS_common_table s"
    and "OS_common_table (OS_WaitForStateChange env tk n s) = OS_common_table (other_tasks env (obj_type tk) n s1)"
  by (rule that[of "OS_Unlock_Global_Impl (obj_type tk) (upd_objtype (obj_type tk) (\<lambda>ob. ob\<lparr>owner_key := 0\<rparr>) s)"])
    (simp_all add: OS_WaitForStateChange_def OS_WaitForStateChange_Impl_def Let_def OS_Lock_Global_Impl_def OS_Unlock_Global_Impl_def)

lemma Wait_steps:
  assumes "cooperative env t" "idmap_inv t w" "q \<in># requests w" "size (held w) < 65535" "obj_type tk = t"
  shows "\<exists>w'. (idmap_step env t)\<^sup>*\<^sup>* w w' \<and> os w' = OS_WaitForStateChange env tk n (os w) \<and> q \<in># requests w' \<and> size (held w') < 65535"
proof -
  obtain s1 where s1: "OS_common_table s1 = OS_common_table (os w)"
    "OS_common_table (OS_WaitForStateChange env tk n (os w)) = OS_common_table (other_tasks env t n s1)"
    by (rule Wait_parts[of "os w" env tk n]) (simp add: assms(5))
  let ?w1 = "w\<lparr>os := s1\<rparr>"
  have 1: "(idmap_step env t)\<^sup>*\<^sup>* w ?w1" by (rule elsewhere_step) (simp add: s1)
  with assms(2) have "idmap_inv t ?w1" by (rule idmap_steps_inv[rotated])
  then have "\<exists>w2. (idmap_step env t)\<^sup>*\<^sup>* ?w1 w2 \<and> os w2 = other_tasks env t n (os ?w1) \<and> q \<in># requests w2 \<and> size (held w2) < 65535"
    using assms(1,3,4) unfolding cooperative_def by (elim allE[where x = ?w1] allE[where x = q] allE[where x = n]) simp
  then obtain w2 where 2: "(idmap_step env t)\<^sup>*\<^sup>* ?w1 w2" "os w2 = other_tasks env t n s1" "q \<in># requests w2" "size (held w2) < 65535" by auto
  have 3: "(idmap_step env t)\<^sup>*\<^sup>* w2 (w2\<lparr>os := OS_WaitForStateChange env tk n (os w)\<rparr>)"
    by (rule elsewhere_step) (simp add: s1 2)
  from 1 2(1) 3 have "(idmap_step env t)\<^sup>*\<^sup>* w (w2\<lparr>os := OS_WaitForStateChange env tk n (os w)\<rparr>)" by simp
  with 2 show ?thesis by (intro exI[of _ "w2\<lparr>os := OS_WaitForStateChange env tk n (os w)\<rparr>"]) simp
qed

text \<open>The loop of \<^verbatim>\<open>OS_ObjectIdConvertToken\<close> runs up to the pass that decides it.\<close>

lemma ConvertToken_loop_steps:
  assumes "cooperative env t" "idmap_inv t w" "os w = s" "(tk, e, n) \<in># requests w" "size (held w) < 65535"
    and "ConvertToken_loop env tk e n s = (rc, e', s')"
  shows "\<exists>w1 e1 n1 oc. (idmap_step env t)\<^sup>*\<^sup>* w w1 \<and> (tk, e1, n1) \<in># requests w1 \<and> size (held w1) < 65535
    \<and> ConvertToken_body tk e1 (os w1) = (oc, e', s')
    \<and> (oc = Convert_done rc \<or> oc = Convert_contention \<and> n1 + 1 \<ge> 5 \<and> rc = OS_ERR_OBJECT_IN_USE)"
  using assms
proof (induction env tk e n s arbitrary: w rule: ConvertToken_loop.induct)
  case (1 env tk e n s)
  obtain oc e2 s2 where b: "ConvertToken_body tk e s = (oc, e2, s2)" by (metis prod_cases3)
  show ?case
  proof (cases "oc = Convert_contention \<and> n + 1 < 5")
    case False
    with b "1.prems"(6) have "oc = Convert_done rc \<or> oc = Convert_contention \<and> n + 1 \<ge> 5 \<and> rc = OS_ERR_OBJECT_IN_USE" "e2 = e'" "s2 = s'"
      by (auto simp: ConvertToken_loop.simps[of env tk e n s] split: convert_outcome.splits if_splits)
    with b "1.prems" show ?thesis by (intro exI[of _ w] exI[of _ e] exI[of _ n] exI[of _ oc]) auto
  next
    case True
    from "1.prems"(4) obtain rq where rq: "requests w = add_mset (tk, e, n) rq" by (metis multi_member_split)
    let ?w2 = "w\<lparr>os := s2, requests := add_mset (tk, e2, n + 1) rq\<rparr>"
    have st: "idmap_step env t w ?w2" using True b "1.prems"(3) rq by (intro Retry) auto
    with "1.prems"(2) have inv2: "idmap_inv t ?w2" by (blast intro: idmap_step_inv)
    have "obj_type tk = t" using inv2 by (auto simp: idmap_inv_def request_ok_def request_token_def)
    from Wait_steps[OF "1.prems"(1) inv2 _ _ this, of "(tk, e2, n + 1)" "n + 1"] "1.prems"(5)
    obtain w3 where w3: "(idmap_step env t)\<^sup>*\<^sup>* ?w2 w3" "os w3 = OS_WaitForStateChange env tk (n + 1) s2"
      "(tk, e2, n + 1) \<in># requests w3" "size (held w3) < 65535" by auto
    have loop: "ConvertToken_loop env tk e2 (n + 1) (OS_WaitForStateChange env tk (n + 1) s2) = (rc, e', s')"
      using True b "1.prems"(6) by (simp add: ConvertToken_loop.simps[of env tk e n s])
    have "idmap_inv t w3" using w3(1) inv2 by (rule idmap_steps_inv)
    from "1.IH"[OF b[symmetric] _ _ _ "1.prems"(1) this w3(2) w3(3) w3(4) loop] True
    obtain w1 e1 n1 oc1 where "(idmap_step env t)\<^sup>*\<^sup>* w3 w1" "(tk, e1, n1) \<in># requests w1" "size (held w1) < 65535"
      "ConvertToken_body tk e1 (os w1) = (oc1, e', s')"
      "oc1 = Convert_done rc \<or> oc1 = Convert_contention \<and> n1 + 1 \<ge> 5 \<and> rc = OS_ERR_OBJECT_IN_USE" by auto
    moreover from st w3(1) have "(idmap_step env t)\<^sup>*\<^sup>* w w3" by simp
    ultimately show ?thesis by (metis rtranclp_trans)
  qed
qed

lemma Unlock_step: "(idmap_step env t)\<^sup>*\<^sup>* w (w\<lparr>os := snd (OS_Unlock_Global tk (os w))\<rparr>)"
  by (rule elsewhere_step) simp

text \<open>A conversion is a run; when it succeeds the token has been granted, else the request is gone.\<close>

lemma ConvertToken_steps:
  assumes "cooperative env t" "idmap_inv t w" "(tk, obj_id tk, 0) \<in># requests w" "size (held w) < 65535"
    and "OS_ObjectIdConvertToken env tk (os w) = (rc, tk', s')"
  shows "\<exists>w'. (idmap_step env t)\<^sup>*\<^sup>* w w' \<and> os w' = s' \<and> (rc = OS_SUCCESS \<longrightarrow> tk \<in># held w' \<and> (\<exists>k. tk' = tk\<lparr>lock_key := k\<rparr>))"
proof -
  let ?r = "OS_ObjectIdGlobalFromToken tk"
  from assms(2,3) have tk: "request_token t tk" by (auto simp: idmap_inv_def request_ok_def)
  obtain rc1 e' s1 where loop: "ConvertToken_loop env tk (obj_id tk) 0 (os w) = (rc1, e', s1)" by (metis prod_cases3)
  from ConvertToken_loop_steps[OF assms(1,2) refl assms(3,4) loop] obtain w1 e1 n1 oc
    where run: "(idmap_step env t)\<^sup>*\<^sup>* w w1" "(tk, e1, n1) \<in># requests w1" "size (held w1) < 65535"
      and b: "ConvertToken_body tk e1 (os w1) = (oc, e', s1)"
      and oc: "oc = Convert_done rc1 \<or> oc = Convert_contention \<and> n1 + 1 \<ge> 5 \<and> rc1 = OS_ERR_OBJECT_IN_USE" by blast
  from run(2) obtain rq where rq: "requests w1 = add_mset (tk, e1, n1) rq" by (metis multi_member_split)
  have m: "lock_mode tk \<noteq> OS_LOCK_MODE_NONE" "lock_mode tk \<noteq> OS_LOCK_MODE_RESERVED"
    "lock_mode tk = OS_LOCK_MODE_REFCOUNT \<or> lock_mode tk = OS_LOCK_MODE_EXCLUSIVE" "OS_ObjectIdIsValid (obj_id tk)"
    using tk by (auto simp: request_token_def)
  show ?thesis
  proof (cases "rc1 = OS_SUCCESS")
    case True
    with oc b have "ConvertToken_body tk e1 (os w1) = (Convert_done OS_SUCCESS, e', s1)" by auto
    from Grant[OF rq run(3) this]
    have g: "(idmap_step env t)\<^sup>*\<^sup>* w \<lparr>os = count_reference tk s1, requests = rq, held = add_mset tk (held w1)\<rparr>"
      using run(1) by (meson rtranclp.rtrancl_into_rtrancl)
    obtain k s3 where u: "OS_Unlock_Global tk (count_reference tk s1) = (tk\<lparr>lock_key := k\<rparr>, s3)"
      using Unlock_Global_token[of tk "count_reference tk s1"] by (metis prod.collapse)
    with True m loop assms(5) have "rc = OS_SUCCESS" "tk' = tk\<lparr>lock_key := k\<rparr>" "s' = s3"
      by (auto simp: OS_ObjectIdConvertToken_def Let_def count_reference_def)
    with rtranclp_trans[OF g Unlock_step[of env t _ tk]] u show ?thesis
      by (intro exI[of _ "\<lparr>os = s3, requests = rq, held = add_mset tk (held w1)\<rparr>"]) auto
  next
    case False
    have "s' = withdraw tk e' s1" "rc = rc1"
      using False m loop assms(5) by (auto simp: OS_ObjectIdConvertToken_def Let_def withdraw_def split: if_splits)
    moreover have "idmap_step env t w1 (w1\<lparr>os := withdraw tk e' s1, requests := rq\<rparr>)"
      using oc b rq False by (auto intro: Refuse Give_up)
    ultimately show ?thesis
      using run(1) False by (intro exI[of _ "w1\<lparr>os := withdraw tk e' s1, requests := rq\<rparr>"]) auto
  qed
qed

lemma Cancel_table: "OS_common_table (snd (OS_ObjectIdTransactionCancel tk s)) = OS_common_table s"
  by (simp add: OS_ObjectIdTransactionCancel_def prod.case_eq_if)

lemma Init_table_any:
  assumes "OS_ObjectIdTransactionInit env m t s = (rc, tk, s')"
  shows "OS_common_table s' = OS_common_table s"
proof -
  let ?tk = "zero_token\<lparr>lock_mode := m, obj_type := t, obj_idx := - 1\<rparr>"
  obtain tk1 s1 where l: "OS_Lock_Global env ?tk s = (tk1, s1)" by fastforce
  with Lock_Global_frame(2)[of env ?tk s] have "OS_common_table s1 = OS_common_table s" by simp
  with assms l show ?thesis by (auto simp: OS_ObjectIdTransactionInit_def Let_def split: if_splits)
qed

lemma ArrayIndex_None: "OS_ObjectIdToArrayIndex True t i = (rc, None) \<Longrightarrow> rc \<noteq> OS_SUCCESS"
  by (auto simp: OS_ObjectIdToArrayIndex_def Let_def split: if_splits)

lemma ArrayIndex_Some:
  "OS_ObjectIdToArrayIndex True t i = (rc, Some k) \<Longrightarrow> OS_GetMaxForObjectType t \<noteq> 0 \<Longrightarrow> OS_ObjectIdIsValid i"
  using id_of_type_facts(1)[of "OS_ObjectIdToType_Impl i" i]
  by (auto simp: OS_ObjectIdToArrayIndex_def id_of_type_def Let_def split: if_splits)

lemma exclusive_alone:
  assumes "idmap_inv t w" "tk \<in># held w" "exclusive tk"
  shows "active_id (record_at w (OS_ObjectIdGlobalFromToken tk)) = OS_OBJECT_ID_RESERVED
    \<and> refcount (record_at w (OS_ObjectIdGlobalFromToken tk)) = 1 \<and> tokens_at (OS_ObjectIdGlobalFromToken tk) (held w) = {#tk#}"
proof -
  let ?r = "OS_ObjectIdGlobalFromToken tk"
  from assms(2) have m: "tk \<in># tokens_at ?r (held w)" by (simp add: tokens_at_def)
  with inv_record[OF assms(1), of ?r] assms(3) have 1: "tokens_at ?r (held w) = {#tk#}" by (auto simp: rec_ok_def)
  with inv_record[OF assms(1), of ?r] assms(3)
  have "unat (refcount (record_at w ?r)) = 1" "active_id (record_at w ?r) = OS_OBJECT_ID_RESERVED" by (simp_all add: rec_ok_def)
  with 1 show ?thesis by (metis unat_1 word_unat_eq_iff)
qed


lemma quiet_cooperative: "cooperative quiet_env t"
  by (auto simp: cooperative_def quiet_env_def)



lemma fresh_queue_table:
  "running (fresh_state ())" "lock_free OS_OBJECT_TYPE_OS_QUEUE (fresh_state ())" "event_ok quiet_env (fresh_state ())"
  "free_slot OS_OBJECT_TYPE_OS_QUEUE (fresh_state ()) 0" "free_slot OS_OBJECT_TYPE_OS_QUEUE (fresh_state ()) 1"
  "\<not> has_name OS_OBJECT_TYPE_OS_QUEUE nm (fresh_state ()) k"
  by (simp_all add: running_def lock_free_def event_ok_def free_slot_def has_name_def fresh_state_def boot_state_def
      zero_SharedGlobalVars_def objtype_state_def zero_objtype_state_def zero_common_record_def OS_ObjectIdDefined_def
      OS_GetMaxForObjectType_def os_max_defs)




end
