(* ===== verification/Clock.thy ===== *)
theory Clock
  imports OSAL_State
begin

unbundle bit_operations_syntax

text \<open>
  Times and clocks: the conversions of \<^verbatim>\<open>src/src/os/inc/osapi-clock.h\<close>, the clock
  functions of \<^verbatim>\<open>osapi-clock.c\<close> and their POSIX implementation
  (\<^verbatim>\<open>os-impl-posix-gettime.c\<close>, \<^verbatim>\<open>os-impl-posix-gettime-monotonic.c\<close>).

  A time is a signed 64-bit number of ticks of 100 ns. It is an \<open>int\<close>, and every operation
  reduces its result to the range of \<^verbatim>\<open>int64\<close> (two's complement), so overflow shows.
  Division and remainder of signed numbers truncate toward zero (\<open>sdiv\<close>, \<open>smod\<close>); the
  fractional parts are unsigned 32-bit words, as in the code.
\<close>

subsection \<open>Times\<close>

definition int64 :: "int \<Rightarrow> int" where
  "int64 x = signed_take_bit 63 x"

definition in_int64 :: "int \<Rightarrow> bool" where
  "in_int64 x \<longleftrightarrow> - (2 ^ 63) \<le> x \<and> x < 2 ^ 63"

record OS_time =
  ticks :: int

definition OS_TIME_MAX :: OS_time where "OS_TIME_MAX = \<lparr>ticks = 2 ^ 63 - 1\<rparr>"
definition OS_TIME_ZERO :: OS_time where "OS_TIME_ZERO = \<lparr>ticks = 0\<rparr>"
definition OS_TIME_MIN :: OS_time where "OS_TIME_MIN = \<lparr>ticks = - (2 ^ 63)\<rparr>"

abbreviation (input) OS_TIME_TICK_RESOLUTION_NS :: int where "OS_TIME_TICK_RESOLUTION_NS \<equiv> 100"
abbreviation (input) OS_TIME_TICKS_PER_SECOND :: int where "OS_TIME_TICKS_PER_SECOND \<equiv> 10000000"
abbreviation (input) OS_TIME_TICKS_PER_MSEC :: int where "OS_TIME_TICKS_PER_MSEC \<equiv> 10000"
abbreviation (input) OS_TIME_TICKS_PER_USEC :: int where "OS_TIME_TICKS_PER_USEC \<equiv> 10"

abbreviation (input) OS_PEND :: int where "OS_PEND \<equiv> - 1"
abbreviation (input) OS_CHECK :: int where "OS_CHECK \<equiv> 0"

definition OS_TimeGetTotalSeconds :: "OS_time \<Rightarrow> int" where
  "OS_TimeGetTotalSeconds tm = ticks tm sdiv OS_TIME_TICKS_PER_SECOND"

definition OS_TimeFromTotalSeconds :: "int \<Rightarrow> OS_time" where
  "OS_TimeFromTotalSeconds tm = \<lparr>ticks = int64 (tm * OS_TIME_TICKS_PER_SECOND)\<rparr>"

definition OS_TimeGetTotalMilliseconds :: "OS_time \<Rightarrow> int" where
  "OS_TimeGetTotalMilliseconds tm = ticks tm sdiv OS_TIME_TICKS_PER_MSEC"

definition OS_TimeFromTotalMilliseconds :: "int \<Rightarrow> OS_time" where
  "OS_TimeFromTotalMilliseconds tm = \<lparr>ticks = int64 (tm * OS_TIME_TICKS_PER_MSEC)\<rparr>"

definition OS_TimeGetTotalMicroseconds :: "OS_time \<Rightarrow> int" where
  "OS_TimeGetTotalMicroseconds tm = ticks tm sdiv OS_TIME_TICKS_PER_USEC"

definition OS_TimeFromTotalMicroseconds :: "int \<Rightarrow> OS_time" where
  "OS_TimeFromTotalMicroseconds tm = \<lparr>ticks = int64 (tm * OS_TIME_TICKS_PER_USEC)\<rparr>"

definition OS_TimeGetTotalNanoseconds :: "OS_time \<Rightarrow> int" where
  "OS_TimeGetTotalNanoseconds tm = int64 (ticks tm * OS_TIME_TICK_RESOLUTION_NS)"

definition OS_TimeFromTotalNanoseconds :: "int \<Rightarrow> OS_time" where
  "OS_TimeFromTotalNanoseconds tm = \<lparr>ticks = tm sdiv OS_TIME_TICK_RESOLUTION_NS\<rparr>"

definition OS_TimeGetFractionalPart :: "OS_time \<Rightarrow> int" where
  "OS_TimeGetFractionalPart tm = ticks tm smod OS_TIME_TICKS_PER_SECOND"

text \<open>\<^verbatim>\<open>OS_TIME_TICKS_PER_SECOND >> 2\<close> is 2500000.\<close>

definition OS_TimeGetSubsecondsPart :: "OS_time \<Rightarrow> u32" where
  "OS_TimeGetSubsecondsPart tm =
    (let frac = int64 (int64 (OS_TimeGetFractionalPart tm * 2 ^ 30) + drop_bit 2 OS_TIME_TICKS_PER_SECOND)
     in word_of_int ((frac - 1) sdiv drop_bit 2 OS_TIME_TICKS_PER_SECOND))"

definition OS_TimeGetMillisecondsPart :: "OS_time \<Rightarrow> u32" where
  "OS_TimeGetMillisecondsPart tm = word_of_int (OS_TimeGetFractionalPart tm) div word_of_int OS_TIME_TICKS_PER_MSEC"

definition OS_TimeGetMicrosecondsPart :: "OS_time \<Rightarrow> u32" where
  "OS_TimeGetMicrosecondsPart tm = word_of_int (OS_TimeGetFractionalPart tm) div word_of_int OS_TIME_TICKS_PER_USEC"

definition OS_TimeGetNanosecondsPart :: "OS_time \<Rightarrow> u32" where
  "OS_TimeGetNanosecondsPart tm = word_of_int (OS_TimeGetFractionalPart tm) * word_of_int OS_TIME_TICK_RESOLUTION_NS"

definition OS_TimeAssembleFromNanoseconds :: "int \<Rightarrow> u32 \<Rightarrow> OS_time" where
  "OS_TimeAssembleFromNanoseconds seconds nanoseconds =
    (let r = int64 (seconds * OS_TIME_TICKS_PER_SECOND)
     in \<lparr>ticks = int64 (r + uint (nanoseconds div word_of_int OS_TIME_TICK_RESOLUTION_NS))\<rparr>)"

definition OS_TimeAssembleFromMicroseconds :: "int \<Rightarrow> u32 \<Rightarrow> OS_time" where
  "OS_TimeAssembleFromMicroseconds seconds microseconds =
    (let r = int64 (seconds * OS_TIME_TICKS_PER_SECOND)
     in \<lparr>ticks = int64 (r + uint (microseconds * word_of_int OS_TIME_TICKS_PER_USEC))\<rparr>)"

definition OS_TimeAssembleFromMilliseconds :: "int \<Rightarrow> u32 \<Rightarrow> OS_time" where
  "OS_TimeAssembleFromMilliseconds seconds milliseconds =
    (let r = int64 (seconds * OS_TIME_TICKS_PER_SECOND)
     in \<lparr>ticks = int64 (r + uint (milliseconds * word_of_int OS_TIME_TICKS_PER_MSEC))\<rparr>)"

definition OS_TimeAssembleFromSubseconds :: "int \<Rightarrow> u32 \<Rightarrow> OS_time" where
  "OS_TimeAssembleFromSubseconds seconds subseconds =
    (let r = int64 (seconds * OS_TIME_TICKS_PER_SECOND)
     in \<lparr>ticks = int64 (r + drop_bit 30 (int64 (uint subseconds * drop_bit 2 OS_TIME_TICKS_PER_SECOND)))\<rparr>)"

definition OS_TimeAdd :: "OS_time \<Rightarrow> OS_time \<Rightarrow> OS_time" where
  "OS_TimeAdd time1 time2 = \<lparr>ticks = int64 (ticks time1 + ticks time2)\<rparr>"

definition OS_TimeSubtract :: "OS_time \<Rightarrow> OS_time \<Rightarrow> OS_time" where
  "OS_TimeSubtract time1 time2 = \<lparr>ticks = int64 (ticks time1 - ticks time2)\<rparr>"

definition OS_TimeEqual :: "OS_time \<Rightarrow> OS_time \<Rightarrow> bool" where
  "OS_TimeEqual time1 time2 \<longleftrightarrow> ticks time1 = ticks time2"

definition OS_TimeGetSign :: "OS_time \<Rightarrow> int" where
  "OS_TimeGetSign t = of_bool (ticks t > 0) - of_bool (ticks t < 0)"

definition OS_TimeCompare :: "OS_time \<Rightarrow> OS_time \<Rightarrow> int" where
  "OS_TimeCompare time1 time2 = OS_TimeGetSign (OS_TimeSubtract time1 time2)"

subsection \<open>Clocks\<close>

text \<open>
  The system calls: \<^verbatim>\<open>clock_gettime\<close> gives its result and the seconds and nanoseconds,
  \<^verbatim>\<open>clock_settime\<close> its result and the new state of the system.
\<close>

datatype clockid = CLOCK_REALTIME | CLOCK_MONOTONIC

record 'i posix_clock =
  clock_gettime :: "clockid \<Rightarrow> 'i \<Rightarrow> int \<times> int \<times> int"
  clock_settime :: "clockid \<Rightarrow> int \<Rightarrow> int \<Rightarrow> 'i \<Rightarrow> int \<times> 'i"

text \<open>The second component is the time written through \<^verbatim>\<open>time_struct\<close>, \<open>None\<close> when it was not written.\<close>

definition OS_GetLocalTime_Impl :: "'i posix_clock \<Rightarrow> 'i os_state \<Rightarrow> status \<times> OS_time option \<times> 'i os_state" where
  "OS_GetLocalTime_Impl c s =
    (case clock_gettime c CLOCK_REALTIME (impl s) of
       (Status, tv_sec, tv_nsec) \<Rightarrow>
         (if Status = 0 then (OS_SUCCESS, Some (OS_TimeAssembleFromNanoseconds tv_sec (word_of_int tv_nsec)), s)
          else (OS_ERROR, None, OS_DEBUG (Dbg_note ''Error calling clock_gettime'') s)))"

definition OS_GetMonotonicTime_Impl :: "'i posix_clock \<Rightarrow> 'i os_state \<Rightarrow> status \<times> OS_time option \<times> 'i os_state" where
  "OS_GetMonotonicTime_Impl c s =
    (case clock_gettime c CLOCK_MONOTONIC (impl s) of
       (Status, tv_sec, tv_nsec) \<Rightarrow>
         (if Status = 0 then (OS_SUCCESS, Some (OS_TimeAssembleFromNanoseconds tv_sec (word_of_int tv_nsec)), s)
          else (OS_ERROR, None, OS_DEBUG (Dbg_note ''Error calling clock_gettime'') s)))"

definition OS_SetLocalTime_Impl :: "'i posix_clock \<Rightarrow> OS_time \<Rightarrow> 'i os_state \<Rightarrow> status \<times> 'i os_state" where
  "OS_SetLocalTime_Impl c time_struct s =
    (case clock_settime c CLOCK_REALTIME (OS_TimeGetTotalSeconds time_struct)
            (uint (OS_TimeGetNanosecondsPart time_struct)) (impl s) of
       (Status, i) \<Rightarrow> ((if Status = 0 then OS_SUCCESS else OS_ERROR), s\<lparr>impl := i\<rparr>))"

definition OS_GetMonotonicTime :: "'i posix_clock \<Rightarrow> bool \<Rightarrow> 'i os_state \<Rightarrow> status \<times> OS_time option \<times> 'i os_state" where
  "OS_GetMonotonicTime c has_ptr s =
    (if \<not> has_ptr then (OS_INVALID_POINTER, None, s) else OS_GetMonotonicTime_Impl c s)"

definition OS_GetLocalTime :: "'i posix_clock \<Rightarrow> bool \<Rightarrow> 'i os_state \<Rightarrow> status \<times> OS_time option \<times> 'i os_state" where
  "OS_GetLocalTime c has_ptr s =
    (if \<not> has_ptr then (OS_INVALID_POINTER, None, s) else OS_GetLocalTime_Impl c s)"

definition OS_SetLocalTime :: "'i posix_clock \<Rightarrow> OS_time option \<Rightarrow> 'i os_state \<Rightarrow> status \<times> 'i os_state" where
  "OS_SetLocalTime c time_struct s =
    (case time_struct of None \<Rightarrow> (OS_INVALID_POINTER, s) | Some t \<Rightarrow> OS_SetLocalTime_Impl c t s)"

text \<open>
  The two conversions between relative and absolute timeouts ignore the status of the clock. When
  the clock cannot be read the local variable keeps what was on the stack, the argument
  \<open>garbage\<close>.
\<close>

definition read_clock :: "OS_time \<Rightarrow> 'i posix_clock \<Rightarrow> 'i os_state \<Rightarrow> OS_time \<times> 'i os_state" where
  "read_clock garbage c s =
    (case OS_GetLocalTime_Impl c s of (_, t, s') \<Rightarrow> ((case t of Some x \<Rightarrow> x | None \<Rightarrow> garbage), s'))"

definition OS_TimeFromRelativeMilliseconds ::
    "OS_time \<Rightarrow> 'i posix_clock \<Rightarrow> int \<Rightarrow> 'i os_state \<Rightarrow> OS_time \<times> 'i os_state" where
  "OS_TimeFromRelativeMilliseconds garbage c relative_msec s =
    (if relative_msec = OS_CHECK then (OS_TIME_ZERO, s)
     else if relative_msec > 0 then
       (case read_clock garbage c s of
          (abs_time, s') \<Rightarrow> (OS_TimeAdd abs_time (OS_TimeFromTotalMilliseconds relative_msec), s'))
     else (OS_TIME_MAX, s))"

text \<open>The result is returned as an \<^verbatim>\<open>int32\<close>; it is in range on every path.\<close>

definition OS_TimeToRelativeMilliseconds ::
    "OS_time \<Rightarrow> 'i posix_clock \<Rightarrow> OS_time \<Rightarrow> 'i os_state \<Rightarrow> int \<times> 'i os_state" where
  "OS_TimeToRelativeMilliseconds garbage c time s =
    (let (curr_time, s') =
           (if OS_TimeGetSign time \<le> 0 \<or> OS_TimeEqual time OS_TIME_MAX then (time, s)
            else (case read_clock garbage c s of (now, s1) \<Rightarrow> (OS_TimeSubtract time now, s1)))
     in if OS_TimeGetSign curr_time \<le> 0 then (OS_CHECK, s')
        else
          let relative_msec = OS_TimeGetTotalMilliseconds curr_time
          in ((if relative_msec > 2 ^ 31 - 1 then OS_PEND else relative_msec), s'))"

subsection \<open>Arithmetic of times\<close>

lemma int64_id: "in_int64 x \<Longrightarrow> int64 x = x"
  by (simp add: in_int64_def int64_def signed_take_bit_int_eq_self_iff)

lemma int64_range: "in_int64 (int64 x)"
  unfolding in_int64_def int64_def
  using signed_take_bit_int_greater_eq_minus_exp[of 63 x] signed_take_bit_int_less_exp[of 63 x] by simp

lemma int64_over: "2 ^ 63 \<le> x \<Longrightarrow> x < 2 ^ 64 \<Longrightarrow> int64 x = x - 2 ^ 64"
proof -
  assume x: "2 ^ 63 \<le> x" "x < 2 ^ 64"
  have "(x + 2 ^ 63) mod 2 ^ 64 = (x - 2 ^ 64 + 2 ^ 63) mod 2 ^ 64"
    using minus_mod_self2[of "x + 2 ^ 63" "2 ^ 64"] by (simp only: diff_add_eq)
  then have "int64 x = int64 (x - 2 ^ 64)"
    by (simp add: int64_def signed_take_bit_eq_take_bit_shift take_bit_eq_mod)
  with x int64_id[of "x - 2 ^ 64"] show ?thesis by (simp add: in_int64_def)
qed

lemma int64_under: "x < - (2 ^ 63) \<Longrightarrow> - (2 ^ 64) \<le> x \<Longrightarrow> int64 x = x + 2 ^ 64"
proof -
  assume x: "x < - (2 ^ 63)" "- (2 ^ 64) \<le> x"
  have "(x + 2 ^ 63) mod 2 ^ 64 = (x + 2 ^ 64 + 2 ^ 63) mod 2 ^ 64"
    using mod_add_self2[of "x + 2 ^ 63" "2 ^ 64"] by (simp only: ac_simps)
  then have "int64 x = int64 (x + 2 ^ 64)"
    by (simp add: int64_def signed_take_bit_eq_take_bit_shift take_bit_eq_mod)
  with x int64_id[of "x + 2 ^ 64"] show ?thesis by (simp add: in_int64_def)
qed

lemma sdiv_pos: "0 \<le> a \<Longrightarrow> 0 < b \<Longrightarrow> a sdiv b = a div b" for a b :: int
  by (cases "a = 0") (simp_all add: signed_divide_int_def)

lemma smod_pos: "0 \<le> a \<Longrightarrow> 0 < b \<Longrightarrow> a smod b = a mod b" for a b :: int
  by (cases "a = 0") (simp_all add: signed_modulo_int_def)

lemma sdiv_neg: "a < 0 \<Longrightarrow> 0 < b \<Longrightarrow> a sdiv b = - ((- a) div b)" for a b :: int
  by (simp add: signed_divide_int_def)

lemma uint_word_of_int_small: "0 \<le> x \<Longrightarrow> x < 2 ^ 32 \<Longrightarrow> uint (word_of_int x :: u32) = x"
  by (simp add: unsigned_of_int take_bit_int_eq_self)

lemma FractionalPart_pos:
  "0 \<le> ticks tm \<Longrightarrow> OS_TimeGetFractionalPart tm = ticks tm mod 10000000"
  by (simp add: OS_TimeGetFractionalPart_def smod_pos)

lemma uint_frac:
  assumes "0 \<le> ticks tm"
  shows "uint (word_of_int (OS_TimeGetFractionalPart tm) :: u32) = ticks tm mod 10000000"
proof -
  have "0 \<le> ticks tm mod 10000000" "ticks tm mod 10000000 < 10000000" by simp_all
  then show ?thesis using assms uint_word_of_int_small[of "ticks tm mod 10000000"] by (simp add: FractionalPart_pos)
qed

text \<open>Seconds and a number of ticks below one second add up without overflow.\<close>

lemma assemble_ticks:
  assumes "0 \<le> ticks tm" "in_int64 (ticks tm)" "0 \<le> f" "f \<le> ticks tm mod 10000000"
  shows "int64 (int64 (OS_TimeGetTotalSeconds tm * 10000000) + f) = ticks tm - ticks tm mod 10000000 + f"
proof -
  have s: "OS_TimeGetTotalSeconds tm * 10000000 = ticks tm - ticks tm mod 10000000"
    using assms by (simp add: OS_TimeGetTotalSeconds_def sdiv_pos minus_mod_eq_div_mult)
  have "0 \<le> ticks tm - ticks tm mod 10000000" using assms(1) by (simp add: minus_mod_eq_div_mult)
  moreover have "0 \<le> ticks tm mod 10000000" by simp
  ultimately have "in_int64 (ticks tm - ticks tm mod 10000000)" "in_int64 (ticks tm - ticks tm mod 10000000 + f)"
    using assms(2-4) unfolding in_int64_def by linarith+
  then show ?thesis by (simp add: s int64_id)
qed

lemma NanosecondsPart_pos:
  assumes "0 \<le> ticks tm"
  shows "uint (OS_TimeGetNanosecondsPart tm) = ticks tm mod 10000000 * 100"
proof -
  have "ticks tm mod 10000000 < 10000000" "0 \<le> ticks tm mod 10000000" by simp_all
  then have "0 \<le> ticks tm mod 10000000 * 100" "ticks tm mod 10000000 * 100 < 4294967296" by linarith+
  then show ?thesis
    using uint_word_of_int_small[of "ticks tm mod 10000000 * 100"] assms
    by (simp add: OS_TimeGetNanosecondsPart_def FractionalPart_pos)
qed

lemma uint_word_div: "uint (w div word_of_int k :: u32) = uint w div k" if "0 \<le> k" "k < 2 ^ 32"
  using that uint_word_of_int_small[of k] by (simp add: uint_div_distrib)

lemma MicrosecondsPart_pos:
  assumes "0 \<le> ticks tm"
  shows "uint (OS_TimeGetMicrosecondsPart tm) = ticks tm mod 10000000 div 10"
  using uint_frac[OF assms] uint_word_div[of 10] by (simp add: OS_TimeGetMicrosecondsPart_def)

lemma MillisecondsPart_pos:
  assumes "0 \<le> ticks tm"
  shows "uint (OS_TimeGetMillisecondsPart tm) = ticks tm mod 10000000 div 10000"
  using uint_frac[OF assms] uint_word_div[of 10000] by (simp add: OS_TimeGetMillisecondsPart_def)

lemma subseconds_bounds:
  "0 \<le> f \<Longrightarrow> f < 10000000 \<Longrightarrow> in_int64 (f * 2 ^ 30) \<and> in_int64 (f * 2 ^ 30 + 2500000)"
  by (simp add: in_int64_def)

lemma subseconds_range:
  assumes "0 \<le> f" "f < 10000000"
  shows "0 \<le> (f * 2 ^ 30 + 2499999) div 2500000 \<and> (f * 2 ^ 30 + 2499999) div 2500000 < (2 :: int) ^ 32"
proof -
  have "(f * 2 ^ 30 + 2499999) div 2500000 \<le> (9999999 * 2 ^ 30 + 2499999) div 2500000"
    by (rule zdiv_mono1) (use assms in simp_all)
  with assms show ?thesis by simp
qed

lemma floor_multiple: "0 < k \<Longrightarrow> f div k * k \<le> f" "0 < k \<Longrightarrow> 0 \<le> f \<Longrightarrow> 0 \<le> f div k * k" for k f :: int
  by (simp flip: minus_mod_eq_div_mult) (simp add: pos_imp_zdiv_nonneg_iff)

lemma uint_word_mult:
  "0 \<le> k \<Longrightarrow> k < 2 ^ 32 \<Longrightarrow> uint w * k < 2 ^ 32 \<Longrightarrow> uint (w * word_of_int k :: u32) = uint w * k"
  using uint_mult_lem[of w "word_of_int k"] uint_word_of_int_small[of k] by simp

lemma SubsecondsPart_pos:
  assumes "0 \<le> ticks tm"
  shows "uint (OS_TimeGetSubsecondsPart tm) = (ticks tm mod 10000000 * 2 ^ 30 + 2499999) div 2500000"
proof -
  let ?f = "ticks tm mod 10000000"
  have f: "0 \<le> ?f" "?f < 10000000" by simp_all
  have b: "in_int64 (?f * 2 ^ 30)" "in_int64 (?f * 2 ^ 30 + 2500000)" using subseconds_bounds[OF f] by simp_all
  with b f show ?thesis
    using uint_word_of_int_small[of "(?f * 2 ^ 30 + 2499999) div 2500000"] assms subseconds_range[OF f]
    by (simp add: OS_TimeGetSubsecondsPart_def FractionalPart_pos int64_id Let_def sdiv_pos drop_bit_eq_div add.commute)
qed

text \<open>Rounding up to 32-bit subseconds loses nothing: the division on the way back gives the ticks again.\<close>

lemma subseconds_inverse:
  assumes "0 \<le> f" "f < (10000000 :: int)"
  shows "(f * 2 ^ 30 + 2499999) div 2500000 * 2500000 div 2 ^ 30 = f"
proof -
  let ?s = "(f * 2 ^ 30 + 2499999) div 2500000 * 2500000"
  have "?s = f * 2 ^ 30 + 2499999 - (f * 2 ^ 30 + 2499999) mod 2500000" by (simp add: minus_mod_eq_div_mult)
  moreover have "0 \<le> (f * 2 ^ 30 + 2499999) mod 2500000" "(f * 2 ^ 30 + 2499999) mod 2500000 < 2500000" by simp_all
  ultimately have "f * 2 ^ 30 \<le> ?s" "?s < f * 2 ^ 30 + 2500000" by linarith+
  then show ?thesis by (intro int_div_pos_eq[where r = "?s - f * 2 ^ 30"]) simp_all
qed


subsection \<open>Properties\<close>

text \<open>C28: A time that is not negative is recovered from its seconds and its fractional part: exactly
  from nanoseconds and from 32-bit subseconds, and rounded down to the unit from microseconds and
  from milliseconds.\<close>

theorem OS_TimeAssemble_inverse:
  assumes "0 \<le> ticks tm" "in_int64 (ticks tm)"
  shows "OS_TimeAssembleFromNanoseconds (OS_TimeGetTotalSeconds tm) (OS_TimeGetNanosecondsPart tm) = tm
    \<and> OS_TimeAssembleFromSubseconds (OS_TimeGetTotalSeconds tm) (OS_TimeGetSubsecondsPart tm) = tm
    \<and> ticks (OS_TimeAssembleFromMicroseconds (OS_TimeGetTotalSeconds tm) (OS_TimeGetMicrosecondsPart tm)) = ticks tm - ticks tm mod 10
    \<and> ticks (OS_TimeAssembleFromMilliseconds (OS_TimeGetTotalSeconds tm) (OS_TimeGetMillisecondsPart tm)) = ticks tm - ticks tm mod 10000"
proof -
  let ?f = "ticks tm mod 10000000"
  have f: "0 \<le> ?f" "?f < 10000000" by simp_all
  note asm = assemble_ticks[OF assms]
  have n: "uint (OS_TimeGetNanosecondsPart tm div word_of_int 100 :: u32) = ?f"
    using NanosecondsPart_pos[OF assms(1)] uint_word_div[of 100 "OS_TimeGetNanosecondsPart tm"] by simp
  have u: "uint (OS_TimeGetMicrosecondsPart tm * word_of_int 10) = ?f div 10 * 10"
    using uint_word_mult[of 10 "OS_TimeGetMicrosecondsPart tm"] MicrosecondsPart_pos[OF assms(1)] floor_multiple(1)[of 10 ?f] f
    by simp
  have m: "uint (OS_TimeGetMillisecondsPart tm * word_of_int 10000) = ?f div 10000 * 10000"
    using uint_word_mult[of 10000 "OS_TimeGetMillisecondsPart tm"] MillisecondsPart_pos[OF assms(1)] floor_multiple(1)[of 10000 ?f] f
    by simp
  have s: "in_int64 (uint (OS_TimeGetSubsecondsPart tm) * 2500000)"
    using subseconds_range[OF f] SubsecondsPart_pos[OF assms(1)] by (simp add: in_int64_def)
  have nano: "ticks (OS_TimeAssembleFromNanoseconds (OS_TimeGetTotalSeconds tm) (OS_TimeGetNanosecondsPart tm)) = ticks tm"
    using asm[OF f(1) order_refl] n by (simp add: OS_TimeAssembleFromNanoseconds_def)
  have sub: "ticks (OS_TimeAssembleFromSubseconds (OS_TimeGetTotalSeconds tm) (OS_TimeGetSubsecondsPart tm)) = ticks tm"
    using asm[OF f(1) order_refl] s subseconds_inverse[OF f] SubsecondsPart_pos[OF assms(1)]
    by (simp add: OS_TimeAssembleFromSubseconds_def int64_id drop_bit_eq_div)
  have mic: "ticks (OS_TimeAssembleFromMicroseconds (OS_TimeGetTotalSeconds tm) (OS_TimeGetMicrosecondsPart tm)) = ticks tm - ?f + ?f div 10 * 10"
    using asm[of "?f div 10 * 10"] u floor_multiple[of 10 ?f] f by (simp add: OS_TimeAssembleFromMicroseconds_def)
  have mil: "ticks (OS_TimeAssembleFromMilliseconds (OS_TimeGetTotalSeconds tm) (OS_TimeGetMillisecondsPart tm)) = ticks tm - ?f + ?f div 10000 * 10000"
    using asm[of "?f div 10000 * 10000"] m floor_multiple[of 10000 ?f] f by (simp add: OS_TimeAssembleFromMilliseconds_def)
  have "?f mod 10 = ticks tm mod 10" "?f mod 10000 = ticks tm mod 10000" by (simp_all add: mod_mod_cancel)
  with nano sub mic mil show ?thesis by (auto simp flip: minus_mod_eq_div_mult)
qed

theorem OS_TimeAssemble_inverse_witness:
  "OS_TimeAssembleFromSubseconds (OS_TimeGetTotalSeconds \<lparr>ticks = 12345678\<rparr>) (OS_TimeGetSubsecondsPart \<lparr>ticks = 12345678\<rparr>)
    = \<lparr>ticks = 12345678\<rparr>"
  using OS_TimeAssemble_inverse[of "\<lparr>ticks = 12345678\<rparr>"] by (simp add: in_int64_def)

text \<open>The conversions are documented as inverses without restriction, but a negative time with a
  fractional part is never recovered: the remainder is negative and is turned into a large unsigned
  number, so the reassembled time is later than the original.\<close>

theorem OS_TimeAssemble_negative:
  assumes "ticks tm < 0" "- (2 ^ 63) \<le> ticks tm" "\<not> 10000000 dvd ticks tm"
  shows "ticks tm < ticks (OS_TimeAssembleFromNanoseconds (OS_TimeGetTotalSeconds tm) (OS_TimeGetNanosecondsPart tm))"
proof -
  let ?q = "(- ticks tm) div 10000000"
  let ?u = "uint (OS_TimeGetNanosecondsPart tm div 100)"
  have s: "OS_TimeGetTotalSeconds tm = - ?q" using assms(1) by (simp add: OS_TimeGetTotalSeconds_def sdiv_neg)
  have "?q * 10000000 = - ticks tm - (- ticks tm) mod 10000000" by (simp add: minus_mod_eq_div_mult)
  moreover have "(- ticks tm) mod 10000000 \<noteq> 0" using assms(3) by (simp add: dvd_eq_mod_eq_0[symmetric] del: dvd_minus_iff) simp
  moreover have "0 \<le> (- ticks tm) mod 10000000" "0 \<le> ?q" using assms(1) by (simp_all add: pos_imp_zdiv_nonneg_iff)
  ultimately have q: "?q * 10000000 < - ticks tm" "0 \<le> ?q * 10000000" by linarith+
  define v where "v = ?u"
  have u: "0 \<le> v" "v < 2 ^ 32" unfolding v_def using uint_lt2p[of "OS_TimeGetNanosecondsPart tm div 100"] by simp_all
  have "in_int64 (- ?q * 10000000)" "in_int64 (- ?q * 10000000 + v)" using q u assms(2) by (auto simp: in_int64_def)
  then have "ticks (OS_TimeAssembleFromNanoseconds (OS_TimeGetTotalSeconds tm) (OS_TimeGetNanosecondsPart tm)) = - ?q * 10000000 + v"
    by (simp add: OS_TimeAssembleFromNanoseconds_def s int64_id flip: v_def)
  with q u show ?thesis by linarith
qed

theorem OS_TimeAssemble_negative_witness:
  "OS_TimeAssembleFromNanoseconds (OS_TimeGetTotalSeconds \<lparr>ticks = - 1\<rparr>) (OS_TimeGetNanosecondsPart \<lparr>ticks = - 1\<rparr>)
    \<noteq> \<lparr>ticks = - 1\<rparr>"
  using OS_TimeAssemble_negative[of "\<lparr>ticks = - 1\<rparr>"] by (auto dest: arg_cong[where f = ticks])



text \<open>Timeouts survive the conversion to an absolute time and back while the clock stands still:
  polling stays polling, waiting for ever stays waiting for ever, and a positive number of
  milliseconds comes back as it was.\<close>

theorem OS_TimeRelative_roundtrip:
  assumes "- (2 ^ 31) \<le> msec" "msec < 2 ^ 31"
    and "OS_GetLocalTime_Impl c s = (OS_SUCCESS, Some now, s)" "0 \<le> ticks now" "ticks now + msec * 10000 < 2 ^ 63 - 1"
  shows "OS_TimeToRelativeMilliseconds g c (fst (OS_TimeFromRelativeMilliseconds g' c msec s)) s
    = ((if msec < 0 then OS_PEND else msec), s)"
proof -
  have rd: "read_clock x c s = (now, s)" for x using assms(3) by (simp add: read_clock_def)
  consider "msec = 0" | "msec < 0" | "0 < msec" by linarith
  then show ?thesis
  proof cases
    case 1
    then show ?thesis
      by (simp add: OS_TimeFromRelativeMilliseconds_def OS_TimeToRelativeMilliseconds_def OS_TIME_ZERO_def OS_TimeGetSign_def)
  next
    case 2
    then show ?thesis
      by (simp add: OS_TimeFromRelativeMilliseconds_def OS_TimeToRelativeMilliseconds_def OS_TIME_MAX_def OS_TimeGetSign_def
          OS_TimeEqual_def OS_TimeGetTotalMilliseconds_def sdiv_pos)
  next
    case 3
    have "in_int64 (msec * 10000)" "in_int64 (ticks now + msec * 10000)" using 3 assms by (auto simp: in_int64_def)
    then have "OS_TimeFromRelativeMilliseconds g' c msec s = (\<lparr>ticks = ticks now + msec * 10000\<rparr>, s)"
      using 3 by (simp add: OS_TimeFromRelativeMilliseconds_def rd OS_TimeAdd_def OS_TimeFromTotalMilliseconds_def int64_id)
    with 3 assms \<open>in_int64 (msec * 10000)\<close> show ?thesis
      by (simp add: OS_TimeToRelativeMilliseconds_def rd OS_TimeGetSign_def OS_TimeEqual_def OS_TIME_MAX_def
          OS_TimeSubtract_def int64_id OS_TimeGetTotalMilliseconds_def sdiv_pos)
  qed
qed

theorem OS_TimeRelative_roundtrip_witness:
  "let c = \<lparr>clock_gettime = (\<lambda>_ _. (0, 1000, 5)), clock_settime = (\<lambda>_ _ _ i. (0, i))\<rparr> in
    OS_TimeToRelativeMilliseconds OS_TIME_ZERO c (fst (OS_TimeFromRelativeMilliseconds OS_TIME_ZERO c 250 (boot_state ()))) (boot_state ())
      = (250, boot_state ())"
  unfolding Let_def
  by (subst OS_TimeRelative_roundtrip[where now = "\<lparr>ticks = 10000000000\<rparr>"])
    (simp_all add: OS_GetLocalTime_Impl_def OS_TimeAssembleFromNanoseconds_def int64_id in_int64_def)

text \<open>A local time that is not negative can be set and read back exactly, when the operating system
  keeps the time it was given and gives it back.\<close>

theorem OS_SetLocalTime_GetLocalTime:
  assumes "0 \<le> ticks tm" "in_int64 (ticks tm)"
    and "\<forall>sec nsec i. 0 \<le> nsec \<and> nsec < 10 ^ 9 \<longrightarrow>
      (\<exists>i'. clock_settime c CLOCK_REALTIME sec nsec i = (0, i') \<and> clock_gettime c CLOCK_REALTIME i' = (0, sec, nsec))"
  shows "case OS_SetLocalTime c (Some tm) s of (rc, s') \<Rightarrow>
    rc = OS_SUCCESS \<and> OS_GetLocalTime c True s' = (OS_SUCCESS, Some tm, s')"
proof -
  let ?n = "uint (OS_TimeGetNanosecondsPart tm)"
  have f: "0 \<le> ticks tm mod 10000000" "ticks tm mod 10000000 < 10000000" by simp_all
  have n: "?n = ticks tm mod 10000000 * 100" by (rule NanosecondsPart_pos[OF assms(1)])
  with f have "0 \<le> ?n" "?n < 10 ^ 9" by auto
  with assms(3) obtain i where i: "clock_settime c CLOCK_REALTIME (OS_TimeGetTotalSeconds tm) ?n (impl s) = (0, i)"
    "clock_gettime c CLOCK_REALTIME i = (0, OS_TimeGetTotalSeconds tm, ?n)" by blast
  have "uint (OS_TimeGetNanosecondsPart tm div word_of_int 100 :: u32) = ticks tm mod 10000000"
    using n uint_word_div[of 100 "OS_TimeGetNanosecondsPart tm"] by simp
  with assemble_ticks[OF assms(1,2) f(1) order_refl]
  have "OS_TimeAssembleFromNanoseconds (OS_TimeGetTotalSeconds tm) (word_of_int ?n) = tm"
    by (simp add: OS_TimeAssembleFromNanoseconds_def)
  with i show ?thesis
    by (simp add: OS_SetLocalTime_def OS_SetLocalTime_Impl_def OS_GetLocalTime_def OS_GetLocalTime_Impl_def)
qed

theorem OS_SetLocalTime_GetLocalTime_witness:
  "let c = \<lparr>clock_gettime = (\<lambda>_ (sec, nsec). (0, sec, nsec)), clock_settime = (\<lambda>_ sec nsec _. (0, (sec, nsec)))\<rparr> in
    snd (OS_GetLocalTime c True (snd (OS_SetLocalTime c (Some \<lparr>ticks = 123456789\<rparr>) (boot_state (0, 0)))))
      = (Some \<lparr>ticks = 123456789\<rparr>, snd (OS_SetLocalTime c (Some \<lparr>ticks = 123456789\<rparr>) (boot_state (0, 0))))"
  using OS_SetLocalTime_GetLocalTime[of "\<lparr>ticks = 123456789\<rparr>"
      "\<lparr>clock_gettime = (\<lambda>_ (sec, nsec). (0, sec, nsec)), clock_settime = (\<lambda>_ sec nsec _. (0, (sec, nsec)))\<rparr>" "boot_state (0, 0)"]
  by (simp add: in_int64_def prod.case_eq_if)
end
