(* ===== verification/Timebase.thy ===== *)
theory Timebase
  imports Object_Lifecycle
begin

unbundle bit_operations_syntax

text \<open>
  Time bases, \<^verbatim>\<open>src/src/os/shared/src/osapi-timebase.c\<close>. A time base has a servicing
  thread that waits for ticks and runs the callbacks of the timers attached to it; the timers
  form a ring through their \<^verbatim>\<open>prev_cb\<close> and \<^verbatim>\<open>next_cb\<close> fields.

  \<^verbatim>\<open>wait_time\<close> and \<^verbatim>\<open>interval_time\<close> are \<^verbatim>\<open>int32\<close>: they are 32-bit words
  read with \<open>sint\<close>. The implementation layer may install its own sync function when it creates a
  time base, and set the accuracy when it configures one; these are results of its functions. A
  sync function pends, so it can see and change everything: it is where other tasks run.
\<close>

subsection \<open>Operations\<close>

record OS_timebase_prop =
  timebase_prop_name :: string
  timebase_prop_creator :: osal_id_t
  timebase_prop_nominal_interval_time :: u32
  timebase_prop_freerun_time :: u32
  timebase_prop_accuracy :: u32

record 'i timebase_impl =
  OS_TimeBaseCreate_Impl :: "OS_object_token \<Rightarrow> 'i os_state \<Rightarrow> status \<times> ptr \<times> 'i"
  OS_TimeBaseSet_Impl :: "OS_object_token \<Rightarrow> u32 \<Rightarrow> u32 \<Rightarrow> 'i os_state \<Rightarrow> status \<times> u32 \<times> 'i"
  OS_TimeBaseDelete_Impl :: "OS_object_token \<Rightarrow> 'i os_state \<Rightarrow> status \<times> 'i"
  OS_TimeBaseGetInfo_Impl :: "OS_object_token \<Rightarrow> OS_timebase_prop \<Rightarrow> 'i os_state \<Rightarrow> status \<times> OS_timebase_prop"
  OS_TimeBaseLock_Impl :: "OS_object_token \<Rightarrow> 'i \<Rightarrow> 'i"
  OS_TimeBaseUnlock_Impl :: "OS_object_token \<Rightarrow> 'i \<Rightarrow> 'i"
  register_handler :: "osal_id_t \<Rightarrow> 'i \<Rightarrow> 'i"
  yield_cpu :: "'i os_state \<Rightarrow> 'i os_state"
  call_sync :: "ptr \<Rightarrow> osal_id_t \<Rightarrow> 'i os_state \<Rightarrow> u32 \<times> 'i os_state"
  call_timer :: "addr \<Rightarrow> osal_id_t \<Rightarrow> ptr \<Rightarrow> 'i \<Rightarrow> 'i"

definition upd_timebase ::
    "nat \<Rightarrow> (OS_timebase_internal_record \<Rightarrow> OS_timebase_internal_record) \<Rightarrow> 'i os_state \<Rightarrow> 'i os_state" where
  "upd_timebase j f s = s\<lparr>OS_timebase_table := (OS_timebase_table s)(j := f (OS_timebase_table s j))\<rparr>"

definition upd_timecb ::
    "nat \<Rightarrow> (OS_timecb_internal_record \<Rightarrow> OS_timecb_internal_record) \<Rightarrow> 'i os_state \<Rightarrow> 'i os_state" where
  "upd_timecb j f s = s\<lparr>OS_timecb_table := (OS_timecb_table s)(j := f (OS_timecb_table s j))\<rparr>"

definition TimeBaseLock :: "'i timebase_impl \<Rightarrow> OS_object_token \<Rightarrow> 'i os_state \<Rightarrow> 'i os_state" where
  "TimeBaseLock b token s = s\<lparr>impl := OS_TimeBaseLock_Impl b token (impl s)\<rparr>"

definition TimeBaseUnlock :: "'i timebase_impl \<Rightarrow> OS_object_token \<Rightarrow> 'i os_state \<Rightarrow> 'i os_state" where
  "TimeBaseUnlock b token s = s\<lparr>impl := OS_TimeBaseUnlock_Impl b token (impl s)\<rparr>"

definition OS_TimeBaseAPI_Init :: "'i os_state \<Rightarrow> status \<times> 'i os_state" where
  "OS_TimeBaseAPI_Init s = (OS_SUCCESS, s\<lparr>OS_timebase_table := (\<lambda>_. zero_timebase)\<rparr>)"

text \<open>The timer functions refuse to run in the context of a timer callback.\<close>

definition timer_context :: "'i idmap_env \<Rightarrow> 'i os_state \<Rightarrow> bool" where
  "timer_context env s \<longleftrightarrow> OS_ObjectIdToType_Impl (OS_TaskGetId_Impl env (impl s)) = OS_OBJECT_TYPE_OS_TIMEBASE"

definition timebase_fill :: "string \<Rightarrow> ptr \<times> u32 \<Rightarrow> OS_object_token \<Rightarrow> 'i os_state \<Rightarrow> 'i os_state" where
  "timebase_fill name = (\<lambda>(sync, accuracy) token s.
    (let j = unat (obj_idx token);
         s1 = s\<lparr>OS_timebase_table := (OS_timebase_table s)
                  (j := zero_timebase\<lparr>timebase_name := strncpy_cleared name OS_MAX_API_NAME\<rparr>)\<rparr>;
         s2 = upd_common (OS_ObjectIdGlobalFromToken token) (\<lambda>ob. ob\<lparr>name_entry := Some (Timebase_name j)\<rparr>) s1
     in upd_timebase j (\<lambda>tb. tb\<lparr>external_sync := sync, accuracy_usec := accuracy\<rparr>) s2))"

definition OS_TimeBaseCreate ::
    "'i idmap_env \<Rightarrow> 'i timebase_impl \<Rightarrow> bool \<Rightarrow> string option \<Rightarrow> ptr \<Rightarrow> 'i os_state
      \<Rightarrow> status \<times> osal_id_t option \<times> 'i os_state" where
  "OS_TimeBaseCreate env b has_id name sync s =
    (if \<not> has_id then (OS_INVALID_POINTER, None, s)
     else
       case name of
         None \<Rightarrow> (OS_INVALID_POINTER, None, s)
       | Some nm \<Rightarrow>
           (if \<not> LENGTHCHECK nm OS_MAX_API_NAME then (OS_ERR_NAME_TOO_LONG, None, s)
            else if timer_context env s then (OS_ERR_INCORRECT_OBJ_STATE, None, s)
            else
              case OS_ObjectIdAllocateNew env OS_OBJECT_TYPE_OS_TIMEBASE (Some nm) s of
                (return_code, token, s1) \<Rightarrow>
                  (if return_code = OS_SUCCESS then
                     let accuracy = (if sync = None then MicroSecPerTick (OS_SharedGlobalVars s1) else 0);
                         s2 = timebase_fill nm (sync, accuracy) token s1
                     in case OS_TimeBaseCreate_Impl b token s2 of
                          (st, sync', a) \<Rightarrow>
                            let s3 = upd_timebase (unat (obj_idx token)) (\<lambda>tb. tb\<lparr>external_sync := sync'\<rparr>) s2
                            in (case OS_ObjectIdFinalizeNew env st token (s3\<lparr>impl := a\<rparr>) of
                                  (st', i, token', s4) \<Rightarrow> (st', Some i, s4))
                   else (return_code, None, s1))))"

definition OS_TimeBaseSet ::
    "'i idmap_env \<Rightarrow> 'i timebase_impl \<Rightarrow> osal_id_t \<Rightarrow> u32 \<Rightarrow> u32 \<Rightarrow> 'i os_state \<Rightarrow> status \<times> 'i os_state" where
  "OS_TimeBaseSet env b timebase_id start_time interval s =
    (if \<not> start_time < 1000000000 then (OS_TIMER_ERR_INVALID_ARGS, s)
     else if \<not> interval < 1000000000 then (OS_TIMER_ERR_INVALID_ARGS, s)
     else if timer_context env s then (OS_ERR_INCORRECT_OBJ_STATE, s)
     else
       case OS_ObjectIdGetById env OS_LOCK_MODE_GLOBAL OS_OBJECT_TYPE_OS_TIMEBASE timebase_id s of
         (return_code, token, s1) \<Rightarrow>
           (if return_code = OS_SUCCESS then
              let j = unat (obj_idx token);
                  s2 = TimeBaseLock b token s1
              in case OS_TimeBaseSet_Impl b token start_time interval s2 of
                   (st, accuracy, a) \<Rightarrow>
                     let s3 = upd_timebase j (\<lambda>tb. tb\<lparr>accuracy_usec := accuracy\<rparr>) (s2\<lparr>impl := a\<rparr>);
                         s4 = (if st = OS_SUCCESS
                               then upd_timebase j (\<lambda>tb. tb\<lparr>nominal_start_time := start_time,
                                                           nominal_interval_time := interval\<rparr>) s3
                               else s3);
                         s5 = TimeBaseUnlock b token s4
                     in (st, snd (OS_ObjectIdRelease env token s5))
            else (return_code, s1)))"

definition OS_TimeBaseDelete ::
    "'i idmap_env \<Rightarrow> 'i timebase_impl \<Rightarrow> osal_id_t \<Rightarrow> 'i os_state \<Rightarrow> status \<times> 'i os_state" where
  "OS_TimeBaseDelete env b timebase_id s =
    (if timer_context env s then (OS_ERR_INCORRECT_OBJ_STATE, s)
     else
       case OS_ObjectIdGetById env OS_LOCK_MODE_EXCLUSIVE OS_OBJECT_TYPE_OS_TIMEBASE timebase_id s of
         (return_code, token, s1) \<Rightarrow>
           (if return_code = OS_SUCCESS then
              (case OS_TimeBaseDelete_Impl b token s1 of
                 (st, a) \<Rightarrow>
                   (case OS_ObjectIdFinalizeDelete env st token (s1\<lparr>impl := a\<rparr>) of
                      (st', token', s2) \<Rightarrow> (st', s2)))
            else (return_code, s1)))"

definition OS_TimeBaseGetIdByName ::
    "'i idmap_env \<Rightarrow> bool \<Rightarrow> string option \<Rightarrow> 'i os_state \<Rightarrow> status \<times> osal_id_t option \<times> 'i os_state" where
  "OS_TimeBaseGetIdByName env has_id name s =
    (if \<not> has_id then (OS_INVALID_POINTER, None, s)
     else
       case name of
         None \<Rightarrow> (OS_INVALID_POINTER, None, s)
       | Some nm \<Rightarrow>
           (if \<not> LENGTHCHECK nm OS_MAX_API_NAME then (OS_ERR_NAME_TOO_LONG, None, s)
            else if timer_context env s then (OS_ERR_INCORRECT_OBJ_STATE, None, s)
            else OS_ObjectIdFindByName env OS_OBJECT_TYPE_OS_TIMEBASE (Some nm) s))"

text \<open>A buffer that has been cleared is the second component; \<open>None\<close> when it was not touched.\<close>

definition OS_TimeBaseGetInfo ::
    "'i idmap_env \<Rightarrow> 'i timebase_impl \<Rightarrow> osal_id_t \<Rightarrow> bool \<Rightarrow> 'i os_state
      \<Rightarrow> status \<times> OS_timebase_prop option \<times> 'i os_state" where
  "OS_TimeBaseGetInfo env b timebase_id has_prop s =
    (if \<not> has_prop then (OS_INVALID_POINTER, None, s)
     else if timer_context env s then (OS_ERR_INCORRECT_OBJ_STATE, None, s)
     else
       let prop = \<lparr>timebase_prop_name = [], timebase_prop_creator = 0, timebase_prop_nominal_interval_time = 0,
                   timebase_prop_freerun_time = 0, timebase_prop_accuracy = 0\<rparr>
       in case OS_ObjectIdGetById env OS_LOCK_MODE_GLOBAL OS_OBJECT_TYPE_OS_TIMEBASE timebase_id s of
            (return_code, token, s1) \<Rightarrow>
              (if return_code = OS_SUCCESS then
                 let rec = OS_common_table s1 (OS_ObjectIdGlobalFromToken token);
                     tb = OS_timebase_table s1 (unat (obj_idx token));
                     prop1 = \<lparr>timebase_prop_name = strncpy_cleared (name_chars s1 (name_entry rec)) OS_MAX_API_NAME,
                              timebase_prop_creator = creator rec,
                              timebase_prop_nominal_interval_time = nominal_interval_time tb,
                              timebase_prop_freerun_time = freerun_time tb, timebase_prop_accuracy = accuracy_usec tb\<rparr>
                 in case OS_TimeBaseGetInfo_Impl b token prop1 s1 of
                      (st, prop2) \<Rightarrow> (st, Some prop2, snd (OS_ObjectIdRelease env token s1))
               else (return_code, Some prop, s1)))"

definition OS_TimeBaseGetFreeRun ::
    "'i idmap_env \<Rightarrow> osal_id_t \<Rightarrow> bool \<Rightarrow> 'i os_state \<Rightarrow> status \<times> u32 option \<times> 'i os_state" where
  "OS_TimeBaseGetFreeRun env timebase_id has_val s =
    (if \<not> has_val then (OS_INVALID_POINTER, None, s)
     else
       case OS_ObjectIdGetById env OS_LOCK_MODE_NONE OS_OBJECT_TYPE_OS_TIMEBASE timebase_id s of
         (return_code, token, s1) \<Rightarrow>
           (if return_code = OS_SUCCESS
            then (return_code, Some (freerun_time (OS_timebase_table s1 (unat (obj_idx token)))), s1)
            else (return_code, None, s1)))"

text \<open>The product and the sum are computed in 64 bits and cannot overflow; \<^verbatim>\<open>INT_MAX\<close> is 2^31 - 1.\<close>

definition OS_Milli2Ticks :: "u32 \<Rightarrow> 'i os_state \<Rightarrow> status \<times> int" where
  "OS_Milli2Ticks milli_seconds s =
    (let num_of_ticks = (ucast milli_seconds * ucast (TicksPerSecond (OS_SharedGlobalVars s)) + 999 :: u64) div 1000
     in if num_of_ticks \<le> 0x7FFFFFFF then (OS_SUCCESS, uint num_of_ticks) else (OS_ERROR, 0))"

subsection \<open>The servicing thread\<close>

text \<open>Sums of a number that is not positive and one that is positive cannot overflow.\<close>

lemma sint_u32_range: "- (2 ^ 31) \<le> sint (w :: u32)" "sint (w :: u32) < 2 ^ 31"
  using sint_ge[of w] sint_lt[of w] by simp_all

lemma sint_u32_of_int: "- (2 ^ 31) \<le> x \<Longrightarrow> x < 2 ^ 31 \<Longrightarrow> sint (word_of_int x :: u32) = x"
  by (simp add: signed_of_int signed_take_bit_int_eq_self)

lemma sint_add_opposite:
  fixes w i :: u32
  assumes "sint w \<le> 0" "0 \<le> sint i"
  shows "sint (w + i) = sint w + sint i"
proof -
  have e: "word_of_int (sint w + sint i) = w + i" by simp
  show ?thesis
    by (rule sint_u32_of_int[of "sint w + sint i", unfolded e]) (use assms sint_u32_range[of w] sint_u32_range[of i] in linarith)+
qed

lemma sint_minus_pos:
  fixes i :: u32
  assumes "0 \<le> sint i"
  shows "sint (- i) = - sint i"
proof -
  have e: "word_of_int (- sint i) = - i" by simp
  show ?thesis
    by (rule sint_u32_of_int[of "- sint i", unfolded e]) (use assms sint_u32_range[of i] in linarith)+
qed

text \<open>
  The inner loop for one timer: the callback \<open>fire\<close> (the identity when it is not to be called),
  the interval, the wait time, the number of backlog resets and the state of the application.
\<close>

function expire_loop :: "('i \<Rightarrow> 'i) \<Rightarrow> u32 \<Rightarrow> u32 \<Rightarrow> u32 \<Rightarrow> 'i \<Rightarrow> u32 \<times> u32 \<times> 'i" where
  "expire_loop fire interval wait backlog a =
    (if sint wait > 0 then (wait, backlog, a)
     else
       let wait1 = wait + interval;
           (wait2, backlog2) = (if sint wait1 < sint (- interval) then (- interval, backlog + 1) else (wait1, backlog));
           a2 = fire a
       in if sint interval \<le> 0 then (wait2, backlog2, a2) else expire_loop fire interval wait2 backlog2 a2)"
  by pat_completeness auto
termination
proof (relation "measure (\<lambda>(fire, interval, wait, backlog, a). nat (1 - sint wait))")
  fix fire :: "'i \<Rightarrow> 'i" and interval wait backlog :: u32 and a :: 'i and x xa xb y xc
  assume a: "\<not> 0 < sint wait" "x = wait + interval"
    "xa = (if sint x < sint (- interval) then (- interval, backlog + 1) else (x, backlog))" "(xb, y) = xa" "\<not> sint interval \<le> 0"
  then have "sint x = sint wait + sint interval" "sint (- interval) = - sint interval"
    using sint_add_opposite[of wait interval] sint_minus_pos[of interval] by simp_all
  with a have "sint wait < sint xb" by (auto split: if_splits)
  with a(1) show "((fire, interval, xb, y, xc), fire, interval, wait, backlog, a)
      \<in> measure (\<lambda>(fire, interval, wait, backlog, a). nat (1 - sint wait))" by simp
qed simp

declare expire_loop.simps [simp del]

text \<open>One timer sees a tick.\<close>

definition timer_tick :: "'i timebase_impl \<Rightarrow> u32 \<Rightarrow> OS_object_token \<Rightarrow> 'i os_state \<Rightarrow> 'i os_state" where
  "timer_tick b tick_time cb_token s =
    (let j = unat (obj_idx cb_token);
         timecb = OS_timecb_table s j;
         saved_wait_time = wait_time timecb;
         fire = (case callback_ptr timecb of
                   Some f \<Rightarrow> (if sint saved_wait_time > 0 then call_timer b f (obj_id cb_token) (callback_arg timecb) else (\<lambda>a. a))
                 | None \<Rightarrow> (\<lambda>a. a))
     in case expire_loop fire (interval_time timecb) (saved_wait_time - tick_time) (backlog_resets timecb) (impl s) of
          (wait, backlog, a) \<Rightarrow>
            (upd_timecb j (\<lambda>cb. cb\<lparr>wait_time := wait, backlog_resets := backlog\<rparr>) s)\<lparr>impl := a\<rparr>)"

text \<open>
  The loop over the ring: the timer of the token, then the timer its \<^verbatim>\<open>next_cb\<close> names, until
  this is not a timer or is the first one of the time base. On a ring that does not come back to
  its start the loop does not end, and the value is \<open>None\<close>.
\<close>

partial_function (option) callback_ring ::
    "'i idmap_env \<Rightarrow> 'i timebase_impl \<Rightarrow> nat \<Rightarrow> u32 \<Rightarrow> OS_object_token \<Rightarrow> 'i os_state \<Rightarrow> 'i os_state option" where
  "callback_ring env b j tick_time cb_token s =
    (let s1 = timer_tick b tick_time cb_token s
     in case OS_ObjectIdGetById env OS_LOCK_MODE_NONE OS_OBJECT_TYPE_OS_TIMECB
               (next_cb (OS_timecb_table s1 (unat (obj_idx cb_token)))) s1 of
          (return_code, cb_token', s2) \<Rightarrow>
            (if return_code = OS_SUCCESS \<and> obj_id cb_token' \<noteq> first_cb (OS_timebase_table s2 j)
             then callback_ring env b j tick_time cb_token' s2
             else Some s2))"

definition OS_TIMEBASE_SPIN_LIMIT :: u32 where "OS_TIMEBASE_SPIN_LIMIT = 4"

text \<open>Counting the returns of the sync function that report no tick.\<close>

definition spin_check :: "'i timebase_impl \<Rightarrow> u32 \<Rightarrow> u32 \<Rightarrow> 'i os_state \<Rightarrow> u32 \<times> 'i os_state" where
  "spin_check b tick_time spin_cycles s =
    (if tick_time \<noteq> 0 then (0, s)
     else if spin_cycles < OS_TIMEBASE_SPIN_LIMIT then (spin_cycles + 1, s)
     else
       let s1 = yield_cpu b s
       in if spin_cycles = OS_TIMEBASE_SPIN_LIMIT then (spin_cycles + 1, OS_DEBUG Dbg_sync_spin s1) else (spin_cycles, s1))"

text \<open>The part of an iteration under the lock of the time base; \<open>None\<close> in the first component ends the thread.\<close>

definition process_tick ::
    "'i idmap_env \<Rightarrow> 'i timebase_impl \<Rightarrow> osal_id_t \<Rightarrow> OS_object_token \<Rightarrow> u32 \<Rightarrow> 'i os_state \<Rightarrow> (bool \<times> 'i os_state) option" where
  "process_tick env b timebase_id token tick_time s =
    (let j = unat (obj_idx token);
         s1 = TimeBaseLock b token s
     in if timebase_id \<noteq> active_id (OS_common_table s1 (OS_ObjectIdGlobalFromToken token))
        then Some (False, TimeBaseUnlock b token s1)
        else
          let s2 = upd_timebase j (\<lambda>tb. tb\<lparr>freerun_time := freerun_time tb + tick_time\<rparr>) s1
          in case OS_ObjectIdGetById env OS_LOCK_MODE_NONE OS_OBJECT_TYPE_OS_TIMECB
                    (first_cb (OS_timebase_table s2 j)) s2 of
               (return_code, cb_token, s3) \<Rightarrow>
                 (case (if return_code = OS_SUCCESS then callback_ring env b j tick_time cb_token s3 else Some s3) of
                    None \<Rightarrow> None
                  | Some s4 \<Rightarrow> Some (True, TimeBaseUnlock b token s4)))"

partial_function (option) CallbackThread_loop ::
    "'i idmap_env \<Rightarrow> 'i timebase_impl \<Rightarrow> osal_id_t \<Rightarrow> OS_object_token \<Rightarrow> ptr \<Rightarrow> u32 \<Rightarrow> 'i os_state \<Rightarrow> 'i os_state option" where
  "CallbackThread_loop env b timebase_id token syncfunc spin_cycles s =
    (case call_sync b syncfunc timebase_id s of
       (tick_time, s1) \<Rightarrow>
         (case spin_check b tick_time spin_cycles s1 of
            (spin_cycles', s2) \<Rightarrow>
              (case process_tick env b timebase_id token tick_time s2 of
                 None \<Rightarrow> None
               | Some (continue, s3) \<Rightarrow>
                   (if continue then CallbackThread_loop env b timebase_id token syncfunc spin_cycles' s3 else Some s3))))"

definition OS_TimeBase_CallbackThread ::
    "'i idmap_env \<Rightarrow> 'i timebase_impl \<Rightarrow> osal_id_t \<Rightarrow> 'i os_state \<Rightarrow> 'i os_state option" where
  "OS_TimeBase_CallbackThread env b timebase_id s =
    (let s1 = s\<lparr>impl := register_handler b timebase_id (impl s)\<rparr>
     in case OS_ObjectIdGetById env OS_LOCK_MODE_GLOBAL OS_OBJECT_TYPE_OS_TIMEBASE timebase_id s1 of
          (return_code, token, s2) \<Rightarrow>
            (if return_code \<noteq> OS_SUCCESS then Some s2
             else
               let syncfunc = external_sync (OS_timebase_table s2 (unat (obj_idx token)));
                   (token', s3) = OS_ObjectIdRelease env token s2
               in CallbackThread_loop env b timebase_id token' syncfunc 0 s3))"

subsection \<open>One timer\<close>

lemma expire_positive: "0 < sint wait \<Longrightarrow> expire_loop fire interval wait backlog a = (wait, backlog, a)"
  by (simp add: expire_loop.simps)

lemma expire_step:
  assumes "sint wait \<le> 0" "0 < sint interval" "- 2 * sint interval \<le> sint wait"
  shows "expire_loop fire interval wait backlog a = expire_loop fire interval (wait + interval) backlog (fire a)"
    and "sint (wait + interval) = sint wait + sint interval"
proof -
  show e: "sint (wait + interval) = sint wait + sint interval" using assms by (intro sint_add_opposite) simp_all
  show "expire_loop fire interval wait backlog a = expire_loop fire interval (wait + interval) backlog (fire a)"
    using assms e sint_minus_pos[of interval] by (simp add: expire_loop.simps[of fire interval wait])
qed

lemma expire_backlog:
  assumes "0 < sint interval" "sint wait < - 2 * sint interval"
  shows "expire_loop fire interval wait backlog a = expire_loop fire interval (- interval) (backlog + 1) (fire a)"
  using assms sint_add_opposite[of wait interval] sint_minus_pos[of interval]
  by (simp add: expire_loop.simps[of fire interval wait])

text \<open>The number of expirations of a periodic timer whose wait time has become \<open>d\<close>.\<close>

definition expirations :: "int \<Rightarrow> int \<Rightarrow> nat" where
  "expirations interval d = (if d > 0 then 0 else if d < - 2 * interval then 3 else nat (- d div interval) + 1)"

lemma expirations_range:
  assumes "0 < I" "d \<le> 0" "- 2 * I \<le> d"
  obtains "expirations I d = 1" "- I < d" | "expirations I d = 2" "- 2 * I < d" "d \<le> - I" | "expirations I d = 3" "d = - 2 * I"
proof -
  consider "- I < d" | "- 2 * I < d" "d \<le> - I" | "d = - 2 * I" using assms by linarith
  then show thesis
  proof cases
    case 1
    with assms have "- d div I = 0" by (simp add: div_pos_pos_trivial)
    with 1 assms that(1) show thesis by (simp add: expirations_def)
  next
    case 2
    with assms have "- d div I = 1" by (intro int_div_pos_eq[where r = "- d - I"]) simp_all
    with 2 assms that(2) show thesis by (simp add: expirations_def)
  next
    case 3
    with assms have "- d div I = 2" by (intro int_div_pos_eq[where r = 0]) simp_all
    with 3 assms that(3) show thesis by (simp add: expirations_def)
  qed
qed

lemma expire_periodic:
  assumes "sint wait \<le> 0" "0 < sint interval" "- 2 * sint interval \<le> sint wait"
  shows "\<exists>wait'. expire_loop fire interval wait backlog a = (wait', backlog, (fire ^^ expirations (sint interval) (sint wait)) a)
    \<and> sint wait' = sint wait + int (expirations (sint interval) (sint wait)) * sint interval"
proof -
  note 1 = expire_step(1)[OF assms, of fire backlog a] expire_step(2)[OF assms]
  have two: "expire_loop fire interval (wait + interval) backlog (fire a) = expire_loop fire interval (wait + interval + interval) backlog (fire (fire a))"
    "sint (wait + interval + interval) = sint wait + 2 * sint interval" if "sint wait \<le> - sint interval"
    using expire_step(1)[of "wait + interval" interval fire backlog "fire a"] expire_step(2)[of "wait + interval" interval] that assms 1(2)
    by simp_all
  from assms(2,1,3) show ?thesis
  proof (cases rule: expirations_range)
    case 1
    with expire_step(1)[OF assms, of fire backlog a] expire_step(2)[OF assms] show ?thesis
      by (intro exI[of _ "wait + interval"]) (simp add: expire_positive)
  next
    case 2
    with two expire_step(1)[OF assms, of fire backlog a] show ?thesis
      by (intro exI[of _ "wait + interval + interval"]) (simp add: expire_positive numeral_2_eq_2)
  next
    case 3
    with two have "sint (wait + interval + interval) = 0" "sint wait \<le> - sint interval" using assms by simp_all
    with expire_step(1)[of "wait + interval + interval" interval fire backlog "fire (fire a)"]
      expire_step(2)[of "wait + interval + interval" interval] assms(2) 3 two expire_step(1)[OF assms, of fire backlog a]
    show ?thesis
      by (intro exI[of _ "wait + interval + interval + interval"]) (simp add: expire_positive numeral_3_eq_3)
  qed
qed

lemma expire_backlogged:
  assumes "0 < sint interval" "sint wait < - 2 * sint interval"
  shows "expire_loop fire interval wait backlog a = (interval, backlog + 1, (fire ^^ 3) a)"
proof -
  have m: "sint (- interval) = - sint interval" using assms by (intro sint_minus_pos) simp
  have "expirations (sint interval) (sint (- interval)) = 2"
    using m assms by (simp add: expirations_def)
  with expire_periodic[of "- interval" interval fire "backlog + 1" "fire a"] m assms(1)
  obtain w where w: "expire_loop fire interval (- interval) (backlog + 1) (fire a) = (w, backlog + 1, (fire ^^ 2) (fire a))" "sint w = sint interval"
    by auto
  then have "w = interval" by (simp add: signed_word_eqI)
  with w expire_backlog[OF assms, of fire backlog a] show ?thesis by (simp add: numeral_3_eq_3 numeral_2_eq_2)
qed

lemma sint_after_tick:
  fixes w k :: u32
  assumes "0 \<le> sint w" "uint k < 2 ^ 31"
  shows "sint (w - k) = sint w - uint k"
proof -
  have e: "word_of_int (sint w - uint k) = w - k" by simp
  have "0 \<le> uint k" by simp
  with assms sint_u32_range[of w] show ?thesis
    by (intro sint_u32_of_int[of "sint w - uint k", unfolded e]) linarith+
qed

lemma expirations_bound: "0 < I \<Longrightarrow> expirations I d \<le> 3"
proof (cases "d \<le> 0 \<and> - 2 * I \<le> d")
  case True
  assume "0 < I"
  with True show ?thesis using expirations_range[of I d "expirations I d \<le> 3"] by simp
qed (auto simp: expirations_def)

text \<open>C18: A tick of a periodic timer. The callback runs once for every interval that has elapsed, but
  never more than three times; the wait time is moved on by exactly as many intervals, so the timer
  does not drift, and lies between one and the interval afterwards; only when more than two intervals were missed
  the rest is dropped and counted as a backlog reset.\<close>

theorem timer_tick_periodic:
  assumes "cb = OS_timecb_table s (unat (obj_idx tk))" "callback_ptr cb = Some f"
    and "0 < sint (interval_time cb)" "0 < sint (wait_time cb)" "uint tick < 2 ^ 31"
    and "d = sint (wait_time cb) - uint tick" "I = sint (interval_time cb)" "s' = timer_tick b tick tk s"
    and "cb' = OS_timecb_table s' (unat (obj_idx tk))"
  shows "impl s' = (call_timer b f (obj_id tk) (callback_arg cb) ^^ expirations I d) (impl s) \<and> expirations I d \<le> 3
    \<and> sint (wait_time cb') = (if d < - 2 * I then I else d + int (expirations I d) * I)
    \<and> 0 < sint (wait_time cb') \<and> (d \<le> 0 \<longrightarrow> sint (wait_time cb') \<le> I)
    \<and> backlog_resets cb' = backlog_resets cb + (if d < - 2 * I then 1 else 0)"
proof -
  let ?fire = "call_timer b f (obj_id tk) (callback_arg cb)"
  let ?w = "wait_time cb - tick"
  have d: "sint ?w = d" using sint_after_tick[of "wait_time cb" tick] assms(4-6) by simp
  have I: "0 < I" using assms(3,7) by simp
  have tick: "timer_tick b tick tk s = (case expire_loop ?fire (interval_time cb) ?w (backlog_resets cb) (impl s) of
      (wait, backlog, a) \<Rightarrow> (upd_timecb (unat (obj_idx tk)) (\<lambda>cb. cb\<lparr>wait_time := wait, backlog_resets := backlog\<rparr>) s)\<lparr>impl := a\<rparr>)"
    using assms(1,2,4) by (simp add: timer_tick_def Let_def)
  note res = assms(8)[unfolded tick] assms(9)
  consider "0 < d" | "d \<le> 0" "- 2 * I \<le> d" | "d < - 2 * I" by linarith
  then show ?thesis
  proof cases
    case 1
    with res d I show ?thesis by (simp add: expire_positive upd_timecb_def expirations_def)
  next
    case 2
    obtain w' where w': "expire_loop ?fire (interval_time cb) ?w (backlog_resets cb) (impl s)
        = (w', backlog_resets cb, (?fire ^^ expirations I d) (impl s))" "sint w' = d + int (expirations I d) * I"
      using expire_periodic[of ?w "interval_time cb" ?fire "backlog_resets cb" "impl s"] 2 d assms(3,7) by auto
    have "0 < d + int (expirations I d) * I \<and> d + int (expirations I d) * I \<le> I"
      by (rule expirations_range[OF I 2]) (use 2 I in simp_all)
    with w' res 2 I expirations_bound[OF I] show ?thesis by (simp add: upd_timecb_def)
  next
    case 3
    with expire_backlogged[of "interval_time cb" ?w ?fire "backlog_resets cb" "impl s"] d assms(3,7) res I show ?thesis
      by (simp add: upd_timecb_def expirations_def)
  qed
qed

lemma expire_oneshot:
  "sint wait \<le> 0 \<Longrightarrow> expire_loop fire 0 wait backlog a = (0, (if sint wait < 0 then backlog + 1 else backlog), fire a)"
  by (auto simp: expire_loop.simps[of fire 0 wait] signed_eq_0_iff)

text \<open>A one-shot timer (interval zero) calls its callback in the tick in which its wait time runs out,
  once, and never again afterwards.\<close>

theorem timer_tick_oneshot:
  assumes "cb = OS_timecb_table s (unat (obj_idx tk))" "callback_ptr cb = Some f" "interval_time cb = 0"
    and "0 \<le> sint (wait_time cb)" "uint tick < 2 ^ 31" "d = sint (wait_time cb) - uint tick"
    and "s' = timer_tick b tick tk s" "cb' = OS_timecb_table s' (unat (obj_idx tk))"
  shows "impl s' = (if 0 < sint (wait_time cb) \<and> d \<le> 0 then call_timer b f (obj_id tk) (callback_arg cb) (impl s) else impl s)
    \<and> sint (wait_time cb') = max 0 d \<and> interval_time cb' = 0"
proof -
  let ?w = "wait_time cb - tick"
  let ?fire = "if 0 < sint (wait_time cb) then call_timer b f (obj_id tk) (callback_arg cb) else (\<lambda>a. a)"
  have d: "sint ?w = d" using sint_after_tick[OF assms(4,5)] assms(6) by simp
  have tick: "timer_tick b tick tk s = (case expire_loop ?fire 0 ?w (backlog_resets cb) (impl s) of
      (wait, backlog, a) \<Rightarrow> (upd_timecb (unat (obj_idx tk)) (\<lambda>cb. cb\<lparr>wait_time := wait, backlog_resets := backlog\<rparr>) s)\<lparr>impl := a\<rparr>)"
    using assms(1-3) by (simp add: timer_tick_def Let_def)
  note res = assms(7)[unfolded tick] assms(8)
  show ?thesis
  proof (cases "0 < d")
    case True
    with res d assms(1,3) show ?thesis by (simp add: expire_positive upd_timecb_def)
  next
    case False
    with d have "expire_loop ?fire 0 ?w (backlog_resets cb) (impl s)
        = (0, (if sint ?w < 0 then backlog_resets cb + 1 else backlog_resets cb), ?fire (impl s))"
      by (intro expire_oneshot) simp
    with res False assms(1,3) show ?thesis by (simp add: upd_timecb_def)
  qed
qed


subsection \<open>The ring of timers\<close>

text \<open>
  The timers of time base \<open>j\<close> in ring order, starting with its first: every ID is that of an
  existing timer and \<^verbatim>\<open>next_cb\<close> leads from each to the next and from the last to the first.
\<close>

fun chain :: "'i os_state \<Rightarrow> osal_id_t list \<Rightarrow> osal_id_t \<Rightarrow> bool" where
  "chain s [] stop \<longleftrightarrow> True"
| "chain s [i] stop \<longleftrightarrow> live OS_OBJECT_TYPE_OS_TIMECB i s \<and> next_cb (OS_timecb_table s (unat (index_of i))) = stop"
| "chain s (i # k # ids) stop \<longleftrightarrow> live OS_OBJECT_TYPE_OS_TIMECB i s
     \<and> next_cb (OS_timecb_table s (unat (index_of i))) = k \<and> chain s (k # ids) stop"

definition ring :: "nat \<Rightarrow> osal_id_t list \<Rightarrow> 'i os_state \<Rightarrow> bool" where
  "ring j ids s \<longleftrightarrow> distinct ids \<and> (case ids of
     [] \<Rightarrow> first_cb (OS_timebase_table s j) = OS_OBJECT_ID_UNDEFINED
   | i # _ \<Rightarrow> first_cb (OS_timebase_table s j) = i \<and> chain s ids i)"

abbreviation timer_token :: "osal_id_t \<Rightarrow> OS_object_token" where
  "timer_token i \<equiv> tok OS_LOCK_MODE_NONE 0 OS_OBJECT_TYPE_OS_TIMECB (index_of i) i"

lemma timer_tick_frame [simp]:
  "OS_common_table (timer_tick b k tk s) = OS_common_table s"
  "OS_timebase_table (timer_tick b k tk s) = OS_timebase_table s"
  "OS_SharedGlobalVars (timer_tick b k tk s) = OS_SharedGlobalVars s"
  "running (timer_tick b k tk s) = running s"
  "live t i (timer_tick b k tk s) = live t i s"
  "next_cb (OS_timecb_table (timer_tick b k tk s) m) = next_cb (OS_timecb_table s m)"
  by (simp_all add: timer_tick_def upd_timecb_def Let_def running_def live_def prod.case_eq_if)

lemma chain_tick [simp]: "chain (timer_tick b k tk s) ids stop = chain s ids stop"
  by (induction ids rule: induct_list012) simp_all

lemma callback_ring_chain:
  assumes "running s" "chain s (i # ids) (first_cb (OS_timebase_table s j))" "live OS_OBJECT_TYPE_OS_TIMECB (first_cb (OS_timebase_table s j)) s"
    and "first_cb (OS_timebase_table s j) \<notin> set ids"
  shows "callback_ring env b j tick (timer_token i) s = Some (fold (\<lambda>i. timer_tick b tick (timer_token i)) (i # ids) s)"
  using assms
proof (induction ids arbitrary: i s)
  case Nil
  let ?s1 = "timer_tick b tick (timer_token i) s"
  from Nil GetById_none[of ?s1 OS_OBJECT_TYPE_OS_TIMECB "first_cb (OS_timebase_table s j)" env]
  show ?case by (simp add: callback_ring.simps[of env b j tick "timer_token i" s] Let_def)
next
  case (Cons k ids)
  let ?s1 = "timer_tick b tick (timer_token i) s"
  from Cons.prems have "live OS_OBJECT_TYPE_OS_TIMECB k s" by (cases ids) auto
  with Cons.prems GetById_none[of ?s1 OS_OBJECT_TYPE_OS_TIMECB k env]
  have "callback_ring env b j tick (timer_token i) s = callback_ring env b j tick (timer_token k) ?s1"
    by (auto simp: callback_ring.simps[of env b j tick "timer_token i" s] Let_def)
  with Cons.IH[of ?s1 k] Cons.prems show ?case by simp
qed


text \<open>Without a lock, an ID that is not that of an existing object is refused and nothing changes.\<close>

lemma GetById_none_dead:
  assumes "running s" "OS_GetMaxForObjectType t \<noteq> 0" "\<not> live t i s"
  obtains token where "OS_ObjectIdGetById env OS_LOCK_MODE_NONE t i s = (OS_ERR_INVALID_ID, token, s)"
proof (cases "id_of_type t i")
  case False
  then have "OS_ObjectIdToArrayIndex True t i = (OS_ERR_INVALID_ID, None)"
    using assms(2) max_nonzero_valid_type[OF assms(2)]
    by (auto simp: OS_ObjectIdToArrayIndex_def id_of_type_def Let_def)
  with assms that[of "tok OS_LOCK_MODE_NONE 0 t (- 1) 0"] show thesis
    by (simp add: OS_ObjectIdGetById_def TransactionInit_none OS_ObjectIdTransactionCancel_def)
next
  case True
  with assms that[of "tok OS_LOCK_MODE_NONE 0 t (index_of i) i"] id_of_type_facts[OF True] show thesis
    by (simp add: OS_ObjectIdGetById_def TransactionInit_none OS_ObjectIdTransactionCancel_def ConvertToken_invalid live_def)
qed

lemma TimeBaseLock_frame [simp]:
  "OS_common_table (TimeBaseLock b tk s) = OS_common_table s"
  "OS_timebase_table (TimeBaseLock b tk s) = OS_timebase_table s"
  "OS_timecb_table (TimeBaseLock b tk s) = OS_timecb_table s"
  "running (TimeBaseLock b tk s) = running s"
  "live t i (TimeBaseLock b tk s) = live t i s"
  by (simp_all add: TimeBaseLock_def)

lemma upd_timebase_frame [simp]:
  "OS_common_table (upd_timebase j f s) = OS_common_table s"
  "OS_timecb_table (upd_timebase j f s) = OS_timecb_table s"
  "OS_timebase_table (upd_timebase j f s) = (OS_timebase_table s)(j := f (OS_timebase_table s j))"
  "running (upd_timebase j f s) = running s"
  "live t i (upd_timebase j f s) = live t i s"
  by (simp_all add: upd_timebase_def running_def live_def)

lemma chain_frame [simp]:
  "chain (TimeBaseLock b tk s) ids stop = chain s ids stop"
  "chain (upd_timebase j f s) ids stop = chain s ids stop"
  by (induction ids rule: induct_list012) simp_all

lemma chain_hd_live: "chain s (i # ids) stop \<Longrightarrow> live OS_OBJECT_TYPE_OS_TIMECB i s"
  by (cases ids) simp_all

text \<open>C11: A tick of a time base reaches every timer of its ring, once each and in ring order, and the
  loop over the ring ends; the free-running time moves on by the tick and the thread goes on.\<close>

theorem process_tick_visits_all:
  assumes "running s" "live OS_OBJECT_TYPE_OS_TIMEBASE i s" "ring (unat (index_of i)) ids s"
    and "obj_type token = OS_OBJECT_TYPE_OS_TIMEBASE" "obj_idx token = index_of i"
  shows "process_tick env b i token tick s = Some (True, TimeBaseUnlock b token
    (fold (\<lambda>k. timer_tick b tick (timer_token k)) ids
      (upd_timebase (unat (index_of i)) (\<lambda>tb. tb\<lparr>freerun_time := freerun_time tb + tick\<rparr>) (TimeBaseLock b token s))))"
proof -
  let ?j = "unat (index_of i)"
  let ?s2 = "upd_timebase ?j (\<lambda>tb. tb\<lparr>freerun_time := freerun_time tb + tick\<rparr>) (TimeBaseLock b token s)"
  have act: "active_id (OS_common_table s (OS_ObjectIdGlobalFromToken token)) = i"
    using assms(2,4,5) by (simp add: live_def OS_ObjectIdGlobalFromToken_def record_of_def)
  have run: "running ?s2" using assms(1) by simp
  show ?thesis
  proof (cases ids)
    case Nil
    with assms(3) have f: "first_cb (OS_timebase_table s ?j) = 0" by (simp add: ring_def)
    have "\<not> live OS_OBJECT_TYPE_OS_TIMECB 0 ?s2" by (simp add: live_def id_of_type_def OS_ObjectIdToType_Impl_def)
    then obtain tk where "OS_ObjectIdGetById env OS_LOCK_MODE_NONE OS_OBJECT_TYPE_OS_TIMECB 0 ?s2 = (OS_ERR_INVALID_ID, tk, ?s2)"
      using run by (elim GetById_none_dead[rotated 2]) (simp_all add: OS_GetMaxForObjectType_def os_max_defs)
    with Nil f act assms(5) show ?thesis by (simp add: process_tick_def Let_def)
  next
    case (Cons k ks)
    with assms(3) have f: "first_cb (OS_timebase_table s ?j) = k" and c: "chain s (k # ks) k" "k \<notin> set ks" by (auto simp: ring_def)
    have "callback_ring env b ?j tick (timer_token k) ?s2 = Some (fold (\<lambda>i. timer_tick b tick (timer_token i)) (k # ks) ?s2)"
      using run c f chain_hd_live[OF c(1)] by (intro callback_ring_chain) simp_all
    with GetById_none[OF run, of OS_OBJECT_TYPE_OS_TIMECB k env] chain_hd_live[OF c(1)] f act assms(5) Cons show ?thesis
      by (simp add: process_tick_def Let_def)
  qed
qed


subsection \<open>A time base in use\<close>

text \<open>
  An exclusive request for an object with references, while the other tasks leave this layer alone
  and, when they see the record reserved, act on their own state by \<open>h\<close>: the request gives up after
  four waits, and the other tasks saw the record reserved each time.
\<close>

lemma Wait_acquired:
  assumes "lock_free t s" "\<And>x. OS_common_table x = OS_common_table s \<Longrightarrow> other_tasks env t n x = x\<lparr>impl := h (impl x)\<rparr>" "obj_type tk = t"
  shows "OS_WaitForStateChange env tk n (acquired t k s) = acquired t k (s\<lparr>impl := h (impl s)\<rparr>)"
proof -
  let ?x = "OS_Unlock_Global_Impl t (upd_objtype t (\<lambda>ob. ob\<lparr>owner_key := 0\<rparr>) (acquired t k s))"
  have x: "OS_common_table ?x = OS_common_table s" by (simp add: OS_Unlock_Global_Impl_def upd_objtype_def)
  have e: "OS_WaitForStateChange env tk n (acquired t k s)
      = upd_objtype t (\<lambda>ob. ob\<lparr>owner_key := owner_key (objtype_state t (acquired t k s))\<rparr>) (OS_Lock_Global_Impl t (?x\<lparr>impl := h (impl ?x)\<rparr>))"
    using assms(2)[OF x] assms(3) by (simp add: OS_WaitForStateChange_def OS_WaitForStateChange_Impl_def Let_def)
  show ?thesis
    using assms(1) unfolding e
    by (intro os_state.equality)
      (auto simp: OS_Lock_Global_Impl_def OS_Unlock_Global_Impl_def acquired_def upd_objtype_def objtype_state_def lock_free_def Let_def)
qed

lemma GetById_in_use:
  assumes "running s" "live t i s" "lock_free t s" "refcount (OS_common_table s (record_of t (index_of i))) \<noteq> 0"
    and "\<And>n x. active_id (OS_common_table x (record_of t (index_of i))) = OS_OBJECT_ID_RESERVED
      \<Longrightarrow> other_tasks env t n x = x\<lparr>impl := h (impl x)\<rparr>"
  obtains token where "OS_ObjectIdGetById env OS_LOCK_MODE_EXCLUSIVE t i s
    = (OS_ERR_OBJECT_IN_USE, token, ticked t (s\<lparr>impl := (h ^^ 4) (impl s)\<rparr>))"
proof -
  let ?X = OS_LOCK_MODE_EXCLUSIVE and ?r = "record_of t (index_of i)"
  from assms(2) have id: "id_of_type t i" and m: "OS_GetMaxForObjectType t \<noteq> 0" and act: "active_id (OS_common_table s ?r) = i"
    by (auto simp: live_def id_of_type_def)
  note f = id_of_type_facts[OF id]
  from TransactionInit_locked[OF assms(1) m assms(3), of ?X env] obtain k where k: "k AND 0xFF000000 = 0x4D000000"
    and init: "OS_ObjectIdTransactionInit env ?X t s = (OS_SUCCESS, tok ?X k t (- 1) 0, acquired t k s)" by auto
  let ?tk = "tok ?X k t (index_of i) i"
  define z where "z a = upd_common ?r (\<lambda>ob. ob\<lparr>active_id := OS_OBJECT_ID_RESERVED\<rparr>) (s\<lparr>impl := a\<rparr>)" for a
  have z: "active_id (OS_common_table (z a) ?r) = OS_OBJECT_ID_RESERVED" "refcount (OS_common_table (z a) ?r) \<noteq> 0"
    "lock_free t (z a)" "impl (z a) = a" "(z a)\<lparr>impl := b\<rparr> = z b" for a b
    using assms(3,4) by (simp_all add: z_def impl_upd_common)
  have r: "OS_ObjectIdGlobalFromToken ?tk = ?r" by (simp add: OS_ObjectIdGlobalFromToken_def record_of_def)
  have first: "ConvertToken_body ?tk i (acquired t k s) = (Convert_contention, OS_OBJECT_ID_RESERVED, acquired t k (z (impl s)))"
    using act f(3) assms(4) r by (simp add: ConvertToken_body_def Let_def z_def upd_common_acquired)
  have again: "ConvertToken_body ?tk OS_OBJECT_ID_RESERVED (acquired t k (z a)) = (Convert_contention, OS_OBJECT_ID_RESERVED, acquired t k (z a))" for a
    using r z by (simp add: ConvertToken_body_def Let_def)
  have wait: "OS_WaitForStateChange env ?tk n (acquired t k (z a)) = acquired t k (z (h a))" for n a
    using Wait_acquired[OF z(3), of a env n h ?tk k] assms(5) z by simp
  have loop: "ConvertToken_loop env ?tk i 0 (acquired t k s) = (OS_ERR_OBJECT_IN_USE, OS_OBJECT_ID_RESERVED, acquired t k (z ((h ^^ 4) (impl s))))"
    by (simp add: ConvertToken_loop.simps first again wait numeral_eq_Suc)
  let ?a = "(h ^^ 4) (impl s)"
  have o: "(OS_common_table s ?r)\<lparr>active_id := i\<rparr> = OS_common_table s ?r"
    using act by (intro OS_common_record.equality) simp_all
  have "upd_common ?r (\<lambda>ob. ob\<lparr>active_id := i\<rparr>) (z ?a) = s\<lparr>impl := ?a\<rparr>"
    using o by (intro os_state.equality) (simp_all add: z_def upd_common_def)
  then have restore: "upd_common ?r (\<lambda>ob. ob\<lparr>active_id := i\<rparr>) (acquired t k (z ?a)) = acquired t k (s\<lparr>impl := ?a\<rparr>)"
    by (simp add: upd_common_acquired)
  have "OS_ObjectIdConvertToken env ?tk (acquired t k s) = (OS_ERR_OBJECT_IN_USE, ?tk, acquired t k (s\<lparr>impl := ?a\<rparr>))"
    using f(1) loop restore r by (simp add: OS_ObjectIdConvertToken_def Let_def)
  moreover have "OS_ObjectIdTransactionCancel ?tk (acquired t k (s\<lparr>impl := ?a\<rparr>)) = (tok OS_LOCK_MODE_NONE 0 t (index_of i) i, ticked t (s\<lparr>impl := ?a\<rparr>))"
    using assms(3) k f(4) by (intro TransactionCancel_acquired) simp_all
  ultimately show thesis using that init f(7) by (simp add: OS_ObjectIdGetById_def)
qed

lemma process_tick_mismatch:
  assumes "active_id (OS_common_table x (OS_ObjectIdGlobalFromToken token)) \<noteq> i"
  shows "map_option fst (process_tick env b i token tick x) = Some False"
  using assms by (simp add: process_tick_def Let_def)

text \<open>C30: Deleting a time base that has timers is refused, as it should be, but its servicing thread does not
  survive the attempt: while the deletion waits for the references to go away the record is
  reserved, and a tick in that time makes the thread take the time base for deleted and end. The
  time base still exists afterwards, with its timers, and is never serviced again. (The other tasks
  record here, each time the deletion waits, whether the thread would go on after a tick.)\<close>

theorem OS_TimeBaseDelete_refused_ends_thread:
  assumes "running s" "live OS_OBJECT_TYPE_OS_TIMEBASE i s" "lock_free OS_OBJECT_TYPE_OS_TIMEBASE s"
    and "refcount (OS_common_table s (record_of OS_OBJECT_TYPE_OS_TIMEBASE (index_of i))) \<noteq> 0"
    and "obj_type token = OS_OBJECT_TYPE_OS_TIMEBASE" "obj_idx token = index_of i" "\<not> timer_context env s"
    and "\<forall>n x. other_tasks env OS_OBJECT_TYPE_OS_TIMEBASE n x
      = x\<lparr>impl := impl x @ [map_option fst (process_tick env' b' i token tick x)]\<rparr>"
  shows "\<exists>s'. OS_TimeBaseDelete env b i s = (OS_ERR_OBJECT_IN_USE, s') \<and> live OS_OBJECT_TYPE_OS_TIMEBASE i s'
    \<and> impl s' = impl s @ replicate 4 (Some False)"
proof -
  let ?t = OS_OBJECT_TYPE_OS_TIMEBASE
  have r: "OS_ObjectIdGlobalFromToken token = record_of ?t (index_of i)"
    using assms(5,6) by (simp add: OS_ObjectIdGlobalFromToken_def record_of_def)
  have "i \<noteq> OS_OBJECT_ID_RESERVED" using assms(2) id_of_type_facts(3) by (auto simp: live_def)
  then have other: "other_tasks env ?t n x = x\<lparr>impl := impl x @ [Some False]\<rparr>"
    if "active_id (OS_common_table x (record_of ?t (index_of i))) = OS_OBJECT_ID_RESERVED" for n x
    using that assms(8) r process_tick_mismatch[of x token i env' b' tick] by simp
  obtain tk where "OS_ObjectIdGetById env OS_LOCK_MODE_EXCLUSIVE ?t i s
      = (OS_ERR_OBJECT_IN_USE, tk, ticked ?t (s\<lparr>impl := ((\<lambda>a. a @ [Some False]) ^^ 4) (impl s)\<rparr>))"
    by (rule GetById_in_use[OF assms(1-4), where h = "\<lambda>a. a @ [Some False]"]) (erule other)
  with assms(2,7) show ?thesis by (simp add: OS_TimeBaseDelete_def numeral_eq_Suc live_def)
qed

subsection \<open>Creating a time base\<close>

definition timebase_filled :: "string \<Rightarrow> ptr \<times> u32 \<Rightarrow> OS_timebase_internal_record" where
  "timebase_filled nm x = zero_timebase\<lparr>timebase_name := strncpy_cleared nm OS_MAX_API_NAME, external_sync := fst x, accuracy_usec := snd x\<rparr>"

abbreviation TBT :: osal_objtype_t where "TBT \<equiv> OS_OBJECT_TYPE_OS_TIMEBASE"

interpretation tbt: object_table TBT Timebase_name timebase_fill OS_timebase_table timebase_filled
proof
  fix nm :: string and x :: "ptr \<times> u32" and token :: OS_object_token and s :: "'i os_state" and p
  show "length nm < OS_MAX_API_NAME \<Longrightarrow> deref_name (timebase_fill nm x token s) (Timebase_name (unat (obj_idx token))) = nm"
    by (cases x) (simp add: timebase_fill_def upd_timebase_def Let_def strncpy_cleared_fits)
  show "name_owner p \<noteq> (TBT, unat (obj_idx token)) \<Longrightarrow> deref_name (timebase_fill nm x token s) p = deref_name s p"
    by (cases p; cases x) (auto simp: timebase_fill_def upd_timebase_def Let_def)
qed (simp_all add: timebase_fill_def timebase_filled_def upd_timebase_def Let_def OS_GetMaxForObjectType_def os_max_defs case_prod_beta)

lemma TimeBaseCreate_shape:
  assumes "length nm < OS_MAX_API_NAME" "\<not> timer_context env s" "OS_ObjectIdAllocateNew env TBT (Some nm) s = (rc, tk, s1)"
    and "\<And>token x. fst (OS_TimeBaseCreate_Impl b token x) = OS_SUCCESS"
  shows "\<exists>sync' a. OS_TimeBaseCreate env b True (Some nm) sync s
    = create_object env TBT nm (timebase_fill nm (sync', if sync = None then MicroSecPerTick (OS_SharedGlobalVars s1) else 0))
        (\<lambda>_ _. (OS_SUCCESS, a)) s"
proof -
  let ?acc = "if sync = None then MicroSecPerTick (OS_SharedGlobalVars s1) else 0"
  obtain sync' a where "OS_TimeBaseCreate_Impl b tk (timebase_fill nm (sync, ?acc) tk s1) = (OS_SUCCESS, sync', a)"
    using assms(4) by (metis prod.collapse)
  moreover have "upd_timebase (unat (obj_idx tk)) (\<lambda>tb. tb\<lparr>external_sync := sync'\<rparr>) (timebase_fill nm (sync, ?acc) tk s1)
      = timebase_fill nm (sync', ?acc) tk s1" by (simp add: timebase_fill_def upd_timebase_def Let_def zero_timebase_def)
  ultimately have "OS_TimeBaseCreate env b True (Some nm) sync s
    = create_object env TBT nm (timebase_fill nm (sync', ?acc)) (\<lambda>_ _. (OS_SUCCESS, a)) s"
    using assms(1-3) by (simp add: OS_TimeBaseCreate_def create_object_def LENGTHCHECK_def)
  then show ?thesis by blast
qed

text \<open>A new time base is found by its name, has no timers and no elapsed time, and claims the accuracy
  of one system tick, or none when it is driven by an external sync function; until it is configured and
  for as long as no timer is attached it can be deleted again, which restores the registry.\<close>

theorem OS_TimeBaseCreate_lifecycle:
  assumes "idle s" "event_ok env s" "length nm < OS_MAX_API_NAME"
    and "\<exists>k < OS_GetMaxForObjectType TBT. registry s (TBT, k) = None" "\<nexists>i. registered_name s TBT nm i"
    and "\<forall>a. OS_TaskGetId_Impl env a = self" "OS_ObjectIdToType_Impl self \<noteq> OS_OBJECT_TYPE_OS_TIMEBASE"
    and "\<And>token x. fst (OS_TimeBaseCreate_Impl b token x) = OS_SUCCESS"
    and "\<And>token x. fst (OS_TimeBaseDelete_Impl b token x) = OS_SUCCESS"
  shows "\<exists>i s1 s2 tb. OS_TimeBaseCreate env b True (Some nm) sync s = (OS_SUCCESS, Some i, s1)
    \<and> live TBT i s1 \<and> OS_TimeBaseGetIdByName env True (Some nm) s1 = (OS_SUCCESS, Some i, ticked TBT s1)
    \<and> tb = OS_timebase_table s1 (unat (index_of i)) \<and> ring (unat (index_of i)) [] s1 \<and> freerun_time tb = 0
    \<and> accuracy_usec tb = (if sync = None then MicroSecPerTick (OS_SharedGlobalVars s) else 0)
    \<and> OS_TimeBaseDelete env b i s1 = (OS_SUCCESS, s2) \<and> registry s2 = registry s \<and> idle s2"
proof -
  have ctx: "\<not> timer_context env x" for x :: "'a os_state" using assms(6,7) by (simp add: timer_context_def)
  obtain k0 where k0: "free_slot TBT s k0" using assms(4) by (auto simp: free_slot_registry)
  have nn: "\<not> has_name TBT nm s k" for k using assms(5) by (auto simp: has_name_registry registered_name_def)
  obtain j where al: "OS_ObjectIdAllocateNew env TBT (Some nm) s
      = (OS_SUCCESS, tok OS_LOCK_MODE_EXCLUSIVE 0 TBT (index_of j) j, reserved_state env TBT j s)"
    by (rule AllocateNew_ok[OF idleD(1)[OF assms(1)] idleD(3)[OF assms(1) tbt.objtype_supported] assms(2) k0, of "Some nm"])
      (use nn in \<open>auto simp: reserved_state_def\<close>)
  define acc where acc: "acc = (if sync = None then MicroSecPerTick (OS_SharedGlobalVars s) else 0)"
  have "OS_SharedGlobalVars (reserved_state env TBT j s) = OS_SharedGlobalVars s" by (simp add: reserved_state_def)
  with TimeBaseCreate_shape[OF assms(3) ctx al assms(8), of sync] obtain sync' a
    where c: "OS_TimeBaseCreate env b True (Some nm) sync s
      = create_object env TBT nm (timebase_fill nm (sync', acc)) (\<lambda>_ _. (OS_SUCCESS, a)) s" unfolding acc by (auto cong: if_cong)
  from tbt.create_succeeds[OF assms(1-5), of "\<lambda>_ _. (OS_SUCCESS, a)" "(sync', acc)"] obtain i s1
    where s1: "create_object env TBT nm (timebase_fill nm (sync', acc)) (\<lambda>_ _. (OS_SUCCESS, a)) s = (OS_SUCCESS, Some i, s1)"
      "idle s1" "live TBT i s1" "OS_timebase_table s1 = (OS_timebase_table s)(unat (index_of i) := timebase_filled nm (sync', acc))"
      "registry s (TBT, index_of i) = None" "registry s1 = (registry s)((TBT, index_of i) \<mapsto> (i, Some nm, OS_TaskGetId env s))"
      "\<And>j. registered_name s1 TBT nm j \<longleftrightarrow> j = i" by auto
  have d: "OS_TimeBaseDelete env b i s1 = delete_object env TBT (OS_TimeBaseDelete_Impl b) i s1"
    using ctx by (simp add: OS_TimeBaseDelete_def delete_object_def)
  obtain a' where del: "OS_TimeBaseDelete_Impl b (tok OS_LOCK_MODE_EXCLUSIVE 0 TBT (index_of i) i) (claimed_state TBT i s1) = (OS_SUCCESS, a')"
    using assms(9) by (metis prod.collapse)
  obtain s2 where s2: "delete_object env TBT (OS_TimeBaseDelete_Impl b) i s1 = (OS_SUCCESS, s2)"
    using delete_object_live[OF s1(2,3), of "OS_TimeBaseDelete_Impl b" OS_SUCCESS a' env] del by auto
  from tbt.delete_refines[OF s1(2) s2] s1 have "idle s2" "registry s2 = registry s" by auto
  with c s1 d s2 ctx acc assms(3) tbt.find_unique[OF s1(2) assms(3) s1(7), of env] show ?thesis
    by (intro exI[of _ i] exI[of _ s1] exI[of _ s2])
      (simp add: OS_TimeBaseGetIdByName_def LENGTHCHECK_def timebase_filled_def zero_timebase_def ring_def)
qed

text \<open>An implementation layer that always succeeds; a timer callback acts on its state by \<open>f\<close>.\<close>

definition example_timebase_impl :: "('i \<Rightarrow> 'i) \<Rightarrow> 'i timebase_impl" where
  "example_timebase_impl f = \<lparr>OS_TimeBaseCreate_Impl = (\<lambda>_ s. (OS_SUCCESS, Some 7, impl s)),
     OS_TimeBaseSet_Impl = (\<lambda>_ _ _ s. (OS_SUCCESS, 100, impl s)),
     OS_TimeBaseDelete_Impl = (\<lambda>_ s. (OS_SUCCESS, impl s)),
     OS_TimeBaseGetInfo_Impl = (\<lambda>_ prop _. (OS_SUCCESS, prop)),
     OS_TimeBaseLock_Impl = (\<lambda>_ a. a), OS_TimeBaseUnlock_Impl = (\<lambda>_ a. a), register_handler = (\<lambda>_ a. a),
     yield_cpu = (\<lambda>s. s), call_sync = (\<lambda>_ _ s. (1, s)), call_timer = (\<lambda>_ _ _. f)\<rparr>"

theorem OS_TimeBaseCreate_lifecycle_witness:
  "\<exists>i s1 s2 tb. OS_TimeBaseCreate quiet_env (example_timebase_impl Suc) True (Some ''TB'') None (fresh_state 0) = (OS_SUCCESS, Some i, s1)
    \<and> live TBT i s1 \<and> OS_TimeBaseGetIdByName quiet_env True (Some ''TB'') s1 = (OS_SUCCESS, Some i, ticked TBT s1)
    \<and> tb = OS_timebase_table s1 (unat (index_of i)) \<and> ring (unat (index_of i)) [] s1 \<and> freerun_time tb = 0
    \<and> accuracy_usec tb = (if None = (None :: ptr) then MicroSecPerTick (OS_SharedGlobalVars (fresh_state (0 :: nat))) else 0)
    \<and> OS_TimeBaseDelete quiet_env (example_timebase_impl Suc) i s1 = (OS_SUCCESS, s2)
    \<and> registry s2 = registry (fresh_state (0 :: nat)) \<and> idle s2"
  by (rule OS_TimeBaseCreate_lifecycle[where self = 0])
    (simp_all add: OS_MAX_API_NAME_def example_timebase_impl_def OS_GetMaxForObjectType_def os_max_defs exI[of _ 0]
      quiet_env_def OS_ObjectIdToType_Impl_def)

subsection \<open>Instances\<close>

text \<open>A timer with a callback, an interval of ten and five to wait: a tick of eighteen runs it twice.\<close>

definition example_timer :: "u32 \<Rightarrow> u32 \<Rightarrow> OS_timecb_internal_record" where
  "example_timer wait interval = zero_timecb\<lparr>callback_ptr := Some 3, wait_time := wait, interval_time := interval\<rparr>"

lemma example_facts [simp]:
  "call_timer (example_timebase_impl g) f i p = g" "impl (fresh_state x) = x" "index_of 0 = 0"
  by (simp_all add: example_timebase_impl_def fresh_state_def boot_state_def index_of_def OS_ObjectIdToSerialNumber_Impl_def)

theorem timer_tick_periodic_witness:
  "let s = (fresh_state (0 :: nat))\<lparr>OS_timecb_table := (\<lambda>_. example_timer 5 10)\<rparr>;
       s' = timer_tick (example_timebase_impl Suc) 18 (timer_token 0) s
   in impl s' = 2 \<and> sint (wait_time (OS_timecb_table s' 0)) = 7"
proof -
  let ?s = "(fresh_state (0 :: nat))\<lparr>OS_timecb_table := (\<lambda>_. example_timer 5 10)\<rparr>"
  have "expirations 10 (- 13) = 2" "(g ^^ 2) a = g (g a)" for g and a :: nat
    by (simp_all add: expirations_def) (simp add: numeral_2_eq_2)
  then show ?thesis
    using timer_tick_periodic[where s = ?s and tk = "timer_token 0" and f = 3 and tick = 18 and b = "example_timebase_impl Suc", OF refl _ _ _ _ refl refl refl refl]
    by (simp add: example_timer_def Let_def)
qed

theorem timer_tick_oneshot_witness:
  "let s = (fresh_state (0 :: nat))\<lparr>OS_timecb_table := (\<lambda>_. example_timer 5 0)\<rparr>;
       s' = timer_tick (example_timebase_impl Suc) 18 (timer_token 0) s
   in impl s' = 1 \<and> sint (wait_time (OS_timecb_table s' 0)) = 0"
proof -
  let ?s = "(fresh_state (0 :: nat))\<lparr>OS_timecb_table := (\<lambda>_. example_timer 5 0)\<rparr>"
  show ?thesis
    using timer_tick_oneshot[where s = ?s and tk = "timer_token 0" and f = 3 and tick = 18 and b = "example_timebase_impl Suc", OF refl _ _ _ _ refl refl refl]
    by (simp add: example_timer_def Let_def)
qed

text \<open>Time base 0x80001 with the timers 0x90001 and 0x90002, each of which holds a reference to it.\<close>

definition example_ring :: "'i \<Rightarrow> 'i os_state" where
  "example_ring a = (fresh_state a)\<lparr>OS_common_table := (\<lambda>_. zero_common_record)
       (record_of TBT 1 := zero_common_record\<lparr>active_id := 0x80001, refcount := 2\<rparr>,
        record_of OS_OBJECT_TYPE_OS_TIMECB 1 := zero_common_record\<lparr>active_id := 0x90001\<rparr>,
        record_of OS_OBJECT_TYPE_OS_TIMECB 2 := zero_common_record\<lparr>active_id := 0x90002\<rparr>),
     OS_timebase_table := (\<lambda>_. zero_timebase)(1 := zero_timebase\<lparr>first_cb := 0x90001\<rparr>),
     OS_timecb_table := (\<lambda>_. zero_timecb)(1 := (example_timer 5 10)\<lparr>next_cb := 0x90002\<rparr>,
                                           2 := (example_timer 20 30)\<lparr>next_cb := 0x90001\<rparr>)\<rparr>"

lemma example_index [simp]: "index_of 0x80001 = 1" "index_of 0x90001 = 1" "index_of 0x90002 = 2"
  by (simp_all add: index_of_def OS_ObjectIdToSerialNumber_Impl_def OS_ObjectIdToType_Impl_def OS_GetMaxForObjectType_def os_max_defs)

lemma example_ring_facts:
  "running (example_ring a)" "live TBT 0x80001 (example_ring a)" "ring 1 [0x90001, 0x90002] (example_ring a)"
  "lock_free TBT (example_ring a)" "impl (example_ring a) = a"
  "refcount (OS_common_table (example_ring a) (record_of TBT 1)) = 2"
proof -
  have r: "record_of TBT 1 \<noteq> record_of 9 1" "record_of TBT 1 \<noteq> record_of 9 2" "record_of 9 1 \<noteq> record_of 9 2"
    by (simp_all add: record_of_def OS_GetBaseForObjectType_def os_max_defs os_base_defs)
  show "running (example_ring a)" "lock_free TBT (example_ring a)" "impl (example_ring a) = a"
    by (simp_all add: example_ring_def fresh_state_def boot_state_def running_def lock_free_def objtype_state_def zero_objtype_state_def)
  show "live TBT 0x80001 (example_ring a)" "refcount (OS_common_table (example_ring a) (record_of TBT 1)) = 2"
    using r by (simp_all add: live_def id_of_type_def example_ring_def OS_ObjectIdToType_Impl_def OS_GetMaxForObjectType_def os_max_defs)
  show "ring 1 [0x90001, 0x90002] (example_ring a)"
    using r by (simp add: ring_def live_def id_of_type_def example_ring_def OS_ObjectIdToType_Impl_def OS_GetMaxForObjectType_def os_max_defs)
qed

theorem process_tick_visits_all_witness:
  "\<exists>s'. process_tick quiet_env (example_timebase_impl Suc) 0x80001 (tok OS_LOCK_MODE_NONE 0 TBT 1 0x80001) 18 (example_ring 0) = Some (True, s')
    \<and> freerun_time (OS_timebase_table s' 1) = 18"
  using process_tick_visits_all[where s = "example_ring 0" and i = "0x80001" and ids = "[0x90001, 0x90002]" and env = quiet_env
      and token = "tok OS_LOCK_MODE_NONE 0 TBT 1 0x80001" and tick = 18 and b = "example_timebase_impl Suc"] example_ring_facts[of "0 :: nat"]
  by (simp add: TimeBaseUnlock_def) (simp add: example_ring_def zero_timebase_def)

theorem OS_TimeBaseDelete_refused_ends_thread_witness:
  "let b = example_timebase_impl id;
       env = quiet_env\<lparr>other_tasks := (\<lambda>t n x. x\<lparr>impl := impl x
          @ [map_option fst (process_tick quiet_env b 0x80001 (tok OS_LOCK_MODE_NONE 0 TBT 1 0x80001) 18 x)]\<rparr>)\<rparr>
   in \<exists>s'. OS_TimeBaseDelete env b 0x80001 (example_ring []) = (OS_ERR_OBJECT_IN_USE, s') \<and> live TBT 0x80001 s'
     \<and> impl s' = [Some False, Some False, Some False, Some False]"
proof -
  let ?b = "example_timebase_impl id" and ?token = "tok OS_LOCK_MODE_NONE 0 TBT 1 0x80001"
  let ?env = "quiet_env\<lparr>other_tasks := (\<lambda>t n x. x\<lparr>impl := impl x @ [map_option fst (process_tick quiet_env ?b 0x80001 ?token 18 x)]\<rparr>)\<rparr>"
  have "\<not> timer_context ?env (example_ring [])"
    by (simp add: timer_context_def quiet_env_def OS_ObjectIdToType_Impl_def)
  then show ?thesis
    using OS_TimeBaseDelete_refused_ends_thread[where s = "example_ring []" and i = "0x80001" and env = ?env and env' = quiet_env
        and token = ?token and tick = 18 and b = ?b and b' = ?b] example_ring_facts[of "[] :: bool option list"]
    by (simp add: numeral_eq_Suc)
qed

text \<open>The conversion of a timeout from milliseconds rounds up to whole system ticks, and is refused
  exactly when the number of ticks does not fit a positive \<^verbatim>\<open>int\<close>.\<close>

theorem OS_Milli2Ticks_correct:
  "\<exists>n. uint ms * uint (TicksPerSecond (OS_SharedGlobalVars s)) \<le> 1000 * n
    \<and> 1000 * n < uint ms * uint (TicksPerSecond (OS_SharedGlobalVars s)) + 1000
    \<and> OS_Milli2Ticks ms s = (if n < 2 ^ 31 then (OS_SUCCESS, n) else (OS_ERROR, 0))"
proof -
  let ?t = "TicksPerSecond (OS_SharedGlobalVars s)"
  let ?p = "uint ms * uint ?t" and ?w = "ucast ms * ucast ?t + 999 :: u64"
  have b: "0 \<le> uint ms" "0 \<le> uint ?t" "uint ms \<le> 2 ^ 32 - 1" "uint ?t \<le> 2 ^ 32 - 1"
    using uint_lt2p[of ms] uint_lt2p[of ?t] by simp_all
  have m: "0 \<le> ?p" "?p \<le> (2 ^ 32 - 1) * (2 ^ 32 - 1)"
    by (rule mult_nonneg_nonneg[OF b(1,2)]) (rule mult_mono[OF b(3,4) _ b(2)], simp)
  have u: "uint (ucast v :: u64) = uint v" for v :: u32 by (rule uint_up_ucast) (simp add: is_up)
  have "uint ?w = ((?p mod 2 ^ 64) + 999) mod 2 ^ 64" by (simp add: uint_word_ariths u)
  also have "\<dots> = ?p + 999" using m by simp
  finally have "uint ?w = ?p + 999" .
  then have w: "uint (?w div 1000) = (?p + 999) div 1000" by (simp add: uint_div)
  then have "?w div 1000 \<le> 0x7FFFFFFF \<longleftrightarrow> (?p + 999) div 1000 < 2 ^ 31" by (auto simp: word_le_def)
  with w show ?thesis by (intro exI[of _ "(?p + 999) div 1000"]) (auto simp: OS_Milli2Ticks_def Let_def)
qed

end
