(* ===== verification/Timer.thy ===== *)
theory Timer
  imports Timebase
begin

unbundle bit_operations_syntax

text \<open>
  Timers, \<^verbatim>\<open>src/src/os/shared/src/osapi-time.c\<close>. A timer is a callback that is linked
  into the ring of a time base; it holds a reference to the time base for as long as it exists.
  The two parts of \<^verbatim>\<open>OS_DoTimerAdd\<close> and \<^verbatim>\<open>OS_TimerDelete\<close> that run under the
  lock of the time base are definitions of their own, \<open>timer_link\<close> and \<open>timer_unlink\<close>.
\<close>

record OS_timer_prop =
  timer_prop_name :: string
  timer_prop_creator :: osal_id_t
  timer_prop_start_time :: u32
  timer_prop_interval_time :: u32
  timer_prop_accuracy :: u32

definition TIMECB_FLAG_DEDICATED_TIMEBASE :: u32 where "TIMECB_FLAG_DEDICATED_TIMEBASE = 1"

definition OS_TimerCbAPI_Init :: "'i os_state \<Rightarrow> status \<times> 'i os_state" where
  "OS_TimerCbAPI_Init s = (OS_SUCCESS, s\<lparr>OS_timecb_table := (\<lambda>_. zero_timecb)\<rparr>)"

definition timer_fill :: "string \<Rightarrow> OS_object_token \<Rightarrow> 'i os_state \<Rightarrow> 'i os_state" where
  "timer_fill name token s =
    (let j = unat (obj_idx token);
         s1 = s\<lparr>OS_timecb_table := (OS_timecb_table s)
                  (j := zero_timecb\<lparr>timer_name := strncpy_cleared name OS_MAX_API_NAME\<rparr>)\<rparr>
     in upd_common (OS_ObjectIdGlobalFromToken token) (\<lambda>ob. ob\<lparr>name_entry := Some (Timer_name j)\<rparr>) s1)"

text \<open>Put a new timer into the ring: before the first timer, whose place it takes.\<close>

definition timer_link :: "'i idmap_env \<Rightarrow> OS_object_token \<Rightarrow> OS_object_token \<Rightarrow> 'i os_state \<Rightarrow> 'i os_state" where
  "timer_link env tb_token timecb_token s =
    (let jb = unat (obj_idx tb_token);
         j = unat (obj_idx timecb_token);
         self = obj_id timecb_token
     in case OS_ObjectIdGetById env OS_LOCK_MODE_NONE OS_OBJECT_TYPE_OS_TIMECB (first_cb (OS_timebase_table s jb)) s of
          (rc, listcb_token, s1) \<Rightarrow>
            let s2 =
              (if rc = OS_SUCCESS then
                 let jl = unat (obj_idx listcb_token);
                     s11 = upd_timecb j (\<lambda>cb. cb\<lparr>next_cb := obj_id listcb_token,
                                                 prev_cb := prev_cb (OS_timecb_table s1 jl)\<rparr>) s1
                 in case OS_ObjectIdGetById env OS_LOCK_MODE_NONE OS_OBJECT_TYPE_OS_TIMECB
                           (prev_cb (OS_timecb_table s11 j)) s11 of
                      (rc', listcb_token', s12) \<Rightarrow>
                        (if rc' = OS_SUCCESS
                         then upd_timecb (unat (obj_idx listcb_token')) (\<lambda>cb. cb\<lparr>next_cb := self\<rparr>)
                                (upd_timecb jl (\<lambda>cb. cb\<lparr>prev_cb := self\<rparr>) s12)
                         else s12)
               else s1)
            in upd_timebase jb (\<lambda>tb. tb\<lparr>first_cb := self\<rparr>) s2)"

text \<open>
  The record of a new timer before it is linked; the reference to the time base that the caller
  holds with \<open>timebase_token\<close> passes to the record.
\<close>

definition timer_init ::
    "string \<Rightarrow> OS_object_token \<Rightarrow> OS_object_token \<Rightarrow> ptr \<Rightarrow> ptr \<Rightarrow> u32 \<Rightarrow> 'i os_state \<Rightarrow> 'i os_state" where
  "timer_init name timebase_tk timecb_token callback arg flags s =
     upd_timecb (unat (obj_idx timecb_token))
       (\<lambda>cb. cb\<lparr>timebase_token := timebase_tk, callback_ptr := callback, callback_arg := arg, timecb_flags := flags,
                prev_cb := obj_id timecb_token, next_cb := obj_id timecb_token\<rparr>)
       (timer_fill name timecb_token s)"

definition OS_DoTimerAdd ::
    "'i idmap_env \<Rightarrow> 'i timebase_impl \<Rightarrow> bool \<Rightarrow> string option \<Rightarrow> osal_id_t \<Rightarrow> ptr \<Rightarrow> ptr \<Rightarrow> u32 \<Rightarrow> 'i os_state
      \<Rightarrow> status \<times> osal_id_t option \<times> 'i os_state" where
  "OS_DoTimerAdd env b has_id name timebase_ref_id callback arg flags s =
    (if \<not> has_id then (OS_INVALID_POINTER, None, s)
     else
       case name of
         None \<Rightarrow> (OS_INVALID_POINTER, None, s)
       | Some nm \<Rightarrow>
           (if \<not> LENGTHCHECK nm OS_MAX_API_NAME then (OS_ERR_NAME_TOO_LONG, None, s)
            else if callback = None then (OS_INVALID_POINTER, None, s)
            else if timer_context env s then (OS_ERR_INCORRECT_OBJ_STATE, None, s)
            else
              case OS_ObjectIdGetById env OS_LOCK_MODE_REFCOUNT OS_OBJECT_TYPE_OS_TIMEBASE timebase_ref_id s of
                (return_code, tb_token, s1) \<Rightarrow>
                  (if return_code \<noteq> OS_SUCCESS then (return_code, None, s1)
                   else
                     case OS_ObjectIdAllocateNew env OS_OBJECT_TYPE_OS_TIMECB (Some nm) s1 of
                       (return_code, cb_token, s2) \<Rightarrow>
                         (if return_code = OS_SUCCESS then
                            let (tb_token', cb_timebase_token) = OS_ObjectIdTransferToken tb_token;
                                s3 = timer_init nm cb_timebase_token cb_token callback arg flags s2;
                                s4 = TimeBaseLock b tb_token' s3;
                                s5 = timer_link env tb_token' cb_token s4;
                                s6 = TimeBaseUnlock b tb_token' s5
                            in (case OS_ObjectIdFinalizeNew env return_code cb_token s6 of
                                  (st, i, token', s7) \<Rightarrow> (st, Some i, s7))
                          else (return_code, None, snd (OS_ObjectIdRelease env tb_token s2))))))"

definition OS_TimerAdd ::
    "'i idmap_env \<Rightarrow> 'i timebase_impl \<Rightarrow> bool \<Rightarrow> string option \<Rightarrow> osal_id_t \<Rightarrow> ptr \<Rightarrow> ptr \<Rightarrow> 'i os_state
      \<Rightarrow> status \<times> osal_id_t option \<times> 'i os_state" where
  "OS_TimerAdd env b has_id name timebase_id callback arg s =
    OS_DoTimerAdd env b has_id name timebase_id callback arg 0 s"

text \<open>
  A simple callback is wrapped: its address travels as the argument of a callback of this file.
  Calling through a null pointer is \<open>None\<close>.
\<close>

definition OS_Timer_NoArgCallback :: "(addr \<Rightarrow> osal_id_t \<Rightarrow> 'i \<Rightarrow> 'i) \<Rightarrow> osal_id_t \<Rightarrow> ptr \<Rightarrow> 'i \<Rightarrow> 'i option" where
  "OS_Timer_NoArgCallback call_simple objid arg a = (case arg of None \<Rightarrow> None | Some f \<Rightarrow> Some (call_simple f objid a))"

text \<open>\<open>noarg\<close> is the address of \<^verbatim>\<open>OS_Timer_NoArgCallback\<close>; the third component of the result is the clock accuracy.\<close>

definition OS_TimerCreate ::
    "'i idmap_env \<Rightarrow> 'i timebase_impl \<Rightarrow> addr \<Rightarrow> bool \<Rightarrow> string option \<Rightarrow> bool \<Rightarrow> ptr \<Rightarrow> 'i os_state
      \<Rightarrow> status \<times> osal_id_t option \<times> u32 option \<times> 'i os_state" where
  "OS_TimerCreate env b noarg has_id name has_accuracy callback s =
    (if \<not> has_id then (OS_INVALID_POINTER, None, None, s)
     else
       case name of
         None \<Rightarrow> (OS_INVALID_POINTER, None, None, s)
       | Some nm \<Rightarrow>
           (if \<not> LENGTHCHECK nm OS_MAX_API_NAME then (OS_ERR_NAME_TOO_LONG, None, None, s)
            else if \<not> has_accuracy then (OS_INVALID_POINTER, None, None, s)
            else if callback = None then (OS_INVALID_POINTER, None, None, s)
            else
              case OS_TimeBaseCreate env b True (Some nm) None s of
                (return_code, tb, s1) \<Rightarrow>
                  (if return_code \<noteq> OS_SUCCESS then (return_code, None, None, s1)
                   else
                     case OS_DoTimerAdd env b True (Some nm) (the tb) (Some noarg) callback TIMECB_FLAG_DEDICATED_TIMEBASE s1 of
                       (return_code, i, s2) \<Rightarrow>
                         (if return_code \<noteq> OS_SUCCESS
                          then (return_code, i, None, snd (OS_TimeBaseDelete env b (the tb) s2))
                          else (return_code, i, Some (MicroSecPerTick (OS_SharedGlobalVars s2)), s2)))))"

definition OS_TimerSet ::
    "'i idmap_env \<Rightarrow> 'i timebase_impl \<Rightarrow> osal_id_t \<Rightarrow> u32 \<Rightarrow> u32 \<Rightarrow> 'i os_state \<Rightarrow> status \<times> 'i os_state" where
  "OS_TimerSet env b timer_id start_time interval s =
    (if \<not> start_time < 0xFFFFFFFF div 2 then (OS_TIMER_ERR_INVALID_ARGS, s)
     else if \<not> interval < 0xFFFFFFFF div 2 then (OS_TIMER_ERR_INVALID_ARGS, s)
     else if \<not> (start_time \<noteq> 0 \<or> interval \<noteq> 0) then (OS_TIMER_ERR_INVALID_ARGS, s)
     else if timer_context env s then (OS_ERR_INCORRECT_OBJ_STATE, s)
     else
       case OS_ObjectIdGetById env OS_LOCK_MODE_GLOBAL OS_OBJECT_TYPE_OS_TIMECB timer_id s of
         (return_code, token, s1) \<Rightarrow>
           (if return_code = OS_SUCCESS then
              let j = unat (obj_idx token);
                  tb_token = timebase_token (OS_timecb_table s1 j);
                  s2 = TimeBaseLock b tb_token s1;
                  dedicated = (if timecb_flags (OS_timecb_table s2 j) AND TIMECB_FLAG_DEDICATED_TIMEBASE \<noteq> 0
                               then obj_id tb_token else OS_OBJECT_ID_UNDEFINED);
                  s3 = upd_timecb j (\<lambda>cb. cb\<lparr>wait_time := start_time, interval_time := interval\<rparr>) s2;
                  s4 = TimeBaseUnlock b tb_token s3;
                  s5 = snd (OS_ObjectIdRelease env token s4)
              in if OS_ObjectIdDefined dedicated then OS_TimeBaseSet env b dedicated start_time interval s5
                 else (return_code, s5)
            else (return_code, s1)))"

text \<open>
  Take a timer out of its ring. Its own record is reserved by the deletion, so that a timer that is
  alone in the ring does not find itself as a neighbour.
\<close>

definition timer_unlink :: "'i idmap_env \<Rightarrow> OS_object_token \<Rightarrow> nat \<Rightarrow> 'i os_state \<Rightarrow> 'i os_state" where
  "timer_unlink env timecb_token jb s =
    (let j = unat (obj_idx timecb_token);
         self = obj_id timecb_token;
         s1 = (if first_cb (OS_timebase_table s jb) = self
               then if self = next_cb (OS_timecb_table s j)
                    then upd_timebase jb (\<lambda>tb. tb\<lparr>first_cb := OS_OBJECT_ID_UNDEFINED\<rparr>) s
                    else upd_timebase jb (\<lambda>tb. tb\<lparr>first_cb := next_cb (OS_timecb_table s j)\<rparr>) s
               else s);
         s2 = (case OS_ObjectIdGetById env OS_LOCK_MODE_NONE OS_OBJECT_TYPE_OS_TIMECB (prev_cb (OS_timecb_table s1 j)) s1 of
                 (rc, listcb_token, s11) \<Rightarrow>
                   (if rc = OS_SUCCESS
                    then upd_timecb (unat (obj_idx listcb_token)) (\<lambda>cb. cb\<lparr>next_cb := next_cb (OS_timecb_table s11 j)\<rparr>) s11
                    else s11));
         s3 = (case OS_ObjectIdGetById env OS_LOCK_MODE_NONE OS_OBJECT_TYPE_OS_TIMECB (next_cb (OS_timecb_table s2 j)) s2 of
                 (rc, listcb_token, s21) \<Rightarrow>
                   (if rc = OS_SUCCESS
                    then upd_timecb (unat (obj_idx listcb_token)) (\<lambda>cb. cb\<lparr>prev_cb := prev_cb (OS_timecb_table s21 j)\<rparr>) s21
                    else s21))
     in upd_timecb j (\<lambda>cb. cb\<lparr>next_cb := self, prev_cb := self\<rparr>) s3)"

definition OS_TimerDelete ::
    "'i idmap_env \<Rightarrow> 'i timebase_impl \<Rightarrow> osal_id_t \<Rightarrow> 'i os_state \<Rightarrow> status \<times> 'i os_state" where
  "OS_TimerDelete env b timer_id s =
    (if timer_context env s then (OS_ERR_INCORRECT_OBJ_STATE, s)
     else
       case OS_ObjectIdGetById env OS_LOCK_MODE_EXCLUSIVE OS_OBJECT_TYPE_OS_TIMECB timer_id s of
         (return_code, cb_token, s1) \<Rightarrow>
           (if return_code = OS_SUCCESS then
              let j = unat (obj_idx cb_token);
                  jb = unat (obj_idx (timebase_token (OS_timecb_table s1 j)));
                  (cb_timebase_token, tb_token) = OS_ObjectIdTransferToken (timebase_token (OS_timecb_table s1 j));
                  s2 = upd_timecb j (\<lambda>cb. cb\<lparr>timebase_token := cb_timebase_token\<rparr>) s1;
                  s3 = TimeBaseLock b cb_timebase_token s2;
                  dedicated = (if timecb_flags (OS_timecb_table s3 j) AND TIMECB_FLAG_DEDICATED_TIMEBASE \<noteq> 0
                               then obj_id cb_timebase_token else OS_OBJECT_ID_UNDEFINED);
                  s4 = timer_unlink env cb_token jb s3;
                  s5 = TimeBaseUnlock b cb_timebase_token s4;
                  (return_code, cb_token', s6) = OS_ObjectIdFinalizeDelete env return_code cb_token s5;
                  (tb_token', s7) = OS_ObjectIdRelease env tb_token s6
              in if return_code = OS_SUCCESS \<and> OS_ObjectIdDefined dedicated
                 then (return_code, snd (OS_TimeBaseDelete env b dedicated s7))
                 else (return_code, s7)
            else
              let (tb_token', s2) = OS_ObjectIdRelease env zero_token s1
              in (return_code, s2)))"

definition OS_TimerGetIdByName ::
    "'i idmap_env \<Rightarrow> bool \<Rightarrow> string option \<Rightarrow> 'i os_state \<Rightarrow> status \<times> osal_id_t option \<times> 'i os_state" where
  "OS_TimerGetIdByName env has_id name s =
    (if \<not> has_id then (OS_INVALID_POINTER, None, s)
     else if name = None then (OS_INVALID_POINTER, None, s)
     else if timer_context env s then (OS_ERR_INCORRECT_OBJ_STATE, None, s)
     else OS_ObjectIdFindByName env OS_OBJECT_TYPE_OS_TIMECB name s)"

definition OS_TimerGetInfo ::
    "'i idmap_env \<Rightarrow> osal_id_t \<Rightarrow> bool \<Rightarrow> 'i os_state \<Rightarrow> status \<times> OS_timer_prop option \<times> 'i os_state" where
  "OS_TimerGetInfo env timer_id has_prop s =
    (if \<not> has_prop then (OS_INVALID_POINTER, None, s)
     else if timer_context env s then (OS_ERR_INCORRECT_OBJ_STATE, None, s)
     else
       let prop = \<lparr>timer_prop_name = [], timer_prop_creator = 0, timer_prop_start_time = 0,
                   timer_prop_interval_time = 0, timer_prop_accuracy = 0\<rparr>
       in case OS_ObjectIdGetById env OS_LOCK_MODE_GLOBAL OS_OBJECT_TYPE_OS_TIMECB timer_id s of
            (return_code, token, s1) \<Rightarrow>
              (if return_code = OS_SUCCESS then
                 let rec = OS_common_table s1 (OS_ObjectIdGlobalFromToken token);
                     cb = OS_timecb_table s1 (unat (obj_idx token));
                     tb = OS_timebase_table s1 (unat (obj_idx (timebase_token cb)));
                     prop1 = prop\<lparr>timer_prop_name := strncpy_cleared (name_chars s1 (name_entry rec)) OS_MAX_API_NAME,
                                  timer_prop_creator := creator rec, timer_prop_interval_time := interval_time cb,
                                  timer_prop_accuracy := accuracy_usec tb\<rparr>
                 in (return_code, Some prop1, snd (OS_ObjectIdRelease env token s1))
               else (return_code, Some prop, s1)))"

subsection \<open>Rings as functions\<close>

text \<open>
  A ring, abstractly: a list of distinct IDs, the first of which is \<open>F\<close>; \<open>N\<close> leads from each
  to the next and from the last to the first, and \<open>P\<close> leads back.
\<close>

fun linked :: "(osal_id_t \<Rightarrow> osal_id_t) \<Rightarrow> osal_id_t list \<Rightarrow> osal_id_t \<Rightarrow> bool" where
  "linked N [] stop \<longleftrightarrow> True"
| "linked N [i] stop \<longleftrightarrow> N i = stop"
| "linked N (i # k # ids) stop \<longleftrightarrow> N i = k \<and> linked N (k # ids) stop"

definition links :: "(osal_id_t \<Rightarrow> osal_id_t) \<Rightarrow> (osal_id_t \<Rightarrow> osal_id_t) \<Rightarrow> osal_id_t \<Rightarrow> osal_id_t list \<Rightarrow> bool" where
  "links N P F ids \<longleftrightarrow> distinct ids \<and> F = (if ids = [] then OS_OBJECT_ID_UNDEFINED else hd ids)
     \<and> linked N ids F \<and> (\<forall>i\<in>set ids. P (N i) = i)"

lemma linksI:
  assumes "distinct ids" "F = (if ids = [] then OS_OBJECT_ID_UNDEFINED else hd ids)" "linked N ids F"
    and "\<And>i. i \<in> set ids \<Longrightarrow> P (N i) = i"
  shows "links N P F ids"
  using assms unfolding links_def by blast

lemma linked_append: "linked N (xs @ y # ys) stop \<longleftrightarrow> linked N xs y \<and> linked N (y # ys) stop"
  by (induction xs rule: induct_list012) auto

lemma linked_transfer: "linked N ids stop \<Longrightarrow> (\<And>i. i \<in> set ids \<Longrightarrow> N' i = N i) \<Longrightarrow> linked N' ids stop"
  by (induction ids rule: induct_list012) auto

lemma linked_image: "linked N ids stop \<Longrightarrow> i \<in> set ids \<Longrightarrow> N i \<in> insert stop (set ids)"
  by (induction ids rule: induct_list012) auto

lemma linked_Cons: "linked N (i # ids) stop \<longleftrightarrow> N i = hd (ids @ [stop]) \<and> linked N ids stop"
  by (cases ids) auto

lemma links_image: "links N P F ids \<Longrightarrow> i \<in> set ids \<Longrightarrow> N i \<in> set ids"
  using linked_image[of N ids F i] by (cases ids) (auto simp: links_def)

lemma links_cong:
  assumes "links N P F ids" "\<And>i. i \<in> set ids \<Longrightarrow> N' i = N i" "\<And>i. i \<in> set ids \<Longrightarrow> P' i = P i"
  shows "links N' P' F ids"
proof -
  have "linked N' ids F" by (rule linked_transfer[of N]) (use assms in \<open>auto simp: links_def\<close>)
  with assms links_image[OF assms(1)] show ?thesis by (simp add: links_def)
qed

lemma links_last:
  assumes "links N P F (xs @ [l])"
  shows "N l = F" "P F = l"
proof -
  from assms have "linked N (xs @ [l]) F" "P (N l) = l" by (auto simp: links_def)
  then show "N l = F" "P F = l" by (auto simp: linked_append)
qed

lemma links_insert:
  assumes "links N P F ids" "ids \<noteq> []" "new \<notin> set ids"
  shows "links (N(new := F, P F := new)) (P(F := new, new := P F)) new (new # ids)"
proof -
  obtain xs l where ids: "ids = xs @ [l]" using assms(2) by (metis append_butlast_last_id)
  note l = links_last[OF assms(1)[unfolded ids]]
  let ?N = "N(new := F, l := new)" and ?P = "P(F := new, new := l)"
  have d: "distinct (xs @ [l])" "F = hd (xs @ [l])" "linked N xs l" "\<forall>i\<in>set ids. P (N i) = i"
    using assms(1,2) ids by (auto simp: links_def linked_append)
  have F: "F \<in> set ids" using d(2) ids by (cases xs) auto
  have "linked ?N xs l" by (rule linked_transfer[OF d(3)]) (use d(1) assms(3) ids in auto)
  moreover have "hd (xs @ [l, new]) = hd (xs @ [l])" by (cases xs) simp_all
  ultimately have lk: "linked ?N (new # ids) new" using d(2) assms(3) ids by (auto simp: linked_Cons linked_append)
  have returns: "?P (?N i) = i" if "i \<in> set ids" for i
  proof (cases "i = l")
    case False
    with d(4) that l have "N i \<noteq> F" by metis
    moreover have "N i \<noteq> new" using links_image[OF assms(1) that] assms(3) by auto
    ultimately show ?thesis using False that d(4) assms(3) by auto
  qed simp
  have "new \<noteq> l" "F \<noteq> new" using assms(3) ids F by auto
  then have new: "?P (?N new) = new" by simp
  have "?P (?N i) = i" if "i \<in> set (new # ids)" for i
  proof (cases "i = new")
    case True
    show ?thesis unfolding True by (rule new)
  next
    case False
    with that have "i \<in> set ids" by simp
    then show ?thesis by (rule returns)
  qed
  with lk have "links ?N ?P new (new # ids)" using d(1) ids assms(3) by (intro linksI) simp_all
  then show ?thesis using l by simp
qed

lemma links_remove:
  assumes "links N P F ids" "i \<in> set ids" "N i \<noteq> i"
  shows "links (N(P i := N i)) (P(N i := P i)) (if F = i then N i else F) (remove1 i ids)"
    and "P i \<noteq> i" "P i \<in> set ids" "N i \<in> set ids"
proof -
  let ?N = "N(P i := N i)" and ?P = "P(N i := P i)" and ?F = "if F = i then N i else F"
  obtain xs ys where ids: "ids = xs @ i # ys" using assms(2) by (meson split_list)
  have d: "distinct (xs @ i # ys)" "F = hd ids" "\<forall>k\<in>set ids. P (N k) = k" "linked N xs i" "linked N (i # ys) F"
    using assms(1) ids by (auto simp: links_def linked_append)
  have r: "remove1 i ids = xs @ ys" "set (xs @ ys) = set ids - {i}" using d(1) ids by (auto simp: remove1_append)
  show N: "N i \<in> set ids" using links_image[OF assms(1,2)] .
  have nonempty: "xs @ ys \<noteq> []" using N assms(3) ids by auto
  have "\<exists>p. N p = i \<and> p \<in> set (xs @ ys) \<and> linked ?N (xs @ ys) ?F \<and> ?F = hd (xs @ ys)"
  proof (cases xs rule: rev_cases)
    case Nil
    with nonempty obtain zs l where ys: "ys = zs @ [l]" by (metis append_Nil append_butlast_last_id)
    have F: "F = i" using d(2) ids Nil by simp
    have "linked N ys i" "N i = hd (ys @ [i])" using d(5) F by (simp_all add: linked_Cons)
    moreover have "hd (ys @ [i]) = hd ys" using ys by (cases zs) simp_all
    ultimately have l: "N l = i" "N i = hd ys" "linked N zs l" using ys by (simp_all add: linked_append)
    moreover have "P (N l) = l" using d(3) ids ys by simp
    ultimately have "P i = l" by simp
    have "linked ?N zs l" by (rule linked_transfer[OF l(3)]) (use d(1) ys \<open>P i = l\<close> in auto)
    with \<open>P i = l\<close> show ?thesis using Nil ys F l by (intro exI[of _ l]) (simp add: linked_append)
  next
    case (snoc ws p)
    have p: "N p = i" "linked N ws p" using d(4) snoc by (auto simp: linked_append)
    moreover have "P (N p) = p" using d(3) ids snoc by simp
    ultimately have "P i = p" by simp
    have F: "F \<noteq> i" "F = hd xs" using d(1,2) ids snoc by (cases ws; auto)+
    have y: "linked N ys F" "N i = hd (ys @ [F])" using d(5) by (simp_all add: linked_Cons)
    have "linked ?N ws p" by (rule linked_transfer[OF p(2)]) (use d(1) snoc \<open>P i = p\<close> in auto)
    moreover have "linked ?N ys F" by (rule linked_transfer[OF y(1)]) (use d(1) snoc \<open>P i = p\<close> in auto)
    moreover have "hd (ws @ p # ys) = hd (ws @ [p])" by (cases ws) simp_all
    ultimately show ?thesis using p snoc F y(2) \<open>P i = p\<close> by (intro exI[of _ p]) (simp add: linked_append linked_Cons)
  qed
  then obtain p where p: "N p = i" "p \<in> set (xs @ ys)" and lk: "linked ?N (xs @ ys) ?F" "?F = hd (xs @ ys)" by blast
  have "P (N p) = p" using d(3) p(2) r(2) by auto
  with p(1) have Pi: "P i = p" by simp
  then show "P i \<noteq> i" "P i \<in> set ids" using p r by auto
  have "?P (?N k) = k" if "k \<in> set (xs @ ys)" for k
  proof (cases "k = p")
    case False
    have k: "k \<in> set ids" "k \<noteq> i" using that r(2) by auto
    with d(3) assms(2) have "N k \<noteq> N i" by metis
    then show ?thesis using False Pi k d(3) by simp
  qed (use Pi in simp)
  then show "links ?N ?P ?F (remove1 i ids)" unfolding r(1) using d(1) lk nonempty by (intro linksI) auto
qed

lemma links_alone:
  assumes "links N P F ids" "i \<in> set ids" "N i = i"
  shows "ids = [i]" "F = i"
proof -
  obtain xs ys where ids: "ids = xs @ i # ys" using assms(2) by (meson split_list)
  have d: "distinct (xs @ i # ys)" "F = hd ids" "linked N (i # ys) F" using assms(1) ids by (auto simp: links_def linked_append)
  then have "ys = []" "F = i" using assms(3) by (cases ys; auto simp: linked_Cons)+
  then show "ids = [i]" "F = i" using d ids by (cases xs; auto)+
qed


subsection \<open>The ring of a time base\<close>

abbreviation TCT :: osal_objtype_t where "TCT \<equiv> OS_OBJECT_TYPE_OS_TIMECB"

definition next_of :: "'i os_state \<Rightarrow> osal_id_t \<Rightarrow> osal_id_t" where
  "next_of s i = next_cb (OS_timecb_table s (unat (index_of i)))"

definition prev_of :: "'i os_state \<Rightarrow> osal_id_t \<Rightarrow> osal_id_t" where
  "prev_of s i = prev_cb (OS_timecb_table s (unat (index_of i)))"

text \<open>The timers \<open>ids\<close>, in this order, are those of time base \<open>j\<close>, linked both ways.\<close>

definition timer_ring :: "nat \<Rightarrow> osal_id_t list \<Rightarrow> 'i os_state \<Rightarrow> bool" where
  "timer_ring j ids s \<longleftrightarrow> links (next_of s) (prev_of s) (first_cb (OS_timebase_table s j)) ids
     \<and> (\<forall>i\<in>set ids. live TCT i s)"

lemma chain_linked: "chain s ids stop \<longleftrightarrow> linked (next_of s) ids stop \<and> (\<forall>i\<in>set ids. live TCT i s)"
  by (induction ids rule: induct_list012) (auto simp: next_of_def)

lemma timer_ring_ring: "timer_ring j ids s \<Longrightarrow> ring j ids s"
  by (cases ids) (auto simp: timer_ring_def ring_def links_def chain_linked)

lemma live_index_inj: "live t i s \<Longrightarrow> live t k s \<Longrightarrow> index_of i = index_of k \<Longrightarrow> i = k"
  by (simp add: live_def)

lemma upd_timecb_frame [simp]:
  "OS_common_table (upd_timecb j f s) = OS_common_table s"
  "OS_timebase_table (upd_timecb j f s) = OS_timebase_table s"
  "OS_timecb_table (upd_timecb j f s) = (OS_timecb_table s)(j := f (OS_timecb_table s j))"
  "OS_SharedGlobalVars (upd_timecb j f s) = OS_SharedGlobalVars s"
  "running (upd_timecb j f s) = running s"
  "live t i (upd_timecb j f s) = live t i s"
  "lock_free t (upd_timecb j f s) = lock_free t s"
  by (simp_all add: upd_timecb_def running_def live_def lock_free_def objtype_state_def)

text \<open>Changes that only concern the timer and time base tables.\<close>

definition with_timers :: "(nat \<Rightarrow> OS_timecb_internal_record) \<Rightarrow> (nat \<Rightarrow> OS_timebase_internal_record) \<Rightarrow> 'i os_state \<Rightarrow> 'i os_state" where
  "with_timers C B s = s\<lparr>OS_timecb_table := C, OS_timebase_table := B\<rparr>"

lemma with_timers_simps [simp]:
  "OS_timecb_table (with_timers C B s) = C" "OS_timebase_table (with_timers C B s) = B"
  "OS_common_table (with_timers C B s) = OS_common_table s"
  "running (with_timers C B s) = running s" "live t i (with_timers C B s) = live t i s"
  "lock_free t (with_timers C B s) = lock_free t s" "impl (with_timers C B s) = impl s"
  "OS_SharedGlobalVars (with_timers C B s) = OS_SharedGlobalVars s"
  by (simp_all add: with_timers_def running_def live_def lock_free_def objtype_state_def)

lemma with_timers_upd:
  "upd_timecb j f s = with_timers ((OS_timecb_table s)(j := f (OS_timecb_table s j))) (OS_timebase_table s) s"
  "upd_timebase j g s = with_timers (OS_timecb_table s) ((OS_timebase_table s)(j := g (OS_timebase_table s j))) s"
  "with_timers C B (with_timers C' B' s) = with_timers C B s"
  by (simp_all add: upd_timecb_def upd_timebase_def with_timers_def)

text \<open>Records that differ in their links only.\<close>

definition relinked :: "OS_timecb_internal_record \<Rightarrow> OS_timecb_internal_record \<Rightarrow> bool" where
  "relinked r r' \<longleftrightarrow> r' = r\<lparr>next_cb := next_cb r', prev_cb := prev_cb r'\<rparr>"

lemma relinked_refl: "relinked r r"
  by (simp add: relinked_def)

lemma relinked_upd:
  assumes "\<And>k. relinked (T k) (C k)"
  shows "relinked (T k) ((C(j := (C j)\<lparr>next_cb := v\<rparr>)) k)" "relinked (T k) ((C(j := (C j)\<lparr>prev_cb := v\<rparr>)) k)"
    "relinked (T k) ((C(j := (C j)\<lparr>next_cb := v, prev_cb := w\<rparr>)) k)"
proof -
  have "relinked r (r'\<lparr>next_cb := v\<rparr>)" "relinked r (r'\<lparr>prev_cb := v\<rparr>)" "relinked r (r'\<lparr>next_cb := v, prev_cb := w\<rparr>)" if "relinked r r'" for r r'
    using that by (cases r; cases r'; simp add: relinked_def)+
  with assms show "relinked (T k) ((C(j := (C j)\<lparr>next_cb := v\<rparr>)) k)" "relinked (T k) ((C(j := (C j)\<lparr>prev_cb := v\<rparr>)) k)"
    "relinked (T k) ((C(j := (C j)\<lparr>next_cb := v, prev_cb := w\<rparr>)) k)" by simp_all
qed

lemma relinked_fields: "relinked r r' \<Longrightarrow> timebase_token r' = timebase_token r" "relinked r r' \<Longrightarrow> timecb_flags r' = timecb_flags r"
  by (cases r; cases r'; simp add: relinked_def)+

lemma not_live_zero: "\<not> live TCT 0 s"
  by (simp add: live_def id_of_type_def OS_ObjectIdToType_Impl_def)

lemma timer_max: "OS_GetMaxForObjectType TCT \<noteq> 0"
  by (simp add: OS_GetMaxForObjectType_def os_max_defs)

lemma timer_link_ring:
  assumes "running s" "timer_ring jb ids s" "tk = tok m key TCT (index_of new) new" "jb = unat (obj_idx tb)"
    and "next_of s new = new" "prev_of s new = new" "\<forall>i\<in>set ids. index_of i \<noteq> index_of new"
  obtains C B where "timer_link env tb tk s = with_timers C B s"
    and "links (next_of (with_timers C B s)) (prev_of (with_timers C B s)) new (new # ids)"
    and "B = (OS_timebase_table s)(jb := (OS_timebase_table s jb)\<lparr>first_cb := new\<rparr>)"
    and "\<And>k. k \<notin> (unat \<circ> index_of) ` set (new # ids) \<Longrightarrow> C k = OS_timecb_table s k"
    and "\<And>k. relinked (OS_timecb_table s k) (C k)"
proof (cases "ids = []")
  case True
  with assms(2) have F: "first_cb (OS_timebase_table s jb) = 0" by (simp add: timer_ring_def links_def)
  obtain tk' where g: "OS_ObjectIdGetById env OS_LOCK_MODE_NONE TCT 0 s = (OS_ERR_INVALID_ID, tk', s)"
    by (rule GetById_none_dead[OF assms(1) timer_max not_live_zero])
  let ?B = "(OS_timebase_table s)(jb := (OS_timebase_table s jb)\<lparr>first_cb := new\<rparr>)"
  have "timer_link env tb tk s = with_timers (OS_timecb_table s) ?B s"
    using F g assms(3,4) by (simp add: timer_link_def Let_def with_timers_upd)
  then show thesis
    by (rule that) (use True assms(5,6) in \<open>simp_all add: links_def next_of_def prev_of_def relinked_refl\<close>)
next
  case False
  let ?F = "first_cb (OS_timebase_table s jb)" and ?T = "OS_timecb_table s"
  let ?x = "\<lambda>i. unat (index_of i)" and ?l = "prev_of s (first_cb (OS_timebase_table s jb))"
  from assms(2) have L: "links (next_of s) (prev_of s) ?F ids" and lv: "\<forall>i\<in>set ids. live TCT i s" by (auto simp: timer_ring_def)
  have F: "?F \<in> set ids" using L False by (simp add: links_def)
  have l: "?l \<in> set ids" using links_last(2)[of "next_of s" "prev_of s" ?F "butlast ids" "last ids"] L False by simp
  have g: "OS_ObjectIdGetById env OS_LOCK_MODE_NONE TCT i x = (OS_SUCCESS, tok OS_LOCK_MODE_NONE 0 TCT (index_of i) i, x)"
    if "i \<in> set ids" "OS_common_table x = OS_common_table s" "running x" for i x
    by (rule GetById_none[OF that(3)]) (use lv that in \<open>simp add: live_def\<close>)
  let ?C1 = "?T(?x new := (?T (?x new))\<lparr>next_cb := ?F, prev_cb := ?l\<rparr>)"
  let ?C2 = "?C1(?x ?F := (?C1 (?x ?F))\<lparr>prev_cb := new\<rparr>)"
  let ?C = "?C2(?x ?l := (?C2 (?x ?l))\<lparr>next_cb := new\<rparr>)"
  let ?B = "(OS_timebase_table s)(jb := (OS_timebase_table s jb)\<lparr>first_cb := new\<rparr>)"
  have eq: "timer_link env tb tk s = with_timers ?C ?B s"
    using assms(1,3,4) g[OF F] g[OF l] by (simp add: timer_link_def Let_def with_timers_upd prev_of_def)
  have inj: "?x i = ?x k \<longleftrightarrow> i = k" if "i \<in> set (new # ids)" "k \<in> set (new # ids)" for i k
    using that assms(7) lv live_index_inj[of TCT i s k] by (auto simp: word_unat_eq_iff[symmetric])
  have new: "new \<notin> set ids" using assms(7) by auto
  with F have ne: "new \<noteq> ?F" "?F \<noteq> new" by auto
  show thesis
  proof (rule that[OF eq])
    show "links (next_of (with_timers ?C ?B s)) (prev_of (with_timers ?C ?B s)) new (new # ids)"
      by (rule links_cong[OF links_insert[OF L False new]])
        (use F l new ne in \<open>auto simp: next_of_def prev_of_def inj\<close>)
    show "?C k = ?T k" if "k \<notin> (unat \<circ> index_of) ` set (new # ids)" for k
      using that F l by auto
    show "relinked (?T k) (?C k)" for k by (intro relinked_upd relinked_refl)
  qed simp
qed


lemma timer_unlink_ring:
  assumes "running s" "links (next_of s) (prev_of s) (first_cb (OS_timebase_table s jb)) ids"
    and "i \<in> set ids" "\<not> live TCT i s" "\<forall>k\<in>set ids. k \<noteq> i \<longrightarrow> live TCT k s \<and> index_of k \<noteq> index_of i"
    and "tk = tok m key TCT (index_of i) i"
  obtains C B F where "timer_unlink env tk jb s = with_timers C B s"
    and "links (next_of (with_timers C B s)) (prev_of (with_timers C B s)) F (remove1 i ids)"
    and "B = (OS_timebase_table s)(jb := (OS_timebase_table s jb)\<lparr>first_cb := F\<rparr>)"
    and "\<And>k. k \<notin> (unat \<circ> index_of) ` set ids \<Longrightarrow> C k = OS_timecb_table s k"
    and "\<And>k. relinked (OS_timecb_table s k) (C k)"
proof (cases "next_of s i = i")
  case True
  note one = links_alone[OF assms(2,3) True]
  have prev: "prev_of s i = i" using assms(2,3) True by (auto simp: links_def)
  have g: "\<exists>tk. OS_ObjectIdGetById env OS_LOCK_MODE_NONE TCT i x = (OS_ERR_INVALID_ID, tk, x)"
    if "OS_common_table x = OS_common_table s" "running x" for x
    using GetById_none_dead[OF that(2) timer_max, of i env] assms(4) that(1) by (metis live_def)
  let ?j = "unat (index_of i)"
  let ?C = "(OS_timecb_table s)(?j := (OS_timecb_table s ?j)\<lparr>next_cb := i, prev_cb := i\<rparr>)"
  let ?B = "(OS_timebase_table s)(jb := (OS_timebase_table s jb)\<lparr>first_cb := 0\<rparr>)"
  obtain tk' where "OS_ObjectIdGetById env OS_LOCK_MODE_NONE TCT i (with_timers (OS_timecb_table s) ?B s)
      = (OS_ERR_INVALID_ID, tk', with_timers (OS_timecb_table s) ?B s)" using g assms(1) by fastforce
  with one(2) True prev assms(6) have "timer_unlink env tk jb s = with_timers ?C ?B s"
    by (simp add: timer_unlink_def Let_def with_timers_upd next_of_def prev_of_def)
  then show thesis
  proof (rule that)
    show "relinked (OS_timecb_table s k) (?C k)" for k by (intro relinked_upd relinked_refl)
  qed (use one(1) in \<open>simp_all add: links_def\<close>)
next
  case False
  let ?F = "first_cb (OS_timebase_table s jb)" and ?T = "OS_timecb_table s"
  let ?x = "\<lambda>i. unat (index_of i)" and ?p = "prev_of s i" and ?n = "next_of s i"
  note rm = links_remove[OF assms(2,3) False]
  have g: "OS_ObjectIdGetById env OS_LOCK_MODE_NONE TCT k x = (OS_SUCCESS, tok OS_LOCK_MODE_NONE 0 TCT (index_of k) k, x)"
    if "k \<in> set ids" "k \<noteq> i" "OS_common_table x = OS_common_table s" "running x" for k x
    by (rule GetById_none[OF that(4)]) (use assms(5) that in \<open>simp add: live_def\<close>)
  let ?C1 = "?T(?x ?p := (?T (?x ?p))\<lparr>next_cb := ?n\<rparr>)"
  let ?C2 = "?C1(?x ?n := (?C1 (?x ?n))\<lparr>prev_cb := ?p\<rparr>)"
  let ?C = "?C2(?x i := (?C2 (?x i))\<lparr>next_cb := i, prev_cb := i\<rparr>)"
  let ?F' = "if ?F = i then ?n else ?F"
  let ?B = "(OS_timebase_table s)(jb := (OS_timebase_table s jb)\<lparr>first_cb := ?F'\<rparr>)"
  have inj: "?x a = ?x b \<longleftrightarrow> a = b" if "a \<in> set ids" "b \<in> set ids" for a b
    using that assms(5) live_index_inj[of TCT a s b] by (cases "a = i"; cases "b = i") (auto simp: word_unat_eq_iff[symmetric])
  have ne: "?x ?p \<noteq> ?x i" "?x ?n \<noteq> ?x i" "?n \<noteq> i" "i \<noteq> ?n" using inj rm(2-4) False assms(3) by auto
  have P: "prev_cb (?T (?x i)) = ?p" "next_cb (?T (?x i)) = ?n" by (simp_all add: prev_of_def next_of_def)
  have eq: "timer_unlink env tk jb s = with_timers ?C ?B s"
  proof (cases "?F = i")
    case True
    then show ?thesis using assms(1,6) g[OF rm(3,2)] g[OF rm(4) False] ne P
      by (simp add: timer_unlink_def Let_def with_timers_upd)
  next
    case False
    then have B: "(OS_timebase_table s)(jb := (OS_timebase_table s jb)\<lparr>first_cb := ?F'\<rparr>) = OS_timebase_table s"
      by simp
    from False show ?thesis unfolding B using assms(1,6) g[OF rm(3,2)] g[OF rm(4) ne(3)] ne P
      by (simp add: timer_unlink_def Let_def with_timers_upd)
  qed
  show thesis
  proof (rule that[OF eq])
    show "links (next_of (with_timers ?C ?B s)) (prev_of (with_timers ?C ?B s)) ?F' (remove1 i ids)"
    proof (rule links_cong[OF rm(1)])
      fix k assume "k \<in> set (remove1 i ids)"
      then have "k \<in> set ids" "k \<noteq> i" using assms(2) by (auto simp: links_def)
      then have "?x k = ?x ?p \<longleftrightarrow> k = ?p" "?x k = ?x ?n \<longleftrightarrow> k = ?n" "?x k \<noteq> ?x i" using inj rm(3,4) assms(3) by auto
      then show "next_of (with_timers ?C ?B s) k = ((next_of s)(?p := ?n)) k"
        "prev_of (with_timers ?C ?B s) k = ((prev_of s)(?n := ?p)) k"
        by (auto simp: next_of_def prev_of_def)
    qed
    show "?C k = ?T k" if "k \<notin> (unat \<circ> index_of) ` set ids" for k
      using that rm(3,4) assms(3) by auto
    show "relinked (?T k) (?C k)" for k by (intro relinked_upd relinked_refl)
  qed simp
qed


subsection \<open>Adding and deleting timers\<close>

lemma timer_init_simps [simp]:
  "OS_common_table (timer_init nm tb (tok m k TCT j i) f a fl s) = (OS_common_table s)(record_of TCT j :=
     (OS_common_table s (record_of TCT j))\<lparr>name_entry := Some (Timer_name (unat j))\<rparr>)"
  "OS_timebase_table (timer_init nm tb (tok m k TCT j i) f a fl s) = OS_timebase_table s"
  "running (timer_init nm tb (tok m k TCT j i) f a fl s) = running s"
  "lock_free t (timer_init nm tb (tok m k TCT j i) f a fl s) = lock_free t s"
  "OS_timecb_table (timer_init nm tb (tok m k TCT j i) f a fl s) = (OS_timecb_table s)(unat j := zero_timecb\<lparr>timer_name := strncpy_cleared nm OS_MAX_API_NAME,
     timebase_token := tb, callback_ptr := f, callback_arg := a, timecb_flags := fl, prev_cb := i, next_cb := i\<rparr>)"
  by (simp_all add: timer_init_def timer_fill_def Let_def upd_timecb_def running_def lock_free_def objtype_state_def
      OS_ObjectIdGlobalFromToken_def record_of_def)

lemma tb_lock_frame [simp]:
  "lock_free t (TimeBaseLock b tk s) = lock_free t s" "lock_free t (TimeBaseUnlock b tk s) = lock_free t s"
  "running (TimeBaseUnlock b tk s) = running s" "OS_common_table (TimeBaseUnlock b tk s) = OS_common_table s"
  "OS_timebase_table (TimeBaseUnlock b tk s) = OS_timebase_table s" "OS_timecb_table (TimeBaseUnlock b tk s) = OS_timecb_table s"
  by (simp_all add: TimeBaseLock_def TimeBaseUnlock_def lock_free_def objtype_state_def running_def)

lemma timers_ticked [simp]:
  "OS_timecb_table (ticked t s) = OS_timecb_table s" "OS_timebase_table (ticked t s) = OS_timebase_table s"
  "OS_timecb_table (upd_common r f s) = OS_timecb_table s" "OS_timebase_table (upd_common r f s) = OS_timebase_table s"
  "OS_timecb_table (issued t i a rc c s) = OS_timecb_table s" "OS_timebase_table (issued t i a rc c s) = OS_timebase_table s"
  by (simp_all add: ticked_def upd_common_def upd_objtype_def issued_def)

lemma reserved_tables [simp]:
  "OS_timecb_table (reserved_state env t i s) = OS_timecb_table s" "OS_timebase_table (reserved_state env t i s) = OS_timebase_table s"
  "running (reserved_state env t i s) = running s" "lock_free u s \<Longrightarrow> lock_free u (reserved_state env t i s)"
  "OS_common_table (reserved_state env t i s) = OS_common_table (issued t i OS_OBJECT_ID_RESERVED 1 (OS_TaskGetId env s) s)"
  by (simp_all add: reserved_state_def running_def)


lemma timer_records:
  assumes "live TCT k s" "live TBT tb s"
  shows "record_of TCT (index_of k) \<noteq> record_of TBT (index_of tb)"
    and "index_of k < OS_GetMaxForObjectType TCT" "index_of tb < OS_GetMaxForObjectType TBT"
  using assms id_of_type_facts(6)[of TCT k] id_of_type_facts(6)[of TBT tb] by (auto simp: live_def record_of_eq)

text \<open>
  The references a time base has are counted in its record; a timer refers to time base \<open>tb\<close> by
  the token it was given when it was added.
\<close>

definition attached :: "osal_id_t \<Rightarrow> osal_id_t \<Rightarrow> 'i os_state \<Rightarrow> bool" where
  "attached tb i s \<longleftrightarrow> (\<exists>key. timebase_token (OS_timecb_table s (unat (index_of i))) = tok OS_LOCK_MODE_REFCOUNT key TBT (index_of tb) tb)"

text \<open>C9: Adding a timer to a time base succeeds under a free name when there is room, puts the timer at
  the head of the ring of the time base and leaves the other timers of the ring in their order, and
  counts one more reference to the time base, so that the time base cannot be deleted under its
  timers. Timers of other rings are not touched.\<close>

theorem OS_TimerAdd_ring:
  assumes "running s" "lock_free TBT s" "lock_free TCT s" "event_ok env s" "\<not> timer_context env s"
    and "live TBT tb s" "timer_ring (unat (index_of tb)) ids s" "length nm < OS_MAX_API_NAME" "callback \<noteq> None"
    and "free_slot TCT s k0" "\<forall>k. \<not> has_name TCT nm s k"
  shows "\<exists>i s'. OS_TimerAdd env b True (Some nm) tb callback arg s = (OS_SUCCESS, Some i, s') \<and> i \<notin> set ids
    \<and> timer_ring (unat (index_of tb)) (i # ids) s' \<and> attached tb i s' \<and> live TBT tb s'
    \<and> refcount (OS_common_table s' (record_of TBT (index_of tb))) = refcount (OS_common_table s (record_of TBT (index_of tb))) + 1
    \<and> (\<forall>k. k \<notin> (unat \<circ> index_of) ` set (i # ids) \<longrightarrow> OS_timecb_table s' k = OS_timecb_table s k)"
proof -
  let ?rb = "record_of TBT (index_of tb)" and ?jb = "unat (index_of tb)"
  define s1 where "s1 = ticked TBT (upd_common ?rb (\<lambda>ob. ob\<lparr>refcount := refcount ob + 1\<rparr>) s)"
  have ref: "OS_ObjectIdGetById env OS_LOCK_MODE_REFCOUNT TBT tb s = (OS_SUCCESS, tok OS_LOCK_MODE_REFCOUNT 0 TBT (index_of tb) tb, s1)"
    unfolding s1_def by (rule GetById_refcount[OF assms(1,6,2)])
  have same: "active_id (OS_common_table s1 r) = active_id (OS_common_table s r)"
    "name_entry (OS_common_table s1 r) = name_entry (OS_common_table s r)" "deref_name s1 = deref_name s"
    "OS_SharedGlobalVars s1 = OS_SharedGlobalVars s" "lock_free TCT s1" "OS_timecb_table s1 = OS_timecb_table s"
    "OS_timebase_table s1 = OS_timebase_table s" for r
    using assms(3) by (simp_all add: s1_def)
  have run1: "running s1" "lock_free TCT s1" "event_ok env s1" "free_slot TCT s1 k0" "\<And>k. \<not> has_name TCT nm s1 k"
    using assms(1,3,4,10,11) same by (simp_all add: running_def event_ok_def free_slot_def has_name_def)
  obtain i where i: "id_of_type TCT i" "free_slot TCT s1 (index_of i)" and al: "OS_ObjectIdAllocateNew env TCT (Some nm) s1
      = (OS_SUCCESS, tok OS_LOCK_MODE_EXCLUSIVE 0 TCT (index_of i) i, reserved_state env TCT i s1)"
    by (rule AllocateNew_ok[OF run1(1-4), of "Some nm"]) (use run1(5) in \<open>auto simp: reserved_state_def\<close>)
  let ?ri = "record_of TCT (index_of i)" and ?tk = "tok OS_LOCK_MODE_EXCLUSIVE 0 TCT (index_of i) i"
  let ?tb = "tok OS_LOCK_MODE_NONE 0 TBT (index_of tb) tb"
  define s4 where "s4 = TimeBaseLock b ?tb (timer_init nm (tok OS_LOCK_MODE_REFCOUNT 0 TBT (index_of tb) tb) ?tk callback arg 0 (reserved_state env TCT i s1))"
  have mi: "index_of i < OS_GetMaxForObjectType TCT" "?ri \<noteq> ?rb"
    using id_of_type_facts(6)[OF i(1)] id_of_type_facts(6)[of TBT tb] assms(6) by (auto simp: live_def record_of_eq)
  have C4: "OS_common_table s4 = (OS_common_table s1)(?ri := \<lparr>name_entry = Some (Timer_name (unat (index_of i))),
      active_id = OS_OBJECT_ID_RESERVED, creator = OS_TaskGetId env s1, refcount = 1\<rparr>)"
    by (simp add: s4_def)
  have s4: "running s4" "lock_free TCT s4" "OS_timebase_table s4 = OS_timebase_table s" "next_of s4 i = i" "prev_of s4 i = i"
    "\<And>k. k \<noteq> unat (index_of i) \<Longrightarrow> OS_timecb_table s4 k = OS_timecb_table s k"
    using run1 same by (simp_all add: s4_def next_of_def prev_of_def)
  have idx: "index_of k \<noteq> index_of i" "live TCT k s4" if "k \<in> set ids" for k
  proof -
    have k: "live TCT k s" using assms(7) that by (simp add: timer_ring_def)
    then have "active_id (OS_common_table s (record_of TCT (index_of k))) = k" "k \<noteq> 0" "index_of k < OS_GetMaxForObjectType TCT"
      using id_of_type_facts(2,6)[of TCT k] by (auto simp: live_def)
    then show "index_of k \<noteq> index_of i" "live TCT k s4"
      using i(2) same mi k by (auto simp: free_slot_def OS_ObjectIdDefined_def live_def C4 record_of_eq)
  qed
  have old: "OS_timecb_table s4 (unat (index_of k)) = OS_timecb_table s (unat (index_of k))" if "k \<in> set ids" for k
    by (rule s4(6)) (use idx(1)[OF that] in \<open>simp add: word_unat_eq_iff\<close>)
  have "links (next_of s4) (prev_of s4) (first_cb (OS_timebase_table s ?jb)) ids"
    by (rule links_cong[of "next_of s" "prev_of s"]) (use assms(7) in \<open>simp_all add: timer_ring_def next_of_def prev_of_def old\<close>)
  then have ring4: "timer_ring ?jb ids s4" using idx(2) by (simp add: timer_ring_def s4(3))
  obtain C B where link: "timer_link env ?tb ?tk s4 = with_timers C B s4"
    and L: "links (next_of (with_timers C B s4)) (prev_of (with_timers C B s4)) i (i # ids)"
    and B: "B = (OS_timebase_table s4)(?jb := (OS_timebase_table s4 ?jb)\<lparr>first_cb := i\<rparr>)"
    and C: "\<And>k. k \<notin> (unat \<circ> index_of) ` set (i # ids) \<Longrightarrow> C k = OS_timecb_table s4 k"
    and keep: "\<And>k. relinked (OS_timecb_table s4 k) (C k)"
    by (rule timer_link_ring[OF s4(1) ring4 refl, of ?tb i env]) (use s4 idx in auto)
  define s6 where "s6 = TimeBaseUnlock b ?tb (with_timers C B s4)"
  define s7 where "s7 = (ticked TCT (upd_common ?ri (\<lambda>ob. (drop_ref ob)\<lparr>active_id := i\<rparr>) s6))\<lparr>impl := event_impl env OS_EVENT_RESOURCE_CREATED i s6\<rparr>"
  have "OS_ObjectIdFinalizeNew env OS_SUCCESS ?tk s6 = (OS_SUCCESS, i, tok OS_LOCK_MODE_NONE 0 TCT (index_of i) i, s7)"
    using FinalizeNew_exclusive[of TCT s6 env OS_SUCCESS 0 "index_of i" i] s4(2) by (simp add: s6_def s7_def Let_def)
  then have res: "OS_TimerAdd env b True (Some nm) tb callback arg s = (OS_SUCCESS, Some i, s7)"
    using assms(5,8,9) ref al link
    by (simp add: OS_TimerAdd_def OS_DoTimerAdd_def LENGTHCHECK_def OS_ObjectIdTransferToken_def s4_def[symmetric] s6_def[symmetric])
  have T7: "OS_timecb_table s7 = C" "OS_timebase_table s7 = B" by (simp_all add: s7_def s6_def)
  have C7: "OS_common_table s7 = (OS_common_table s4)(?ri := (drop_ref (OS_common_table s4 ?ri))\<lparr>active_id := i\<rparr>)"
    by (simp add: s7_def s6_def)
  have "live TCT k s7" if "k \<in> set (i # ids)" for k
  proof (cases "k = i")
    case True
    with i(1) show ?thesis by (simp add: live_def C7)
  next
    case False
    with that have "k \<in> set ids" by simp
    with idx[of k] mi(1) show ?thesis using id_of_type_facts(6)[of TCT k] by (auto simp: live_def C7 record_of_eq)
  qed
  then have "timer_ring ?jb (i # ids) s7"
    using L T7 B by (simp add: timer_ring_def next_of_def[abs_def] prev_of_def[abs_def])
  moreover have "attached tb i s7"
    using relinked_fields(1)[OF keep, of "unat (index_of i)"] by (simp add: attached_def T7 s4_def)
  moreover have "OS_common_table s7 ?rb = OS_common_table s1 ?rb" using mi(2) by (simp add: C7 C4)
  then have "live TBT tb s7" "refcount (OS_common_table s7 ?rb) = refcount (OS_common_table s ?rb) + 1"
    using assms(6) by (simp_all add: live_def s1_def)
  moreover have "OS_timecb_table s7 k = OS_timecb_table s k" if "k \<notin> (unat \<circ> index_of) ` set (i # ids)" for k
    using that C[OF that] s4(6)[of k] by (auto simp: T7)
  moreover have "i \<notin> set ids" using idx(1) by blast
  ultimately show ?thesis using res by blast
qed

text \<open>C10: Deleting a timer takes it out of the ring of its time base, which stays a ring of the other timers
  in the same order, also when it was the first or the only one; it gives back the reference to the
  time base and makes the ID of the timer invalid. Timers of other rings are not touched.\<close>

theorem OS_TimerDelete_ring:
  assumes "running s" "lock_free TBT s" "lock_free TCT s" "\<not> timer_context env s"
    and "live TBT tb s" "timer_ring (unat (index_of tb)) ids s" "i \<in> set ids" "attached tb i s"
    and "timecb_flags (OS_timecb_table s (unat (index_of i))) AND TIMECB_FLAG_DEDICATED_TIMEBASE = 0"
    and "refcount (OS_common_table s (record_of TCT (index_of i))) = 0"
    and "refcount (OS_common_table s (record_of TBT (index_of tb))) \<noteq> 0"
  shows "\<exists>s'. OS_TimerDelete env b i s = (OS_SUCCESS, s') \<and> timer_ring (unat (index_of tb)) (remove1 i ids) s'
    \<and> \<not> live TCT i s' \<and> live TBT tb s'
    \<and> refcount (OS_common_table s' (record_of TBT (index_of tb))) = refcount (OS_common_table s (record_of TBT (index_of tb))) - 1
    \<and> (\<forall>k. k \<notin> (unat \<circ> index_of) ` set ids \<longrightarrow> OS_timecb_table s' k = OS_timecb_table s k)"
proof -
  let ?rb = "record_of TBT (index_of tb)" and ?jb = "unat (index_of tb)" and ?ri = "record_of TCT (index_of i)" and ?j = "unat (index_of i)"
  from assms(6) have L: "links (next_of s) (prev_of s) (first_cb (OS_timebase_table s ?jb)) ids" and lv: "\<And>k. k \<in> set ids \<Longrightarrow> live TCT k s"
    by (auto simp: timer_ring_def)
  note li = lv[OF assms(7)]
  note rec = timer_records[OF li assms(5)]
  have i0: "i \<noteq> 0" "i \<noteq> OS_OBJECT_ID_RESERVED" using li id_of_type_facts(2,3)[of TCT i] by (auto simp: live_def)
  define s1 where "s1 = ticked TCT (upd_common ?ri (\<lambda>ob. ob\<lparr>active_id := OS_OBJECT_ID_RESERVED, refcount := 1\<rparr>) s)"
  let ?tk = "tok OS_LOCK_MODE_EXCLUSIVE 0 TCT (index_of i) i"
  have get: "OS_ObjectIdGetById env OS_LOCK_MODE_EXCLUSIVE TCT i s = (OS_SUCCESS, ?tk, s1)"
    unfolding s1_def by (rule GetById_exclusive[OF assms(1) li assms(3,10)])
  obtain key where key: "timebase_token (OS_timecb_table s ?j) = tok OS_LOCK_MODE_REFCOUNT key TBT (index_of tb) tb"
    using assms(8) by (auto simp: attached_def)
  let ?tb = "tok OS_LOCK_MODE_NONE key TBT (index_of tb) tb"
  define s3 where "s3 = TimeBaseLock b ?tb (upd_timecb ?j (\<lambda>cb. cb\<lparr>timebase_token := ?tb\<rparr>) s1)"
  have s3: "running s3" "lock_free TCT s3" "lock_free TBT s3" "OS_timebase_table s3 = OS_timebase_table s" "next_of s3 = next_of s" "prev_of s3 = prev_of s"
    "\<And>k. k \<noteq> ?j \<Longrightarrow> OS_timecb_table s3 k = OS_timecb_table s k" "timecb_flags (OS_timecb_table s3 ?j) = timecb_flags (OS_timecb_table s ?j)"
    "OS_common_table s3 = (OS_common_table s)(?ri := (OS_common_table s ?ri)\<lparr>active_id := OS_OBJECT_ID_RESERVED, refcount := 1\<rparr>)"
    using assms(1-3) by (auto simp: s3_def s1_def next_of_def prev_of_def fun_eq_iff)
  have others: "live TCT k s3 \<and> index_of k \<noteq> index_of i" if "k \<in> set ids" "k \<noteq> i" for k
    using lv[OF that(1)] that(2) li live_index_inj[of TCT k s i] id_of_type_facts(6)[of TCT k] rec(2)
    by (auto simp: live_def s3(9) record_of_eq)
  have dead: "\<not> live TCT i s3" using i0 by (simp add: live_def s3(9))
  obtain C B F where un: "timer_unlink env ?tk ?jb s3 = with_timers C B s3"
    and L': "links (next_of (with_timers C B s3)) (prev_of (with_timers C B s3)) F (remove1 i ids)"
    and B: "B = (OS_timebase_table s3)(?jb := (OS_timebase_table s3 ?jb)\<lparr>first_cb := F\<rparr>)"
    and C: "\<And>k. k \<notin> (unat \<circ> index_of) ` set ids \<Longrightarrow> C k = OS_timecb_table s3 k"
    by (rule timer_unlink_ring[OF s3(1) _ assms(7) dead _ refl, of ?jb env]) (use L others in \<open>auto simp: s3\<close>)
  define s5 where "s5 = TimeBaseUnlock b ?tb (with_timers C B s3)"
  define s6 where "s6 = (ticked TCT (upd_common ?ri (\<lambda>ob. (drop_ref ob)\<lparr>active_id := 0\<rparr>) s5))\<lparr>impl := event_impl env OS_EVENT_RESOURCE_DELETED i s5\<rparr>"
  define s7 where "s7 = ticked TBT (upd_common ?rb drop_ref s6)"
  have "OS_ObjectIdFinalizeDelete env OS_SUCCESS ?tk s5 = (OS_SUCCESS, tok OS_LOCK_MODE_NONE 0 TCT (index_of i) i, s6)"
    using FinalizeDelete_exclusive[of TCT s5 env OS_SUCCESS 0 "index_of i" i] s3(2) by (simp add: s5_def s6_def Let_def)
  moreover have "lock_free TBT s6" using s3(3) by (simp add: s6_def s5_def)
  then have "OS_ObjectIdRelease env (tok OS_LOCK_MODE_REFCOUNT key TBT (index_of tb) tb) s6 = (tok OS_LOCK_MODE_NONE 0 TBT (index_of tb) tb, s7)"
    by (simp add: OS_ObjectIdRelease_def TransactionFinish_unlocked s7_def final_record_def[abs_def])
  moreover have "OS_timecb_table s1 = OS_timecb_table s" by (simp add: s1_def)
  ultimately have res: "OS_TimerDelete env b i s = (OS_SUCCESS, s7)"
    using assms(4,9) get un key s3(8)
    by (simp add: OS_TimerDelete_def OS_ObjectIdTransferToken_def s3_def[symmetric] s5_def[symmetric] Let_def OS_ObjectIdDefined_def)
  have T7: "OS_timecb_table s7 = C" "OS_timebase_table s7 = B" by (simp_all add: s7_def s6_def s5_def)
  have C7: "OS_common_table s7 = (OS_common_table s3)(?ri := (drop_ref (OS_common_table s3 ?ri))\<lparr>active_id := 0\<rparr>, ?rb := drop_ref (OS_common_table s ?rb))"
    using rec(1) s3(9) by (simp add: s7_def s6_def s5_def)
  have "live TCT k s7" if "k \<in> set (remove1 i ids)" for k
  proof -
    have k: "k \<in> set ids" "k \<noteq> i" using that L by (auto simp: links_def)
    with others[OF k] timer_records[OF lv[OF k(1)] assms(5)] rec(2) show ?thesis by (simp add: live_def C7 record_of_eq)
  qed
  then have "timer_ring ?jb (remove1 i ids) s7"
    using L' T7 B by (simp add: timer_ring_def next_of_def[abs_def] prev_of_def[abs_def])
  moreover have "\<not> live TCT i s7" using i0 rec(1) by (simp add: live_def C7)
  moreover have "live TBT tb s7" "refcount (OS_common_table s7 ?rb) = refcount (OS_common_table s ?rb) - 1"
    using assms(5,11) by (simp_all add: live_def C7 drop_ref_def word_gt_0)
  moreover have "OS_timecb_table s7 k = OS_timecb_table s k" if "k \<notin> (unat \<circ> index_of) ` set ids" for k
    using that C[OF that] s3(7)[of k] assms(7) by (auto simp: T7)
  ultimately show ?thesis using res by blast
qed

lemma GetById_none_state:
  assumes "running s"
  obtains rc tk where "OS_ObjectIdGetById env OS_LOCK_MODE_NONE TCT i s = (rc, tk, s)"
  using GetById_none[OF assms, of TCT i env] GetById_none_dead[OF assms timer_max, of i env] by metis

lemma timer_link_tables:
  assumes "running s"
  shows "\<exists>C B. timer_link env tb tk s = with_timers C B s \<and> first_cb (B (unat (obj_idx tb))) = obj_id tk"
proof -
  let ?F = "first_cb (OS_timebase_table s (unat (obj_idx tb)))" and ?j = "unat (obj_idx tk)"
  obtain rc l where g: "OS_ObjectIdGetById env OS_LOCK_MODE_NONE TCT ?F s = (rc, l, s)" by (rule GetById_none_state[OF assms])
  let ?s1 = "upd_timecb ?j (\<lambda>cb. cb\<lparr>next_cb := obj_id l, prev_cb := prev_cb (OS_timecb_table s (unat (obj_idx l)))\<rparr>) s"
  obtain rc' l' where g': "OS_ObjectIdGetById env OS_LOCK_MODE_NONE TCT (prev_cb (OS_timecb_table s (unat (obj_idx l)))) ?s1 = (rc', l', ?s1)"
    using assms by (elim GetById_none_state[rotated]) simp
  show ?thesis
    by (cases "rc = OS_SUCCESS"; cases "rc' = OS_SUCCESS")
      (use g g' in \<open>auto simp: timer_link_def Let_def with_timers_upd\<close>, (intro exI conjI, rule refl, simp)+)
qed

text \<open>C31: Between the moment a new timer is linked into the ring and the moment its creation is finalized it
  heads a ring that cannot be entered: a tick in this time counts for the time base but reaches
  none of its timers, old or new, which all run late by that tick from then on.\<close>

theorem OS_TimerAdd_loses_tick:
  assumes "running s" "live TBT tb s" "obj_type token = TBT" "obj_idx token = index_of tb"
    and "cb_token = tok OS_LOCK_MODE_EXCLUSIVE 0 TCT (index_of i) i"
    and "active_id (OS_common_table s (record_of TCT (index_of i))) = OS_OBJECT_ID_RESERVED"
    and "s' = timer_link env token cb_token s"
  shows "process_tick env b tb token tick s' = Some (True, TimeBaseUnlock b token
    (upd_timebase (unat (index_of tb)) (\<lambda>t. t\<lparr>freerun_time := freerun_time t + tick\<rparr>) (TimeBaseLock b token s')))"
proof -
  let ?jb = "unat (index_of tb)"
  obtain C B where s': "s' = with_timers C B s" "first_cb (B ?jb) = i"
    using assms(1,4,5,7) timer_link_tables[of s env token cb_token] by auto
  let ?s2 = "upd_timebase ?jb (\<lambda>t. t\<lparr>freerun_time := freerun_time t + tick\<rparr>) (TimeBaseLock b token s')"
  have "\<not> live TCT i ?s2" using assms(6) id_of_type_facts(3)[of TCT i] by (auto simp: live_def s')
  then obtain tk where "OS_ObjectIdGetById env OS_LOCK_MODE_NONE TCT i ?s2 = (OS_ERR_INVALID_ID, tk, ?s2)"
    using assms(1) by (elim GetById_none_dead[OF _ timer_max, rotated]) (simp_all add: s')
  moreover have "active_id (OS_common_table s' (OS_ObjectIdGlobalFromToken token)) = tb"
    using assms(2-4) by (simp add: live_def OS_ObjectIdGlobalFromToken_def record_of_def s')
  ultimately show ?thesis using assms(4) s'(2) by (simp add: process_tick_def Let_def s'(1))
qed


subsection \<open>Instances\<close>

text \<open>The time base 0x80001 with two timers, linked both ways.\<close>

definition two_timers :: "nat os_state" where
  "two_timers = with_timers ((\<lambda>_. zero_timecb)
      (1 := (example_timer 5 10)\<lparr>next_cb := 0x90002, prev_cb := 0x90002, timebase_token := tok OS_LOCK_MODE_REFCOUNT 0 TBT 1 0x80001\<rparr>,
       2 := (example_timer 20 30)\<lparr>next_cb := 0x90001, prev_cb := 0x90001, timebase_token := tok OS_LOCK_MODE_REFCOUNT 0 TBT 1 0x80001\<rparr>))
    (OS_timebase_table (example_ring 0 :: nat os_state)) (example_ring 0)"

lemma timer_record_eq [simp]: "record_of TCT j = record_of TCT k \<longleftrightarrow> j = k" "record_of TCT j = record_of TBT k \<longleftrightarrow> j + 5 = k"
  "record_of TBT k = record_of TCT j \<longleftrightarrow> j + 5 = k"
  by (auto simp: record_of_def word_unat_eq_iff[symmetric] OS_GetBaseForObjectType_def os_base_defs os_max_defs)

lemma two_timers_facts:
  "running two_timers" "live TBT 0x80001 two_timers" "lock_free TBT two_timers" "lock_free TCT two_timers"
  "event_ok quiet_env two_timers" "\<not> timer_context quiet_env two_timers" "timer_ring 1 [0x90001, 0x90002] two_timers"
  "attached 0x80001 0x90001 two_timers" "free_slot TCT two_timers 3" "\<not> has_name TCT nm two_timers k"
  "refcount (OS_common_table two_timers (record_of TBT 1)) = 2" "refcount (OS_common_table two_timers (record_of TCT 1)) = 0"
proof -
  note ring = example_ring_facts[of "0 :: nat"]
  show "running two_timers" "live TBT 0x80001 two_timers" "lock_free TBT two_timers" "refcount (OS_common_table two_timers (record_of TBT 1)) = 2"
    using ring by (simp_all add: two_timers_def)
  show "lock_free TCT two_timers" "event_ok quiet_env two_timers" "\<not> timer_context quiet_env two_timers"
    by (simp_all add: two_timers_def with_timers_def example_ring_def fresh_state_def boot_state_def lock_free_def objtype_state_def zero_objtype_state_def
        event_ok_def zero_SharedGlobalVars_def timer_context_def quiet_env_def OS_ObjectIdToType_Impl_def)
  show "refcount (OS_common_table two_timers (record_of TCT 1)) = 0" "free_slot TCT two_timers 3" "\<not> has_name TCT nm two_timers k"
    by (auto simp: two_timers_def example_ring_def zero_common_record_def free_slot_def has_name_def OS_ObjectIdDefined_def
        OS_GetMaxForObjectType_def os_max_defs)
  show "attached 0x80001 0x90001 two_timers" by (simp add: attached_def two_timers_def)
  have "live TCT 0x90001 two_timers" "live TCT 0x90002 two_timers"
    using ring(3) by (simp_all add: ring_def two_timers_def)
  then show "timer_ring 1 [0x90001, 0x90002] two_timers"
    by (simp add: timer_ring_def links_def next_of_def prev_of_def two_timers_def) (simp add: example_ring_def)
qed

theorem OS_TimerAdd_ring_witness:
  "\<exists>i s'. OS_TimerAdd quiet_env (example_timebase_impl Suc) True (Some ''T3'') 0x80001 (Some 4) None two_timers = (OS_SUCCESS, Some i, s')
    \<and> timer_ring 1 [i, 0x90001, 0x90002] s' \<and> refcount (OS_common_table s' (record_of TBT 1)) = 3"
  using OS_TimerAdd_ring[of two_timers quiet_env "0x80001" "[0x90001, 0x90002]" "''T3''" "Some 4" 3 "example_timebase_impl Suc" None]
    two_timers_facts
  by (auto simp: OS_MAX_API_NAME_def)

theorem OS_TimerDelete_ring_witness:
  "\<exists>s'. OS_TimerDelete quiet_env (example_timebase_impl Suc) 0x90001 two_timers = (OS_SUCCESS, s')
    \<and> timer_ring 1 [0x90002] s' \<and> \<not> live TCT 0x90001 s' \<and> refcount (OS_common_table s' (record_of TBT 1)) = 1"
  using OS_TimerDelete_ring[of two_timers quiet_env "0x80001" "[0x90001, 0x90002]" "0x90001" "example_timebase_impl Suc"]
    two_timers_facts
  by (auto simp: two_timers_def example_timer_def zero_timecb_def)

theorem OS_TimerAdd_loses_tick_witness:
  "let s = upd_common (record_of TCT 3) (\<lambda>ob. ob\<lparr>active_id := OS_OBJECT_ID_RESERVED\<rparr>) two_timers;
       token = tok OS_LOCK_MODE_NONE 0 TBT 1 0x80001;
       s' = timer_link quiet_env token (tok OS_LOCK_MODE_EXCLUSIVE 0 TCT 3 0x90003) s
   in \<exists>x. process_tick quiet_env (example_timebase_impl Suc) 0x80001 token 18 s' = Some (True, x)
     \<and> OS_timecb_table x = OS_timecb_table s'"
proof -
  let ?s = "upd_common (record_of TCT 3) (\<lambda>ob. ob\<lparr>active_id := OS_OBJECT_ID_RESERVED\<rparr>) two_timers"
  have "index_of 0x90003 = 3"
    by (simp add: index_of_def OS_ObjectIdToSerialNumber_Impl_def OS_ObjectIdToType_Impl_def OS_GetMaxForObjectType_def os_max_defs)
  moreover have "running ?s" "live TBT 0x80001 ?s" using two_timers_facts by (simp_all add: running_def live_def)
  ultimately show ?thesis
    using OS_TimerAdd_loses_tick[of ?s "0x80001" "tok OS_LOCK_MODE_NONE 0 TBT 1 0x80001" _ "0x90003" _ quiet_env "example_timebase_impl Suc" 18, OF _ _ _ _ refl _ refl]
    by (simp add: Let_def)
qed

end
