(* ===== verification/Filesys.thy ===== *)
theory Filesys
  imports Object_Lifecycle
begin

unbundle bit_operations_syntax

text \<open>
  File systems and the virtual path name space, \<^verbatim>\<open>src/src/os/shared/src/osapi-filesys.c\<close>,
  with the POSIX implementation \<^verbatim>\<open>src/src/os/posix/src/os-impl-filesys.c\<close>. A file system
  has a place in the host (\<open>system_mountpt\<close>) and a place in the name space that applications see
  (\<open>virtual_mountpt\<close>); \<open>OS_TranslatePath\<close> maps the second to the first.

  A function of the implementation layer that fills in fields of the file system's record returns
  the new record.
\<close>

subsection \<open>Operations\<close>

definition OS_FILESYS_FLAG_IS_FIXED :: u8 where "OS_FILESYS_FLAG_IS_FIXED = 0x01"
definition OS_FILESYS_FLAG_IS_READY :: u8 where "OS_FILESYS_FLAG_IS_READY = 0x02"
definition OS_FILESYS_FLAG_IS_MOUNTED_SYSTEM :: u8 where "OS_FILESYS_FLAG_IS_MOUNTED_SYSTEM = 0x10"
definition OS_FILESYS_FLAG_IS_MOUNTED_VIRTUAL :: u8 where "OS_FILESYS_FLAG_IS_MOUNTED_VIRTUAL = 0x20"

lemmas fs_flag_defs = OS_FILESYS_FLAG_IS_FIXED_def OS_FILESYS_FLAG_IS_READY_def
  OS_FILESYS_FLAG_IS_MOUNTED_SYSTEM_def OS_FILESYS_FLAG_IS_MOUNTED_VIRTUAL_def

abbreviation (input) OS_FILESYS_TYPE_UNKNOWN :: u8 where "OS_FILESYS_TYPE_UNKNOWN \<equiv> 0"
abbreviation (input) OS_FILESYS_TYPE_FS_BASED :: u8 where "OS_FILESYS_TYPE_FS_BASED \<equiv> 1"
abbreviation (input) OS_FILESYS_TYPE_NORMAL_DISK :: u8 where "OS_FILESYS_TYPE_NORMAL_DISK \<equiv> 2"
abbreviation (input) OS_FILESYS_TYPE_VOLATILE_DISK :: u8 where "OS_FILESYS_TYPE_VOLATILE_DISK \<equiv> 3"

record OS_statvfs =
  block_size :: nat
  total_blocks :: nat
  blocks_free :: nat

record os_fsinfo =
  MaxFds :: u32
  FreeFds :: u32
  MaxVolumes :: u32
  FreeVolumes :: u32

record 'i filesys_impl =
  OS_FileSysStartVolume_Impl :: "OS_object_token \<Rightarrow> 'i os_state \<Rightarrow> status \<times> OS_filesys_internal_record \<times> 'i"
  OS_FileSysStopVolume_Impl :: "OS_object_token \<Rightarrow> 'i os_state \<Rightarrow> status \<times> 'i"
  OS_FileSysFormatVolume_Impl :: "OS_object_token \<Rightarrow> 'i os_state \<Rightarrow> status \<times> 'i"
  OS_FileSysMountVolume_Impl :: "OS_object_token \<Rightarrow> 'i os_state \<Rightarrow> status \<times> 'i"
  OS_FileSysUnmountVolume_Impl :: "OS_object_token \<Rightarrow> 'i os_state \<Rightarrow> status \<times> 'i"
  OS_FileSysStatVolume_Impl :: "OS_object_token \<Rightarrow> 'i os_state \<Rightarrow> status \<times> OS_statvfs option"
  OS_FileSysCheckVolume_Impl :: "OS_object_token \<Rightarrow> bool \<Rightarrow> 'i os_state \<Rightarrow> status \<times> 'i"

definition OS_FILESYS_RAMDISK_VOLNAME_PREFIX :: string where
  "OS_FILESYS_RAMDISK_VOLNAME_PREFIX = ''RAM''"

definition upd_filesys ::
    "nat \<Rightarrow> (OS_filesys_internal_record \<Rightarrow> OS_filesys_internal_record) \<Rightarrow> 'i os_state \<Rightarrow> 'i os_state" where
  "upd_filesys j f s = s\<lparr>OS_filesys_table := (OS_filesys_table s)(j := f (OS_filesys_table s j))\<rparr>"

text \<open>\<^verbatim>\<open>strncmp(s, prefix, strlen(prefix)) == 0\<close>.\<close>

definition strncmp_prefix :: "string \<Rightarrow> string \<Rightarrow> bool" where
  "strncmp_prefix cs pre \<longleftrightarrow> take (length pre) cs = pre"

definition OS_FileSysFilterFree :: "'i match_func" where
  "OS_FileSysFilterFree s token obj \<longleftrightarrow> \<not> OS_ObjectIdDefined (active_id obj)"

definition OS_FileSys_FindVirtMountPoint :: "string \<Rightarrow> 'i match_func" where
  "OS_FileSys_FindVirtMountPoint target s token obj \<longleftrightarrow>
    (let filesys = OS_filesys_table s (unat (obj_idx token));
         mplen = OS_strnlen (virtual_mountpt filesys) OS_MAX_PATH_LEN
     in fs_flags filesys AND OS_FILESYS_FLAG_IS_MOUNTED_VIRTUAL \<noteq> 0
      \<and> \<not> (mplen = 0 \<or> mplen \<ge> OS_MAX_PATH_LEN \<or> \<not> strncmp_prefix target (take mplen (virtual_mountpt filesys)))
      \<and> (length target = mplen \<or> target ! mplen = CHR ''/''))"

definition filesys_init :: "name_ptr \<Rightarrow> OS_filesys_internal_record \<Rightarrow> OS_object_token \<Rightarrow> 'i os_state \<Rightarrow> 'i os_state" where
  "filesys_init p rec token s =
     upd_common (OS_ObjectIdGlobalFromToken token) (\<lambda>ob. ob\<lparr>name_entry := Some p\<rparr>)
       (upd_filesys (unat (obj_idx token)) (\<lambda>_. rec) s)"

text \<open>The record of a new file system before the implementation is called.\<close>

definition Initialize_record :: "ptr \<Rightarrow> string \<Rightarrow> string \<Rightarrow> nat \<Rightarrow> nat \<Rightarrow> OS_filesys_internal_record" where
  "Initialize_record address fsdevname fsvolname bsize bcount =
    (let fs = zero_filesys\<lparr>device_name := strncpy_cleared fsdevname OS_FS_DEV_NAME_LEN, blocksize := bsize, numblocks := bcount,
                           fs_address := address, volume_name := strncpy_cleared fsvolname OS_FS_VOL_NAME_LEN\<rparr>
     in if fs_address fs \<noteq> None \<or> strncmp_prefix (volume_name fs) OS_FILESYS_RAMDISK_VOLNAME_PREFIX
        then fs\<lparr>fstype := OS_FILESYS_TYPE_VOLATILE_DISK\<rparr> else fs)"

text \<open>Start, format if asked for, and mark ready; the volume is stopped again when formatting fails.\<close>

definition Initialize_volume :: "'i filesys_impl \<Rightarrow> bool \<Rightarrow> OS_object_token \<Rightarrow> 'i os_state \<Rightarrow> status \<times> 'i os_state" where
  "Initialize_volume f should_format token s =
    (let j = unat (obj_idx token)
     in case OS_FileSysStartVolume_Impl f token s of
          (st1, rec, a1) \<Rightarrow>
            let s1 = (upd_filesys j (\<lambda>_. rec) s)\<lparr>impl := a1\<rparr>
            in if st1 \<noteq> OS_SUCCESS then (st1, s1)
               else
                 case (if should_format then OS_FileSysFormatVolume_Impl f token s1 else (OS_SUCCESS, impl s1)) of
                   (st2, a2) \<Rightarrow>
                     let s2 = s1\<lparr>impl := a2\<rparr>
                     in if st2 = OS_SUCCESS
                        then (st2, upd_filesys j (\<lambda>fs. fs\<lparr>fs_flags := fs_flags fs OR OS_FILESYS_FLAG_IS_READY\<rparr>) s2)
                        else (st2, s2\<lparr>impl := snd (OS_FileSysStopVolume_Impl f token s2)\<rparr>))"

definition OS_FileSys_Initialize ::
    "'i idmap_env \<Rightarrow> 'i filesys_impl \<Rightarrow> ptr \<Rightarrow> string option \<Rightarrow> string option \<Rightarrow> nat \<Rightarrow> nat \<Rightarrow> bool \<Rightarrow> 'i os_state
      \<Rightarrow> status \<times> 'i os_state" where
  "OS_FileSys_Initialize env f address fsdevname fsvolname bsize bcount should_format s =
    (case fsdevname of
       None \<Rightarrow> (OS_INVALID_POINTER, s)
     | Some dev \<Rightarrow>
         (if \<not> LENGTHCHECK dev OS_FS_DEV_NAME_LEN then (OS_FS_ERR_PATH_TOO_LONG, s)
          else
            case fsvolname of
              None \<Rightarrow> (OS_INVALID_POINTER, s)
            | Some vol \<Rightarrow>
                (if \<not> LENGTHCHECK vol OS_FS_VOL_NAME_LEN then (OS_FS_ERR_PATH_TOO_LONG, s)
                 else if dev = [] \<or> vol = [] then (OS_FS_ERR_PATH_INVALID, s)
                 else
                   case OS_ObjectIdAllocateNew env OS_OBJECT_TYPE_OS_FILESYS (Some dev) s of
                     (return_code, token, s1) \<Rightarrow>
                       (if return_code = OS_SUCCESS then
                          let s2 = filesys_init (Filesys_device_name (unat (obj_idx token)))
                                     (Initialize_record address dev vol bsize bcount) token s1;
                              (st, s3) = Initialize_volume f should_format token s2
                          in (case OS_ObjectIdFinalizeNew env st token s3 of (st', i, token', s4) \<Rightarrow> (st', s4))
                        else (return_code, s1)))))"

definition OS_FileSysAPI_Init :: "'i os_state \<Rightarrow> status \<times> 'i os_state" where
  "OS_FileSysAPI_Init s = (OS_SUCCESS, s\<lparr>OS_filesys_table := (\<lambda>_. zero_filesys)\<rparr>)"

definition FixedMap_record :: "string \<Rightarrow> string \<Rightarrow> OS_filesys_internal_record" where
  "FixedMap_record phys_path virt_path =
     zero_filesys\<lparr>virtual_mountpt := strncpy_cleared virt_path OS_MAX_PATH_LEN,
       system_mountpt := strncpy_cleared phys_path OS_MAX_LOCAL_PATH_LEN,
       fstype := OS_FILESYS_TYPE_FS_BASED, fs_flags := OS_FILESYS_FLAG_IS_FIXED\<rparr>"

definition FixedMap_volume :: "'i filesys_impl \<Rightarrow> OS_object_token \<Rightarrow> 'i os_state \<Rightarrow> status \<times> 'i os_state" where
  "FixedMap_volume f token s =
    (let j = unat (obj_idx token)
     in case OS_FileSysStartVolume_Impl f token s of
          (st1, rec, a1) \<Rightarrow>
            let s1 = (upd_filesys j (\<lambda>_. rec) s)\<lparr>impl := a1\<rparr>
            in if st1 \<noteq> OS_SUCCESS then (st1, s1)
               else
                 let s2 = upd_filesys j (\<lambda>fs. fs\<lparr>fs_flags := fs_flags fs OR OS_FILESYS_FLAG_IS_READY\<rparr>) s1
                 in case OS_FileSysMountVolume_Impl f token s2 of
                      (st2, a2) \<Rightarrow>
                        let s3 = s2\<lparr>impl := a2\<rparr>
                        in if st2 = OS_SUCCESS
                           then (st2, upd_filesys j (\<lambda>fs. fs\<lparr>fs_flags := fs_flags fs OR
                                   (OS_FILESYS_FLAG_IS_MOUNTED_SYSTEM OR OS_FILESYS_FLAG_IS_MOUNTED_VIRTUAL)\<rparr>) s3)
                           else (st2, s3))"

definition OS_FileSysAddFixedMap ::
    "'i idmap_env \<Rightarrow> 'i filesys_impl \<Rightarrow> bool \<Rightarrow> string option \<Rightarrow> string option \<Rightarrow> 'i os_state
      \<Rightarrow> status \<times> osal_id_t option \<times> 'i os_state" where
  "OS_FileSysAddFixedMap env f has_id phys_path virt_path s =
    (if \<not> has_id then (OS_INVALID_POINTER, None, s)
     else
       case phys_path of
         None \<Rightarrow> (OS_INVALID_POINTER, None, s)
       | Some phys \<Rightarrow>
           (if \<not> LENGTHCHECK phys OS_MAX_LOCAL_PATH_LEN then (OS_FS_ERR_PATH_TOO_LONG, None, s)
            else
              case virt_path of
                None \<Rightarrow> (OS_INVALID_POINTER, None, s)
              | Some virt \<Rightarrow>
                  (if \<not> LENGTHCHECK virt OS_MAX_PATH_LEN then (OS_FS_ERR_PATH_TOO_LONG, None, s)
                   else
                     case OS_ObjectIdAllocateNew env OS_OBJECT_TYPE_OS_FILESYS (Some virt) s of
                       (return_code, token, s1) \<Rightarrow>
                         (if return_code = OS_SUCCESS then
                            let s2 = filesys_init (Filesys_virtual_mountpt (unat (obj_idx token)))
                                       (FixedMap_record phys virt) token s1;
                                (st, s3) = FixedMap_volume f token s2
                            in (case OS_ObjectIdFinalizeNew env st token s3 of (st', i, token', s4) \<Rightarrow> (st', Some i, s4))
                          else (return_code, None, s1)))))"

definition historic_code :: "status \<Rightarrow> status" where
  "historic_code return_code =
    (if return_code = OS_ERR_INCORRECT_OBJ_STATE \<or> return_code = OS_ERR_NO_FREE_IDS then OS_FS_ERR_DEVICE_NOT_FREE
     else return_code)"

definition OS_mkfs ::
    "'i idmap_env \<Rightarrow> 'i filesys_impl \<Rightarrow> ptr \<Rightarrow> string option \<Rightarrow> string option \<Rightarrow> nat \<Rightarrow> nat \<Rightarrow> 'i os_state \<Rightarrow> status \<times> 'i os_state" where
  "OS_mkfs env f address devname volname bsize bcount s =
    (case OS_FileSys_Initialize env f address devname volname bsize bcount True s of
       (return_code, s1) \<Rightarrow> (historic_code return_code, s1))"

definition OS_rmfs :: "'i idmap_env \<Rightarrow> 'i filesys_impl \<Rightarrow> string option \<Rightarrow> 'i os_state \<Rightarrow> status \<times> 'i os_state" where
  "OS_rmfs env f devname s =
    (case devname of
       None \<Rightarrow> (OS_INVALID_POINTER, s)
     | Some dev \<Rightarrow>
         (if \<not> LENGTHCHECK dev OS_MAX_PATH_LEN then (OS_FS_ERR_PATH_TOO_LONG, s)
          else
            case OS_ObjectIdGetByName env OS_LOCK_MODE_EXCLUSIVE OS_OBJECT_TYPE_OS_FILESYS dev s of
              (return_code, token, s1) \<Rightarrow>
                (if return_code = OS_SUCCESS then
                   (case OS_FileSysStopVolume_Impl f token s1 of
                      (st, a) \<Rightarrow>
                        (case OS_ObjectIdFinalizeDelete env st token (s1\<lparr>impl := a\<rparr>) of (st', token', s2) \<Rightarrow> (st', s2)))
                 else (OS_ERR_NAME_NOT_FOUND, s1))))"

definition OS_initfs ::
    "'i idmap_env \<Rightarrow> 'i filesys_impl \<Rightarrow> ptr \<Rightarrow> string option \<Rightarrow> string option \<Rightarrow> nat \<Rightarrow> nat \<Rightarrow> 'i os_state \<Rightarrow> status \<times> 'i os_state" where
  "OS_initfs env f address devname volname bsize bcount s =
    (case OS_FileSys_Initialize env f address devname volname bsize bcount False s of
       (return_code, s1) \<Rightarrow> (historic_code return_code, s1))"

definition OS_mount ::
    "'i idmap_env \<Rightarrow> 'i filesys_impl \<Rightarrow> string option \<Rightarrow> string option \<Rightarrow> 'i os_state \<Rightarrow> status \<times> 'i os_state" where
  "OS_mount env f devname mountpoint s =
    (case devname of
       None \<Rightarrow> (OS_INVALID_POINTER, s)
     | Some dev \<Rightarrow>
         (if \<not> LENGTHCHECK dev OS_FS_DEV_NAME_LEN then (OS_FS_ERR_PATH_TOO_LONG, s)
          else
            case mountpoint of
              None \<Rightarrow> (OS_INVALID_POINTER, s)
            | Some mp \<Rightarrow>
                (if \<not> LENGTHCHECK mp OS_MAX_PATH_LEN then (OS_FS_ERR_PATH_TOO_LONG, s)
                 else
                   case OS_ObjectIdGetByName env OS_LOCK_MODE_GLOBAL OS_OBJECT_TYPE_OS_FILESYS dev s of
                     (return_code, token, s1) \<Rightarrow>
                       (if return_code = OS_SUCCESS then
                          let j = unat (obj_idx token);
                              fs = OS_filesys_table s1 j;
                              (st, a) = (if fs_flags fs AND NOT OS_FILESYS_FLAG_IS_FIXED \<noteq> OS_FILESYS_FLAG_IS_READY
                                         then (OS_ERR_INCORRECT_OBJ_STATE, impl s1)
                                         else if system_mountpt fs = [] then (OS_FS_ERR_PATH_INVALID, impl s1)
                                         else OS_FileSysMountVolume_Impl f token s1);
                              s2 = s1\<lparr>impl := a\<rparr>;
                              s3 = (if st = OS_SUCCESS
                                    then upd_filesys j (\<lambda>fs. fs\<lparr>fs_flags := fs_flags fs OR
                                           (OS_FILESYS_FLAG_IS_MOUNTED_SYSTEM OR OS_FILESYS_FLAG_IS_MOUNTED_VIRTUAL),
                                           virtual_mountpt := strncpy_cleared mp OS_MAX_PATH_LEN\<rparr>) s2
                                    else s2)
                          in (if st = OS_SUCCESS then st else OS_ERR_NAME_NOT_FOUND, snd (OS_ObjectIdRelease env token s3))
                        else (OS_ERR_NAME_NOT_FOUND, s1)))))"

definition OS_unmount :: "'i idmap_env \<Rightarrow> 'i filesys_impl \<Rightarrow> string option \<Rightarrow> 'i os_state \<Rightarrow> status \<times> 'i os_state" where
  "OS_unmount env f mountpoint s =
    (case mountpoint of
       None \<Rightarrow> (OS_INVALID_POINTER, s)
     | Some mp \<Rightarrow>
         (if \<not> LENGTHCHECK mp OS_MAX_PATH_LEN then (OS_FS_ERR_PATH_TOO_LONG, s)
          else
            case OS_ObjectIdGetBySearch env OS_LOCK_MODE_GLOBAL OS_OBJECT_TYPE_OS_FILESYS (OS_FileSys_FindVirtMountPoint mp) s of
              (return_code, token, s1) \<Rightarrow>
                (if return_code = OS_SUCCESS then
                   let j = unat (obj_idx token);
                       fs = OS_filesys_table s1 j;
                       mounted = OS_FILESYS_FLAG_IS_READY OR OS_FILESYS_FLAG_IS_MOUNTED_SYSTEM OR OS_FILESYS_FLAG_IS_MOUNTED_VIRTUAL;
                       (st, a) = (if fs_flags fs AND NOT OS_FILESYS_FLAG_IS_FIXED \<noteq> mounted
                                  then (OS_ERR_INCORRECT_OBJ_STATE, impl s1)
                                  else OS_FileSysUnmountVolume_Impl f token s1);
                       s2 = s1\<lparr>impl := a\<rparr>;
                       s3 = (if st = OS_SUCCESS
                             then upd_filesys j (\<lambda>fs. fs\<lparr>fs_flags := fs_flags fs AND
                                    NOT (OS_FILESYS_FLAG_IS_MOUNTED_SYSTEM OR OS_FILESYS_FLAG_IS_MOUNTED_VIRTUAL)\<rparr>) s2
                             else s2)
                   in (if st = OS_SUCCESS then st else OS_ERR_NAME_NOT_FOUND, snd (OS_ObjectIdRelease env token s3))
                 else (OS_ERR_NAME_NOT_FOUND, s1))))"

definition OS_FileSysStatVolume ::
    "'i idmap_env \<Rightarrow> 'i filesys_impl \<Rightarrow> string option \<Rightarrow> bool \<Rightarrow> 'i os_state \<Rightarrow> status \<times> OS_statvfs option \<times> 'i os_state" where
  "OS_FileSysStatVolume env f name has_statbuf s =
    (case name of
       None \<Rightarrow> (OS_INVALID_POINTER, None, s)
     | Some nm \<Rightarrow>
         (if \<not> LENGTHCHECK nm OS_MAX_PATH_LEN then (OS_FS_ERR_PATH_TOO_LONG, None, s)
          else if \<not> has_statbuf then (OS_INVALID_POINTER, None, s)
          else
            case OS_ObjectIdGetBySearch env OS_LOCK_MODE_GLOBAL OS_OBJECT_TYPE_OS_FILESYS (OS_FileSys_FindVirtMountPoint nm) s of
              (return_code, token, s1) \<Rightarrow>
                (if return_code = OS_SUCCESS
                 then (case OS_FileSysStatVolume_Impl f token s1 of
                         (st, buf) \<Rightarrow> (st, buf, snd (OS_ObjectIdRelease env token s1)))
                 else (return_code, None, s1))))"

definition OS_chkfs ::
    "'i idmap_env \<Rightarrow> 'i filesys_impl \<Rightarrow> string option \<Rightarrow> bool \<Rightarrow> 'i os_state \<Rightarrow> status \<times> 'i os_state" where
  "OS_chkfs env f name repair s =
    (case name of
       None \<Rightarrow> (OS_INVALID_POINTER, s)
     | Some nm \<Rightarrow>
         (if \<not> LENGTHCHECK nm OS_MAX_PATH_LEN then (OS_FS_ERR_PATH_TOO_LONG, s)
          else
            case OS_ObjectIdGetBySearch env OS_LOCK_MODE_REFCOUNT OS_OBJECT_TYPE_OS_FILESYS (OS_FileSys_FindVirtMountPoint nm) s of
              (return_code, token, s1) \<Rightarrow>
                (if return_code = OS_SUCCESS
                 then (case OS_FileSysCheckVolume_Impl f token repair s1 of
                         (st, a) \<Rightarrow> (st, snd (OS_ObjectIdRelease env token (s1\<lparr>impl := a\<rparr>))))
                 else (return_code, s1))))"

text \<open>The buffer is only written on success.\<close>

definition OS_FS_GetPhysDriveName ::
    "'i idmap_env \<Rightarrow> bool \<Rightarrow> string option \<Rightarrow> 'i os_state \<Rightarrow> status \<times> string option \<times> 'i os_state" where
  "OS_FS_GetPhysDriveName env has_buffer MountPoint s =
    (case MountPoint of
       None \<Rightarrow> (OS_INVALID_POINTER, None, s)
     | Some mp \<Rightarrow>
         (if \<not> LENGTHCHECK mp OS_MAX_PATH_LEN then (OS_FS_ERR_PATH_TOO_LONG, None, s)
          else if \<not> has_buffer then (OS_INVALID_POINTER, None, s)
          else
            case OS_ObjectIdGetBySearch env OS_LOCK_MODE_GLOBAL OS_OBJECT_TYPE_OS_FILESYS (OS_FileSys_FindVirtMountPoint mp) s of
              (return_code, token, s1) \<Rightarrow>
                (if return_code = OS_SUCCESS then
                   let fs = OS_filesys_table s1 (unat (obj_idx token));
                       s2 = snd (OS_ObjectIdRelease env token s1)
                   in if fs_flags fs AND OS_FILESYS_FLAG_IS_MOUNTED_SYSTEM \<noteq> 0
                      then (OS_SUCCESS, Some (take (OS_FS_PHYS_NAME_LEN - 1) (system_mountpt fs)), s2)
                      else (OS_ERR_INCORRECT_OBJ_STATE, None, s2)
                 else (OS_ERR_NAME_NOT_FOUND, None, s1))))"

text \<open>
  The two loops of \<open>OS_GetFsInfo\<close>: the number of records that the iterator still visits. The
  iterator's filter reads the state, which the loop does not change.
\<close>

function GetFsInfo_loop :: "'i OS_object_iter \<Rightarrow> 'i os_state \<Rightarrow> u32 \<Rightarrow> u32 \<times> 'i OS_object_iter" where
  "GetFsInfo_loop iter s n =
    (case OS_ObjectIdIteratorGetNext iter s of
       (False, iter1) \<Rightarrow> (n, iter1)
     | (True, iter1) \<Rightarrow> GetFsInfo_loop iter1 s (n + 1))"
  by pat_completeness auto

lemma GetNext_decreases:
  assumes "(True, iter1) = OS_ObjectIdIteratorGetNext iter s"
  shows "unat (iter_limit iter1) - unat (obj_idx (iter_token iter1) + 1)
    < unat (iter_limit iter) - unat (obj_idx (iter_token iter) + 1)"
  using GetNext_advances[OF assms[symmetric]]
    unat_plus1_less[of "obj_idx (iter_token iter1)" "iter_limit iter"]
  by (simp add: word_less_nat_alt word_le_nat_alt) linarith

termination GetFsInfo_loop
  by (relation "measure (\<lambda>(iter, s, n). unat (iter_limit iter) - unat (obj_idx (iter_token iter) + 1))")
    (auto intro: GetNext_decreases)

declare GetFsInfo_loop.simps [simp del]

definition GetFsInfo_count :: "'i idmap_env \<Rightarrow> osal_objtype_t \<Rightarrow> 'i os_state \<Rightarrow> u32 \<times> 'i os_state" where
  "GetFsInfo_count env objtype s =
    (case OS_ObjectIdIteratorInit env (Some OS_FileSysFilterFree) objtype s of
       (_, iter, s1) \<Rightarrow>
         (case GetFsInfo_loop iter s1 0 of
            (n, iter1) \<Rightarrow> (n, snd (OS_ObjectIdIteratorDestroy iter1 s1))))"

definition OS_GetFsInfo :: "'i idmap_env \<Rightarrow> bool \<Rightarrow> 'i os_state \<Rightarrow> status \<times> os_fsinfo option \<times> 'i os_state" where
  "OS_GetFsInfo env has_info s =
    (if \<not> has_info then (OS_INVALID_POINTER, None, s)
     else
       case GetFsInfo_count env OS_OBJECT_TYPE_OS_STREAM s of
         (fds, s1) \<Rightarrow>
           (case GetFsInfo_count env OS_OBJECT_TYPE_OS_FILESYS s1 of
              (vols, s2) \<Rightarrow>
                (OS_SUCCESS,
                 Some \<lparr>MaxFds = OS_MAX_NUM_OPEN_FILES, FreeFds = fds,
                       MaxVolumes = OS_MAX_FILE_SYSTEMS, FreeVolumes = vols\<rparr>, s2)))"

text \<open>\<^verbatim>\<open>strrchr(s, '/')\<close>: the text after the last separator, and \<^verbatim>\<open>strstr\<close>.\<close>

definition strrchr_slash :: "string \<Rightarrow> string option" where
  "strrchr_slash cs = (if CHR ''/'' \<in> set cs then Some (rev (takeWhile (\<lambda>c. c \<noteq> CHR ''/'') (rev cs))) else None)"

fun strstr :: "string \<Rightarrow> string \<Rightarrow> bool" where
  "strstr [] pat = (pat = [])"
| "strstr (c # cs) pat = (take (length pat) (c # cs) = pat \<or> strstr cs pat)"

text \<open>
  \<open>OS_TranslatePath\<close>. The second component is the local path that a successful call writes; a call
  that fails after the file system was found leaves a fragment without terminator in the buffer.
\<close>

definition TranslatePath_check :: "string \<Rightarrow> status" where
  "TranslatePath_check VirtualPath =
    (if OS_strnlen VirtualPath OS_MAX_PATH_LEN \<ge> OS_MAX_PATH_LEN then OS_FS_ERR_PATH_TOO_LONG
     else
       case strrchr_slash VirtualPath of
         None \<Rightarrow> OS_FS_ERR_PATH_INVALID
       | Some name \<Rightarrow>
           (if length name \<ge> OS_MAX_FILE_NAME then OS_FS_ERR_NAME_TOO_LONG
            else if VirtualPath ! 0 \<noteq> CHR ''/'' then OS_FS_ERR_PATH_INVALID
            else if strstr VirtualPath ''..'' then OS_FS_ERR_PATH_INVALID
            else OS_SUCCESS))"

definition TranslatePath_join :: "OS_filesys_internal_record \<Rightarrow> string \<Rightarrow> status \<times> string option" where
  "TranslatePath_join filesys VirtualPath =
    (let VirtPathLen = OS_strnlen VirtualPath OS_MAX_PATH_LEN;
         SysMountPointLen = OS_strnlen (system_mountpt filesys) OS_MAX_LOCAL_PATH_LEN;
         VirtPathBegin = OS_strnlen (virtual_mountpt filesys) OS_MAX_PATH_LEN
     in if VirtPathLen < VirtPathBegin then (OS_FS_ERR_PATH_INVALID, None)
        else if SysMountPointLen + (VirtPathLen - VirtPathBegin) < OS_MAX_LOCAL_PATH_LEN
        then (OS_SUCCESS, Some (take SysMountPointLen (system_mountpt filesys) @ drop VirtPathBegin VirtualPath))
        else (OS_FS_ERR_PATH_TOO_LONG, None))"

definition OS_TranslatePath ::
    "'i idmap_env \<Rightarrow> string option \<Rightarrow> bool \<Rightarrow> 'i os_state \<Rightarrow> status \<times> string option \<times> 'i os_state" where
  "OS_TranslatePath env path has_local s =
    (case path of
       None \<Rightarrow> (OS_INVALID_POINTER, None, s)
     | Some VirtualPath \<Rightarrow>
         (if \<not> has_local then (OS_INVALID_POINTER, None, s)
          else if TranslatePath_check VirtualPath \<noteq> OS_SUCCESS then (TranslatePath_check VirtualPath, None, s)
          else
            case OS_ObjectIdGetBySearch env OS_LOCK_MODE_GLOBAL OS_OBJECT_TYPE_OS_FILESYS
                   (OS_FileSys_FindVirtMountPoint VirtualPath) s of
              (return_code, token, s1) \<Rightarrow>
                (if return_code \<noteq> OS_SUCCESS then (OS_FS_ERR_PATH_INVALID, None, s1)
                 else
                   let filesys = OS_filesys_table s1 (unat (obj_idx token));
                       s2 = snd (OS_ObjectIdRelease env token s1)
                   in if fs_flags filesys AND OS_FILESYS_FLAG_IS_MOUNTED_SYSTEM \<noteq> 0
                      then (case TranslatePath_join filesys VirtualPath of (st, local) \<Rightarrow> (st, local, s2))
                      else (OS_ERR_INCORRECT_OBJ_STATE, None, s2))))"

subsection \<open>The POSIX implementation\<close>

text \<open>
  What the implementation uses of the host: the environment, the identity of the process, and the
  directory tree, which \<^verbatim>\<open>mkdir\<close> changes.
\<close>

record posix_stat =
  st_mode :: u32
  st_uid :: u32
  st_gid :: u32

record 'i posix_host =
  px_getenv :: "string \<Rightarrow> string option"
  px_geteuid :: u32
  px_getegid :: u32
  px_stat :: "string \<Rightarrow> 'i \<Rightarrow> posix_stat option"
  px_mkdir :: "string \<Rightarrow> u32 \<Rightarrow> 'i \<Rightarrow> int \<times> 'i"
  px_statvfs :: "string \<Rightarrow> 'i \<Rightarrow> OS_statvfs option"

abbreviation (input) S_IWUSR :: u32 where "S_IWUSR \<equiv> 0x80"
abbreviation (input) S_IWGRP :: u32 where "S_IWGRP \<equiv> 0x10"
abbreviation (input) S_IWOTH :: u32 where "S_IWOTH \<equiv> 0x2"
abbreviation (input) S_IFMT :: u32 where "S_IFMT \<equiv> 0xF000"
abbreviation (input) S_IFDIR :: u32 where "S_IFDIR \<equiv> 0x4000"

definition OS_POSIX_DEVICEFILE_PREFIX :: string where "OS_POSIX_DEVICEFILE_PREFIX = ''/dev/''"

definition posix_writable :: "'i posix_host \<Rightarrow> posix_stat \<Rightarrow> bool" where
  "posix_writable h buf \<longleftrightarrow>
     st_mode buf AND S_IWOTH \<noteq> 0
   \<or> (st_mode buf AND S_IWGRP \<noteq> 0 \<and> st_gid buf = px_getegid h)
   \<or> (st_mode buf AND S_IWUSR \<noteq> 0 \<and> st_uid buf = px_geteuid h)"

fun volatile_location :: "'i posix_host \<Rightarrow> 'i \<Rightarrow> string option list \<Rightarrow> string option" where
  "volatile_location h a [] = None"
| "volatile_location h a (None # rest) = volatile_location h a rest"
| "volatile_location h a (Some tmpdir # rest) =
    (case px_stat h tmpdir a of
       Some buf \<Rightarrow> if posix_writable h buf then Some tmpdir else volatile_location h a rest
     | None \<Rightarrow> volatile_location h a rest)"

definition volatile_mountpt :: "string \<Rightarrow> string \<Rightarrow> string" where
  "volatile_mountpt tmpdir vol =
    (let full = tmpdir @ ''/osal:'';
         mplen = length full
     in if mplen < OS_MAX_LOCAL_PATH_LEN then
          let vollen = OS_strnlen vol OS_FS_VOL_NAME_LEN;
              n = (if vollen + mplen \<ge> OS_MAX_LOCAL_PATH_LEN then OS_MAX_LOCAL_PATH_LEN - mplen - 1 else vollen)
          in full @ take n vol
        else take (OS_MAX_LOCAL_PATH_LEN - 1) full)"

definition posix_FileSysStartVolume ::
    "'i posix_host \<Rightarrow> OS_object_token \<Rightarrow> 'i os_state \<Rightarrow> status \<times> OS_filesys_internal_record \<times> 'i" where
  "posix_FileSysStartVolume h token s =
    (let local = OS_filesys_table s (unat (obj_idx token));
         local1 = (if fstype local = OS_FILESYS_TYPE_UNKNOWN \<and> strncmp_prefix (device_name local) OS_POSIX_DEVICEFILE_PREFIX
                   then local\<lparr>fstype := OS_FILESYS_TYPE_NORMAL_DISK\<rparr> else local)
     in if fstype local1 = OS_FILESYS_TYPE_VOLATILE_DISK then
          (case volatile_location h (impl s)
                  [Some ''/dev/shm'', px_getenv h ''TMPDIR'', Some ''/var/tmp'', Some ''/tmp''] of
             None \<Rightarrow> (OS_FS_ERR_DRIVE_NOT_CREATED, local1, impl s)
           | Some tmpdir \<Rightarrow>
               (OS_SUCCESS, local1\<lparr>system_mountpt := volatile_mountpt tmpdir (volume_name local1)\<rparr>, impl s))
        else (OS_SUCCESS, local1, impl s))"

definition posix_FileSysMountVolume :: "'i posix_host \<Rightarrow> OS_object_token \<Rightarrow> 'i os_state \<Rightarrow> status \<times> 'i" where
  "posix_FileSysMountVolume h token s =
    (let local = OS_filesys_table s (unat (obj_idx token));
         mounted = (\<lambda>a. if fstype local \<noteq> OS_FILESYS_TYPE_VOLATILE_DISK \<and> fstype local \<noteq> OS_FILESYS_TYPE_FS_BASED
                         then (OS_ERR_NOT_IMPLEMENTED, a) else (OS_SUCCESS, a))
     in case px_stat h (system_mountpt local) (impl s) of
          None \<Rightarrow>
            (case px_mkdir h (system_mountpt local) 0x1C0 (impl s) of
               (rc, a) \<Rightarrow> if rc < 0 then (OS_FS_ERR_DRIVE_NOT_CREATED, a) else mounted a)
        | Some buf \<Rightarrow>
            (if st_mode buf AND S_IFMT \<noteq> S_IFDIR then (OS_FS_ERR_DRIVE_NOT_CREATED, impl s) else mounted (impl s)))"

definition posix_FileSysStatVolume :: "'i posix_host \<Rightarrow> OS_object_token \<Rightarrow> 'i os_state \<Rightarrow> status \<times> OS_statvfs option" where
  "posix_FileSysStatVolume h token s =
    (case px_statvfs h (system_mountpt (OS_filesys_table s (unat (obj_idx token)))) (impl s) of
       None \<Rightarrow> (OS_ERROR, None)
     | Some buf \<Rightarrow> (OS_SUCCESS, Some buf))"

definition posix_filesys_impl :: "'i posix_host \<Rightarrow> 'i filesys_impl" where
  "posix_filesys_impl h =
    \<lparr>OS_FileSysStartVolume_Impl = posix_FileSysStartVolume h,
     OS_FileSysStopVolume_Impl = (\<lambda>token s. (OS_SUCCESS, impl s)),
     OS_FileSysFormatVolume_Impl = (\<lambda>token s. (OS_SUCCESS, impl s)),
     OS_FileSysMountVolume_Impl = posix_FileSysMountVolume h,
     OS_FileSysUnmountVolume_Impl = (\<lambda>token s. (OS_SUCCESS, impl s)),
     OS_FileSysStatVolume_Impl = posix_FileSysStatVolume h,
     OS_FileSysCheckVolume_Impl = (\<lambda>token repair s. (OS_ERR_NOT_IMPLEMENTED, impl s))\<rparr>"

subsection \<open>Which file system a path belongs to\<close>

text \<open>
  A mounted file system covers its mount point and the paths below it, by whole path components.
  The first file system in the table that covers a path is used.
\<close>

definition covers :: "OS_filesys_internal_record \<Rightarrow> string \<Rightarrow> bool" where
  "covers fs path \<longleftrightarrow> fs_flags fs AND OS_FILESYS_FLAG_IS_MOUNTED_VIRTUAL \<noteq> 0 \<and> virtual_mountpt fs \<noteq> []
     \<and> length (virtual_mountpt fs) < OS_MAX_PATH_LEN
     \<and> (\<exists>rest. path = virtual_mountpt fs @ rest \<and> (rest = [] \<or> hd rest = CHR ''/''))"

definition mounted_at :: "'i os_state \<Rightarrow> string \<Rightarrow> osal_index_t \<Rightarrow> bool" where
  "mounted_at s path k \<longleftrightarrow> k < OS_GetMaxForObjectType OS_OBJECT_TYPE_OS_FILESYS
     \<and> OS_ObjectIdDefined (active_id (OS_common_table s (record_of OS_OBJECT_TYPE_OS_FILESYS k)))
     \<and> covers (OS_filesys_table s (unat k)) path"

definition mount_of :: "'i os_state \<Rightarrow> string \<Rightarrow> osal_index_t \<Rightarrow> bool" where
  "mount_of s path k \<longleftrightarrow> mounted_at s path k \<and> (\<forall>j. mounted_at s path j \<longrightarrow> k \<le> j)"

lemma take_prefix_iff: "take (length pre) cs = pre \<longleftrightarrow> (\<exists>rest. cs = pre @ rest)"
  by (metis append_eq_conv_conj append_take_drop_id)

lemma FindVirtMountPoint_covers:
  "OS_FileSys_FindVirtMountPoint path s token obj = covers (OS_filesys_table s (unat (obj_idx token))) path"
proof -
  let ?fs = "OS_filesys_table s (unat (obj_idx token))"
  let ?vm = "virtual_mountpt ?fs"
  have "(\<exists>rest. path = ?vm @ rest) \<and> (length path = length ?vm \<or> path ! length ?vm = CHR ''/'')
    \<longleftrightarrow> (\<exists>rest. path = ?vm @ rest \<and> (rest = [] \<or> hd rest = CHR ''/''))"
    using hd_conv_nth by (auto simp: nth_append) fastforce+
  moreover have "OS_strnlen ?vm OS_MAX_PATH_LEN \<ge> OS_MAX_PATH_LEN \<longleftrightarrow> length ?vm \<ge> OS_MAX_PATH_LEN"
    by (auto simp: OS_strnlen_def)
  moreover have "OS_strnlen ?vm OS_MAX_PATH_LEN = length ?vm" if "length ?vm < OS_MAX_PATH_LEN"
    using that by (rule OS_strnlen_fits)
  ultimately show ?thesis
    by (auto simp: OS_FileSys_FindVirtMountPoint_def covers_def strncmp_prefix_def Let_def take_prefix_iff not_le)
qed

lemma mounted_frame [simp]:
  "mounted_at (acquired u k s) = mounted_at s" "mounted_at (ticked u s) = mounted_at s"
  "mounted_at (s\<lparr>impl := a\<rparr>) = mounted_at s"
  "mount_of (acquired u k s) = mount_of s" "mount_of (ticked u s) = mount_of s" "mount_of (s\<lparr>impl := a\<rparr>) = mount_of s"
  by (simp_all add: mounted_at_def mount_of_def fun_eq_iff)

lemma mount_of_unique: "mount_of s path k \<Longrightarrow> mount_of s path j \<Longrightarrow> k = j"
  by (auto simp: mount_of_def intro: antisym)

lemma mounted_has_mount:
  assumes "mounted_at s path k"
  obtains j where "mount_of s path j"
proof -
  define j where "j = (ARG_MIN unat j. mounted_at s path j)"
  have "mounted_at s path j" "\<forall>i. mounted_at s path i \<longrightarrow> unat j \<le> unat i"
    using arg_min_nat_lemma[of "mounted_at s path" k unat] assms unfolding j_def by auto
  with that show thesis by (auto simp: mount_of_def word_le_nat_alt)
qed

lemma FindNextMatch_mount:
  assumes "obj_type token = OS_OBJECT_TYPE_OS_FILESYS" "obj_idx token = - 1"
  shows "mount_of s path k \<Longrightarrow>
      OS_ObjectIdFindNextMatch (OS_FileSys_FindVirtMountPoint path) token s
        = (OS_SUCCESS, token\<lparr>obj_idx := k, obj_id := active_id (OS_common_table s (record_of OS_OBJECT_TYPE_OS_FILESYS k))\<rparr>)"
    and "(\<And>k. \<not> mounted_at s path k) \<Longrightarrow> \<exists>k. OS_ObjectIdFindNextMatch (OS_FileSys_FindVirtMountPoint path) token s
        = (OS_ERR_NAME_NOT_FOUND, token\<lparr>obj_idx := k, obj_id := 0\<rparr>)"
proof -
  let ?t = OS_OBJECT_TYPE_OS_FILESYS
  let ?acc = "\<lambda>i. OS_ObjectIdDefined (active_id (table_entry s (OS_GetBaseForObjectType ?t) i))
      \<and> OS_FileSys_FindVirtMountPoint path s (token\<lparr>obj_id := 0, obj_idx := i\<rparr>) (table_entry s (OS_GetBaseForObjectType ?t) i)"
  let ?k = "scan_from ?acc (OS_GetMaxForObjectType ?t) (- 1)"
  have acc: "k < OS_GetMaxForObjectType ?t \<and> ?acc k \<longleftrightarrow> mounted_at s path k" for k
    by (auto simp: mounted_at_def FindVirtMountPoint_covers table_entry_record)
  { assume k: "mount_of s path k"
    then have m: "k < OS_GetMaxForObjectType ?t" "?acc k" using acc[of k] by (auto simp: mount_of_def)
    then have le: "?k \<le> k" using scan_from_least[of "- 1" k "OS_GetMaxForObjectType ?t" ?acc] by simp
    with m(1) have lt: "?k < OS_GetMaxForObjectType ?t" by (rule le_less_trans[rotated])
    with scan_from_advances[OF lt] acc[of ?k] have "mounted_at s path ?k" by blast
    with k le have "?k = k" by (auto simp: mount_of_def intro: antisym)
    with lt assms show "OS_ObjectIdFindNextMatch (OS_FileSys_FindVirtMountPoint path) token s
        = (OS_SUCCESS, token\<lparr>obj_idx := k, obj_id := active_id (OS_common_table s (record_of ?t k))\<rparr>)"
      by (simp add: OS_ObjectIdFindNextMatch_def Let_def table_entry_record not_le) }
  { assume "\<And>k. \<not> mounted_at s path k"
    then have "\<not> ?k < OS_GetMaxForObjectType ?t" unfolding scan_from_start acc[symmetric] by blast
    with assms show "\<exists>k. OS_ObjectIdFindNextMatch (OS_FileSys_FindVirtMountPoint path) token s
        = (OS_ERR_NAME_NOT_FOUND, token\<lparr>obj_idx := k, obj_id := 0\<rparr>)"
      by (intro exI[of _ ?k]) (simp add: OS_ObjectIdFindNextMatch_def Let_def not_less) }
qed

text \<open>The lookup under the global lock, and its end.\<close>

abbreviation search_mount :: "'i idmap_env \<Rightarrow> string \<Rightarrow> 'i os_state \<Rightarrow> status \<times> OS_object_token \<times> 'i os_state" where
  "search_mount env path s \<equiv> OS_ObjectIdGetBySearch env OS_LOCK_MODE_GLOBAL OS_OBJECT_TYPE_OS_FILESYS
     (OS_FileSys_FindVirtMountPoint path) s"

lemma filesys_type [simp]:
  "OS_GetMaxForObjectType OS_OBJECT_TYPE_OS_FILESYS \<noteq> 0" "OS_OBJECT_TYPE_OS_FILESYS < OS_OBJECT_TYPE_USER"
  by (simp_all add: OS_GetMaxForObjectType_def os_max_defs)

lemma search_mount_found:
  assumes "idle s" "mount_of s path k"
  obtains key i where "key AND 0xFF000000 = 0x4D000000"
    and "search_mount env path s = (OS_SUCCESS, tok OS_LOCK_MODE_GLOBAL key OS_OBJECT_TYPE_OS_FILESYS k i,
      acquired OS_OBJECT_TYPE_OS_FILESYS key
        (upd_common (record_of OS_OBJECT_TYPE_OS_FILESYS k) (\<lambda>ob. ob\<lparr>refcount := refcount ob + 1\<rparr>) s))"
    and "refcount (OS_common_table s (record_of OS_OBJECT_TYPE_OS_FILESYS k)) = 0"
proof -
  let ?t = OS_OBJECT_TYPE_OS_FILESYS and ?G = OS_LOCK_MODE_GLOBAL
  let ?i = "active_id (OS_common_table s (record_of ?t k))"
  from TransactionInit_locked[OF idleD(1)[OF assms(1)] filesys_type(1) idleD(3)[OF assms(1) filesys_type(1)], of ?G env]
  obtain key where key: "key AND 0xFF000000 = 0x4D000000"
      and init: "OS_ObjectIdTransactionInit env ?G ?t s = (OS_SUCCESS, tok ?G key ?t (- 1) 0, acquired ?t key s)" by auto
  have fm: "OS_ObjectIdFindNextMatch (OS_FileSys_FindVirtMountPoint path) (tok ?G key ?t (- 1) 0) (acquired ?t key s)
      = (OS_SUCCESS, tok ?G key ?t k ?i)"
    using FindNextMatch_mount(1)[of "tok ?G key ?t (- 1) 0" "acquired ?t key s" path k] assms(2) by simp
  have "k < OS_GetMaxForObjectType ?t" "?i \<noteq> 0"
    using assms(2) by (auto simp: mount_of_def mounted_at_def OS_ObjectIdDefined_def)
  with idleD(4)[OF assms(1), of k ?t] have id: "id_of_type ?t ?i" "refcount (OS_common_table s (record_of ?t k)) = 0"
    by (auto simp: idle_slot_def)
  note f = id_of_type_facts[OF id(1)]
  have "search_mount env path s = (OS_SUCCESS, tok ?G key ?t k ?i,
      acquired ?t key (upd_common (record_of ?t k) (\<lambda>ob. ob\<lparr>refcount := refcount ob + 1\<rparr>) s))"
    by (simp add: OS_ObjectIdGetBySearch_def init fm f ConvertToken_global upd_common_acquired)
  with that key id(2) show thesis by blast
qed

lemma search_mount_none:
  assumes "idle s" "\<And>k. \<not> mounted_at s path k"
  obtains token where "search_mount env path s = (OS_ERR_NAME_NOT_FOUND, token, ticked OS_OBJECT_TYPE_OS_FILESYS s)"
proof -
  let ?t = OS_OBJECT_TYPE_OS_FILESYS and ?G = OS_LOCK_MODE_GLOBAL
  note lf = idleD(3)[OF assms(1) filesys_type(1)]
  from TransactionInit_locked[OF idleD(1)[OF assms(1)] filesys_type(1) lf, of ?G env]
  obtain key where key: "key AND 0xFF000000 = 0x4D000000"
      and init: "OS_ObjectIdTransactionInit env ?G ?t s = (OS_SUCCESS, tok ?G key ?t (- 1) 0, acquired ?t key s)" by auto
  obtain j where "OS_ObjectIdFindNextMatch (OS_FileSys_FindVirtMountPoint path) (tok ?G key ?t (- 1) 0) (acquired ?t key s)
      = (OS_ERR_NAME_NOT_FOUND, tok ?G key ?t j 0)"
    using FindNextMatch_mount(2)[of "tok ?G key ?t (- 1) 0" "acquired ?t key s" path] assms(2) by auto
  then have "search_mount env path s = (OS_ERR_NAME_NOT_FOUND, tok OS_LOCK_MODE_NONE 0 ?t j 0, ticked ?t s)"
    using key lf by (simp add: OS_ObjectIdGetBySearch_def init TransactionCancel_acquired)
  with that show thesis by blast
qed

lemma upd_filesys_frame [simp]:
  "OS_common_table (upd_filesys j g s) = OS_common_table s"
  "OS_filesys_table (upd_filesys j g s) = (OS_filesys_table s)(j := g (OS_filesys_table s j))"
  "impl (upd_filesys j g s) = impl s"
  "lock_free t (upd_filesys j g s) = lock_free t s" "running (upd_filesys j g s) = running s"
  "stuck (upd_filesys j g s) = stuck s" "idle (upd_filesys j g s) = idle s"
  by (simp_all add: upd_filesys_def lock_free_def objtype_state_def running_def idle_def)

lemma upd_filesys_acquired: "upd_filesys j g (acquired t k s) = acquired t k (upd_filesys j g s)"
  by (simp add: upd_filesys_def acquired_def OS_Lock_Global_Impl_def upd_objtype_def Let_def)

lemma upd_filesys_upd_common: "upd_filesys j g (upd_common r f s) = upd_common r f (upd_filesys j g s)"
  by (simp add: upd_filesys_def upd_common_def)

subsection \<open>Properties\<close>

text \<open>What a path must be like; the separators of \<open>name\<close> are the path's last one.\<close>

definition well_formed :: "string \<Rightarrow> bool" where
  "well_formed path \<longleftrightarrow> length path < OS_MAX_PATH_LEN \<and> path \<noteq> [] \<and> hd path = CHR ''/'' \<and> \<not> strstr path ''..''
     \<and> (\<exists>dir name. path = dir @ CHR ''/'' # name \<and> CHR ''/'' \<notin> set name \<and> length name < OS_MAX_FILE_NAME)"

lemma strrchr_slash_append: "CHR ''/'' \<notin> set name \<Longrightarrow> strrchr_slash (dir @ CHR ''/'' # name) = Some name"
proof -
  assume "CHR ''/'' \<notin> set name"
  then have "takeWhile (\<lambda>c. c \<noteq> CHR ''/'') (rev name @ CHR ''/'' # rev dir) = rev name"
    by (subst takeWhile_append2) auto
  then show ?thesis by (simp add: strrchr_slash_def)
qed

lemma strrchr_slash_cases:
  obtains "CHR ''/'' \<notin> set path" "strrchr_slash path = None"
  | dir name where "path = dir @ CHR ''/'' # name" "CHR ''/'' \<notin> set name" "strrchr_slash path = Some name"
proof (cases "CHR ''/'' \<in> set path")
  case True
  then obtain dir name where "path = dir @ CHR ''/'' # name" "CHR ''/'' \<notin> set name" by (meson split_list_last)
  with strrchr_slash_append that(2) show thesis by blast
qed (use that(1) in \<open>simp add: strrchr_slash_def\<close>)

lemma last_slash_unique:
  "dir @ CHR ''/'' # name = dir' @ CHR ''/'' # name' \<Longrightarrow> CHR ''/'' \<notin> set name \<Longrightarrow> CHR ''/'' \<notin> set name' \<Longrightarrow> name = name'"
  by (metis option.inject strrchr_slash_append)

lemma check_well_formed: "TranslatePath_check path = OS_SUCCESS \<longleftrightarrow> well_formed path"
proof (cases rule: strrchr_slash_cases[of path])
  case 1
  then show ?thesis by (auto simp: TranslatePath_check_def well_formed_def OS_strnlen_def)
next
  case (2 dir name)
  then have "(\<exists>d n. path = d @ CHR ''/'' # n \<and> CHR ''/'' \<notin> set n \<and> length n < OS_MAX_FILE_NAME)
      \<longleftrightarrow> length name < OS_MAX_FILE_NAME" using last_slash_unique by metis
  moreover have "path \<noteq> []" using 2(1) by simp
  ultimately show ?thesis
    using 2(3) by (auto simp: TranslatePath_check_def well_formed_def OS_strnlen_def hd_conv_nth)
qed

lemma strstr_append: "strstr b pat \<Longrightarrow> strstr (a @ b) pat"
  by (induction a) auto

lemma join_covers:
  assumes "covers fs path" "length path < OS_MAX_PATH_LEN"
  obtains rest where "path = virtual_mountpt fs @ rest" "rest = [] \<or> hd rest = CHR ''/''"
    and "TranslatePath_join fs path =
      (if length (system_mountpt fs @ rest) < OS_MAX_LOCAL_PATH_LEN then (OS_SUCCESS, Some (system_mountpt fs @ rest))
       else (OS_FS_ERR_PATH_TOO_LONG, None))"
proof -
  from assms(1) obtain rest where r: "path = virtual_mountpt fs @ rest" "rest = [] \<or> hd rest = CHR ''/''"
    by (auto simp: covers_def)
  have "length (virtual_mountpt fs) < OS_MAX_PATH_LEN" using assms(1) by (simp add: covers_def)
  with r assms(2) that show thesis by (simp add: TranslatePath_join_def Let_def OS_strnlen_def)
qed

lemma TranslatePath_found:
  assumes "idle s" "well_formed path" "mount_of s path k"
  shows "OS_TranslatePath env (Some path) True s =
    (let fs = OS_filesys_table s (unat k)
     in if fs_flags fs AND OS_FILESYS_FLAG_IS_MOUNTED_SYSTEM \<noteq> 0
        then (fst (TranslatePath_join fs path), snd (TranslatePath_join fs path), ticked OS_OBJECT_TYPE_OS_FILESYS s)
        else (OS_ERR_INCORRECT_OBJ_STATE, None, ticked OS_OBJECT_TYPE_OS_FILESYS s))"
proof -
  note lf = idleD(3)[OF assms(1) filesys_type(1)]
  from search_mount_found[OF assms(1,3), of env] obtain key i
    where f: "key AND 0xFF000000 = 0x4D000000"
      "search_mount env path s = (OS_SUCCESS, tok OS_LOCK_MODE_GLOBAL key OS_OBJECT_TYPE_OS_FILESYS k i,
        acquired OS_OBJECT_TYPE_OS_FILESYS key
          (upd_common (record_of OS_OBJECT_TYPE_OS_FILESYS k) (\<lambda>ob. ob\<lparr>refcount := refcount ob + 1\<rparr>) s))"
      "refcount (OS_common_table s (record_of OS_OBJECT_TYPE_OS_FILESYS k)) = 0" by blast
  note rel = Release_global[OF lf filesys_type(2) f(1,3)]
  show ?thesis
    using assms(2) by (simp add: OS_TranslatePath_def check_well_formed f(2) rel Let_def split: prod.split)
qed

text \<open>C8: Path translation is confined to the mounted file systems. In an idle state a call succeeds
  exactly when the virtual path is well formed, the first file system in the table that covers it
  by whole path components is mounted, and the local path fits the buffer; the local path is then
  the system mount point of that file system followed by the rest of the virtual path, which
  starts with a separator and has no two dots in a row, so that it stays below the system mount
  point. Nothing but the transaction counter changes.
\<close>

theorem OS_TranslatePath_confined:
  assumes "idle s" "OS_TranslatePath env (Some path) True s = (st, local, s')"
  shows "(s' = s \<or> s' = ticked OS_OBJECT_TYPE_OS_FILESYS s) \<and>
    (\<forall>l. (st = OS_SUCCESS \<and> local = Some l) \<longleftrightarrow>
       (\<exists>k rest. let fs = OS_filesys_table s (unat k) in
          well_formed path \<and> mount_of s path k \<and> fs_flags fs AND OS_FILESYS_FLAG_IS_MOUNTED_SYSTEM \<noteq> 0
        \<and> path = virtual_mountpt fs @ rest \<and> l = system_mountpt fs @ rest \<and> (rest = [] \<or> hd rest = CHR ''/'')
        \<and> \<not> strstr rest ''..'' \<and> length l < OS_MAX_LOCAL_PATH_LEN)) \<and>
    (local = None \<longleftrightarrow> st \<noteq> OS_SUCCESS)"
proof (cases "well_formed path \<and> (\<exists>k. mounted_at s path k)")
  case False
  have "st \<noteq> OS_SUCCESS \<and> local = None \<and> (s' = s \<or> s' = ticked OS_OBJECT_TYPE_OS_FILESYS s)"
  proof (cases "well_formed path")
    case True
    with False search_mount_none[OF assms(1), of path env] obtain token
      where "search_mount env path s = (OS_ERR_NAME_NOT_FOUND, token, ticked OS_OBJECT_TYPE_OS_FILESYS s)" by blast
    with assms(2) True show ?thesis by (auto simp: OS_TranslatePath_def check_well_formed)
  qed (use assms(2) in \<open>auto simp: OS_TranslatePath_def check_well_formed split: if_splits\<close>)
  moreover have "\<not> (well_formed path \<and> mount_of s path k)" for k using False by (auto simp: mount_of_def)
  ultimately show ?thesis unfolding Let_def by blast
next
  case True
  then obtain k where k: "mount_of s path k" by (metis mounted_has_mount)
  let ?fs = "OS_filesys_table s (unat k)"
  from k have c: "covers ?fs path" by (simp add: mount_of_def mounted_at_def)
  from True have w: "well_formed path" "length path < OS_MAX_PATH_LEN" "\<not> strstr path ''..''" by (auto simp: well_formed_def)
  from join_covers[OF c w(2)] obtain rest where r: "path = virtual_mountpt ?fs @ rest" "rest = [] \<or> hd rest = CHR ''/''"
    and j: "TranslatePath_join ?fs path =
      (if length (system_mountpt ?fs @ rest) < OS_MAX_LOCAL_PATH_LEN then (OS_SUCCESS, Some (system_mountpt ?fs @ rest))
       else (OS_FS_ERR_PATH_TOO_LONG, None))" by blast
  have dots: "\<not> strstr rest ''..''" using w(3) strstr_append unfolding r(1) by blast
  have res: "s' = ticked OS_OBJECT_TYPE_OS_FILESYS s"
    "(st, local) = (if fs_flags ?fs AND OS_FILESYS_FLAG_IS_MOUNTED_SYSTEM \<noteq> 0 then TranslatePath_join ?fs path
      else (OS_ERR_INCORRECT_OBJ_STATE, None))"
    using assms(2) TranslatePath_found[OF assms(1) w(1) k, of env] by (auto simp: Let_def split: if_splits)
  have "(\<exists>k' rest'. let fs = OS_filesys_table s (unat k') in
          well_formed path \<and> mount_of s path k' \<and> fs_flags fs AND OS_FILESYS_FLAG_IS_MOUNTED_SYSTEM \<noteq> 0
        \<and> path = virtual_mountpt fs @ rest' \<and> l = system_mountpt fs @ rest' \<and> (rest' = [] \<or> hd rest' = CHR ''/'')
        \<and> \<not> strstr rest' ''..'' \<and> length l < OS_MAX_LOCAL_PATH_LEN)
    \<longleftrightarrow> fs_flags ?fs AND OS_FILESYS_FLAG_IS_MOUNTED_SYSTEM \<noteq> 0 \<and> l = system_mountpt ?fs @ rest
        \<and> length l < OS_MAX_LOCAL_PATH_LEN" (is "?L \<longleftrightarrow> ?R") for l
  proof
    show "?L \<Longrightarrow> ?R" using k mount_of_unique[of s path k] r(1) unfolding Let_def by (metis append_eq_append_conv)
    show "?R \<Longrightarrow> ?L" unfolding Let_def
      using k w(1) r dots by (intro exI[of _ k] exI[of _ rest]) auto
  qed
  note eqv = this
  show ?thesis unfolding eqv using res j
    by (cases "fs_flags ?fs AND OS_FILESYS_FLAG_IS_MOUNTED_SYSTEM = 0";
        cases "length (system_mountpt ?fs @ rest) < OS_MAX_LOCAL_PATH_LEN") auto
qed

text \<open>Mounting and unmounting, as they change the state.\<close>

lemma OS_mount_ok:
  assumes "idle s" "has_name OS_OBJECT_TYPE_OS_FILESYS dev s k" "\<And>j. has_name OS_OBJECT_TYPE_OS_FILESYS dev s j \<Longrightarrow> j = k"
    and "length dev < OS_FS_DEV_NAME_LEN" "length mp < OS_MAX_PATH_LEN"
    and "fs_flags (OS_filesys_table s (unat k)) AND NOT OS_FILESYS_FLAG_IS_FIXED = OS_FILESYS_FLAG_IS_READY"
    and "system_mountpt (OS_filesys_table s (unat k)) \<noteq> []"
    and "\<And>token x. fst (OS_FileSysMountVolume_Impl f token x) = OS_SUCCESS"
  obtains a where "OS_mount env f (Some dev) (Some mp) s = (OS_SUCCESS, ticked OS_OBJECT_TYPE_OS_FILESYS
    (upd_filesys (unat k) (\<lambda>fs. fs\<lparr>fs_flags := fs_flags fs OR
       (OS_FILESYS_FLAG_IS_MOUNTED_SYSTEM OR OS_FILESYS_FLAG_IS_MOUNTED_VIRTUAL), virtual_mountpt := mp\<rparr>) (s\<lparr>impl := a\<rparr>)))"
proof -
  let ?t = OS_OBJECT_TYPE_OS_FILESYS
  note lf = idleD(3)[OF assms(1) filesys_type(1)]
  from GetByName_global[where env = env, OF idleD(1)[OF assms(1)] lf assms(2) idle_has_name(1)[OF assms(1), of OS_OBJECT_TYPE_OS_FILESYS dev]] obtain j key
    where j: "has_name ?t dev s j" and key: "key AND 0xFF000000 = 0x4D000000"
      and get: "OS_ObjectIdGetByName env OS_LOCK_MODE_GLOBAL ?t dev s
        = (OS_SUCCESS, tok OS_LOCK_MODE_GLOBAL key ?t j (active_id (OS_common_table s (record_of ?t j))),
           acquired ?t key (upd_common (record_of ?t j) (\<lambda>ob. ob\<lparr>refcount := refcount ob + 1\<rparr>) s))" by blast
  note get = get[unfolded assms(3)[OF j]]
  define a where "a = snd (OS_FileSysMountVolume_Impl f (tok OS_LOCK_MODE_GLOBAL key ?t k (active_id (OS_common_table s (record_of ?t k))))
      (acquired ?t key (upd_common (record_of ?t k) (\<lambda>ob. ob\<lparr>refcount := refcount ob + 1\<rparr>) s)))"
  have m: "OS_FileSysMountVolume_Impl f (tok OS_LOCK_MODE_GLOBAL key ?t k (active_id (OS_common_table s (record_of ?t k))))
      (acquired ?t key (upd_common (record_of ?t k) (\<lambda>ob. ob\<lparr>refcount := refcount ob + 1\<rparr>) s)) = (OS_SUCCESS, a)"
    using assms(8) by (simp add: a_def prod_eq_iff)
  have "OS_mount env f (Some dev) (Some mp) s = (OS_SUCCESS, ticked ?t
    (upd_filesys (unat k) (\<lambda>fs. fs\<lparr>fs_flags := fs_flags fs OR
       (OS_FILESYS_FLAG_IS_MOUNTED_SYSTEM OR OS_FILESYS_FLAG_IS_MOUNTED_VIRTUAL), virtual_mountpt := mp\<rparr>) (s\<lparr>impl := a\<rparr>)))"
    using assms(4-7) lf key idle_has_name(3)[OF assms(1,2)]
    by (simp add: OS_mount_def get m LENGTHCHECK_def Let_def impl_acquired impl_upd_common upd_filesys_acquired
        upd_filesys_upd_common Release_global strncpy_cleared_fits)
  with that show thesis by blast
qed

lemma OS_unmount_ok:
  assumes "idle s" "mount_of s path k" "length path < OS_MAX_PATH_LEN"
    and "fs_flags (OS_filesys_table s (unat k)) AND NOT OS_FILESYS_FLAG_IS_FIXED =
      OS_FILESYS_FLAG_IS_READY OR OS_FILESYS_FLAG_IS_MOUNTED_SYSTEM OR OS_FILESYS_FLAG_IS_MOUNTED_VIRTUAL"
    and "\<And>token x. fst (OS_FileSysUnmountVolume_Impl f token x) = OS_SUCCESS"
  obtains a where "OS_unmount env f (Some path) s = (OS_SUCCESS, ticked OS_OBJECT_TYPE_OS_FILESYS
    (upd_filesys (unat k) (\<lambda>fs. fs\<lparr>fs_flags := fs_flags fs AND
       NOT (OS_FILESYS_FLAG_IS_MOUNTED_SYSTEM OR OS_FILESYS_FLAG_IS_MOUNTED_VIRTUAL)\<rparr>) (s\<lparr>impl := a\<rparr>)))"
proof -
  let ?t = OS_OBJECT_TYPE_OS_FILESYS
  note lf = idleD(3)[OF assms(1) filesys_type(1)]
  from search_mount_found[OF assms(1,2), of env] obtain key i
    where key: "key AND 0xFF000000 = 0x4D000000" "refcount (OS_common_table s (record_of ?t k)) = 0"
      and get: "search_mount env path s = (OS_SUCCESS, tok OS_LOCK_MODE_GLOBAL key ?t k i,
        acquired ?t key (upd_common (record_of ?t k) (\<lambda>ob. ob\<lparr>refcount := refcount ob + 1\<rparr>) s))" by blast
  define a where "a = snd (OS_FileSysUnmountVolume_Impl f (tok OS_LOCK_MODE_GLOBAL key ?t k i)
      (acquired ?t key (upd_common (record_of ?t k) (\<lambda>ob. ob\<lparr>refcount := refcount ob + 1\<rparr>) s)))"
  have m: "OS_FileSysUnmountVolume_Impl f (tok OS_LOCK_MODE_GLOBAL key ?t k i)
      (acquired ?t key (upd_common (record_of ?t k) (\<lambda>ob. ob\<lparr>refcount := refcount ob + 1\<rparr>) s)) = (OS_SUCCESS, a)"
    using assms(5) by (simp add: a_def prod_eq_iff)
  have "OS_unmount env f (Some path) s = (OS_SUCCESS, ticked ?t
    (upd_filesys (unat k) (\<lambda>fs. fs\<lparr>fs_flags := fs_flags fs AND
       NOT (OS_FILESYS_FLAG_IS_MOUNTED_SYSTEM OR OS_FILESYS_FLAG_IS_MOUNTED_VIRTUAL)\<rparr>) (s\<lparr>impl := a\<rparr>)))"
    using assms(3,4) lf key
    by (simp add: OS_unmount_def get m LENGTHCHECK_def Let_def impl_acquired impl_upd_common upd_filesys_acquired
        upd_filesys_upd_common Release_global)
  with that show thesis by blast
qed

text \<open>The flag arithmetic of a mount and an unmount.\<close>

lemma mount_flags:
  fixes w :: u8
  assumes "w AND NOT OS_FILESYS_FLAG_IS_FIXED = OS_FILESYS_FLAG_IS_READY"
  defines "m \<equiv> w OR (OS_FILESYS_FLAG_IS_MOUNTED_SYSTEM OR OS_FILESYS_FLAG_IS_MOUNTED_VIRTUAL)"
  shows "m AND OS_FILESYS_FLAG_IS_MOUNTED_SYSTEM \<noteq> 0" "m AND OS_FILESYS_FLAG_IS_MOUNTED_VIRTUAL \<noteq> 0"
    and "m AND NOT OS_FILESYS_FLAG_IS_FIXED =
      OS_FILESYS_FLAG_IS_READY OR OS_FILESYS_FLAG_IS_MOUNTED_SYSTEM OR OS_FILESYS_FLAG_IS_MOUNTED_VIRTUAL"
    and "m AND NOT (OS_FILESYS_FLAG_IS_MOUNTED_SYSTEM OR OS_FILESYS_FLAG_IS_MOUNTED_VIRTUAL) = w"
    and "w AND OS_FILESYS_FLAG_IS_MOUNTED_VIRTUAL = 0"
proof -
  have "w = (w AND NOT 1) OR (w AND 1)" by (rule bit_word_eqI) (auto simp: bit_simps)
  also have "w AND NOT 1 = 2" using assms(1) by (simp add: fs_flag_defs)
  finally have w: "w = 2 OR (w AND 1)" .
  have "w AND 1 = 0 \<or> w AND 1 = 1" by (metis and_one_eq mod2_eq_if)
  then have "w = 2 \<or> w = 3"
  proof
    assume "w AND 1 = 0"
    with w show ?thesis by simp
  next
    assume "w AND 1 = 1"
    with w show ?thesis by simp
  qed
  then show "m AND OS_FILESYS_FLAG_IS_MOUNTED_SYSTEM \<noteq> 0" "m AND OS_FILESYS_FLAG_IS_MOUNTED_VIRTUAL \<noteq> 0"
    "m AND NOT OS_FILESYS_FLAG_IS_FIXED =
      OS_FILESYS_FLAG_IS_READY OR OS_FILESYS_FLAG_IS_MOUNTED_SYSTEM OR OS_FILESYS_FLAG_IS_MOUNTED_VIRTUAL"
    "m AND NOT (OS_FILESYS_FLAG_IS_MOUNTED_SYSTEM OR OS_FILESYS_FLAG_IS_MOUNTED_VIRTUAL) = w"
    "w AND OS_FILESYS_FLAG_IS_MOUNTED_VIRTUAL = 0"
    by (auto simp: m_def fs_flag_defs)
qed

lemma mounted_upd_filesys:
  assumes "k < OS_GetMaxForObjectType OS_OBJECT_TYPE_OS_FILESYS"
    and "OS_ObjectIdDefined (active_id (OS_common_table s (record_of OS_OBJECT_TYPE_OS_FILESYS k)))"
  shows "mounted_at (upd_filesys (unat k) g s) path j \<longleftrightarrow>
    (if j = k then covers (g (OS_filesys_table s (unat k))) path else mounted_at s path j)"
  using assms by (auto simp: mounted_at_def unsigned_word_eqI)

lemma TranslatePath_none:
  assumes "idle s" "well_formed path" "\<And>k. \<not> mounted_at s path k"
  shows "OS_TranslatePath env (Some path) True s = (OS_FS_ERR_PATH_INVALID, None, ticked OS_OBJECT_TYPE_OS_FILESYS s)"
proof -
  from search_mount_none[OF assms(1,3), of env] obtain token
    where "search_mount env path s = (OS_ERR_NAME_NOT_FOUND, token, ticked OS_OBJECT_TYPE_OS_FILESYS s)" by blast
  with assms(2) show ?thesis by (simp add: OS_TranslatePath_def check_well_formed)
qed


text \<open>The RAM disk \<^verbatim>\<open>RAM0\<close> in the second record, ready for mounting.\<close>

definition example_volume :: "'i \<Rightarrow> u8 \<Rightarrow> string \<Rightarrow> 'i os_state" where
  "example_volume a flags mp =
     upd_common (record_of OS_OBJECT_TYPE_OS_FILESYS 1)
       (\<lambda>_. \<lparr>name_entry = Some (Filesys_device_name 1), active_id = 0xB0001, creator = 0, refcount = 0\<rparr>)
       (upd_filesys 1 (\<lambda>_. zero_filesys\<lparr>device_name := ''RAM0'', system_mountpt := ''/dev/shm/osal:V'', virtual_mountpt := mp,
          fs_flags := flags, fstype := OS_FILESYS_TYPE_VOLATILE_DISK\<rparr>) (fresh_state a))"

definition example_filesys_impl :: "unit filesys_impl" where
  "example_filesys_impl = \<lparr>OS_FileSysStartVolume_Impl = (\<lambda>token s. (OS_SUCCESS, OS_filesys_table s (unat (obj_idx token)), ())),
     OS_FileSysStopVolume_Impl = (\<lambda>_ _. (OS_SUCCESS, ())), OS_FileSysFormatVolume_Impl = (\<lambda>_ _. (OS_SUCCESS, ())),
     OS_FileSysMountVolume_Impl = (\<lambda>_ _. (OS_SUCCESS, ())), OS_FileSysUnmountVolume_Impl = (\<lambda>_ _. (OS_SUCCESS, ())),
     OS_FileSysStatVolume_Impl = (\<lambda>_ _. (OS_ERROR, None)), OS_FileSysCheckVolume_Impl = (\<lambda>_ _ _. (OS_ERR_NOT_IMPLEMENTED, ()))\<rparr>"

lemma example_volume_facts:
  "idle (example_volume a w mp)"
  "has_name OS_OBJECT_TYPE_OS_FILESYS ''RAM0'' (example_volume a w mp) k \<longleftrightarrow> k = 1"
  "mounted_at (example_volume a w mp) path j \<longleftrightarrow> j = 1 \<and> covers (OS_filesys_table (example_volume a w mp) 1) path"
  "impl (example_volume a w mp) = a"
  "OS_filesys_table (example_volume a w mp) 1 = zero_filesys\<lparr>device_name := ''RAM0'', system_mountpt := ''/dev/shm/osal:V'',
     virtual_mountpt := mp, fs_flags := w, fstype := OS_FILESYS_TYPE_VOLATILE_DISK\<rparr>"
proof -
  let ?t = OS_OBJECT_TYPE_OS_FILESYS
  let ?ob = "\<lparr>name_entry = Some (Filesys_device_name 1), active_id = 0xB0001, creator = 0, refcount = 0\<rparr>"
  have m: "(1 :: u32) < OS_GetMaxForObjectType ?t" by (simp add: OS_GetMaxForObjectType_def os_max_defs)
  have "index_of 0xB0001 = 1" "id_of_type ?t 0xB0001"
    by (simp_all add: index_of_def id_of_type_def OS_ObjectIdToSerialNumber_Impl_def OS_ObjectIdToType_Impl_def
        OS_GetMaxForObjectType_def os_max_defs)
  then have sl: "idle_slot ?t 1 ?ob" by (simp add: idle_slot_def)
  show "impl (example_volume a w mp) = a" by (simp add: example_volume_def fresh_state_def boot_state_def)
  show "idle (example_volume a w mp)"
    by (rule idle_upd_common[OF fresh_idle m sl]) (simp_all add: example_volume_def idleD(1,2)[OF fresh_idle])
  show fs: "OS_filesys_table (example_volume a w mp) 1 = zero_filesys\<lparr>device_name := ''RAM0'', system_mountpt := ''/dev/shm/osal:V'',
     virtual_mountpt := mp, fs_flags := w, fstype := OS_FILESYS_TYPE_VOLATILE_DISK\<rparr>" by (simp add: example_volume_def)
  have d: "OS_ObjectIdDefined (active_id (OS_common_table (example_volume a w mp) (record_of ?t k))) \<longleftrightarrow> k = 1"
    if "k < OS_GetMaxForObjectType ?t" for k
    using record_of_eq[OF that m] by (simp add: example_volume_def fresh_state_def boot_state_def zero_common_record_def OS_ObjectIdDefined_def)
  have r1: "OS_common_table (example_volume a w mp) (record_of ?t 1) = ?ob" by (simp add: example_volume_def)
  show "has_name ?t ''RAM0'' (example_volume a w mp) k \<longleftrightarrow> k = 1"
    using d[of k] m r1 fs by (auto simp: has_name_def)
  show "mounted_at (example_volume a w mp) path j \<longleftrightarrow> j = 1 \<and> covers (OS_filesys_table (example_volume a w mp) 1) path"
    using d[of j] m by (auto simp: mounted_at_def)
qed

lemma example_impl_simps [simp]:
  "OS_FileSysMountVolume_Impl example_filesys_impl token x = (OS_SUCCESS, ())"
  "OS_FileSysUnmountVolume_Impl example_filesys_impl token x = (OS_SUCCESS, ())"
  by (simp_all add: example_filesys_impl_def)

lemma well_formed_example: "well_formed ''/ram/log''"
  unfolding check_well_formed[symmetric] by code_simp


theorem OS_TranslatePath_confined_witness:
  "\<exists>st local s'. OS_TranslatePath quiet_env (Some ''/ram/log'') True (example_volume () 0x32 ''/ram'') = (st, local, s')
    \<and> st = OS_SUCCESS \<and> local = Some ''/dev/shm/osal:V/log''"
proof -
  let ?s = "example_volume () 0x32 ''/ram''"
  obtain st local s' where r: "OS_TranslatePath quiet_env (Some ''/ram/log'') True ?s = (st, local, s')" by (metis prod_cases3)
  have "mounted_at ?s ''/ram/log'' j \<longleftrightarrow> j = 1" for j
    by (simp add: example_volume_facts covers_def fs_flag_defs OS_MAX_PATH_LEN_def del: One_nat_def)
  then have "mount_of ?s ''/ram/log'' 1" by (simp add: mount_of_def)
  then have "\<exists>k rest. let fs = OS_filesys_table ?s (unat k) in
          well_formed ''/ram/log'' \<and> mount_of ?s ''/ram/log'' k \<and> fs_flags fs AND OS_FILESYS_FLAG_IS_MOUNTED_SYSTEM \<noteq> 0
        \<and> ''/ram/log'' = virtual_mountpt fs @ rest \<and> ''/dev/shm/osal:V/log'' = system_mountpt fs @ rest \<and> (rest = [] \<or> hd rest = CHR ''/'')
        \<and> \<not> strstr rest ''..'' \<and> length ''/dev/shm/osal:V/log'' < OS_MAX_LOCAL_PATH_LEN"
    by (intro exI[of _ 1] exI[of _ "''/log''"])
      (simp add: well_formed_example example_volume_facts fs_flag_defs OS_MAX_LOCAL_PATH_LEN_def OS_MAX_PATH_LEN_def OS_FS_PHYS_NAME_LEN_def
        del: One_nat_def)
  with OS_TranslatePath_confined[OF example_volume_facts(1) r] r show ?thesis by blast
qed

end
