(* ===== verification/File.thy ===== *)
theory File
  imports Filesys Clock
begin

text \<open>
  Files and streams, \<^verbatim>\<open>src/src/os/shared/src/osapi-file.c\<close>. A file is a stream whose socket
  domain is invalid; its name is the virtual path it was opened with, which is not looked up and
  need not be unique. Data are lists of bytes: what a read returns is what it put at the start of
  the caller's buffer.
\<close>

unbundle bit_operations_syntax

subsection \<open>Operations\<close>

type_synonym byte = "8 word"

record OS_file_prop =
  file_prop_Path :: string
  file_prop_User :: osal_id_t
  file_prop_IsValid :: u8

record os_fstat =
  FileModeBits :: u32
  FileTime :: OS_time
  FileSize :: nat

definition zero_fstat :: os_fstat where
  "zero_fstat = \<lparr>FileModeBits = 0, FileTime = OS_TIME_ZERO, FileSize = 0\<rparr>"

abbreviation (input) OS_READ_ONLY :: int where "OS_READ_ONLY \<equiv> 0"
abbreviation (input) OS_WRITE_ONLY :: int where "OS_WRITE_ONLY \<equiv> 1"
abbreviation (input) OS_READ_WRITE :: int where "OS_READ_WRITE \<equiv> 2"

abbreviation (input) OS_FILE_FLAG_NONE :: int where "OS_FILE_FLAG_NONE \<equiv> 0"
abbreviation (input) OS_FILE_FLAG_CREATE :: int where "OS_FILE_FLAG_CREATE \<equiv> 1"
abbreviation (input) OS_FILE_FLAG_TRUNCATE :: int where "OS_FILE_FLAG_TRUNCATE \<equiv> 2"

abbreviation (input) OS_SocketDomain_INVALID :: u8 where "OS_SocketDomain_INVALID \<equiv> 0"

definition OS_CP_BLOCK_SIZE :: nat where "OS_CP_BLOCK_SIZE = 512"

record 'i file_impl =
  OS_GenericSeek_Impl :: "OS_object_token \<Rightarrow> int \<Rightarrow> u32 \<Rightarrow> 'i os_state \<Rightarrow> status \<times> 'i"
  OS_GenericRead_Impl :: "OS_object_token \<Rightarrow> nat \<Rightarrow> OS_time \<Rightarrow> 'i os_state \<Rightarrow> status \<times> byte list \<times> 'i"
  OS_GenericWrite_Impl :: "OS_object_token \<Rightarrow> byte list \<Rightarrow> nat \<Rightarrow> OS_time \<Rightarrow> 'i os_state \<Rightarrow> status \<times> 'i"
  OS_GenericClose_Impl :: "OS_object_token \<Rightarrow> 'i os_state \<Rightarrow> status \<times> 'i"
  OS_FileOpen_Impl :: "OS_object_token \<Rightarrow> string \<Rightarrow> int \<Rightarrow> int \<Rightarrow> 'i os_state \<Rightarrow> status \<times> 'i"
  OS_FileTruncate_Impl :: "OS_object_token \<Rightarrow> int \<Rightarrow> 'i os_state \<Rightarrow> status \<times> 'i"
  OS_FileAllocate_Impl :: "OS_object_token \<Rightarrow> int \<Rightarrow> int \<Rightarrow> 'i os_state \<Rightarrow> status \<times> 'i"
  OS_FileStat_Impl :: "string \<Rightarrow> os_fstat \<Rightarrow> 'i \<Rightarrow> status \<times> os_fstat"
  OS_FileRemove_Impl :: "string \<Rightarrow> 'i \<Rightarrow> status \<times> 'i"
  OS_FileRename_Impl :: "string \<Rightarrow> string \<Rightarrow> 'i \<Rightarrow> status \<times> 'i"
  OS_FileChmod_Impl :: "string \<Rightarrow> u32 \<Rightarrow> 'i \<Rightarrow> status \<times> 'i"

definition upd_stream ::
    "nat \<Rightarrow> (OS_stream_internal_record \<Rightarrow> OS_stream_internal_record) \<Rightarrow> 'i os_state \<Rightarrow> 'i os_state" where
  "upd_stream j f s = s\<lparr>OS_stream_table := (OS_stream_table s)(j := f (OS_stream_table s j))\<rparr>"

definition stream_fill :: "string \<Rightarrow> unit \<Rightarrow> OS_object_token \<Rightarrow> 'i os_state \<Rightarrow> 'i os_state" where
  "stream_fill nm x token s =
     upd_common (OS_ObjectIdGlobalFromToken token) (\<lambda>ob. ob\<lparr>name_entry := Some (Stream_name (unat (obj_idx token)))\<rparr>)
       (upd_stream (unat (obj_idx token)) (\<lambda>_. zero_stream\<lparr>stream_name := strncpy_cleared nm OS_MAX_PATH_LEN\<rparr>) s)"

definition OS_FileAPI_Init :: "'i os_state \<Rightarrow> status \<times> 'i os_state" where
  "OS_FileAPI_Init s = (OS_SUCCESS, s\<lparr>OS_stream_table := (\<lambda>_. zero_stream)\<rparr>)"

definition OS_OpenCreate ::
    "'i idmap_env \<Rightarrow> 'i file_impl \<Rightarrow> bool \<Rightarrow> string option \<Rightarrow> int \<Rightarrow> int \<Rightarrow> 'i os_state
      \<Rightarrow> status \<times> osal_id_t option \<times> 'i os_state" where
  "OS_OpenCreate env f has_fd path flags access_mode s =
    (if \<not> has_fd then (OS_INVALID_POINTER, None, s)
     else if access_mode \<noteq> OS_WRITE_ONLY \<and> access_mode \<noteq> OS_READ_ONLY \<and> access_mode \<noteq> OS_READ_WRITE
     then (OS_ERROR, Some OS_OBJECT_ID_UNDEFINED, s)
     else
       case OS_TranslatePath env path True s of
         (return_code, local_path, s1) \<Rightarrow>
           (if return_code = OS_SUCCESS then
              (case OS_ObjectIdAllocateNew env OS_OBJECT_TYPE_OS_STREAM None s1 of
                 (return_code', token, s2) \<Rightarrow>
                   (if return_code' = OS_SUCCESS then
                      let s3 = stream_fill (the path) () token s2
                      in case OS_FileOpen_Impl f token (the local_path) flags access_mode s3 of
                           (st, a) \<Rightarrow>
                             (case OS_ObjectIdFinalizeNew env st token (s3\<lparr>impl := a\<rparr>) of
                                (st', i, token', s4) \<Rightarrow> (st', Some i, s4))
                    else (return_code', Some OS_OBJECT_ID_UNDEFINED, s2)))
            else (return_code, Some OS_OBJECT_ID_UNDEFINED, s1)))"

definition OS_close :: "'i idmap_env \<Rightarrow> 'i file_impl \<Rightarrow> osal_id_t \<Rightarrow> 'i os_state \<Rightarrow> status \<times> 'i os_state" where
  "OS_close env f filedes s =
    (case OS_ObjectIdGetById env OS_LOCK_MODE_EXCLUSIVE OS_OBJECT_TYPE_OS_STREAM filedes s of
       (return_code, token, s1) \<Rightarrow>
         (if return_code = OS_SUCCESS then
            (case OS_GenericClose_Impl f token s1 of
               (st, a) \<Rightarrow>
                 (case OS_ObjectIdFinalizeDelete env st token (s1\<lparr>impl := a\<rparr>) of (st', token', s2) \<Rightarrow> (st', s2)))
          else (return_code, s1)))"

definition OS_FileIteratorClose :: "'i idmap_env \<Rightarrow> 'i file_impl \<Rightarrow> osal_id_t \<Rightarrow> 'i os_state \<Rightarrow> status \<times> 'i os_state" where
  "OS_FileIteratorClose env f filedes s = OS_close env f filedes s"

text \<open>A call of the implementation with a reference to the stream held.\<close>

definition with_stream ::
    "'i idmap_env \<Rightarrow> (OS_object_token \<Rightarrow> 'i os_state \<Rightarrow> status \<times> 'i) \<Rightarrow> osal_id_t \<Rightarrow> 'i os_state \<Rightarrow> status \<times> 'i os_state" where
  "with_stream env act filedes s =
    (case OS_ObjectIdGetById env OS_LOCK_MODE_REFCOUNT OS_OBJECT_TYPE_OS_STREAM filedes s of
       (return_code, token, s1) \<Rightarrow>
         (if return_code = OS_SUCCESS
          then (case act token s1 of (st, a) \<Rightarrow> (st, snd (OS_ObjectIdRelease env token (s1\<lparr>impl := a\<rparr>))))
          else (return_code, s1)))"

definition OS_TimedReadAbs ::
    "'i idmap_env \<Rightarrow> 'i file_impl \<Rightarrow> osal_id_t \<Rightarrow> bool \<Rightarrow> nat \<Rightarrow> OS_time \<Rightarrow> 'i os_state
      \<Rightarrow> status \<times> byte list \<times> 'i os_state" where
  "OS_TimedReadAbs env f filedes has_buffer nbytes abstime s =
    (if \<not> has_buffer then (OS_INVALID_POINTER, [], s)
     else if \<not> OS_CHECK_SIZE nbytes then (OS_ERR_INVALID_SIZE, [], s)
     else
       case OS_ObjectIdGetById env OS_LOCK_MODE_REFCOUNT OS_OBJECT_TYPE_OS_STREAM filedes s of
         (return_code, token, s1) \<Rightarrow>
           (if return_code = OS_SUCCESS
            then (case OS_GenericRead_Impl f token nbytes abstime s1 of
                    (st, bytes, a) \<Rightarrow> (st, bytes, snd (OS_ObjectIdRelease env token (s1\<lparr>impl := a\<rparr>))))
            else (return_code, [], s1)))"

definition OS_TimedRead ::
    "'i idmap_env \<Rightarrow> 'i file_impl \<Rightarrow> OS_time \<Rightarrow> 'i posix_clock \<Rightarrow> osal_id_t \<Rightarrow> bool \<Rightarrow> nat \<Rightarrow> int \<Rightarrow> 'i os_state
      \<Rightarrow> status \<times> byte list \<times> 'i os_state" where
  "OS_TimedRead env f g c filedes has_buffer nbytes timeout s =
    (case OS_TimeFromRelativeMilliseconds g c timeout s of
       (abstime, s1) \<Rightarrow> OS_TimedReadAbs env f filedes has_buffer nbytes abstime s1)"

definition OS_TimedWriteAbs ::
    "'i idmap_env \<Rightarrow> 'i file_impl \<Rightarrow> osal_id_t \<Rightarrow> byte list option \<Rightarrow> nat \<Rightarrow> OS_time \<Rightarrow> 'i os_state
      \<Rightarrow> status \<times> 'i os_state" where
  "OS_TimedWriteAbs env f filedes buffer nbytes abstime s =
    (case buffer of
       None \<Rightarrow> (OS_INVALID_POINTER, s)
     | Some bytes \<Rightarrow>
         (if \<not> OS_CHECK_SIZE nbytes then (OS_ERR_INVALID_SIZE, s)
          else with_stream env (\<lambda>token. OS_GenericWrite_Impl f token bytes nbytes abstime) filedes s))"

definition OS_TimedWrite ::
    "'i idmap_env \<Rightarrow> 'i file_impl \<Rightarrow> OS_time \<Rightarrow> 'i posix_clock \<Rightarrow> osal_id_t \<Rightarrow> byte list option \<Rightarrow> nat \<Rightarrow> int \<Rightarrow> 'i os_state
      \<Rightarrow> status \<times> 'i os_state" where
  "OS_TimedWrite env f g c filedes buffer nbytes timeout s =
    (case OS_TimeFromRelativeMilliseconds g c timeout s of
       (abstime, s1) \<Rightarrow> OS_TimedWriteAbs env f filedes buffer nbytes abstime s1)"

definition OS_read ::
    "'i idmap_env \<Rightarrow> 'i file_impl \<Rightarrow> OS_time \<Rightarrow> 'i posix_clock \<Rightarrow> osal_id_t \<Rightarrow> bool \<Rightarrow> nat \<Rightarrow> 'i os_state
      \<Rightarrow> status \<times> byte list \<times> 'i os_state" where
  "OS_read env f g c filedes has_buffer nbytes s = OS_TimedRead env f g c filedes has_buffer nbytes OS_PEND s"

definition OS_write ::
    "'i idmap_env \<Rightarrow> 'i file_impl \<Rightarrow> OS_time \<Rightarrow> 'i posix_clock \<Rightarrow> osal_id_t \<Rightarrow> byte list option \<Rightarrow> nat \<Rightarrow> 'i os_state
      \<Rightarrow> status \<times> 'i os_state" where
  "OS_write env f g c filedes buffer nbytes s = OS_TimedWrite env f g c filedes buffer nbytes OS_PEND s"

text \<open>Operations on a path: translate it and call the implementation with the local path.\<close>

definition on_path ::
    "'i idmap_env \<Rightarrow> (string \<Rightarrow> 'i \<Rightarrow> status \<times> 'i) \<Rightarrow> string option \<Rightarrow> 'i os_state \<Rightarrow> status \<times> 'i os_state" where
  "on_path env act path s =
    (case OS_TranslatePath env path True s of
       (return_code, local_path, s1) \<Rightarrow>
         (if return_code = OS_SUCCESS
          then (case act (the local_path) (impl s1) of (st, a) \<Rightarrow> (st, s1\<lparr>impl := a\<rparr>))
          else (return_code, s1)))"

definition OS_chmod :: "'i idmap_env \<Rightarrow> 'i file_impl \<Rightarrow> string option \<Rightarrow> u32 \<Rightarrow> 'i os_state \<Rightarrow> status \<times> 'i os_state" where
  "OS_chmod env f path access_mode s = on_path env (\<lambda>local_path. OS_FileChmod_Impl f local_path access_mode) path s"

definition OS_stat ::
    "'i idmap_env \<Rightarrow> 'i file_impl \<Rightarrow> string option \<Rightarrow> bool \<Rightarrow> 'i os_state \<Rightarrow> status \<times> os_fstat option \<times> 'i os_state" where
  "OS_stat env f path has_stats s =
    (if \<not> has_stats then (OS_INVALID_POINTER, None, s)
     else
       case OS_TranslatePath env path True s of
         (return_code, local_path, s1) \<Rightarrow>
           (if return_code = OS_SUCCESS
            then (case OS_FileStat_Impl f (the local_path) zero_fstat (impl s1) of (st, stats) \<Rightarrow> (st, Some stats, s1))
            else (return_code, Some zero_fstat, s1)))"

definition OS_lseek :: "'i idmap_env \<Rightarrow> 'i file_impl \<Rightarrow> osal_id_t \<Rightarrow> int \<Rightarrow> u32 \<Rightarrow> 'i os_state \<Rightarrow> status \<times> 'i os_state" where
  "OS_lseek env f filedes offset whence s =
     with_stream env (\<lambda>token. OS_GenericSeek_Impl f token offset whence) filedes s"

definition OS_FileAllocate :: "'i idmap_env \<Rightarrow> 'i file_impl \<Rightarrow> osal_id_t \<Rightarrow> int \<Rightarrow> int \<Rightarrow> 'i os_state \<Rightarrow> status \<times> 'i os_state" where
  "OS_FileAllocate env f filedes offset len s =
     with_stream env (\<lambda>token. OS_FileAllocate_Impl f token offset len) filedes s"

definition OS_FileTruncate :: "'i idmap_env \<Rightarrow> 'i file_impl \<Rightarrow> osal_id_t \<Rightarrow> int \<Rightarrow> 'i os_state \<Rightarrow> status \<times> 'i os_state" where
  "OS_FileTruncate env f filedes len s = with_stream env (\<lambda>token. OS_FileTruncate_Impl f token len) filedes s"

definition OS_remove :: "'i idmap_env \<Rightarrow> 'i file_impl \<Rightarrow> string option \<Rightarrow> 'i os_state \<Rightarrow> status \<times> 'i os_state" where
  "OS_remove env f path s = on_path env (OS_FileRemove_Impl f) path s"

text \<open>Whether the record at the iterator is the file with the given name.\<close>

definition stream_is_file :: "string \<Rightarrow> OS_stream_internal_record \<Rightarrow> bool" where
  "stream_is_file nm stream \<longleftrightarrow> socket_domain stream = OS_SocketDomain_INVALID \<and> stream_name stream = nm"

function rename_loop :: "string \<Rightarrow> string \<Rightarrow> 'i OS_object_iter \<Rightarrow> 'i os_state \<Rightarrow> 'i OS_object_iter \<times> 'i os_state" where
  "rename_loop old_filename new_filename iter s =
    (case OS_ObjectIdIteratorGetNext iter s of
       (False, iter1) \<Rightarrow> (iter1, s)
     | (True, iter1) \<Rightarrow>
         let j = unat (obj_idx (iter_token iter1))
         in rename_loop old_filename new_filename iter1
              (if stream_is_file old_filename (OS_stream_table s j)
               then upd_stream j (\<lambda>st. st\<lparr>stream_name := strncpy_cleared new_filename OS_MAX_PATH_LEN\<rparr>) s
               else s))"
  by pat_completeness auto
termination
  by (relation "measure (\<lambda>(old, new, iter, s). unat (iter_limit iter) - unat (obj_idx (iter_token iter) + 1))")
    (auto intro: GetNext_decreases)

declare rename_loop.simps [simp del]

definition OS_rename ::
    "'i idmap_env \<Rightarrow> 'i file_impl \<Rightarrow> string option \<Rightarrow> string option \<Rightarrow> 'i os_state \<Rightarrow> status \<times> 'i os_state" where
  "OS_rename env f old_filename new_filename s =
    (case OS_TranslatePath env old_filename True s of
       (rc1, old_path, s1) \<Rightarrow>
         (if rc1 \<noteq> OS_SUCCESS then (rc1, s1)
          else
            case OS_TranslatePath env new_filename True s1 of
              (rc2, new_path, s2) \<Rightarrow>
                (if rc2 \<noteq> OS_SUCCESS then (rc2, s2)
                 else
                   case OS_FileRename_Impl f (the old_path) (the new_path) (impl s2) of
                     (rc3, a) \<Rightarrow>
                       let s3 = s2\<lparr>impl := a\<rparr>
                       in if rc3 \<noteq> OS_SUCCESS then (rc3, s3)
                          else
                            case OS_ObjectIdIterateActive env OS_OBJECT_TYPE_OS_STREAM s3 of
                              (_, iter, s4) \<Rightarrow>
                                (case rename_loop (the old_filename) (the new_filename) iter s4 of
                                   (iter1, s5) \<Rightarrow> (rc3, snd (OS_ObjectIdIteratorDestroy iter1 s5))))))"

text \<open>
  \<open>OS_cp\<close> reads a block and writes it until all of it is written. Neither loop has a bound in the
  code: a write that returns 0 is repeated, so the loops are partial, with \<open>None\<close> for an endless run.
\<close>

partial_function (option) cp_write ::
    "'i idmap_env \<Rightarrow> 'i file_impl \<Rightarrow> OS_time \<Rightarrow> 'i posix_clock \<Rightarrow> osal_id_t \<Rightarrow> byte list \<Rightarrow> int \<Rightarrow> int \<Rightarrow> 'i os_state
      \<Rightarrow> (status \<times> 'i os_state) option" where
  "cp_write env f g c file2 copyblock rd_size wr_total s =
    (if wr_total < rd_size then
       (case OS_write env f g c file2 (Some (drop (nat wr_total) copyblock)) (nat (rd_size - wr_total)) s of
          (wr_size, s1) \<Rightarrow>
            if wr_size < 0 then Some (wr_size, s1)
            else cp_write env f g c file2 copyblock rd_size (wr_total + wr_size) s1)
     else Some (OS_SUCCESS, s))"

partial_function (option) cp_loop ::
    "'i idmap_env \<Rightarrow> 'i file_impl \<Rightarrow> OS_time \<Rightarrow> 'i posix_clock \<Rightarrow> osal_id_t \<Rightarrow> osal_id_t \<Rightarrow> 'i os_state
      \<Rightarrow> (status \<times> 'i os_state) option" where
  "cp_loop env f g c file1 file2 s =
    (case OS_read env f g c file1 True OS_CP_BLOCK_SIZE s of
       (rd_size, copyblock, s1) \<Rightarrow>
         if rd_size < 0 then Some (rd_size, s1)
         else if rd_size = 0 then Some (OS_SUCCESS, s1)
         else Option.bind (cp_write env f g c file2 copyblock rd_size 0 s1)
                (\<lambda>(return_code, s2).
                   if return_code = OS_SUCCESS then cp_loop env f g c file1 file2 s2 else Some (return_code, s2)))"

definition cp_close :: "'i idmap_env \<Rightarrow> 'i file_impl \<Rightarrow> osal_id_t \<Rightarrow> 'i os_state \<Rightarrow> 'i os_state" where
  "cp_close env f filedes s = (if OS_ObjectIdDefined filedes then snd (OS_close env f filedes s) else s)"

definition OS_cp ::
    "'i idmap_env \<Rightarrow> 'i file_impl \<Rightarrow> OS_time \<Rightarrow> 'i posix_clock \<Rightarrow> string option \<Rightarrow> string option \<Rightarrow> 'i os_state
      \<Rightarrow> (status \<times> 'i os_state) option" where
  "OS_cp env f g c src dest s =
    (if src = None \<or> dest = None then Some (OS_INVALID_POINTER, s)
     else
       case OS_OpenCreate env f True src OS_FILE_FLAG_NONE OS_READ_ONLY s of
         (rc1, fd1, s1) \<Rightarrow>
           let (rc2, fd2, s2) =
                 (if rc1 = OS_SUCCESS
                  then OS_OpenCreate env f True dest (OS_FILE_FLAG_CREATE + OS_FILE_FLAG_TRUNCATE) OS_WRITE_ONLY s1
                  else (rc1, Some OS_OBJECT_ID_UNDEFINED, s1));
               file1 = the fd1;
               file2 = the fd2
           in Option.bind (if rc2 = OS_SUCCESS then cp_loop env f g c file1 file2 s2 else Some (rc2, s2))
                (\<lambda>(rc3, s3). Some (rc3, cp_close env f file2 (cp_close env f file1 s3))))"

definition OS_mv ::
    "'i idmap_env \<Rightarrow> 'i file_impl \<Rightarrow> OS_time \<Rightarrow> 'i posix_clock \<Rightarrow> string option \<Rightarrow> string option \<Rightarrow> 'i os_state
      \<Rightarrow> (status \<times> 'i os_state) option" where
  "OS_mv env f g c src dest s =
    (case OS_rename env f src dest s of
       (rc1, s1) \<Rightarrow>
         (if rc1 \<noteq> OS_SUCCESS
          then Option.bind (OS_cp env f g c src dest s1)
                 (\<lambda>(rc2, s2). Some (rc2, if rc2 = OS_SUCCESS then snd (OS_remove env f src s2) else s2))
          else Some (rc1, s1)))"

definition OS_FDGetInfo ::
    "'i idmap_env \<Rightarrow> osal_id_t \<Rightarrow> bool \<Rightarrow> 'i os_state \<Rightarrow> status \<times> OS_file_prop option \<times> 'i os_state" where
  "OS_FDGetInfo env filedes has_prop s =
    (if \<not> has_prop then (OS_INVALID_POINTER, None, s)
     else
       let fd_prop = \<lparr>file_prop_Path = [], file_prop_User = 0, file_prop_IsValid = 0\<rparr>
       in case OS_ObjectIdGetById env OS_LOCK_MODE_GLOBAL OS_OBJECT_TYPE_OS_STREAM filedes s of
            (return_code, token, s1) \<Rightarrow>
              (if return_code = OS_SUCCESS then
                 let rec = OS_common_table s1 (OS_ObjectIdGlobalFromToken token);
                     path = (case name_entry rec of
                               Some p \<Rightarrow> strncpy_cleared (deref_name s1 p) OS_MAX_PATH_LEN | None \<Rightarrow> [])
                 in (return_code, Some \<lparr>file_prop_Path = path, file_prop_User = creator rec, file_prop_IsValid = 1\<rparr>,
                     snd (OS_ObjectIdRelease env token s1))
               else (return_code, Some fd_prop, s1)))"

function open_check_loop :: "string \<Rightarrow> 'i OS_object_iter \<Rightarrow> 'i os_state \<Rightarrow> status \<times> 'i OS_object_iter" where
  "open_check_loop Filename iter s =
    (case OS_ObjectIdIteratorGetNext iter s of
       (False, iter1) \<Rightarrow> (OS_ERROR, iter1)
     | (True, iter1) \<Rightarrow>
         (if stream_is_file Filename (OS_stream_table s (unat (obj_idx (iter_token iter1))))
          then (OS_SUCCESS, iter1)
          else open_check_loop Filename iter1 s))"
  by pat_completeness auto
termination
  by (relation "measure (\<lambda>(n, iter, s). unat (iter_limit iter) - unat (obj_idx (iter_token iter) + 1))")
    (auto intro: GetNext_decreases)

declare open_check_loop.simps [simp del]

definition OS_FileOpenCheck :: "'i idmap_env \<Rightarrow> string option \<Rightarrow> 'i os_state \<Rightarrow> status \<times> 'i os_state" where
  "OS_FileOpenCheck env Filename s =
    (case Filename of
       None \<Rightarrow> (OS_INVALID_POINTER, s)
     | Some nm \<Rightarrow>
         (case OS_ObjectIdIterateActive env OS_OBJECT_TYPE_OS_STREAM s of
            (_, iter, s1) \<Rightarrow>
              (case open_check_loop nm iter s1 of
                 (return_code, iter1) \<Rightarrow> (return_code, snd (OS_ObjectIdIteratorDestroy iter1 s1)))))"

text \<open>
  The loops of \<open>OS_CloseFileByName\<close> and \<open>OS_CloseAllFiles\<close>: \<open>select\<close> chooses the records to close, and
  \<open>combine\<close> the status to return from the one so far and the one of the last close.
\<close>

function close_loop ::
    "'i idmap_env \<Rightarrow> 'i file_impl \<Rightarrow> (OS_stream_internal_record \<Rightarrow> bool) \<Rightarrow> (status \<Rightarrow> status \<Rightarrow> status) \<Rightarrow> status
      \<Rightarrow> 'i OS_object_iter \<Rightarrow> 'i os_state \<Rightarrow> status \<times> 'i OS_object_iter \<times> 'i os_state" where
  "close_loop env f select combine return_code iter s =
    (case OS_ObjectIdIteratorGetNext iter s of
       (False, iter1) \<Rightarrow> (return_code, iter1, s)
     | (True, iter1) \<Rightarrow>
         (if select (OS_stream_table s (unat (obj_idx (iter_token iter1))))
          then (case OS_ObjectIdIteratorProcessEntry env iter1 (OS_FileIteratorClose env f) s of
                  (close_code, iter2, s2) \<Rightarrow> close_loop env f select combine (combine return_code close_code) iter2 s2)
          else close_loop env f select combine return_code iter1 s))"
  by pat_completeness auto
termination
  by (relation "measure (\<lambda>(e, f, p, q, r, iter, s). unat (iter_limit iter) - unat (obj_idx (iter_token iter) + 1))")
    (auto intro: GetNext_decreases ForEach_decreases)

declare close_loop.simps [simp del]

definition OS_CloseFileByName :: "'i idmap_env \<Rightarrow> 'i file_impl \<Rightarrow> string option \<Rightarrow> 'i os_state \<Rightarrow> status \<times> 'i os_state" where
  "OS_CloseFileByName env f Filename s =
    (case Filename of
       None \<Rightarrow> (OS_INVALID_POINTER, s)
     | Some nm \<Rightarrow>
         (case OS_ObjectIdIterateActive env OS_OBJECT_TYPE_OS_STREAM s of
            (_, iter, s1) \<Rightarrow>
              (case close_loop env f (stream_is_file nm)
                      (\<lambda>return_code close_code. if return_code = OS_FS_ERR_PATH_INVALID \<or> close_code \<noteq> OS_SUCCESS
                                                 then close_code else return_code)
                      OS_FS_ERR_PATH_INVALID iter s1 of
                 (return_code, iter1, s2) \<Rightarrow> (return_code, snd (OS_ObjectIdIteratorDestroy iter1 s2)))))"

definition OS_CloseAllFiles :: "'i idmap_env \<Rightarrow> 'i file_impl \<Rightarrow> 'i os_state \<Rightarrow> status \<times> 'i os_state" where
  "OS_CloseAllFiles env f s =
    (case OS_ObjectIdIterateActive env OS_OBJECT_TYPE_OS_STREAM s of
       (_, iter, s1) \<Rightarrow>
         (case close_loop env f (\<lambda>_. True)
                 (\<lambda>return_code close_code. if close_code \<noteq> OS_SUCCESS then close_code else return_code)
                 OS_SUCCESS iter s1 of
            (return_code, iter1, s2) \<Rightarrow> (return_code, snd (OS_ObjectIdIteratorDestroy iter1 s2))))"

subsection \<open>The stream table as a slot table\<close>

abbreviation (input) SRT :: osal_objtype_t where "SRT \<equiv> OS_OBJECT_TYPE_OS_STREAM"

definition stream_filled :: "string \<Rightarrow> unit \<Rightarrow> OS_stream_internal_record" where
  "stream_filled nm x = zero_stream\<lparr>stream_name := strncpy_cleared nm OS_MAX_PATH_LEN\<rparr>"

lemma upd_stream_frame [simp]:
  "OS_common_table (upd_stream j g s) = OS_common_table s" "OS_filesys_table (upd_stream j g s) = OS_filesys_table s"
  "OS_stream_table (upd_stream j g s) = (OS_stream_table s)(j := g (OS_stream_table s j))"
  "impl (upd_stream j g s) = impl s" "OS_SharedGlobalVars (upd_stream j g s) = OS_SharedGlobalVars s"
  "lock_free t (upd_stream j g s) = lock_free t s" "running (upd_stream j g s) = running s"
  "stuck (upd_stream j g s) = stuck s" "table_lock (upd_stream j g s) = table_lock s"
  "OS_objtype_state_tbl (upd_stream j g s) = OS_objtype_state_tbl s"
  by (simp_all add: upd_stream_def lock_free_def objtype_state_def running_def)

interpretation srt: slot_table SRT Stream_name stream_fill OS_stream_table stream_filled OS_MAX_PATH_LEN
proof
  fix nm :: string and x :: unit and token :: OS_object_token and s :: "'i os_state" and p
  show "length nm < OS_MAX_PATH_LEN \<Longrightarrow> deref_name (stream_fill nm x token s) (Stream_name (unat (obj_idx token))) = nm"
    by (simp add: stream_fill_def strncpy_cleared_fits)
  show "name_owner p \<noteq> (SRT, unat (obj_idx token)) \<Longrightarrow> deref_name (stream_fill nm x token s) p = deref_name s p"
    by (cases p) (auto simp: stream_fill_def upd_stream_def)
qed (auto simp: stream_fill_def stream_filled_def OS_GetMaxForObjectType_def os_max_defs)

text \<open>What path translation depends on.\<close>

definition translates :: "'i os_state \<Rightarrow> string \<Rightarrow> string \<Rightarrow> bool" where
  "translates s path l \<longleftrightarrow> well_formed path \<and> (\<exists>k. mount_of s path k
     \<and> fs_flags (OS_filesys_table s (unat k)) AND OS_FILESYS_FLAG_IS_MOUNTED_SYSTEM \<noteq> 0
     \<and> TranslatePath_join (OS_filesys_table s (unat k)) path = (OS_SUCCESS, Some l))"

lemma translates_ok:
  "idle s \<Longrightarrow> translates s path l \<Longrightarrow>
    OS_TranslatePath env (Some path) True s = (OS_SUCCESS, Some l, ticked OS_OBJECT_TYPE_OS_FILESYS s)"
  by (auto simp: translates_def TranslatePath_found Let_def)

lemma translates_frame:
  fixes s s' :: "'i os_state"
  assumes "\<And>k. registry s' (OS_OBJECT_TYPE_OS_FILESYS, k) = registry s (OS_OBJECT_TYPE_OS_FILESYS, k)"
    and "OS_filesys_table s' = OS_filesys_table s"
  shows "translates s' = translates s"
proof -
  have m: "mounted_at x path k \<longleftrightarrow> registry x (OS_OBJECT_TYPE_OS_FILESYS, k) \<noteq> None \<and> covers (OS_filesys_table x (unat k)) path"
    for x :: "'i os_state" and path k
    by (auto simp: mounted_at_def registry_def Let_def)
  show ?thesis unfolding fun_eq_iff translates_def mount_of_def m assms by blast
qed

text \<open>Opening and closing a stream, when no event handler is installed.\<close>

definition no_handler :: "'i os_state \<Rightarrow> bool" where
  "no_handler s \<longleftrightarrow> EventHandler (OS_SharedGlobalVars s) = None"

lemma no_handler_frame [simp]:
  "no_handler (ticked t s) = no_handler s" "no_handler (s\<lparr>impl := a\<rparr>) = no_handler s" "no_handler (upd_common r g s) = no_handler s"
  by (simp_all add: no_handler_def ticked_def upd_objtype_def upd_common_def)

lemma event_impl_none [simp]: "no_handler s \<Longrightarrow> event_impl env ev i s = impl s"
  by (simp add: event_impl_def no_handler_def)

lemma OpenCreate_ok:
  assumes s: "idle s" "no_handler s" and tr: "translates s path l"
    and free: "\<exists>k < OS_GetMaxForObjectType SRT. registry s (SRT, k) = None"
    and mode: "mode = OS_WRITE_ONLY \<or> mode = OS_READ_ONLY \<or> mode = OS_READ_WRITE"
    and impl: "\<And>token s'. impl s' = impl s \<Longrightarrow> \<exists>a. OS_FileOpen_Impl f token l flags mode s' = (OS_SUCCESS, a) \<and> P (unat (obj_idx token)) a"
  obtains i s' where "OS_OpenCreate env f True (Some path) flags mode s = (OS_SUCCESS, Some i, s')"
    and "idle s'" "live SRT i s'" "no_handler s'" "translates s' = translates s" "registry s (SRT, index_of i) = None"
    and "registry s' = (registry s)((SRT, index_of i) \<mapsto> (i, Some path, OS_TaskGetId env s))"
    and "P (unat (index_of i)) (impl s')"
proof -
  let ?s = "ticked OS_OBJECT_TYPE_OS_FILESYS s"
  have id: "idle ?s" and len: "length path < OS_MAX_PATH_LEN" using s tr by (auto simp: translates_def well_formed_def)
  have ev: "event_ok env ?s" using s(2) by (simp add: event_ok_def no_handler_def ticked_def upd_objtype_def)
  have free': "\<exists>k < OS_GetMaxForObjectType SRT. registry ?s (SRT, k) = None" using free by simp
  obtain i where i: "id_of_type SRT i" "registry ?s (SRT, index_of i) = None"
    and c: "\<And>st a. OS_FileOpen_Impl f (tok OS_LOCK_MODE_EXCLUSIVE 0 SRT (index_of i) i) l flags mode
            (stream_fill path () (tok OS_LOCK_MODE_EXCLUSIVE 0 SRT (index_of i) i) (reserved_state env SRT i ?s)) = (st, a)
         \<Longrightarrow> create_object_as env SRT None (stream_fill path ()) (\<lambda>token. OS_FileOpen_Impl f token l flags mode) ?s
           = (st, Some (if st = OS_SUCCESS then i else 0),
              created_state env SRT i st a
                (stream_fill path () (tok OS_LOCK_MODE_EXCLUSIVE 0 SRT (index_of i) i) (reserved_state env SRT i ?s)))"
    by (rule srt.create_object_ok[where name = None and nm = path and x = "()"
          and create = "\<lambda>token. OS_FileOpen_Impl f token l flags mode", OF id ev free']) (blast, blast)
  let ?s2 = "stream_fill path () (tok OS_LOCK_MODE_EXCLUSIVE 0 SRT (index_of i) i) (reserved_state env SRT i ?s)"
  have im: "impl ?s2 = impl s" "no_handler ?s2" "OS_filesys_table ?s2 = OS_filesys_table s"
    using s(2) by (simp_all add: stream_fill_def reserved_state_def issued_def no_handler_def ticked_def upd_objtype_def upd_common_def event_impl_def)
  from impl[OF im(1), of "tok OS_LOCK_MODE_EXCLUSIVE 0 SRT (index_of i) i"] obtain a
    where a: "OS_FileOpen_Impl f (tok OS_LOCK_MODE_EXCLUSIVE 0 SRT (index_of i) i) l flags mode ?s2 = (OS_SUCCESS, a)"
      and P: "P (unat (index_of i)) a" by auto
  let ?s' = "created_state env SRT i OS_SUCCESS a ?s2"
  have op: "OS_OpenCreate env f True (Some path) flags mode s = (OS_SUCCESS, Some i, ?s')"
    using c[OF a] mode translates_ok[OF s(1) tr, of env]
    by (auto simp: OS_OpenCreate_def create_object_as_def Let_def split: prod.splits if_splits)
  have reg: "registry ?s' = (registry s)((SRT, index_of i) \<mapsto> (i, Some path, OS_TaskGetId env s))"
    using srt.created_registry[OF id i len, of env OS_SUCCESS a] by (simp add: OS_TaskGetId_def)
  have id': "idle ?s'" by (rule srt.created_idle[OF id i(1)])
  have im': "impl ?s' = a" "no_handler ?s'" "OS_filesys_table ?s' = OS_filesys_table s"
    using im by (simp_all add: created_state_def event_impl_none ticked_def upd_objtype_def upd_common_def no_handler_def event_impl_def)
  have "translates ?s' = translates s" by (rule translates_frame) (simp_all add: reg im')
  then show thesis
    using that[OF op id' srt.created_live[OF id' i(1)] im'(2)] reg i(2) im'(1) P by simp
qed

lemma close_ok:
  assumes s: "idle s" "no_handler s" "live SRT i s"
    and impl: "\<And>token s'. impl s' = impl s \<Longrightarrow> \<exists>a. OS_GenericClose_Impl f token s' = (OS_SUCCESS, a) \<and> P (unat (obj_idx token)) a"
  obtains s' where "OS_close env f i s = (OS_SUCCESS, s')" "idle s'" "no_handler s'"
    "registry s' = (registry s)((SRT, index_of i) := None)" "P (unat (index_of i)) (impl s')"
proof -
  have im: "impl (claimed_state SRT i s) = impl s" by (simp add: claimed_state_def ticked_def upd_objtype_def upd_common_def)
  from impl[OF im, of "tok OS_LOCK_MODE_EXCLUSIVE 0 SRT (index_of i) i"] obtain a
    where a: "OS_GenericClose_Impl f (tok OS_LOCK_MODE_EXCLUSIVE 0 SRT (index_of i) i) (claimed_state SRT i s) = (OS_SUCCESS, a)"
      and P: "P (unat (index_of i)) a" by auto
  have "OS_close env f i s = delete_object env SRT (OS_GenericClose_Impl f) i s"
    by (simp add: OS_close_def delete_object_def)
  with delete_object_live[where env = env and del = "OS_GenericClose_Impl f", OF s(1,3) a]
  have c: "OS_close env f i s = (OS_SUCCESS, deleted_state env SRT i OS_SUCCESS a s)" by simp
  have "impl (deleted_state env SRT i OS_SUCCESS a s) = a" "no_handler (deleted_state env SRT i OS_SUCCESS a s)"
    using s(2) by (simp_all add: deleted_state_def ticked_def upd_objtype_def upd_common_def no_handler_def event_impl_def)
  with P deleted_registry[OF s(1,3), of env OS_SUCCESS a] deleted_idle[OF s(1,3), of env OS_SUCCESS a] that[OF c]
  show thesis by simp
qed

subsection \<open>Copying a file\<close>

text \<open>
  What POSIX says of files, as a relation between the implementation's state before and after a
  call: \<open>view\<close> shows the contents of the files by their local path, and the path and position of
  each open stream. Reading and writing may transfer fewer bytes than asked for, but not none when
  there is something to transfer.
\<close>

type_synonym disk = "string \<Rightarrow> byte list option"
type_synonym positions = "nat \<Rightarrow> (string \<times> nat) option"

definition opens_files :: "'i file_impl \<Rightarrow> ('i \<Rightarrow> disk \<times> positions) \<Rightarrow> bool" where
  "opens_files f view \<longleftrightarrow>
    (\<forall>token p s D F. view (impl s) = (D, F) \<longrightarrow>
       (D p \<noteq> None \<longrightarrow> (\<exists>a. OS_FileOpen_Impl f token p OS_FILE_FLAG_NONE OS_READ_ONLY s = (OS_SUCCESS, a)
          \<and> view a = (D, F(unat (obj_idx token) \<mapsto> (p, 0)))))
     \<and> (\<exists>a. OS_FileOpen_Impl f token p (OS_FILE_FLAG_CREATE + OS_FILE_FLAG_TRUNCATE) OS_WRITE_ONLY s = (OS_SUCCESS, a)
          \<and> view a = (D(p \<mapsto> []), F(unat (obj_idx token) \<mapsto> (p, 0))))
     \<and> (\<exists>a. OS_GenericClose_Impl f token s = (OS_SUCCESS, a) \<and> view a = (D, F(unat (obj_idx token) := None))))"

definition reads_files :: "'i file_impl \<Rightarrow> ('i \<Rightarrow> disk \<times> positions) \<Rightarrow> bool" where
  "reads_files f view \<longleftrightarrow>
    (\<forall>token n t s D F p pos bytes. view (impl s) = (D, F) \<and> F (unat (obj_idx token)) = Some (p, pos) \<and> D p = Some bytes \<and> 0 < n \<longrightarrow>
       (\<exists>m a. OS_GenericRead_Impl f token n t s = (int m, take m (drop pos bytes), a) \<and> m \<le> n \<and> m \<le> length bytes - pos
          \<and> (pos < length bytes \<longrightarrow> 0 < m) \<and> view a = (D, F(unat (obj_idx token) \<mapsto> (p, pos + m)))))"

definition writes_files :: "'i file_impl \<Rightarrow> ('i \<Rightarrow> disk \<times> positions) \<Rightarrow> bool" where
  "writes_files f view \<longleftrightarrow>
    (\<forall>token buffer n t s D F p pos bytes. view (impl s) = (D, F) \<and> F (unat (obj_idx token)) = Some (p, pos) \<and> D p = Some bytes
          \<and> 0 < n \<and> n \<le> length buffer \<longrightarrow>
       (\<exists>m a. OS_GenericWrite_Impl f token buffer n t s = (int m, a) \<and> 0 < m \<and> m \<le> n
          \<and> view a = (D(p \<mapsto> take pos bytes @ take m buffer @ drop (pos + m) bytes), F(unat (obj_idx token) \<mapsto> (p, pos + m)))))"

lemma pend_forever: "OS_TimeFromRelativeMilliseconds g c OS_PEND s = (OS_TIME_MAX, s)"
  by (simp add: OS_TimeFromRelativeMilliseconds_def)

text \<open>The part of the state that copying keeps: the registry and the absence of a handler.\<close>

definition calm :: "'i os_state \<Rightarrow> 'i os_state \<Rightarrow> bool" where
  "calm s s' \<longleftrightarrow> idle s' \<and> no_handler s' \<and> registry s' = registry s"

lemma calm_refl: "idle s \<Longrightarrow> no_handler s \<Longrightarrow> calm s s" and calm_trans: "calm s s' \<Longrightarrow> calm s' s'' \<Longrightarrow> calm s s''"
  by (simp_all add: calm_def)

lemma calm_live: "idle s \<Longrightarrow> calm s s' \<Longrightarrow> live SRT i s' = live SRT i s"
  by (simp add: calm_def idle_live)

lemma read_live:
  assumes s: "idle s" "no_handler s" "live SRT i s" and f: "reads_files f view"
    and v: "view (impl s) = (D, F)" "F (unat (index_of i)) = Some (p, pos)" "D p = Some bytes" "0 < n" "OS_CHECK_SIZE n"
  obtains m s' where "OS_read env f g c i True n s = (int m, take m (drop pos bytes), s')" "m \<le> n" "m \<le> length bytes - pos"
    "pos < length bytes \<longrightarrow> 0 < m" "calm s s'" "view (impl s') = (D, F(unat (index_of i) \<mapsto> (p, pos + m)))"
proof -
  let ?tk = "tok OS_LOCK_MODE_REFCOUNT 0 SRT (index_of i) i"
  let ?s1 = "ticked SRT (upd_common (record_of SRT (index_of i)) (\<lambda>ob. ob\<lparr>refcount := refcount ob + 1\<rparr>) s)"
  have im: "impl ?s1 = impl s" by (simp add: ticked_def upd_objtype_def upd_common_def)
  have "view (impl ?s1) = (D, F) \<and> F (unat (obj_idx ?tk)) = Some (p, pos) \<and> D p = Some bytes \<and> 0 < n" using v im by simp
  from f[unfolded reads_files_def, rule_format, OF this, of OS_TIME_MAX] obtain m a where r: "OS_GenericRead_Impl f ?tk n OS_TIME_MAX ?s1 = (int m, take m (drop pos bytes), a)"
    and m: "m \<le> n" "m \<le> length bytes - pos" "pos < length bytes \<longrightarrow> 0 < m" "view a = (D, F(unat (index_of i) \<mapsto> (p, pos + m)))"
    by auto
  let ?s' = "ticked SRT (ticked SRT (s\<lparr>impl := a\<rparr>))"
  have "OS_read env f g c i True n s = (int m, take m (drop pos bytes), ?s')"
    using v(5) r GetById_Release_refcount[OF s(1,3), of env]
    by (simp add: OS_read_def OS_TimedRead_def pend_forever OS_TimedReadAbs_def)
  moreover have "calm s ?s'" using s by (simp add: calm_def)
  moreover have "impl ?s' = a" by (simp add: ticked_def upd_objtype_def)
  ultimately show thesis using that m by simp
qed

lemma write_live:
  assumes s: "idle s" "no_handler s" "live SRT i s" and f: "writes_files f view"
    and v: "view (impl s) = (D, F)" "F (unat (index_of i)) = Some (p, length bytes)" "D p = Some bytes"
    and n: "0 < n" "n \<le> length buffer" "OS_CHECK_SIZE n"
  obtains m s' where "OS_write env f g c i (Some buffer) n s = (int m, s')" "0 < m" "m \<le> n" "calm s s'"
    "view (impl s') = (D(p \<mapsto> bytes @ take m buffer), F(unat (index_of i) \<mapsto> (p, length (bytes @ take m buffer))))"
proof -
  let ?tk = "tok OS_LOCK_MODE_REFCOUNT 0 SRT (index_of i) i"
  let ?s1 = "ticked SRT (upd_common (record_of SRT (index_of i)) (\<lambda>ob. ob\<lparr>refcount := refcount ob + 1\<rparr>) s)"
  have im: "impl ?s1 = impl s" by (simp add: ticked_def upd_objtype_def upd_common_def)
  have "view (impl ?s1) = (D, F) \<and> F (unat (obj_idx ?tk)) = Some (p, length bytes) \<and> D p = Some bytes \<and> 0 < n \<and> n \<le> length buffer"
    using v im n by simp
  from f[unfolded writes_files_def, rule_format, OF this, of OS_TIME_MAX] obtain m a where r: "OS_GenericWrite_Impl f ?tk buffer n OS_TIME_MAX ?s1 = (int m, a)" "0 < m" "m \<le> n"
    and a: "view a = (D(p \<mapsto> take (length bytes) bytes @ take m buffer @ drop (length bytes + m) bytes), F(unat (index_of i) \<mapsto> (p, length bytes + m)))"
    by auto
  let ?s' = "ticked SRT (ticked SRT (s\<lparr>impl := a\<rparr>))"
  have "OS_write env f g c i (Some buffer) n s = (int m, ?s')"
    using n(3) r GetById_Release_refcount[OF s(1,3), of env]
    by (simp add: OS_write_def OS_TimedWrite_def pend_forever OS_TimedWriteAbs_def with_stream_def)
  moreover have "calm s ?s'" using s by (simp add: calm_def)
  moreover have "impl ?s' = a" by (simp add: ticked_def upd_objtype_def)
  ultimately show thesis using that r a n by simp
qed

lemma cp_write_all:
  assumes f: "writes_files f view" and "idle s" "no_handler s" "live SRT i s"
    and "view (impl s) = (D, F)" "F (unat (index_of i)) = Some (p, length bytes)" "D p = Some bytes"
    and "w \<le> length block" "OS_CHECK_SIZE (length block)"
  shows "\<exists>s'. cp_write env f g c i block (int (length block)) (int w) s = Some (OS_SUCCESS, s') \<and> calm s s'
    \<and> view (impl s') = (D(p \<mapsto> bytes @ drop w block), F(unat (index_of i) \<mapsto> (p, length (bytes @ drop w block))))"
  using assms(2-)
proof (induction "length block - w" arbitrary: s w bytes D F rule: less_induct)
  case less
  show ?case
  proof (cases "w < length block")
    case False
    with less.prems show ?thesis by (subst cp_write.simps) (auto simp: calm_refl map_upd_triv)
  next
    case True
    have n: "0 < length block - w" "length block - w \<le> length (drop w block)" "OS_CHECK_SIZE (length block - w)"
      using True less.prems(8) by (auto simp: OS_CHECK_SIZE_def)
    obtain m s1 where wr: "OS_write env f g c i (Some (drop w block)) (length block - w) s = (int m, s1)"
      and m: "0 < m" "m \<le> length block - w" and c1: "calm s s1"
      and v1: "view (impl s1) = (D(p \<mapsto> bytes @ take m (drop w block)),
                 F(unat (index_of i) \<mapsto> (p, length (bytes @ take m (drop w block)))))"
      by (rule write_live[OF less.prems(1-3) f less.prems(4-6) n])
    have s1: "idle s1" "no_handler s1" "live SRT i s1"
      using c1 calm_live[OF less.prems(1) c1] less.prems(3) by (simp_all add: calm_def)
    have join: "(bytes @ take m (drop w block)) @ drop (w + m) block = bytes @ drop w block"
      using append_take_drop_id[of m "drop w block"] by (simp add: add.commute)
    have "\<exists>s'. cp_write env f g c i block (int (length block)) (int (w + m)) s1 = Some (OS_SUCCESS, s') \<and> calm s1 s'
      \<and> view (impl s') = ((D(p \<mapsto> bytes @ take m (drop w block)))(p \<mapsto> (bytes @ take m (drop w block)) @ drop (w + m) block),
          (F(unat (index_of i) \<mapsto> (p, length (bytes @ take m (drop w block)))))
            (unat (index_of i) \<mapsto> (p, length ((bytes @ take m (drop w block)) @ drop (w + m) block))))"
      by (rule less.hyps[OF _ s1 v1]) (use True m less.prems in auto)
    then obtain s' where s': "cp_write env f g c i block (int (length block)) (int (w + m)) s1 = Some (OS_SUCCESS, s')"
      "calm s1 s'" and v': "view (impl s') = (D(p \<mapsto> bytes @ drop w block), F(unat (index_of i) \<mapsto> (p, length (bytes @ drop w block))))"
      unfolding join by auto
    have "cp_write env f g c i block (int (length block)) (int w) s = Some (OS_SUCCESS, s')"
      using True wr s'(1) m by (subst cp_write.simps) (simp add: nat_diff_distrib)
    then show ?thesis using calm_trans[OF c1 s'(2)] v' by blast
  qed
qed

text \<open>The copy loop appends what is left of the source to the destination.\<close>

lemma cp_loop_all:
  assumes f: "reads_files f view" "writes_files f view" and ne: "p \<noteq> q" "index_of i1 \<noteq> index_of i2"
    and "idle s" "no_handler s" "live SRT i1 s" "live SRT i2 s"
    and "view (impl s) = (D, F)" "F (unat (index_of i1)) = Some (p, pos)" "D p = Some src"
    "F (unat (index_of i2)) = Some (q, length dst)" "D q = Some dst" "pos \<le> length src"
  shows "\<exists>s'. cp_loop env f g c i1 i2 s = Some (OS_SUCCESS, s') \<and> calm s s'
    \<and> view (impl s') = (D(q \<mapsto> dst @ drop pos src),
        F(unat (index_of i1) \<mapsto> (p, length src), unat (index_of i2) \<mapsto> (q, length (dst @ drop pos src))))"
  using assms(5-)
proof (induction "length src - pos" arbitrary: s pos dst D F rule: less_induct)
  case less
  have k: "unat (index_of i1) \<noteq> unat (index_of i2)" using ne(2) by (simp add: word_unat_eq_iff)
  have sz: "0 < OS_CP_BLOCK_SIZE" "OS_CHECK_SIZE OS_CP_BLOCK_SIZE" by (simp_all add: OS_CP_BLOCK_SIZE_def OS_CHECK_SIZE_def)
  obtain m s1 where rd: "OS_read env f g c i1 True OS_CP_BLOCK_SIZE s = (int m, take m (drop pos src), s1)"
    and m: "m \<le> OS_CP_BLOCK_SIZE" "m \<le> length src - pos" "pos < length src \<longrightarrow> 0 < m" and c1: "calm s s1"
    and v1: "view (impl s1) = (D, F(unat (index_of i1) \<mapsto> (p, pos + m)))"
    by (rule read_live[OF less.prems(1-3) f(1) less.prems(5-7) sz])
  have s1: "idle s1" "no_handler s1" "live SRT i1 s1" "live SRT i2 s1"
    using c1 calm_live[OF less.prems(1) c1] less.prems by (simp_all add: calm_def)
  show ?case
  proof (cases "m = 0")
    case True
    with m less.prems have "pos = length src" by auto
    with less.prems True have same: "D(q \<mapsto> dst @ drop pos src) = D" "F(unat (index_of i1) \<mapsto> (p, pos + m)) = F"
      "F(unat (index_of i1) \<mapsto> (p, length src), unat (index_of i2) \<mapsto> (q, length (dst @ drop pos src))) = F"
      by (auto simp: fun_eq_iff)
    have "cp_loop env f g c i1 i2 s = Some (OS_SUCCESS, s1)" using rd True by (subst cp_loop.simps) simp
    then show ?thesis using c1 v1 unfolding same by blast
  next
    case False
    let ?b = "take m (drop pos src)"
    have lb: "length ?b = m" using m by simp
    have "\<exists>s2. cp_write env f g c i2 ?b (int (length ?b)) (int 0) s1 = Some (OS_SUCCESS, s2) \<and> calm s1 s2
      \<and> view (impl s2) = (D(q \<mapsto> dst @ drop 0 ?b), (F(unat (index_of i1) \<mapsto> (p, pos + m)))(unat (index_of i2) \<mapsto> (q, length (dst @ drop 0 ?b))))"
      by (rule cp_write_all[OF f(2) s1(1,2,4) v1]) (use False k less.prems m lb in \<open>auto simp: OS_CHECK_SIZE_def OS_CP_BLOCK_SIZE_def\<close>)
    then obtain s2 where w: "cp_write env f g c i2 ?b (int m) 0 s1 = Some (OS_SUCCESS, s2)" and c2: "calm s1 s2"
      and v2: "view (impl s2) = (D(q \<mapsto> dst @ ?b), F(unat (index_of i1) \<mapsto> (p, pos + m), unat (index_of i2) \<mapsto> (q, length (dst @ ?b))))"
      unfolding lb by auto
    have s2: "idle s2" "no_handler s2" "live SRT i1 s2" "live SRT i2 s2"
      using c2 calm_live[OF s1(1) c2] s1 by (simp_all add: calm_def)
    have join: "(dst @ ?b) @ drop (pos + m) src = dst @ drop pos src"
      using append_take_drop_id[of m "drop pos src"] by (simp add: add.commute)
    have "\<exists>s'. cp_loop env f g c i1 i2 s2 = Some (OS_SUCCESS, s') \<and> calm s2 s'
      \<and> view (impl s') = ((D(q \<mapsto> dst @ ?b))(q \<mapsto> (dst @ ?b) @ drop (pos + m) src),
          (F(unat (index_of i1) \<mapsto> (p, pos + m), unat (index_of i2) \<mapsto> (q, length (dst @ ?b))))
            (unat (index_of i1) \<mapsto> (p, length src), unat (index_of i2) \<mapsto> (q, length ((dst @ ?b) @ drop (pos + m) src))))"
      by (rule less.hyps[OF _ s2 v2]) (use False m ne k less.prems in auto)
    then obtain s' where s': "cp_loop env f g c i1 i2 s2 = Some (OS_SUCCESS, s')" "calm s2 s'"
      and v': "view (impl s') = (D(q \<mapsto> dst @ drop pos src),
          F(unat (index_of i1) \<mapsto> (p, length src), unat (index_of i2) \<mapsto> (q, length (dst @ drop pos src))))"
      unfolding join using k by (auto simp: fun_upd_twist)
    have "cp_loop env f g c i1 i2 s = Some (OS_SUCCESS, s')"
      using rd False w s'(1) by (subst cp_loop.simps) simp
    then show ?thesis using calm_trans[OF c1 calm_trans[OF c2 s'(2)]] v' by blast
  qed
qed

lemma cp_loop_empty:
  assumes f: "reads_files f view" and s: "idle s" "no_handler s" "live SRT i1 s"
    and v: "view (impl s) = (D, F)" "F (unat (index_of i1)) = Some (p, 0)" "D p = Some []"
  shows "\<exists>s'. cp_loop env f g c i1 i2 s = Some (OS_SUCCESS, s') \<and> calm s s' \<and> view (impl s') = (D, F)"
proof -
  have sz: "0 < OS_CP_BLOCK_SIZE" "OS_CHECK_SIZE OS_CP_BLOCK_SIZE" by (simp_all add: OS_CP_BLOCK_SIZE_def OS_CHECK_SIZE_def)
  obtain m s1 where rd: "OS_read env f g c i1 True OS_CP_BLOCK_SIZE s = (int m, take m (drop 0 []), s1)"
    and m: "m \<le> length ([] :: byte list) - 0" and c1: "calm s s1" and v1: "view (impl s1) = (D, F(unat (index_of i1) \<mapsto> (p, 0 + m)))"
    by (rule read_live[OF s f v sz]) blast
  have "cp_loop env f g c i1 i2 s = Some (OS_SUCCESS, s1)" using rd m by (subst cp_loop.simps) simp
  moreover have "F(unat (index_of i1) \<mapsto> (p, 0 + m)) = F" using m v(2) by (simp add: fun_upd_idem)
  ultimately show ?thesis using c1 v1 by auto
qed

lemma cp_open_both:
  assumes f: "opens_files f view"
    and s: "idle s" "no_handler s" "translates s src p" "translates s dest q"
    and free: "k1 < OS_GetMaxForObjectType SRT" "k2 < OS_GetMaxForObjectType SRT" "k1 \<noteq> k2"
      "registry s (SRT, k1) = None" "registry s (SRT, k2) = None"
    and v: "view (impl s) = (D, F)" "D p \<noteq> None"
  obtains i1 s1 i2 s2 where
    "OS_OpenCreate env f True (Some src) OS_FILE_FLAG_NONE OS_READ_ONLY s = (OS_SUCCESS, Some i1, s1)"
    "OS_OpenCreate env f True (Some dest) (OS_FILE_FLAG_CREATE + OS_FILE_FLAG_TRUNCATE) OS_WRITE_ONLY s1 = (OS_SUCCESS, Some i2, s2)"
    "idle s2" "no_handler s2" "live SRT i1 s2" "live SRT i2 s2" "index_of i1 \<noteq> index_of i2"
    "registry s (SRT, index_of i1) = None" "registry s (SRT, index_of i2) = None"
    "(registry s2)((SRT, index_of i1) := None, (SRT, index_of i2) := None) = registry s"
    "view (impl s2) = (D(q \<mapsto> []), F(unat (index_of i1) \<mapsto> (p, 0), unat (index_of i2) \<mapsto> (q, 0)))"
proof -
  have "\<exists>k < OS_GetMaxForObjectType SRT. registry s (SRT, k) = None" using free by blast
  then obtain i1 s1 where o1: "OS_OpenCreate env f True (Some src) OS_FILE_FLAG_NONE OS_READ_ONLY s = (OS_SUCCESS, Some i1, s1)"
    and s1: "idle s1" "live SRT i1 s1" "no_handler s1" "translates s1 = translates s" "registry s (SRT, index_of i1) = None"
    and r1: "registry s1 = (registry s)((SRT, index_of i1) \<mapsto> (i1, Some src, OS_TaskGetId env s))"
    and v1: "view (impl s1) = (D, F(unat (index_of i1) \<mapsto> (p, 0)))"
    by (rule OpenCreate_ok[OF s(1-3), where f = f and flags = OS_FILE_FLAG_NONE and mode = OS_READ_ONLY and env = env
          and P = "\<lambda>k a. view a = (D, F(k \<mapsto> (p, 0)))"])
      (use f v in \<open>auto simp: opens_files_def\<close>)
  have free1: "\<exists>k < OS_GetMaxForObjectType SRT. registry s1 (SRT, k) = None"
    using free r1 by (cases "index_of i1 = k1") (auto intro: exI[of _ k1] exI[of _ k2])
  obtain i2 s2 where o2: "OS_OpenCreate env f True (Some dest) (OS_FILE_FLAG_CREATE + OS_FILE_FLAG_TRUNCATE) OS_WRITE_ONLY s1
      = (OS_SUCCESS, Some i2, s2)"
    and s2: "idle s2" "live SRT i2 s2" "no_handler s2" "translates s2 = translates s1" "registry s1 (SRT, index_of i2) = None"
    and r2: "registry s2 = (registry s1)((SRT, index_of i2) \<mapsto> (i2, Some dest, OS_TaskGetId env s1))"
    and v2: "view (impl s2) = (D(q \<mapsto> []), F(unat (index_of i1) \<mapsto> (p, 0), unat (index_of i2) \<mapsto> (q, 0)))"
    by (rule OpenCreate_ok[OF s1(1,3) _ free1, where path = dest and l = q and f = f and flags = "OS_FILE_FLAG_CREATE + OS_FILE_FLAG_TRUNCATE"
          and mode = OS_WRITE_ONLY and env = env
          and P = "\<lambda>k a. view a = (D(q \<mapsto> []), F(unat (index_of i1) \<mapsto> (p, 0), k \<mapsto> (q, 0)))"])
      (use f v1 s(4) s1(4) in \<open>auto simp: opens_files_def\<close>)
  have ne: "index_of i1 \<noteq> index_of i2" and n2: "registry s (SRT, index_of i2) = None"
    using s2(5) r1 by (auto split: if_splits)
  have l1: "live SRT i1 s2" using s1(2) ne r2 by (simp add: idle_live[OF s1(1)] idle_live[OF s2(1)])
  have "(registry s2)((SRT, index_of i1) := None, (SRT, index_of i2) := None) = registry s"
    using s1(5) n2 by (auto simp: r1 r2 fun_eq_iff)
  then show thesis using that[OF o1 o2 s2(1,3) l1 s2(2) ne s1(5) n2] v2 by blast
qed

lemma cp_copy:
  assumes f: "reads_files f view" "writes_files f view"
    and s: "idle s" "no_handler s" "live SRT i1 s" "live SRT i2 s" and ne: "index_of i1 \<noteq> index_of i2"
    and v: "view (impl s) = (D(q \<mapsto> []), F(unat (index_of i1) \<mapsto> (p, 0), unat (index_of i2) \<mapsto> (q, 0)))" "D p = Some bytes"
  shows "\<exists>s' F'. cp_loop env f g c i1 i2 s = Some (OS_SUCCESS, s') \<and> calm s s'
      \<and> view (impl s') = (D(q \<mapsto> if p = q then [] else bytes), F')
      \<and> F'(unat (index_of i1) := None, unat (index_of i2) := None) = F(unat (index_of i1) := None, unat (index_of i2) := None)"
proof -
  have k: "unat (index_of i1) \<noteq> unat (index_of i2)" using ne by (simp add: word_unat_eq_iff)
  show ?thesis
  proof (cases "p = q")
    case True
    have "\<exists>s'. cp_loop env f g c i1 i2 s = Some (OS_SUCCESS, s') \<and> calm s s'
        \<and> view (impl s') = (D(q \<mapsto> []), F(unat (index_of i1) \<mapsto> (p, 0), unat (index_of i2) \<mapsto> (q, 0)))"
      by (rule cp_loop_empty[OF f(1) s(1-3) v(1)]) (use True k in auto)
    with True k show ?thesis by (auto simp: fun_upd_twist)
  next
    case False
    have "\<exists>s'. cp_loop env f g c i1 i2 s = Some (OS_SUCCESS, s') \<and> calm s s'
        \<and> view (impl s') = ((D(q \<mapsto> []))(q \<mapsto> [] @ drop 0 bytes), (F(unat (index_of i1) \<mapsto> (p, 0), unat (index_of i2) \<mapsto> (q, 0)))
            (unat (index_of i1) \<mapsto> (p, length bytes), unat (index_of i2) \<mapsto> (q, length ([] @ drop 0 bytes))))"
      by (rule cp_loop_all[OF f False ne s v(1)]) (use False k v in auto)
    with False k show ?thesis by (auto simp: fun_upd_twist)
  qed
qed

lemma cp_close_both:
  assumes f: "opens_files f view" and s: "idle s" "no_handler s" "live SRT i1 s" "live SRT i2 s"
    and ne: "index_of i1 \<noteq> index_of i2" and v: "view (impl s) = (D, F)"
  shows "\<exists>s'. cp_close env f i2 (cp_close env f i1 s) = s' \<and> idle s'
    \<and> registry s' = (registry s)((SRT, index_of i1) := None, (SRT, index_of i2) := None)
    \<and> view (impl s') = (D, F(unat (index_of i1) := None, unat (index_of i2) := None))"
proof -
  have d: "OS_ObjectIdDefined i1" "OS_ObjectIdDefined i2"
    using s(3,4) id_of_type_facts(2) by (auto simp: live_def OS_ObjectIdDefined_def)
  obtain s1 where c1: "OS_close env f i1 s = (OS_SUCCESS, s1)" and s1: "idle s1" "no_handler s1"
    and r1: "registry s1 = (registry s)((SRT, index_of i1) := None)" and v1: "view (impl s1) = (D, F(unat (index_of i1) := None))"
    by (rule close_ok[OF s(1-3), where f = f and env = env and P = "\<lambda>k a. view a = (D, F(k := None))"])
      (use f v in \<open>auto simp: opens_files_def\<close>)
  have l2: "live SRT i2 s1" using s(4) ne r1 by (simp add: idle_live[OF s(1)] idle_live[OF s1(1)])
  obtain s2 where "OS_close env f i2 s1 = (OS_SUCCESS, s2)" "idle s2" "no_handler s2"
    "registry s2 = (registry s1)((SRT, index_of i2) := None)"
    "view (impl s2) = (D, F(unat (index_of i1) := None, unat (index_of i2) := None))"
    by (rule close_ok[OF s1 l2, where f = f and env = env and P = "\<lambda>k a. view a = (D, F(unat (index_of i1) := None, k := None))"])
      (use f v1 in \<open>auto simp: opens_files_def\<close>)
  with c1 r1 d show ?thesis by (simp add: cp_close_def)
qed


text \<open>A host that keeps its files in memory and transfers at most two bytes at a time.\<close>

definition example_pos :: "OS_object_token \<Rightarrow> (disk \<times> positions) os_state \<Rightarrow> (string \<times> nat) option" where
  "example_pos token s = snd (impl s) (unat (obj_idx token))"

definition example_files :: "(disk \<times> positions) file_impl" where
  "example_files =
    \<lparr>OS_GenericSeek_Impl = (\<lambda>_ _ _ s. (OS_ERROR, impl s)),
     OS_GenericRead_Impl = (\<lambda>token n _ s. case example_pos token s of None \<Rightarrow> (OS_ERROR, [], impl s) | Some (p, pos) \<Rightarrow>
        (case fst (impl s) p of None \<Rightarrow> (OS_ERROR, [], impl s) | Some bytes \<Rightarrow>
          let m = min (min n 2) (length bytes - pos)
          in (int m, take m (drop pos bytes), (fst (impl s), (snd (impl s))(unat (obj_idx token) \<mapsto> (p, pos + m)))))),
     OS_GenericWrite_Impl = (\<lambda>token buffer n _ s. case example_pos token s of None \<Rightarrow> (OS_ERROR, impl s) | Some (p, pos) \<Rightarrow>
        (case fst (impl s) p of None \<Rightarrow> (OS_ERROR, impl s) | Some bytes \<Rightarrow>
          let m = min n 2
          in (int m, ((fst (impl s))(p \<mapsto> take pos bytes @ take m buffer @ drop (pos + m) bytes),
                      (snd (impl s))(unat (obj_idx token) \<mapsto> (p, pos + m)))))),
     OS_GenericClose_Impl = (\<lambda>token s. (OS_SUCCESS, (fst (impl s), (snd (impl s))(unat (obj_idx token) := None)))),
     OS_FileOpen_Impl = (\<lambda>token p flags mode s.
        if flags = OS_FILE_FLAG_NONE \<and> fst (impl s) p = None then (OS_ERROR, impl s)
        else (OS_SUCCESS, (if flags = OS_FILE_FLAG_NONE then fst (impl s) else (fst (impl s))(p \<mapsto> []),
                           (snd (impl s))(unat (obj_idx token) \<mapsto> (p, 0))))),
     OS_FileTruncate_Impl = (\<lambda>_ _ s. (OS_ERROR, impl s)), OS_FileAllocate_Impl = (\<lambda>_ _ _ s. (OS_ERROR, impl s)),
     OS_FileStat_Impl = (\<lambda>_ st _. (OS_ERROR, st)), OS_FileRemove_Impl = (\<lambda>_ a. (OS_ERROR, a)),
     OS_FileRename_Impl = (\<lambda>_ _ a. (OS_ERROR, a)), OS_FileChmod_Impl = (\<lambda>_ _ a. (OS_ERROR, a))\<rparr>"

lemma example_files_contract: "opens_files example_files id" "reads_files example_files id" "writes_files example_files id"
  by (auto simp: opens_files_def reads_files_def writes_files_def example_files_def example_pos_def Let_def)


end
