(* ===== verification/Select.thy ===== *)
theory Select
  imports File
begin

text \<open>
  Waiting for streams, \<^verbatim>\<open>src/src/os/shared/src/osapi-select.c\<close>. A descriptor set is an
  array of bytes with one bit per record of the stream table.
\<close>

unbundle bit_operations_syntax

subsection \<open>Operations\<close>

record OS_FdSet =
  object_ids :: "byte list"

definition FdSet_size :: nat where "FdSet_size = (unat OS_MAX_NUM_OPEN_FILES + 7) div 8"

abbreviation (input) OS_STREAM_STATE_BOUND :: "'a::len word" where "OS_STREAM_STATE_BOUND \<equiv> 0x01"
abbreviation (input) OS_STREAM_STATE_CONNECTED :: "'a::len word" where "OS_STREAM_STATE_CONNECTED \<equiv> 0x02"
abbreviation (input) OS_STREAM_STATE_READABLE :: "'a::len word" where "OS_STREAM_STATE_READABLE \<equiv> 0x04"
abbreviation (input) OS_STREAM_STATE_WRITABLE :: "'a::len word" where "OS_STREAM_STATE_WRITABLE \<equiv> 0x08"
abbreviation (input) OS_STREAM_STATE_LISTENING :: "'a::len word" where "OS_STREAM_STATE_LISTENING \<equiv> 0x10"

record 'i select_impl =
  OS_SelectSingle_Impl :: "OS_object_token \<Rightarrow> u32 \<Rightarrow> OS_time \<Rightarrow> 'i os_state \<Rightarrow> status \<times> u32 \<times> 'i"
  OS_SelectMultiple_Impl ::
    "OS_FdSet option \<Rightarrow> OS_FdSet option \<Rightarrow> OS_time \<Rightarrow> 'i os_state \<Rightarrow> status \<times> OS_FdSet option \<times> OS_FdSet option \<times> 'i"

definition OS_SelectSingleAbs ::
    "'i idmap_env \<Rightarrow> 'i select_impl \<Rightarrow> osal_id_t \<Rightarrow> u32 option \<Rightarrow> OS_time \<Rightarrow> 'i os_state
      \<Rightarrow> status \<times> u32 option \<times> 'i os_state" where
  "OS_SelectSingleAbs env w objid StateFlags abs_timeout s =
    (case StateFlags of
       None \<Rightarrow> (OS_INVALID_POINTER, None, s)
     | Some flags \<Rightarrow>
         (case OS_ObjectIdGetById env OS_LOCK_MODE_REFCOUNT OS_OBJECT_TYPE_OS_STREAM objid s of
            (return_code, token, s1) \<Rightarrow>
              (if return_code = OS_SUCCESS
               then (case OS_SelectSingle_Impl w token flags abs_timeout s1 of
                       (st, flags', a) \<Rightarrow> (st, Some flags', snd (OS_ObjectIdRelease env token (s1\<lparr>impl := a\<rparr>))))
               else (return_code, Some flags, s1))))"

definition OS_SelectSingle ::
    "'i idmap_env \<Rightarrow> 'i select_impl \<Rightarrow> OS_time \<Rightarrow> 'i posix_clock \<Rightarrow> osal_id_t \<Rightarrow> u32 option \<Rightarrow> int \<Rightarrow> 'i os_state
      \<Rightarrow> status \<times> u32 option \<times> 'i os_state" where
  "OS_SelectSingle env w g c objid StateFlags msecs s =
    (case OS_TimeFromRelativeMilliseconds g c msecs s of
       (abs_timeout, s1) \<Rightarrow> OS_SelectSingleAbs env w objid StateFlags abs_timeout s1)"

definition OS_SelectMultipleAbs ::
    "'i select_impl \<Rightarrow> OS_FdSet option \<Rightarrow> OS_FdSet option \<Rightarrow> OS_time \<Rightarrow> 'i os_state
      \<Rightarrow> status \<times> OS_FdSet option \<times> OS_FdSet option \<times> 'i os_state" where
  "OS_SelectMultipleAbs w ReadSet WriteSet abs_timeout s =
    (case OS_SelectMultiple_Impl w ReadSet WriteSet abs_timeout s of (st, rd, wr, a) \<Rightarrow> (st, rd, wr, s\<lparr>impl := a\<rparr>))"

definition OS_SelectMultiple ::
    "'i select_impl \<Rightarrow> OS_time \<Rightarrow> 'i posix_clock \<Rightarrow> OS_FdSet option \<Rightarrow> OS_FdSet option \<Rightarrow> int \<Rightarrow> 'i os_state
      \<Rightarrow> status \<times> OS_FdSet option \<times> OS_FdSet option \<times> 'i os_state" where
  "OS_SelectMultiple w g c ReadSet WriteSet msecs s =
    (case OS_TimeFromRelativeMilliseconds g c msecs s of
       (abs_timeout, s1) \<Rightarrow> OS_SelectMultipleAbs w ReadSet WriteSet abs_timeout s1)"

definition OS_SelectFdZero :: "OS_FdSet option \<Rightarrow> status \<times> OS_FdSet option" where
  "OS_SelectFdZero Set =
    (case Set of None \<Rightarrow> (OS_INVALID_POINTER, None) | Some _ \<Rightarrow> (OS_SUCCESS, Some \<lparr>object_ids = replicate FdSet_size 0\<rparr>))"

definition fdset_update :: "(byte \<Rightarrow> byte) \<Rightarrow> osal_index_t \<Rightarrow> OS_FdSet \<Rightarrow> OS_FdSet" where
  "fdset_update f local_id S =
    (let j = unat (drop_bit 3 local_id) in S\<lparr>object_ids := (object_ids S)[j := f (object_ids S ! j)]\<rparr>)"

definition OS_SelectFdAdd :: "OS_FdSet option \<Rightarrow> osal_id_t \<Rightarrow> status \<times> OS_FdSet option" where
  "OS_SelectFdAdd Set objid =
    (case Set of
       None \<Rightarrow> (OS_INVALID_POINTER, None)
     | Some S \<Rightarrow>
         (case OS_ObjectIdToArrayIndex True OS_OBJECT_TYPE_OS_STREAM objid of
            (return_code, Some local_id) \<Rightarrow>
              (if return_code = OS_SUCCESS
               then (return_code, Some (fdset_update (\<lambda>b. b OR push_bit (unat (local_id AND 7)) 1) local_id S))
               else (return_code, Some S))
          | (return_code, None) \<Rightarrow> (return_code, Some S)))"

definition OS_SelectFdClear :: "OS_FdSet option \<Rightarrow> osal_id_t \<Rightarrow> status \<times> OS_FdSet option" where
  "OS_SelectFdClear Set objid =
    (case Set of
       None \<Rightarrow> (OS_INVALID_POINTER, None)
     | Some S \<Rightarrow>
         (case OS_ObjectIdToArrayIndex True OS_OBJECT_TYPE_OS_STREAM objid of
            (return_code, Some local_id) \<Rightarrow>
              (if return_code = OS_SUCCESS
               then (return_code, Some (fdset_update (\<lambda>b. b AND NOT (push_bit (unat (local_id AND 7)) 1)) local_id S))
               else (return_code, Some S))
          | (return_code, None) \<Rightarrow> (return_code, Some S)))"

definition OS_SelectFdIsSet :: "OS_FdSet option \<Rightarrow> osal_id_t \<Rightarrow> bool" where
  "OS_SelectFdIsSet Set objid =
    (case Set of
       None \<Rightarrow> False
     | Some S \<Rightarrow>
         (case OS_ObjectIdToArrayIndex True OS_OBJECT_TYPE_OS_STREAM objid of
            (return_code, Some local_id) \<Rightarrow>
              return_code = OS_SUCCESS
            \<and> drop_bit (unat (local_id AND 7)) (object_ids S ! unat (drop_bit 3 local_id)) AND 1 \<noteq> 0
          | (return_code, None) \<Rightarrow> False))"

subsection \<open>Sets as sets\<close>

text \<open>
  The interface of a set of records with insertion, removal and membership by ID: \<open>members\<close> is the
  set a value stands for and \<open>index\<close> the record an ID refers to.
\<close>

locale id_sets =
  fixes wf :: "'s \<Rightarrow> bool" and members :: "'s \<Rightarrow> nat set" and index :: "'id \<Rightarrow> nat option"
    and add :: "'s \<Rightarrow> 'id \<Rightarrow> 's" and clear :: "'s \<Rightarrow> 'id \<Rightarrow> 's" and is_set :: "'s \<Rightarrow> 'id \<Rightarrow> bool"
  assumes add_wf: "wf S \<Longrightarrow> wf (add S i)"
    and clear_wf: "wf S \<Longrightarrow> wf (clear S i)"
    and add_members: "wf S \<Longrightarrow> members (add S i) = members S \<union> set_option (index i)"
    and clear_members: "wf S \<Longrightarrow> members (clear S i) = members S - set_option (index i)"
    and is_set_members: "wf S \<Longrightarrow> is_set S i \<longleftrightarrow> (\<exists>k. index i = Some k \<and> k \<in> members S)"
begin

text \<open>\<open>(True, i)\<close> adds the record of \<open>i\<close>, \<open>(False, i)\<close> clears it.\<close>

definition run :: "(bool \<times> 'id) list \<Rightarrow> 's \<Rightarrow> 's" where
  "run ops S = fold (\<lambda>(on, i) S. if on then add S i else clear S i) ops S"

definition abstract_run :: "(bool \<times> 'id) list \<Rightarrow> nat set \<Rightarrow> nat set" where
  "abstract_run ops A = fold (\<lambda>(on, i) A. if on then A \<union> set_option (index i) else A - set_option (index i)) ops A"

lemma run_refines: "wf S \<Longrightarrow> wf (run ops S) \<and> members (run ops S) = abstract_run ops (members S)"
proof (induction ops arbitrary: S)
  case (Cons op ops)
  obtain on i where op: "op = (on, i)" by fastforce
  let ?T = "if on then add S i else clear S i"
  have "wf ?T" using Cons.prems by (simp add: add_wf clear_wf)
  from Cons.IH[OF this] Cons.prems show ?case
    by (simp add: run_def abstract_run_def op add_members clear_members split: if_splits)
qed (simp add: run_def abstract_run_def)

lemma abstract_run_other:
  "\<forall>(on, j) \<in> set ops. index j \<noteq> Some k \<Longrightarrow> k \<in> abstract_run ops A \<longleftrightarrow> k \<in> A"
proof (induction ops arbitrary: A)
  case (Cons op ops)
  obtain on i where op: "op = (on, i)" by fastforce
  let ?B = "if on then A \<union> set_option (index i) else A - set_option (index i)"
  have "k \<in> ?B \<longleftrightarrow> k \<in> A" using Cons.prems by (simp add: op)
  moreover have "k \<in> abstract_run ops ?B \<longleftrightarrow> k \<in> ?B" using Cons.prems by (intro Cons.IH) simp
  ultimately show ?case by (simp add: abstract_run_def op)
qed (simp add: abstract_run_def)

lemma last_operation_decides:
  assumes "wf S" and "index i = Some k" and "\<forall>(on, j) \<in> set later. index j \<noteq> Some k"
  shows "is_set (run (earlier @ (on, i) # later) S) i \<longleftrightarrow> on"
proof -
  let ?ops = "earlier @ (on, i) # later"
  have "abstract_run ?ops (members S) =
      abstract_run later (if on then abstract_run earlier (members S) \<union> {k} else abstract_run earlier (members S) - {k})"
    using assms(2) by (simp add: abstract_run_def)
  then have "k \<in> abstract_run ?ops (members S) \<longleftrightarrow> on" by (simp add: abstract_run_other[OF assms(3)])
  moreover note run_refines[OF assms(1), of ?ops]
  ultimately show ?thesis using assms(2) by (simp only: is_set_members) simp
qed

end

definition fdset_wf :: "OS_FdSet \<Rightarrow> bool" where "fdset_wf S \<longleftrightarrow> length (object_ids S) = FdSet_size"

definition fdset_bit :: "byte list \<Rightarrow> nat \<Rightarrow> bool" where "fdset_bit bs k \<longleftrightarrow> bit (bs ! (k div 8)) (k mod 8)"

definition fdset_members :: "OS_FdSet \<Rightarrow> nat set" where
  "fdset_members S = {k. k < unat OS_MAX_NUM_OPEN_FILES \<and> fdset_bit (object_ids S) k}"

definition stream_index :: "osal_id_t \<Rightarrow> nat option" where
  "stream_index i = map_option unat (snd (OS_ObjectIdToArrayIndex True OS_OBJECT_TYPE_OS_STREAM i))"

lemma FdSet_size_value: "FdSet_size = 7"
  by (simp add: FdSet_size_def OS_MAX_NUM_OPEN_FILES_def)

lemma stream_index_bound: "stream_index i = Some k \<Longrightarrow> k < unat OS_MAX_NUM_OPEN_FILES"
  by (auto simp: stream_index_def OS_ObjectIdToArrayIndex_def OS_GetMaxForObjectType_def OS_MAX_NUM_OPEN_FILES_def
        unat_mod Let_def split: if_splits)

lemma ToArrayIndex_stream:
  "OS_ObjectIdToArrayIndex True OS_OBJECT_TYPE_OS_STREAM i =
    (case stream_index i of None \<Rightarrow> (OS_ERR_INVALID_ID, None) | Some k \<Rightarrow> (OS_SUCCESS, Some (of_nat k)))"
  by (auto simp: OS_ObjectIdToArrayIndex_def stream_index_def Let_def)

lemma and_mask_eq_mod_8: "(w :: u32) AND 7 = w mod 8"
  using take_bit_eq_mask[of 3 w] by (simp add: take_bit_eq_mod mask_eq_exp_minus_1)

lemma index_parts:
  assumes "k < 2 ^ 32"
  shows "unat (drop_bit 3 (of_nat k :: u32)) = k div 8" and "unat ((of_nat k :: u32) AND 7) = k mod 8"
proof -
  have k: "unat (of_nat k :: u32) = k" using assms by (simp add: unat_of_nat take_bit_nat_eq_self)
  show "unat (drop_bit 3 (of_nat k :: u32)) = k div 8"
    by (simp only: unat_drop_bit_eq k) (simp add: drop_bit_eq_div)
  have "(of_nat k :: u32) AND 7 = of_nat k mod 8" using and_mask_eq_mod_8[of "of_nat k"] .
  then show "unat ((of_nat k :: u32) AND 7) = k mod 8" by (simp only: unat_mod k) simp
qed

lemma fdset_bit_update:
  assumes "k < 8 * length bs"
  shows "fdset_bit (bs[k div 8 := w]) m \<longleftrightarrow> (if m div 8 = k div 8 then bit w (m mod 8) else fdset_bit bs m)"
proof -
  have "k div 8 < length bs" using assms by linarith
  then show ?thesis by (auto simp: fdset_bit_def)
qed

lemma div_mod_8: "k div 8 = m div 8 \<Longrightarrow> k mod 8 = m mod 8 \<longleftrightarrow> k = (m::nat)"
  by (rule iffI) (metis div_mult_mod_eq, simp)

text \<open>Setting and clearing the bit of one record.\<close>

lemma fdset_bit_set:
  assumes "k < 8 * length bs"
  shows "fdset_bit (bs[k div 8 := bs ! (k div 8) OR 2 ^ (k mod 8)]) m \<longleftrightarrow> m = k \<or> fdset_bit bs m"
proof -
  have "k mod 8 < 8" and "m mod 8 < 8" by simp_all
  then show ?thesis
    unfolding fdset_bit_update[OF assms] using div_mod_8[of m k] by (auto simp: bit_or_iff bit_exp_iff fdset_bit_def)
qed

lemma fdset_bit_clear:
  assumes "k < 8 * length bs"
  shows "fdset_bit (bs[k div 8 := bs ! (k div 8) AND NOT (2 ^ (k mod 8))]) m \<longleftrightarrow> m \<noteq> k \<and> fdset_bit bs m"
proof -
  have "k mod 8 < 8" and "m mod 8 < 8" by simp_all
  then show ?thesis
    unfolding fdset_bit_update[OF assms] using div_mod_8[of m k]
    by (auto simp: bit_and_iff bit_not_iff bit_exp_iff fdset_bit_def)
qed

lemma fdset_position: "fdset_wf S \<Longrightarrow> k < unat OS_MAX_NUM_OPEN_FILES \<Longrightarrow> k < 8 * length (object_ids S)"
  by (simp add: fdset_wf_def FdSet_size_value OS_MAX_NUM_OPEN_FILES_def)

lemma open_files_small: "k < unat OS_MAX_NUM_OPEN_FILES \<Longrightarrow> k < 2 ^ 32"
  by (simp add: OS_MAX_NUM_OPEN_FILES_def)

lemmas fdset_unfold = fdset_update_def ToArrayIndex_stream Let_def index_parts[OF open_files_small[OF stream_index_bound]]

lemma SelectFdAdd_members:
  assumes "fdset_wf S"
  shows "\<exists>S'. OS_SelectFdAdd (Some S) i = (if stream_index i = None then OS_ERR_INVALID_ID else OS_SUCCESS, Some S')
           \<and> fdset_wf S' \<and> fdset_members S' = fdset_members S \<union> set_option (stream_index i)"
proof (cases "stream_index i")
  case (Some k)
  note k = stream_index_bound[OF Some]
  show ?thesis
    using fdset_position[OF assms k] assms k Some
    by (auto simp: OS_SelectFdAdd_def fdset_unfold fdset_wf_def fdset_members_def fdset_bit_set)
qed (use assms in \<open>simp add: OS_SelectFdAdd_def ToArrayIndex_stream\<close>)

lemma SelectFdClear_members:
  assumes "fdset_wf S"
  shows "\<exists>S'. OS_SelectFdClear (Some S) i = (if stream_index i = None then OS_ERR_INVALID_ID else OS_SUCCESS, Some S')
           \<and> fdset_wf S' \<and> fdset_members S' = fdset_members S - set_option (stream_index i)"
proof (cases "stream_index i")
  case (Some k)
  note k = stream_index_bound[OF Some]
  show ?thesis
    using fdset_position[OF assms k] assms k Some
    by (auto simp: OS_SelectFdClear_def fdset_unfold fdset_wf_def fdset_members_def fdset_bit_clear)
qed (use assms in \<open>simp add: OS_SelectFdClear_def ToArrayIndex_stream\<close>)

lemma SelectFdIsSet_members:
  "OS_SelectFdIsSet (Some S) i \<longleftrightarrow> (\<exists>k. stream_index i = Some k \<and> k \<in> fdset_members S)"
proof (cases "stream_index i")
  case (Some k)
  note k = stream_index_bound[OF Some]
  show ?thesis
    using Some k
    by (simp add: OS_SelectFdIsSet_def fdset_unfold fdset_members_def fdset_bit_def and_one_eq bit_iff_odd_drop_bit
          odd_iff_mod_2_eq_one)
qed (simp add: OS_SelectFdIsSet_def ToArrayIndex_stream)

interpretation fdset: id_sets fdset_wf fdset_members stream_index
  "\<lambda>S i. the (snd (OS_SelectFdAdd (Some S) i))" "\<lambda>S i. the (snd (OS_SelectFdClear (Some S) i))"
  "\<lambda>S. OS_SelectFdIsSet (Some S)"
proof (unfold_locales, goal_cases)
  case (1 S i) from SelectFdAdd_members[OF this, of i] show ?case by (elim exE conjE) simp
next
  case (2 S i) from SelectFdClear_members[OF this, of i] show ?case by (elim exE conjE) simp
next
  case (3 S i) from SelectFdAdd_members[OF this, of i] show ?case by (elim exE conjE) simp
next
  case (4 S i) from SelectFdClear_members[OF this, of i] show ?case by (elim exE conjE) simp
next
  case (5 S i) show ?case by (rule SelectFdIsSet_members)
qed

text \<open>C19: The descriptor sets of the select API behave as sets of streams: \<open>OS_SelectFdZero\<close> gives the
  empty set, and after any sequence of additions and removals on it, \<open>OS_SelectFdIsSet\<close> tells of a
  stream whether the last operation on its record was an addition. Operations with an ID that is
  not that of a stream change nothing.\<close>
theorem OS_SelectFd_sets:
  assumes ops: "\<forall>(on, j) \<in> set later. stream_index j \<noteq> stream_index i"
    and i: "stream_index i \<noteq> None"
    and zero: "OS_SelectFdZero (Some S0) = (st, Some Z)"
    and run: "R = fold (\<lambda>(on, j) S. the (snd (if on then OS_SelectFdAdd (Some S) j else OS_SelectFdClear (Some S) j)))
                   (earlier @ (on, i) # later) Z"
  shows "st = OS_SUCCESS \<and> \<not> OS_SelectFdIsSet (Some Z) j
       \<and> (OS_SelectFdIsSet (Some R) i \<longleftrightarrow> on) \<and> length (object_ids R) = FdSet_size
       \<and> (stream_index j = None \<longrightarrow> OS_SelectFdAdd (Some R) j = (OS_ERR_INVALID_ID, Some R)
            \<and> OS_SelectFdClear (Some R) j = (OS_ERR_INVALID_ID, Some R) \<and> \<not> OS_SelectFdIsSet (Some R) j)"
proof -
  from i obtain k where k: "stream_index i = Some k" by blast
  from zero have Z: "st = OS_SUCCESS" "Z = \<lparr>object_ids = replicate FdSet_size 0\<rparr>"
    by (auto simp: OS_SelectFdZero_def)
  then have wf: "fdset_wf Z" and empty: "fdset_members Z = {}"
    by (auto simp: fdset_wf_def fdset_members_def fdset_bit_def FdSet_size_value OS_MAX_NUM_OPEN_FILES_def)
  have R: "R = fdset.run (earlier @ (on, i) # later) Z"
    unfolding run fdset.run_def by (rule arg_cong[where f = "\<lambda>g. fold g _ _"]) (auto simp: fun_eq_iff)
  have "OS_SelectFdIsSet (Some R) i \<longleftrightarrow> on"
    unfolding R using fdset.last_operation_decides[OF wf k] ops k by simp
  moreover have "length (object_ids R) = FdSet_size"
    using fdset.run_refines[OF wf, of "earlier @ (on, i) # later"] unfolding R fdset_wf_def by simp
  ultimately show ?thesis
    by (simp add: Z(1) SelectFdIsSet_members empty OS_SelectFdAdd_def OS_SelectFdClear_def ToArrayIndex_stream)
qed

theorem OS_SelectFd_sets_witness:
  "\<not> OS_SelectFdIsSet (Some (fold (\<lambda>(on, j) S. the (snd (if on then OS_SelectFdAdd (Some S) j else OS_SelectFdClear (Some S) j)))
        ([(True, 0x60009), (True, 0x60001)] @ (False, 0x60009) # [(True, 0x60002)])
        (the (snd (OS_SelectFdZero (Some \<lparr>object_ids = [255]\<rparr>)))))) 0x60009"
proof -
  have ix: "stream_index 0x60009 = Some 9" "stream_index 0x60002 = Some 2" by code_simp+
  show ?thesis
    using OS_SelectFd_sets[where later = "[(True, 0x60002)]" and earlier = "[(True, 0x60009), (True, 0x60001)]" and i = "0x60009"
        and on = False and j = 0 and st = OS_SUCCESS and ?S0.0 = "\<lparr>object_ids = [255]\<rparr>"
        and Z = "the (snd (OS_SelectFdZero (Some \<lparr>object_ids = [255]\<rparr>)))", OF _ _ _ refl] ix
    by (simp add: OS_SelectFdZero_def)
qed

end
