(* ===== verification/Dir.thy ===== *)
theory Dir
  imports File
begin

text \<open>
  Directories, \<^verbatim>\<open>src/src/os/shared/src/osapi-dir.c\<close>, with the POSIX implementation
  \<^verbatim>\<open>src/src/os/portable/os-impl-posix-dirs.c\<close> over the directory streams of the host.
\<close>

subsection \<open>Operations\<close>

record os_dirent =
  FileName :: string

record 'i dir_impl =
  OS_DirCreate_Impl :: "string \<Rightarrow> u32 \<Rightarrow> 'i \<Rightarrow> status \<times> 'i"
  OS_DirOpen_Impl :: "OS_object_token \<Rightarrow> string \<Rightarrow> 'i os_state \<Rightarrow> status \<times> 'i"
  OS_DirClose_Impl :: "OS_object_token \<Rightarrow> 'i os_state \<Rightarrow> status \<times> 'i"
  OS_DirRead_Impl :: "OS_object_token \<Rightarrow> 'i os_state \<Rightarrow> status \<times> os_dirent option \<times> 'i"
  OS_DirRewind_Impl :: "OS_object_token \<Rightarrow> 'i os_state \<Rightarrow> status \<times> 'i"
  OS_DirRemove_Impl :: "string \<Rightarrow> 'i \<Rightarrow> status \<times> 'i"

definition dir_fill :: "string \<Rightarrow> unit \<Rightarrow> OS_object_token \<Rightarrow> 'i os_state \<Rightarrow> 'i os_state" where
  "dir_fill nm x token s =
     upd_common (OS_ObjectIdGlobalFromToken token) (\<lambda>ob. ob\<lparr>name_entry := Some (Dir_name (unat (obj_idx token)))\<rparr>)
       (s\<lparr>OS_dir_table := (OS_dir_table s)(unat (obj_idx token) := zero_dir\<lparr>dir_name := strncpy_cleared nm OS_MAX_PATH_LEN\<rparr>)\<rparr>)"

definition OS_DirAPI_Init :: "'i os_state \<Rightarrow> status \<times> 'i os_state" where
  "OS_DirAPI_Init s = (OS_SUCCESS, s\<lparr>OS_dir_table := (\<lambda>_. zero_dir)\<rparr>)"

definition OS_mkdir :: "'i idmap_env \<Rightarrow> 'i dir_impl \<Rightarrow> string option \<Rightarrow> u32 \<Rightarrow> 'i os_state \<Rightarrow> status \<times> 'i os_state" where
  "OS_mkdir env d path access s = on_path env (\<lambda>local_path. OS_DirCreate_Impl d local_path access) path s"

definition OS_DirectoryOpen ::
    "'i idmap_env \<Rightarrow> 'i dir_impl \<Rightarrow> bool \<Rightarrow> string option \<Rightarrow> 'i os_state \<Rightarrow> status \<times> osal_id_t option \<times> 'i os_state" where
  "OS_DirectoryOpen env d has_id path s =
    (if \<not> has_id then (OS_INVALID_POINTER, None, s)
     else
       case OS_TranslatePath env path True s of
         (return_code, local_path, s1) \<Rightarrow>
           (if return_code = OS_SUCCESS then
              (case OS_ObjectIdAllocateNew env OS_OBJECT_TYPE_OS_DIR None s1 of
                 (return_code', token, s2) \<Rightarrow>
                   (if return_code' = OS_SUCCESS then
                      let s3 = dir_fill (the path) () token s2
                      in case OS_DirOpen_Impl d token (the local_path) s3 of
                           (st, a) \<Rightarrow>
                             (case OS_ObjectIdFinalizeNew env st token (s3\<lparr>impl := a\<rparr>) of
                                (st', i, token', s4) \<Rightarrow> (st', Some i, s4))
                    else (return_code', None, s2)))
            else (return_code, None, s1)))"

definition OS_DirectoryClose :: "'i idmap_env \<Rightarrow> 'i dir_impl \<Rightarrow> osal_id_t \<Rightarrow> 'i os_state \<Rightarrow> status \<times> 'i os_state" where
  "OS_DirectoryClose env d dir_id s =
    (case OS_ObjectIdGetById env OS_LOCK_MODE_EXCLUSIVE OS_OBJECT_TYPE_OS_DIR dir_id s of
       (return_code, token, s1) \<Rightarrow>
         (if return_code = OS_SUCCESS then
            (case OS_DirClose_Impl d token s1 of
               (st, a) \<Rightarrow>
                 (case OS_ObjectIdFinalizeDelete env st token (s1\<lparr>impl := a\<rparr>) of (st', token', s2) \<Rightarrow> (st', s2)))
          else (return_code, s1)))"

definition OS_DirectoryRead ::
    "'i idmap_env \<Rightarrow> 'i dir_impl \<Rightarrow> osal_id_t \<Rightarrow> bool \<Rightarrow> 'i os_state \<Rightarrow> status \<times> os_dirent option \<times> 'i os_state" where
  "OS_DirectoryRead env d dir_id has_dirent s =
    (if \<not> has_dirent then (OS_INVALID_POINTER, None, s)
     else
       case OS_ObjectIdGetById env OS_LOCK_MODE_GLOBAL OS_OBJECT_TYPE_OS_DIR dir_id s of
         (return_code, token, s1) \<Rightarrow>
           (if return_code = OS_SUCCESS
            then (case OS_DirRead_Impl d token s1 of
                    (st, dirent, a) \<Rightarrow> (st, dirent, snd (OS_ObjectIdRelease env token (s1\<lparr>impl := a\<rparr>))))
            else (return_code, None, s1)))"

definition OS_DirectoryRewind :: "'i idmap_env \<Rightarrow> 'i dir_impl \<Rightarrow> osal_id_t \<Rightarrow> 'i os_state \<Rightarrow> status \<times> 'i os_state" where
  "OS_DirectoryRewind env d dir_id s =
    (case OS_ObjectIdGetById env OS_LOCK_MODE_NONE OS_OBJECT_TYPE_OS_DIR dir_id s of
       (return_code, token, s1) \<Rightarrow>
         (if return_code = OS_SUCCESS
          then (case OS_DirRewind_Impl d token s1 of (st, a) \<Rightarrow> (st, s1\<lparr>impl := a\<rparr>))
          else (return_code, s1)))"

definition OS_rmdir :: "'i idmap_env \<Rightarrow> 'i dir_impl \<Rightarrow> string option \<Rightarrow> 'i os_state \<Rightarrow> status \<times> 'i os_state" where
  "OS_rmdir env d path s = on_path env (OS_DirRemove_Impl d) path s"

end
