(* ===== verification/Posix_IO.thy ===== *)
theory Posix_IO
  imports Select Dir
begin

text \<open>
  The POSIX implementation of streams, files and directories:
  \<^verbatim>\<open>os-impl-posix-io.c\<close>, \<^verbatim>\<open>os-impl-posix-files.c\<close>, \<^verbatim>\<open>os-impl-posix-file-allocate.c\<close>,
  \<^verbatim>\<open>os-impl-posix-dirs.c\<close> and \<^verbatim>\<open>os-impl-bsd-select.c\<close> under
  \<^verbatim>\<open>src/src/os/portable\<close>, with the tables of \<^verbatim>\<open>src/src/os/posix/src/os-impl-files.c\<close> and
  \<^verbatim>\<open>os-impl-dirs.c\<close>. The system calls are parameters, functions of the state of the host; a
  call that fails gives the value of \<^verbatim>\<open>errno\<close>. A function that repeats an interrupted call has the
  value \<open>None\<close> when it is interrupted for ever.
\<close>

unbundle bit_operations_syntax

subsection \<open>The host\<close>

datatype errno = EINTR | EAGAIN | EEXIST | ESPIPE | ENOTSUP | ENOSYS | EROFS | EACCES | EPERM | ETXTBSY
  | EFBIG | EOPNOTSUPP | ENOSPC | ENODEV | EINPROGRESS | ETIMEDOUT | EDEADLK | ENOMEM | EBUSY | EINVAL
  | EMSGSIZE | E_other int

record posix_fstat = posix_stat +
  st_size :: nat
  st_mtim :: "int \<times> int"

record 'h io_calls =
  sys_open :: "string \<Rightarrow> u32 \<Rightarrow> u32 \<Rightarrow> 'h \<Rightarrow> (errno + int) \<times> 'h"
  sys_close :: "int \<Rightarrow> 'h \<Rightarrow> (errno + unit) \<times> 'h"
  sys_read :: "int \<Rightarrow> nat \<Rightarrow> 'h \<Rightarrow> (errno + byte list) \<times> 'h"
  sys_write :: "int \<Rightarrow> byte list \<Rightarrow> nat \<Rightarrow> 'h \<Rightarrow> (errno + nat) \<times> 'h"
  sys_lseek :: "int \<Rightarrow> int \<Rightarrow> int \<Rightarrow> 'h \<Rightarrow> (errno + int) \<times> 'h"
  sys_ftruncate :: "int \<Rightarrow> int \<Rightarrow> 'h \<Rightarrow> (errno + unit) \<times> 'h"
  sys_posix_fallocate :: "int \<Rightarrow> int \<Rightarrow> int \<Rightarrow> 'h \<Rightarrow> int \<times> 'h"
  sys_errno :: "'h \<Rightarrow> errno"
  sys_stat :: "string \<Rightarrow> 'h \<Rightarrow> (errno + posix_fstat) \<times> 'h"
  sys_fstat :: "int \<Rightarrow> 'h \<Rightarrow> (errno + posix_fstat) \<times> 'h"
  sys_fchmod :: "int \<Rightarrow> u32 \<Rightarrow> 'h \<Rightarrow> (errno + unit) \<times> 'h"
  sys_remove :: "string \<Rightarrow> 'h \<Rightarrow> (errno + unit) \<times> 'h"
  sys_rename :: "string \<Rightarrow> string \<Rightarrow> 'h \<Rightarrow> (errno + unit) \<times> 'h"
  sys_mkdir :: "string \<Rightarrow> u32 \<Rightarrow> 'h \<Rightarrow> (errno + unit) \<times> 'h"
  sys_rmdir :: "string \<Rightarrow> 'h \<Rightarrow> (errno + unit) \<times> 'h"
  sys_opendir :: "string \<Rightarrow> 'h \<Rightarrow> ptr \<times> 'h"
  sys_closedir :: "ptr \<Rightarrow> 'h \<Rightarrow> 'h"
  sys_readdir :: "ptr \<Rightarrow> 'h \<Rightarrow> string option \<times> 'h"
  sys_rewinddir :: "ptr \<Rightarrow> 'h \<Rightarrow> 'h"
  sys_select :: "int \<Rightarrow> int set \<Rightarrow> int set \<Rightarrow> (int \<times> int) option \<Rightarrow> 'h \<Rightarrow> (errno + nat \<times> int set \<times> int set) \<times> 'h"
  sys_geteuid :: u32
  sys_getegid :: u32

record OS_impl_file_internal_record =
  file_fd :: int
  file_selectable :: bool

record 'h posix_io =
  OS_impl_filehandle_table :: "nat \<Rightarrow> OS_impl_file_internal_record"
  OS_impl_dir_table :: "nat \<Rightarrow> ptr"
  OS_IMPL_SELF_EUID :: u32
  OS_IMPL_SELF_EGID :: u32
  host :: 'h

abbreviation (input) O_RDONLY :: u32 where "O_RDONLY \<equiv> 0"
abbreviation (input) O_WRONLY :: u32 where "O_WRONLY \<equiv> 1"
abbreviation (input) O_RDWR :: u32 where "O_RDWR \<equiv> 2"
abbreviation (input) O_CREAT :: u32 where "O_CREAT \<equiv> 0x40"
abbreviation (input) O_TRUNC :: u32 where "O_TRUNC \<equiv> 0x200"
abbreviation (input) O_NONBLOCK :: u32 where "O_NONBLOCK \<equiv> 0x800"
abbreviation (input) S_IRUSR :: u32 where "S_IRUSR \<equiv> 0x100"
abbreviation (input) S_IXUSR :: u32 where "S_IXUSR \<equiv> 0x40"
abbreviation (input) S_IRGRP :: u32 where "S_IRGRP \<equiv> 0x20"
abbreviation (input) S_IXGRP :: u32 where "S_IXGRP \<equiv> 0x8"
abbreviation (input) S_IROTH :: u32 where "S_IROTH \<equiv> 0x4"
abbreviation (input) S_IXOTH :: u32 where "S_IXOTH \<equiv> 0x1"
abbreviation (input) FD_SETSIZE :: int where "FD_SETSIZE \<equiv> 1024"

definition int32 :: "int \<Rightarrow> int" where "int32 x = signed_take_bit 31 x"

definition OS_IMPL_REGULAR_FILE_FLAGS :: u32 where "OS_IMPL_REGULAR_FILE_FLAGS = O_NONBLOCK"

definition upd_filehandle ::
    "nat \<Rightarrow> (OS_impl_file_internal_record \<Rightarrow> OS_impl_file_internal_record) \<Rightarrow> 'h posix_io \<Rightarrow> 'h posix_io" where
  "upd_filehandle j f a = a\<lparr>OS_impl_filehandle_table := (OS_impl_filehandle_table a)(j := f (OS_impl_filehandle_table a j))\<rparr>"

text \<open>The table entry of a token, and its descriptor.\<close>

abbreviation filehandle :: "OS_object_token \<Rightarrow> 'h posix_io \<Rightarrow> OS_impl_file_internal_record" where
  "filehandle token a \<equiv> OS_impl_filehandle_table a (unat (obj_idx token))"

definition OS_Posix_StreamAPI_Impl_Init :: "'h io_calls \<Rightarrow> 'h posix_io \<Rightarrow> status \<times> 'h posix_io" where
  "OS_Posix_StreamAPI_Impl_Init c a =
     (OS_SUCCESS,
      a\<lparr>OS_impl_filehandle_table := (\<lambda>j. if j < unat OS_MAX_NUM_OPEN_FILES
            then (OS_impl_filehandle_table a j)\<lparr>file_fd := - 1\<rparr> else OS_impl_filehandle_table a j),
        OS_IMPL_SELF_EUID := sys_geteuid c, OS_IMPL_SELF_EGID := sys_getegid c\<rparr>)"

definition OS_Posix_DirAPI_Impl_Init :: "'h posix_io \<Rightarrow> status \<times> 'h posix_io" where
  "OS_Posix_DirAPI_Impl_Init a = (OS_SUCCESS, a\<lparr>OS_impl_dir_table := (\<lambda>_. None)\<rparr>)"

subsection \<open>Descriptor sets\<close>

text \<open>
  The loop over the bits of one byte of a set: \<open>visit\<close> is the body for a bit that is set, with the
  index of the stream.
\<close>

function scan_byte :: "(nat \<Rightarrow> 'a \<Rightarrow> 'a) \<Rightarrow> nat \<Rightarrow> nat \<Rightarrow> byte \<Rightarrow> 'a \<Rightarrow> 'a" where
  "scan_byte visit offset b objids x =
    (if objids \<noteq> 0
     then scan_byte visit offset (b + 1) (drop_bit 1 objids)
            (if objids AND 1 \<noteq> 0 \<and> offset * 8 + b < unat OS_MAX_NUM_OPEN_FILES then visit (offset * 8 + b) x else x)
     else x)"
  by pat_completeness auto
termination
proof (relation "measure (\<lambda>(visit, offset, b, objids, x). unat objids)", goal_cases)
  case (2 visit offset b objids x)
  then have "0 < unat objids" by (simp add: unat_gt_0)
  moreover have "unat (drop_bit 1 objids) = unat objids div 2" by (simp only: unat_drop_bit_eq) (simp add: drop_bit_eq_div)
  ultimately show ?case by simp
qed simp

declare scan_byte.simps [simp del]

fun scan_bytes :: "(nat \<Rightarrow> 'a \<Rightarrow> 'a) \<Rightarrow> nat \<Rightarrow> byte list \<Rightarrow> 'a \<Rightarrow> 'a" where
  "scan_bytes visit offset [] x = x"
| "scan_bytes visit offset (objids # rest) x = scan_bytes visit (offset + 1) rest (scan_byte visit offset 0 objids x)"

definition ConvertIn_visit ::
    "(nat \<Rightarrow> OS_impl_file_internal_record) \<Rightarrow> nat \<Rightarrow> status \<times> int \<times> int set \<Rightarrow> status \<times> int \<times> int set" where
  "ConvertIn_visit handles i = (\<lambda>(st, os_maxfd, os_set).
    let osfd = file_fd (handles i)
    in if osfd \<ge> 0 then
         (if osfd \<ge> FD_SETSIZE \<or> \<not> file_selectable (handles i)
          then (OS_ERR_OPERATION_NOT_SUPPORTED, os_maxfd, os_set)
          else (st, if osfd > os_maxfd then osfd else os_maxfd, insert osfd os_set))
       else (st, os_maxfd, os_set))"

definition OS_FdSet_ConvertIn_Impl ::
    "(nat \<Rightarrow> OS_impl_file_internal_record) \<Rightarrow> int \<Rightarrow> int set \<Rightarrow> OS_FdSet \<Rightarrow> status \<times> int \<times> int set" where
  "OS_FdSet_ConvertIn_Impl handles os_maxfd os_set OSAL_set =
     scan_bytes (ConvertIn_visit handles) 0 (object_ids OSAL_set) (OS_SUCCESS, os_maxfd, os_set)"

text \<open>The set is changed while it is scanned; each byte is read once before the bits of it are.\<close>

definition ConvertOut_visit :: "(nat \<Rightarrow> OS_impl_file_internal_record) \<Rightarrow> int set \<Rightarrow> nat \<Rightarrow> byte list \<Rightarrow> byte list" where
  "ConvertOut_visit handles os_set i ids =
    (let osfd = file_fd (handles i)
     in if osfd < 0 \<or> osfd \<notin> os_set
        then ids[i div 8 := (ids ! (i div 8)) AND NOT (push_bit (i mod 8) 1)] else ids)"

definition OS_FdSet_ConvertOut_Impl :: "(nat \<Rightarrow> OS_impl_file_internal_record) \<Rightarrow> int set \<Rightarrow> OS_FdSet \<Rightarrow> OS_FdSet" where
  "OS_FdSet_ConvertOut_Impl handles os_set OSAL_set =
     OSAL_set\<lparr>object_ids := scan_bytes (ConvertOut_visit handles os_set) 0 (object_ids OSAL_set) (object_ids OSAL_set)\<rparr>"

subsection \<open>Waiting for descriptors\<close>

text \<open>The timeout of one \<^verbatim>\<open>select\<close> call; \<open>None\<close> is the null pointer, wait for ever.\<close>

definition select_timeval ::
    "'h posix_io posix_clock \<Rightarrow> OS_time \<Rightarrow> OS_time \<Rightarrow> 'h posix_io os_state \<Rightarrow> (int \<times> int) option \<times> OS_time \<times> 'h posix_io os_state" where
  "select_timeval clk abs_timeout curr_time s =
    (if OS_TimeEqual abs_timeout OS_TIME_MAX then (None, curr_time, s)
     else
       let (curr1, s1) = (if OS_TimeGetSign abs_timeout > 0
                          then (case read_clock curr_time clk s of (now, s') \<Rightarrow> (OS_TimeSubtract abs_timeout now, s'))
                          else (curr_time, s))
       in (Some (if OS_TimeGetSign curr1 \<le> 0 then (0, 0)
                 else (OS_TimeGetTotalSeconds curr1, uint (OS_TimeGetMicrosecondsPart curr1))), curr1, s1))"

partial_function (option) DoSelect_loop ::
    "'h io_calls \<Rightarrow> 'h posix_io posix_clock \<Rightarrow> int \<Rightarrow> int set \<Rightarrow> int set \<Rightarrow> OS_time \<Rightarrow> OS_time \<Rightarrow> 'h posix_io os_state
      \<Rightarrow> ((errno + nat \<times> int set \<times> int set) \<times> 'h posix_io os_state) option" where
  "DoSelect_loop c clk maxfd rd_set wr_set abs_timeout curr_time s =
    (case select_timeval clk abs_timeout curr_time s of
       (tv, curr1, s1) \<Rightarrow>
         (case sys_select c (maxfd + 1) rd_set wr_set tv (host (impl s1)) of
            (res, h) \<Rightarrow>
              let s2 = s1\<lparr>impl := (impl s1)\<lparr>host := h\<rparr>\<rparr>
              in if res = Inl EINTR \<or> res = Inl EAGAIN
                 then DoSelect_loop c clk maxfd rd_set wr_set abs_timeout curr1 s2
                 else Some (res, s2)))"

definition OS_DoSelect ::
    "'h io_calls \<Rightarrow> 'h posix_io posix_clock \<Rightarrow> int \<Rightarrow> int set \<Rightarrow> int set \<Rightarrow> OS_time \<Rightarrow> 'h posix_io os_state
      \<Rightarrow> (status \<times> int set \<times> int set \<times> 'h posix_io os_state) option" where
  "OS_DoSelect c clk maxfd rd_set wr_set abs_timeout s =
     Option.bind (DoSelect_loop c clk maxfd rd_set wr_set abs_timeout abs_timeout s)
       (\<lambda>(res, s1). case res of
          Inl e \<Rightarrow> Some (OS_ERROR, rd_set, wr_set, s1)
        | Inr (n, rd, wr) \<Rightarrow> Some (if n = 0 then OS_ERROR_TIMEOUT else OS_SUCCESS, rd, wr, s1))"

definition SelectSingle_flags :: "u32 \<Rightarrow> int \<Rightarrow> int set \<Rightarrow> int set \<Rightarrow> u32" where
  "SelectSingle_flags flags osfd rd wr =
    (let flags1 = (if osfd \<notin> rd then flags AND NOT OS_STREAM_STATE_READABLE else flags)
     in if osfd \<notin> wr then flags1 AND NOT OS_STREAM_STATE_WRITABLE else flags1)"

definition posix_SelectSingle ::
    "'h io_calls \<Rightarrow> 'h posix_io posix_clock \<Rightarrow> OS_object_token \<Rightarrow> u32 \<Rightarrow> OS_time \<Rightarrow> 'h posix_io os_state
      \<Rightarrow> (status \<times> u32 \<times> 'h posix_io os_state) option" where
  "posix_SelectSingle c clk token SelectFlags abs_timeout s =
    (let fh = filehandle token (impl s); osfd = file_fd fh
     in if \<not> file_selectable fh then Some (OS_ERR_OPERATION_NOT_SUPPORTED, SelectFlags, s)
        else if osfd \<ge> FD_SETSIZE then Some (OS_ERR_OPERATION_NOT_SUPPORTED, SelectFlags, s)
        else if SelectFlags \<noteq> 0 then
          Option.bind (OS_DoSelect c clk osfd
              (if SelectFlags AND OS_STREAM_STATE_READABLE \<noteq> 0 then {osfd} else {})
              (if SelectFlags AND OS_STREAM_STATE_WRITABLE \<noteq> 0 then {osfd} else {}) abs_timeout s)
            (\<lambda>(return_code, rd, wr, s1).
               Some (return_code, if return_code = OS_SUCCESS then SelectSingle_flags SelectFlags osfd rd wr else 0, s1))
        else Some (OS_SUCCESS, SelectFlags, s))"

definition convert_in_optional ::
    "(nat \<Rightarrow> OS_impl_file_internal_record) \<Rightarrow> int \<Rightarrow> OS_FdSet option \<Rightarrow> status \<times> int \<times> int set" where
  "convert_in_optional handles maxfd Set =
    (case Set of None \<Rightarrow> (OS_SUCCESS, maxfd, {}) | Some S \<Rightarrow> OS_FdSet_ConvertIn_Impl handles maxfd {} S)"

definition posix_SelectMultiple ::
    "'h io_calls \<Rightarrow> 'h posix_io posix_clock \<Rightarrow> OS_FdSet option \<Rightarrow> OS_FdSet option \<Rightarrow> OS_time \<Rightarrow> 'h posix_io os_state
      \<Rightarrow> (status \<times> OS_FdSet option \<times> OS_FdSet option \<times> 'h posix_io os_state) option" where
  "posix_SelectMultiple c clk ReadSet WriteSet abs_timeout s =
    (case convert_in_optional (OS_impl_filehandle_table (impl s)) (- 1) ReadSet of
       (rc1, maxfd1, rd_set) \<Rightarrow>
         if rc1 \<noteq> OS_SUCCESS then Some (rc1, ReadSet, WriteSet, s)
         else
           case convert_in_optional (OS_impl_filehandle_table (impl s)) maxfd1 WriteSet of
             (rc2, maxfd, wr_set) \<Rightarrow>
               if rc2 \<noteq> OS_SUCCESS then Some (rc2, ReadSet, WriteSet, s)
               else if maxfd \<ge> 0 then
                 Option.bind (OS_DoSelect c clk maxfd rd_set wr_set abs_timeout s)
                   (\<lambda>(rc3, rd, wr, s1).
                      if rc3 = OS_SUCCESS
                      then Some (rc3, map_option (OS_FdSet_ConvertOut_Impl (OS_impl_filehandle_table (impl s1)) rd) ReadSet,
                                 map_option (OS_FdSet_ConvertOut_Impl (OS_impl_filehandle_table (impl s1)) wr) WriteSet, s1)
                      else Some (rc3, ReadSet, WriteSet, s1))
               else Some (OS_ERR_INVALID_ID, ReadSet, WriteSet, s))"

subsection \<open>Streams\<close>

definition on_host :: "('h \<Rightarrow> 'a \<times> 'h) \<Rightarrow> 'h posix_io \<Rightarrow> 'a \<times> 'h posix_io" where
  "on_host call a = (case call (host a) of (r, h) \<Rightarrow> (r, a\<lparr>host := h\<rparr>))"

definition posix_GenericClose :: "'h io_calls \<Rightarrow> OS_object_token \<Rightarrow> 'h posix_io \<Rightarrow> status \<times> 'h posix_io" where
  "posix_GenericClose c token a =
    (case on_host (sys_close c (file_fd (filehandle token a))) a of
       (_, a1) \<Rightarrow> (OS_SUCCESS, upd_filehandle (unat (obj_idx token)) (\<lambda>fh. fh\<lparr>file_fd := - 1\<rparr>) a1))"

definition posix_GenericSeek ::
    "'h io_calls \<Rightarrow> OS_object_token \<Rightarrow> int \<Rightarrow> u32 \<Rightarrow> 'h posix_io \<Rightarrow> status \<times> 'h posix_io" where
  "posix_GenericSeek c token offset whence a =
    (if whence \<noteq> 0 \<and> whence \<noteq> 1 \<and> whence \<noteq> 2 then (OS_ERROR, a)
     else
       case on_host (sys_lseek c (file_fd (filehandle token a)) offset (uint whence)) a of
         (Inl e, a1) \<Rightarrow> (if e = ESPIPE then OS_ERR_OPERATION_NOT_SUPPORTED else OS_ERROR, a1)
       | (Inr pos, a1) \<Rightarrow> (int32 pos, a1))"

definition wait_ready ::
    "'h io_calls \<Rightarrow> 'h posix_io posix_clock \<Rightarrow> OS_object_token \<Rightarrow> u32 \<Rightarrow> OS_time \<Rightarrow> 'h posix_io os_state
      \<Rightarrow> (status \<times> u32 \<times> 'h posix_io os_state) option" where
  "wait_ready c clk token operation abs_timeout s =
    (if file_selectable (filehandle token (impl s)) then posix_SelectSingle c clk token operation abs_timeout s
     else Some (OS_SUCCESS, operation, s))"

definition posix_GenericRead ::
    "'h io_calls \<Rightarrow> 'h posix_io posix_clock \<Rightarrow> OS_object_token \<Rightarrow> nat \<Rightarrow> OS_time \<Rightarrow> 'h posix_io os_state
      \<Rightarrow> (status \<times> byte list \<times> 'h posix_io os_state) option" where
  "posix_GenericRead c clk token nbytes abs_timeout s =
    (if nbytes > 0 then
       Option.bind (wait_ready c clk token OS_STREAM_STATE_READABLE abs_timeout s)
         (\<lambda>(return_code, operation, s1).
            if return_code = OS_SUCCESS \<and> operation AND OS_STREAM_STATE_READABLE \<noteq> 0 then
              (case on_host (sys_read c (file_fd (filehandle token (impl s1))) nbytes) (impl s1) of
                 (Inl e, a) \<Rightarrow> Some (OS_ERROR, [], s1\<lparr>impl := a\<rparr>)
               | (Inr bytes, a) \<Rightarrow> Some (int32 (int (length bytes)), bytes, s1\<lparr>impl := a\<rparr>))
            else Some (return_code, [], s1))
     else Some (OS_SUCCESS, [], s))"

definition posix_GenericWrite ::
    "'h io_calls \<Rightarrow> 'h posix_io posix_clock \<Rightarrow> OS_object_token \<Rightarrow> byte list \<Rightarrow> nat \<Rightarrow> OS_time \<Rightarrow> 'h posix_io os_state
      \<Rightarrow> (status \<times> 'h posix_io os_state) option" where
  "posix_GenericWrite c clk token buffer nbytes abs_timeout s =
    (if nbytes > 0 then
       Option.bind (wait_ready c clk token OS_STREAM_STATE_WRITABLE abs_timeout s)
         (\<lambda>(return_code, operation, s1).
            if return_code = OS_SUCCESS \<and> operation AND OS_STREAM_STATE_WRITABLE \<noteq> 0 then
              (case on_host (sys_write c (file_fd (filehandle token (impl s1))) buffer nbytes) (impl s1) of
                 (Inl e, a) \<Rightarrow> Some (OS_ERROR, s1\<lparr>impl := a\<rparr>)
               | (Inr n, a) \<Rightarrow> Some (int32 (int n), s1\<lparr>impl := a\<rparr>))
            else Some (return_code, s1))
     else Some (OS_SUCCESS, s))"

subsection \<open>Named files\<close>

definition open_perm :: "int \<Rightarrow> int \<Rightarrow> u32 option" where
  "open_perm flags access_mode =
    (let perm = (if access_mode = OS_WRITE_ONLY then Some O_WRONLY else if access_mode = OS_READ_ONLY then Some O_RDONLY
                 else if access_mode = OS_READ_WRITE then Some O_RDWR else None)
     in map_option (\<lambda>p.
          let p1 = (if flags AND OS_FILE_FLAG_CREATE \<noteq> 0 then p OR O_CREAT else p);
              p2 = (if flags AND OS_FILE_FLAG_TRUNCATE \<noteq> 0 then p1 OR O_TRUNC else p1)
          in p2 OR OS_IMPL_REGULAR_FILE_FLAGS) perm)"

definition posix_FileOpen ::
    "'h io_calls \<Rightarrow> OS_object_token \<Rightarrow> string \<Rightarrow> int \<Rightarrow> int \<Rightarrow> 'h posix_io \<Rightarrow> status \<times> 'h posix_io" where
  "posix_FileOpen c token local_path flags access_mode a =
    (case open_perm flags access_mode of
       None \<Rightarrow> (OS_ERROR, a)
     | Some os_perm \<Rightarrow>
         (case on_host (sys_open c local_path os_perm
                  (S_IRUSR OR S_IWUSR OR S_IRGRP OR S_IWGRP OR S_IROTH OR S_IWOTH)) a of
            (Inl e, a1) \<Rightarrow> (OS_ERROR, upd_filehandle (unat (obj_idx token)) (\<lambda>fh. fh\<lparr>file_fd := - 1\<rparr>) a1)
          | (Inr n, a1) \<Rightarrow>
              (OS_SUCCESS, upd_filehandle (unat (obj_idx token))
                 (\<lambda>fh. fh\<lparr>file_fd := n, file_selectable := (os_perm AND O_NONBLOCK \<noteq> 0)\<rparr>) a1)))"

abbreviation (input) OS_FILESTAT_MODE_EXEC :: u32 where "OS_FILESTAT_MODE_EXEC \<equiv> 0x1"
abbreviation (input) OS_FILESTAT_MODE_WRITE :: u32 where "OS_FILESTAT_MODE_WRITE \<equiv> 0x2"
abbreviation (input) OS_FILESTAT_MODE_READ :: u32 where "OS_FILESTAT_MODE_READ \<equiv> 0x4"
abbreviation (input) OS_FILESTAT_MODE_DIR :: u32 where "OS_FILESTAT_MODE_DIR \<equiv> 0x10000"

text \<open>The permission bits that apply: those of the world, and of the owner and group when the process has them.\<close>

definition mode_mask :: "'h posix_io \<Rightarrow> posix_fstat \<Rightarrow> u32 \<Rightarrow> u32 \<Rightarrow> u32 \<Rightarrow> u32" where
  "mode_mask a st oth usr grp =
    (let m = (if OS_IMPL_SELF_EUID a = st_uid st then oth OR usr else oth)
     in if OS_IMPL_SELF_EGID a = st_gid st then m OR grp else m)"

definition mode_bits :: "'h posix_io \<Rightarrow> posix_fstat \<Rightarrow> u32 \<Rightarrow> u32" where
  "mode_bits a st bits =
    (let b0 = (if st_mode st AND S_IFMT = S_IFDIR then bits OR OS_FILESTAT_MODE_DIR else bits);
         b1 = (if st_mode st AND mode_mask a st S_IROTH S_IRUSR S_IRGRP \<noteq> 0 then b0 OR OS_FILESTAT_MODE_READ else b0);
         b2 = (if st_mode st AND mode_mask a st S_IWOTH S_IWUSR S_IWGRP \<noteq> 0 then b1 OR OS_FILESTAT_MODE_WRITE else b1)
     in if st_mode st AND mode_mask a st S_IXOTH S_IXUSR S_IXGRP \<noteq> 0 then b2 OR OS_FILESTAT_MODE_EXEC else b2)"

definition posix_FileStat :: "'h io_calls \<Rightarrow> string \<Rightarrow> os_fstat \<Rightarrow> 'h posix_io \<Rightarrow> status \<times> os_fstat \<times> 'h posix_io" where
  "posix_FileStat c local_path filestat a =
    (case on_host (sys_stat c local_path) a of
       (Inl e, a1) \<Rightarrow> (OS_ERROR, filestat, a1)
     | (Inr st, a1) \<Rightarrow>
         (OS_SUCCESS,
          \<lparr>FileModeBits = mode_bits a1 st (FileModeBits filestat),
           FileTime = OS_TimeAssembleFromNanoseconds (fst (st_mtim st)) (word_of_int (snd (st_mtim st))),
           FileSize = st_size st\<rparr>, a1))"

definition chmod_mode :: "'h posix_io \<Rightarrow> posix_fstat \<Rightarrow> u32 \<Rightarrow> u32" where
  "chmod_mode a st access_mode =
    (let readbits = mode_mask a st S_IROTH S_IRUSR S_IRGRP;
         writebits = mode_mask a st S_IWOTH S_IWUSR S_IWGRP;
         m1 = (if access_mode = 1 \<or> access_mode = 2 then st_mode st OR writebits else st_mode st AND NOT writebits)
     in if access_mode = 0 \<or> access_mode = 2 then m1 OR readbits else m1 AND NOT readbits)"

definition chmod_open :: "'h io_calls \<Rightarrow> string \<Rightarrow> 'h posix_io \<Rightarrow> (errno + int) \<times> 'h posix_io" where
  "chmod_open c local_path a =
    (case on_host (sys_open c local_path O_RDONLY 0) a of
       (Inl e, a1) \<Rightarrow> on_host (sys_open c local_path O_WRONLY 0) a1
     | (Inr n, a1) \<Rightarrow> (Inr n, a1))"

definition posix_FileChmod :: "'h io_calls \<Rightarrow> string \<Rightarrow> u32 \<Rightarrow> 'h posix_io \<Rightarrow> status \<times> 'h posix_io" where
  "posix_FileChmod c local_path access_mode a =
    (case chmod_open c local_path a of
       (Inl e, a1) \<Rightarrow> (OS_ERROR, a1)
     | (Inr n, a1) \<Rightarrow>
         let (st, a2) =
               (case on_host (sys_fstat c n) a1 of
                  (Inl e, b) \<Rightarrow> (OS_ERROR, b)
                | (Inr stat, b) \<Rightarrow>
                    (case on_host (sys_fchmod c n (chmod_mode b stat access_mode)) b of
                       (Inl e, b1) \<Rightarrow>
                         (if e = ENOTSUP \<or> e = ENOSYS \<or> e = EROFS then OS_ERR_NOT_IMPLEMENTED else OS_ERROR, b1)
                     | (Inr _, b1) \<Rightarrow> (OS_SUCCESS, b1)))
         in (st, snd (on_host (sys_close c n) a2)))"

definition posix_FileRemove :: "'h io_calls \<Rightarrow> string \<Rightarrow> 'h posix_io \<Rightarrow> status \<times> 'h posix_io" where
  "posix_FileRemove c local_path a =
    (case on_host (sys_remove c local_path) a of (Inl e, a1) \<Rightarrow> (OS_ERROR, a1) | (Inr _, a1) \<Rightarrow> (OS_SUCCESS, a1))"

definition posix_FileRename :: "'h io_calls \<Rightarrow> string \<Rightarrow> string \<Rightarrow> 'h posix_io \<Rightarrow> status \<times> 'h posix_io" where
  "posix_FileRename c old_path new_path a =
    (case on_host (sys_rename c old_path new_path) a of (Inl e, a1) \<Rightarrow> (OS_ERROR, a1) | (Inr _, a1) \<Rightarrow> (OS_SUCCESS, a1))"

definition posix_FileTruncate :: "'h io_calls \<Rightarrow> OS_object_token \<Rightarrow> int \<Rightarrow> 'h posix_io \<Rightarrow> status \<times> 'h posix_io" where
  "posix_FileTruncate c token len a =
    (case on_host (sys_ftruncate c (file_fd (filehandle token a)) len) a of
       (Inr _, a1) \<Rightarrow> (OS_SUCCESS, a1)
     | (Inl e, a1) \<Rightarrow>
         (if e = EACCES \<or> e = EPERM \<or> e = ETXTBSY \<or> e = EROFS then OS_ERR_OPERATION_NOT_SUPPORTED
          else if e = EFBIG then OS_ERR_OUTPUT_TOO_LARGE else OS_ERROR, a1))"

text \<open>\<^verbatim>\<open>posix_fallocate\<close> returns a number, of which the code tests the sign, and \<^verbatim>\<open>errno\<close> is read afterwards.\<close>

definition posix_FileAllocate :: "'h io_calls \<Rightarrow> OS_object_token \<Rightarrow> int \<Rightarrow> int \<Rightarrow> 'h posix_io \<Rightarrow> status \<times> 'h posix_io" where
  "posix_FileAllocate c token offset len a =
    (case on_host (sys_posix_fallocate c (file_fd (filehandle token a)) offset len) a of
       (rc, a1) \<Rightarrow>
         let e = sys_errno c (host a1)
         in (if rc \<ge> 0 then OS_SUCCESS
             else if e = EOPNOTSUPP then OS_ERR_OPERATION_NOT_SUPPORTED
             else if e = EFBIG \<or> e = ENOSPC then OS_ERR_OUTPUT_TOO_LARGE
             else if e = ESPIPE \<or> e = ENODEV then OS_ERR_INCORRECT_OBJ_TYPE
             else OS_ERROR, a1))"

subsection \<open>Directories\<close>

definition posix_DirCreate :: "'h io_calls \<Rightarrow> string \<Rightarrow> u32 \<Rightarrow> 'h posix_io \<Rightarrow> status \<times> 'h posix_io" where
  "posix_DirCreate c local_path access a =
    (case on_host (sys_mkdir c local_path (S_IFDIR OR 0x1FF)) a of
       (Inr _, a1) \<Rightarrow> (OS_SUCCESS, a1)
     | (Inl e, a1) \<Rightarrow>
         (if e = EEXIST
          then (case on_host (sys_stat c local_path) a1 of
                  (Inr st, a2) \<Rightarrow> (if st_mode st AND S_IFMT = S_IFDIR then OS_SUCCESS else OS_ERROR, a2)
                | (Inl e', a2) \<Rightarrow> (OS_ERROR, a2))
          else (OS_ERROR, a1)))"

definition posix_DirOpen :: "'h io_calls \<Rightarrow> OS_object_token \<Rightarrow> string \<Rightarrow> 'h posix_io \<Rightarrow> status \<times> 'h posix_io" where
  "posix_DirOpen c token local_path a =
    (case on_host (sys_opendir c local_path) a of
       (None, a1) \<Rightarrow> (OS_ERROR, a1)
     | (Some dp, a1) \<Rightarrow>
         (OS_SUCCESS, a1\<lparr>OS_impl_dir_table := (OS_impl_dir_table a1)(unat (obj_idx token) := Some dp)\<rparr>))"

definition posix_DirClose :: "'h io_calls \<Rightarrow> OS_object_token \<Rightarrow> 'h posix_io \<Rightarrow> status \<times> 'h posix_io" where
  "posix_DirClose c token a =
    (let j = unat (obj_idx token)
     in (OS_SUCCESS, a\<lparr>host := sys_closedir c (OS_impl_dir_table a j) (host a),
                       OS_impl_dir_table := (OS_impl_dir_table a)(j := None)\<rparr>))"

definition posix_DirRead :: "'h io_calls \<Rightarrow> OS_object_token \<Rightarrow> 'h posix_io \<Rightarrow> status \<times> os_dirent option \<times> 'h posix_io" where
  "posix_DirRead c token a =
    (case on_host (sys_readdir c (OS_impl_dir_table a (unat (obj_idx token)))) a of
       (None, a1) \<Rightarrow> (OS_ERROR, None, a1)
     | (Some d_name, a1) \<Rightarrow> (OS_SUCCESS, Some \<lparr>FileName = strncpy_cleared d_name OS_MAX_FILE_NAME\<rparr>, a1))"

definition posix_DirRewind :: "'h io_calls \<Rightarrow> OS_object_token \<Rightarrow> 'h posix_io \<Rightarrow> status \<times> 'h posix_io" where
  "posix_DirRewind c token a =
     (OS_SUCCESS, a\<lparr>host := sys_rewinddir c (OS_impl_dir_table a (unat (obj_idx token))) (host a)\<rparr>)"

definition posix_DirRemove :: "'h io_calls \<Rightarrow> string \<Rightarrow> 'h posix_io \<Rightarrow> status \<times> 'h posix_io" where
  "posix_DirRemove c local_path a =
    (case on_host (sys_rmdir c local_path) a of (Inl e, a1) \<Rightarrow> (OS_ERROR, a1) | (Inr _, a1) \<Rightarrow> (OS_SUCCESS, a1))"

definition posix_dir_impl :: "'h io_calls \<Rightarrow> 'h posix_io dir_impl" where
  "posix_dir_impl c =
    \<lparr>OS_DirCreate_Impl = posix_DirCreate c, OS_DirOpen_Impl = (\<lambda>token p s. posix_DirOpen c token p (impl s)),
     OS_DirClose_Impl = (\<lambda>token s. posix_DirClose c token (impl s)),
     OS_DirRead_Impl = (\<lambda>token s. posix_DirRead c token (impl s)),
     OS_DirRewind_Impl = (\<lambda>token s. posix_DirRewind c token (impl s)), OS_DirRemove_Impl = posix_DirRemove c\<rparr>"

subsection \<open>Sets of streams and of descriptors\<close>

text \<open>The members of a byte array in the order the loops visit them.\<close>

definition listed :: "nat \<Rightarrow> byte list \<Rightarrow> nat list" where
  "listed offset bs = filter (\<lambda>k. k < unat OS_MAX_NUM_OPEN_FILES \<and> fdset_bit bs (k - 8 * offset)) [8 * offset ..< 8 * (offset + length bs)]"

lemma scan_byte_fold:
  assumes "b \<le> 8" and "w = drop_bit b (v :: byte)"
  shows "scan_byte visit offset b w x =
    fold visit (filter (\<lambda>k. k < unat OS_MAX_NUM_OPEN_FILES \<and> bit v (k - 8 * offset)) [8 * offset + b ..< 8 * offset + 8]) x"
  using assms
proof (induction "8 - b" arbitrary: b w x)
  case 0
  then have "w = 0" by (auto intro!: bit_word_eqI simp: bit_simps dest: bit_imp_le_length)
  with 0 show ?case by (simp add: scan_byte.simps)
next
  case (Suc n)
  then have b: "b < 8" by simp
  let ?P = "\<lambda>k. k < unat OS_MAX_NUM_OPEN_FILES \<and> bit v (k - 8 * offset)"
  have range: "[8 * offset + b ..< 8 * offset + 8] = (8 * offset + b) # [8 * offset + Suc b ..< 8 * offset + 8]"
    using b by (simp add: upt_conv_Cons)
  have odd: "w AND 1 \<noteq> 0 \<longleftrightarrow> bit v b"
    using Suc.prems(2) by (simp add: and_one_eq bit_iff_odd_drop_bit odd_iff_mod_2_eq_one)
  have w: "drop_bit 1 w = drop_bit (Suc b) v" using Suc.prems(2) by simp
  let ?x = "if w AND 1 \<noteq> 0 \<and> offset * 8 + b < unat OS_MAX_NUM_OPEN_FILES then visit (offset * 8 + b) x else x"
  have IH: "scan_byte visit offset (Suc b) (drop_bit 1 w) ?x =
      fold visit (filter ?P [8 * offset + Suc b ..< 8 * offset + 8]) ?x"
    using Suc.hyps b w by (intro Suc.hyps(1)) simp_all
  have x: "fold visit (filter ?P [8 * offset + b ..< 8 * offset + 8]) x =
      fold visit (filter ?P [8 * offset + Suc b ..< 8 * offset + 8]) ?x"
    unfolding range odd by (simp add: mult.commute)
  show ?case
  proof (cases "w = 0")
    case True
    have clear: "\<not> bit v (b + m)" for m
      using True Suc.prems(2) by (metis bit_0_eq bit_drop_bit_eq bot_apply bot_bool_def comp_apply)
    have "\<not> ?P k" if "8 * offset + b \<le> k" for k
      using clear[of "k - 8 * offset - b"] that by simp
    then have "filter ?P [8 * offset + b ..< 8 * offset + 8] = []" by (auto simp: filter_empty_conv)
    with True show ?thesis by (simp add: scan_byte.simps)
  next
    case False
    then show ?thesis unfolding x IH[symmetric] by (subst scan_byte.simps) simp
  qed
qed

lemma scan_bytes_fold: "scan_bytes visit offset bs x = fold visit (listed offset bs) x"
proof (induction bs arbitrary: offset x)
  case (Cons w bs)
  let ?n = "8 * offset + 8"
  have here: "filter (\<lambda>k. k < unat OS_MAX_NUM_OPEN_FILES \<and> fdset_bit (w # bs) (k - 8 * offset)) [8 * offset ..< ?n] =
      filter (\<lambda>k. k < unat OS_MAX_NUM_OPEN_FILES \<and> bit w (k - 8 * offset)) [8 * offset ..< ?n]"
    by (rule filter_cong) (auto simp: fdset_bit_def)
  have next_bit: "fdset_bit (w # bs) (k - 8 * offset) = fdset_bit bs (k - 8 * (offset + 1))" if "?n \<le> k" for k
  proof -
    from that obtain m where "k = 8 * (offset + 1) + m" using le_Suc_ex[of "8 * (offset + 1)" k] by auto
    then have "k - 8 * offset = m + 8" and "k - 8 * (offset + 1) = m" by simp_all
    moreover have "(m + 8) div 8 = Suc (m div 8)" by simp
    ultimately show ?thesis by (simp only: fdset_bit_def) simp
  qed
  have rest: "filter (\<lambda>k. k < unat OS_MAX_NUM_OPEN_FILES \<and> fdset_bit (w # bs) (k - 8 * offset)) [?n ..< ?n + 8 * length bs]
      = listed (offset + 1) bs"
    unfolding listed_def
  proof (rule filter_cong)
    show "[?n ..< ?n + 8 * length bs] = [8 * (offset + 1) ..< 8 * (offset + 1 + length bs)]" by (simp add: algebra_simps)
    show "(k < unat OS_MAX_NUM_OPEN_FILES \<and> fdset_bit (w # bs) (k - 8 * offset)) =
        (k < unat OS_MAX_NUM_OPEN_FILES \<and> fdset_bit bs (k - 8 * (offset + 1)))"
      if "k \<in> set [8 * (offset + 1) ..< 8 * (offset + 1 + length bs)]" for k
    proof -
      have "?n \<le> k" using that by simp
      from next_bit[OF this] show ?thesis by (simp only:)
    qed
  qed
  have "listed offset (w # bs) = filter (\<lambda>k. k < unat OS_MAX_NUM_OPEN_FILES \<and> bit w (k - 8 * offset)) [8 * offset ..< ?n]
      @ listed (offset + 1) bs"
  proof -
    have "[8 * offset ..< 8 * (offset + length (w # bs))] = [8 * offset ..< ?n] @ [?n ..< ?n + 8 * length bs]"
      using upt_add_eq_append[of "8 * offset" ?n "8 * length bs"] by (simp add: algebra_simps)
    then show ?thesis by (simp only: listed_def[of offset "w # bs"] filter_append here rest)
  qed
  then show ?case by (simp add: Cons.IH scan_byte_fold[of 0 w w])
qed (simp add: listed_def)

lemma listed_members: "fdset_wf S \<Longrightarrow> set (listed 0 (object_ids S)) = fdset_members S"
  by (auto simp: listed_def fdset_members_def fdset_wf_def FdSet_size_value OS_MAX_NUM_OPEN_FILES_def)

text \<open>The descriptors of a set of streams, and whether one of them cannot be waited for.\<close>

definition fds :: "(nat \<Rightarrow> OS_impl_file_internal_record) \<Rightarrow> nat set \<Rightarrow> int set" where
  "fds handles A = {n \<in> file_fd ` handles ` A. 0 \<le> n}"

definition unsupported :: "(nat \<Rightarrow> OS_impl_file_internal_record) \<Rightarrow> nat set \<Rightarrow> bool" where
  "unsupported handles A \<longleftrightarrow>
     (\<exists>k \<in> A. 0 \<le> file_fd (handles k) \<and> (FD_SETSIZE \<le> file_fd (handles k) \<or> \<not> file_selectable (handles k)))"

definition keep_ready :: "(nat \<Rightarrow> OS_impl_file_internal_record) \<Rightarrow> int set \<Rightarrow> nat set \<Rightarrow> nat set" where
  "keep_ready handles ready A = {k \<in> A. 0 \<le> file_fd (handles k) \<and> file_fd (handles k) \<in> ready}"

lemma ConvertIn_fold:
  "\<exists>m' set'. fold (ConvertIn_visit handles) ks (st, m, os_set) =
      (if unsupported handles (set ks) then OS_ERR_OPERATION_NOT_SUPPORTED else st, m', set')
    \<and> (\<not> unsupported handles (set ks) \<longrightarrow> set' = os_set \<union> fds handles (set ks) \<and> m' = Max (insert m (fds handles (set ks))))"
proof (induction ks arbitrary: st m os_set)
  case Nil
  show ?case by (simp add: unsupported_def fds_def)
next
  case (Cons k ks)
  have fin: "finite (fds handles (set ks))" by (simp add: fds_def)
  let ?n = "file_fd (handles k)"
  consider "?n < 0" | "0 \<le> ?n" "FD_SETSIZE \<le> ?n \<or> \<not> file_selectable (handles k)"
    | "0 \<le> ?n" "\<not> (FD_SETSIZE \<le> ?n \<or> \<not> file_selectable (handles k))" by linarith
  then show ?case
  proof cases
    case 1
    then have "unsupported handles (set (k # ks)) = unsupported handles (set ks)"
      and "fds handles (set (k # ks)) = fds handles (set ks)" by (auto simp: unsupported_def fds_def)
    moreover have "ConvertIn_visit handles k (st, m, os_set) = (st, m, os_set)"
      using 1 by (simp add: ConvertIn_visit_def)
    ultimately show ?thesis using Cons.IH[of st m os_set] by simp
  next
    case 2
    then have "unsupported handles (set (k # ks))" by (auto simp: unsupported_def)
    moreover have "ConvertIn_visit handles k (st, m, os_set) = (OS_ERR_OPERATION_NOT_SUPPORTED, m, os_set)"
      using 2 by (simp add: ConvertIn_visit_def)
    ultimately show ?thesis using Cons.IH[of OS_ERR_OPERATION_NOT_SUPPORTED m os_set] by (auto split: if_splits)
  next
    case 3
    then have u: "unsupported handles (set (k # ks)) = unsupported handles (set ks)"
      and f: "fds handles (set (k # ks)) = insert ?n (fds handles (set ks))" by (auto simp: unsupported_def fds_def)
    have m: "Max (insert (max m ?n) (fds handles (set ks))) = Max (insert m (insert ?n (fds handles (set ks))))"
      using fin by (cases "fds handles (set ks) = {}") (simp_all add: max.assoc)
    have "ConvertIn_visit handles k (st, m, os_set) = (st, max m ?n, insert ?n os_set)"
      using 3 by (simp add: ConvertIn_visit_def max_def Let_def)
    then show ?thesis using Cons.IH[of st "max m ?n" "insert ?n os_set"] unfolding u f m by simp
  qed
qed

lemma ConvertIn_sets:
  assumes "fdset_wf S"
  shows "\<exists>m' set'. OS_FdSet_ConvertIn_Impl handles m os_set S =
      (if unsupported handles (fdset_members S) then OS_ERR_OPERATION_NOT_SUPPORTED else OS_SUCCESS, m', set')
    \<and> (\<not> unsupported handles (fdset_members S) \<longrightarrow>
         set' = os_set \<union> fds handles (fdset_members S) \<and> m' = Max (insert m (fds handles (fdset_members S))))"
  using ConvertIn_fold[of handles "listed 0 (object_ids S)" OS_SUCCESS m os_set]
  by (simp add: OS_FdSet_ConvertIn_Impl_def scan_bytes_fold listed_members[OF assms])

lemma ConvertOut_fold:
  assumes "\<forall>k \<in> set ks. k < 8 * length bs"
  shows "length (fold (ConvertOut_visit handles ready) ks bs) = length bs
    \<and> (fdset_bit (fold (ConvertOut_visit handles ready) ks bs) k \<longleftrightarrow>
        fdset_bit bs k \<and> (k \<in> set ks \<longrightarrow> 0 \<le> file_fd (handles k) \<and> file_fd (handles k) \<in> ready))"
  using assms
proof (induction ks arbitrary: bs)
  case (Cons j ks)
  have j: "j < 8 * length bs" using Cons.prems by simp
  have len: "length (ConvertOut_visit handles ready j bs) = length bs" by (simp add: ConvertOut_visit_def Let_def)
  have b: "fdset_bit (ConvertOut_visit handles ready j bs) k \<longleftrightarrow>
      fdset_bit bs k \<and> (k = j \<longrightarrow> 0 \<le> file_fd (handles j) \<and> file_fd (handles j) \<in> ready)"
    using fdset_bit_clear[OF j, of k] by (auto simp: ConvertOut_visit_def Let_def)
  show ?case using Cons.IH[of "ConvertOut_visit handles ready j bs"] Cons.prems by (auto simp: len b)
qed simp

lemma ConvertOut_sets:
  assumes "fdset_wf S"
  shows "fdset_wf (OS_FdSet_ConvertOut_Impl handles ready S)"
    and "fdset_members (OS_FdSet_ConvertOut_Impl handles ready S) = keep_ready handles ready (fdset_members S)"
proof -
  let ?ids = "object_ids S"
  have "\<forall>k \<in> set (listed 0 ?ids). k < 8 * length ?ids" by (auto simp: listed_def)
  note fold = ConvertOut_fold[OF this, of handles ready]
  show "fdset_wf (OS_FdSet_ConvertOut_Impl handles ready S)"
    using fold assms by (simp add: fdset_wf_def OS_FdSet_ConvertOut_Impl_def scan_bytes_fold)
  show "fdset_members (OS_FdSet_ConvertOut_Impl handles ready S) = keep_ready handles ready (fdset_members S)"
    using fold unfolding listed_members[OF assms]
    by (auto simp: fdset_members_def keep_ready_def OS_FdSet_ConvertOut_Impl_def scan_bytes_fold)
qed

text \<open>
  The select call on sets of streams: the streams are mapped to their descriptors, and after a
  successful call the streams whose descriptors are ready are kept.
\<close>

definition chosen :: "nat set option \<Rightarrow> nat set" where
  "chosen A = (case A of None \<Rightarrow> {} | Some B \<Rightarrow> B)"

definition select_streams ::
    "'h io_calls \<Rightarrow> 'h posix_io posix_clock \<Rightarrow> nat set option \<Rightarrow> nat set option \<Rightarrow> OS_time \<Rightarrow> 'h posix_io os_state
      \<Rightarrow> (status \<times> nat set option \<times> nat set option \<times> 'h posix_io os_state) option" where
  "select_streams c clk R W abs_timeout s =
    (let handles = OS_impl_filehandle_table (impl s);
         descriptors = fds handles (chosen R \<union> chosen W)
     in if unsupported handles (chosen R \<union> chosen W) then Some (OS_ERR_OPERATION_NOT_SUPPORTED, R, W, s)
        else if descriptors = {} then Some (OS_ERR_INVALID_ID, R, W, s)
        else Option.bind (OS_DoSelect c clk (Max descriptors) (fds handles (chosen R)) (fds handles (chosen W)) abs_timeout s)
          (\<lambda>(rc, rd, wr, s1).
             let keep = (\<lambda>ready. if rc = OS_SUCCESS then map_option (keep_ready (OS_impl_filehandle_table (impl s1)) ready) else id)
             in Some (rc, keep rd R, keep wr W, s1)))"

lemma fds_Un: "fds handles (A \<union> B) = fds handles A \<union> fds handles B"
  by (auto simp: fds_def)

lemma unsupported_Un: "unsupported handles (A \<union> B) \<longleftrightarrow> unsupported handles A \<or> unsupported handles B"
  by (auto simp: unsupported_def)

lemma finite_members: "finite (fdset_members S)"
  by (rule finite_subset[where B = "{..<unat OS_MAX_NUM_OPEN_FILES}"]) (auto simp: fdset_members_def)

lemma finite_fds: "finite (fds handles (fdset_members S))"
  by (simp add: fds_def finite_members)

lemma fds_nonneg: "n \<in> fds handles A \<Longrightarrow> 0 \<le> n"
  by (simp add: fds_def)

lemma convert_in_optional_sets:
  assumes "\<forall>S. Set = Some S \<longrightarrow> fdset_wf S"
  shows "\<exists>m' set'. convert_in_optional handles m Set =
      (if unsupported handles (chosen (map_option fdset_members Set))
       then OS_ERR_OPERATION_NOT_SUPPORTED else OS_SUCCESS, m', set')
    \<and> (\<not> unsupported handles (chosen (map_option fdset_members Set)) \<longrightarrow>
         set' = fds handles (chosen (map_option fdset_members Set))
       \<and> m' = Max (insert m (fds handles (chosen (map_option fdset_members Set)))))"
proof (cases Set)
  case None
  then show ?thesis by (simp add: convert_in_optional_def chosen_def unsupported_def fds_def)
next
  case (Some S)
  with assms ConvertIn_sets[of S handles m "{}"] show ?thesis by (simp add: convert_in_optional_def chosen_def)
qed

lemma Max_insert_negative:
  assumes "finite D" and "\<forall>n \<in> D. 0 \<le> (n::int)"
  shows "0 \<le> Max (insert (- 1) D) \<longleftrightarrow> D \<noteq> {}" and "D \<noteq> {} \<Longrightarrow> Max (insert (- 1) D) = Max D"
proof -
  have "0 \<le> Max D" if "D \<noteq> {}" using bspec[OF assms(2) Max_in[OF assms(1) that]] .
  then show "D \<noteq> {} \<Longrightarrow> Max (insert (- 1) D) = Max D" using assms(1) by (simp add: max_def)
  then show "0 \<le> Max (insert (- 1) D) \<longleftrightarrow> D \<noteq> {}"
    using assms Max_in[OF assms(1)] by (cases "D = {}") auto
qed

lemma Max_insert_Max:
  "finite D \<Longrightarrow> finite E \<Longrightarrow> Max (insert (Max (insert m D)) E) = Max (insert m (D \<union> E))" for m :: int
  by (cases "E = {}") (simp_all add: Max.union Max_insert2 flip: Un_insert_left)

text \<open>The arguments the implementation passes to \<^verbatim>\<open>OS_DoSelect\<close>.\<close>

lemma SelectMultiple_call:
  assumes R: "\<forall>S. ReadSet = Some S \<longrightarrow> fdset_wf S" and W: "\<forall>S. WriteSet = Some S \<longrightarrow> fdset_wf S"
    and h: "h = OS_impl_filehandle_table (impl s)"
    and A: "A = chosen (map_option fdset_members ReadSet)" and B: "B = chosen (map_option fdset_members WriteSet)"
  shows "posix_SelectMultiple c clk ReadSet WriteSet abs_timeout s =
    (if unsupported h (A \<union> B) then Some (OS_ERR_OPERATION_NOT_SUPPORTED, ReadSet, WriteSet, s)
     else if fds h (A \<union> B) = {} then Some (OS_ERR_INVALID_ID, ReadSet, WriteSet, s)
     else Option.bind (OS_DoSelect c clk (Max (fds h (A \<union> B))) (fds h A) (fds h B) abs_timeout s)
            (\<lambda>(rc3, rd, wr, s1).
               if rc3 = OS_SUCCESS
               then Some (rc3, map_option (OS_FdSet_ConvertOut_Impl (OS_impl_filehandle_table (impl s1)) rd) ReadSet,
                          map_option (OS_FdSet_ConvertOut_Impl (OS_impl_filehandle_table (impl s1)) wr) WriteSet, s1)
               else Some (rc3, ReadSet, WriteSet, s1)))"
proof -
  have fin: "finite (fds h A)" "finite (fds h B)"
    by (auto simp: A B chosen_def fds_def finite_members split: option.split)
  then have D: "finite (fds h (A \<union> B))" "\<forall>n \<in> fds h (A \<union> B). 0 \<le> n" by (auto simp: fds_Un dest: fds_nonneg)
  obtain m1 rd where rd: "convert_in_optional h (- 1) ReadSet =
      (if unsupported h A then OS_ERR_OPERATION_NOT_SUPPORTED else OS_SUCCESS, m1, rd)"
    and rd': "\<not> unsupported h A \<Longrightarrow> rd = fds h A \<and> m1 = Max (insert (- 1) (fds h A))"
    using convert_in_optional_sets[OF R, of h "- 1"] unfolding A by blast
  obtain m2 wr where wr: "convert_in_optional h m1 WriteSet =
      (if unsupported h B then OS_ERR_OPERATION_NOT_SUPPORTED else OS_SUCCESS, m2, wr)"
    and wr': "\<not> unsupported h B \<Longrightarrow> wr = fds h B \<and> m2 = Max (insert m1 (fds h B))"
    using convert_in_optional_sets[OF W, of h m1] unfolding B by blast
  show ?thesis
  proof (cases "unsupported h A \<or> unsupported h B")
    case True
    then show ?thesis using rd wr by (auto simp: posix_SelectMultiple_def unsupported_Un h)
  next
    case False
    have m2: "m2 = Max (insert (- 1) (fds h (A \<union> B)))"
      using False rd' wr' Max_insert_Max[OF fin, of "- 1"] by (simp add: fds_Un)
    show ?thesis
      using False rd wr rd' wr' Max_insert_negative[OF D, folded m2]
      by (simp add: posix_SelectMultiple_def unsupported_Un flip: h)
  qed
qed

lemma ConvertOut_optional:
  "\<forall>S. Set = Some S \<longrightarrow> fdset_wf S \<Longrightarrow>
    map_option fdset_members (map_option (OS_FdSet_ConvertOut_Impl handles ready) Set) =
    map_option (keep_ready handles ready) (map_option fdset_members Set)"
  by (cases Set) (simp_all add: ConvertOut_sets)


text \<open>A small host: \<open>select\<close> is interrupted as often as its state says, then descriptor 5 is readable; the disk is full.\<close>

definition example_io :: "nat io_calls" where
  "example_io =
    \<lparr>sys_open = (\<lambda>_ _ _ h. (Inl ENOSYS, h)), sys_close = (\<lambda>_ h. (Inr (), h)), sys_read = (\<lambda>_ n h. (Inr (replicate n 0), h)),
     sys_write = (\<lambda>_ _ n h. (Inr n, h)), sys_lseek = (\<lambda>_ _ _ h. (Inl ESPIPE, h)), sys_ftruncate = (\<lambda>_ _ h. (Inl ENOSYS, h)),
     sys_posix_fallocate = (\<lambda>_ _ _ h. (28, h)), sys_errno = (\<lambda>_. E_other 0), sys_stat = (\<lambda>_ h. (Inl ENOSYS, h)),
     sys_fstat = (\<lambda>_ h. (Inl ENOSYS, h)), sys_fchmod = (\<lambda>_ _ h. (Inl ENOSYS, h)), sys_remove = (\<lambda>_ h. (Inl ENOSYS, h)),
     sys_rename = (\<lambda>_ _ h. (Inl ENOSYS, h)), sys_mkdir = (\<lambda>_ _ h. (Inl ENOSYS, h)), sys_rmdir = (\<lambda>_ h. (Inl ENOSYS, h)),
     sys_opendir = (\<lambda>_ h. (None, h)), sys_closedir = (\<lambda>_ h. h), sys_readdir = (\<lambda>_ h. (None, h)), sys_rewinddir = (\<lambda>_ h. h),
     sys_select = (\<lambda>_ rd wr _ h. if 0 < h then (Inl EINTR, h - 1) else (Inr (card ({5} \<inter> rd), {5} \<inter> rd, {}), h)),
     sys_geteuid = 0, sys_getegid = 0\<rparr>"

definition example_streams :: "nat \<Rightarrow> nat posix_io" where
  "example_streams h =
    \<lparr>OS_impl_filehandle_table = (\<lambda>k. \<lparr>file_fd = (if k = 0 then 5 else if k = 9 then 7 else - 1), file_selectable = True\<rparr>),
     OS_impl_dir_table = (\<lambda>_. None), OS_IMPL_SELF_EUID = 0, OS_IMPL_SELF_EGID = 0, host = h\<rparr>"

definition example_clock :: "'i posix_clock" where
  "example_clock = \<lparr>clock_gettime = (\<lambda>_ _. (0, 0, 0)), clock_settime = (\<lambda>_ _ _ a. (0, a))\<rparr>"

lemma example_select:
  "sys_select example_io n rd wr tv h = (if 0 < h then (Inl EINTR, h - 1) else (Inr (card ({5} \<inter> rd), {5} \<inter> rd, {}), h))"
  by (simp add: example_io_def)



definition example_file_layer :: "nat posix_io file_impl" where
  "example_file_layer =
    \<lparr>OS_GenericSeek_Impl = (\<lambda>token offset whence s. posix_GenericSeek example_io token offset whence (impl s)),
     OS_GenericRead_Impl = (\<lambda>_ _ _ s. (OS_SUCCESS, [], impl s)), OS_GenericWrite_Impl = (\<lambda>_ _ _ _ s. (OS_SUCCESS, impl s)),
     OS_GenericClose_Impl = (\<lambda>token s. posix_GenericClose example_io token (impl s)),
     OS_FileOpen_Impl = (\<lambda>token p flags mode s. posix_FileOpen example_io token p flags mode (impl s)),
     OS_FileTruncate_Impl = (\<lambda>token len s. posix_FileTruncate example_io token len (impl s)),
     OS_FileAllocate_Impl = (\<lambda>token offset len s. posix_FileAllocate example_io token offset len (impl s)),
     OS_FileStat_Impl = (\<lambda>_ st a. (OS_ERROR, st)), OS_FileRemove_Impl = posix_FileRemove example_io,
     OS_FileRename_Impl = posix_FileRename example_io, OS_FileChmod_Impl = posix_FileChmod example_io\<rparr>"


text \<open>
  Interrupted calls. The state of the host bounds how often it will still interrupt: \<open>m\<close> decreases
  with every \<open>select\<close> that is interrupted.
\<close>

lemma select_timeval_impl: "impl (snd (snd (select_timeval clk t cur s))) = impl s"
  by (auto simp: select_timeval_def read_clock_def OS_GetLocalTime_Impl_def OS_DEBUG_def Let_def split: prod.split)

lemma DoSelect_loop_returns:
  assumes m: "\<forall>n rd wr tv h. fst (sys_select c n rd wr tv h) \<in> {Inl EINTR, Inl EAGAIN} \<longrightarrow> m (snd (sys_select c n rd wr tv h)) < (m h :: nat)"
  shows "DoSelect_loop c clk maxfd rd wr t cur s \<noteq> None"
proof (induction "m (host (impl s))" arbitrary: cur s rule: less_induct)
  case less
  obtain tv cur1 s1 where tv: "select_timeval clk t cur s = (tv, cur1, s1)" by (metis prod.exhaust)
  obtain res h where sel: "sys_select c (maxfd + 1) rd wr tv (host (impl s1)) = (res, h)" by fastforce
  have s1: "impl s1 = impl s" using select_timeval_impl[of clk t cur s] by (simp add: tv)
  show ?case
  proof (cases "res = Inl EINTR \<or> res = Inl EAGAIN")
    case True
    then have "m h < m (host (impl s))"
      using m[rule_format, of "maxfd + 1" rd wr tv "host (impl s1)"] sel s1 by auto
    then have "DoSelect_loop c clk maxfd rd wr t cur1 (s1\<lparr>impl := (impl s1)\<lparr>host := h\<rparr>\<rparr>) \<noteq> None" by (intro less) simp
    with True show ?thesis by (subst DoSelect_loop.simps) (simp add: tv sel Let_def)
  next
    case False
    then show ?thesis by (subst DoSelect_loop.simps) (simp add: tv sel Let_def)
  qed
qed



end
