(* ===== verification/Socket.thy ===== *)
theory Socket
  imports Select
begin

text \<open>
  Sockets, \<^verbatim>\<open>src/src/os/shared/src/osapi-sockets.c\<close>. A socket is a stream with a socket
  domain; the bits of its state say whether it is bound, listening or connected. Its name is made
  from its address when it is bound or accepted; before that the pointer to the name is null.
\<close>

unbundle bit_operations_syntax

subsection \<open>Addresses, options and the implementation layer\<close>

abbreviation (input) OS_SocketDomain_INET :: u8 where "OS_SocketDomain_INET \<equiv> 1"
abbreviation (input) OS_SocketDomain_INET6 :: u8 where "OS_SocketDomain_INET6 \<equiv> 2"
abbreviation (input) OS_SocketType_DATAGRAM :: u8 where "OS_SocketType_DATAGRAM \<equiv> 1"
abbreviation (input) OS_SocketType_STREAM :: u8 where "OS_SocketType_STREAM \<equiv> 2"
abbreviation (input) OS_SocketShutdownMode_SHUT_READ :: u32 where "OS_SocketShutdownMode_SHUT_READ \<equiv> 1"
abbreviation (input) OS_SocketShutdownMode_SHUT_WRITE :: u32 where "OS_SocketShutdownMode_SHUT_WRITE \<equiv> 2"
abbreviation (input) OS_SocketShutdownMode_SHUT_READWRITE :: u32 where "OS_SocketShutdownMode_SHUT_READWRITE \<equiv> 3"
abbreviation (input) OS_socket_option_UNDEFINED :: int where "OS_socket_option_UNDEFINED \<equiv> 0"
abbreviation (input) OS_socket_option_IP_DSCP :: int where "OS_socket_option_IP_DSCP \<equiv> 1"
abbreviation (input) OS_socket_option_MAX :: int where "OS_socket_option_MAX \<equiv> 2"

definition OS_SOCKADDR_MAX_LEN :: nat where "OS_SOCKADDR_MAX_LEN = 28"

record OS_SockAddr =
  ActualLength :: nat
  AddrData :: "byte list"

record OS_socket_prop =
  socket_prop_name :: string
  socket_prop_creator :: osal_id_t

record 'i socket_impl =
  OS_SocketOpen_Impl :: "OS_object_token \<Rightarrow> 'i os_state \<Rightarrow> status \<times> 'i"
  OS_SocketBindAddress_Impl :: "OS_object_token \<Rightarrow> OS_SockAddr \<Rightarrow> 'i os_state \<Rightarrow> status \<times> 'i"
  OS_SocketListen_Impl :: "OS_object_token \<Rightarrow> 'i os_state \<Rightarrow> status \<times> 'i"
  OS_SocketConnect_Impl :: "OS_object_token \<Rightarrow> OS_SockAddr \<Rightarrow> OS_time \<Rightarrow> 'i os_state \<Rightarrow> status \<times> 'i"
  OS_SocketShutdown_Impl :: "OS_object_token \<Rightarrow> u32 \<Rightarrow> 'i os_state \<Rightarrow> status \<times> 'i"
  OS_SocketAccept_Impl ::
    "OS_object_token \<Rightarrow> OS_object_token \<Rightarrow> OS_SockAddr \<Rightarrow> OS_time \<Rightarrow> 'i os_state \<Rightarrow> status \<times> OS_SockAddr \<times> 'i"
  OS_SocketRecvFrom_Impl ::
    "OS_object_token \<Rightarrow> nat \<Rightarrow> OS_SockAddr option \<Rightarrow> OS_time \<Rightarrow> 'i os_state \<Rightarrow> status \<times> byte list \<times> OS_SockAddr option \<times> 'i"
  OS_SocketSendTo_Impl :: "OS_object_token \<Rightarrow> byte list \<Rightarrow> nat \<Rightarrow> OS_SockAddr \<Rightarrow> 'i os_state \<Rightarrow> status \<times> 'i"
  OS_SocketGetInfo_Impl :: "OS_object_token \<Rightarrow> OS_socket_prop \<Rightarrow> 'i os_state \<Rightarrow> status \<times> OS_socket_prop"
  OS_SocketGetOption_Impl :: "OS_object_token \<Rightarrow> int \<Rightarrow> int \<Rightarrow> 'i os_state \<Rightarrow> status \<times> int \<times> 'i"
  OS_SocketSetOption_Impl :: "OS_object_token \<Rightarrow> int \<Rightarrow> int \<Rightarrow> 'i os_state \<Rightarrow> status \<times> 'i"
  OS_SocketAddrInit_Impl :: "u8 \<Rightarrow> status \<times> OS_SockAddr"
  OS_SocketAddrToString_Impl :: "nat \<Rightarrow> OS_SockAddr \<Rightarrow> status \<times> string"
  OS_SocketAddrFromString_Impl :: "OS_SockAddr \<Rightarrow> string \<Rightarrow> status \<times> OS_SockAddr"
  OS_SocketAddrGetPort_Impl :: "OS_SockAddr \<Rightarrow> status \<times> u16 option"
  OS_SocketAddrSetPort_Impl :: "OS_SockAddr \<Rightarrow> u16 \<Rightarrow> status \<times> OS_SockAddr"

definition OS_SocketAPI_Init :: "'i os_state \<Rightarrow> status \<times> 'i os_state" where
  "OS_SocketAPI_Init s = (OS_SUCCESS, s)"

subsection \<open>Names\<close>

fun decimal :: "nat \<Rightarrow> string" where
  "decimal n = (if n < 10 then [char_of (48 + n)] else decimal (n div 10) @ [char_of (48 + n mod 10)])"

declare decimal.simps [simp del]

text \<open>\<^verbatim>\<open>snprintf(&buf[len], size - len, ...)\<close> where \<^verbatim>\<open>len\<close> is the length of what is there.\<close>

definition snprintf_append :: "nat \<Rightarrow> string \<Rightarrow> string \<Rightarrow> string" where
  "snprintf_append bufsz buf str =
    (let len = OS_strnlen buf bufsz in take len buf @ take (bufsz - len - 1) str)"

definition CreateSocketName_text :: "'i socket_impl \<Rightarrow> OS_SockAddr \<Rightarrow> string option \<Rightarrow> string" where
  "CreateSocketName_text k Addr parent_name =
    (let n0 = (case OS_SocketAddrToString_Impl k OS_MAX_PATH_LEN Addr of (st, str) \<Rightarrow> if st \<noteq> OS_SUCCESS then [] else str);
         n1 = (case OS_SocketAddrGetPort_Impl k Addr of
                 (st, Some port) \<Rightarrow>
                   if st = OS_SUCCESS then snprintf_append OS_MAX_PATH_LEN n0 (CHR '':'' # decimal (unat port)) else n0
               | (st, None) \<Rightarrow> n0)
     in case parent_name of
          None \<Rightarrow> n1
        | Some parent \<Rightarrow> snprintf_append OS_MAX_PATH_LEN n1 (CHR ''-'' # parent))"

definition OS_CreateSocketName ::
    "'i socket_impl \<Rightarrow> OS_object_token \<Rightarrow> OS_SockAddr \<Rightarrow> string option \<Rightarrow> 'i os_state \<Rightarrow> 'i os_state" where
  "OS_CreateSocketName k token Addr parent_name s =
     upd_stream (unat (obj_idx token)) (\<lambda>sock. sock\<lparr>stream_name := CreateSocketName_text k Addr parent_name\<rparr>) s"

subsection \<open>Operations\<close>

definition OS_SocketOpen ::
    "'i idmap_env \<Rightarrow> 'i socket_impl \<Rightarrow> bool \<Rightarrow> u8 \<Rightarrow> u8 \<Rightarrow> 'i os_state \<Rightarrow> status \<times> osal_id_t option \<times> 'i os_state" where
  "OS_SocketOpen env k has_id sdomain stype s =
    (if \<not> has_id then (OS_INVALID_POINTER, None, s)
     else
       case OS_ObjectIdAllocateNew env OS_OBJECT_TYPE_OS_STREAM None s of
         (return_code, token, s1) \<Rightarrow>
           (if return_code = OS_SUCCESS then
              let s2 = upd_stream (unat (obj_idx token)) (\<lambda>_. zero_stream\<lparr>socket_domain := sdomain, socket_type := stype\<rparr>) s1
              in case OS_SocketOpen_Impl k token s2 of
                   (st, a) \<Rightarrow>
                     (case OS_ObjectIdFinalizeNew env st token (s2\<lparr>impl := a\<rparr>) of (st', i, token', s3) \<Rightarrow> (st', Some i, s3))
            else (return_code, None, s1)))"

definition OS_SocketListen :: "'i idmap_env \<Rightarrow> 'i socket_impl \<Rightarrow> osal_id_t \<Rightarrow> 'i os_state \<Rightarrow> status \<times> 'i os_state" where
  "OS_SocketListen env k sock_id s =
    (case OS_ObjectIdGetById env OS_LOCK_MODE_EXCLUSIVE OS_OBJECT_TYPE_OS_STREAM sock_id s of
       (return_code, token, s1) \<Rightarrow>
         (if return_code = OS_SUCCESS then
            let j = unat (obj_idx token);
                stream = OS_stream_table s1 j;
                (st, s2) =
                  (if socket_domain stream = OS_SocketDomain_INVALID \<or> socket_type stream \<noteq> OS_SocketType_STREAM
                   then (OS_ERR_INCORRECT_OBJ_TYPE, s1)
                   else if stream_state stream AND OS_STREAM_STATE_BOUND = 0 then (OS_ERR_INCORRECT_OBJ_STATE, s1)
                   else if stream_state stream AND (OS_STREAM_STATE_LISTENING OR OS_STREAM_STATE_CONNECTED) \<noteq> 0
                   then (OS_ERR_INCORRECT_OBJ_STATE, s1)
                   else
                     case OS_SocketListen_Impl k token s1 of
                       (st, a) \<Rightarrow>
                         (st, if st = OS_SUCCESS
                              then upd_stream j (\<lambda>x. x\<lparr>stream_state := stream_state x OR OS_STREAM_STATE_LISTENING\<rparr>) (s1\<lparr>impl := a\<rparr>)
                              else s1\<lparr>impl := a\<rparr>))
            in (st, snd (OS_ObjectIdRelease env token s2))
          else (return_code, s1)))"

definition OS_SocketBindAddress ::
    "'i idmap_env \<Rightarrow> 'i socket_impl \<Rightarrow> osal_id_t \<Rightarrow> OS_SockAddr option \<Rightarrow> 'i os_state \<Rightarrow> status \<times> 'i os_state" where
  "OS_SocketBindAddress env k sock_id Addr s =
    (case Addr of
       None \<Rightarrow> (OS_INVALID_POINTER, s)
     | Some addr \<Rightarrow>
         (case OS_ObjectIdGetById env OS_LOCK_MODE_EXCLUSIVE OS_OBJECT_TYPE_OS_STREAM sock_id s of
            (return_code, token, s1) \<Rightarrow>
              (if return_code = OS_SUCCESS then
                 let j = unat (obj_idx token);
                     stream = OS_stream_table s1 j;
                     (st, s2) =
                       (if socket_domain stream = OS_SocketDomain_INVALID then (OS_ERR_INCORRECT_OBJ_TYPE, s1)
                        else if stream_state stream AND (OS_STREAM_STATE_BOUND OR OS_STREAM_STATE_CONNECTED) \<noteq> 0
                        then (OS_ERR_INCORRECT_OBJ_STATE, s1)
                        else
                          case OS_SocketBindAddress_Impl k token addr s1 of
                            (st, a) \<Rightarrow>
                              (st, if st = OS_SUCCESS
                                   then upd_stream j (\<lambda>x. x\<lparr>stream_state := stream_state x OR OS_STREAM_STATE_BOUND\<rparr>)
                                          (upd_common (OS_ObjectIdGlobalFromToken token) (\<lambda>ob. ob\<lparr>name_entry := Some (Stream_name j)\<rparr>)
                                            (OS_CreateSocketName k token addr None (s1\<lparr>impl := a\<rparr>)))
                                   else s1\<lparr>impl := a\<rparr>))
                 in (st, snd (OS_ObjectIdRelease env token s2))
               else (return_code, s1))))"

definition OS_SocketBind ::
    "'i idmap_env \<Rightarrow> 'i socket_impl \<Rightarrow> osal_id_t \<Rightarrow> OS_SockAddr option \<Rightarrow> 'i os_state \<Rightarrow> status \<times> 'i os_state" where
  "OS_SocketBind env k sock_id Addr s =
    (case OS_SocketBindAddress env k sock_id Addr s of
       (return_code, s1) \<Rightarrow>
         (if return_code = OS_SUCCESS
          then (case OS_SocketListen env k sock_id s1 of
                  (rc, s2) \<Rightarrow> (if rc = OS_ERR_INCORRECT_OBJ_TYPE then OS_SUCCESS else rc, s2))
          else (return_code, s1)))"

text \<open>The part of \<open>OS_SocketAcceptAbs\<close> that makes the new stream, with the listening socket referenced.\<close>

definition accept_connection ::
    "'i idmap_env \<Rightarrow> 'i socket_impl \<Rightarrow> OS_object_token \<Rightarrow> OS_SockAddr \<Rightarrow> OS_time \<Rightarrow> 'i os_state
      \<Rightarrow> status \<times> osal_id_t option \<times> OS_SockAddr \<times> 'i os_state" where
  "accept_connection env k sock_token addr abs_timeout s =
    (case OS_ObjectIdAllocateNew env OS_OBJECT_TYPE_OS_STREAM None s of
       (return_code, conn_token, s1) \<Rightarrow>
         (if return_code = OS_SUCCESS then
            let sock = OS_stream_table s1 (unat (obj_idx sock_token));
                j = unat (obj_idx conn_token);
                s2 = upd_stream j (\<lambda>_. zero_stream\<lparr>socket_domain := socket_domain sock, socket_type := socket_type sock\<rparr>) s1;
                addr1 = snd (OS_SocketAddrInit_Impl k (socket_domain sock))
            in case OS_SocketAccept_Impl k sock_token conn_token addr1 abs_timeout s2 of
                 (st, addr2, a) \<Rightarrow>
                   let s3 = s2\<lparr>impl := a\<rparr>;
                       parent = map_option (deref_name s3) (name_entry (OS_common_table s3 (OS_ObjectIdGlobalFromToken sock_token)));
                       s4 = (if st = OS_SUCCESS
                             then upd_stream j (\<lambda>x. x\<lparr>stream_state := stream_state x OR OS_STREAM_STATE_CONNECTED\<rparr>)
                                    (upd_common (OS_ObjectIdGlobalFromToken conn_token) (\<lambda>ob. ob\<lparr>name_entry := Some (Stream_name j)\<rparr>)
                                      (OS_CreateSocketName k conn_token addr2 parent s3))
                             else s3)
                   in case OS_ObjectIdFinalizeNew env st conn_token s4 of (st', i, token', s5) \<Rightarrow> (st', Some i, addr2, s5)
          else (return_code, None, addr, s1)))"

definition OS_SocketAcceptAbs ::
    "'i idmap_env \<Rightarrow> 'i socket_impl \<Rightarrow> osal_id_t \<Rightarrow> bool \<Rightarrow> OS_SockAddr option \<Rightarrow> OS_time \<Rightarrow> 'i os_state
      \<Rightarrow> status \<times> osal_id_t option \<times> OS_SockAddr option \<times> 'i os_state" where
  "OS_SocketAcceptAbs env k sock_id has_conn Addr abs_timeout s =
    (case Addr of
       None \<Rightarrow> (OS_INVALID_POINTER, None, None, s)
     | Some addr \<Rightarrow>
         (if \<not> has_conn then (OS_INVALID_POINTER, None, Some addr, s)
          else
            case OS_ObjectIdGetById env OS_LOCK_MODE_REFCOUNT OS_OBJECT_TYPE_OS_STREAM sock_id s of
              (return_code, sock_token, s1) \<Rightarrow>
                (if return_code = OS_SUCCESS then
                   let sock = OS_stream_table s1 (unat (obj_idx sock_token));
                       (st, conn_id, addr', s2) =
                         (if socket_type sock \<noteq> OS_SocketType_STREAM then (OS_ERR_INCORRECT_OBJ_TYPE, None, addr, s1)
                          else if stream_state sock AND (OS_STREAM_STATE_BOUND OR OS_STREAM_STATE_CONNECTED) \<noteq> OS_STREAM_STATE_BOUND
                          then (OS_ERR_INCORRECT_OBJ_STATE, None, addr, s1)
                          else accept_connection env k sock_token addr abs_timeout s1)
                   in (st, conn_id, Some addr', snd (OS_ObjectIdRelease env sock_token s2))
                 else (return_code, None, Some addr, s1))))"

definition OS_SocketAccept ::
    "'i idmap_env \<Rightarrow> 'i socket_impl \<Rightarrow> OS_time \<Rightarrow> 'i posix_clock \<Rightarrow> osal_id_t \<Rightarrow> bool \<Rightarrow> OS_SockAddr option \<Rightarrow> int \<Rightarrow> 'i os_state
      \<Rightarrow> status \<times> osal_id_t option \<times> OS_SockAddr option \<times> 'i os_state" where
  "OS_SocketAccept env k g c sock_id has_conn Addr timeout s =
    (case OS_TimeFromRelativeMilliseconds g c timeout s of
       (abs_timeout, s1) \<Rightarrow> OS_SocketAcceptAbs env k sock_id has_conn Addr abs_timeout s1)"

definition OS_SocketConnectAbs ::
    "'i idmap_env \<Rightarrow> 'i socket_impl \<Rightarrow> osal_id_t \<Rightarrow> OS_SockAddr option \<Rightarrow> OS_time \<Rightarrow> 'i os_state \<Rightarrow> status \<times> 'i os_state" where
  "OS_SocketConnectAbs env k sock_id Addr abs_timeout s =
    (case Addr of
       None \<Rightarrow> (OS_INVALID_POINTER, s)
     | Some addr \<Rightarrow>
         (case OS_ObjectIdGetById env OS_LOCK_MODE_EXCLUSIVE OS_OBJECT_TYPE_OS_STREAM sock_id s of
            (return_code, token, s1) \<Rightarrow>
              (if return_code = OS_SUCCESS then
                 let j = unat (obj_idx token);
                     stream = OS_stream_table s1 j;
                     (st, s2) =
                       (if socket_domain stream = OS_SocketDomain_INVALID then (OS_ERR_INCORRECT_OBJ_TYPE, s1)
                        else if socket_type stream = OS_SocketType_STREAM \<and> stream_state stream AND OS_STREAM_STATE_CONNECTED \<noteq> 0
                        then (OS_ERR_INCORRECT_OBJ_STATE, s1)
                        else
                          case OS_SocketConnect_Impl k token addr abs_timeout s1 of
                            (st, a) \<Rightarrow>
                              (st, if st = OS_SUCCESS
                                   then upd_stream j (\<lambda>x. x\<lparr>stream_state := stream_state x OR
                                          (OS_STREAM_STATE_CONNECTED OR OS_STREAM_STATE_READABLE OR OS_STREAM_STATE_WRITABLE)\<rparr>)
                                          (s1\<lparr>impl := a\<rparr>)
                                   else s1\<lparr>impl := a\<rparr>))
                 in (st, snd (OS_ObjectIdRelease env token s2))
               else (return_code, s1))))"

definition OS_SocketConnect ::
    "'i idmap_env \<Rightarrow> 'i socket_impl \<Rightarrow> OS_time \<Rightarrow> 'i posix_clock \<Rightarrow> osal_id_t \<Rightarrow> OS_SockAddr option \<Rightarrow> int \<Rightarrow> 'i os_state
      \<Rightarrow> status \<times> 'i os_state" where
  "OS_SocketConnect env k g c sock_id Addr timeout s =
    (case OS_TimeFromRelativeMilliseconds g c timeout s of
       (abs_timeout, s1) \<Rightarrow> OS_SocketConnectAbs env k sock_id Addr abs_timeout s1)"

definition shutdown_state :: "u32 \<Rightarrow> u16 \<Rightarrow> u16" where
  "shutdown_state Mode w =
    (let w1 = (if Mode AND OS_SocketShutdownMode_SHUT_READ \<noteq> 0 then w AND NOT OS_STREAM_STATE_READABLE else w)
     in if Mode AND OS_SocketShutdownMode_SHUT_WRITE \<noteq> 0 then w1 AND NOT OS_STREAM_STATE_WRITABLE else w1)"

definition OS_SocketShutdown :: "'i idmap_env \<Rightarrow> 'i socket_impl \<Rightarrow> osal_id_t \<Rightarrow> u32 \<Rightarrow> 'i os_state \<Rightarrow> status \<times> 'i os_state" where
  "OS_SocketShutdown env k sock_id Mode s =
    (if \<not> (Mode = OS_SocketShutdownMode_SHUT_READ \<or> Mode = OS_SocketShutdownMode_SHUT_WRITE
            \<or> Mode = OS_SocketShutdownMode_SHUT_READWRITE) then (OS_ERR_INVALID_ARGUMENT, s)
     else
       case OS_ObjectIdGetById env OS_LOCK_MODE_GLOBAL OS_OBJECT_TYPE_OS_STREAM sock_id s of
         (return_code, token, s1) \<Rightarrow>
           (if return_code = OS_SUCCESS then
              let j = unat (obj_idx token);
                  stream = OS_stream_table s1 j;
                  (st, s2) =
                    (if socket_domain stream = OS_SocketDomain_INVALID then (OS_ERR_INCORRECT_OBJ_TYPE, s1)
                     else if socket_type stream = OS_SocketType_STREAM \<and> stream_state stream AND OS_STREAM_STATE_CONNECTED = 0
                     then (OS_ERR_INCORRECT_OBJ_STATE, s1)
                     else
                       case OS_SocketShutdown_Impl k token Mode s1 of
                         (st, a) \<Rightarrow>
                           (st, if st = OS_SUCCESS
                                then upd_stream j (\<lambda>x. x\<lparr>stream_state := shutdown_state Mode (stream_state x)\<rparr>) (s1\<lparr>impl := a\<rparr>)
                                else s1\<lparr>impl := a\<rparr>))
              in (st, snd (OS_ObjectIdRelease env token s2))
            else (return_code, s1)))"

definition OS_SocketRecvFromAbs ::
    "'i idmap_env \<Rightarrow> 'i socket_impl \<Rightarrow> osal_id_t \<Rightarrow> bool \<Rightarrow> nat \<Rightarrow> OS_SockAddr option \<Rightarrow> OS_time \<Rightarrow> 'i os_state
      \<Rightarrow> status \<times> byte list \<times> OS_SockAddr option \<times> 'i os_state" where
  "OS_SocketRecvFromAbs env k sock_id has_buffer buflen RemoteAddr abs_timeout s =
    (if \<not> has_buffer then (OS_INVALID_POINTER, [], RemoteAddr, s)
     else if \<not> OS_CHECK_SIZE buflen then (OS_ERR_INVALID_SIZE, [], RemoteAddr, s)
     else
       case OS_ObjectIdGetById env OS_LOCK_MODE_REFCOUNT OS_OBJECT_TYPE_OS_STREAM sock_id s of
         (return_code, token, s1) \<Rightarrow>
           (if return_code = OS_SUCCESS then
              let stream = OS_stream_table s1 (unat (obj_idx token));
                  (st, bytes, addr, s2) =
                    (if socket_type stream \<noteq> OS_SocketType_DATAGRAM then (OS_ERR_INCORRECT_OBJ_TYPE, [], RemoteAddr, s1)
                     else if stream_state stream AND OS_STREAM_STATE_BOUND = 0
                     then (OS_ERR_INCORRECT_OBJ_STATE, [], RemoteAddr, s1)
                     else
                       case OS_SocketRecvFrom_Impl k token buflen RemoteAddr abs_timeout s1 of
                         (st, bytes, addr, a) \<Rightarrow> (st, bytes, addr, s1\<lparr>impl := a\<rparr>))
              in (st, bytes, addr, snd (OS_ObjectIdRelease env token s2))
            else (return_code, [], RemoteAddr, s1)))"

definition OS_SocketRecvFrom ::
    "'i idmap_env \<Rightarrow> 'i socket_impl \<Rightarrow> OS_time \<Rightarrow> 'i posix_clock \<Rightarrow> osal_id_t \<Rightarrow> bool \<Rightarrow> nat \<Rightarrow> OS_SockAddr option \<Rightarrow> int
      \<Rightarrow> 'i os_state \<Rightarrow> status \<times> byte list \<times> OS_SockAddr option \<times> 'i os_state" where
  "OS_SocketRecvFrom env k g c sock_id has_buffer buflen RemoteAddr timeout s =
    (case OS_TimeFromRelativeMilliseconds g c timeout s of
       (abs_timeout, s1) \<Rightarrow> OS_SocketRecvFromAbs env k sock_id has_buffer buflen RemoteAddr abs_timeout s1)"

definition OS_SocketSendTo ::
    "'i idmap_env \<Rightarrow> 'i socket_impl \<Rightarrow> osal_id_t \<Rightarrow> byte list option \<Rightarrow> nat \<Rightarrow> OS_SockAddr option \<Rightarrow> 'i os_state
      \<Rightarrow> status \<times> 'i os_state" where
  "OS_SocketSendTo env k sock_id buffer buflen RemoteAddr s =
    (case buffer of
       None \<Rightarrow> (OS_INVALID_POINTER, s)
     | Some bytes \<Rightarrow>
         (if \<not> OS_CHECK_SIZE buflen then (OS_ERR_INVALID_SIZE, s)
          else
            case RemoteAddr of
              None \<Rightarrow> (OS_INVALID_POINTER, s)
            | Some addr \<Rightarrow>
                (case OS_ObjectIdGetById env OS_LOCK_MODE_REFCOUNT OS_OBJECT_TYPE_OS_STREAM sock_id s of
                   (return_code, token, s1) \<Rightarrow>
                     (if return_code = OS_SUCCESS then
                        let (st, a) = (if socket_type (OS_stream_table s1 (unat (obj_idx token))) \<noteq> OS_SocketType_DATAGRAM
                                       then (OS_ERR_INCORRECT_OBJ_TYPE, impl s1)
                                       else OS_SocketSendTo_Impl k token bytes buflen addr s1)
                        in (st, snd (OS_ObjectIdRelease env token (s1\<lparr>impl := a\<rparr>)))
                      else (return_code, s1)))))"

definition OS_SocketGetIdByName ::
    "'i idmap_env \<Rightarrow> bool \<Rightarrow> string option \<Rightarrow> 'i os_state \<Rightarrow> status \<times> osal_id_t option \<times> 'i os_state" where
  "OS_SocketGetIdByName env has_id name s =
    (if \<not> has_id then (OS_INVALID_POINTER, None, s)
     else case name of None \<Rightarrow> (OS_INVALID_POINTER, None, s)
          | Some nm \<Rightarrow> OS_ObjectIdFindByName env OS_OBJECT_TYPE_OS_STREAM (Some nm) s)"

text \<open>
  \<open>OS_SocketGetInfo\<close> copies the name without testing the pointer: the result is \<open>None\<close> when the
  call reads through a null pointer.
\<close>

definition OS_SocketGetInfo ::
    "'i idmap_env \<Rightarrow> 'i socket_impl \<Rightarrow> osal_id_t \<Rightarrow> bool \<Rightarrow> 'i os_state
      \<Rightarrow> (status \<times> OS_socket_prop option \<times> 'i os_state) option" where
  "OS_SocketGetInfo env k sock_id has_prop s =
    (if \<not> has_prop then Some (OS_INVALID_POINTER, None, s)
     else
       let sock_prop = \<lparr>socket_prop_name = [], socket_prop_creator = 0\<rparr>
       in case OS_ObjectIdGetById env OS_LOCK_MODE_GLOBAL OS_OBJECT_TYPE_OS_STREAM sock_id s of
            (return_code, token, s1) \<Rightarrow>
              (if return_code = OS_SUCCESS then
                 let rec = OS_common_table s1 (OS_ObjectIdGlobalFromToken token)
                 in case name_entry rec of
                      None \<Rightarrow> None
                    | Some p \<Rightarrow>
                        (case OS_SocketGetInfo_Impl k token
                                (sock_prop\<lparr>socket_prop_name := strncpy_cleared (deref_name s1 p) OS_MAX_API_NAME,
                                           socket_prop_creator := creator rec\<rparr>) s1 of
                           (st, prop) \<Rightarrow> Some (st, Some prop, snd (OS_ObjectIdRelease env token s1)))
               else Some (return_code, Some sock_prop, s1)))"

definition OS_SocketAddrInit :: "'i socket_impl \<Rightarrow> OS_SockAddr option \<Rightarrow> u8 \<Rightarrow> status \<times> OS_SockAddr option" where
  "OS_SocketAddrInit k Addr sdomain =
    (case Addr of
       None \<Rightarrow> (OS_INVALID_POINTER, None)
     | Some _ \<Rightarrow> (case OS_SocketAddrInit_Impl k sdomain of (st, addr) \<Rightarrow> (st, Some addr)))"

definition OS_SocketAddrToString :: "'i socket_impl \<Rightarrow> bool \<Rightarrow> nat \<Rightarrow> OS_SockAddr option \<Rightarrow> status \<times> string option" where
  "OS_SocketAddrToString k has_buffer buflen Addr =
    (case Addr of
       None \<Rightarrow> (OS_INVALID_POINTER, None)
     | Some addr \<Rightarrow>
         (if \<not> has_buffer then (OS_INVALID_POINTER, None)
          else if \<not> OS_CHECK_SIZE buflen then (OS_ERR_INVALID_SIZE, None)
          else case OS_SocketAddrToString_Impl k buflen addr of (st, str) \<Rightarrow> (st, Some str)))"

definition OS_SocketAddrFromString :: "'i socket_impl \<Rightarrow> OS_SockAddr option \<Rightarrow> string option \<Rightarrow> status \<times> OS_SockAddr option" where
  "OS_SocketAddrFromString k Addr str =
    (case Addr of
       None \<Rightarrow> (OS_INVALID_POINTER, None)
     | Some addr \<Rightarrow>
         (case str of
            None \<Rightarrow> (OS_INVALID_POINTER, Some addr)
          | Some x \<Rightarrow> (case OS_SocketAddrFromString_Impl k addr x of (st, addr') \<Rightarrow> (st, Some addr'))))"

definition OS_SocketAddrGetPort :: "'i socket_impl \<Rightarrow> bool \<Rightarrow> OS_SockAddr option \<Rightarrow> status \<times> u16 option" where
  "OS_SocketAddrGetPort k has_port Addr =
    (case Addr of
       None \<Rightarrow> (OS_INVALID_POINTER, None)
     | Some addr \<Rightarrow> (if \<not> has_port then (OS_INVALID_POINTER, None) else OS_SocketAddrGetPort_Impl k addr))"

definition OS_SocketAddrSetPort :: "'i socket_impl \<Rightarrow> OS_SockAddr option \<Rightarrow> u16 \<Rightarrow> status \<times> OS_SockAddr option" where
  "OS_SocketAddrSetPort k Addr PortNum =
    (case Addr of
       None \<Rightarrow> (OS_INVALID_POINTER, None)
     | Some addr \<Rightarrow> (case OS_SocketAddrSetPort_Impl k addr PortNum of (st, addr') \<Rightarrow> (st, Some addr')))"

definition OS_SocketGetOption ::
    "'i idmap_env \<Rightarrow> 'i socket_impl \<Rightarrow> osal_id_t \<Rightarrow> int \<Rightarrow> int option \<Rightarrow> 'i os_state \<Rightarrow> status \<times> int option \<times> 'i os_state" where
  "OS_SocketGetOption env k sock_id opt_id optval s =
    (case optval of
       None \<Rightarrow> (OS_INVALID_POINTER, None, s)
     | Some old \<Rightarrow>
         (if opt_id < OS_socket_option_UNDEFINED \<or> opt_id \<ge> OS_socket_option_MAX then (OS_ERR_INVALID_ARGUMENT, Some old, s)
          else
            case OS_ObjectIdGetById env OS_LOCK_MODE_GLOBAL OS_OBJECT_TYPE_OS_STREAM sock_id s of
              (return_code, token, s1) \<Rightarrow>
                (if return_code = OS_SUCCESS
                 then (case OS_SocketGetOption_Impl k token opt_id 0 s1 of
                         (st, v, a) \<Rightarrow> (st, Some v, snd (OS_ObjectIdRelease env token (s1\<lparr>impl := a\<rparr>))))
                 else (return_code, Some 0, s1))))"

definition OS_SocketSetOption ::
    "'i idmap_env \<Rightarrow> 'i socket_impl \<Rightarrow> osal_id_t \<Rightarrow> int \<Rightarrow> int option \<Rightarrow> 'i os_state \<Rightarrow> status \<times> 'i os_state" where
  "OS_SocketSetOption env k sock_id opt_id optval s =
    (case optval of
       None \<Rightarrow> (OS_INVALID_POINTER, s)
     | Some v \<Rightarrow>
         (if opt_id < OS_socket_option_UNDEFINED \<or> opt_id \<ge> OS_socket_option_MAX then (OS_ERR_INVALID_ARGUMENT, s)
          else
            case OS_ObjectIdGetById env OS_LOCK_MODE_GLOBAL OS_OBJECT_TYPE_OS_STREAM sock_id s of
              (return_code, token, s1) \<Rightarrow>
                (if return_code = OS_SUCCESS
                 then (case OS_SocketSetOption_Impl k token opt_id v s1 of
                         (st, a) \<Rightarrow> (st, snd (OS_ObjectIdRelease env token (s1\<lparr>impl := a\<rparr>))))
                 else (return_code, s1))))"

subsection \<open>A socket without a name\<close>

lemma OS_SocketOpen_ok:
  assumes s: "idle s" "event_ok env s" "free_slot SRT s k0"
    and impl: "\<And>token s'. fst (OS_SocketOpen_Impl k token s') = OS_SUCCESS"
  obtains i s' where "OS_SocketOpen env k True sdomain stype s = (OS_SUCCESS, Some i, s')"
    and "running s'" "lock_free SRT s'" "live SRT i s'" "name_entry (OS_common_table s' (record_of SRT (index_of i))) = None"
proof -
  from s(1) have r: "running s" "lock_free SRT s" by (simp_all add: idleD OS_GetMaxForObjectType_def os_max_defs)
  obtain i where i: "id_of_type SRT i" "free_slot SRT s (index_of i)"
    and al: "OS_ObjectIdAllocateNew env SRT None s
      = (OS_SUCCESS, tok OS_LOCK_MODE_EXCLUSIVE 0 SRT (index_of i) i,
         ticked SRT ((issued SRT i OS_OBJECT_ID_RESERVED 1 (OS_TaskGetId env s) s)
           \<lparr>impl := event_impl env OS_EVENT_RESOURCE_ALLOCATED i s\<rparr>))"
    by (rule AllocateNew_ok[OF r s(2,3), where name = None]) auto
  let ?s1 = "ticked SRT ((issued SRT i OS_OBJECT_ID_RESERVED 1 (OS_TaskGetId env s) s)
    \<lparr>impl := event_impl env OS_EVENT_RESOURCE_ALLOCATED i s\<rparr>)"
  let ?s2 = "upd_stream (unat (index_of i)) (\<lambda>_. zero_stream\<lparr>socket_domain := sdomain, socket_type := stype\<rparr>) ?s1"
  let ?tk = "tok OS_LOCK_MODE_EXCLUSIVE 0 SRT (index_of i) i"
  obtain a where a: "OS_SocketOpen_Impl k ?tk ?s2 = (OS_SUCCESS, a)"
    using impl[of ?tk ?s2] by (cases "OS_SocketOpen_Impl k ?tk ?s2") auto
  have f: "running (?s2\<lparr>impl := a\<rparr>)" "lock_free SRT (?s2\<lparr>impl := a\<rparr>)"
    "name_entry (OS_common_table (?s2\<lparr>impl := a\<rparr>) (record_of SRT (index_of i))) = None"
    using r by simp_all
  let ?s3 = "(ticked SRT (upd_common (record_of SRT (index_of i)) (\<lambda>ob. (drop_ref ob)\<lparr>active_id := i\<rparr>) (?s2\<lparr>impl := a\<rparr>)))
    \<lparr>impl := event_impl env OS_EVENT_RESOURCE_CREATED i (?s2\<lparr>impl := a\<rparr>)\<rparr>"
  have "OS_SocketOpen env k True sdomain stype s = (OS_SUCCESS, Some i, ?s3)"
    using al a FinalizeNew_exclusive[OF f(2), of env OS_SUCCESS 0 "index_of i" i] by (simp add: OS_SocketOpen_def Let_def)
  moreover have "running ?s3" "lock_free SRT ?s3" "live SRT i ?s3" "name_entry (OS_common_table ?s3 (record_of SRT (index_of i))) = None"
    using f i(1) by (simp_all add: live_def drop_ref_def)
  ultimately show thesis by (rule that)
qed

text \<open>C36: OS_SocketGetInfo copies the name of the socket without testing whether it has one. A socket
  that has been opened and neither bound nor connected has none, so the query reads through a null
  pointer.\<close>

theorem OS_SocketGetInfo_unnamed:
  assumes "idle s" "event_ok env s" "free_slot SRT s k0" "\<And>token s'. fst (OS_SocketOpen_Impl k token s') = OS_SUCCESS"
  shows "\<exists>i s'. OS_SocketOpen env k True sdomain stype s = (OS_SUCCESS, Some i, s') \<and> OS_SocketGetInfo env k i True s' = None"
proof -
  obtain i s' where o: "OS_SocketOpen env k True sdomain stype s = (OS_SUCCESS, Some i, s')"
    and s': "running s'" "lock_free SRT s'" "live SRT i s'" "name_entry (OS_common_table s' (record_of SRT (index_of i))) = None"
    using OS_SocketOpen_ok[OF assms] .
  obtain q where "OS_ObjectIdGetById env OS_LOCK_MODE_GLOBAL SRT i s'
      = (OS_SUCCESS, tok OS_LOCK_MODE_GLOBAL q SRT (index_of i) i,
         acquired SRT q (upd_common (record_of SRT (index_of i)) (\<lambda>ob. ob\<lparr>refcount := refcount ob + 1\<rparr>) s'))"
    using GetById_global[OF s'(1,3,2)] by blast
  with s'(4) have "OS_SocketGetInfo env k i True s' = None"
    by (simp add: OS_SocketGetInfo_def)
  with o show ?thesis by blast
qed

definition example_socket_impl :: "unit socket_impl" where
  "example_socket_impl =
    \<lparr>OS_SocketOpen_Impl = (\<lambda>_ _. (OS_SUCCESS, ())), OS_SocketBindAddress_Impl = (\<lambda>_ _ _. (OS_SUCCESS, ())),
     OS_SocketListen_Impl = (\<lambda>_ _. (OS_SUCCESS, ())), OS_SocketConnect_Impl = (\<lambda>_ _ _ _. (OS_SUCCESS, ())),
     OS_SocketShutdown_Impl = (\<lambda>_ _ _. (OS_SUCCESS, ())), OS_SocketAccept_Impl = (\<lambda>_ _ adr _ _. (OS_ERROR, adr, ())),
     OS_SocketRecvFrom_Impl = (\<lambda>_ _ adr _ _. (OS_ERROR, [], adr, ())), OS_SocketSendTo_Impl = (\<lambda>_ _ _ _ _. (OS_ERROR, ())),
     OS_SocketGetInfo_Impl = (\<lambda>_ prop _. (OS_SUCCESS, prop)), OS_SocketGetOption_Impl = (\<lambda>_ _ v _. (OS_ERROR, v, ())),
     OS_SocketSetOption_Impl = (\<lambda>_ _ _ _. (OS_ERROR, ())), OS_SocketAddrInit_Impl = (\<lambda>_. (OS_ERROR, \<lparr>ActualLength = 0, AddrData = []\<rparr>)),
     OS_SocketAddrToString_Impl = (\<lambda>_ _. (OS_ERROR, [])), OS_SocketAddrFromString_Impl = (\<lambda>adr _. (OS_ERROR, adr)),
     OS_SocketAddrGetPort_Impl = (\<lambda>_. (OS_ERROR, None)), OS_SocketAddrSetPort_Impl = (\<lambda>adr _. (OS_ERROR, adr))\<rparr>"

theorem OS_SocketGetInfo_unnamed_witness:
  "\<exists>i s'. OS_SocketOpen quiet_env example_socket_impl True 1 1 (fresh_state ()) = (OS_SUCCESS, Some i, s')
    \<and> OS_SocketGetInfo quiet_env example_socket_impl i True s' = None"
proof -
  have "event_ok quiet_env (fresh_state ())" "free_slot SRT (fresh_state ()) 0"
    by (simp_all add: event_ok_def fresh_state_def zero_SharedGlobalVars_def free_slot_def
      boot_state_def zero_common_record_def OS_ObjectIdDefined_def OS_GetMaxForObjectType_def os_max_defs)
  moreover have "fst (OS_SocketOpen_Impl example_socket_impl token s') = OS_SUCCESS" for token s'
    by (simp add: example_socket_impl_def)
  ultimately show ?thesis by (rule OS_SocketGetInfo_unnamed[OF fresh_idle])
qed

end
