(* ===== verification/Bsd_Sockets.thy ===== *)
theory Bsd_Sockets
  imports Posix_IO Socket
begin

text \<open>
  The socket implementation over the BSD interface, \<^verbatim>\<open>src/src/os/portable/os-impl-bsd-sockets.c\<close>,
  with the address conversions of \<^verbatim>\<open>os-impl-bsd-sockets-dns.c\<close> and
  \<^verbatim>\<open>os-impl-bsd-sockets-no-dns.c\<close>. Addresses are the bytes of the host's structures: the family
  in the first two bytes, little-endian, then the port in network order. The socket calls of the
  host are parameters. One transfer moves less than \<^verbatim>\<open>2^31\<close> bytes on the host, so that the
  number of bytes fits the \<^verbatim>\<open>int\<close> that receives it.
\<close>

unbundle bit_operations_syntax

subsection \<open>The host's sockets and addresses\<close>

abbreviation (input) AF_INET :: u16 where "AF_INET \<equiv> 2"
abbreviation (input) AF_INET6 :: u16 where "AF_INET6 \<equiv> 10"
abbreviation (input) sizeof_sockaddr :: nat where "sizeof_sockaddr \<equiv> 16"
abbreviation (input) sizeof_sockaddr_in :: nat where "sizeof_sockaddr_in \<equiv> 16"
abbreviation (input) sizeof_sockaddr_in6 :: nat where "sizeof_sockaddr_in6 \<equiv> 28"

datatype sockopt = SO_REUSEADDR | SO_ERROR | IP_TOS

datatype gai = EAI_AGAIN | EAI_NONAME | EAI_other int

record addrinfo =
  ai_family :: u16
  ai_addrlen :: nat
  ai_addr :: "byte list"

record 'h sock_calls =
  sys_socket :: "u16 \<Rightarrow> u8 \<Rightarrow> 'h \<Rightarrow> (errno + int) \<times> 'h"
  sys_setsockopt :: "int \<Rightarrow> sockopt \<Rightarrow> int \<Rightarrow> 'h \<Rightarrow> (errno + unit) \<times> 'h"
  sys_getsockopt :: "int \<Rightarrow> sockopt \<Rightarrow> 'h \<Rightarrow> (errno + int) \<times> 'h"
  sys_fcntl_getfl :: "int \<Rightarrow> 'h \<Rightarrow> (errno + u32) \<times> 'h"
  sys_fcntl_setfl :: "int \<Rightarrow> u32 \<Rightarrow> 'h \<Rightarrow> (errno + unit) \<times> 'h"
  sys_bind :: "int \<Rightarrow> byte list \<Rightarrow> nat \<Rightarrow> 'h \<Rightarrow> (errno + unit) \<times> 'h"
  sys_listen :: "int \<Rightarrow> int \<Rightarrow> 'h \<Rightarrow> (errno + unit) \<times> 'h"
  sys_connect :: "int \<Rightarrow> byte list \<Rightarrow> nat \<Rightarrow> 'h \<Rightarrow> (errno + unit) \<times> 'h"
  sys_shutdown :: "int \<Rightarrow> int \<Rightarrow> 'h \<Rightarrow> (errno + unit) \<times> 'h"
  sys_accept :: "int \<Rightarrow> nat \<Rightarrow> 'h \<Rightarrow> (errno + int \<times> byte list \<times> nat) \<times> 'h"
  sys_recvfrom :: "int \<Rightarrow> nat \<Rightarrow> bool \<Rightarrow> nat \<Rightarrow> 'h \<Rightarrow> (errno + byte list \<times> byte list \<times> nat) \<times> 'h"
  sys_sendto :: "int \<Rightarrow> byte list \<Rightarrow> nat \<Rightarrow> byte list \<Rightarrow> nat \<Rightarrow> 'h \<Rightarrow> (errno + nat) \<times> 'h"
  sys_getnameinfo :: "byte list \<Rightarrow> nat \<Rightarrow> nat \<Rightarrow> gai + string"
  sys_getaddrinfo :: "string \<Rightarrow> gai + addrinfo list"
  sys_inet_ntop :: "u16 \<Rightarrow> byte list \<Rightarrow> nat \<Rightarrow> string option"
  sys_inet_pton :: "u16 \<Rightarrow> string \<Rightarrow> byte list option"

definition load16 :: "byte list \<Rightarrow> nat \<Rightarrow> u16" where
  "load16 bs j = ucast (bs ! j) OR push_bit 8 (ucast (bs ! Suc j))"

definition store16 :: "nat \<Rightarrow> u16 \<Rightarrow> byte list \<Rightarrow> byte list" where
  "store16 j w bs = bs[j := ucast w, Suc j := ucast (drop_bit 8 w)]"

definition ntohs :: "u16 \<Rightarrow> u16" where
  "ntohs w = push_bit 8 w OR drop_bit 8 w"

abbreviation htons :: "u16 \<Rightarrow> u16" where "htons \<equiv> ntohs"

definition sa_family :: "OS_SockAddr \<Rightarrow> u16" where "sa_family Addr = load16 (AddrData Addr) 0"

text \<open>The switch over the address family that selects the length of the structure.\<close>

definition sockaddr_len :: "OS_SockAddr \<Rightarrow> nat" where
  "sockaddr_len Addr =
    (if sa_family Addr = AF_INET then sizeof_sockaddr_in else if sa_family Addr = AF_INET6 then sizeof_sockaddr_in6 else 0)"

subsection \<open>Addresses\<close>

definition bsd_SocketAddrInit :: "u8 \<Rightarrow> status \<times> OS_SockAddr" where
  "bsd_SocketAddrInit sdomain =
    (let zero = \<lparr>ActualLength = 0, AddrData = replicate OS_SOCKADDR_MAX_LEN 0\<rparr>;
         (family, addrlen) = (if sdomain = OS_SocketDomain_INET then (AF_INET, sizeof_sockaddr_in)
                              else if sdomain = OS_SocketDomain_INET6 then (AF_INET6, sizeof_sockaddr_in6) else (0, 0))
     in if addrlen = 0 then (OS_ERR_NOT_IMPLEMENTED, zero)
        else (OS_SUCCESS, \<lparr>ActualLength = addrlen, AddrData = store16 0 family (AddrData zero)\<rparr>))"

definition bsd_SocketAddrGetPort :: "OS_SockAddr \<Rightarrow> status \<times> u16 option" where
  "bsd_SocketAddrGetPort Addr =
    (if sa_family Addr = AF_INET \<or> sa_family Addr = AF_INET6
     then (OS_SUCCESS, Some (ntohs (load16 (AddrData Addr) 2)))
     else (OS_ERR_BAD_ADDRESS, None))"

definition bsd_SocketAddrSetPort :: "OS_SockAddr \<Rightarrow> u16 \<Rightarrow> status \<times> OS_SockAddr" where
  "bsd_SocketAddrSetPort Addr PortNum =
    (if sa_family Addr = AF_INET \<or> sa_family Addr = AF_INET6
     then (OS_SUCCESS, Addr\<lparr>AddrData := store16 2 (htons PortNum) (AddrData Addr)\<rparr>)
     else (OS_ERR_BAD_ADDRESS, Addr))"

definition addr_field :: "OS_SockAddr \<Rightarrow> (nat \<times> nat) option" where
  "addr_field Addr =
    (if sa_family Addr = AF_INET then Some (4, 4) else if sa_family Addr = AF_INET6 then Some (8, 16) else None)"

definition put_bytes :: "nat \<Rightarrow> byte list \<Rightarrow> byte list \<Rightarrow> byte list" where
  "put_bytes offset new bs = take offset bs @ new @ drop (offset + length new) bs"

definition bsd_SocketAddrToString :: "'h sock_calls \<Rightarrow> nat \<Rightarrow> OS_SockAddr \<Rightarrow> status \<times> string" where
  "bsd_SocketAddrToString c buflen Addr =
    (case addr_field Addr of
       None \<Rightarrow> (OS_ERR_BAD_ADDRESS, [])
     | Some _ \<Rightarrow>
         (case sys_getnameinfo c (AddrData Addr) (ActualLength Addr) buflen of
            Inr str \<Rightarrow> (OS_SUCCESS, str)
          | Inl e \<Rightarrow> (if e = EAI_AGAIN then OS_ERR_TRY_AGAIN else if e = EAI_NONAME then OS_ERR_EMPTY_SET else OS_ERROR, [])))"

fun pick_address :: "OS_SockAddr \<Rightarrow> nat \<Rightarrow> nat \<Rightarrow> addrinfo list \<Rightarrow> status \<times> OS_SockAddr" where
  "pick_address Addr addr_offset addr_len [] = (OS_ERR_EMPTY_SET, Addr)"
| "pick_address Addr addr_offset addr_len (rp # res) =
    (if ai_family rp = sa_family Addr \<and> ai_addrlen rp \<ge> sizeof_sockaddr
     then (OS_SUCCESS, \<lparr>ActualLength = ai_addrlen rp,
             AddrData = put_bytes addr_offset (take addr_len (drop addr_offset (ai_addr rp))) (AddrData Addr)\<rparr>)
     else pick_address Addr addr_offset addr_len res)"

definition bsd_SocketAddrFromString :: "'h sock_calls \<Rightarrow> OS_SockAddr \<Rightarrow> string \<Rightarrow> status \<times> OS_SockAddr" where
  "bsd_SocketAddrFromString c Addr str =
    (case addr_field Addr of
       None \<Rightarrow> (OS_ERR_BAD_ADDRESS, Addr)
     | Some (addr_offset, addr_len) \<Rightarrow>
         (case sys_getaddrinfo c str of
            Inr res \<Rightarrow> pick_address Addr addr_offset addr_len res
          | Inl e \<Rightarrow> (if e = EAI_AGAIN then OS_ERR_TRY_AGAIN else if e \<noteq> EAI_NONAME then OS_ERROR else OS_ERR_EMPTY_SET, Addr)))"

definition bsd_nodns_SocketAddrToString :: "'h sock_calls \<Rightarrow> nat \<Rightarrow> OS_SockAddr \<Rightarrow> status \<times> string" where
  "bsd_nodns_SocketAddrToString c buflen Addr =
    (case addr_field Addr of
       None \<Rightarrow> (OS_ERR_BAD_ADDRESS, [])
     | Some (addr_offset, addr_len) \<Rightarrow>
         (case sys_inet_ntop c (sa_family Addr) (take addr_len (drop addr_offset (AddrData Addr))) buflen of
            None \<Rightarrow> (OS_ERROR, [])
          | Some str \<Rightarrow> (OS_SUCCESS, str)))"

definition bsd_nodns_SocketAddrFromString :: "'h sock_calls \<Rightarrow> OS_SockAddr \<Rightarrow> string \<Rightarrow> status \<times> OS_SockAddr" where
  "bsd_nodns_SocketAddrFromString c Addr str =
    (case addr_field Addr of
       None \<Rightarrow> (OS_ERR_BAD_ADDRESS, Addr)
     | Some (addr_offset, addr_len) \<Rightarrow>
         (case sys_inet_pton c (sa_family Addr) str of
            None \<Rightarrow> (OS_ERROR, Addr)
          | Some new \<Rightarrow> (OS_SUCCESS, Addr\<lparr>AddrData := put_bytes addr_offset new (AddrData Addr)\<rparr>)))"

subsection \<open>Options\<close>

definition OS_IMPL_SOCKET_FLAGS :: u32 where "OS_IMPL_SOCKET_FLAGS = O_NONBLOCK"

definition OS_SetSocketDefaultFlags_Impl :: "'h sock_calls \<Rightarrow> OS_object_token \<Rightarrow> 'h posix_io \<Rightarrow> 'h posix_io" where
  "OS_SetSocketDefaultFlags_Impl c token a =
    (let n = file_fd (filehandle token a);
         a2 = (case on_host (sys_fcntl_getfl c n) a of
                 (Inl e, a1) \<Rightarrow> a1
               | (Inr os_flags, a1) \<Rightarrow> snd (on_host (sys_fcntl_setfl c n (os_flags OR OS_IMPL_SOCKET_FLAGS)) a1))
     in upd_filehandle (unat (obj_idx token)) (\<lambda>fh. fh\<lparr>file_selectable := True\<rparr>) a2)"

definition OS_SocketGetDSCP_Impl :: "'h sock_calls \<Rightarrow> OS_object_token \<Rightarrow> int \<Rightarrow> 'h posix_io \<Rightarrow> status \<times> int \<times> 'h posix_io" where
  "OS_SocketGetDSCP_Impl c token optval a =
    (case on_host (sys_getsockopt c (file_fd (filehandle token a)) IP_TOS) a of
       (Inl e, a1) \<Rightarrow> (OS_ERROR, optval, a1)
     | (Inr os_flags, a1) \<Rightarrow> (OS_SUCCESS, drop_bit 2 os_flags AND 0x3F, a1))"

definition OS_SocketSetDSCP_Impl :: "'h sock_calls \<Rightarrow> OS_object_token \<Rightarrow> int \<Rightarrow> 'h posix_io \<Rightarrow> status \<times> 'h posix_io" where
  "OS_SocketSetDSCP_Impl c token optval a =
    (let n = file_fd (filehandle token a)
     in case on_host (sys_getsockopt c n IP_TOS) a of
          (Inl e, a1) \<Rightarrow> (OS_ERROR, a1)
        | (Inr os_flags, a1) \<Rightarrow>
            (case on_host (sys_setsockopt c n IP_TOS ((os_flags AND 3) OR (push_bit 2 optval AND 0xFC))) a1 of
               (Inl e, a2) \<Rightarrow> (OS_ERROR, a2)
             | (Inr _, a2) \<Rightarrow> (OS_SUCCESS, a2)))"

definition bsd_SocketGetOption :: "'h sock_calls \<Rightarrow> OS_object_token \<Rightarrow> int \<Rightarrow> int \<Rightarrow> 'h posix_io \<Rightarrow> status \<times> int \<times> 'h posix_io" where
  "bsd_SocketGetOption c token opt_id optval a =
    (if opt_id = OS_socket_option_UNDEFINED then (OS_SUCCESS, optval, a)
     else if opt_id = OS_socket_option_IP_DSCP then OS_SocketGetDSCP_Impl c token optval a
     else (OS_ERR_OPERATION_NOT_SUPPORTED, optval, a))"

definition bsd_SocketSetOption :: "'h sock_calls \<Rightarrow> OS_object_token \<Rightarrow> int \<Rightarrow> int \<Rightarrow> 'h posix_io \<Rightarrow> status \<times> 'h posix_io" where
  "bsd_SocketSetOption c token opt_id optval a =
    (if opt_id = OS_socket_option_UNDEFINED then (OS_SUCCESS, a)
     else if opt_id = OS_socket_option_IP_DSCP then OS_SocketSetDSCP_Impl c token optval a
     else (OS_ERR_OPERATION_NOT_SUPPORTED, a))"

subsection \<open>Operations\<close>

definition bsd_SocketOpen :: "'h sock_calls \<Rightarrow> OS_object_token \<Rightarrow> 'h posix_io os_state \<Rightarrow> status \<times> 'h posix_io" where
  "bsd_SocketOpen c token s =
    (let stream = OS_stream_table s (unat (obj_idx token)); a = impl s
     in if socket_type stream \<noteq> OS_SocketType_DATAGRAM \<and> socket_type stream \<noteq> OS_SocketType_STREAM
        then (OS_ERR_NOT_IMPLEMENTED, a)
        else if socket_domain stream \<noteq> OS_SocketDomain_INET \<and> socket_domain stream \<noteq> OS_SocketDomain_INET6
        then (OS_ERR_NOT_IMPLEMENTED, a)
        else
          case on_host (sys_socket c (if socket_domain stream = OS_SocketDomain_INET then AF_INET else AF_INET6)
                          (socket_type stream)) a of
            (Inl e, a1) \<Rightarrow> (OS_ERROR, upd_filehandle (unat (obj_idx token)) (\<lambda>fh. fh\<lparr>file_fd := - 1\<rparr>) a1)
          | (Inr n, a1) \<Rightarrow>
              let a2 = upd_filehandle (unat (obj_idx token)) (\<lambda>fh. fh\<lparr>file_fd := n\<rparr>) a1;
                  a3 = snd (on_host (sys_setsockopt c n SO_REUSEADDR 1) a2)
              in (OS_SUCCESS, OS_SetSocketDefaultFlags_Impl c token a3))"

definition bsd_SocketBindAddress :: "'h sock_calls \<Rightarrow> OS_object_token \<Rightarrow> OS_SockAddr \<Rightarrow> 'h posix_io \<Rightarrow> status \<times> 'h posix_io" where
  "bsd_SocketBindAddress c token Addr a =
    (if sockaddr_len Addr = 0 then (OS_ERR_BAD_ADDRESS, a)
     else
       case on_host (sys_bind c (file_fd (filehandle token a)) (AddrData Addr) (sockaddr_len Addr)) a of
         (Inl e, a1) \<Rightarrow> (OS_ERROR, a1)
       | (Inr _, a1) \<Rightarrow> (OS_SUCCESS, a1))"

definition bsd_SocketListen :: "'h sock_calls \<Rightarrow> OS_object_token \<Rightarrow> 'h posix_io \<Rightarrow> status \<times> 'h posix_io" where
  "bsd_SocketListen c token a =
    (case on_host (sys_listen c (file_fd (filehandle token a)) 10) a of
       (Inl e, a1) \<Rightarrow> (OS_ERROR, a1)
     | (Inr _, a1) \<Rightarrow> (OS_SUCCESS, a1))"

definition connect_pending ::
    "'h io_calls \<Rightarrow> 'h sock_calls \<Rightarrow> 'h posix_io posix_clock \<Rightarrow> OS_object_token \<Rightarrow> OS_time \<Rightarrow> 'h posix_io os_state
      \<Rightarrow> (status \<times> 'h posix_io os_state) option" where
  "connect_pending io c clk token abs_timeout s =
     Option.bind (wait_ready io clk token OS_STREAM_STATE_WRITABLE abs_timeout s)
       (\<lambda>(return_code, operation, s1).
          if return_code = OS_SUCCESS then
            (if operation AND OS_STREAM_STATE_WRITABLE = 0 then Some (OS_ERROR_TIMEOUT, s1)
             else
               case on_host (sys_getsockopt c (file_fd (filehandle token (impl s1))) SO_ERROR) (impl s1) of
                 (Inl e, a) \<Rightarrow> Some (OS_ERROR, s1\<lparr>impl := a\<rparr>)
               | (Inr v, a) \<Rightarrow> Some (if v \<noteq> 0 then OS_ERROR else OS_SUCCESS, s1\<lparr>impl := a\<rparr>))
          else Some (return_code, s1))"

definition bsd_SocketConnect ::
    "'h io_calls \<Rightarrow> 'h sock_calls \<Rightarrow> 'h posix_io posix_clock \<Rightarrow> OS_object_token \<Rightarrow> OS_SockAddr \<Rightarrow> OS_time \<Rightarrow> 'h posix_io os_state
      \<Rightarrow> (status \<times> 'h posix_io os_state) option" where
  "bsd_SocketConnect io c clk token Addr abs_timeout s =
    (if sockaddr_len Addr \<noteq> ActualLength Addr then Some (OS_ERR_BAD_ADDRESS, s)
     else
       case on_host (sys_connect c (file_fd (filehandle token (impl s))) (AddrData Addr) (sockaddr_len Addr)) (impl s) of
         (Inr _, a) \<Rightarrow> Some (OS_SUCCESS, s\<lparr>impl := a\<rparr>)
       | (Inl e, a) \<Rightarrow>
           (if e \<noteq> EINPROGRESS then Some (OS_ERROR, s\<lparr>impl := a\<rparr>)
            else connect_pending io c clk token abs_timeout (s\<lparr>impl := a\<rparr>)))"

definition bsd_SocketShutdown :: "'h sock_calls \<Rightarrow> OS_object_token \<Rightarrow> u32 \<Rightarrow> 'h posix_io \<Rightarrow> status \<times> 'h posix_io" where
  "bsd_SocketShutdown c token Mode a =
    (let how = (if Mode = OS_SocketShutdownMode_SHUT_READ then 0 else if Mode = OS_SocketShutdownMode_SHUT_WRITE then 1 else 2)
     in case on_host (sys_shutdown c (file_fd (filehandle token a)) how) a of
          (Inr _, a1) \<Rightarrow> (OS_SUCCESS, a1)
        | (Inl e, a1) \<Rightarrow> (OS_ERROR, a1))"

definition bsd_SocketAccept ::
    "'h io_calls \<Rightarrow> 'h sock_calls \<Rightarrow> 'h posix_io posix_clock \<Rightarrow> OS_object_token \<Rightarrow> OS_object_token \<Rightarrow> OS_SockAddr \<Rightarrow> OS_time
      \<Rightarrow> 'h posix_io os_state \<Rightarrow> (status \<times> OS_SockAddr \<times> 'h posix_io os_state) option" where
  "bsd_SocketAccept io c clk sock_token conn_token Addr abs_timeout s =
     Option.bind (wait_ready io clk sock_token OS_STREAM_STATE_READABLE abs_timeout s)
       (\<lambda>(return_code, operation, s1).
          if return_code = OS_SUCCESS then
            (if operation AND OS_STREAM_STATE_READABLE = 0 then Some (OS_ERROR_TIMEOUT, Addr, s1)
             else
               case on_host (sys_accept c (file_fd (filehandle sock_token (impl s1))) (ActualLength Addr)) (impl s1) of
                 (Inl e, a) \<Rightarrow>
                   Some (OS_ERROR, Addr, s1\<lparr>impl := upd_filehandle (unat (obj_idx conn_token)) (\<lambda>fh. fh\<lparr>file_fd := - 1\<rparr>) a\<rparr>)
               | (Inr (n, data, addrlen), a) \<Rightarrow>
                   Some (OS_SUCCESS, \<lparr>ActualLength = addrlen, AddrData = put_bytes 0 data (AddrData Addr)\<rparr>,
                     s1\<lparr>impl := OS_SetSocketDefaultFlags_Impl c conn_token
                          (upd_filehandle (unat (obj_idx conn_token)) (\<lambda>fh. fh\<lparr>file_fd := n\<rparr>) a)\<rparr>))
          else Some (return_code, Addr, s1))"

definition recv_ready ::
    "'h io_calls \<Rightarrow> OS_time \<Rightarrow> 'h posix_io posix_clock \<Rightarrow> OS_object_token \<Rightarrow> OS_time \<Rightarrow> 'h posix_io os_state
      \<Rightarrow> (status \<times> u32 \<times> bool \<times> 'h posix_io os_state) option" where
  "recv_ready io g clk token abs_timeout s =
    (if file_selectable (filehandle token (impl s))
     then Option.bind (posix_SelectSingle io clk token OS_STREAM_STATE_READABLE abs_timeout s)
            (\<lambda>(return_code, operation, s1). Some (return_code, operation, True, s1))
     else (case OS_TimeToRelativeMilliseconds g clk abs_timeout s of
             (msec, s1) \<Rightarrow> Some (OS_SUCCESS, OS_STREAM_STATE_READABLE, msec = OS_CHECK, s1)))"

definition bsd_SocketRecvFrom ::
    "'h io_calls \<Rightarrow> 'h sock_calls \<Rightarrow> OS_time \<Rightarrow> 'h posix_io posix_clock \<Rightarrow> OS_object_token \<Rightarrow> nat \<Rightarrow> OS_SockAddr option \<Rightarrow> OS_time
      \<Rightarrow> 'h posix_io os_state \<Rightarrow> (status \<times> byte list \<times> OS_SockAddr option \<times> 'h posix_io os_state) option" where
  "bsd_SocketRecvFrom io c g clk token buflen RemoteAddr abs_timeout s =
     Option.bind (recv_ready io g clk token abs_timeout s)
       (\<lambda>(return_code, operation, dontwait, s1).
          if return_code = OS_SUCCESS then
            (if operation AND OS_STREAM_STATE_READABLE = 0 then Some (OS_ERROR_TIMEOUT, [], RemoteAddr, s1)
             else
               case on_host (sys_recvfrom c (file_fd (filehandle token (impl s1))) buflen dontwait
                      (if RemoteAddr = None then 0 else OS_SOCKADDR_MAX_LEN)) (impl s1) of
                 (Inl e, a) \<Rightarrow> Some (if e = EAGAIN then OS_QUEUE_EMPTY else OS_ERROR, [], RemoteAddr, s1\<lparr>impl := a\<rparr>)
               | (Inr (bytes, data, addrlen), a) \<Rightarrow>
                   Some (int32 (int (length bytes)), bytes,
                     map_option (\<lambda>addr. \<lparr>ActualLength = addrlen, AddrData = put_bytes 0 data (AddrData addr)\<rparr>) RemoteAddr,
                     s1\<lparr>impl := a\<rparr>))
          else Some (return_code, [], RemoteAddr, s1))"

definition bsd_SocketSendTo ::
    "'h sock_calls \<Rightarrow> OS_object_token \<Rightarrow> byte list \<Rightarrow> nat \<Rightarrow> OS_SockAddr \<Rightarrow> 'h posix_io \<Rightarrow> status \<times> 'h posix_io" where
  "bsd_SocketSendTo c token buffer buflen RemoteAddr a =
    (if sockaddr_len RemoteAddr \<noteq> ActualLength RemoteAddr then (OS_ERR_BAD_ADDRESS, a)
     else
       case on_host (sys_sendto c (file_fd (filehandle token a)) buffer buflen (AddrData RemoteAddr) (sockaddr_len RemoteAddr)) a of
         (Inl e, a1) \<Rightarrow> (OS_ERROR, a1)
       | (Inr n, a1) \<Rightarrow> (int32 (int n), a1))"

definition bsd_SocketGetInfo :: "OS_object_token \<Rightarrow> OS_socket_prop \<Rightarrow> 'i os_state \<Rightarrow> status \<times> OS_socket_prop" where
  "bsd_SocketGetInfo token sock_prop s = (OS_SUCCESS, sock_prop)"

subsection \<open>Ports and addresses\<close>

lemma load_store_16:
  "Suc j < length bs \<Longrightarrow> load16 (store16 j w bs) j = w"
  by (rule bit_word_eqI) (auto simp: load16_def store16_def bit_simps)

lemma load_store_16_other: "Suc k < j \<or> Suc j < k \<Longrightarrow> load16 (store16 j w bs) k = load16 bs k"
  by (auto simp: load16_def store16_def)

lemma ntohs_htons: "ntohs (htons w) = w"
  by (rule bit_word_eqI) (auto simp: ntohs_def bit_simps)

lemma htons_bytes: "ucast (htons w) = (ucast (drop_bit 8 w) :: byte)" "ucast (drop_bit 8 (htons w)) = (ucast w :: byte)"
  by (rule bit_word_eqI; auto simp: ntohs_def bit_simps)+

lemma store16_bytes:
  assumes "Suc j < length bs"
  shows "store16 j w bs ! j = ucast w" "store16 j w bs ! Suc j = ucast (drop_bit 8 w)"
  using assms by (simp_all add: store16_def)

lemma store16_frame: "k \<noteq> j \<Longrightarrow> k \<noteq> Suc j \<Longrightarrow> store16 j w bs ! k = bs ! k" "length (store16 j w bs) = length bs"
  by (simp_all add: store16_def)

lemma AddrInit_family:
  assumes "bsd_SocketAddrInit d = (OS_SUCCESS, Addr)"
  shows "length (AddrData Addr) = OS_SOCKADDR_MAX_LEN" "sa_family Addr = AF_INET \<or> sa_family Addr = AF_INET6"
    "ActualLength Addr = sockaddr_len Addr"
proof -
  have "sa_family \<lparr>ActualLength = n, AddrData = store16 0 w (replicate OS_SOCKADDR_MAX_LEN 0)\<rparr> = w" for n w
    unfolding sa_family_def by (simp add: load_store_16 OS_SOCKADDR_MAX_LEN_def)
  with assms show "length (AddrData Addr) = OS_SOCKADDR_MAX_LEN" "sa_family Addr = AF_INET \<or> sa_family Addr = AF_INET6"
    "ActualLength Addr = sockaddr_len Addr"
    by (auto simp: bsd_SocketAddrInit_def store16_frame sockaddr_len_def Let_def split: if_splits)
qed



subsection \<open>Differentiated services\<close>

lemma dscp_bits:
  "drop_bit 2 ((x AND 3) OR (push_bit 2 v AND 0xFC)) AND 0x3F = v mod 64"
  "(x AND 3) OR (push_bit 2 v AND 0xFC) = 4 * (v mod 64) + x mod 4" for x v :: int
proof -
  have m: "w AND 3 = take_bit 2 w" "w AND 0x3F = take_bit 6 w" "w AND 0xFC = push_bit 2 (take_bit 6 (drop_bit 2 w))" for w :: int
  proof -
    show "w AND 3 = take_bit 2 w" "w AND 0x3F = take_bit 6 w" by (simp_all add: take_bit_eq_mask mask_eq_exp_minus_1)
    have fc: "(0xFC :: int) = push_bit 2 (mask 6)" by (simp add: mask_eq_exp_minus_1)
    have "bit (w AND 0xFC) n = bit (push_bit 2 (take_bit 6 (drop_bit 2 w))) n" for n
    proof (cases "n < 2")
      case False
      then obtain m where "n = m + 2" using le_Suc_ex[of 2 n] by (auto simp: add.commute)
      then show ?thesis unfolding fc by (auto simp: bit_and_iff bit_push_bit_iff bit_mask_iff bit_take_bit_iff bit_drop_bit_eq)
    qed (unfold fc, simp add: bit_and_iff bit_push_bit_iff)
    then show "w AND 0xFC = push_bit 2 (take_bit 6 (drop_bit 2 w))" by (simp add: bit_eq_iff)
  qed
  have disj: "take_bit 2 x OR push_bit 2 y = take_bit 2 x + push_bit 2 y" for y :: int
    by (rule disjunctive_add[symmetric]) (auto simp: bit_simps)
  show sum: "(x AND 3) OR (push_bit 2 v AND 0xFC) = 4 * (v mod 64) + x mod 4"
    by (simp add: m disj) (simp add: push_bit_eq_mult drop_bit_eq_div take_bit_eq_mod)
  show "drop_bit 2 ((x AND 3) OR (push_bit 2 v AND 0xFC)) AND 0x3F = v mod 64"
    unfolding sum by (simp add: m(2) drop_bit_eq_div take_bit_eq_mod)
qed

text \<open>Setting the DSCP of a socket and reading it back gives the low six bits of the value, when the
  host reads back the type-of-service option it was given; the two congestion bits of the option
  are kept.\<close>
theorem bsd_SocketOption_DSCP:
  assumes set: "\<forall>n v h. \<exists>h'. sys_setsockopt c n IP_TOS v h = (Inr (), h')
      \<and> (\<exists>h''. sys_getsockopt c n IP_TOS h' = (Inr v, h''))"
    and get: "sys_getsockopt c (file_fd (filehandle token a)) IP_TOS (host a) = (Inr tos, h)"
  shows "\<exists>a' h'. bsd_SocketSetOption c token OS_socket_option_IP_DSCP v a = (OS_SUCCESS, a')
     \<and> fst (bsd_SocketGetOption c token OS_socket_option_IP_DSCP w a') = OS_SUCCESS
     \<and> fst (snd (bsd_SocketGetOption c token OS_socket_option_IP_DSCP w a')) = v mod 64
     \<and> sys_getsockopt c (file_fd (filehandle token a')) IP_TOS (host a') = (Inr (4 * (v mod 64) + tos mod 4), h')"
proof -
  let ?n = "file_fd (filehandle token a)" and ?v = "(tos AND 3) OR (push_bit 2 v AND 0xFC)"
  from set obtain h' h'' where h': "sys_setsockopt c ?n IP_TOS ?v h = (Inr (), h')"
    and h'': "sys_getsockopt c ?n IP_TOS h' = (Inr ?v, h'')" by meson
  have bits: "drop_bit 2 ?v AND 0x3F = v mod 64" "?v = 4 * (v mod 64) + tos mod 4"
    using dscp_bits[of tos v] by (simp_all only:)
  show ?thesis
    using get h' h'' bits
    by (simp add: bsd_SocketSetOption_def bsd_SocketGetOption_def OS_SocketSetDSCP_Impl_def OS_SocketGetDSCP_Impl_def
          on_host_def Let_def)
qed

definition example_sockets :: "int sock_calls" where
  "example_sockets =
    \<lparr>sys_socket = (\<lambda>_ _ h. (Inr 3, h)), sys_setsockopt = (\<lambda>_ _ v _. (Inr (), v)), sys_getsockopt = (\<lambda>_ _ h. (Inr h, h)),
     sys_fcntl_getfl = (\<lambda>_ h. (Inr 0, h)), sys_fcntl_setfl = (\<lambda>_ _ h. (Inr (), h)), sys_bind = (\<lambda>_ _ _ h. (Inr (), h)),
     sys_listen = (\<lambda>_ _ h. (Inr (), h)), sys_connect = (\<lambda>_ _ _ h. (Inr (), h)), sys_shutdown = (\<lambda>_ _ h. (Inr (), h)),
     sys_accept = (\<lambda>_ _ h. (Inl EAGAIN, h)), sys_recvfrom = (\<lambda>_ _ _ _ h. (Inl EAGAIN, h)),
     sys_sendto = (\<lambda>_ _ n _ _ h. (Inr n, h)), sys_getnameinfo = (\<lambda>_ _ _. Inl EAI_NONAME), sys_getaddrinfo = (\<lambda>_. Inl EAI_NONAME),
     sys_inet_ntop = (\<lambda>_ _ _. None), sys_inet_pton = (\<lambda>_ _. None)\<rparr>"

theorem bsd_SocketOption_DSCP_witness:
  "let a = \<lparr>OS_impl_filehandle_table = (\<lambda>_. \<lparr>file_fd = 3, file_selectable = True\<rparr>), OS_impl_dir_table = (\<lambda>_. None),
            OS_IMPL_SELF_EUID = 0, OS_IMPL_SELF_EGID = 0, host = 2\<rparr>
   in \<exists>a'. bsd_SocketSetOption example_sockets zero_token OS_socket_option_IP_DSCP 46 a = (OS_SUCCESS, a') \<and> host a' = 186
       \<and> fst (snd (bsd_SocketGetOption example_sockets zero_token OS_socket_option_IP_DSCP 0 a')) = 46"
proof -
  let ?a = "\<lparr>OS_impl_filehandle_table = (\<lambda>_. \<lparr>file_fd = 3, file_selectable = True\<rparr>), OS_impl_dir_table = (\<lambda>_. None),
            OS_IMPL_SELF_EUID = 0, OS_IMPL_SELF_EGID = 0, host = 2\<rparr> :: int posix_io"
  have "\<forall>n v h. \<exists>h'. sys_setsockopt example_sockets n IP_TOS v h = (Inr (), h')
      \<and> (\<exists>h''. sys_getsockopt example_sockets n IP_TOS h' = (Inr v, h''))" by (simp add: example_sockets_def)
  from bsd_SocketOption_DSCP[OF this, where token = zero_token and a = ?a and tos = 2 and v = 46 and w = 0 and h = 2]
  show ?thesis by (auto simp: example_sockets_def Let_def)
qed

end
