(* ===== verification/Services.thy ===== *)
theory Services
  imports Bsd_Sockets
begin

text \<open>
  The small services of the library: error names (\<^verbatim>\<open>osapi-errors.c\<close>), debug output
  (\<^verbatim>\<open>osapi-debug.c\<close>), version (\<^verbatim>\<open>osapi-version.c\<close>), heap (\<^verbatim>\<open>osapi-heap.c\<close>), network identity
  (\<^verbatim>\<open>osapi-network.c\<close>) and shell commands (\<^verbatim>\<open>osapi-shell.c\<close>) under \<^verbatim>\<open>src/src/os/shared/src\<close>, with
  their POSIX implementations.
\<close>

subsection \<open>Error names\<close>

definition OS_ERROR_NAME_LENGTH :: nat where "OS_ERROR_NAME_LENGTH = 35"
definition OS_STATUS_STRING_LENGTH :: nat where "OS_STATUS_STRING_LENGTH = 12"

definition OS_GLOBAL_ERROR_NAME_TABLE :: "(status \<times> string) list" where
  "OS_GLOBAL_ERROR_NAME_TABLE =
    [(OS_SUCCESS, ''OS_SUCCESS''),
     (OS_ERROR, ''OS_ERROR''),
     (OS_INVALID_POINTER, ''OS_INVALID_POINTER''),
     (OS_ERROR_ADDRESS_MISALIGNED, ''OS_ERROR_ADDRESS_MISALIGNED''),
     (OS_ERROR_TIMEOUT, ''OS_ERROR_TIMEOUT''),
     (OS_INVALID_INT_NUM, ''OS_INVALID_INT_NUM''),
     (OS_SEM_FAILURE, ''OS_SEM_FAILURE''),
     (OS_SEM_TIMEOUT, ''OS_SEM_TIMEOUT''),
     (OS_QUEUE_EMPTY, ''OS_QUEUE_EMPTY''),
     (OS_QUEUE_FULL, ''OS_QUEUE_FULL''),
     (OS_QUEUE_TIMEOUT, ''OS_QUEUE_TIMEOUT''),
     (OS_QUEUE_INVALID_SIZE, ''OS_QUEUE_INVALID_SIZE''),
     (OS_QUEUE_ID_ERROR, ''OS_QUEUE_ID_ERROR''),
     (OS_ERR_NAME_TOO_LONG, ''OS_ERR_NAME_TOO_LONG''),
     (OS_ERR_NO_FREE_IDS, ''OS_ERR_NO_FREE_IDS''),
     (OS_ERR_NAME_TAKEN, ''OS_ERR_NAME_TAKEN''),
     (OS_ERR_INVALID_ID, ''OS_ERR_INVALID_ID''),
     (OS_ERR_NAME_NOT_FOUND, ''OS_ERR_NAME_NOT_FOUND''),
     (OS_ERR_SEM_NOT_FULL, ''OS_ERR_SEM_NOT_FULL''),
     (OS_ERR_INVALID_PRIORITY, ''OS_ERR_INVALID_PRIORITY''),
     (OS_INVALID_SEM_VALUE, ''OS_INVALID_SEM_VALUE''),
     (OS_ERR_FILE, ''OS_ERR_FILE''),
     (OS_ERR_NOT_IMPLEMENTED, ''OS_ERR_NOT_IMPLEMENTED''),
     (OS_TIMER_ERR_INVALID_ARGS, ''OS_TIMER_ERR_INVALID_ARGS''),
     (OS_TIMER_ERR_TIMER_ID, ''OS_TIMER_ERR_TIMER_ID''),
     (OS_TIMER_ERR_UNAVAILABLE, ''OS_TIMER_ERR_UNAVAILABLE''),
     (OS_TIMER_ERR_INTERNAL, ''OS_TIMER_ERR_INTERNAL''),
     (OS_ERR_OBJECT_IN_USE, ''OS_ERR_OBJECT_IN_USE''),
     (OS_ERR_BAD_ADDRESS, ''OS_ERR_BAD_ADDRESS''),
     (OS_ERR_INCORRECT_OBJ_STATE, ''OS_ERR_INCORRECT_OBJ_STATE''),
     (OS_ERR_INCORRECT_OBJ_TYPE, ''OS_ERR_INCORRECT_OBJ_TYPE''),
     (OS_ERR_STREAM_DISCONNECTED, ''OS_ERR_STREAM_DISCONNECTED''),
     (OS_ERR_OPERATION_NOT_SUPPORTED, ''OS_ERR_OPERATION_NOT_SUPPORTED''),
     (OS_ERR_INVALID_SIZE, ''OS_ERR_INVALID_SIZE''),
     (OS_ERR_OUTPUT_TOO_LARGE, ''OS_ERR_OUTPUT_TOO_LARGE''),
     (OS_ERR_INVALID_ARGUMENT, ''OS_ERR_INVALID_ARGUMENT''),
     (OS_FS_ERR_PATH_TOO_LONG, ''OS_FS_ERR_PATH_TOO_LONG''),
     (OS_FS_ERR_NAME_TOO_LONG, ''OS_FS_ERR_NAME_TOO_LONG''),
     (OS_FS_ERR_DRIVE_NOT_CREATED, ''OS_FS_ERR_DRIVE_NOT_CREATED''),
     (OS_FS_ERR_DEVICE_NOT_FREE, ''OS_FS_ERR_DEVICE_NOT_FREE''),
     (OS_FS_ERR_PATH_INVALID, ''OS_FS_ERR_PATH_INVALID'')]"

definition OS_IMPL_ERROR_NAME_TABLE :: "(status \<times> string) list" where
  "OS_IMPL_ERROR_NAME_TABLE = []"

text \<open>The entry at which the search stops; the end marker has the number 0 and no name.\<close>

fun ErrorName_search :: "status \<Rightarrow> (status \<times> string) list \<Rightarrow> status \<times> string option" where
  "ErrorName_search error_num [] = (0, None)"
| "ErrorName_search error_num ((Number, Name) # rest) =
    (if Number \<noteq> error_num then ErrorName_search error_num rest else (Number, Some Name))"

definition print_int :: "int \<Rightarrow> string" where
  "print_int n = (if n < 0 then CHR ''-'' # decimal (nat (- n)) else decimal (nat n))"

definition OS_StatusToString :: "status \<Rightarrow> bool \<Rightarrow> string option" where
  "OS_StatusToString st has_buffer = (if has_buffer then Some (take (OS_STATUS_STRING_LENGTH - 1) (print_int st)) else None)"

definition OS_GetErrorName :: "(status \<times> string) list \<Rightarrow> status \<Rightarrow> bool \<Rightarrow> status \<times> string option" where
  "OS_GetErrorName impl_table error_num has_buffer =
    (if \<not> has_buffer then (OS_INVALID_POINTER, None)
     else
       let Error = ErrorName_search error_num OS_GLOBAL_ERROR_NAME_TABLE;
           Error' = (if fst Error \<noteq> error_num then ErrorName_search error_num impl_table else Error)
       in case Error' of
            (Number, Name) \<Rightarrow>
              (if Number = error_num \<and> Name \<noteq> None then (OS_SUCCESS, Some (take (OS_ERROR_NAME_LENGTH - 1) (the Name)))
               else (OS_ERROR, Some (take (OS_ERROR_NAME_LENGTH - 1) (''OS_UNKNOWN('' @ print_int error_num @ '')'')))))"

subsection \<open>Debug output, version and heap\<close>

definition OS_DEBUG_MAX_LINE_LEN :: nat where "OS_DEBUG_MAX_LINE_LEN = 132"

text \<open>The lines written to the board's console; the message is given as formatted.\<close>

definition OS_DebugPrintf :: "u32 \<Rightarrow> u32 \<Rightarrow> string \<Rightarrow> u32 \<Rightarrow> string \<Rightarrow> string list \<Rightarrow> string list" where
  "OS_DebugPrintf DebugLevel Level fn ln msg console =
    (if DebugLevel \<ge> Level
     then console @ [take (OS_DEBUG_MAX_LINE_LEN - 1) (fn @ ''():'' @ decimal (unat ln) @ '':''), take (OS_DEBUG_MAX_LINE_LEN - 1) msg]
     else console)"

definition OS_GetVersionString :: string where "OS_GetVersionString = ''v7.0.0'' @ ''+dev'' @ ''0''"
definition OS_GetVersionCodeName :: string where "OS_GetVersionCodeName = ''Draco''"
definition OS_GetVersionNumber :: "u8 list" where "OS_GetVersionNumber = [7, 0, 0, 0]"
definition OS_GetBuildNumber :: u32 where "OS_GetBuildNumber = 0"

record OS_heap_prop =
  free_bytes :: nat
  free_blocks :: nat
  largest_free_block :: nat

definition posix_HeapGetInfo :: "OS_heap_prop \<Rightarrow> status \<times> OS_heap_prop" where
  "posix_HeapGetInfo prop = (OS_ERR_NOT_IMPLEMENTED, prop)"

definition OS_HeapGetInfo :: "(OS_heap_prop \<Rightarrow> status \<times> OS_heap_prop) \<Rightarrow> OS_heap_prop option \<Rightarrow> status \<times> OS_heap_prop option" where
  "OS_HeapGetInfo get prop =
    (case prop of None \<Rightarrow> (OS_INVALID_POINTER, None) | Some p \<Rightarrow> (case get p of (st, p') \<Rightarrow> (st, Some p')))"

subsection \<open>Network identity\<close>

text \<open>The name is \<open>None\<close> where the buffer of the caller is not written.\<close>

record 'h network_impl =
  OS_NetworkGetHostName_Impl :: "nat \<Rightarrow> 'h \<Rightarrow> status \<times> string option"
  OS_NetworkGetID_Impl :: "'h \<Rightarrow> status \<times> int option"

definition OS_NetworkAPI_Init :: status where "OS_NetworkAPI_Init = OS_SUCCESS"

definition OS_NetworkGetHostName :: "'h network_impl \<Rightarrow> bool \<Rightarrow> nat \<Rightarrow> 'h \<Rightarrow> status \<times> string option" where
  "OS_NetworkGetHostName n has_buffer name_len h =
    (if \<not> has_buffer then (OS_INVALID_POINTER, None)
     else if \<not> OS_CHECK_SIZE name_len then (OS_ERR_INVALID_SIZE, None)
     else case OS_NetworkGetHostName_Impl n name_len h of
            (return_code, host_name) \<Rightarrow> (return_code, if return_code \<noteq> OS_SUCCESS then Some [] else host_name))"

definition OS_NetworkGetID :: "'h network_impl \<Rightarrow> 'h \<Rightarrow> int" where
  "OS_NetworkGetID n h =
    (case OS_NetworkGetID_Impl n h of (st, IdBuf) \<Rightarrow> if st \<noteq> OS_SUCCESS then - 1 else the IdBuf)"

text \<open>The host gives the characters it puts into a buffer of the given size, or an error.\<close>

definition posix_NetworkGetHostName :: "(nat \<Rightarrow> 'h \<Rightarrow> errno + string) \<Rightarrow> nat \<Rightarrow> 'h \<Rightarrow> status \<times> string option" where
  "posix_NetworkGetHostName gethostname name_len h =
    (case gethostname name_len h of Inl e \<Rightarrow> (OS_ERROR, None) | Inr nm \<Rightarrow> (OS_SUCCESS, Some (take (name_len - 1) nm)))"

definition posix_NetworkGetID :: "('h \<Rightarrow> int) \<Rightarrow> 'h \<Rightarrow> status \<times> int option" where
  "posix_NetworkGetID gethostid h = (OS_SUCCESS, Some (gethostid h))"

definition no_NetworkGetHostName :: "nat \<Rightarrow> 'h \<Rightarrow> status \<times> string option" where
  "no_NetworkGetHostName name_len h = (OS_ERR_NOT_IMPLEMENTED, None)"

definition no_NetworkGetID :: "'h \<Rightarrow> status \<times> int option" where
  "no_NetworkGetID h = (OS_ERR_NOT_IMPLEMENTED, None)"

subsection \<open>Shell commands\<close>

definition OS_ShellOutputToFile ::
    "'i idmap_env \<Rightarrow> (OS_object_token \<Rightarrow> string \<Rightarrow> 'i os_state \<Rightarrow> status \<times> 'i) \<Rightarrow> string option \<Rightarrow> osal_id_t \<Rightarrow> 'i os_state
      \<Rightarrow> status \<times> 'i os_state" where
  "OS_ShellOutputToFile env shell Cmd filedes s =
    (case Cmd of
       None \<Rightarrow> (OS_INVALID_POINTER, s)
     | Some cmd \<Rightarrow>
         (case OS_ObjectIdGetById env OS_LOCK_MODE_REFCOUNT OS_OBJECT_TYPE_OS_STREAM filedes s of
            (return_code, token, s1) \<Rightarrow>
              (if return_code = OS_SUCCESS then
                 (case shell token cmd s1 of (st, a) \<Rightarrow> (st, snd (OS_ObjectIdRelease env token (s1\<lparr>impl := a\<rparr>))))
               else (return_code, s1))))"

text \<open>
  The host's part: the environment variable, the open descriptors of the process, which a child
  inherits, whether a child can be made, and what becomes of a child that runs the shell with the
  given descriptors. The outcome is \<open>None\<close> if waiting for the child fails, otherwise the exit
  status, which is \<open>None\<close> for a child that a signal ended.
\<close>

type_synonym descriptors = "int \<Rightarrow> nat option"

record 'h shell_calls =
  sys_getenv_shell :: "'h \<Rightarrow> string option"
  sys_descriptors :: "'h \<Rightarrow> descriptors"
  sys_fork :: "'h \<Rightarrow> bool"
  sys_run_shell :: "string \<Rightarrow> string \<Rightarrow> descriptors \<Rightarrow> 'h \<Rightarrow> int option option \<times> 'h"

definition dup2 :: "int \<Rightarrow> int \<Rightarrow> descriptors \<Rightarrow> descriptors" where
  "dup2 oldfd newfd t = (if t oldfd = None then t else t(newfd := t oldfd))"

definition child_descriptors :: "int \<Rightarrow> 'h posix_io os_state \<Rightarrow> descriptors \<Rightarrow> descriptors" where
  "child_descriptors fd s t =
     fold (\<lambda>j t. if OS_ObjectIdIsValid (active_id (OS_common_table s (record_of OS_OBJECT_TYPE_OS_STREAM (of_nat j))))
                 then t(file_fd (OS_impl_filehandle_table (impl s) j) := None) else t)
       [0..<unat OS_MAX_NUM_OPEN_FILES] (dup2 fd 2 (dup2 fd 1 t))"

definition posix_ShellOutputToFile ::
    "'h shell_calls \<Rightarrow> OS_object_token \<Rightarrow> string \<Rightarrow> 'h posix_io os_state \<Rightarrow> status \<times> 'h posix_io" where
  "posix_ShellOutputToFile c token Cmd s =
    (let a = impl s; h = host a;
         shell = (case sys_getenv_shell c h of None \<Rightarrow> ''/bin/sh'' | Some sh \<Rightarrow> sh)
     in if \<not> sys_fork c h then (OS_ERROR, a)
        else
          case sys_run_shell c shell Cmd (child_descriptors (file_fd (filehandle token a)) s (sys_descriptors c h)) h of
            (outcome, h') \<Rightarrow> (if outcome = Some (Some 0) then OS_SUCCESS else OS_ERROR, a\<lparr>host := h'\<rparr>))"

subsection \<open>Reading what was printed\<close>

definition read_digits :: "string \<Rightarrow> nat" where
  "read_digits = foldl (\<lambda>n ch. 10 * n + (of_char ch - 48)) 0"

definition read_int :: "string \<Rightarrow> int" where
  "read_int str = (if str \<noteq> [] \<and> hd str = CHR ''-'' then - int (read_digits (tl str)) else int (read_digits str))"

lemma read_decimal: "read_digits (decimal n) = n"
proof (induction n rule: decimal.induct)
  case (1 n)
  have "of_char (char_of (48 + n mod 10) :: char) = 48 + n mod 10" by simp
  with 1 show ?case
    by (cases "n < 10") (simp_all add: decimal.simps[of n] read_digits_def)
qed

lemma decimal_nonempty: "decimal n \<noteq> []" and decimal_hd: "hd (decimal n) \<noteq> CHR ''-''"
proof -
  have "decimal n \<noteq> [] \<and> hd (decimal n) \<noteq> CHR ''-''"
  proof (induction n rule: decimal.induct)
    case (1 n)
    have "(char_of (48 + n) :: char) \<noteq> CHR ''-''" if "n < 10"
    proof
      assume "(char_of (48 + n) :: char) = CHR ''-''"
      then have "of_char (char_of (48 + n) :: char) = (of_char CHR ''-'' :: nat)" by simp
      with that show False by simp
    qed
    with 1 show ?case by (cases "n < 10") (simp_all add: decimal.simps[of n])
  qed
  then show "decimal n \<noteq> []" "hd (decimal n) \<noteq> CHR ''-''" by auto
qed

lemma decimal_length: "n < 10 ^ k \<Longrightarrow> 0 < k \<Longrightarrow> length (decimal n) \<le> k"
proof (induction k arbitrary: n)
  case (Suc k)
  show ?case
  proof (cases "n < 10")
    case False
    with Suc.prems have "0 < k" by (cases k) auto
    moreover have "n div 10 < 10 ^ k" using Suc.prems by (simp add: less_mult_imp_div_less mult.commute)
    ultimately show ?thesis using Suc.IH[of "n div 10"] False by (simp add: decimal.simps[of n])
  qed (simp add: decimal.simps[of n])
qed simp

lemma read_print: "read_int (print_int n) = n"
  using decimal_nonempty decimal_hd by (simp add: read_int_def print_int_def read_decimal)

lemma print_int_length:
  assumes "- (2 ^ 31) \<le> n" "n < 2 ^ 31"
  shows "length (print_int n) \<le> 11"
proof -
  have "nat (- n) < 10 ^ 10" "nat n < 10 ^ 10" using assms by simp_all
  then show ?thesis using decimal_length[of "nat (- n)" 10] decimal_length[of "nat n" 10] by (auto simp: print_int_def)
qed

text \<open>The twelve characters of a status string hold every 32-bit status with its sign and the
  terminator, and reading the string as a number gives the status back.\<close>

theorem OS_StatusToString_roundtrip:
  assumes "- (2 ^ 31) \<le> st" "st < 2 ^ 31"
  shows "\<exists>str. OS_StatusToString st True = Some str \<and> length str < OS_STATUS_STRING_LENGTH \<and> read_int str = st"
  using print_int_length[OF assms] by (simp add: OS_StatusToString_def OS_STATUS_STRING_LENGTH_def read_print)

theorem OS_StatusToString_roundtrip_witness:
  "\<exists>str. OS_StatusToString (- 2147483648) True = Some str \<and> length str < OS_STATUS_STRING_LENGTH \<and> read_int str = - 2147483648"
  using OS_StatusToString_roundtrip[of "- 2147483648"] by simp

lemma ErrorName_search_map: "ErrorName_search n tab = (case map_of tab n of None \<Rightarrow> (0, None) | Some nm \<Rightarrow> (n, Some nm))"
  by (induction tab) auto

lemma table_names:
  "distinct (map snd OS_GLOBAL_ERROR_NAME_TABLE)"
  "list_all (\<lambda>(n, nm). length nm < OS_ERROR_NAME_LENGTH \<and> take 11 nm \<noteq> ''OS_UNKNOWN('') OS_GLOBAL_ERROR_NAME_TABLE"
  by (simp_all add: OS_GLOBAL_ERROR_NAME_TABLE_def OS_ERROR_NAME_LENGTH_def)

lemma table_names_inj:
  assumes "distinct (map snd tab)" "map_of tab a = Some nm" "map_of tab b = Some nm"
  shows "a = b"
proof -
  from assms(2,3) have "(a, nm) \<in> set tab" "(b, nm) \<in> set tab" by (auto dest: map_of_SomeD)
  with assms(1) have "(a, nm) = (b, nm)" unfolding distinct_map by (intro inj_onD[of snd "set tab"]) auto
  then show ?thesis by simp
qed

definition unknown_name :: "int \<Rightarrow> string" where
  "unknown_name n = ''OS_UNKNOWN('' @ print_int n @ '')''"

lemma unknown_name_inj: "unknown_name a = unknown_name b \<Longrightarrow> a = b"
proof -
  assume "unknown_name a = unknown_name b"
  then have "print_int a = print_int b" by (simp add: unknown_name_def)
  then have "read_int (print_int a) = read_int (print_int b)" by simp
  then show ?thesis by (simp only: read_print)
qed

lemma unknown_name_prefix: "take 11 (unknown_name n) = ''OS_UNKNOWN(''"
  by (simp add: unknown_name_def)

lemma unknown_name_length: "- (2 ^ 31) \<le> n \<Longrightarrow> n < 2 ^ 31 \<Longrightarrow> length (unknown_name n) < OS_ERROR_NAME_LENGTH"
  using print_int_length[of n] by (simp add: unknown_name_def OS_ERROR_NAME_LENGTH_def)

text \<open>The name of a code: from the table, never shortened, or made from the number.\<close>

lemma OS_GetErrorName_cases:
  assumes "- (2 ^ 31) \<le> n" "n < 2 ^ 31"
  shows "OS_GetErrorName OS_IMPL_ERROR_NAME_TABLE n True =
    (case map_of OS_GLOBAL_ERROR_NAME_TABLE n of
       Some nm \<Rightarrow> (OS_SUCCESS, Some nm) | None \<Rightarrow> (OS_ERROR, Some (unknown_name n)))"
proof (cases "map_of OS_GLOBAL_ERROR_NAME_TABLE n")
  case None
  moreover have "map_of OS_GLOBAL_ERROR_NAME_TABLE 0 \<noteq> None" by (simp add: OS_GLOBAL_ERROR_NAME_TABLE_def)
  ultimately have "n \<noteq> 0" by auto
  with None unknown_name_length[OF assms] show ?thesis
    by (simp add: OS_GetErrorName_def ErrorName_search_map OS_IMPL_ERROR_NAME_TABLE_def unknown_name_def[symmetric] del: append.simps)
next
  case (Some nm)
  with table_names(2) map_of_SomeD[OF Some] have "length nm < OS_ERROR_NAME_LENGTH" by (auto simp: list_all_iff)
  with Some show ?thesis by (simp add: OS_GetErrorName_def ErrorName_search_map)
qed

text \<open>C37: The name that OS_GetErrorName gives determines the code: no two 32-bit codes have the same
  name, whether it is taken from the table or made from the number, and no name is cut off.\<close>

theorem OS_GetErrorName_injective:
  assumes "- (2 ^ 31) \<le> a" "a < 2 ^ 31" "- (2 ^ 31) \<le> b" "b < 2 ^ 31"
    and "OS_GetErrorName OS_IMPL_ERROR_NAME_TABLE a True = (st, Some nm)" "OS_GetErrorName OS_IMPL_ERROR_NAME_TABLE b True = (st', Some nm)"
  shows "a = b \<and> st = st' \<and> length nm < OS_ERROR_NAME_LENGTH"
proof -
  let ?T = "map_of OS_GLOBAL_ERROR_NAME_TABLE"
  have table: "length x < OS_ERROR_NAME_LENGTH" "x \<noteq> unknown_name k" if "?T n = Some x" for n x k
    using table_names(2) map_of_SomeD[OF that] unknown_name_prefix[of k] by (auto simp: list_all_iff)
  note eqs = assms(5,6)[unfolded OS_GetErrorName_cases[OF assms(1,2)] OS_GetErrorName_cases[OF assms(3,4)]]
  show ?thesis
  proof (cases "?T a"; cases "?T b")
    assume n: "?T a = None" "?T b = None"
    with eqs unknown_name_inj[of a b] unknown_name_length[OF assms(1,2)] show ?thesis by simp
  next
    fix y assume n: "?T a = None" "?T b = Some y"
    with eqs table(2)[OF n(2), of a] show ?thesis by simp
  next
    fix x assume n: "?T a = Some x" "?T b = None"
    with eqs table(2)[OF n(1), of b] show ?thesis by simp
  next
    fix x y assume n: "?T a = Some x" "?T b = Some y"
    with eqs have "x = nm" "y = nm" "st = st'" by simp_all
    with n table_names_inj[OF table_names(1), of a nm b] table(1)[OF n(1)] show ?thesis by simp
  qed
qed

theorem OS_GetErrorName_injective_witness:
  "OS_GetErrorName OS_IMPL_ERROR_NAME_TABLE (- 43) True = (OS_ERROR, Some ''OS_UNKNOWN(-43)'') \<and> length ''OS_UNKNOWN(-43)'' < OS_ERROR_NAME_LENGTH"
proof -
  have "OS_GetErrorName OS_IMPL_ERROR_NAME_TABLE (- 43) True = (OS_ERROR, Some ''OS_UNKNOWN(-43)'')" by code_simp
  with OS_GetErrorName_injective[of "- 43" "- 43", OF _ _ _ _ this this] show ?thesis by simp
qed

subsection \<open>The descriptors of a shell command\<close>

lemma close_fold:
  "fold (\<lambda>j t. if P j then t(g j := None) else t) js t x = (if \<exists>j \<in> set js. P j \<and> g j = x then None else t x)"
  by (induction js arbitrary: t) auto

definition stream_fd :: "'h posix_io os_state \<Rightarrow> nat \<Rightarrow> int \<Rightarrow> bool" where
  "stream_fd s j fd \<longleftrightarrow> j < unat OS_MAX_NUM_OPEN_FILES
     \<and> OS_ObjectIdIsValid (active_id (OS_common_table s (record_of OS_OBJECT_TYPE_OS_STREAM (of_nat j))))
     \<and> file_fd (OS_impl_filehandle_table (impl s) j) = fd"

text \<open>C38: The process that runs a shell command writes its output and its errors to the file that was
  given, has none of the other open streams of the application, and keeps every descriptor that is
  not one of them. This needs that the streams do not use the standard descriptors: the output of a
  command whose file is descriptor 1 is closed before the command runs.\<close>

theorem posix_shell_descriptors:
  assumes "t fd = Some f"
  shows "((\<forall>j x. stream_fd s j x \<longrightarrow> x > 2) \<and> fd > 2 \<longrightarrow>
      child_descriptors fd s t 1 = Some f \<and> child_descriptors fd s t 2 = Some f
      \<and> (stream_fd s j x \<longrightarrow> child_descriptors fd s t x = None)
      \<and> (y \<notin> {1, 2} \<and> (\<forall>j. \<not> stream_fd s j y) \<longrightarrow> child_descriptors fd s t y = t y))
    \<and> (fd = 1 \<and> stream_fd s j fd \<longrightarrow> child_descriptors fd s t 1 = None)"
proof -
  have d: "child_descriptors fd s t x = (if \<exists>j. stream_fd s j x then None else dup2 fd 2 (dup2 fd 1 t) x)" for fd x
    by (auto simp: child_descriptors_def close_fold stream_fd_def)
  show ?thesis
  proof (intro conjI impI)
    assume fds: "(\<forall>j x. stream_fd s j x \<longrightarrow> x > 2) \<and> fd > 2"
    then have "\<not> stream_fd s j 1" "\<not> stream_fd s j 2" for j by fastforce+
    with fds assms show "child_descriptors fd s t 1 = Some f" "child_descriptors fd s t 2 = Some f"
      by (auto simp: d dup2_def)
  qed (use assms in \<open>auto simp: d dup2_def\<close>)
qed

definition example_shell :: "unit posix_io os_state" where
  "example_shell = upd_common (record_of OS_OBJECT_TYPE_OS_STREAM 0) (\<lambda>ob. ob\<lparr>active_id := 0x60000\<rparr>)
     (fresh_state \<lparr>OS_impl_filehandle_table = (\<lambda>_. \<lparr>file_fd = 5, file_selectable = True\<rparr>), OS_impl_dir_table = (\<lambda>_. None),
        OS_IMPL_SELF_EUID = 0, OS_IMPL_SELF_EGID = 0, host = ()\<rparr>)"

theorem posix_shell_descriptors_witness:
  "child_descriptors 5 example_shell ((\<lambda>_. None)(0 := Some 10, 1 := Some 11, 5 := Some 15)) 1 = Some 15
   \<and> child_descriptors 5 example_shell ((\<lambda>_. None)(0 := Some 10, 1 := Some 11, 5 := Some 15)) 0 = Some 10"
proof -
  have five: "x = 5" if "stream_fd example_shell j x" for j x
    using that by (auto simp: stream_fd_def example_shell_def fresh_state_def boot_state_def)
  have "\<forall>j x. stream_fd example_shell j x \<longrightarrow> x > 2" "\<not> stream_fd example_shell j 0" for j using five by fastforce+
  then show ?thesis
    using posix_shell_descriptors[of "(\<lambda>_. None)(0 := Some 10, 1 := Some 11, 5 := Some 15)" 5 15 example_shell 0 5 0] by auto
qed

end
