(* ===== verification/Semaphore.thy ===== *)
theory Semaphore
  imports Object_Lifecycle
begin

text \<open>
  Binary and counting semaphores, \<^verbatim>\<open>src/src/os/shared/src/osapi-binsem.c\<close> and
  \<^verbatim>\<open>src/src/os/shared/src/osapi-countsem.c\<close>. The semaphores themselves are in the
  implementation layer, given as a record of functions; this layer keeps the name and the ID.
\<close>

subsection \<open>Binary semaphores\<close>

record OS_bin_sem_prop =
  binsem_prop_name :: string
  binsem_prop_creator :: osal_id_t
  binsem_prop_value :: u32

record 'i binsem_impl =
  OS_BinSemCreate_Impl :: "OS_object_token \<Rightarrow> u32 \<Rightarrow> u32 \<Rightarrow> 'i os_state \<Rightarrow> status \<times> 'i"
  OS_BinSemDelete_Impl :: "OS_object_token \<Rightarrow> 'i os_state \<Rightarrow> status \<times> 'i"
  OS_BinSemGive_Impl :: "OS_object_token \<Rightarrow> 'i os_state \<Rightarrow> status \<times> 'i"
  OS_BinSemFlush_Impl :: "OS_object_token \<Rightarrow> 'i os_state \<Rightarrow> status \<times> 'i"
  OS_BinSemTake_Impl :: "OS_object_token \<Rightarrow> 'i os_state \<Rightarrow> status \<times> 'i"
  OS_BinSemTimedWait_Impl :: "OS_object_token \<Rightarrow> u32 \<Rightarrow> 'i os_state \<Rightarrow> status \<times> 'i"
  OS_BinSemGetInfo_Impl :: "OS_object_token \<Rightarrow> OS_bin_sem_prop \<Rightarrow> 'i os_state \<Rightarrow> status \<times> OS_bin_sem_prop"

definition OS_BinSemAPI_Init :: "'i os_state \<Rightarrow> status \<times> 'i os_state" where
  "OS_BinSemAPI_Init s = (OS_SUCCESS, s\<lparr>OS_bin_sem_table := (\<lambda>_. zero_bin_sem)\<rparr>)"

definition binsem_fill :: "string \<Rightarrow> unit \<Rightarrow> OS_object_token \<Rightarrow> 'i os_state \<Rightarrow> 'i os_state" where
  "binsem_fill name x token s =
    (let j = unat (obj_idx token);
         s1 = s\<lparr>OS_bin_sem_table := (OS_bin_sem_table s)
                  (j := zero_bin_sem\<lparr>binsem_obj_name := strncpy_cleared name OS_MAX_API_NAME\<rparr>)\<rparr>
     in upd_common (OS_ObjectIdGlobalFromToken token) (\<lambda>ob. ob\<lparr>name_entry := Some (BinSem_name j)\<rparr>) s1)"

definition OS_BinSemCreate ::
    "'i idmap_env \<Rightarrow> 'i binsem_impl \<Rightarrow> bool \<Rightarrow> string option \<Rightarrow> u32 \<Rightarrow> u32 \<Rightarrow> 'i os_state
      \<Rightarrow> status \<times> osal_id_t option \<times> 'i os_state" where
  "OS_BinSemCreate env b has_id name sem_initial_value options s =
    (if \<not> has_id then (OS_INVALID_POINTER, None, s)
     else
       case name of
         None \<Rightarrow> (OS_INVALID_POINTER, None, s)
       | Some nm \<Rightarrow>
           (if \<not> LENGTHCHECK nm OS_MAX_API_NAME then (OS_ERR_NAME_TOO_LONG, None, s)
            else
              case OS_ObjectIdAllocateNew env OS_OBJECT_TYPE_OS_BINSEM (Some nm) s of
                (return_code, token, s1) \<Rightarrow>
                  (if return_code = OS_SUCCESS then
                     let s2 = binsem_fill nm () token s1
                     in case OS_BinSemCreate_Impl b token sem_initial_value options s2 of
                          (st, a) \<Rightarrow>
                            (case OS_ObjectIdFinalizeNew env st token (s2\<lparr>impl := a\<rparr>) of
                               (st', i, token', s3) \<Rightarrow> (st', Some i, s3))
                   else (return_code, None, s1))))"

definition OS_BinSemDelete :: "'i idmap_env \<Rightarrow> 'i binsem_impl \<Rightarrow> osal_id_t \<Rightarrow> 'i os_state \<Rightarrow> status \<times> 'i os_state" where
  "OS_BinSemDelete env b sem_id s =
    (case OS_ObjectIdGetById env OS_LOCK_MODE_EXCLUSIVE OS_OBJECT_TYPE_OS_BINSEM sem_id s of
       (return_code, token, s1) \<Rightarrow>
         (if return_code = OS_SUCCESS then
            (case OS_BinSemDelete_Impl b token s1 of
               (st, a) \<Rightarrow>
                 (case OS_ObjectIdFinalizeDelete env st token (s1\<lparr>impl := a\<rparr>) of
                    (st', token', s2) \<Rightarrow> (st', s2)))
          else (return_code, s1)))"

definition OS_BinSemGive :: "'i idmap_env \<Rightarrow> 'i binsem_impl \<Rightarrow> osal_id_t \<Rightarrow> 'i os_state \<Rightarrow> status \<times> 'i os_state" where
  "OS_BinSemGive env b sem_id s =
    (case OS_ObjectIdGetById env OS_LOCK_MODE_NONE OS_OBJECT_TYPE_OS_BINSEM sem_id s of
       (return_code, token, s1) \<Rightarrow>
         (if return_code = OS_SUCCESS then (case OS_BinSemGive_Impl b token s1 of (st, a) \<Rightarrow> (st, s1\<lparr>impl := a\<rparr>))
          else (return_code, s1)))"

definition OS_BinSemFlush :: "'i idmap_env \<Rightarrow> 'i binsem_impl \<Rightarrow> osal_id_t \<Rightarrow> 'i os_state \<Rightarrow> status \<times> 'i os_state" where
  "OS_BinSemFlush env b sem_id s =
    (case OS_ObjectIdGetById env OS_LOCK_MODE_NONE OS_OBJECT_TYPE_OS_BINSEM sem_id s of
       (return_code, token, s1) \<Rightarrow>
         (if return_code = OS_SUCCESS then (case OS_BinSemFlush_Impl b token s1 of (st, a) \<Rightarrow> (st, s1\<lparr>impl := a\<rparr>))
          else (return_code, s1)))"

definition OS_BinSemTake :: "'i idmap_env \<Rightarrow> 'i binsem_impl \<Rightarrow> osal_id_t \<Rightarrow> 'i os_state \<Rightarrow> status \<times> 'i os_state" where
  "OS_BinSemTake env b sem_id s =
    (case OS_ObjectIdGetById env OS_LOCK_MODE_NONE OS_OBJECT_TYPE_OS_BINSEM sem_id s of
       (return_code, token, s1) \<Rightarrow>
         (if return_code = OS_SUCCESS then (case OS_BinSemTake_Impl b token s1 of (st, a) \<Rightarrow> (st, s1\<lparr>impl := a\<rparr>))
          else (return_code, s1)))"

definition OS_BinSemTimedWait :: "'i idmap_env \<Rightarrow> 'i binsem_impl \<Rightarrow> osal_id_t \<Rightarrow> u32 \<Rightarrow> 'i os_state \<Rightarrow> status \<times> 'i os_state" where
  "OS_BinSemTimedWait env b sem_id msecs s =
    (case OS_ObjectIdGetById env OS_LOCK_MODE_NONE OS_OBJECT_TYPE_OS_BINSEM sem_id s of
       (return_code, token, s1) \<Rightarrow>
         (if return_code = OS_SUCCESS then (case OS_BinSemTimedWait_Impl b token msecs s1 of (st, a) \<Rightarrow> (st, s1\<lparr>impl := a\<rparr>))
          else (return_code, s1)))"

definition OS_BinSemGetIdByName ::
    "'i idmap_env \<Rightarrow> bool \<Rightarrow> string option \<Rightarrow> 'i os_state \<Rightarrow> status \<times> osal_id_t option \<times> 'i os_state" where
  "OS_BinSemGetIdByName env has_id name s =
    (if \<not> has_id then (OS_INVALID_POINTER, None, s)
     else case name of None \<Rightarrow> (OS_INVALID_POINTER, None, s)
          | Some nm \<Rightarrow> OS_ObjectIdFindByName env OS_OBJECT_TYPE_OS_BINSEM (Some nm) s)"

definition OS_BinSemGetInfo ::
    "'i idmap_env \<Rightarrow> 'i binsem_impl \<Rightarrow> osal_id_t \<Rightarrow> bool \<Rightarrow> 'i os_state \<Rightarrow> status \<times> OS_bin_sem_prop option \<times> 'i os_state" where
  "OS_BinSemGetInfo env b sem_id has_prop s =
    (if \<not> has_prop then (OS_INVALID_POINTER, None, s)
     else
       let prop = \<lparr>binsem_prop_name = [], binsem_prop_creator = 0, binsem_prop_value = 0\<rparr>
       in case OS_ObjectIdGetById env OS_LOCK_MODE_GLOBAL OS_OBJECT_TYPE_OS_BINSEM sem_id s of
            (return_code, token, s1) \<Rightarrow>
              (if return_code = OS_SUCCESS then
                 let rec = OS_common_table s1 (OS_ObjectIdGlobalFromToken token);
                     prop1 = prop\<lparr>binsem_prop_name := strncpy_cleared (name_chars s1 (name_entry rec)) OS_MAX_API_NAME,
                                   binsem_prop_creator := creator rec\<rparr>
                 in case OS_BinSemGetInfo_Impl b token prop1 s1 of
                      (st, prop2) \<Rightarrow> (st, Some prop2, snd (OS_ObjectIdRelease env token s1))
               else (return_code, Some prop, s1)))"

subsection \<open>Counting semaphores\<close>

record OS_count_sem_prop =
  countsem_prop_name :: string
  countsem_prop_creator :: osal_id_t
  countsem_prop_value :: u32

record 'i countsem_impl =
  OS_CountSemCreate_Impl :: "OS_object_token \<Rightarrow> u32 \<Rightarrow> u32 \<Rightarrow> 'i os_state \<Rightarrow> status \<times> 'i"
  OS_CountSemDelete_Impl :: "OS_object_token \<Rightarrow> 'i os_state \<Rightarrow> status \<times> 'i"
  OS_CountSemGive_Impl :: "OS_object_token \<Rightarrow> 'i os_state \<Rightarrow> status \<times> 'i"
  OS_CountSemTake_Impl :: "OS_object_token \<Rightarrow> 'i os_state \<Rightarrow> status \<times> 'i"
  OS_CountSemTimedWait_Impl :: "OS_object_token \<Rightarrow> u32 \<Rightarrow> 'i os_state \<Rightarrow> status \<times> 'i"
  OS_CountSemGetInfo_Impl :: "OS_object_token \<Rightarrow> OS_count_sem_prop \<Rightarrow> 'i os_state \<Rightarrow> status \<times> OS_count_sem_prop"

definition OS_CountSemAPI_Init :: "'i os_state \<Rightarrow> status \<times> 'i os_state" where
  "OS_CountSemAPI_Init s = (OS_SUCCESS, s\<lparr>OS_count_sem_table := (\<lambda>_. zero_count_sem)\<rparr>)"

definition countsem_fill :: "string \<Rightarrow> unit \<Rightarrow> OS_object_token \<Rightarrow> 'i os_state \<Rightarrow> 'i os_state" where
  "countsem_fill name x token s =
    (let j = unat (obj_idx token);
         s1 = s\<lparr>OS_count_sem_table := (OS_count_sem_table s)
                  (j := zero_count_sem\<lparr>countsem_obj_name := strncpy_cleared name OS_MAX_API_NAME\<rparr>)\<rparr>
     in upd_common (OS_ObjectIdGlobalFromToken token) (\<lambda>ob. ob\<lparr>name_entry := Some (CountSem_name j)\<rparr>) s1)"

definition OS_CountSemCreate ::
    "'i idmap_env \<Rightarrow> 'i countsem_impl \<Rightarrow> bool \<Rightarrow> string option \<Rightarrow> u32 \<Rightarrow> u32 \<Rightarrow> 'i os_state
      \<Rightarrow> status \<times> osal_id_t option \<times> 'i os_state" where
  "OS_CountSemCreate env c has_id name sem_initial_value options s =
    (if \<not> has_id then (OS_INVALID_POINTER, None, s)
     else
       case name of
         None \<Rightarrow> (OS_INVALID_POINTER, None, s)
       | Some nm \<Rightarrow>
           (if \<not> LENGTHCHECK nm OS_MAX_API_NAME then (OS_ERR_NAME_TOO_LONG, None, s)
            else
              case OS_ObjectIdAllocateNew env OS_OBJECT_TYPE_OS_COUNTSEM (Some nm) s of
                (return_code, token, s1) \<Rightarrow>
                  (if return_code = OS_SUCCESS then
                     let s2 = countsem_fill nm () token s1
                     in case OS_CountSemCreate_Impl c token sem_initial_value options s2 of
                          (st, a) \<Rightarrow>
                            (case OS_ObjectIdFinalizeNew env st token (s2\<lparr>impl := a\<rparr>) of
                               (st', i, token', s3) \<Rightarrow> (st', Some i, s3))
                   else (return_code, None, s1))))"

definition OS_CountSemDelete :: "'i idmap_env \<Rightarrow> 'i countsem_impl \<Rightarrow> osal_id_t \<Rightarrow> 'i os_state \<Rightarrow> status \<times> 'i os_state" where
  "OS_CountSemDelete env c sem_id s =
    (case OS_ObjectIdGetById env OS_LOCK_MODE_EXCLUSIVE OS_OBJECT_TYPE_OS_COUNTSEM sem_id s of
       (return_code, token, s1) \<Rightarrow>
         (if return_code = OS_SUCCESS then
            (case OS_CountSemDelete_Impl c token s1 of
               (st, a) \<Rightarrow>
                 (case OS_ObjectIdFinalizeDelete env st token (s1\<lparr>impl := a\<rparr>) of
                    (st', token', s2) \<Rightarrow> (st', s2)))
          else (return_code, s1)))"

definition OS_CountSemGive :: "'i idmap_env \<Rightarrow> 'i countsem_impl \<Rightarrow> osal_id_t \<Rightarrow> 'i os_state \<Rightarrow> status \<times> 'i os_state" where
  "OS_CountSemGive env c sem_id s =
    (case OS_ObjectIdGetById env OS_LOCK_MODE_NONE OS_OBJECT_TYPE_OS_COUNTSEM sem_id s of
       (return_code, token, s1) \<Rightarrow>
         (if return_code = OS_SUCCESS then (case OS_CountSemGive_Impl c token s1 of (st, a) \<Rightarrow> (st, s1\<lparr>impl := a\<rparr>))
          else (return_code, s1)))"

definition OS_CountSemTake :: "'i idmap_env \<Rightarrow> 'i countsem_impl \<Rightarrow> osal_id_t \<Rightarrow> 'i os_state \<Rightarrow> status \<times> 'i os_state" where
  "OS_CountSemTake env c sem_id s =
    (case OS_ObjectIdGetById env OS_LOCK_MODE_NONE OS_OBJECT_TYPE_OS_COUNTSEM sem_id s of
       (return_code, token, s1) \<Rightarrow>
         (if return_code = OS_SUCCESS then (case OS_CountSemTake_Impl c token s1 of (st, a) \<Rightarrow> (st, s1\<lparr>impl := a\<rparr>))
          else (return_code, s1)))"

definition OS_CountSemTimedWait :: "'i idmap_env \<Rightarrow> 'i countsem_impl \<Rightarrow> osal_id_t \<Rightarrow> u32 \<Rightarrow> 'i os_state \<Rightarrow> status \<times> 'i os_state" where
  "OS_CountSemTimedWait env c sem_id msecs s =
    (case OS_ObjectIdGetById env OS_LOCK_MODE_NONE OS_OBJECT_TYPE_OS_COUNTSEM sem_id s of
       (return_code, token, s1) \<Rightarrow>
         (if return_code = OS_SUCCESS then (case OS_CountSemTimedWait_Impl c token msecs s1 of (st, a) \<Rightarrow> (st, s1\<lparr>impl := a\<rparr>))
          else (return_code, s1)))"

definition OS_CountSemGetIdByName ::
    "'i idmap_env \<Rightarrow> bool \<Rightarrow> string option \<Rightarrow> 'i os_state \<Rightarrow> status \<times> osal_id_t option \<times> 'i os_state" where
  "OS_CountSemGetIdByName env has_id name s =
    (if \<not> has_id then (OS_INVALID_POINTER, None, s)
     else case name of None \<Rightarrow> (OS_INVALID_POINTER, None, s)
          | Some nm \<Rightarrow> OS_ObjectIdFindByName env OS_OBJECT_TYPE_OS_COUNTSEM (Some nm) s)"

definition OS_CountSemGetInfo ::
    "'i idmap_env \<Rightarrow> 'i countsem_impl \<Rightarrow> osal_id_t \<Rightarrow> bool \<Rightarrow> 'i os_state \<Rightarrow> status \<times> OS_count_sem_prop option \<times> 'i os_state" where
  "OS_CountSemGetInfo env c sem_id has_prop s =
    (if \<not> has_prop then (OS_INVALID_POINTER, None, s)
     else
       let prop = \<lparr>countsem_prop_name = [], countsem_prop_creator = 0, countsem_prop_value = 0\<rparr>
       in case OS_ObjectIdGetById env OS_LOCK_MODE_GLOBAL OS_OBJECT_TYPE_OS_COUNTSEM sem_id s of
            (return_code, token, s1) \<Rightarrow>
              (if return_code = OS_SUCCESS then
                 let rec = OS_common_table s1 (OS_ObjectIdGlobalFromToken token);
                     prop1 = prop\<lparr>countsem_prop_name := strncpy_cleared (name_chars s1 (name_entry rec)) OS_MAX_API_NAME,
                                   countsem_prop_creator := creator rec\<rparr>
                 in case OS_CountSemGetInfo_Impl c token prop1 s1 of
                      (st, prop2) \<Rightarrow> (st, Some prop2, snd (OS_ObjectIdRelease env token s1))
               else (return_code, Some prop, s1)))"

subsection \<open>The semaphore tables as object tables\<close>

abbreviation (input) BST :: osal_objtype_t where "BST \<equiv> OS_OBJECT_TYPE_OS_BINSEM"

definition binsem_filled :: "string \<Rightarrow> unit \<Rightarrow> OS_bin_sem_internal_record" where
  "binsem_filled nm x = zero_bin_sem\<lparr>binsem_obj_name := strncpy_cleared nm OS_MAX_API_NAME\<rparr>"

interpretation bst: object_table BST BinSem_name binsem_fill OS_bin_sem_table binsem_filled
proof
  fix nm :: string and x :: unit and token :: OS_object_token and s :: "'i os_state" and p
  show "length nm < OS_MAX_API_NAME \<Longrightarrow> deref_name (binsem_fill nm x token s) (BinSem_name (unat (obj_idx token))) = nm"
    by (simp add: binsem_fill_def Let_def strncpy_cleared_fits)
  show "name_owner p \<noteq> (BST, unat (obj_idx token)) \<Longrightarrow> deref_name (binsem_fill nm x token s) p = deref_name s p"
    by (cases p) (auto simp: binsem_fill_def Let_def)
qed (simp_all add: binsem_fill_def binsem_filled_def Let_def OS_GetMaxForObjectType_def os_max_defs)

lemma BinSemCreate_shape:
  assumes "length nm < OS_MAX_API_NAME"
  shows "OS_BinSemCreate env b True (Some nm) sem_initial_value options s
    = create_object env BST nm (binsem_fill nm ()) (\<lambda>token. OS_BinSemCreate_Impl b token sem_initial_value options) s"
  using assms by (auto simp: OS_BinSemCreate_def create_object_def LENGTHCHECK_def Let_def split: prod.split)

lemma BinSemDelete_shape: "OS_BinSemDelete env b = delete_object env BST (OS_BinSemDelete_Impl b)"
  by (simp add: fun_eq_iff OS_BinSemDelete_def delete_object_def)

lemma BinSemGetIdByName_shape:
  "OS_BinSemGetIdByName env True (Some nm) s = OS_ObjectIdFindByName env BST (Some nm) s"
  by (simp add: OS_BinSemGetIdByName_def)

lemma BinSemGive_shape: "OS_BinSemGive env b i s = use_object env BST (\<lambda>token. OS_BinSemGive_Impl b token) i s"
  by (simp add: OS_BinSemGive_def use_object_def)

lemma BinSemFlush_shape: "OS_BinSemFlush env b i s = use_object env BST (\<lambda>token. OS_BinSemFlush_Impl b token) i s"
  by (simp add: OS_BinSemFlush_def use_object_def)

lemma BinSemTake_shape: "OS_BinSemTake env b i s = use_object env BST (\<lambda>token. OS_BinSemTake_Impl b token) i s"
  by (simp add: OS_BinSemTake_def use_object_def)

lemma BinSemTimedWait_shape: "OS_BinSemTimedWait env b i msecs s = use_object env BST (\<lambda>token. OS_BinSemTimedWait_Impl b token msecs) i s"
  by (simp add: OS_BinSemTimedWait_def use_object_def)

abbreviation (input) CST :: osal_objtype_t where "CST \<equiv> OS_OBJECT_TYPE_OS_COUNTSEM"

definition countsem_filled :: "string \<Rightarrow> unit \<Rightarrow> OS_count_sem_internal_record" where
  "countsem_filled nm x = zero_count_sem\<lparr>countsem_obj_name := strncpy_cleared nm OS_MAX_API_NAME\<rparr>"

interpretation cst: object_table CST CountSem_name countsem_fill OS_count_sem_table countsem_filled
proof
  fix nm :: string and x :: unit and token :: OS_object_token and s :: "'i os_state" and p
  show "length nm < OS_MAX_API_NAME \<Longrightarrow> deref_name (countsem_fill nm x token s) (CountSem_name (unat (obj_idx token))) = nm"
    by (simp add: countsem_fill_def Let_def strncpy_cleared_fits)
  show "name_owner p \<noteq> (CST, unat (obj_idx token)) \<Longrightarrow> deref_name (countsem_fill nm x token s) p = deref_name s p"
    by (cases p) (auto simp: countsem_fill_def Let_def)
qed (simp_all add: countsem_fill_def countsem_filled_def Let_def OS_GetMaxForObjectType_def os_max_defs)

lemma CountSemCreate_shape:
  assumes "length nm < OS_MAX_API_NAME"
  shows "OS_CountSemCreate env c True (Some nm) sem_initial_value options s
    = create_object env CST nm (countsem_fill nm ()) (\<lambda>token. OS_CountSemCreate_Impl c token sem_initial_value options) s"
  using assms by (auto simp: OS_CountSemCreate_def create_object_def LENGTHCHECK_def Let_def split: prod.split)

lemma CountSemDelete_shape: "OS_CountSemDelete env c = delete_object env CST (OS_CountSemDelete_Impl c)"
  by (simp add: fun_eq_iff OS_CountSemDelete_def delete_object_def)

lemma CountSemGetIdByName_shape:
  "OS_CountSemGetIdByName env True (Some nm) s = OS_ObjectIdFindByName env CST (Some nm) s"
  by (simp add: OS_CountSemGetIdByName_def)

lemma CountSemGive_shape: "OS_CountSemGive env c i s = use_object env CST (\<lambda>token. OS_CountSemGive_Impl c token) i s"
  by (simp add: OS_CountSemGive_def use_object_def)

lemma CountSemTake_shape: "OS_CountSemTake env c i s = use_object env CST (\<lambda>token. OS_CountSemTake_Impl c token) i s"
  by (simp add: OS_CountSemTake_def use_object_def)

lemma CountSemTimedWait_shape: "OS_CountSemTimedWait env c i msecs s = use_object env CST (\<lambda>token. OS_CountSemTimedWait_Impl c token msecs) i s"
  by (simp add: OS_CountSemTimedWait_def use_object_def)

text \<open>Implementation layers that always succeed, for concrete instances.\<close>

definition example_binsem_impl :: "unit binsem_impl" where
  "example_binsem_impl = \<lparr>OS_BinSemCreate_Impl = (\<lambda>_ _ _ _. (OS_SUCCESS, ())),
     OS_BinSemDelete_Impl = (\<lambda>_ _. (OS_SUCCESS, ())),
     OS_BinSemGive_Impl = (\<lambda>_ _. (OS_SUCCESS, ())),
     OS_BinSemFlush_Impl = (\<lambda>_ _. (OS_SUCCESS, ())),
     OS_BinSemTake_Impl = (\<lambda>_ _. (OS_SUCCESS, ())),
     OS_BinSemTimedWait_Impl = (\<lambda>_ _ _. (OS_SUCCESS, ())),
     OS_BinSemGetInfo_Impl = (\<lambda>_ prop _. (OS_SUCCESS, prop))\<rparr>"

definition example_countsem_impl :: "unit countsem_impl" where
  "example_countsem_impl = \<lparr>OS_CountSemCreate_Impl = (\<lambda>_ _ _ _. (OS_SUCCESS, ())),
     OS_CountSemDelete_Impl = (\<lambda>_ _. (OS_SUCCESS, ())),
     OS_CountSemGive_Impl = (\<lambda>_ _. (OS_SUCCESS, ())),
     OS_CountSemTake_Impl = (\<lambda>_ _. (OS_SUCCESS, ())),
     OS_CountSemTimedWait_Impl = (\<lambda>_ _ _. (OS_SUCCESS, ())),
     OS_CountSemGetInfo_Impl = (\<lambda>_ prop _. (OS_SUCCESS, prop))\<rparr>"

subsection \<open>Properties\<close>

text \<open>A binary semaphore lives as documented: when the implementation layer agrees, creation under a
  free name succeeds and the name leads to the new ID; the name cannot be taken twice; deletion
  makes both the name and the ID unknown again and restores the registry of objects.\<close>

theorem OS_BinSem_lifecycle:
  assumes "idle s" "event_ok env s" "length nm < OS_MAX_API_NAME"
    and "\<exists>k < OS_GetMaxForObjectType BST. registry s (BST, k) = None" "\<nexists>i. registered_name s BST nm i"
    and "\<And>token s'. fst (OS_BinSemCreate_Impl b token sem_initial_value options s') = OS_SUCCESS"
    and "\<And>token s'. fst (OS_BinSemDelete_Impl b token s') = OS_SUCCESS"
  shows "\<exists>i s1 s2. OS_BinSemCreate env b True (Some nm) sem_initial_value options s = (OS_SUCCESS, Some i, s1) \<and>
    registry s1 = (registry s)((BST, index_of i) \<mapsto> (i, Some nm, OS_TaskGetId env s)) \<and>
    OS_BinSemGetIdByName env True (Some nm) s1 = (OS_SUCCESS, Some i, ticked BST s1) \<and>
    OS_BinSemCreate env b True (Some nm) sem_initial_value options s1 = (OS_ERR_NAME_TAKEN, None, ticked BST s1) \<and>
    OS_BinSemDelete env b i s1 = (OS_SUCCESS, s2) \<and>
    OS_BinSemGetIdByName env True (Some nm) s2 = (OS_ERR_NAME_NOT_FOUND, None, ticked BST s2) \<and>
    OS_BinSemDelete env b i s2 = (OS_ERR_INVALID_ID, ticked BST s2) \<and>
    idle s2 \<and> registry s2 = registry s"
  unfolding BinSemCreate_shape[OF assms(3)] BinSemDelete_shape BinSemGetIdByName_shape
  by (rule bst.lifecycle[OF assms])

theorem OS_BinSem_lifecycle_witness:
  "\<exists>i s1 s2. OS_BinSemCreate quiet_env example_binsem_impl True (Some ''OBJ'') 1 0 (fresh_state ()) = (OS_SUCCESS, Some i, s1) \<and>
    registry s1 = (registry (fresh_state ()))((BST, index_of i) \<mapsto> (i, Some ''OBJ'', OS_TaskGetId quiet_env (fresh_state ()))) \<and>
    OS_BinSemGetIdByName quiet_env True (Some ''OBJ'') s1 = (OS_SUCCESS, Some i, ticked BST s1) \<and>
    OS_BinSemCreate quiet_env example_binsem_impl True (Some ''OBJ'') 1 0 s1 = (OS_ERR_NAME_TAKEN, None, ticked BST s1) \<and>
    OS_BinSemDelete quiet_env example_binsem_impl i s1 = (OS_SUCCESS, s2) \<and>
    OS_BinSemGetIdByName quiet_env True (Some ''OBJ'') s2 = (OS_ERR_NAME_NOT_FOUND, None, ticked BST s2) \<and>
    OS_BinSemDelete quiet_env example_binsem_impl i s2 = (OS_ERR_INVALID_ID, ticked BST s2) \<and>
    idle s2 \<and> registry s2 = registry (fresh_state ())"
  by (rule OS_BinSem_lifecycle)
    (simp_all add: OS_MAX_API_NAME_def example_binsem_impl_def OS_GetMaxForObjectType_def os_max_defs exI[of _ 0])

text \<open>A counting semaphore lives as documented: when the implementation layer agrees, creation under a
  free name succeeds and the name leads to the new ID; the name cannot be taken twice; deletion
  makes both the name and the ID unknown again and restores the registry of objects.\<close>

theorem OS_CountSem_lifecycle:
  assumes "idle s" "event_ok env s" "length nm < OS_MAX_API_NAME"
    and "\<exists>k < OS_GetMaxForObjectType CST. registry s (CST, k) = None" "\<nexists>i. registered_name s CST nm i"
    and "\<And>token s'. fst (OS_CountSemCreate_Impl c token sem_initial_value options s') = OS_SUCCESS"
    and "\<And>token s'. fst (OS_CountSemDelete_Impl c token s') = OS_SUCCESS"
  shows "\<exists>i s1 s2. OS_CountSemCreate env c True (Some nm) sem_initial_value options s = (OS_SUCCESS, Some i, s1) \<and>
    registry s1 = (registry s)((CST, index_of i) \<mapsto> (i, Some nm, OS_TaskGetId env s)) \<and>
    OS_CountSemGetIdByName env True (Some nm) s1 = (OS_SUCCESS, Some i, ticked CST s1) \<and>
    OS_CountSemCreate env c True (Some nm) sem_initial_value options s1 = (OS_ERR_NAME_TAKEN, None, ticked CST s1) \<and>
    OS_CountSemDelete env c i s1 = (OS_SUCCESS, s2) \<and>
    OS_CountSemGetIdByName env True (Some nm) s2 = (OS_ERR_NAME_NOT_FOUND, None, ticked CST s2) \<and>
    OS_CountSemDelete env c i s2 = (OS_ERR_INVALID_ID, ticked CST s2) \<and>
    idle s2 \<and> registry s2 = registry s"
  unfolding CountSemCreate_shape[OF assms(3)] CountSemDelete_shape CountSemGetIdByName_shape
  by (rule cst.lifecycle[OF assms])

theorem OS_CountSem_lifecycle_witness:
  "\<exists>i s1 s2. OS_CountSemCreate quiet_env example_countsem_impl True (Some ''OBJ'') 1 0 (fresh_state ()) = (OS_SUCCESS, Some i, s1) \<and>
    registry s1 = (registry (fresh_state ()))((CST, index_of i) \<mapsto> (i, Some ''OBJ'', OS_TaskGetId quiet_env (fresh_state ()))) \<and>
    OS_CountSemGetIdByName quiet_env True (Some ''OBJ'') s1 = (OS_SUCCESS, Some i, ticked CST s1) \<and>
    OS_CountSemCreate quiet_env example_countsem_impl True (Some ''OBJ'') 1 0 s1 = (OS_ERR_NAME_TAKEN, None, ticked CST s1) \<and>
    OS_CountSemDelete quiet_env example_countsem_impl i s1 = (OS_SUCCESS, s2) \<and>
    OS_CountSemGetIdByName quiet_env True (Some ''OBJ'') s2 = (OS_ERR_NAME_NOT_FOUND, None, ticked CST s2) \<and>
    OS_CountSemDelete quiet_env example_countsem_impl i s2 = (OS_ERR_INVALID_ID, ticked CST s2) \<and>
    idle s2 \<and> registry s2 = registry (fresh_state ())"
  by (rule OS_CountSem_lifecycle)
    (simp_all add: OS_MAX_API_NAME_def example_countsem_impl_def OS_GetMaxForObjectType_def os_max_defs exI[of _ 0])

end
