(* ===== verification/Mutex.thy ===== *)
theory Mutex
  imports Object_Lifecycle
begin

text \<open>
  Mutual exclusion semaphores, \<^verbatim>\<open>src/src/os/shared/src/osapi-mutex.c\<close>. This layer
  keeps, besides name and ID, the task that took the mutex last, for a diagnostic when another
  task gives it.
\<close>

record OS_mut_sem_prop =
  mutex_prop_name :: string
  mutex_prop_creator :: osal_id_t

record 'i mutex_impl =
  OS_MutSemCreate_Impl :: "OS_object_token \<Rightarrow> u32 \<Rightarrow> 'i os_state \<Rightarrow> status \<times> 'i"
  OS_MutSemDelete_Impl :: "OS_object_token \<Rightarrow> 'i os_state \<Rightarrow> status \<times> 'i"
  OS_MutSemGive_Impl :: "OS_object_token \<Rightarrow> 'i os_state \<Rightarrow> status \<times> 'i"
  OS_MutSemTake_Impl :: "OS_object_token \<Rightarrow> 'i os_state \<Rightarrow> status \<times> 'i"
  OS_MutSemGetInfo_Impl :: "OS_object_token \<Rightarrow> OS_mut_sem_prop \<Rightarrow> 'i os_state \<Rightarrow> status \<times> OS_mut_sem_prop"

definition OS_MutexAPI_Init :: "'i os_state \<Rightarrow> status \<times> 'i os_state" where
  "OS_MutexAPI_Init s = (OS_SUCCESS, s\<lparr>OS_mutex_table := (\<lambda>_. zero_mutex)\<rparr>)"

definition mutex_fill :: "string \<Rightarrow> unit \<Rightarrow> OS_object_token \<Rightarrow> 'i os_state \<Rightarrow> 'i os_state" where
  "mutex_fill name x token s =
    (let j = unat (obj_idx token);
         s1 = s\<lparr>OS_mutex_table := (OS_mutex_table s)
                  (j := zero_mutex\<lparr>mutex_obj_name := strncpy_cleared name OS_MAX_API_NAME\<rparr>)\<rparr>
     in upd_common (OS_ObjectIdGlobalFromToken token) (\<lambda>ob. ob\<lparr>name_entry := Some (Mutex_name j)\<rparr>) s1)"

definition OS_MutSemCreate ::
    "'i idmap_env \<Rightarrow> 'i mutex_impl \<Rightarrow> bool \<Rightarrow> string option \<Rightarrow> u32 \<Rightarrow> 'i os_state
      \<Rightarrow> status \<times> osal_id_t option \<times> 'i os_state" where
  "OS_MutSemCreate env m has_id name options s =
    (if \<not> has_id then (OS_INVALID_POINTER, None, s)
     else
       case name of
         None \<Rightarrow> (OS_INVALID_POINTER, None, s)
       | Some nm \<Rightarrow>
           (if \<not> LENGTHCHECK nm OS_MAX_API_NAME then (OS_ERR_NAME_TOO_LONG, None, s)
            else
              case OS_ObjectIdAllocateNew env OS_OBJECT_TYPE_OS_MUTEX (Some nm) s of
                (return_code, token, s1) \<Rightarrow>
                  (if return_code = OS_SUCCESS then
                     let s2 = mutex_fill nm () token s1
                     in case OS_MutSemCreate_Impl m token options s2 of
                          (st, a) \<Rightarrow>
                            (case OS_ObjectIdFinalizeNew env st token (s2\<lparr>impl := a\<rparr>) of
                               (st', i, token', s3) \<Rightarrow> (st', Some i, s3))
                   else (return_code, None, s1))))"

definition OS_MutSemDelete :: "'i idmap_env \<Rightarrow> 'i mutex_impl \<Rightarrow> osal_id_t \<Rightarrow> 'i os_state \<Rightarrow> status \<times> 'i os_state" where
  "OS_MutSemDelete env m sem_id s =
    (case OS_ObjectIdGetById env OS_LOCK_MODE_EXCLUSIVE OS_OBJECT_TYPE_OS_MUTEX sem_id s of
       (return_code, token, s1) \<Rightarrow>
         (if return_code = OS_SUCCESS then
            (case OS_MutSemDelete_Impl m token s1 of
               (st, a) \<Rightarrow>
                 (case OS_ObjectIdFinalizeDelete env st token (s1\<lparr>impl := a\<rparr>) of
                    (st', token', s2) \<Rightarrow> (st', s2)))
          else (return_code, s1)))"

text \<open>The assignment \<^verbatim>\<open>mutex->last_owner = v\<close>.\<close>

definition set_last_owner :: "nat \<Rightarrow> osal_id_t \<Rightarrow> 'i os_state \<Rightarrow> 'i os_state" where
  "set_last_owner j v s = s\<lparr>OS_mutex_table := (OS_mutex_table s)(j := (OS_mutex_table s j)\<lparr>last_owner := v\<rparr>)\<rparr>"

definition OS_MutSemGive :: "'i idmap_env \<Rightarrow> 'i mutex_impl \<Rightarrow> osal_id_t \<Rightarrow> 'i os_state \<Rightarrow> status \<times> 'i os_state" where
  "OS_MutSemGive env m sem_id s =
    (case OS_ObjectIdGetById env OS_LOCK_MODE_NONE OS_OBJECT_TYPE_OS_MUTEX sem_id s of
       (return_code, token, s1) \<Rightarrow>
         (if return_code = OS_SUCCESS then
            let j = unat (obj_idx token);
                self_task = OS_TaskGetId env s1;
                s2 = (if last_owner (OS_mutex_table s1 j) \<noteq> self_task
                      then OS_DEBUG (Dbg_mutex_not_owner sem_id) s1 else s1);
                s3 = set_last_owner j OS_OBJECT_ID_UNDEFINED s2
            in (case OS_MutSemGive_Impl m token s3 of (st, a) \<Rightarrow> (st, s3\<lparr>impl := a\<rparr>))
          else (return_code, s1)))"

definition OS_MutSemTake :: "'i idmap_env \<Rightarrow> 'i mutex_impl \<Rightarrow> osal_id_t \<Rightarrow> 'i os_state \<Rightarrow> status \<times> 'i os_state" where
  "OS_MutSemTake env m sem_id s =
    (case OS_ObjectIdGetById env OS_LOCK_MODE_NONE OS_OBJECT_TYPE_OS_MUTEX sem_id s of
       (return_code, token, s1) \<Rightarrow>
         (if return_code = OS_SUCCESS then
            (case OS_MutSemTake_Impl m token s1 of
               (st, a) \<Rightarrow>
                 let s2 = s1\<lparr>impl := a\<rparr>
                 in if st = OS_SUCCESS
                    then (st, set_last_owner (unat (obj_idx token)) (OS_TaskGetId env s2) s2)
                    else (st, s2))
          else (return_code, s1)))"

definition OS_MutSemGetIdByName ::
    "'i idmap_env \<Rightarrow> bool \<Rightarrow> string option \<Rightarrow> 'i os_state \<Rightarrow> status \<times> osal_id_t option \<times> 'i os_state" where
  "OS_MutSemGetIdByName env has_id name s =
    (if \<not> has_id then (OS_INVALID_POINTER, None, s)
     else case name of None \<Rightarrow> (OS_INVALID_POINTER, None, s)
          | Some nm \<Rightarrow> OS_ObjectIdFindByName env OS_OBJECT_TYPE_OS_MUTEX (Some nm) s)"

definition OS_MutSemGetInfo ::
    "'i idmap_env \<Rightarrow> 'i mutex_impl \<Rightarrow> osal_id_t \<Rightarrow> bool \<Rightarrow> 'i os_state \<Rightarrow> status \<times> OS_mut_sem_prop option \<times> 'i os_state" where
  "OS_MutSemGetInfo env m sem_id has_prop s =
    (if \<not> has_prop then (OS_INVALID_POINTER, None, s)
     else
       let prop = \<lparr>mutex_prop_name = [], mutex_prop_creator = 0\<rparr>
       in case OS_ObjectIdGetById env OS_LOCK_MODE_GLOBAL OS_OBJECT_TYPE_OS_MUTEX sem_id s of
            (return_code, token, s1) \<Rightarrow>
              (if return_code = OS_SUCCESS then
                 let rec = OS_common_table s1 (OS_ObjectIdGlobalFromToken token);
                     prop1 = prop\<lparr>mutex_prop_name := strncpy_cleared (name_chars s1 (name_entry rec)) OS_MAX_API_NAME,
                                   mutex_prop_creator := creator rec\<rparr>
                 in case OS_MutSemGetInfo_Impl m token prop1 s1 of
                      (st, prop2) \<Rightarrow> (st, Some prop2, snd (OS_ObjectIdRelease env token s1))
               else (return_code, Some prop, s1)))"

subsection \<open>The mutex table as an object table\<close>

abbreviation (input) MXT :: osal_objtype_t where "MXT \<equiv> OS_OBJECT_TYPE_OS_MUTEX"

definition mutex_filled :: "string \<Rightarrow> unit \<Rightarrow> OS_mutex_internal_record" where
  "mutex_filled nm x = zero_mutex\<lparr>mutex_obj_name := strncpy_cleared nm OS_MAX_API_NAME\<rparr>"

interpretation mut: object_table MXT Mutex_name mutex_fill OS_mutex_table mutex_filled
proof
  fix nm :: string and x :: unit and token :: OS_object_token and s :: "'i os_state" and p
  show "length nm < OS_MAX_API_NAME \<Longrightarrow> deref_name (mutex_fill nm x token s) (Mutex_name (unat (obj_idx token))) = nm"
    by (simp add: mutex_fill_def Let_def strncpy_cleared_fits)
  show "name_owner p \<noteq> (MXT, unat (obj_idx token)) \<Longrightarrow> deref_name (mutex_fill nm x token s) p = deref_name s p"
    by (cases p) (auto simp: mutex_fill_def Let_def)
qed (simp_all add: mutex_fill_def mutex_filled_def Let_def OS_GetMaxForObjectType_def os_max_defs)

lemma MutSemCreate_shape:
  assumes "length nm < OS_MAX_API_NAME"
  shows "OS_MutSemCreate env m True (Some nm) options s
    = create_object env MXT nm (mutex_fill nm ()) (\<lambda>token. OS_MutSemCreate_Impl m token options) s"
  using assms by (auto simp: OS_MutSemCreate_def create_object_def LENGTHCHECK_def Let_def split: prod.split)

lemma MutSemDelete_shape: "OS_MutSemDelete env m = delete_object env MXT (OS_MutSemDelete_Impl m)"
  by (simp add: fun_eq_iff OS_MutSemDelete_def delete_object_def)

lemma MutSemGetIdByName_shape:
  "OS_MutSemGetIdByName env True (Some nm) s = OS_ObjectIdFindByName env MXT (Some nm) s"
  by (simp add: OS_MutSemGetIdByName_def)

lemma set_last_owner_simps [simp]:
  "OS_common_table (set_last_owner j v s) = OS_common_table s"
  "OS_objtype_state_tbl (set_last_owner j v s) = OS_objtype_state_tbl s"
  "OS_SharedGlobalVars (set_last_owner j v s) = OS_SharedGlobalVars s"
  "table_lock (set_last_owner j v s) = table_lock s"
  "stuck (set_last_owner j v s) = stuck s"
  "debug_log (set_last_owner j v s) = debug_log s"
  "impl (set_last_owner j v s) = impl s"
  "OS_mutex_table (set_last_owner j v s) j = (OS_mutex_table s j)\<lparr>last_owner := v\<rparr>"
  by (simp_all add: set_last_owner_def)

lemma set_last_owner_deref [simp]: "deref_name (set_last_owner j v s) = deref_name s"
proof (rule ext)
  fix p show "deref_name (set_last_owner j v s) p = deref_name s p"
    by (cases p) (simp_all add: set_last_owner_def)
qed

lemma set_last_owner_registry [simp]: "registry (set_last_owner j v s) = registry s"
  by (simp add: registry_def Let_def cong: if_cong)

lemma set_last_owner_idle [simp]: "idle (set_last_owner j v s) = idle s"
  by (simp add: idle_def running_def lock_free_def objtype_state_def)

lemma set_last_owner_live [simp]: "live t i (set_last_owner j v s) = live t i s"
  by (simp add: live_def)

lemma MutSemTake_live:
  assumes "idle s" "live MXT i s" "OS_MutSemTake_Impl m (tok OS_LOCK_MODE_NONE 0 MXT (index_of i) i) s = (st, a)"
  shows "OS_MutSemTake env m i s = (st, if st = OS_SUCCESS
    then set_last_owner (unat (index_of i)) (OS_TaskGetId env (s\<lparr>impl := a\<rparr>)) (s\<lparr>impl := a\<rparr>) else s\<lparr>impl := a\<rparr>)"
  using assms by (simp add: OS_MutSemTake_def GetById_none[OF idleD(1)[OF assms(1)] assms(2)] Let_def)

lemma MutSemGive_live:
  assumes "idle s" "live MXT i s"
    and "s3 = set_last_owner (unat (index_of i)) 0
           (if last_owner (OS_mutex_table s (unat (index_of i))) \<noteq> OS_TaskGetId env s
            then OS_DEBUG (Dbg_mutex_not_owner i) s else s)"
    and "OS_MutSemGive_Impl m (tok OS_LOCK_MODE_NONE 0 MXT (index_of i) i) s3 = (st, a)"
  shows "OS_MutSemGive env m i s = (st, s3\<lparr>impl := a\<rparr>)"
  using assms(4) unfolding assms(3)
  by (simp add: OS_MutSemGive_def GetById_none[OF idleD(1)[OF assms(1)] assms(2)] Let_def)

text \<open>An implementation layer that always succeeds, for concrete instances.\<close>

definition example_mutex_impl :: "unit mutex_impl" where
  "example_mutex_impl = \<lparr>OS_MutSemCreate_Impl = (\<lambda>_ _ _. (OS_SUCCESS, ())),
     OS_MutSemDelete_Impl = (\<lambda>_ _. (OS_SUCCESS, ())),
     OS_MutSemGive_Impl = (\<lambda>_ _. (OS_SUCCESS, ())),
     OS_MutSemTake_Impl = (\<lambda>_ _. (OS_SUCCESS, ())),
     OS_MutSemGetInfo_Impl = (\<lambda>_ prop _. (OS_SUCCESS, prop))\<rparr>"

subsection \<open>Properties\<close>

text \<open>A mutex lives as documented: when the implementation layer agrees, creation under a
  free name succeeds and the name leads to the new ID; the name cannot be taken twice; deletion
  makes both the name and the ID unknown again and restores the registry of objects.\<close>

theorem OS_MutSem_lifecycle:
  assumes "idle s" "event_ok env s" "length nm < OS_MAX_API_NAME"
    and "\<exists>k < OS_GetMaxForObjectType MXT. registry s (MXT, k) = None" "\<nexists>i. registered_name s MXT nm i"
    and "\<And>token s'. fst (OS_MutSemCreate_Impl m token options s') = OS_SUCCESS"
    and "\<And>token s'. fst (OS_MutSemDelete_Impl m token s') = OS_SUCCESS"
  shows "\<exists>i s1 s2. OS_MutSemCreate env m True (Some nm) options s = (OS_SUCCESS, Some i, s1) \<and>
    registry s1 = (registry s)((MXT, index_of i) \<mapsto> (i, Some nm, OS_TaskGetId env s)) \<and>
    OS_MutSemGetIdByName env True (Some nm) s1 = (OS_SUCCESS, Some i, ticked MXT s1) \<and>
    OS_MutSemCreate env m True (Some nm) options s1 = (OS_ERR_NAME_TAKEN, None, ticked MXT s1) \<and>
    OS_MutSemDelete env m i s1 = (OS_SUCCESS, s2) \<and>
    OS_MutSemGetIdByName env True (Some nm) s2 = (OS_ERR_NAME_NOT_FOUND, None, ticked MXT s2) \<and>
    OS_MutSemDelete env m i s2 = (OS_ERR_INVALID_ID, ticked MXT s2) \<and>
    idle s2 \<and> registry s2 = registry s"
  unfolding MutSemCreate_shape[OF assms(3)] MutSemDelete_shape MutSemGetIdByName_shape
  by (rule mut.lifecycle[OF assms])

theorem OS_MutSem_lifecycle_witness:
  "\<exists>i s1 s2. OS_MutSemCreate quiet_env example_mutex_impl True (Some ''OBJ'') 0 (fresh_state ()) = (OS_SUCCESS, Some i, s1) \<and>
    registry s1 = (registry (fresh_state ()))((MXT, index_of i) \<mapsto> (i, Some ''OBJ'', OS_TaskGetId quiet_env (fresh_state ()))) \<and>
    OS_MutSemGetIdByName quiet_env True (Some ''OBJ'') s1 = (OS_SUCCESS, Some i, ticked MXT s1) \<and>
    OS_MutSemCreate quiet_env example_mutex_impl True (Some ''OBJ'') 0 s1 = (OS_ERR_NAME_TAKEN, None, ticked MXT s1) \<and>
    OS_MutSemDelete quiet_env example_mutex_impl i s1 = (OS_SUCCESS, s2) \<and>
    OS_MutSemGetIdByName quiet_env True (Some ''OBJ'') s2 = (OS_ERR_NAME_NOT_FOUND, None, ticked MXT s2) \<and>
    OS_MutSemDelete quiet_env example_mutex_impl i s2 = (OS_ERR_INVALID_ID, ticked MXT s2) \<and>
    idle s2 \<and> registry s2 = registry (fresh_state ())"
  by (rule OS_MutSem_lifecycle)
    (simp_all add: OS_MAX_API_NAME_def example_mutex_impl_def OS_GetMaxForObjectType_def os_max_defs exI[of _ 0])

text \<open>C24: The owner of a mutex is tracked: a successful take records the calling task, a failed
  one records nothing; giving it always clears the owner, and reports a diagnostic exactly when
  the caller is not the recorded owner. Neither changes the registry or the invariant.\<close>

theorem OS_MutSem_owner:
  assumes "idle s" "live MXT i s" "\<And>a. OS_TaskGetId_Impl env a = self"
  shows "(case OS_MutSemTake env m i s of (st, s') \<Rightarrow>
      idle s' \<and> registry s' = registry s \<and> debug_log s' = debug_log s \<and>
      last_owner (OS_mutex_table s' (unat (index_of i)))
        = (if st = OS_SUCCESS then self else last_owner (OS_mutex_table s (unat (index_of i)))))
    \<and> (case OS_MutSemGive env m i s of (st, s') \<Rightarrow>
      idle s' \<and> registry s' = registry s \<and> last_owner (OS_mutex_table s' (unat (index_of i))) = 0 \<and>
      debug_log s' = debug_log s @
        (if last_owner (OS_mutex_table s (unat (index_of i))) = self then [] else [Dbg_mutex_not_owner i]))"
proof -
  let ?tk = "tok OS_LOCK_MODE_NONE 0 MXT (index_of i) i"
  let ?s3 = "set_last_owner (unat (index_of i)) 0
           (if last_owner (OS_mutex_table s (unat (index_of i))) \<noteq> OS_TaskGetId env s
            then OS_DEBUG (Dbg_mutex_not_owner i) s else s)"
  obtain st a where t: "OS_MutSemTake_Impl m ?tk s = (st, a)" by fastforce
  obtain st' a' where g: "OS_MutSemGive_Impl m ?tk ?s3 = (st', a')" by fastforce
  show ?thesis
    using MutSemTake_live[OF assms(1,2) t, of env] MutSemGive_live[OF assms(1,2) refl g] assms
    by (simp add: OS_TaskGetId_def)
qed

theorem OS_MutSem_owner_witness:
  "\<exists>i s. last_owner (OS_mutex_table (snd (OS_MutSemTake (quiet_env\<lparr>OS_TaskGetId_Impl := (\<lambda>_. 0x10007)\<rparr>)
      example_mutex_impl i s)) (unat (index_of i))) = 0x10007"
proof -
  obtain s :: "unit os_state" and i where si: "idle s" "live MXT i s"
    by (rule mut.some_live[of "''OBJ''"]) (simp_all add: OS_MAX_API_NAME_def)
  obtain s' where "OS_MutSemTake (quiet_env\<lparr>OS_TaskGetId_Impl := (\<lambda>_. 0x10007)\<rparr>) example_mutex_impl i s = (OS_SUCCESS, s')"
    using MutSemTake_live[OF si, of example_mutex_impl OS_SUCCESS "()"] by (simp add: example_mutex_impl_def)
  then show ?thesis
    using OS_MutSem_owner[OF si, where env = "quiet_env\<lparr>OS_TaskGetId_Impl := (\<lambda>_. 0x10007)\<rparr>" and m = example_mutex_impl]
    by (intro exI[of _ i] exI[of _ s]) simp
qed

text \<open>C25: Nested use of a mutex, which the POSIX implementation allows, leaves the owner unknown
  after the inner give: the outer give by the very same task is reported as a give by a task that
  does not own the mutex.\<close>

theorem OS_MutSem_nested_give_warns:
  assumes "idle s" "live MXT i s" "\<And>a. OS_TaskGetId_Impl env a = self" "self \<noteq> 0"
    and "\<And>token s'. fst (OS_MutSemTake_Impl m token s') = OS_SUCCESS"
  shows "let s1 = snd (OS_MutSemTake env m i s); s2 = snd (OS_MutSemTake env m i s1);
             s3 = snd (OS_MutSemGive env m i s2); s4 = snd (OS_MutSemGive env m i s3)
         in debug_log s3 = debug_log s \<and> debug_log s4 = debug_log s @ [Dbg_mutex_not_owner i]"
proof -
  define s1 s2 s3 s4 where
    defs: "s1 = snd (OS_MutSemTake env m i s)" "s2 = snd (OS_MutSemTake env m i s1)"
      "s3 = snd (OS_MutSemGive env m i s2)" "s4 = snd (OS_MutSemGive env m i s3)"
  let ?tk = "tok OS_LOCK_MODE_NONE 0 MXT (index_of i) i" and ?j = "unat (index_of i)"
  have take: "\<exists>a. snd (OS_MutSemTake env m i x) = set_last_owner ?j self (x\<lparr>impl := a\<rparr>)"
    if "idle x" "live MXT i x" for x
  proof -
    obtain a where "OS_MutSemTake_Impl m ?tk x = (OS_SUCCESS, a)" using assms(5) by (metis prod.collapse)
    from MutSemTake_live[OF that this, of env] show ?thesis using assms(3) by (auto simp: OS_TaskGetId_def)
  qed
  have give: "\<exists>a. snd (OS_MutSemGive env m i x) = (set_last_owner ?j 0
      (if last_owner (OS_mutex_table x ?j) \<noteq> self then OS_DEBUG (Dbg_mutex_not_owner i) x else x))\<lparr>impl := a\<rparr>"
    if "idle x" "live MXT i x" for x
  proof -
    let ?y = "set_last_owner ?j 0
      (if last_owner (OS_mutex_table x ?j) \<noteq> OS_TaskGetId env x then OS_DEBUG (Dbg_mutex_not_owner i) x else x)"
    obtain st a where "OS_MutSemGive_Impl m ?tk ?y = (st, a)" by fastforce
    from MutSemGive_live[OF that refl this] show ?thesis using assms(3) by (auto simp: OS_TaskGetId_def)
  qed
  obtain a1 where e1: "s1 = set_last_owner ?j self (s\<lparr>impl := a1\<rparr>)" using take[OF assms(1,2)] defs(1) by auto
  have i1: "idle s1" "live MXT i s1" using assms(1,2) by (simp_all add: e1)
  obtain a2 where e2: "s2 = set_last_owner ?j self (s1\<lparr>impl := a2\<rparr>)" using take[OF i1] defs(2) by auto
  have i2: "idle s2" "live MXT i s2" using i1 by (simp_all add: e2)
  obtain a3 where e3: "s3 = (set_last_owner ?j 0 s2)\<lparr>impl := a3\<rparr>" using give[OF i2] defs(3) by (auto simp: e2)
  have i3: "idle s3" "live MXT i s3" using i2 by (simp_all add: e3)
  obtain a4 where e4: "s4 = (set_last_owner ?j 0 (OS_DEBUG (Dbg_mutex_not_owner i) s3))\<lparr>impl := a4\<rparr>"
    using give[OF i3] assms(4) defs(4) by (auto simp: e3)
  have l3: "debug_log s3 = debug_log s" by (simp add: e1 e2 e3)
  then have "debug_log s4 = debug_log s @ [Dbg_mutex_not_owner i]" by (simp add: e4)
  with l3 show ?thesis by (simp add: defs Let_def)
qed

theorem OS_MutSem_nested_give_warns_witness:
  "\<exists>i s. let env = quiet_env\<lparr>OS_TaskGetId_Impl := (\<lambda>_. 0x10007)\<rparr>; m = example_mutex_impl;
             s1 = snd (OS_MutSemTake env m i s); s2 = snd (OS_MutSemTake env m i s1);
             s3 = snd (OS_MutSemGive env m i s2); s4 = snd (OS_MutSemGive env m i s3)
         in debug_log s3 = debug_log s \<and> debug_log s4 = debug_log s @ [Dbg_mutex_not_owner i]"
proof -
  obtain s :: "unit os_state" and i where si: "idle s" "live MXT i s"
    by (rule mut.some_live[of "''OBJ''"]) (simp_all add: OS_MAX_API_NAME_def)
  show ?thesis
    using OS_MutSem_nested_give_warns[OF si, where self = "0x10007" and m = example_mutex_impl
        and env = "quiet_env\<lparr>OS_TaskGetId_Impl := (\<lambda>_. 0x10007)\<rparr>"]
    by (intro exI[of _ i] exI[of _ s]) (simp add: Let_def example_mutex_impl_def)
qed

end
