(* ===== verification/RwLock.thy ===== *)
theory RwLock
  imports Object_Lifecycle
begin

text \<open>
  Read-write locks, \<^verbatim>\<open>src/src/os/shared/src/osapi-rwlock.c\<close>. This layer keeps the last
  writer for its diagnostics; the locks are in the implementation layer.
\<close>

record OS_rwlock_prop =
  rwlock_prop_name :: string
  rwlock_prop_creator :: osal_id_t

record 'i rwlock_impl =
  OS_RwLockCreate_Impl :: "OS_object_token \<Rightarrow> u32 \<Rightarrow> 'i os_state \<Rightarrow> status \<times> 'i"
  OS_RwLockDelete_Impl :: "OS_object_token \<Rightarrow> 'i os_state \<Rightarrow> status \<times> 'i"
  OS_RwLockReadGive_Impl :: "OS_object_token \<Rightarrow> 'i os_state \<Rightarrow> status \<times> 'i"
  OS_RwLockWriteGive_Impl :: "OS_object_token \<Rightarrow> 'i os_state \<Rightarrow> status \<times> 'i"
  OS_RwLockReadTake_Impl :: "OS_object_token \<Rightarrow> 'i os_state \<Rightarrow> status \<times> 'i"
  OS_RwLockWriteTake_Impl :: "OS_object_token \<Rightarrow> 'i os_state \<Rightarrow> status \<times> 'i"
  OS_RwLockGetInfo_Impl :: "OS_object_token \<Rightarrow> OS_rwlock_prop \<Rightarrow> 'i os_state \<Rightarrow> status \<times> OS_rwlock_prop"

definition OS_RwLockAPI_Init :: "'i os_state \<Rightarrow> status \<times> 'i os_state" where
  "OS_RwLockAPI_Init s = (OS_SUCCESS, s\<lparr>OS_rwlock_table := (\<lambda>_. zero_rwlock)\<rparr>)"

definition rwlock_fill :: "string \<Rightarrow> unit \<Rightarrow> OS_object_token \<Rightarrow> 'i os_state \<Rightarrow> 'i os_state" where
  "rwlock_fill name x token s =
    (let j = unat (obj_idx token);
         s1 = s\<lparr>OS_rwlock_table := (OS_rwlock_table s)
                  (j := zero_rwlock\<lparr>rwlock_obj_name := strncpy_cleared name OS_MAX_API_NAME\<rparr>)\<rparr>
     in upd_common (OS_ObjectIdGlobalFromToken token) (\<lambda>ob. ob\<lparr>name_entry := Some (RwLock_name j)\<rparr>) s1)"

definition OS_RwLockCreate ::
    "'i idmap_env \<Rightarrow> 'i rwlock_impl \<Rightarrow> bool \<Rightarrow> string option \<Rightarrow> u32 \<Rightarrow> 'i os_state
      \<Rightarrow> status \<times> osal_id_t option \<times> 'i os_state" where
  "OS_RwLockCreate env w has_id name options s =
    (if \<not> has_id then (OS_INVALID_POINTER, None, s)
     else
       case name of
         None \<Rightarrow> (OS_INVALID_POINTER, None, s)
       | Some nm \<Rightarrow>
           (if \<not> LENGTHCHECK nm OS_MAX_API_NAME then (OS_ERR_NAME_TOO_LONG, None, s)
            else
              case OS_ObjectIdAllocateNew env OS_OBJECT_TYPE_OS_RWLOCK (Some nm) s of
                (return_code, token, s1) \<Rightarrow>
                  (if return_code = OS_SUCCESS then
                     let s2 = rwlock_fill nm () token s1
                     in case OS_RwLockCreate_Impl w token options s2 of
                          (st, a) \<Rightarrow>
                            (case OS_ObjectIdFinalizeNew env st token (s2\<lparr>impl := a\<rparr>) of
                               (st', i, token', s3) \<Rightarrow> (st', Some i, s3))
                   else (return_code, None, s1))))"

definition OS_RwLockDelete :: "'i idmap_env \<Rightarrow> 'i rwlock_impl \<Rightarrow> osal_id_t \<Rightarrow> 'i os_state \<Rightarrow> status \<times> 'i os_state" where
  "OS_RwLockDelete env w rw_id s =
    (case OS_ObjectIdGetById env OS_LOCK_MODE_EXCLUSIVE OS_OBJECT_TYPE_OS_RWLOCK rw_id s of
       (return_code, token, s1) \<Rightarrow>
         (if return_code = OS_SUCCESS then
            (case OS_RwLockDelete_Impl w token s1 of
               (st, a) \<Rightarrow>
                 (case OS_ObjectIdFinalizeDelete env st token (s1\<lparr>impl := a\<rparr>) of
                    (st', token', s2) \<Rightarrow> (st', s2)))
          else (return_code, s1)))"

text \<open>The assignment \<^verbatim>\<open>rwlock->last_writer = v\<close>.\<close>

definition set_last_writer :: "nat \<Rightarrow> osal_id_t \<Rightarrow> 'i os_state \<Rightarrow> 'i os_state" where
  "set_last_writer j v s = s\<lparr>OS_rwlock_table := (OS_rwlock_table s)(j := (OS_rwlock_table s j)\<lparr>last_writer := v\<rparr>)\<rparr>"

definition OS_RwLockReadGive :: "'i idmap_env \<Rightarrow> 'i rwlock_impl \<Rightarrow> osal_id_t \<Rightarrow> 'i os_state \<Rightarrow> status \<times> 'i os_state" where
  "OS_RwLockReadGive env w rw_id s =
    (case OS_ObjectIdGetById env OS_LOCK_MODE_NONE OS_OBJECT_TYPE_OS_RWLOCK rw_id s of
       (return_code, token, s1) \<Rightarrow>
         (if return_code = OS_SUCCESS then
            let s2 = (if last_writer (OS_rwlock_table s1 (unat (obj_idx token))) \<noteq> OS_OBJECT_ID_UNDEFINED
                      then OS_DEBUG (Dbg_rwlock_writer rw_id) s1 else s1)
            in (case OS_RwLockReadGive_Impl w token s2 of (st, a) \<Rightarrow> (st, s2\<lparr>impl := a\<rparr>))
          else (return_code, s1)))"

definition OS_RwLockWriteGive :: "'i idmap_env \<Rightarrow> 'i rwlock_impl \<Rightarrow> osal_id_t \<Rightarrow> 'i os_state \<Rightarrow> status \<times> 'i os_state" where
  "OS_RwLockWriteGive env w rw_id s =
    (case OS_ObjectIdGetById env OS_LOCK_MODE_NONE OS_OBJECT_TYPE_OS_RWLOCK rw_id s of
       (return_code, token, s1) \<Rightarrow>
         (if return_code = OS_SUCCESS then
            let j = unat (obj_idx token);
                self_task = OS_TaskGetId env s1;
                s2 = (if last_writer (OS_rwlock_table s1 j) \<noteq> self_task
                      then OS_DEBUG (Dbg_rwlock_writer rw_id) s1 else s1);
                s3 = set_last_writer j OS_OBJECT_ID_UNDEFINED s2
            in (case OS_RwLockWriteGive_Impl w token s3 of (st, a) \<Rightarrow> (st, s3\<lparr>impl := a\<rparr>))
          else (return_code, s1)))"

definition OS_RwLockReadTake :: "'i idmap_env \<Rightarrow> 'i rwlock_impl \<Rightarrow> osal_id_t \<Rightarrow> 'i os_state \<Rightarrow> status \<times> 'i os_state" where
  "OS_RwLockReadTake env w rw_id s =
    (case OS_ObjectIdGetById env OS_LOCK_MODE_NONE OS_OBJECT_TYPE_OS_RWLOCK rw_id s of
       (return_code, token, s1) \<Rightarrow>
         (if return_code = OS_SUCCESS then
            (case OS_RwLockReadTake_Impl w token s1 of
               (st, a) \<Rightarrow>
                 let s2 = s1\<lparr>impl := a\<rparr>
                 in (st, if st = OS_SUCCESS \<and>
                            last_writer (OS_rwlock_table s2 (unat (obj_idx token))) \<noteq> OS_OBJECT_ID_UNDEFINED
                         then OS_DEBUG (Dbg_rwlock_writer rw_id) s2 else s2))
          else (return_code, s1)))"

definition OS_RwLockWriteTake :: "'i idmap_env \<Rightarrow> 'i rwlock_impl \<Rightarrow> osal_id_t \<Rightarrow> 'i os_state \<Rightarrow> status \<times> 'i os_state" where
  "OS_RwLockWriteTake env w rw_id s =
    (case OS_ObjectIdGetById env OS_LOCK_MODE_NONE OS_OBJECT_TYPE_OS_RWLOCK rw_id s of
       (return_code, token, s1) \<Rightarrow>
         (if return_code = OS_SUCCESS then
            (case OS_RwLockWriteTake_Impl w token s1 of
               (st, a) \<Rightarrow>
                 let s2 = s1\<lparr>impl := a\<rparr>
                 in (st, if st = OS_SUCCESS
                         then set_last_writer (unat (obj_idx token)) (OS_TaskGetId env s2) s2 else s2))
          else (return_code, s1)))"

definition OS_RwLockGetIdByName ::
    "'i idmap_env \<Rightarrow> bool \<Rightarrow> string option \<Rightarrow> 'i os_state \<Rightarrow> status \<times> osal_id_t option \<times> 'i os_state" where
  "OS_RwLockGetIdByName env has_id name s =
    (if \<not> has_id then (OS_INVALID_POINTER, None, s)
     else case name of None \<Rightarrow> (OS_INVALID_POINTER, None, s)
          | Some nm \<Rightarrow> OS_ObjectIdFindByName env OS_OBJECT_TYPE_OS_RWLOCK (Some nm) s)"

definition OS_RwLockGetInfo ::
    "'i idmap_env \<Rightarrow> 'i rwlock_impl \<Rightarrow> osal_id_t \<Rightarrow> bool \<Rightarrow> 'i os_state \<Rightarrow> status \<times> OS_rwlock_prop option \<times> 'i os_state" where
  "OS_RwLockGetInfo env w rw_id has_prop s =
    (if \<not> has_prop then (OS_INVALID_POINTER, None, s)
     else
       let prop = \<lparr>rwlock_prop_name = [], rwlock_prop_creator = 0\<rparr>
       in case OS_ObjectIdGetById env OS_LOCK_MODE_GLOBAL OS_OBJECT_TYPE_OS_RWLOCK rw_id s of
            (return_code, token, s1) \<Rightarrow>
              (if return_code = OS_SUCCESS then
                 let rec = OS_common_table s1 (OS_ObjectIdGlobalFromToken token);
                     prop1 = prop\<lparr>rwlock_prop_name := strncpy_cleared (name_chars s1 (name_entry rec)) OS_MAX_API_NAME,
                                   rwlock_prop_creator := creator rec\<rparr>
                 in case OS_RwLockGetInfo_Impl w token prop1 s1 of
                      (st, prop2) \<Rightarrow> (st, Some prop2, snd (OS_ObjectIdRelease env token s1))
               else (return_code, Some prop, s1)))"

subsection \<open>The table of read-write locks as an object table\<close>

abbreviation (input) RWT :: osal_objtype_t where "RWT \<equiv> OS_OBJECT_TYPE_OS_RWLOCK"

definition rwlock_filled :: "string \<Rightarrow> unit \<Rightarrow> OS_rwlock_internal_record" where
  "rwlock_filled nm x = zero_rwlock\<lparr>rwlock_obj_name := strncpy_cleared nm OS_MAX_API_NAME\<rparr>"

interpretation rwt: object_table RWT RwLock_name rwlock_fill OS_rwlock_table rwlock_filled
proof
  fix nm :: string and x :: unit and token :: OS_object_token and s :: "'i os_state" and p
  show "length nm < OS_MAX_API_NAME \<Longrightarrow> deref_name (rwlock_fill nm x token s) (RwLock_name (unat (obj_idx token))) = nm"
    by (simp add: rwlock_fill_def Let_def strncpy_cleared_fits)
  show "name_owner p \<noteq> (RWT, unat (obj_idx token)) \<Longrightarrow> deref_name (rwlock_fill nm x token s) p = deref_name s p"
    by (cases p) (auto simp: rwlock_fill_def Let_def)
qed (simp_all add: rwlock_fill_def rwlock_filled_def Let_def OS_GetMaxForObjectType_def os_max_defs)

lemma RwLockCreate_shape:
  assumes "length nm < OS_MAX_API_NAME"
  shows "OS_RwLockCreate env w True (Some nm) options s
    = create_object env RWT nm (rwlock_fill nm ()) (\<lambda>token. OS_RwLockCreate_Impl w token options) s"
  using assms by (auto simp: OS_RwLockCreate_def create_object_def LENGTHCHECK_def Let_def split: prod.split)

lemma RwLockDelete_shape: "OS_RwLockDelete env w = delete_object env RWT (OS_RwLockDelete_Impl w)"
  by (simp add: fun_eq_iff OS_RwLockDelete_def delete_object_def)

lemma RwLockGetIdByName_shape:
  "OS_RwLockGetIdByName env True (Some nm) s = OS_ObjectIdFindByName env RWT (Some nm) s"
  by (simp add: OS_RwLockGetIdByName_def)

lemma set_last_writer_simps [simp]:
  "OS_common_table (set_last_writer j v s) = OS_common_table s"
  "OS_SharedGlobalVars (set_last_writer j v s) = OS_SharedGlobalVars s"
  "table_lock (set_last_writer j v s) = table_lock s"
  "stuck (set_last_writer j v s) = stuck s"
  "debug_log (set_last_writer j v s) = debug_log s"
  "impl (set_last_writer j v s) = impl s"
  "OS_rwlock_table (set_last_writer j v s) j = (OS_rwlock_table s j)\<lparr>last_writer := v\<rparr>"
  by (simp_all add: set_last_writer_def)

lemma set_last_writer_deref [simp]: "deref_name (set_last_writer j v s) = deref_name s"
proof (rule ext)
  fix p show "deref_name (set_last_writer j v s) p = deref_name s p"
    by (cases p) (simp_all add: set_last_writer_def)
qed

lemma set_last_writer_frame [simp]:
  "registry (set_last_writer j v s) = registry s" "idle (set_last_writer j v s) = idle s"
  "live t i (set_last_writer j v s) = live t i s" "running (set_last_writer j v s) = running s"
  by (simp_all add: registry_def Let_def idle_def running_def live_def cong: if_cong)
    (simp add: set_last_writer_def lock_free_def objtype_state_def)

lemmas rwlock_get = GetById_none[OF idleD(1)]

lemma RwLockWriteTake_live:
  assumes "idle s" "live RWT i s"
  shows "OS_RwLockWriteTake env w i s =
    (case OS_RwLockWriteTake_Impl w (tok OS_LOCK_MODE_NONE 0 RWT (index_of i) i) s of
       (st, a) \<Rightarrow> (st, if st = OS_SUCCESS
         then set_last_writer (unat (index_of i)) (OS_TaskGetId env (s\<lparr>impl := a\<rparr>)) (s\<lparr>impl := a\<rparr>) else s\<lparr>impl := a\<rparr>))"
  by (simp add: OS_RwLockWriteTake_def rwlock_get[OF assms] Let_def split: prod.split)

lemma RwLockWriteGive_live:
  assumes "idle s" "live RWT i s" "last_writer (OS_rwlock_table s (unat (index_of i))) = OS_TaskGetId env s"
  shows "OS_RwLockWriteGive env w i s =
    (case OS_RwLockWriteGive_Impl w (tok OS_LOCK_MODE_NONE 0 RWT (index_of i) i) (set_last_writer (unat (index_of i)) 0 s) of
       (st, a) \<Rightarrow> (st, (set_last_writer (unat (index_of i)) 0 s)\<lparr>impl := a\<rparr>))"
  using assms(3) by (simp add: OS_RwLockWriteGive_def rwlock_get[OF assms(1,2)] Let_def)

lemma RwLockReadTake_live:
  assumes "idle s" "live RWT i s" "last_writer (OS_rwlock_table s (unat (index_of i))) = 0"
  shows "OS_RwLockReadTake env w i s =
    (case OS_RwLockReadTake_Impl w (tok OS_LOCK_MODE_NONE 0 RWT (index_of i) i) s of (st, a) \<Rightarrow> (st, s\<lparr>impl := a\<rparr>))"
  using assms(3) by (simp add: OS_RwLockReadTake_def rwlock_get[OF assms(1,2)] Let_def)

lemma RwLockReadGive_live:
  assumes "idle s" "live RWT i s" "last_writer (OS_rwlock_table s (unat (index_of i))) = 0"
  shows "OS_RwLockReadGive env w i s =
    (case OS_RwLockReadGive_Impl w (tok OS_LOCK_MODE_NONE 0 RWT (index_of i) i) s of (st, a) \<Rightarrow> (st, s\<lparr>impl := a\<rparr>))"
  using assms(3) by (simp add: OS_RwLockReadGive_def rwlock_get[OF assms(1,2)] Let_def)

text \<open>An implementation layer that always succeeds, for concrete instances.\<close>

definition example_rwlock_impl :: "unit rwlock_impl" where
  "example_rwlock_impl = \<lparr>OS_RwLockCreate_Impl = (\<lambda>_ _ _. (OS_SUCCESS, ())),
     OS_RwLockDelete_Impl = (\<lambda>_ _. (OS_SUCCESS, ())),
     OS_RwLockReadGive_Impl = (\<lambda>_ _. (OS_SUCCESS, ())),
     OS_RwLockWriteGive_Impl = (\<lambda>_ _. (OS_SUCCESS, ())),
     OS_RwLockReadTake_Impl = (\<lambda>_ _. (OS_SUCCESS, ())),
     OS_RwLockWriteTake_Impl = (\<lambda>_ _. (OS_SUCCESS, ())),
     OS_RwLockGetInfo_Impl = (\<lambda>_ prop _. (OS_SUCCESS, prop))\<rparr>"

subsection \<open>Properties\<close>

text \<open>A read-write lock lives as documented: when the implementation layer agrees, creation under a
  free name succeeds and the name leads to the new ID; the name cannot be taken twice; deletion
  makes both the name and the ID unknown again and restores the registry of objects.\<close>

theorem OS_RwLock_lifecycle:
  assumes "idle s" "event_ok env s" "length nm < OS_MAX_API_NAME"
    and "\<exists>k < OS_GetMaxForObjectType RWT. registry s (RWT, k) = None" "\<nexists>i. registered_name s RWT nm i"
    and "\<And>token s'. fst (OS_RwLockCreate_Impl w token options s') = OS_SUCCESS"
    and "\<And>token s'. fst (OS_RwLockDelete_Impl w token s') = OS_SUCCESS"
  shows "\<exists>i s1 s2. OS_RwLockCreate env w True (Some nm) options s = (OS_SUCCESS, Some i, s1) \<and>
    registry s1 = (registry s)((RWT, index_of i) \<mapsto> (i, Some nm, OS_TaskGetId env s)) \<and>
    OS_RwLockGetIdByName env True (Some nm) s1 = (OS_SUCCESS, Some i, ticked RWT s1) \<and>
    OS_RwLockCreate env w True (Some nm) options s1 = (OS_ERR_NAME_TAKEN, None, ticked RWT s1) \<and>
    OS_RwLockDelete env w i s1 = (OS_SUCCESS, s2) \<and>
    OS_RwLockGetIdByName env True (Some nm) s2 = (OS_ERR_NAME_NOT_FOUND, None, ticked RWT s2) \<and>
    OS_RwLockDelete env w i s2 = (OS_ERR_INVALID_ID, ticked RWT s2) \<and>
    idle s2 \<and> registry s2 = registry s"
  unfolding RwLockCreate_shape[OF assms(3)] RwLockDelete_shape RwLockGetIdByName_shape
  by (rule rwt.lifecycle[OF assms])

theorem OS_RwLock_lifecycle_witness:
  "\<exists>i s1 s2. OS_RwLockCreate quiet_env example_rwlock_impl True (Some ''OBJ'') 0 (fresh_state ()) = (OS_SUCCESS, Some i, s1) \<and>
    registry s1 = (registry (fresh_state ()))((RWT, index_of i) \<mapsto> (i, Some ''OBJ'', OS_TaskGetId quiet_env (fresh_state ()))) \<and>
    OS_RwLockGetIdByName quiet_env True (Some ''OBJ'') s1 = (OS_SUCCESS, Some i, ticked RWT s1) \<and>
    OS_RwLockCreate quiet_env example_rwlock_impl True (Some ''OBJ'') 0 s1 = (OS_ERR_NAME_TAKEN, None, ticked RWT s1) \<and>
    OS_RwLockDelete quiet_env example_rwlock_impl i s1 = (OS_SUCCESS, s2) \<and>
    OS_RwLockGetIdByName quiet_env True (Some ''OBJ'') s2 = (OS_ERR_NAME_NOT_FOUND, None, ticked RWT s2) \<and>
    OS_RwLockDelete quiet_env example_rwlock_impl i s2 = (OS_ERR_INVALID_ID, ticked RWT s2) \<and>
    idle s2 \<and> registry s2 = registry (fresh_state ())"
  by (rule OS_RwLock_lifecycle)
    (simp_all add: OS_MAX_API_NAME_def example_rwlock_impl_def OS_GetMaxForObjectType_def os_max_defs exI[of _ 0])

text \<open>The last writer is a faithful flag of exclusive use: between a successful write take
  and the write give by the same task it names that task and no diagnostic is reported, and after
  the give it is clear, so that a read take and read give that follow report nothing.\<close>

theorem OS_RwLock_writer_cycle:
  assumes "idle s" "live RWT i s" "\<And>a. OS_TaskGetId_Impl env a = self"
    and "\<And>token s'. fst (OS_RwLockWriteTake_Impl w token s') = OS_SUCCESS"
  shows "let s1 = snd (OS_RwLockWriteTake env w i s); s2 = snd (OS_RwLockWriteGive env w i s1);
             s3 = snd (OS_RwLockReadTake env w i s2); s4 = snd (OS_RwLockReadGive env w i s3)
         in last_writer (OS_rwlock_table s1 (unat (index_of i))) = self
          \<and> last_writer (OS_rwlock_table s2 (unat (index_of i))) = 0
          \<and> debug_log s4 = debug_log s \<and> idle s4 \<and> registry s4 = registry s"
proof -
  let ?j = "unat (index_of i)" and ?tk = "tok OS_LOCK_MODE_NONE 0 RWT (index_of i) i"
  define s1 where "s1 = snd (OS_RwLockWriteTake env w i s)"
  define s2 where "s2 = snd (OS_RwLockWriteGive env w i s1)"
  define s3 where "s3 = snd (OS_RwLockReadTake env w i s2)"
  define s4 where "s4 = snd (OS_RwLockReadGive env w i s3)"
  obtain a1 where "OS_RwLockWriteTake_Impl w ?tk s = (OS_SUCCESS, a1)"
    using assms(4) by (metis prod.collapse)
  with assms(3) have e1: "s1 = set_last_writer ?j self (s\<lparr>impl := a1\<rparr>)"
    by (simp add: s1_def RwLockWriteTake_live[OF assms(1,2)] OS_TaskGetId_def)
  have i1: "idle s1" "live RWT i s1" "last_writer (OS_rwlock_table s1 ?j) = OS_TaskGetId env s1"
    using assms(1-3) by (simp_all add: e1 OS_TaskGetId_def)
  obtain a2 where e2: "s2 = (set_last_writer ?j 0 s1)\<lparr>impl := a2\<rparr>"
    by (cases "OS_RwLockWriteGive_Impl w ?tk (set_last_writer ?j 0 s1)")
      (simp add: s2_def RwLockWriteGive_live[OF i1])
  have i2: "idle s2" "live RWT i s2" "last_writer (OS_rwlock_table s2 ?j) = 0"
    using i1 by (simp_all add: e2)
  obtain a3 where e3: "s3 = s2\<lparr>impl := a3\<rparr>"
    by (cases "OS_RwLockReadTake_Impl w ?tk s2") (simp add: s3_def RwLockReadTake_live[OF i2])
  have i3: "idle s3" "live RWT i s3" "last_writer (OS_rwlock_table s3 ?j) = 0"
    using i2 by (simp_all add: e3)
  obtain a4 where e4: "s4 = s3\<lparr>impl := a4\<rparr>"
    by (cases "OS_RwLockReadGive_Impl w ?tk s3") (simp add: s4_def RwLockReadGive_live[OF i3])
  have "last_writer (OS_rwlock_table s1 (unat (index_of i))) = self"
    "last_writer (OS_rwlock_table s2 (unat (index_of i))) = 0"
    "debug_log s4 = debug_log s" "idle s4" "registry s4 = registry s"
    using assms(1) by (simp_all add: e1 e2 e3 e4)
  then show ?thesis by (simp add: s1_def s2_def s3_def s4_def Let_def)
qed

theorem OS_RwLock_writer_cycle_witness:
  "\<exists>i s. let env = quiet_env\<lparr>OS_TaskGetId_Impl := (\<lambda>_. 0x10007)\<rparr>; w = example_rwlock_impl;
             s1 = snd (OS_RwLockWriteTake env w i s); s2 = snd (OS_RwLockWriteGive env w i s1)
         in last_writer (OS_rwlock_table s1 (unat (index_of i))) = 0x10007
          \<and> last_writer (OS_rwlock_table s2 (unat (index_of i))) = 0"
proof -
  obtain s :: "unit os_state" and i where si: "idle s" "live RWT i s"
    by (rule rwt.some_live[of "''OBJ''"]) (simp_all add: OS_MAX_API_NAME_def)
  show ?thesis
    using OS_RwLock_writer_cycle[OF si, where self = "0x10007" and w = example_rwlock_impl
        and env = "quiet_env\<lparr>OS_TaskGetId_Impl := (\<lambda>_. 0x10007)\<rparr>"]
    by (intro exI[of _ i] exI[of _ s]) (simp add: Let_def example_rwlock_impl_def)
qed

end
