(* ===== verification/CondVar.thy ===== *)
theory CondVar
  imports Object_Lifecycle
begin

text \<open>
  Condition variables, \<^verbatim>\<open>src/src/os/shared/src/osapi-condvar.c\<close>.
\<close>

record OS_condvar_prop =
  condvar_prop_name :: string
  condvar_prop_creator :: osal_id_t

record 'i condvar_impl =
  OS_CondVarCreate_Impl :: "OS_object_token \<Rightarrow> u32 \<Rightarrow> 'i os_state \<Rightarrow> status \<times> 'i"
  OS_CondVarDelete_Impl :: "OS_object_token \<Rightarrow> 'i os_state \<Rightarrow> status \<times> 'i"
  OS_CondVarLock_Impl :: "OS_object_token \<Rightarrow> 'i os_state \<Rightarrow> status \<times> 'i"
  OS_CondVarUnlock_Impl :: "OS_object_token \<Rightarrow> 'i os_state \<Rightarrow> status \<times> 'i"
  OS_CondVarSignal_Impl :: "OS_object_token \<Rightarrow> 'i os_state \<Rightarrow> status \<times> 'i"
  OS_CondVarBroadcast_Impl :: "OS_object_token \<Rightarrow> 'i os_state \<Rightarrow> status \<times> 'i"
  OS_CondVarWait_Impl :: "OS_object_token \<Rightarrow> 'i os_state \<Rightarrow> status \<times> 'i"
  OS_CondVarTimedWait_Impl :: "OS_object_token \<Rightarrow> u64 \<Rightarrow> 'i os_state \<Rightarrow> status \<times> 'i"
  OS_CondVarGetInfo_Impl :: "OS_object_token \<Rightarrow> OS_condvar_prop \<Rightarrow> 'i os_state \<Rightarrow> status \<times> OS_condvar_prop"

definition OS_CondVarAPI_Init :: "'i os_state \<Rightarrow> status \<times> 'i os_state" where
  "OS_CondVarAPI_Init s = (OS_SUCCESS, s\<lparr>OS_condvar_table := (\<lambda>_. zero_condvar)\<rparr>)"

definition condvar_fill :: "string \<Rightarrow> unit \<Rightarrow> OS_object_token \<Rightarrow> 'i os_state \<Rightarrow> 'i os_state" where
  "condvar_fill name x token s =
    (let j = unat (obj_idx token);
         s1 = s\<lparr>OS_condvar_table := (OS_condvar_table s)
                  (j := zero_condvar\<lparr>condvar_obj_name := strncpy_cleared name OS_MAX_API_NAME\<rparr>)\<rparr>
     in upd_common (OS_ObjectIdGlobalFromToken token) (\<lambda>ob. ob\<lparr>name_entry := Some (CondVar_name j)\<rparr>) s1)"

definition OS_CondVarCreate ::
    "'i idmap_env \<Rightarrow> 'i condvar_impl \<Rightarrow> bool \<Rightarrow> string option \<Rightarrow> u32 \<Rightarrow> 'i os_state
      \<Rightarrow> status \<times> osal_id_t option \<times> 'i os_state" where
  "OS_CondVarCreate env v has_id name options s =
    (if \<not> has_id then (OS_INVALID_POINTER, None, s)
     else
       case name of
         None \<Rightarrow> (OS_INVALID_POINTER, None, s)
       | Some nm \<Rightarrow>
           (if \<not> LENGTHCHECK nm OS_MAX_API_NAME then (OS_ERR_NAME_TOO_LONG, None, s)
            else
              case OS_ObjectIdAllocateNew env OS_OBJECT_TYPE_OS_CONDVAR (Some nm) s of
                (return_code, token, s1) \<Rightarrow>
                  (if return_code = OS_SUCCESS then
                     let s2 = condvar_fill nm () token s1
                     in case OS_CondVarCreate_Impl v token options s2 of
                          (st, a) \<Rightarrow>
                            (case OS_ObjectIdFinalizeNew env st token (s2\<lparr>impl := a\<rparr>) of
                               (st', i, token', s3) \<Rightarrow> (st', Some i, s3))
                   else (return_code, None, s1))))"

definition OS_CondVarDelete :: "'i idmap_env \<Rightarrow> 'i condvar_impl \<Rightarrow> osal_id_t \<Rightarrow> 'i os_state \<Rightarrow> status \<times> 'i os_state" where
  "OS_CondVarDelete env v var_id s =
    (case OS_ObjectIdGetById env OS_LOCK_MODE_EXCLUSIVE OS_OBJECT_TYPE_OS_CONDVAR var_id s of
       (return_code, token, s1) \<Rightarrow>
         (if return_code = OS_SUCCESS then
            (case OS_CondVarDelete_Impl v token s1 of
               (st, a) \<Rightarrow>
                 (case OS_ObjectIdFinalizeDelete env st token (s1\<lparr>impl := a\<rparr>) of
                    (st', token', s2) \<Rightarrow> (st', s2)))
          else (return_code, s1)))"

definition OS_CondVarLock :: "'i idmap_env \<Rightarrow> 'i condvar_impl \<Rightarrow> osal_id_t \<Rightarrow> 'i os_state \<Rightarrow> status \<times> 'i os_state" where
  "OS_CondVarLock env v var_id s =
    (case OS_ObjectIdGetById env OS_LOCK_MODE_NONE OS_OBJECT_TYPE_OS_CONDVAR var_id s of
       (return_code, token, s1) \<Rightarrow>
         (if return_code = OS_SUCCESS then (case OS_CondVarLock_Impl v token s1 of (st, a) \<Rightarrow> (st, s1\<lparr>impl := a\<rparr>))
          else (return_code, s1)))"

definition OS_CondVarUnlock :: "'i idmap_env \<Rightarrow> 'i condvar_impl \<Rightarrow> osal_id_t \<Rightarrow> 'i os_state \<Rightarrow> status \<times> 'i os_state" where
  "OS_CondVarUnlock env v var_id s =
    (case OS_ObjectIdGetById env OS_LOCK_MODE_NONE OS_OBJECT_TYPE_OS_CONDVAR var_id s of
       (return_code, token, s1) \<Rightarrow>
         (if return_code = OS_SUCCESS then (case OS_CondVarUnlock_Impl v token s1 of (st, a) \<Rightarrow> (st, s1\<lparr>impl := a\<rparr>))
          else (return_code, s1)))"

definition OS_CondVarSignal :: "'i idmap_env \<Rightarrow> 'i condvar_impl \<Rightarrow> osal_id_t \<Rightarrow> 'i os_state \<Rightarrow> status \<times> 'i os_state" where
  "OS_CondVarSignal env v var_id s =
    (case OS_ObjectIdGetById env OS_LOCK_MODE_NONE OS_OBJECT_TYPE_OS_CONDVAR var_id s of
       (return_code, token, s1) \<Rightarrow>
         (if return_code = OS_SUCCESS then (case OS_CondVarSignal_Impl v token s1 of (st, a) \<Rightarrow> (st, s1\<lparr>impl := a\<rparr>))
          else (return_code, s1)))"

definition OS_CondVarBroadcast :: "'i idmap_env \<Rightarrow> 'i condvar_impl \<Rightarrow> osal_id_t \<Rightarrow> 'i os_state \<Rightarrow> status \<times> 'i os_state" where
  "OS_CondVarBroadcast env v var_id s =
    (case OS_ObjectIdGetById env OS_LOCK_MODE_NONE OS_OBJECT_TYPE_OS_CONDVAR var_id s of
       (return_code, token, s1) \<Rightarrow>
         (if return_code = OS_SUCCESS then (case OS_CondVarBroadcast_Impl v token s1 of (st, a) \<Rightarrow> (st, s1\<lparr>impl := a\<rparr>))
          else (return_code, s1)))"

definition OS_CondVarWait :: "'i idmap_env \<Rightarrow> 'i condvar_impl \<Rightarrow> osal_id_t \<Rightarrow> 'i os_state \<Rightarrow> status \<times> 'i os_state" where
  "OS_CondVarWait env v var_id s =
    (case OS_ObjectIdGetById env OS_LOCK_MODE_NONE OS_OBJECT_TYPE_OS_CONDVAR var_id s of
       (return_code, token, s1) \<Rightarrow>
         (if return_code = OS_SUCCESS then (case OS_CondVarWait_Impl v token s1 of (st, a) \<Rightarrow> (st, s1\<lparr>impl := a\<rparr>))
          else (return_code, s1)))"

text \<open>The wakeup time is passed by reference; \<open>None\<close> is NULL.\<close>

definition OS_CondVarTimedWait ::
    "'i idmap_env \<Rightarrow> 'i condvar_impl \<Rightarrow> osal_id_t \<Rightarrow> u64 option \<Rightarrow> 'i os_state \<Rightarrow> status \<times> 'i os_state" where
  "OS_CondVarTimedWait env v var_id abs_wakeup_time s =
    (case abs_wakeup_time of
       None \<Rightarrow> (OS_INVALID_POINTER, s)
     | Some ticks \<Rightarrow>
         (case OS_ObjectIdGetById env OS_LOCK_MODE_NONE OS_OBJECT_TYPE_OS_CONDVAR var_id s of
            (return_code, token, s1) \<Rightarrow>
              (if return_code = OS_SUCCESS
               then (case OS_CondVarTimedWait_Impl v token ticks s1 of (st, a) \<Rightarrow> (st, s1\<lparr>impl := a\<rparr>))
               else (return_code, s1))))"

definition OS_CondVarGetIdByName ::
    "'i idmap_env \<Rightarrow> bool \<Rightarrow> string option \<Rightarrow> 'i os_state \<Rightarrow> status \<times> osal_id_t option \<times> 'i os_state" where
  "OS_CondVarGetIdByName env has_id name s =
    (if \<not> has_id then (OS_INVALID_POINTER, None, s)
     else case name of None \<Rightarrow> (OS_INVALID_POINTER, None, s)
          | Some nm \<Rightarrow> OS_ObjectIdFindByName env OS_OBJECT_TYPE_OS_CONDVAR (Some nm) s)"

definition OS_CondVarGetInfo ::
    "'i idmap_env \<Rightarrow> 'i condvar_impl \<Rightarrow> osal_id_t \<Rightarrow> bool \<Rightarrow> 'i os_state \<Rightarrow> status \<times> OS_condvar_prop option \<times> 'i os_state" where
  "OS_CondVarGetInfo env v var_id has_prop s =
    (if \<not> has_prop then (OS_INVALID_POINTER, None, s)
     else
       let prop = \<lparr>condvar_prop_name = [], condvar_prop_creator = 0\<rparr>
       in case OS_ObjectIdGetById env OS_LOCK_MODE_GLOBAL OS_OBJECT_TYPE_OS_CONDVAR var_id s of
            (return_code, token, s1) \<Rightarrow>
              (if return_code = OS_SUCCESS then
                 let rec = OS_common_table s1 (OS_ObjectIdGlobalFromToken token);
                     prop1 = prop\<lparr>condvar_prop_name := strncpy_cleared (name_chars s1 (name_entry rec)) OS_MAX_API_NAME,
                                   condvar_prop_creator := creator rec\<rparr>
                 in case OS_CondVarGetInfo_Impl v token prop1 s1 of
                      (st, prop2) \<Rightarrow> (st, Some prop2, snd (OS_ObjectIdRelease env token s1))
               else (return_code, Some prop, s1)))"

subsection \<open>The table of condition variables as an object table\<close>

abbreviation (input) CVT :: osal_objtype_t where "CVT \<equiv> OS_OBJECT_TYPE_OS_CONDVAR"

definition condvar_filled :: "string \<Rightarrow> unit \<Rightarrow> OS_condvar_internal_record" where
  "condvar_filled nm x = zero_condvar\<lparr>condvar_obj_name := strncpy_cleared nm OS_MAX_API_NAME\<rparr>"

interpretation cvt: object_table CVT CondVar_name condvar_fill OS_condvar_table condvar_filled
proof
  fix nm :: string and x :: unit and token :: OS_object_token and s :: "'i os_state" and p
  show "length nm < OS_MAX_API_NAME \<Longrightarrow> deref_name (condvar_fill nm x token s) (CondVar_name (unat (obj_idx token))) = nm"
    by (simp add: condvar_fill_def Let_def strncpy_cleared_fits)
  show "name_owner p \<noteq> (CVT, unat (obj_idx token)) \<Longrightarrow> deref_name (condvar_fill nm x token s) p = deref_name s p"
    by (cases p) (auto simp: condvar_fill_def Let_def)
qed (simp_all add: condvar_fill_def condvar_filled_def Let_def OS_GetMaxForObjectType_def os_max_defs)

lemma CondVarCreate_shape:
  assumes "length nm < OS_MAX_API_NAME"
  shows "OS_CondVarCreate env v True (Some nm) options s
    = create_object env CVT nm (condvar_fill nm ()) (\<lambda>token. OS_CondVarCreate_Impl v token options) s"
  using assms by (auto simp: OS_CondVarCreate_def create_object_def LENGTHCHECK_def Let_def split: prod.split)

lemma CondVarDelete_shape: "OS_CondVarDelete env v = delete_object env CVT (OS_CondVarDelete_Impl v)"
  by (simp add: fun_eq_iff OS_CondVarDelete_def delete_object_def)

lemma CondVarGetIdByName_shape:
  "OS_CondVarGetIdByName env True (Some nm) s = OS_ObjectIdFindByName env CVT (Some nm) s"
  by (simp add: OS_CondVarGetIdByName_def)

lemma CondVarLock_shape: "OS_CondVarLock env v i s = use_object env CVT (\<lambda>token. OS_CondVarLock_Impl v token) i s"
  by (simp add: OS_CondVarLock_def use_object_def)

lemma CondVarUnlock_shape: "OS_CondVarUnlock env v i s = use_object env CVT (\<lambda>token. OS_CondVarUnlock_Impl v token) i s"
  by (simp add: OS_CondVarUnlock_def use_object_def)

lemma CondVarSignal_shape: "OS_CondVarSignal env v i s = use_object env CVT (\<lambda>token. OS_CondVarSignal_Impl v token) i s"
  by (simp add: OS_CondVarSignal_def use_object_def)

lemma CondVarBroadcast_shape: "OS_CondVarBroadcast env v i s = use_object env CVT (\<lambda>token. OS_CondVarBroadcast_Impl v token) i s"
  by (simp add: OS_CondVarBroadcast_def use_object_def)

lemma CondVarWait_shape: "OS_CondVarWait env v i s = use_object env CVT (\<lambda>token. OS_CondVarWait_Impl v token) i s"
  by (simp add: OS_CondVarWait_def use_object_def)

lemma CondVarTimedWait_shape:
  "OS_CondVarTimedWait env v i (Some ticks) s = use_object env CVT (\<lambda>token. OS_CondVarTimedWait_Impl v token ticks) i s"
  by (simp add: OS_CondVarTimedWait_def use_object_def)

text \<open>An implementation layer that always succeeds, for concrete instances.\<close>

definition example_condvar_impl :: "unit condvar_impl" where
  "example_condvar_impl = \<lparr>OS_CondVarCreate_Impl = (\<lambda>_ _ _. (OS_SUCCESS, ())),
     OS_CondVarDelete_Impl = (\<lambda>_ _. (OS_SUCCESS, ())),
     OS_CondVarLock_Impl = (\<lambda>_ _. (OS_SUCCESS, ())),
     OS_CondVarUnlock_Impl = (\<lambda>_ _. (OS_SUCCESS, ())),
     OS_CondVarSignal_Impl = (\<lambda>_ _. (OS_SUCCESS, ())),
     OS_CondVarBroadcast_Impl = (\<lambda>_ _. (OS_SUCCESS, ())),
     OS_CondVarWait_Impl = (\<lambda>_ _. (OS_SUCCESS, ())),
     OS_CondVarTimedWait_Impl = (\<lambda>_ _ _. (OS_SUCCESS, ())),
     OS_CondVarGetInfo_Impl = (\<lambda>_ prop _. (OS_SUCCESS, prop))\<rparr>"

subsection \<open>Properties\<close>

text \<open>A condition variable lives as documented: when the implementation layer agrees, creation under a
  free name succeeds and the name leads to the new ID; the name cannot be taken twice; deletion
  makes both the name and the ID unknown again and restores the registry of objects.\<close>

theorem OS_CondVar_lifecycle:
  assumes "idle s" "event_ok env s" "length nm < OS_MAX_API_NAME"
    and "\<exists>k < OS_GetMaxForObjectType CVT. registry s (CVT, k) = None" "\<nexists>i. registered_name s CVT nm i"
    and "\<And>token s'. fst (OS_CondVarCreate_Impl v token options s') = OS_SUCCESS"
    and "\<And>token s'. fst (OS_CondVarDelete_Impl v token s') = OS_SUCCESS"
  shows "\<exists>i s1 s2. OS_CondVarCreate env v True (Some nm) options s = (OS_SUCCESS, Some i, s1) \<and>
    registry s1 = (registry s)((CVT, index_of i) \<mapsto> (i, Some nm, OS_TaskGetId env s)) \<and>
    OS_CondVarGetIdByName env True (Some nm) s1 = (OS_SUCCESS, Some i, ticked CVT s1) \<and>
    OS_CondVarCreate env v True (Some nm) options s1 = (OS_ERR_NAME_TAKEN, None, ticked CVT s1) \<and>
    OS_CondVarDelete env v i s1 = (OS_SUCCESS, s2) \<and>
    OS_CondVarGetIdByName env True (Some nm) s2 = (OS_ERR_NAME_NOT_FOUND, None, ticked CVT s2) \<and>
    OS_CondVarDelete env v i s2 = (OS_ERR_INVALID_ID, ticked CVT s2) \<and>
    idle s2 \<and> registry s2 = registry s"
  unfolding CondVarCreate_shape[OF assms(3)] CondVarDelete_shape CondVarGetIdByName_shape
  by (rule cvt.lifecycle[OF assms])

theorem OS_CondVar_lifecycle_witness:
  "\<exists>i s1 s2. OS_CondVarCreate quiet_env example_condvar_impl True (Some ''OBJ'') 0 (fresh_state ()) = (OS_SUCCESS, Some i, s1) \<and>
    registry s1 = (registry (fresh_state ()))((CVT, index_of i) \<mapsto> (i, Some ''OBJ'', OS_TaskGetId quiet_env (fresh_state ()))) \<and>
    OS_CondVarGetIdByName quiet_env True (Some ''OBJ'') s1 = (OS_SUCCESS, Some i, ticked CVT s1) \<and>
    OS_CondVarCreate quiet_env example_condvar_impl True (Some ''OBJ'') 0 s1 = (OS_ERR_NAME_TAKEN, None, ticked CVT s1) \<and>
    OS_CondVarDelete quiet_env example_condvar_impl i s1 = (OS_SUCCESS, s2) \<and>
    OS_CondVarGetIdByName quiet_env True (Some ''OBJ'') s2 = (OS_ERR_NAME_NOT_FOUND, None, ticked CVT s2) \<and>
    OS_CondVarDelete quiet_env example_condvar_impl i s2 = (OS_ERR_INVALID_ID, ticked CVT s2) \<and>
    idle s2 \<and> registry s2 = registry (fresh_state ())"
  by (rule OS_CondVar_lifecycle)
    (simp_all add: OS_MAX_API_NAME_def example_condvar_impl_def OS_GetMaxForObjectType_def os_max_defs exI[of _ 0])

end
