(* ===== verification/Task.thy ===== *)
theory Task
  imports Object_Lifecycle
begin

unbundle bit_operations_syntax

text \<open>
  Tasks, \<^verbatim>\<open>src/src/os/shared/src/osapi-task.c\<close>. A task's entry function and its
  delete hook are application code: what calling one does to the state is part of the interface
  record. \<^verbatim>\<open>OS_TaskExit_Impl\<close> does not return; the state after it is the state the
  task leaves behind.
\<close>

record OS_task_prop =
  task_prop_name :: string
  task_prop_creator :: osal_id_t
  task_prop_stack_size :: nat
  task_prop_priority :: u8

record 'i task_impl =
  OS_TaskMatch_Impl :: "OS_object_token \<Rightarrow> 'i os_state \<Rightarrow> status"
  OS_TaskRegister_Impl :: "osal_id_t \<Rightarrow> 'i os_state \<Rightarrow> status \<times> 'i"
  OS_TaskCreate_Impl :: "OS_object_token \<Rightarrow> u32 \<Rightarrow> 'i os_state \<Rightarrow> status \<times> 'i"
  OS_TaskDelete_Impl :: "OS_object_token \<Rightarrow> 'i os_state \<Rightarrow> status \<times> 'i"
  OS_TaskDetach_Impl :: "OS_object_token \<Rightarrow> 'i os_state \<Rightarrow> status \<times> 'i"
  OS_TaskExit_Impl :: "'i os_state \<Rightarrow> 'i"
  OS_TaskDelay_Impl :: "u32 \<Rightarrow> 'i os_state \<Rightarrow> status \<times> 'i"
  OS_TaskSetPriority_Impl :: "OS_object_token \<Rightarrow> u8 \<Rightarrow> 'i os_state \<Rightarrow> status \<times> 'i"
  OS_TaskGetInfo_Impl :: "OS_object_token \<Rightarrow> OS_task_prop \<Rightarrow> 'i os_state \<Rightarrow> status \<times> OS_task_prop"
  OS_TaskValidateSystemData_Impl :: "ptr \<Rightarrow> nat \<Rightarrow> 'i os_state \<Rightarrow> status"
  OS_TaskIdMatchSystemData_Impl :: "ptr \<Rightarrow> 'i match_func"
  call_task_entry :: "addr \<Rightarrow> 'i os_state \<Rightarrow> 'i os_state"
  call_delete_hook :: "addr \<Rightarrow> 'i os_state \<Rightarrow> 'i os_state"

definition OS_TaskAPI_Init :: "'i os_state \<Rightarrow> status \<times> 'i os_state" where
  "OS_TaskAPI_Init s = (OS_SUCCESS, s\<lparr>OS_task_table := (\<lambda>_. zero_task)\<rparr>)"

text \<open>The result has the value of \<^verbatim>\<open>*entrypt\<close>.\<close>

definition OS_TaskPrepare ::
    "'i idmap_env \<Rightarrow> 'i task_impl \<Rightarrow> osal_id_t \<Rightarrow> 'i os_state \<Rightarrow> status \<times> ptr \<times> 'i os_state" where
  "OS_TaskPrepare env t task_id s =
    (let (rc1, entry1, s1) =
           (case OS_ObjectIdGetById env OS_LOCK_MODE_GLOBAL OS_OBJECT_TYPE_OS_TASK task_id s of
              (return_code, token, s1) \<Rightarrow>
                (if return_code = OS_SUCCESS
                 then (OS_TaskMatch_Impl t token s1,
                       entry_function_pointer (OS_task_table s1 (unat (obj_idx token))),
                       snd (OS_ObjectIdRelease env token s1))
                 else (return_code, None, s1)));
         (rc2, s2) = (if rc1 = OS_SUCCESS
                      then (case OS_TaskRegister_Impl t task_id s1 of (st, a) \<Rightarrow> (st, s1\<lparr>impl := a\<rparr>))
                      else (rc1, s1));
         (rc3, s3) = (if rc2 = OS_SUCCESS then OS_NotifyEvent env OS_EVENT_TASK_STARTUP task_id s2 else (rc2, s2))
     in (rc3, if rc3 \<noteq> OS_SUCCESS then None else entry1, s3))"

definition OS_TaskExit :: "'i idmap_env \<Rightarrow> 'i task_impl \<Rightarrow> 'i os_state \<Rightarrow> 'i os_state" where
  "OS_TaskExit env t s =
    (let task_id = OS_TaskGetId_Impl env (impl s);
         s1 = (case OS_ObjectIdGetById env OS_LOCK_MODE_GLOBAL OS_OBJECT_TYPE_OS_TASK task_id s of
                 (return_code, token, s1) \<Rightarrow>
                   (if return_code = OS_SUCCESS
                    then (case OS_TaskDetach_Impl t token s1 of
                            (st, a) \<Rightarrow> snd (snd (OS_ObjectIdFinalizeDelete env OS_SUCCESS token (s1\<lparr>impl := a\<rparr>))))
                    else s1))
     in s1\<lparr>impl := OS_TaskExit_Impl t s1\<rparr>)"

definition OS_TaskEntryPoint :: "'i idmap_env \<Rightarrow> 'i task_impl \<Rightarrow> osal_id_t \<Rightarrow> 'i os_state \<Rightarrow> 'i os_state" where
  "OS_TaskEntryPoint env t task_id s =
    (case OS_TaskPrepare env t task_id s of
       (return_code, task_entry, s1) \<Rightarrow>
         let s2 = (if return_code = OS_SUCCESS
                   then (case task_entry of Some f \<Rightarrow> call_task_entry t f s1 | None \<Rightarrow> s1) else s1)
         in OS_TaskExit env t s2)"

definition task_fill :: "string \<Rightarrow> nat \<times> u8 \<times> ptr \<times> ptr \<Rightarrow> OS_object_token \<Rightarrow> 'i os_state \<Rightarrow> 'i os_state" where
  "task_fill name = (\<lambda>(stack_size, priority, function_pointer, stack_pointer) token s.
    (let j = unat (obj_idx token);
         s1 = s\<lparr>OS_task_table := (OS_task_table s)
                  (j := zero_task\<lparr>task_name := strncpy_cleared name OS_MAX_API_NAME\<rparr>)\<rparr>;
         s2 = upd_common (OS_ObjectIdGlobalFromToken token) (\<lambda>ob. ob\<lparr>name_entry := Some (Task_name j)\<rparr>) s1
     in s2\<lparr>OS_task_table := (OS_task_table s2)
             (j := (OS_task_table s2 j)\<lparr>task_stack_size := stack_size, task_priority := priority,
                      entry_function_pointer := function_pointer, task_stack_pointer := stack_pointer\<rparr>)\<rparr>))"

definition OS_TaskCreate ::
    "'i idmap_env \<Rightarrow> 'i task_impl \<Rightarrow> bool \<Rightarrow> string option \<Rightarrow> ptr \<Rightarrow> ptr \<Rightarrow> nat \<Rightarrow> u8 \<Rightarrow> u32 \<Rightarrow> 'i os_state
      \<Rightarrow> status \<times> osal_id_t option \<times> 'i os_state" where
  "OS_TaskCreate env t has_id name function_pointer stack_pointer stack_size priority flags s =
    (if \<not> has_id then (OS_INVALID_POINTER, None, s)
     else if function_pointer = None then (OS_INVALID_POINTER, None, s)
     else
       case name of
         None \<Rightarrow> (OS_INVALID_POINTER, None, s)
       | Some nm \<Rightarrow>
           (if \<not> LENGTHCHECK nm OS_MAX_API_NAME then (OS_ERR_NAME_TOO_LONG, None, s)
            else if \<not> OS_CHECK_SIZE stack_size then (OS_ERR_INVALID_SIZE, None, s)
            else
              case OS_ObjectIdAllocateNew env OS_OBJECT_TYPE_OS_TASK (Some nm) s of
                (return_code, token, s1) \<Rightarrow>
                  (if return_code = OS_SUCCESS then
                     let s2 = task_fill nm (stack_size, priority, function_pointer, stack_pointer) token s1
                     in case OS_TaskCreate_Impl t token (flags OR OS_ADD_TASK_FLAGS) s2 of
                          (st, a) \<Rightarrow>
                            (case OS_ObjectIdFinalizeNew env st token (s2\<lparr>impl := a\<rparr>) of
                               (st', i, token', s3) \<Rightarrow> (st', Some i, s3))
                   else (return_code, None, s1))))"

definition OS_TaskDelete :: "'i idmap_env \<Rightarrow> 'i task_impl \<Rightarrow> osal_id_t \<Rightarrow> 'i os_state \<Rightarrow> status \<times> 'i os_state" where
  "OS_TaskDelete env t task_id s =
    (let (rc, delete_hook, s2) =
           (case OS_ObjectIdGetById env OS_LOCK_MODE_EXCLUSIVE OS_OBJECT_TYPE_OS_TASK task_id s of
              (return_code, token, s1) \<Rightarrow>
                (if return_code = OS_SUCCESS then
                   let hook = delete_hook_pointer (OS_task_table s1 (unat (obj_idx token)))
                   in case OS_TaskDelete_Impl t token s1 of
                        (st, a) \<Rightarrow>
                          (case OS_ObjectIdFinalizeDelete env st token (s1\<lparr>impl := a\<rparr>) of
                             (st', token', s2) \<Rightarrow> (st', hook, s2))
                 else (return_code, None, s1)))
     in case delete_hook of
          Some h \<Rightarrow> (rc, if rc = OS_SUCCESS then call_delete_hook t h s2 else s2)
        | None \<Rightarrow> (rc, s2))"

definition OS_TaskDelay :: "'i task_impl \<Rightarrow> u32 \<Rightarrow> 'i os_state \<Rightarrow> status \<times> 'i os_state" where
  "OS_TaskDelay t millisecond s = (case OS_TaskDelay_Impl t millisecond s of (st, a) \<Rightarrow> (st, s\<lparr>impl := a\<rparr>))"

definition OS_TaskSetPriority ::
    "'i idmap_env \<Rightarrow> 'i task_impl \<Rightarrow> osal_id_t \<Rightarrow> u8 \<Rightarrow> 'i os_state \<Rightarrow> status \<times> 'i os_state" where
  "OS_TaskSetPriority env t task_id new_priority s =
    (case OS_ObjectIdGetById env OS_LOCK_MODE_GLOBAL OS_OBJECT_TYPE_OS_TASK task_id s of
       (return_code, token, s1) \<Rightarrow>
         (if return_code = OS_SUCCESS then
            let j = unat (obj_idx token)
            in case OS_TaskSetPriority_Impl t token new_priority s1 of
                 (st, a) \<Rightarrow>
                   let s2 = s1\<lparr>impl := a\<rparr>;
                       s3 = (if st = OS_SUCCESS
                             then s2\<lparr>OS_task_table := (OS_task_table s2)
                                       (j := (OS_task_table s2 j)\<lparr>task_priority := new_priority\<rparr>)\<rparr>
                             else s2)
                   in (st, snd (OS_ObjectIdRelease env token s3))
          else (return_code, s1)))"

definition OS_TaskGetIdByName ::
    "'i idmap_env \<Rightarrow> bool \<Rightarrow> string option \<Rightarrow> 'i os_state \<Rightarrow> status \<times> osal_id_t option \<times> 'i os_state" where
  "OS_TaskGetIdByName env has_id name s =
    (if \<not> has_id then (OS_INVALID_POINTER, None, s)
     else case name of None \<Rightarrow> (OS_INVALID_POINTER, None, s)
          | Some nm \<Rightarrow> OS_ObjectIdFindByName env OS_OBJECT_TYPE_OS_TASK (Some nm) s)"

definition OS_TaskGetInfo ::
    "'i idmap_env \<Rightarrow> 'i task_impl \<Rightarrow> osal_id_t \<Rightarrow> bool \<Rightarrow> 'i os_state \<Rightarrow> status \<times> OS_task_prop option \<times> 'i os_state" where
  "OS_TaskGetInfo env t task_id has_prop s =
    (if \<not> has_prop then (OS_INVALID_POINTER, None, s)
     else
       let prop = \<lparr>task_prop_name = [], task_prop_creator = 0, task_prop_stack_size = 0, task_prop_priority = 0\<rparr>
       in case OS_ObjectIdGetById env OS_LOCK_MODE_GLOBAL OS_OBJECT_TYPE_OS_TASK task_id s of
            (return_code, token, s1) \<Rightarrow>
              (if return_code = OS_SUCCESS then
                 let rec = OS_common_table s1 (OS_ObjectIdGlobalFromToken token);
                     task = OS_task_table s1 (unat (obj_idx token));
                     prop1 = (case name_entry rec of
                                None \<Rightarrow> prop
                              | Some p \<Rightarrow> prop\<lparr>task_prop_name := strncpy_cleared (deref_name s1 p) OS_MAX_API_NAME\<rparr>);
                     prop2 = prop1\<lparr>task_prop_creator := creator rec, task_prop_stack_size := task_stack_size task,
                                    task_prop_priority := task_priority task\<rparr>
                 in case OS_TaskGetInfo_Impl t token prop2 s1 of
                      (st, prop3) \<Rightarrow> (st, Some prop3, snd (OS_ObjectIdRelease env token s1))
               else (return_code, Some prop, s1)))"

definition OS_TaskInstallDeleteHandler ::
    "'i idmap_env \<Rightarrow> ptr \<Rightarrow> 'i os_state \<Rightarrow> status \<times> 'i os_state" where
  "OS_TaskInstallDeleteHandler env function_pointer s =
    (let task_id = OS_TaskGetId_Impl env (impl s)
     in case OS_ObjectIdGetById env OS_LOCK_MODE_GLOBAL OS_OBJECT_TYPE_OS_TASK task_id s of
          (return_code, token, s1) \<Rightarrow>
            (if return_code = OS_SUCCESS then
               let j = unat (obj_idx token);
                   s2 = s1\<lparr>OS_task_table := (OS_task_table s1)
                            (j := (OS_task_table s1 j)\<lparr>delete_hook_pointer := function_pointer\<rparr>)\<rparr>
               in (return_code, snd (OS_ObjectIdRelease env token s2))
             else (return_code, s1)))"

definition OS_TaskFindIdBySystemData ::
    "'i idmap_env \<Rightarrow> 'i task_impl \<Rightarrow> bool \<Rightarrow> ptr \<Rightarrow> nat \<Rightarrow> 'i os_state \<Rightarrow> status \<times> osal_id_t option \<times> 'i os_state" where
  "OS_TaskFindIdBySystemData env t has_id sysdata sysdata_size s =
    (if \<not> has_id then (OS_INVALID_POINTER, None, s)
     else
       let rc = OS_TaskValidateSystemData_Impl t sysdata sysdata_size s
       in if rc \<noteq> OS_SUCCESS then (rc, None, s)
          else
            case OS_ObjectIdGetBySearch env OS_LOCK_MODE_GLOBAL OS_OBJECT_TYPE_OS_TASK
                   (OS_TaskIdMatchSystemData_Impl t sysdata) s of
              (return_code, token, s1) \<Rightarrow>
                (if return_code = OS_SUCCESS
                 then (return_code, Some (obj_id token), snd (OS_ObjectIdRelease env token s1))
                 else (return_code, None, s1)))"

subsection \<open>The task table as an object table\<close>

abbreviation (input) TT :: osal_objtype_t where "TT \<equiv> OS_OBJECT_TYPE_OS_TASK"

definition task_filled :: "string \<Rightarrow> nat \<times> u8 \<times> ptr \<times> ptr \<Rightarrow> OS_task_internal_record" where
  "task_filled nm = (\<lambda>(stack_size, priority, function_pointer, stack_pointer).
     zero_task\<lparr>task_name := strncpy_cleared nm OS_MAX_API_NAME, task_stack_size := stack_size,
       task_priority := priority, entry_function_pointer := function_pointer, task_stack_pointer := stack_pointer\<rparr>)"

interpretation tt: object_table TT Task_name task_fill OS_task_table task_filled
proof
  fix nm :: string and x :: "nat \<times> u8 \<times> ptr \<times> ptr" and token :: OS_object_token and s :: "'i os_state" and p
  obtain a b c d where x: "x = (a, b, c, d)" by (metis prod_cases4)
  show "length nm < OS_MAX_API_NAME \<Longrightarrow> deref_name (task_fill nm x token s) (Task_name (unat (obj_idx token))) = nm"
    by (simp add: task_fill_def x Let_def strncpy_cleared_fits)
  show "name_owner p \<noteq> (TT, unat (obj_idx token)) \<Longrightarrow> deref_name (task_fill nm x token s) p = deref_name s p"
    by (cases p) (auto simp: task_fill_def x Let_def)
qed (auto simp: task_fill_def task_filled_def Let_def OS_GetMaxForObjectType_def os_max_defs split: prod.splits)

lemma TaskCreate_shape:
  assumes "length nm < OS_MAX_API_NAME" "OS_CHECK_SIZE n" "f \<noteq> None"
  shows "OS_TaskCreate env t True (Some nm) f sp n pr flags s
    = create_object env TT nm (task_fill nm (n, pr, f, sp))
        (\<lambda>token. OS_TaskCreate_Impl t token (flags OR OS_ADD_TASK_FLAGS)) s"
  using assms by (auto simp: OS_TaskCreate_def create_object_def LENGTHCHECK_def Let_def split: prod.split)

lemma TaskGetIdByName_shape:
  "OS_TaskGetIdByName env True (Some nm) s = OS_ObjectIdFindByName env TT (Some nm) s"
  by (simp add: OS_TaskGetIdByName_def)

lemma tables_claimed [simp]: "OS_task_table (claimed_state t i s) = OS_task_table s"
  by (simp add: claimed_state_def)

lemma TaskDelete_live:
  assumes "idle s" "live TT i s"
    and "OS_TaskDelete_Impl t (tok OS_LOCK_MODE_EXCLUSIVE 0 TT (index_of i) i) (claimed_state TT i s) = (st, a)"
  shows "OS_TaskDelete env t i s = (st,
    case delete_hook_pointer (OS_task_table s (unat (index_of i))) of
      Some h \<Rightarrow> if st = OS_SUCCESS then call_delete_hook t h (deleted_state env TT i st a s) else deleted_state env TT i st a s
    | None \<Rightarrow> deleted_state env TT i st a s)"
  using assms(3)
  by (simp add: OS_TaskDelete_def GetById_claim[OF assms(1,2)] FinalizeDelete_claimed[OF assms(1,2)] Let_def
      split: option.split)

lemma task_table_acquired:
  "(acquired t k (upd_common r f s))\<lparr>impl := a, OS_task_table := tb\<rparr>
    = acquired t k (upd_common r f (s\<lparr>impl := a, OS_task_table := tb\<rparr>))"
  "(acquired t k (upd_common r f s))\<lparr>OS_task_table := tb\<rparr> = acquired t k (upd_common r f (s\<lparr>OS_task_table := tb\<rparr>))"
  by (simp_all add: acquired_def upd_common_def upd_objtype_def OS_Lock_Global_Impl_def)

lemma lock_free_task_table [simp]: "lock_free t (s\<lparr>OS_task_table := tb\<rparr>) = lock_free t s"
  by (simp add: lock_free_def objtype_state_def)

lemma TaskSetPriority_live:
  assumes "idle s" "live TT i s"
  obtains st a where "OS_TaskSetPriority env t i pr s = (st, ticked TT (if st = OS_SUCCESS
      then s\<lparr>impl := a, OS_task_table := (OS_task_table s)(unat (index_of i) :=
             (OS_task_table s (unat (index_of i)))\<lparr>task_priority := pr\<rparr>)\<rparr>
      else s\<lparr>impl := a\<rparr>))"
    and "\<exists>token s'. fst (OS_TaskSetPriority_Impl t token pr s') = st"
proof -
  obtain k where "k AND 0xFF000000 = 0x4D000000"
    and g: "OS_ObjectIdGetById env OS_LOCK_MODE_GLOBAL TT i s
      = (OS_SUCCESS, tok OS_LOCK_MODE_GLOBAL k TT (index_of i) i,
         acquired TT k (upd_common (record_of TT (index_of i)) (\<lambda>ob. ob\<lparr>refcount := refcount ob + 1\<rparr>) s))"
    and r: "\<forall>s'. lock_free TT s' \<and> OS_common_table s' = OS_common_table s \<longrightarrow>
      OS_ObjectIdRelease env (tok OS_LOCK_MODE_GLOBAL k TT (index_of i) i)
        (acquired TT k (upd_common (record_of TT (index_of i)) (\<lambda>ob. ob\<lparr>refcount := refcount ob + 1\<rparr>) s'))
      = (tok OS_LOCK_MODE_NONE 0 TT (index_of i) i, ticked TT s')"
    by (rule GetById_Release_global[OF assms])
  let ?s1 = "acquired TT k (upd_common (record_of TT (index_of i)) (\<lambda>ob. ob\<lparr>refcount := refcount ob + 1\<rparr>) s)"
  obtain st a where st: "OS_TaskSetPriority_Impl t (tok OS_LOCK_MODE_GLOBAL k TT (index_of i) i) pr ?s1 = (st, a)"
    by fastforce
  have "OS_TaskSetPriority env t i pr s = (st, ticked TT (if st = OS_SUCCESS
      then s\<lparr>impl := a, OS_task_table := (OS_task_table s)(unat (index_of i) :=
             (OS_task_table s (unat (index_of i)))\<lparr>task_priority := pr\<rparr>)\<rparr>
      else s\<lparr>impl := a\<rparr>))"
    using idle_live_record(3)[OF assms] st r[rule_format, of "s\<lparr>impl := a\<rparr>"]
      r[rule_format, of "s\<lparr>impl := a, OS_task_table := (OS_task_table s)(unat (index_of i) :=
             (OS_task_table s (unat (index_of i)))\<lparr>task_priority := pr\<rparr>)\<rparr>"]
    by (simp add: OS_TaskSetPriority_def g Let_def task_table_acquired impl_acquired impl_upd_common)
  moreover have "\<exists>token s'. fst (OS_TaskSetPriority_Impl t token pr s') = st"
    by (rule exI[of _ "tok OS_LOCK_MODE_GLOBAL k TT (index_of i) i"], rule exI[of _ ?s1]) (simp add: st)
  ultimately show thesis by (rule that)
qed

lemma TaskGetInfo_live:
  assumes "idle s" "live TT i s" "registry s (TT, index_of i) = Some (i, Some nm, c)"
    and "\<And>token prop s'. OS_TaskGetInfo_Impl t token prop s' = (OS_SUCCESS, prop)"
  shows "OS_TaskGetInfo env t i True s
    = (OS_SUCCESS, Some \<lparr>task_prop_name = strncpy_cleared nm OS_MAX_API_NAME, task_prop_creator = c,
         task_prop_stack_size = task_stack_size (OS_task_table s (unat (index_of i))),
         task_prop_priority = task_priority (OS_task_table s (unat (index_of i)))\<rparr>, ticked TT s)"
proof -
  obtain k where "k AND 0xFF000000 = 0x4D000000"
    and g: "OS_ObjectIdGetById env OS_LOCK_MODE_GLOBAL TT i s
      = (OS_SUCCESS, tok OS_LOCK_MODE_GLOBAL k TT (index_of i) i,
         acquired TT k (upd_common (record_of TT (index_of i)) (\<lambda>ob. ob\<lparr>refcount := refcount ob + 1\<rparr>) s))"
    and r: "\<forall>s'. lock_free TT s' \<and> OS_common_table s' = OS_common_table s \<longrightarrow>
      OS_ObjectIdRelease env (tok OS_LOCK_MODE_GLOBAL k TT (index_of i) i)
        (acquired TT k (upd_common (record_of TT (index_of i)) (\<lambda>ob. ob\<lparr>refcount := refcount ob + 1\<rparr>) s'))
      = (tok OS_LOCK_MODE_NONE 0 TT (index_of i) i, ticked TT s')"
    by (rule GetById_Release_global[OF assms(1,2)])
  obtain p where "name_entry (OS_common_table s (record_of TT (index_of i))) = Some p"
    using idle_live_record(6)[OF assms(1,2)] by blast
  with tt.registered_record[OF assms(1-3)] idle_live_record(3)[OF assms(1,2)] r[rule_format, of s] show ?thesis
    by (simp add: OS_TaskGetInfo_def g Let_def name_chars_def assms(4))
qed

lemma TaskExit_live:
  assumes "idle s" "live TT i s" "OS_TaskGetId_Impl env (impl s) = i"
  obtains a where "OS_TaskExit env t s =
    (ticked TT (upd_common (record_of TT (index_of i)) (\<lambda>ob. ob\<lparr>active_id := 0\<rparr>) s))\<lparr>impl := a\<rparr>"
proof -
  note l = idle_live_record[OF assms(1,2)]
  let ?r = "record_of TT (index_of i)"
  obtain k where k: "k AND 0xFF000000 = 0x4D000000"
    and g: "OS_ObjectIdGetById env OS_LOCK_MODE_GLOBAL TT i s
      = (OS_SUCCESS, tok OS_LOCK_MODE_GLOBAL k TT (index_of i) i,
         acquired TT k (upd_common ?r (\<lambda>ob. ob\<lparr>refcount := refcount ob + 1\<rparr>) s))"
    by (rule GetById_Release_global[OF assms(1,2)])
  let ?s1 = "acquired TT k (upd_common ?r (\<lambda>ob. ob\<lparr>refcount := refcount ob + 1\<rparr>) s)"
  obtain st a where d: "OS_TaskDetach_Impl t (tok OS_LOCK_MODE_GLOBAL k TT (index_of i) i) ?s1 = (st, a)" by fastforce
  have e: "upd_common ?r ((\<lambda>ob. (drop_ref ob)\<lparr>active_id := 0\<rparr>) \<circ> (\<lambda>ob. ob\<lparr>refcount := refcount ob + 1\<rparr>)) x
      = upd_common ?r (\<lambda>ob. ob\<lparr>active_id := 0\<rparr>) x" if "OS_common_table x = OS_common_table s" for x :: "'a os_state"
    by (rule upd_common_cong) (use that l(5) in \<open>cases "OS_common_table s ?r"; simp add: drop_ref_def\<close>)
  have lf: "lock_free TT (upd_common ?r (\<lambda>ob. ob\<lparr>refcount := refcount ob + 1\<rparr>) (s\<lparr>impl := a\<rparr>))"
    using l(3) by simp
  let ?Y = "(ticked TT (upd_common ?r (\<lambda>ob. ob\<lparr>active_id := 0\<rparr>) s))
    \<lparr>impl := event_impl env OS_EVENT_RESOURCE_DELETED i (s\<lparr>impl := a\<rparr>)\<rparr>"
  have "snd (snd (OS_ObjectIdFinalizeDelete env OS_SUCCESS (tok OS_LOCK_MODE_GLOBAL k TT (index_of i) i) (?s1\<lparr>impl := a\<rparr>))) = ?Y"
    using FinalizeDelete_global[OF lf id_of_type_facts(4)[OF l(1)] k, of env "index_of i" i]
    by (simp add: impl_acquired impl_upd_common e impl_ticked)
  with d g assms(3) have "OS_TaskExit env t s = ?Y\<lparr>impl := OS_TaskExit_Impl t ?Y\<rparr>"
    by (simp add: OS_TaskExit_def Let_def)
  then have "OS_TaskExit env t s = (ticked TT (upd_common ?r (\<lambda>ob. ob\<lparr>active_id := 0\<rparr>) s))\<lparr>impl := OS_TaskExit_Impl t ?Y\<rparr>"
    by simp
  then show thesis by (rule that)
qed

lemma deref_task_priority:
  "deref_name (s\<lparr>OS_task_table := (OS_task_table s)(j := (OS_task_table s j)\<lparr>task_priority := v\<rparr>)\<rparr>) = deref_name s"
proof (rule ext)
  fix p
  show "deref_name (s\<lparr>OS_task_table := (OS_task_table s)(j := (OS_task_table s j)\<lparr>task_priority := v\<rparr>)\<rparr>) p = deref_name s p"
    by (cases p) simp_all
qed

lemma registry_task_priority:
  "registry (s\<lparr>impl := a, OS_task_table := (OS_task_table s)(j := (OS_task_table s j)\<lparr>task_priority := v\<rparr>)\<rparr>) = registry s"
  using deref_task_priority[of "s\<lparr>impl := a\<rparr>" j v]
  by (simp add: registry_def Let_def cong: if_cong)

lemma idle_task_table [simp]: "idle (s\<lparr>OS_task_table := tb\<rparr>) = idle s"
  by (simp add: idle_def running_def)

text \<open>An implementation layer that always succeeds and an entry that returns at once, for
  concrete instances; a delete hook leaves its address in the application's state.\<close>

definition example_task_impl :: "nat list task_impl" where
  "example_task_impl = \<lparr>OS_TaskMatch_Impl = (\<lambda>_ _. OS_SUCCESS), OS_TaskRegister_Impl = (\<lambda>_ s. (OS_SUCCESS, impl s)),
     OS_TaskCreate_Impl = (\<lambda>_ _ s. (OS_SUCCESS, impl s)), OS_TaskDelete_Impl = (\<lambda>_ s. (OS_SUCCESS, impl s)),
     OS_TaskDetach_Impl = (\<lambda>_ s. (OS_SUCCESS, impl s)), OS_TaskExit_Impl = impl,
     OS_TaskDelay_Impl = (\<lambda>_ s. (OS_SUCCESS, impl s)), OS_TaskSetPriority_Impl = (\<lambda>_ _ s. (OS_SUCCESS, impl s)),
     OS_TaskGetInfo_Impl = (\<lambda>_ prop _. (OS_SUCCESS, prop)), OS_TaskValidateSystemData_Impl = (\<lambda>_ _ _. OS_SUCCESS),
     OS_TaskIdMatchSystemData_Impl = (\<lambda>_ _ _ _. False), call_task_entry = (\<lambda>_ s. s),
     call_delete_hook = (\<lambda>h s. s\<lparr>impl := h # impl s\<rparr>)\<rparr>"

subsection \<open>Properties\<close>

text \<open>A task that has been created is found under its name, and its information is what the
  caller asked for: name, creator, stack size, and the priority set last.\<close>

theorem OS_TaskCreate_info:
  assumes "idle s" "event_ok env s" "length nm < OS_MAX_API_NAME" "OS_CHECK_SIZE n" "f \<noteq> None"
    and "\<exists>k < OS_GetMaxForObjectType TT. registry s (TT, k) = None" "\<nexists>i. registered_name s TT nm i"
    and "\<And>token fl s'. fst (OS_TaskCreate_Impl t token fl s') = OS_SUCCESS"
    and "\<And>token p s'. fst (OS_TaskSetPriority_Impl t token p s') = OS_SUCCESS"
    and "\<And>token prop s'. OS_TaskGetInfo_Impl t token prop s' = (OS_SUCCESS, prop)"
  shows "\<exists>i s1 s2. OS_TaskCreate env t True (Some nm) f sp n pr flags s = (OS_SUCCESS, Some i, s1) \<and>
    OS_TaskGetIdByName env True (Some nm) s1 = (OS_SUCCESS, Some i, ticked TT s1) \<and>
    OS_TaskGetInfo env t i True s1 = (OS_SUCCESS, Some \<lparr>task_prop_name = nm, task_prop_creator = OS_TaskGetId env s,
      task_prop_stack_size = n, task_prop_priority = pr\<rparr>, ticked TT s1) \<and>
    OS_TaskSetPriority env t i pr' s1 = (OS_SUCCESS, s2) \<and>
    OS_TaskGetInfo env t i True s2 = (OS_SUCCESS, Some \<lparr>task_prop_name = nm, task_prop_creator = OS_TaskGetId env s,
      task_prop_stack_size = n, task_prop_priority = pr'\<rparr>, ticked TT s2)"
proof -
  let ?create = "\<lambda>token. OS_TaskCreate_Impl t token (flags OR OS_ADD_TASK_FLAGS)"
  obtain i s1 where c: "create_object env TT nm (task_fill nm (n, pr, f, sp)) ?create s = (OS_SUCCESS, Some i, s1)"
    and id: "idle s1" and lv: "live TT i s1"
    and tab: "OS_task_table s1 = (OS_task_table s)(unat (index_of i) := task_filled nm (n, pr, f, sp))"
    and "registry s (TT, index_of i) = None"
    and reg: "registry s1 = (registry s)((TT, index_of i) \<mapsto> (i, Some nm, OS_TaskGetId env s))"
    and names: "\<And>j. registered_name s1 TT nm j \<longleftrightarrow> j = i"
    by (rule tt.create_succeeds[OF assms(1-3,6,7), of ?create "(n, pr, f, sp)"]) (use assms(8) in blast)+
  have reg_i: "registry s1 (TT, index_of i) = Some (i, Some nm, OS_TaskGetId env s)" by (simp add: reg)
  obtain st a where sp: "OS_TaskSetPriority env t i pr' s1 = (st, ticked TT (if st = OS_SUCCESS
      then s1\<lparr>impl := a, OS_task_table := (OS_task_table s1)(unat (index_of i) :=
             (OS_task_table s1 (unat (index_of i)))\<lparr>task_priority := pr'\<rparr>)\<rparr>
      else s1\<lparr>impl := a\<rparr>))" and st: "\<exists>token s'. fst (OS_TaskSetPriority_Impl t token pr' s') = st"
    by (rule TaskSetPriority_live[OF id lv])
  have st0: "st = OS_SUCCESS" using st assms(9) by auto
  let ?s2 = "ticked TT (s1\<lparr>impl := a, OS_task_table := (OS_task_table s1)(unat (index_of i) :=
             (OS_task_table s1 (unat (index_of i)))\<lparr>task_priority := pr'\<rparr>)\<rparr>)"
  have id2: "idle ?s2" using id by simp
  have reg2: "registry ?s2 = registry s1" by (simp add: registry_task_priority)
  have lv2: "live TT i ?s2" using lv by (simp only: idle_live[OF id2] reg2 idle_live[OF id])
  have "OS_TaskGetInfo env t i True s1 = (OS_SUCCESS, Some \<lparr>task_prop_name = nm, task_prop_creator = OS_TaskGetId env s,
      task_prop_stack_size = n, task_prop_priority = pr\<rparr>, ticked TT s1)"
    using TaskGetInfo_live[OF id lv reg_i assms(10), of env] assms(3)
    by (simp add: tab task_filled_def strncpy_cleared_fits)
  moreover have "OS_TaskGetInfo env t i True ?s2 = (OS_SUCCESS, Some \<lparr>task_prop_name = nm, task_prop_creator = OS_TaskGetId env s,
      task_prop_stack_size = n, task_prop_priority = pr'\<rparr>, ticked TT ?s2)"
    using TaskGetInfo_live[OF id2 lv2 reg_i[folded reg2] assms(10), of env] assms(3)
    by (simp add: tab task_filled_def strncpy_cleared_fits)
  moreover have "OS_TaskGetIdByName env True (Some nm) s1 = (OS_SUCCESS, Some i, ticked TT s1)"
    unfolding TaskGetIdByName_shape by (rule tt.find_unique[OF id assms(3) names])
  moreover have "OS_TaskCreate env t True (Some nm) f sp n pr flags s = (OS_SUCCESS, Some i, s1)"
    using c by (simp add: TaskCreate_shape[OF assms(3-5)])
  moreover have "OS_TaskSetPriority env t i pr' s1 = (OS_SUCCESS, ?s2)" using sp st0 by simp
  ultimately show ?thesis by blast
qed

theorem OS_TaskCreate_info_witness:
  "\<exists>i s1 s2. OS_TaskCreate quiet_env example_task_impl True (Some ''CFE_ES'') (Some 4096) None 8192 68 0 (fresh_state [])
      = (OS_SUCCESS, Some i, s1) \<and>
    OS_TaskSetPriority quiet_env example_task_impl i 50 s1 = (OS_SUCCESS, s2) \<and>
    OS_TaskGetInfo quiet_env example_task_impl i True s2 = (OS_SUCCESS, Some \<lparr>task_prop_name = ''CFE_ES'',
      task_prop_creator = OS_TaskGetId quiet_env (fresh_state [] :: nat list os_state),
      task_prop_stack_size = 8192, task_prop_priority = 50\<rparr>, ticked TT s2)"
proof -
  have "\<exists>k < OS_GetMaxForObjectType TT. registry (fresh_state ([] :: nat list)) (TT, k) = None"
    by (simp add: OS_GetMaxForObjectType_def os_max_defs exI[of _ 0])
  from OS_TaskCreate_info[of "fresh_state []" quiet_env "''CFE_ES''" 8192 "Some 4096" example_task_impl None 68 0 50,
      OF _ _ _ _ _ this]
  show ?thesis by (auto simp: OS_MAX_API_NAME_def OS_CHECK_SIZE_def example_task_impl_def)
qed



text \<open>A task that exits removes itself: its record is free and no lock stays held, whatever
  the implementation layer answers.\<close>

theorem OS_TaskExit_removes:
  assumes "idle s" "live TT i s" "OS_TaskGetId_Impl env (impl s) = i"
  shows "idle (OS_TaskExit env t s) \<and> registry (OS_TaskExit env t s) = (registry s)((TT, index_of i) := None)"
proof -
  obtain a where e: "OS_TaskExit env t s =
      (ticked TT (upd_common (record_of TT (index_of i)) (\<lambda>ob. ob\<lparr>active_id := 0\<rparr>) s))\<lparr>impl := a\<rparr>"
    by (rule TaskExit_live[OF assms])
  have d: "deleted_state env TT i OS_SUCCESS a s = ticked TT (ticked TT (upd_common (record_of TT (index_of i))
      (\<lambda>ob. ob\<lparr>active_id := 0\<rparr>) (s\<lparr>impl := event_impl env OS_EVENT_RESOURCE_DELETED i (s\<lparr>impl := a\<rparr>)\<rparr>)))"
    by (simp add: deleted_state_def)
  have "registry (upd_common (record_of TT (index_of i)) (\<lambda>ob. ob\<lparr>active_id := 0\<rparr>) s) = (registry s)((TT, index_of i) := None)"
    using deleted_registry[OF assms(1,2), of env OS_SUCCESS a] by (simp add: d impl_upd_common[symmetric])
  moreover have "idle (upd_common (record_of TT (index_of i)) (\<lambda>ob. ob\<lparr>active_id := 0\<rparr>) s)"
    by (rule idle_upd_common[OF assms(1) id_of_type_facts(6)[OF idle_live_record(1)[OF assms(1,2)]]])
      (use idle_live_record[OF assms(1,2)] idleD[OF assms(1)] in \<open>auto simp: idle_slot_def\<close>)
  ultimately show ?thesis by (simp add: e)
qed

theorem OS_TaskExit_removes_witness:
  "\<exists>i (s :: nat list os_state). live TT i s \<and>
    registry (OS_TaskExit (quiet_env\<lparr>OS_TaskGetId_Impl := (\<lambda>_. i)\<rparr>) example_task_impl s)
      = (registry s)((TT, index_of i) := None)"
proof -
  obtain s :: "nat list os_state" and i where s: "idle s" "live TT i s"
    by (rule tt.some_live[of "''CFE_ES''"]) (simp_all add: OS_MAX_API_NAME_def)
  then show ?thesis
    using OS_TaskExit_removes[OF s, of "quiet_env\<lparr>OS_TaskGetId_Impl := (\<lambda>_. i)\<rparr>" example_task_impl]
    by auto
qed

end
