(* ===== verification/Posix_Tasks.thy ===== *)
theory Posix_Tasks
  imports Task Posix_IO
begin

text \<open>
  The POSIX implementation of tasks, \<^verbatim>\<open>src/src/os/posix/src/os-impl-tasks.c\<close>, with the global variables
  of the layer and the delay computation of \<^verbatim>\<open>os-impl-common.c\<close>. The calls of the thread library are
  the fields of a record; a call that fails gives the error number. Thread attributes are a record
  that the attribute calls fill in.
\<close>

subsection \<open>State and host\<close>

record POSIX_PriorityLimits =
  PriorityMax :: int
  PriorityMin :: int

record POSIX_GlobalVars =
  EnableTaskPriorities :: bool
  TruncateQueueDepth :: nat
  ClockAccuracyNsec :: u32
  ThreadKey :: nat
  MaximumSigMask :: "int set"
  NormalSigMask :: "int set"
  PageSize :: nat
  PriLimits :: POSIX_PriorityLimits
  SelectedRtScheduler :: int

record 'h posix_tasks =
  globals :: POSIX_GlobalVars
  OS_impl_task_table :: "nat \<Rightarrow> nat"
  thread_host :: 'h

datatype thread_entry = Entry_task | Entry_timebase | Entry_console

record thread_attr =
  attr_stack :: "ptr \<times> nat"
  attr_joinable :: bool
  attr_explicit :: bool
  attr_policy :: int
  attr_priority :: int

datatype attr_call = Attr_init | Attr_setstack | Attr_setstacksize | Attr_setdetachstate | Attr_setinheritsched
  | Attr_setschedpolicy | Attr_getschedparam | Attr_setschedparam

record 'h thread_calls =
  sys_sched_priority_max :: "int \<Rightarrow> int"
  sys_sched_priority_min :: "int \<Rightarrow> int"
  sys_key_create :: "'h \<Rightarrow> (errno + nat) \<times> 'h"
  sys_sigprocmask :: "int set \<Rightarrow> 'h \<Rightarrow> int set \<times> 'h"
  sys_ignore_signal :: "int \<Rightarrow> 'h \<Rightarrow> 'h"
  sys_getschedparam :: "'h \<Rightarrow> errno + int"
  sys_setschedparam :: "int \<Rightarrow> int \<Rightarrow> 'h \<Rightarrow> (errno + unit) \<times> 'h"
  sys_pagesize :: int
  sys_attr_ok :: "attr_call \<Rightarrow> thread_attr \<Rightarrow> bool"
  sys_pthread_create :: "thread_attr \<Rightarrow> thread_entry \<Rightarrow> osal_id_t \<Rightarrow> 'h \<Rightarrow> (errno + nat) \<times> 'h"
  sys_detach :: "nat \<Rightarrow> 'h \<Rightarrow> (errno + unit) \<times> 'h"
  sys_cancel :: "nat \<Rightarrow> 'h \<Rightarrow> (errno + unit) \<times> 'h"
  sys_join :: "nat \<Rightarrow> 'h \<Rightarrow> (errno + unit) \<times> 'h"
  sys_exit :: "'h \<Rightarrow> 'h"
  sys_self :: "'h \<Rightarrow> nat"
  sys_setschedprio :: "nat \<Rightarrow> int \<Rightarrow> 'h \<Rightarrow> (errno + unit) \<times> 'h"
  sys_setspecific :: "nat \<Rightarrow> osal_id_t \<Rightarrow> 'h \<Rightarrow> (errno + unit) \<times> 'h"
  sys_getspecific :: "nat \<Rightarrow> 'h \<Rightarrow> osal_id_t"
  sys_cancel_mode :: "'h \<Rightarrow> 'h"
  sys_gettime :: "clockid \<Rightarrow> 'h \<Rightarrow> int \<times> int"
  sys_nanosleep :: "int \<times> int \<Rightarrow> 'h \<Rightarrow> (errno + unit) \<times> 'h"
  sys_stack_min :: nat

abbreviation (input) SCHED_FIFO :: int where "SCHED_FIFO \<equiv> 1"
abbreviation (input) SCHED_RR :: int where "SCHED_RR \<equiv> 2"
abbreviation (input) SIGHUP :: int where "SIGHUP \<equiv> 1"
abbreviation (input) SIGRTMIN :: int where "SIGRTMIN \<equiv> 34"
abbreviation (input) SIGRTMAX :: int where "SIGRTMAX \<equiv> 64"

definition OS_MAX_TASK_PRIORITY :: int where "OS_MAX_TASK_PRIORITY = 255"

subsection \<open>Priorities\<close>

definition OS_PriorityRemap :: "POSIX_PriorityLimits \<Rightarrow> u8 \<Rightarrow> int" where
  "OS_PriorityRemap lim InputPri =
    (if InputPri = 0 then PriorityMax lim
     else if uint InputPri \<ge> OS_MAX_TASK_PRIORITY then PriorityMin lim
     else (((OS_MAX_TASK_PRIORITY - 1) - uint InputPri) * ((PriorityMax lim - PriorityMin lim) - 2)
            + OS_MAX_TASK_PRIORITY sdiv 2) sdiv (OS_MAX_TASK_PRIORITY - 2)
          + (PriorityMin lim + 1))"

text \<open>\<open>None\<close> when the policy is not usable.\<close>

definition OS_Posix_GetSchedulerParams :: "'h thread_calls \<Rightarrow> int \<Rightarrow> POSIX_PriorityLimits option" where
  "OS_Posix_GetSchedulerParams c sched_policy =
    (let mx = sys_sched_priority_max c sched_policy; mn = sys_sched_priority_min c sched_policy
     in if mx < 0 then None
        else if mn < 0 then None
        else if mx - mn < 4 then None
        else Some \<lparr>PriorityMax = mx, PriorityMin = mn\<rparr>)"

definition choose_policy :: "'h thread_calls \<Rightarrow> (int \<times> POSIX_PriorityLimits) option" where
  "choose_policy c =
    (case (OS_Posix_GetSchedulerParams c SCHED_FIFO, OS_Posix_GetSchedulerParams c SCHED_RR) of
       (Some fifo, Some rr) \<Rightarrow>
         (if PriorityMax fifo - PriorityMin fifo > OS_MAX_TASK_PRIORITY then Some (SCHED_FIFO, fifo) else Some (SCHED_RR, rr))
     | (Some fifo, None) \<Rightarrow> Some (SCHED_FIFO, fifo)
     | (None, Some rr) \<Rightarrow> Some (SCHED_RR, rr)
     | (None, None) \<Rightarrow> None)"

text \<open>The limits for the tasks, below the priority of the root task.\<close>

definition task_limits :: "POSIX_PriorityLimits \<Rightarrow> POSIX_PriorityLimits" where
  "task_limits lim =
    (let lim1 = lim\<lparr>PriorityMax := PriorityMax lim - 1\<rparr>
     in if PriorityMax lim1 - PriorityMin lim1 > OS_MAX_TASK_PRIORITY
        then lim1\<lparr>PriorityMax := PriorityMin lim1 + OS_MAX_TASK_PRIORITY\<rparr> else lim1)"

definition select_scheduler :: "'h thread_calls \<Rightarrow> 'h posix_tasks \<Rightarrow> 'h posix_tasks" where
  "select_scheduler c a =
    (case sys_getschedparam c (thread_host a) of
       Inl e \<Rightarrow> a
     | Inr policy \<Rightarrow>
         let a1 = a\<lparr>globals := (globals a)\<lparr>SelectedRtScheduler := policy\<rparr>\<rparr>
         in case choose_policy c of
              None \<Rightarrow> a1
            | Some (sched_policy, lim) \<Rightarrow>
                let a2 = a1\<lparr>globals := (globals a1)\<lparr>PriLimits := task_limits lim\<rparr>\<rparr>
                in case sys_setschedparam c sched_policy (PriorityMax lim) (thread_host a2) of
                     (Inl e, h) \<Rightarrow> a2\<lparr>thread_host := h\<rparr>
                   | (Inr _, h) \<Rightarrow> a2\<lparr>globals := (globals a2)\<lparr>SelectedRtScheduler := sched_policy, EnableTaskPriorities := True\<rparr>,
                                      thread_host := h\<rparr>)"

definition signal_masks :: "'h thread_calls \<Rightarrow> 'h posix_tasks \<Rightarrow> 'h posix_tasks" where
  "signal_masks c a =
    (let mx = {1..SIGRTMAX} - {2, 6, 11, 4, 7, 8}
     in case sys_sigprocmask c mx (thread_host a) of
          (old, h) \<Rightarrow>
            a\<lparr>globals := (globals a)\<lparr>MaximumSigMask := mx, NormalSigMask := (old \<union> {SIGRTMIN..SIGRTMAX}) - {SIGHUP}\<rparr>,
              thread_host := sys_ignore_signal c SIGHUP h\<rparr>)"

text \<open>The argument \<open>permissive\<close> is the configuration option of that name.\<close>

definition OS_Posix_TaskAPI_Impl_Init :: "bool \<Rightarrow> 'h thread_calls \<Rightarrow> 'h posix_tasks \<Rightarrow> status \<times> 'h posix_tasks" where
  "OS_Posix_TaskAPI_Impl_Init permissive c a =
    (let a1 = a\<lparr>OS_impl_task_table := (\<lambda>_. 0)\<rparr>
     in case sys_key_create c (thread_host a1) of
          (Inl e, h) \<Rightarrow> (OS_ERROR, a1\<lparr>thread_host := h\<rparr>)
        | (Inr key, h) \<Rightarrow>
            let a2 = select_scheduler c (signal_masks c (a1\<lparr>globals := (globals a1)\<lparr>ThreadKey := key\<rparr>, thread_host := h\<rparr>))
            in if \<not> permissive \<and> \<not> EnableTaskPriorities (globals a2) then (OS_ERROR, a2)
               else if sys_pagesize c < 0 then (OS_ERROR, a2)
               else (OS_SUCCESS, a2\<lparr>globals := (globals a2)\<lparr>PageSize := nat (sys_pagesize c)\<rparr>\<rparr>))"

subsection \<open>Threads\<close>

definition stack_size_adjusted :: "nat \<Rightarrow> nat \<Rightarrow> nat \<Rightarrow> nat" where
  "stack_size_adjusted extra page stacksz = (let n = stacksz + extra + (page - 1) in n - n mod page)"

definition zero_attr :: thread_attr where
  "zero_attr = \<lparr>attr_stack = (None, 0), attr_joinable = True, attr_explicit = False, attr_policy = 0, attr_priority = 0\<rparr>"

text \<open>The attributes of a new thread, \<open>None\<close> when one of the calls fails.\<close>

definition thread_attributes :: "'h thread_calls \<Rightarrow> POSIX_GlobalVars \<Rightarrow> u8 \<Rightarrow> ptr \<Rightarrow> nat \<Rightarrow> thread_attr option" where
  "thread_attributes c g priority stackptr stacksz =
    (let ok = (\<lambda>f x. if sys_attr_ok c f x then Some x else None);
         a0 = zero_attr;
         stack = (if stackptr \<noteq> None then ok Attr_setstack (a0\<lparr>attr_stack := (stackptr, stacksz)\<rparr>)
                  else ok Attr_setstacksize (a0\<lparr>attr_stack := (None, stack_size_adjusted (sys_stack_min c) (PageSize g) stacksz)\<rparr>))
     in if \<not> sys_attr_ok c Attr_init a0 then None
        else
          Option.bind stack (\<lambda>a1.
          Option.bind (ok Attr_setdetachstate (a1\<lparr>attr_joinable := True\<rparr>)) (\<lambda>a2.
          if \<not> EnableTaskPriorities g then Some a2
          else
            Option.bind (ok Attr_setinheritsched (a2\<lparr>attr_explicit := True\<rparr>)) (\<lambda>a3.
            Option.bind (ok Attr_setschedpolicy (a3\<lparr>attr_policy := SelectedRtScheduler g\<rparr>)) (\<lambda>a4.
            Option.bind (ok Attr_getschedparam a4) (\<lambda>a5.
            ok Attr_setschedparam (a5\<lparr>attr_priority := OS_PriorityRemap (PriLimits g) priority\<rparr>)))))))"

text \<open>The thread, where one was made.\<close>

definition OS_Posix_InternalTaskCreate_Impl ::
    "'h thread_calls \<Rightarrow> POSIX_GlobalVars \<Rightarrow> u8 \<Rightarrow> ptr \<Rightarrow> nat \<Rightarrow> thread_entry \<Rightarrow> osal_id_t \<Rightarrow> 'h \<Rightarrow> status \<times> nat option \<times> 'h" where
  "OS_Posix_InternalTaskCreate_Impl c g priority stackptr stacksz entry arg h =
    (case thread_attributes c g priority stackptr stacksz of
       None \<Rightarrow> (OS_ERROR, None, h)
     | Some attr \<Rightarrow>
         (case sys_pthread_create c attr entry arg h of
            (Inl e, h') \<Rightarrow> (OS_ERROR, None, h')
          | (Inr pthr, h') \<Rightarrow> (OS_SUCCESS, Some pthr, h')))"

text \<open>Without priorities the priority in the shared table is overwritten.\<close>

definition posix_TaskCreate ::
    "'h thread_calls \<Rightarrow> OS_object_token \<Rightarrow> u32 \<Rightarrow> 'h posix_tasks os_state \<Rightarrow> status \<times> 'h posix_tasks os_state" where
  "posix_TaskCreate c token flags s =
    (let j = unat (obj_idx token); a = impl s; g = globals a;
         s1 = (if \<not> EnableTaskPriorities g
               then s\<lparr>OS_task_table := (OS_task_table s)(j := (OS_task_table s j)\<lparr>task_priority := word_of_int OS_MAX_TASK_PRIORITY\<rparr>)\<rparr>
               else s);
         task = OS_task_table s1 j
     in case OS_Posix_InternalTaskCreate_Impl c g (task_priority task) (task_stack_pointer task) (task_stack_size task)
               Entry_task (obj_id token) (thread_host a) of
          (return_code, pthr, h) \<Rightarrow>
            (return_code, s1\<lparr>impl := a\<lparr>OS_impl_task_table := (case pthr of None \<Rightarrow> OS_impl_task_table a
               | Some p \<Rightarrow> (OS_impl_task_table a)(j := p)), thread_host := h\<rparr>\<rparr>))"

definition OS_PthreadTaskEntry :: "'i idmap_env \<Rightarrow> 'i task_impl \<Rightarrow> osal_id_t \<Rightarrow> 'i os_state \<Rightarrow> 'i os_state" where
  "OS_PthreadTaskEntry env t local_arg s = OS_TaskEntryPoint env t local_arg s"

definition posix_TaskDetach :: "'h thread_calls \<Rightarrow> OS_object_token \<Rightarrow> 'h posix_tasks \<Rightarrow> status \<times> 'h posix_tasks" where
  "posix_TaskDetach c token a =
    (case sys_detach c (OS_impl_task_table a (unat (obj_idx token))) (thread_host a) of
       (Inl e, h) \<Rightarrow> (OS_ERROR, a\<lparr>thread_host := h\<rparr>)
     | (Inr _, h) \<Rightarrow> (OS_SUCCESS, a\<lparr>thread_host := h\<rparr>))"

definition posix_TaskMatch :: "'h thread_calls \<Rightarrow> OS_object_token \<Rightarrow> 'h posix_tasks \<Rightarrow> status" where
  "posix_TaskMatch c token a =
    (if sys_self c (thread_host a) \<noteq> OS_impl_task_table a (unat (obj_idx token)) then OS_ERROR else OS_SUCCESS)"

definition posix_TaskDelete :: "'h thread_calls \<Rightarrow> OS_object_token \<Rightarrow> 'h posix_tasks \<Rightarrow> status \<times> 'h posix_tasks" where
  "posix_TaskDelete c token a =
    (let pthr = OS_impl_task_table a (unat (obj_idx token))
     in case sys_cancel c pthr (thread_host a) of
          (Inl e, h) \<Rightarrow> (OS_SUCCESS, a\<lparr>thread_host := h\<rparr>)
        | (Inr _, h) \<Rightarrow> (OS_SUCCESS, a\<lparr>thread_host := snd (sys_join c pthr h)\<rparr>))"

definition posix_TaskExit :: "'h thread_calls \<Rightarrow> 'h posix_tasks \<Rightarrow> 'h posix_tasks" where
  "posix_TaskExit c a = a\<lparr>thread_host := sys_exit c (thread_host a)\<rparr>"

text \<open>A point in time some milliseconds after another, with the nanoseconds brought below a second.\<close>

definition delay_until :: "u32 \<Rightarrow> int \<times> int \<Rightarrow> int \<times> int" where
  "delay_until msecs = (\<lambda>(tv_sec, tv_nsec).
    let sec = tv_sec + uint (msecs div 1000); nsec = tv_nsec + 1000000 * uint (msecs mod 1000)
    in if nsec \<ge> 1000000000 then (sec + 1, nsec - 1000000000) else (sec, nsec))"

definition OS_Posix_CompAbsDelayTime :: "'h thread_calls \<Rightarrow> u32 \<Rightarrow> 'h \<Rightarrow> int \<times> int" where
  "OS_Posix_CompAbsDelayTime c msecs h = delay_until msecs (sys_gettime c CLOCK_REALTIME h)"

partial_function (option) sleep_loop :: "'h thread_calls \<Rightarrow> int \<times> int \<Rightarrow> 'h \<Rightarrow> (status \<times> 'h) option" where
  "sleep_loop c sleep_end h =
    (case sys_nanosleep c sleep_end h of
       (Inr _, h') \<Rightarrow> Some (OS_SUCCESS, h')
     | (Inl e, h') \<Rightarrow> if e = EINTR then sleep_loop c sleep_end h' else Some (OS_ERROR, h'))"

definition posix_TaskDelay :: "'h thread_calls \<Rightarrow> u32 \<Rightarrow> 'h posix_tasks \<Rightarrow> (status \<times> 'h posix_tasks) option" where
  "posix_TaskDelay c millisecond a =
     map_option (\<lambda>(st, h). (st, a\<lparr>thread_host := h\<rparr>))
       (sleep_loop c (delay_until millisecond (sys_gettime c CLOCK_MONOTONIC (thread_host a))) (thread_host a))"

definition posix_TaskSetPriority :: "'h thread_calls \<Rightarrow> OS_object_token \<Rightarrow> u8 \<Rightarrow> 'h posix_tasks \<Rightarrow> status \<times> 'h posix_tasks" where
  "posix_TaskSetPriority c token new_priority a =
    (if EnableTaskPriorities (globals a) then
       (case sys_setschedprio c (OS_impl_task_table a (unat (obj_idx token))) (OS_PriorityRemap (PriLimits (globals a)) new_priority)
               (thread_host a) of
          (Inl e, h) \<Rightarrow> (OS_ERROR, a\<lparr>thread_host := h\<rparr>)
        | (Inr _, h) \<Rightarrow> (OS_SUCCESS, a\<lparr>thread_host := h\<rparr>))
     else (OS_SUCCESS, a))"

definition posix_TaskRegister :: "'h thread_calls \<Rightarrow> osal_id_t \<Rightarrow> 'h posix_tasks \<Rightarrow> status \<times> 'h posix_tasks" where
  "posix_TaskRegister c global_task_id a =
    (case sys_setspecific c (ThreadKey (globals a)) global_task_id (sys_cancel_mode c (thread_host a)) of
       (Inl e, h) \<Rightarrow> (OS_ERROR, a\<lparr>thread_host := h\<rparr>)
     | (Inr _, h) \<Rightarrow> (OS_SUCCESS, a\<lparr>thread_host := h\<rparr>))"

definition posix_TaskGetId :: "'h thread_calls \<Rightarrow> 'h posix_tasks \<Rightarrow> osal_id_t" where
  "posix_TaskGetId c a = sys_getspecific c (ThreadKey (globals a)) (thread_host a)"

definition posix_TaskGetInfo :: "OS_object_token \<Rightarrow> OS_task_prop \<Rightarrow> status \<times> OS_task_prop" where
  "posix_TaskGetInfo token task_prop = (OS_SUCCESS, task_prop)"

definition posix_TaskIdMatchSystemData :: "nat \<Rightarrow> 'h posix_tasks match_func" where
  "posix_TaskIdMatchSystemData target s token obj \<longleftrightarrow> target = OS_impl_task_table (impl s) (unat (obj_idx token))"

text \<open>The size of a thread identifier is a parameter.\<close>

definition posix_TaskValidateSystemData :: "nat \<Rightarrow> ptr \<Rightarrow> nat \<Rightarrow> status" where
  "posix_TaskValidateSystemData thread_size sysdata sysdata_size =
    (if sysdata = None \<or> sysdata_size \<noteq> thread_size then OS_INVALID_POINTER else OS_SUCCESS)"

subsection \<open>The order of the priorities\<close>

text \<open>The priorities other than the first and the last, spread over the levels in between.\<close>

definition spread :: "int \<Rightarrow> int \<Rightarrow> int" where
  "spread S p = ((254 - p) * (S - 2) + 127) div 253"

lemma spread_bounds: "1 \<le> p \<Longrightarrow> p \<le> 254 \<Longrightarrow> 2 \<le> S \<Longrightarrow> 0 \<le> spread S p \<and> spread S p \<le> S - 2"
proof -
  assume a: "1 \<le> p" "p \<le> 254" "2 \<le> S"
  then have "0 \<le> (254 - p) * (S - 2)" by simp
  moreover from a have "(254 - p) * (S - 2) \<le> 253 * (S - 2)" by (intro mult_right_mono) simp_all
  then have "spread S p \<le> (253 * (S - 2) + 127) div 253" unfolding spread_def by (intro zdiv_mono1) simp_all
  moreover have "(253 * (S - 2) + 127) div 253 = S - 2" using div_mult_self2[of 253 127 "S - 2"] by (simp add: add.commute)
  ultimately show ?thesis unfolding spread_def by (simp add: pos_imp_zdiv_nonneg_iff)
qed

lemma spread_mono: "p \<le> q \<Longrightarrow> 2 \<le> S \<Longrightarrow> spread S q \<le> spread S p"
  unfolding spread_def by (intro zdiv_mono1) (auto intro: mult_right_mono)

lemma remap_middle: "p \<noteq> 0 \<Longrightarrow> p \<noteq> 255 \<Longrightarrow> 1 \<le> uint p \<and> uint p \<le> 254" for p :: u8
proof -
  assume "p \<noteq> 0" "p \<noteq> 255"
  then have "uint p \<noteq> 0" "uint p \<noteq> 255" by (auto simp: word_uint_eq_iff)
  moreover have "0 \<le> uint p" "uint p < 256" using unsigned_less[of p, where ?'a = int] by simp_all
  ultimately show ?thesis by linarith
qed

lemma PriorityRemap_spread:
  assumes "3 \<le> PriorityMax lim - PriorityMin lim"
  shows "OS_PriorityRemap lim p =
    (if p = 0 then PriorityMax lim else if p = 255 then PriorityMin lim
     else PriorityMin lim + 1 + spread (PriorityMax lim - PriorityMin lim) (uint p))"
proof -
  have "0 \<le> (254 - uint p) * (PriorityMax lim - PriorityMin lim - 2) + 127" "uint p < 255" if "p \<noteq> 0" "p \<noteq> 255"
    using remap_middle[OF that] assms by simp_all
  then show ?thesis
    by (auto simp: OS_PriorityRemap_def OS_MAX_TASK_PRIORITY_def spread_def sdiv_pos)
qed

lemma PriorityRemap_bounds:
  assumes "3 \<le> PriorityMax lim - PriorityMin lim"
  shows "PriorityMin lim \<le> OS_PriorityRemap lim p \<and> OS_PriorityRemap lim p \<le> PriorityMax lim"
proof (cases "p = 0 \<or> p = 255")
  case False
  then have "1 \<le> uint p" "uint p \<le> 254" using remap_middle[of p] by simp_all
  with False assms spread_bounds[of "uint p" "PriorityMax lim - PriorityMin lim"] show ?thesis
    by (simp add: PriorityRemap_spread)
qed (use assms in \<open>auto simp: PriorityRemap_spread\<close>)

lemma PriorityRemap_antimono:
  assumes "3 \<le> PriorityMax lim - PriorityMin lim" "p \<le> q"
  shows "OS_PriorityRemap lim q \<le> OS_PriorityRemap lim p"
proof (cases "p = 0 \<or> q = 255")
  case True
  moreover have "OS_PriorityRemap lim 0 = PriorityMax lim" "OS_PriorityRemap lim 255 = PriorityMin lim"
    by (simp_all add: PriorityRemap_spread[OF assms(1)])
  ultimately show ?thesis using PriorityRemap_bounds[OF assms(1)] by metis
next
  case False
  with assms(2) have q: "q \<noteq> 0" by auto
  moreover have "p \<noteq> 255" using False assms(2) remap_middle[OF q] by (auto simp: word_le_def)
  ultimately show ?thesis using False assms spread_mono[of "uint p" "uint q" "PriorityMax lim - PriorityMin lim"]
    by (simp add: PriorityRemap_spread word_le_def)
qed

lemma PriorityRemap_exact:
  assumes "PriorityMax lim - PriorityMin lim = 255"
  shows "OS_PriorityRemap lim p = PriorityMax lim - uint p"
proof -
  have "spread 255 x = 254 - x" for x unfolding spread_def by simp
  with assms show ?thesis by (auto simp: PriorityRemap_spread)
qed

lemma choose_policy_limits:
  assumes "choose_policy c = Some (policy, lim)"
  shows "PriorityMax lim = sys_sched_priority_max c policy \<and> PriorityMin lim = sys_sched_priority_min c policy
    \<and> 4 \<le> PriorityMax lim - PriorityMin lim"
  using assms by (auto simp: choose_policy_def OS_Posix_GetSchedulerParams_def Let_def split: option.splits if_splits)

lemma task_limits_spread:
  assumes "4 \<le> PriorityMax lim - PriorityMin lim"
  shows "PriorityMin (task_limits lim) = PriorityMin lim" "PriorityMax (task_limits lim) < PriorityMax lim"
    "3 \<le> PriorityMax (task_limits lim) - PriorityMin (task_limits lim)"
    "PriorityMax lim - PriorityMin lim > 255 \<Longrightarrow> PriorityMax (task_limits lim) - PriorityMin (task_limits lim) = 255"
  using assms by (auto simp: task_limits_def OS_MAX_TASK_PRIORITY_def Let_def)

lemma select_scheduler_enabled:
  assumes "\<not> EnableTaskPriorities (globals a)" "EnableTaskPriorities (globals (select_scheduler c a))"
  obtains policy lim where "choose_policy c = Some (policy, lim)" "PriLimits (globals (select_scheduler c a)) = task_limits lim"
    "SelectedRtScheduler (globals (select_scheduler c a)) = policy"
  using assms by (auto simp: select_scheduler_def Let_def split: sum.splits option.splits prod.splits)

text \<open>C14: When the task layer has started in strict mode, the priorities it hands to the host are
  levels that the chosen scheduling policy has, all below the level of the root task; a task that is
  more urgent in OSAL, which counts downwards, is never less urgent on the host; and where the host
  has enough levels, different priorities stay different.\<close>

theorem posix_priorities:
  assumes "OS_Posix_TaskAPI_Impl_Init False c a = (OS_SUCCESS, a')" "\<not> EnableTaskPriorities (globals a)"
  shows "let lim = PriLimits (globals a'); policy = SelectedRtScheduler (globals a');
      mx = sys_sched_priority_max c policy; mn = sys_sched_priority_min c policy in
    mn \<le> OS_PriorityRemap lim p \<and> OS_PriorityRemap lim p < mx
    \<and> (p \<le> q \<longrightarrow> OS_PriorityRemap lim q \<le> OS_PriorityRemap lim p)
    \<and> (mx - mn > 255 \<longrightarrow> OS_PriorityRemap lim p = mn + 255 - uint p)"
proof -
  obtain a1 where "a' = (select_scheduler c a1)\<lparr>globals := (globals (select_scheduler c a1))\<lparr>PageSize := nat (sys_pagesize c)\<rparr>\<rparr>"
    and "EnableTaskPriorities (globals (select_scheduler c a1))" "\<not> EnableTaskPriorities (globals a1)"
    using assms by (auto simp: OS_Posix_TaskAPI_Impl_Init_def signal_masks_def Let_def split: sum.splits prod.splits if_splits)
  then obtain policy lim where c: "choose_policy c = Some (policy, lim)" and lim: "PriLimits (globals a') = task_limits lim"
    "SelectedRtScheduler (globals a') = policy"
    by (auto elim: select_scheduler_enabled)
  note l = choose_policy_limits[OF c]
  note t = task_limits_spread[OF l[THEN conjunct2, THEN conjunct2]]
  show ?thesis
    using PriorityRemap_bounds[OF t(3), of p] PriorityRemap_antimono[OF t(3), of p q] PriorityRemap_exact[OF t(4), of p] t(1,2,4) l
    by (auto simp: lim Let_def)
qed

definition example_threads :: "unit thread_calls" where
  "example_threads =
    \<lparr>sys_sched_priority_max = (\<lambda>_. 99), sys_sched_priority_min = (\<lambda>_. 1), sys_key_create = (\<lambda>h. (Inr 1, h)),
     sys_sigprocmask = (\<lambda>_ h. ({}, h)), sys_ignore_signal = (\<lambda>_ h. h), sys_getschedparam = (\<lambda>_. Inr 0),
     sys_setschedparam = (\<lambda>_ _ h. (Inr (), h)), sys_pagesize = 4096, sys_attr_ok = (\<lambda>_ _. True),
     sys_pthread_create = (\<lambda>_ _ _ h. (Inr 7, h)), sys_detach = (\<lambda>_ h. (Inr (), h)), sys_cancel = (\<lambda>_ h. (Inr (), h)),
     sys_join = (\<lambda>_ h. (Inr (), h)), sys_exit = (\<lambda>h. h), sys_self = (\<lambda>_. 1), sys_setschedprio = (\<lambda>_ _ h. (Inr (), h)),
     sys_setspecific = (\<lambda>_ _ h. (Inr (), h)), sys_getspecific = (\<lambda>_ _. 0), sys_cancel_mode = (\<lambda>h. h),
     sys_gettime = (\<lambda>_ _. (0, 0)), sys_nanosleep = (\<lambda>_ h. (Inr (), h)), sys_stack_min = 16384\<rparr>"

definition example_tasks :: "unit posix_tasks" where
  "example_tasks = \<lparr>globals = \<lparr>EnableTaskPriorities = False, TruncateQueueDepth = 0, ClockAccuracyNsec = 0, ThreadKey = 0,
       MaximumSigMask = {}, NormalSigMask = {}, PageSize = 0, PriLimits = \<lparr>PriorityMax = 0, PriorityMin = 0\<rparr>,
       SelectedRtScheduler = 0\<rparr>, OS_impl_task_table = (\<lambda>_. 0), thread_host = ()\<rparr>"

theorem posix_priorities_witness:
  "fst (OS_Posix_TaskAPI_Impl_Init False example_threads example_tasks) = OS_SUCCESS
   \<and> (let lim = PriLimits (globals (snd (OS_Posix_TaskAPI_Impl_Init False example_threads example_tasks))) in
        1 \<le> OS_PriorityRemap lim 100 \<and> OS_PriorityRemap lim 100 < 99 \<and> OS_PriorityRemap lim 200 \<le> OS_PriorityRemap lim 100)"
proof -
  have i: "fst (OS_Posix_TaskAPI_Impl_Init False example_threads example_tasks) = OS_SUCCESS"
    by (simp add: OS_Posix_TaskAPI_Impl_Init_def select_scheduler_def signal_masks_def choose_policy_def
        OS_Posix_GetSchedulerParams_def example_threads_def example_tasks_def OS_MAX_TASK_PRIORITY_def Let_def)
  moreover have "\<not> EnableTaskPriorities (globals example_tasks)" by (simp add: example_tasks_def)
  ultimately show ?thesis
    using posix_priorities[of example_threads example_tasks _ 100 200] prod.collapse[of "OS_Posix_TaskAPI_Impl_Init False example_threads example_tasks"]
    by (auto simp: Let_def example_threads_def)
qed

end
