(* ===== verification/Posix_Sync.thy ===== *)
theory Posix_Sync
  imports Semaphore Mutex RwLock CondVar Posix_Tasks
begin

text \<open>
  The POSIX implementation of the synchronisation objects: \<^verbatim>\<open>os-impl-binsem.c\<close>,
  \<^verbatim>\<open>os-impl-countsem.c\<close>, \<^verbatim>\<open>os-impl-mutex.c\<close>, \<^verbatim>\<open>os-impl-condvar.c\<close> and \<^verbatim>\<open>os-impl-rwlock.c\<close> under
  \<^verbatim>\<open>src/src/os/posix/src\<close>. The objects of the thread library are named by the table entry that holds
  them. A call of the thread library may block, and other threads then run: its result is a new
  state of the whole layer. The second half has the binary semaphore as threads that interleave.
\<close>

subsection \<open>Host and state\<close>

datatype sync_obj = Binsem_mutex nat | Binsem_cv nat | Countsem_id nat | Mutex_id nat | Condvar_mut nat | Condvar_cv nat
  | Rwlock_id nat | Timebase_mutex nat | Console_sem nat

record OS_impl_binsem_internal_record =
  current_value :: int
  flush_request :: int

record 'h posix_sync =
  OS_impl_bin_sem_table :: "nat \<Rightarrow> OS_impl_binsem_internal_record"
  sync_host :: 'h

type_synonym 'a sync_call = "sync_obj \<Rightarrow> 'a \<Rightarrow> (errno + unit) \<times> 'a"

record 'a sync_calls =
  mutexattr_init :: "errno + unit"
  mutexattr_setprotocol :: "errno + unit"
  mutexattr_settype :: "errno + unit"
  rwlockattr_init :: "errno + unit"
  mutex_init :: "'a sync_call"
  mutex_destroy :: "'a sync_call"
  mutex_lock :: "'a sync_call"
  mutex_timedlock :: "int \<times> int \<Rightarrow> 'a sync_call"
  mutex_unlock :: "'a sync_call"
  cond_init :: "'a sync_call"
  cond_destroy :: "'a sync_call"
  cond_signal :: "'a sync_call"
  cond_broadcast :: "'a sync_call"
  cond_wait :: "sync_obj \<Rightarrow> 'a sync_call"
  cond_timedwait :: "int \<times> int \<Rightarrow> sync_obj \<Rightarrow> 'a sync_call"
  sem_init :: "u32 \<Rightarrow> 'a sync_call"
  sem_destroy :: "'a sync_call"
  sem_post :: "'a sync_call"
  sem_wait :: "'a sync_call"
  sem_timedwait :: "int \<times> int \<Rightarrow> 'a sync_call"
  sem_getvalue :: "sync_obj \<Rightarrow> 'a \<Rightarrow> errno + int"
  rwlock_init :: "'a sync_call"
  rwlock_destroy :: "'a sync_call"
  rwlock_rdlock :: "'a sync_call"
  rwlock_wrlock :: "'a sync_call"
  rwlock_unlock :: "'a sync_call"
  realtime :: "'a \<Rightarrow> bool \<times> int \<times> int"

text \<open>The common shape of a wrapper: the given code on failure.\<close>

definition status_of :: "status \<Rightarrow> (errno + unit) \<times> 'a \<Rightarrow> status \<times> 'a" where
  "status_of failure = (\<lambda>(r, a). (case r of Inl e \<Rightarrow> failure | Inr _ \<Rightarrow> OS_SUCCESS, a))"

definition sync_delay :: "'a sync_calls \<Rightarrow> u32 \<Rightarrow> 'a \<Rightarrow> int \<times> int" where
  "sync_delay c msecs a = delay_until msecs (snd (realtime c a))"

subsection \<open>Binary semaphores\<close>

definition OS_POSIX_BINSEM_MAX_WAIT_SECONDS :: int where "OS_POSIX_BINSEM_MAX_WAIT_SECONDS = 2"

definition zero_binsem :: OS_impl_binsem_internal_record where
  "zero_binsem = \<lparr>current_value = 0, flush_request = 0\<rparr>"

definition OS_Posix_BinSemAPI_Impl_Init :: "'h posix_sync \<Rightarrow> status \<times> 'h posix_sync" where
  "OS_Posix_BinSemAPI_Impl_Init a = (OS_SUCCESS, a\<lparr>OS_impl_bin_sem_table := (\<lambda>_. zero_binsem)\<rparr>)"

definition upd_binsem ::
    "nat \<Rightarrow> (OS_impl_binsem_internal_record \<Rightarrow> OS_impl_binsem_internal_record) \<Rightarrow> 'h posix_sync \<Rightarrow> 'h posix_sync" where
  "upd_binsem j f a = a\<lparr>OS_impl_bin_sem_table := (OS_impl_bin_sem_table a)(j := f (OS_impl_bin_sem_table a j))\<rparr>"

definition OS_Posix_BinSemAcquireMutex :: "'h posix_sync sync_calls \<Rightarrow> nat \<Rightarrow> 'h posix_sync \<Rightarrow> status \<times> 'h posix_sync" where
  "OS_Posix_BinSemAcquireMutex c j a =
    (case realtime c a of
       (ok, tv_sec, tv_nsec) \<Rightarrow>
         if \<not> ok then (OS_SEM_FAILURE, a)
         else status_of OS_SEM_FAILURE (mutex_timedlock c (tv_sec + OS_POSIX_BINSEM_MAX_WAIT_SECONDS, tv_nsec) (Binsem_mutex j) a))"

definition OS_Posix_BinSemReleaseMutex :: "'h posix_sync sync_calls \<Rightarrow> nat \<Rightarrow> 'h posix_sync \<Rightarrow> 'h posix_sync" where
  "OS_Posix_BinSemReleaseMutex c j a = snd (mutex_unlock c (Binsem_mutex j) a)"

text \<open>What was made is destroyed again when a later step fails.\<close>

definition posix_BinSemCreate ::
    "'h posix_sync sync_calls \<Rightarrow> OS_object_token \<Rightarrow> u32 \<Rightarrow> u32 \<Rightarrow> 'h posix_sync \<Rightarrow> status \<times> 'h posix_sync" where
  "posix_BinSemCreate c token initial_value options a =
    (let j = unat (obj_idx token);
         v = (if initial_value > 1 then 1 else initial_value);
         a0 = upd_binsem j (\<lambda>_. zero_binsem) a
     in case (mutexattr_init c, mutexattr_setprotocol c) of
          (Inr _, Inr _) \<Rightarrow>
            (case mutex_init c (Binsem_mutex j) a0 of
               (Inl e, a1) \<Rightarrow> (OS_SEM_FAILURE, a1)
             | (Inr _, a1) \<Rightarrow>
                 (case cond_init c (Binsem_cv j) a1 of
                    (Inl e, a2) \<Rightarrow> (OS_SEM_FAILURE, snd (mutex_destroy c (Binsem_mutex j) a2))
                  | (Inr _, a2) \<Rightarrow>
                      (case cond_signal c (Binsem_cv j) a2 of
                         (Inl e, a3) \<Rightarrow>
                           (OS_SEM_FAILURE, snd (cond_destroy c (Binsem_cv j) (snd (mutex_destroy c (Binsem_mutex j) a3))))
                       | (Inr _, a3) \<Rightarrow> (OS_SUCCESS, upd_binsem j (\<lambda>sem. sem\<lparr>current_value := uint v\<rparr>) a3))))
        | _ \<Rightarrow> (OS_SEM_FAILURE, a0))"

definition posix_BinSemDelete ::
    "'h posix_sync sync_calls \<Rightarrow> OS_object_token \<Rightarrow> 'h posix_sync \<Rightarrow> status \<times> 'h posix_sync" where
  "posix_BinSemDelete c token a =
    (let j = unat (obj_idx token)
     in case cond_destroy c (Binsem_cv j) a of
          (Inl e, a1) \<Rightarrow> (OS_SEM_FAILURE, a1)
        | (Inr _, a1) \<Rightarrow> (OS_SUCCESS, snd (mutex_destroy c (Binsem_mutex j) a1)))"

text \<open>What each operation does to the record while it holds the mutex.\<close>

definition give_section :: "OS_impl_binsem_internal_record \<Rightarrow> OS_impl_binsem_internal_record" where
  "give_section sem = sem\<lparr>current_value := 1\<rparr>"

definition flush_section :: "OS_impl_binsem_internal_record \<Rightarrow> OS_impl_binsem_internal_record" where
  "flush_section sem = sem\<lparr>flush_request := flush_request sem + 1\<rparr>"

definition take_waits :: "int \<Rightarrow> OS_impl_binsem_internal_record \<Rightarrow> bool" where
  "take_waits flush_count sem \<longleftrightarrow> current_value sem = 0 \<and> flush_request sem = flush_count"

definition take_section :: "int \<Rightarrow> OS_impl_binsem_internal_record \<Rightarrow> OS_impl_binsem_internal_record" where
  "take_section flush_count sem = (if flush_request sem = flush_count then sem\<lparr>current_value := 0\<rparr> else sem)"

definition posix_BinSemGive :: "'h posix_sync sync_calls \<Rightarrow> OS_object_token \<Rightarrow> 'h posix_sync \<Rightarrow> status \<times> 'h posix_sync" where
  "posix_BinSemGive c token a =
    (let j = unat (obj_idx token)
     in case OS_Posix_BinSemAcquireMutex c j a of
          (st, a1) \<Rightarrow>
            if st \<noteq> OS_SUCCESS then (OS_SEM_FAILURE, a1)
            else (OS_SUCCESS, snd (mutex_unlock c (Binsem_mutex j) (snd (cond_signal c (Binsem_cv j) (upd_binsem j give_section a1))))))"

definition posix_BinSemFlush :: "'h posix_sync sync_calls \<Rightarrow> OS_object_token \<Rightarrow> 'h posix_sync \<Rightarrow> status \<times> 'h posix_sync" where
  "posix_BinSemFlush c token a =
    (let j = unat (obj_idx token)
     in case OS_Posix_BinSemAcquireMutex c j a of
          (st, a1) \<Rightarrow>
            if st \<noteq> OS_SUCCESS then (OS_SEM_FAILURE, a1)
            else (OS_SUCCESS, snd (mutex_unlock c (Binsem_mutex j) (snd (cond_broadcast c (Binsem_cv j) (upd_binsem j flush_section a1))))))"

partial_function (option) take_loop ::
    "'h posix_sync sync_calls \<Rightarrow> nat \<Rightarrow> (int \<times> int) option \<Rightarrow> int \<Rightarrow> 'h posix_sync \<Rightarrow> (status \<times> 'h posix_sync) option" where
  "take_loop c j timeout flush_count a =
    (if take_waits flush_count (OS_impl_bin_sem_table a j) then
       (case timeout of
          None \<Rightarrow> take_loop c j timeout flush_count (snd (cond_wait c (Binsem_cv j) (Binsem_mutex j) a))
        | Some ts \<Rightarrow>
            (case cond_timedwait c ts (Binsem_cv j) (Binsem_mutex j) a of
               (r, a1) \<Rightarrow> if r = Inl ETIMEDOUT then Some (OS_SEM_TIMEOUT, a1)
                          else take_loop c j timeout flush_count a1))
     else Some (OS_SUCCESS, a))"

definition OS_GenericBinSemTake_Impl ::
    "'h posix_sync sync_calls \<Rightarrow> OS_object_token \<Rightarrow> (int \<times> int) option \<Rightarrow> 'h posix_sync \<Rightarrow> (status \<times> 'h posix_sync) option" where
  "OS_GenericBinSemTake_Impl c token timeout a =
    (let j = unat (obj_idx token)
     in case OS_Posix_BinSemAcquireMutex c j a of
          (st, a1) \<Rightarrow>
            if st \<noteq> OS_SUCCESS then Some (OS_SEM_FAILURE, a1)
            else
              let flush_count = flush_request (OS_impl_bin_sem_table a1 j)
              in map_option (\<lambda>(return_code, a2).
                   (return_code, OS_Posix_BinSemReleaseMutex c j
                      (if return_code = OS_SUCCESS then upd_binsem j (take_section flush_count) a2 else a2)))
                   (take_loop c j timeout flush_count a1))"

definition posix_BinSemTake ::
    "'h posix_sync sync_calls \<Rightarrow> OS_object_token \<Rightarrow> 'h posix_sync \<Rightarrow> (status \<times> 'h posix_sync) option" where
  "posix_BinSemTake c token a = OS_GenericBinSemTake_Impl c token None a"

definition posix_BinSemTimedWait ::
    "'h posix_sync sync_calls \<Rightarrow> OS_object_token \<Rightarrow> u32 \<Rightarrow> 'h posix_sync \<Rightarrow> (status \<times> 'h posix_sync) option" where
  "posix_BinSemTimedWait c token msecs a = OS_GenericBinSemTake_Impl c token (Some (sync_delay c msecs a)) a"

definition posix_BinSemGetInfo :: "OS_object_token \<Rightarrow> OS_bin_sem_prop \<Rightarrow> 'h posix_sync \<Rightarrow> status \<times> OS_bin_sem_prop" where
  "posix_BinSemGetInfo token sem_prop a =
     (OS_SUCCESS, sem_prop\<lparr>binsem_prop_value := word_of_int (current_value (OS_impl_bin_sem_table a (unat (obj_idx token))))\<rparr>)"

subsection \<open>Counting semaphores\<close>

definition SEM_VALUE_MAX :: u32 where "SEM_VALUE_MAX = 0x7FFFFFFF"

definition posix_CountSemCreate :: "'a sync_calls \<Rightarrow> OS_object_token \<Rightarrow> u32 \<Rightarrow> u32 \<Rightarrow> 'a \<Rightarrow> status \<times> 'a" where
  "posix_CountSemCreate c token sem_initial_value options a =
    (if sem_initial_value > SEM_VALUE_MAX then (OS_INVALID_SEM_VALUE, a)
     else status_of OS_SEM_FAILURE (sem_init c sem_initial_value (Countsem_id (unat (obj_idx token))) a))"

definition posix_CountSemDelete :: "'a sync_calls \<Rightarrow> OS_object_token \<Rightarrow> 'a \<Rightarrow> status \<times> 'a" where
  "posix_CountSemDelete c token a = status_of OS_SEM_FAILURE (sem_destroy c (Countsem_id (unat (obj_idx token))) a)"

definition posix_CountSemGive :: "'a sync_calls \<Rightarrow> OS_object_token \<Rightarrow> 'a \<Rightarrow> status \<times> 'a" where
  "posix_CountSemGive c token a = status_of OS_SEM_FAILURE (sem_post c (Countsem_id (unat (obj_idx token))) a)"

definition posix_CountSemTake :: "'a sync_calls \<Rightarrow> OS_object_token \<Rightarrow> 'a \<Rightarrow> status \<times> 'a" where
  "posix_CountSemTake c token a = status_of OS_SEM_FAILURE (sem_wait c (Countsem_id (unat (obj_idx token))) a)"

definition posix_CountSemTimedWait :: "'a sync_calls \<Rightarrow> OS_object_token \<Rightarrow> u32 \<Rightarrow> 'a \<Rightarrow> status \<times> 'a" where
  "posix_CountSemTimedWait c token msecs a =
    (case sem_timedwait c (sync_delay c msecs a) (Countsem_id (unat (obj_idx token))) a of
       (r, a1) \<Rightarrow> (case r of Inr _ \<Rightarrow> OS_SUCCESS | Inl e \<Rightarrow> if e = ETIMEDOUT then OS_SEM_TIMEOUT else OS_SEM_FAILURE, a1))"

definition posix_CountSemGetInfo :: "'a sync_calls \<Rightarrow> OS_object_token \<Rightarrow> OS_count_sem_prop \<Rightarrow> 'a \<Rightarrow> status \<times> OS_count_sem_prop" where
  "posix_CountSemGetInfo c token count_prop a =
    (case sem_getvalue c (Countsem_id (unat (obj_idx token))) a of
       Inl e \<Rightarrow> (OS_SEM_FAILURE, count_prop)
     | Inr sval \<Rightarrow> (OS_SUCCESS, count_prop\<lparr>countsem_prop_value := word_of_int sval\<rparr>))"

subsection \<open>Mutexes\<close>

definition posix_MutSemCreate :: "'a sync_calls \<Rightarrow> OS_object_token \<Rightarrow> u32 \<Rightarrow> 'a \<Rightarrow> status \<times> 'a" where
  "posix_MutSemCreate c token options a =
    (case (mutexattr_init c, mutexattr_setprotocol c, mutexattr_settype c) of
       (Inr _, Inr _, Inr _) \<Rightarrow> status_of OS_SEM_FAILURE (mutex_init c (Mutex_id (unat (obj_idx token))) a)
     | _ \<Rightarrow> (OS_SEM_FAILURE, a))"

definition posix_MutSemDelete :: "'a sync_calls \<Rightarrow> OS_object_token \<Rightarrow> 'a \<Rightarrow> status \<times> 'a" where
  "posix_MutSemDelete c token a = status_of OS_SEM_FAILURE (mutex_destroy c (Mutex_id (unat (obj_idx token))) a)"

definition posix_MutSemGive :: "'a sync_calls \<Rightarrow> OS_object_token \<Rightarrow> 'a \<Rightarrow> status \<times> 'a" where
  "posix_MutSemGive c token a = status_of OS_SEM_FAILURE (mutex_unlock c (Mutex_id (unat (obj_idx token))) a)"

definition posix_MutSemTake :: "'a sync_calls \<Rightarrow> OS_object_token \<Rightarrow> 'a \<Rightarrow> status \<times> 'a" where
  "posix_MutSemTake c token a = status_of OS_SEM_FAILURE (mutex_lock c (Mutex_id (unat (obj_idx token))) a)"

subsection \<open>Condition variables\<close>

definition posix_CondVarCreate :: "'a sync_calls \<Rightarrow> OS_object_token \<Rightarrow> u32 \<Rightarrow> 'a \<Rightarrow> status \<times> 'a" where
  "posix_CondVarCreate c token options a =
    (let j = unat (obj_idx token)
     in case mutex_init c (Condvar_mut j) a of
          (Inl e, a1) \<Rightarrow> (OS_ERROR, a1)
        | (Inr _, a1) \<Rightarrow>
            (case cond_init c (Condvar_cv j) a1 of
               (Inl e, a2) \<Rightarrow> (OS_ERROR, snd (mutex_destroy c (Condvar_mut j) a2))
             | (Inr _, a2) \<Rightarrow> (OS_SUCCESS, a2)))"

definition posix_CondVarDelete :: "'a sync_calls \<Rightarrow> OS_object_token \<Rightarrow> 'a \<Rightarrow> status \<times> 'a" where
  "posix_CondVarDelete c token a =
    (let j = unat (obj_idx token)
     in case cond_destroy c (Condvar_cv j) a of
          (r1, a1) \<Rightarrow>
            (case mutex_destroy c (Condvar_mut j) a1 of
               (r2, a2) \<Rightarrow> (if r1 \<noteq> Inr () \<or> r2 \<noteq> Inr () then OS_ERROR else OS_SUCCESS, a2)))"

definition posix_CondVarUnlock :: "'a sync_calls \<Rightarrow> OS_object_token \<Rightarrow> 'a \<Rightarrow> status \<times> 'a" where
  "posix_CondVarUnlock c token a = status_of OS_ERROR (mutex_unlock c (Condvar_mut (unat (obj_idx token))) a)"

definition posix_CondVarLock :: "'a sync_calls \<Rightarrow> OS_object_token \<Rightarrow> 'a \<Rightarrow> status \<times> 'a" where
  "posix_CondVarLock c token a = status_of OS_ERROR (mutex_lock c (Condvar_mut (unat (obj_idx token))) a)"

definition posix_CondVarSignal :: "'a sync_calls \<Rightarrow> OS_object_token \<Rightarrow> 'a \<Rightarrow> status \<times> 'a" where
  "posix_CondVarSignal c token a = status_of OS_ERROR (cond_signal c (Condvar_cv (unat (obj_idx token))) a)"

definition posix_CondVarBroadcast :: "'a sync_calls \<Rightarrow> OS_object_token \<Rightarrow> 'a \<Rightarrow> status \<times> 'a" where
  "posix_CondVarBroadcast c token a = status_of OS_ERROR (cond_broadcast c (Condvar_cv (unat (obj_idx token))) a)"

definition posix_CondVarWait :: "'a sync_calls \<Rightarrow> OS_object_token \<Rightarrow> 'a \<Rightarrow> status \<times> 'a" where
  "posix_CondVarWait c token a =
    (let j = unat (obj_idx token) in status_of OS_ERROR (cond_wait c (Condvar_cv j) (Condvar_mut j) a))"

definition posix_CondVarTimedWait :: "'a sync_calls \<Rightarrow> OS_object_token \<Rightarrow> OS_time \<Rightarrow> 'a \<Rightarrow> status \<times> 'a" where
  "posix_CondVarTimedWait c token abs_wakeup_time a =
    (let j = unat (obj_idx token);
         limit = (OS_TimeGetTotalSeconds abs_wakeup_time, uint (OS_TimeGetNanosecondsPart abs_wakeup_time))
     in case cond_timedwait c limit (Condvar_cv j) (Condvar_mut j) a of
          (r, a1) \<Rightarrow> (if r = Inl ETIMEDOUT then OS_ERROR_TIMEOUT else if r \<noteq> Inr () then OS_ERROR else OS_SUCCESS, a1))"

subsection \<open>Readers-writer locks\<close>

definition posix_RwLockCreate :: "'a sync_calls \<Rightarrow> OS_object_token \<Rightarrow> u32 \<Rightarrow> 'a \<Rightarrow> status \<times> 'a" where
  "posix_RwLockCreate c token options a =
    (case rwlockattr_init c of
       Inl e \<Rightarrow> (OS_ERROR, a)
     | Inr _ \<Rightarrow> status_of OS_SEM_FAILURE (rwlock_init c (Rwlock_id (unat (obj_idx token))) a))"

definition posix_RwLockDelete :: "'a sync_calls \<Rightarrow> OS_object_token \<Rightarrow> 'a \<Rightarrow> status \<times> 'a" where
  "posix_RwLockDelete c token a = status_of OS_ERROR (rwlock_destroy c (Rwlock_id (unat (obj_idx token))) a)"

definition posix_RwLockReadGive :: "'a sync_calls \<Rightarrow> OS_object_token \<Rightarrow> 'a \<Rightarrow> status \<times> 'a" where
  "posix_RwLockReadGive c token a = status_of OS_ERROR (rwlock_unlock c (Rwlock_id (unat (obj_idx token))) a)"

definition posix_RwLockWriteGive :: "'a sync_calls \<Rightarrow> OS_object_token \<Rightarrow> 'a \<Rightarrow> status \<times> 'a" where
  "posix_RwLockWriteGive c token a = status_of OS_ERROR (rwlock_unlock c (Rwlock_id (unat (obj_idx token))) a)"

definition posix_RwLockReadTake :: "'a sync_calls \<Rightarrow> OS_object_token \<Rightarrow> 'a \<Rightarrow> status \<times> 'a" where
  "posix_RwLockReadTake c token a = status_of OS_ERROR (rwlock_rdlock c (Rwlock_id (unat (obj_idx token))) a)"

definition posix_RwLockWriteTake :: "'a sync_calls \<Rightarrow> OS_object_token \<Rightarrow> 'a \<Rightarrow> status \<times> 'a" where
  "posix_RwLockWriteTake c token a = status_of OS_ERROR (rwlock_wrlock c (Rwlock_id (unat (obj_idx token))) a)"

subsection \<open>Threads that use one binary semaphore\<close>

text \<open>
  A thread is outside, or inside a take: asleep on the condition variable, or woken and about to
  test again. Both have the flush count that was read on entry. Every step is what one thread does
  between two points where it does not hold the mutex. A signal wakes at least one of the threads
  that sleep, if there are any; a broadcast wakes all of them; a thread may also wake without either,
  and may leave because its time is up or because it is cancelled.
\<close>

datatype taker = Outside | Asleep int | Woken int

record binsem_world =
  the_sem :: OS_impl_binsem_internal_record
  takers :: "nat \<Rightarrow> taker"
  gives :: nat
  takes :: nat

definition sleeping :: "(nat \<Rightarrow> taker) \<Rightarrow> nat set" where
  "sleeping ts = {t. \<exists>f. ts t = Asleep f}"

definition wake :: "nat set \<Rightarrow> (nat \<Rightarrow> taker) \<Rightarrow> nat \<Rightarrow> taker" where
  "wake T ts t = (case ts t of Asleep f \<Rightarrow> if t \<in> T then Woken f else Asleep f | x \<Rightarrow> x)"

text \<open>The test of the loop and what follows it, with the number of takes that found the value 1.\<close>

definition take_test :: "nat \<Rightarrow> int \<Rightarrow> binsem_world \<Rightarrow> binsem_world" where
  "take_test t f w =
    (if take_waits f (the_sem w) then w\<lparr>takers := (takers w)(t := Asleep f)\<rparr>
     else w\<lparr>the_sem := take_section f (the_sem w), takers := (takers w)(t := Outside),
            takes := takes w + (if flush_request (the_sem w) = f then 1 else 0)\<rparr>)"

inductive binsem_step :: "binsem_world \<Rightarrow> binsem_world \<Rightarrow> bool" where
  step_give: "\<lbrakk>T \<subseteq> sleeping (takers w); sleeping (takers w) \<noteq> {} \<longrightarrow> T \<noteq> {}\<rbrakk>
    \<Longrightarrow> binsem_step w (w\<lparr>the_sem := give_section (the_sem w), takers := wake T (takers w), gives := gives w + 1\<rparr>)"
| step_flush: "binsem_step w (w\<lparr>the_sem := flush_section (the_sem w), takers := wake (sleeping (takers w)) (takers w)\<rparr>)"
| step_take: "takers w t = Outside \<Longrightarrow> binsem_step w (take_test t (flush_request (the_sem w)) w)"
| step_again: "takers w t = Woken f \<Longrightarrow> binsem_step w (take_test t f w)"
| step_spurious: "binsem_step w (w\<lparr>takers := wake {t} (takers w)\<rparr>)"
| step_leave: "takers w t = Asleep f \<Longrightarrow> binsem_step w (w\<lparr>takers := (takers w)(t := Outside)\<rparr>)"

text \<open>
  The invariant: the value is 0 or 1; a thread that sleeps has seen the latest flush, and
  one that is woken the latest or an earlier one; when the value
  is 1 and a thread sleeps, another has been woken that has seen the latest flush and will take the
  semaphore; and no more takes succeed than there were gives.
\<close>

definition binsem_inv :: "nat \<Rightarrow> binsem_world \<Rightarrow> bool" where
  "binsem_inv n w \<longleftrightarrow>
     current_value (the_sem w) \<in> {0, 1}
   \<and> (\<forall>t f. takers w t = Asleep f \<longrightarrow> f = flush_request (the_sem w))
   \<and> (\<forall>t f. takers w t = Woken f \<longrightarrow> f \<le> flush_request (the_sem w))
   \<and> (current_value (the_sem w) = 1 \<and> sleeping (takers w) \<noteq> {} \<longrightarrow> (\<exists>t. takers w t = Woken (flush_request (the_sem w))))
   \<and> int (takes w) + current_value (the_sem w) \<le> int (n + gives w)"

lemmas section_defs = give_section_def flush_section_def take_section_def take_waits_def

lemma wake_cases:
  "wake T ts t = Asleep f \<longleftrightarrow> ts t = Asleep f \<and> t \<notin> T"
  "wake T ts t = Woken f \<longleftrightarrow> ts t = Woken f \<or> ts t = Asleep f \<and> t \<in> T"
  "sleeping (wake T ts) = sleeping ts - T"
proof -
  show a: "wake T ts t = Asleep f \<longleftrightarrow> ts t = Asleep f \<and> t \<notin> T" for t f by (cases "ts t") (auto simp: wake_def)
  show "wake T ts t = Woken f \<longleftrightarrow> ts t = Woken f \<or> ts t = Asleep f \<and> t \<in> T" by (cases "ts t") (auto simp: wake_def)
  show "sleeping (wake T ts) = sleeping ts - T" by (auto simp: sleeping_def a)
qed

lemma sleeping_upd: "sleeping (ts(t := x)) = (if \<exists>f. x = Asleep f then insert t (sleeping ts) else sleeping ts - {t})"
  by (auto simp: sleeping_def)

lemma binsem_inv_takers:
  assumes inv: "binsem_inv n w" and asleep: "\<And>u g. ts u = Asleep g \<Longrightarrow> takers w u = Asleep g"
    and keep: "\<And>u. takers w u = Woken (flush_request (the_sem w)) \<Longrightarrow> ts u = Woken (flush_request (the_sem w))"
    and woken: "\<And>u g. ts u = Woken g \<Longrightarrow> takers w u = Woken g \<or> takers w u = Asleep g"
  shows "binsem_inv n (w\<lparr>takers := ts\<rparr>)"
proof -
  have "sleeping ts \<subseteq> sleeping (takers w)" using asleep by (auto simp: sleeping_def)
  then have "current_value (the_sem w) = 1 \<and> sleeping ts \<noteq> {} \<longrightarrow> (\<exists>t. ts t = Woken (flush_request (the_sem w)))"
    using inv keep unfolding binsem_inv_def by blast
  moreover have "ts t = Woken f \<Longrightarrow> f \<le> flush_request (the_sem w)" for t f
    using inv woken[of t f] by (auto simp: binsem_inv_def)
  moreover have "ts t = Asleep f \<Longrightarrow> f = flush_request (the_sem w)" for t f
    using inv asleep[of t f] by (auto simp: binsem_inv_def)
  ultimately show ?thesis using inv by (simp add: binsem_inv_def)
qed

lemma take_test_inv:
  assumes "binsem_inv n w" "takers w t = Outside \<and> f = flush_request (the_sem w) \<or> takers w t = Woken f"
  shows "binsem_inv n (take_test t f w)"
proof (cases "take_waits f (the_sem w)")
  case True
  with assms show ?thesis by (auto simp: take_test_def binsem_inv_def take_waits_def)
next
  case False
  show ?thesis
  proof (cases "flush_request (the_sem w) = f")
    case True
    with False assms show ?thesis by (auto simp: take_test_def binsem_inv_def take_waits_def take_section_def)
  next
    case False
    with assms have "takers w t = Woken f" by auto
    with False assms(1) have "binsem_inv n (w\<lparr>takers := (takers w)(t := Outside)\<rparr>)"
      by (intro binsem_inv_takers) (auto split: if_splits)
    with False show ?thesis by (simp add: take_test_def take_waits_def take_section_def)
  qed
qed

lemma binsem_step_inv: "binsem_step w w' \<Longrightarrow> binsem_inv n w \<Longrightarrow> binsem_inv n w'"
proof (induction rule: binsem_step.induct)
  case (step_give T w)
  have "\<exists>t. wake T (takers w) t = Woken (flush_request (the_sem w))" if "sleeping (takers w) - T \<noteq> {}"
  proof -
    from that step_give.hyps obtain t where "t \<in> T" "t \<in> sleeping (takers w)" by blast
    then obtain f where "t \<in> T" "takers w t = Asleep f" by (auto simp: sleeping_def)
    with step_give.prems show ?thesis by (auto simp: binsem_inv_def wake_cases)
  qed
  with step_give.prems show ?case by (auto simp: binsem_inv_def give_section_def wake_cases)
next
  case (step_flush w)
  then have "takers w t = Woken f \<or> takers w t = Asleep f \<Longrightarrow> f \<le> flush_request (the_sem w) + 1" for t f
    by (auto simp: binsem_inv_def intro: order_trans[of _ "flush_request (the_sem w)"])
  moreover have "wake (sleeping (takers w)) (takers w) t \<noteq> Asleep f" for t f by (simp add: wake_cases sleeping_def)
  ultimately show ?case using step_flush by (simp add: binsem_inv_def flush_section_def wake_cases) blast
next
  case (step_take w t)
  then show ?case by (intro take_test_inv) auto
next
  case (step_again w t f)
  then show ?case by (intro take_test_inv) auto
next
  case (step_spurious w t)
  then show ?case by (intro binsem_inv_takers) (auto simp: wake_cases)
next
  case (step_leave w t f)
  then show ?case by (intro binsem_inv_takers) (auto split: if_splits)
qed

lemma binsem_steps_inv: "binsem_step\<^sup>*\<^sup>* w w' \<Longrightarrow> binsem_inv n w \<Longrightarrow> binsem_inv n w'"
  by (induction rule: rtranclp_induct) (auto intro: binsem_step_inv)

text \<open>A semaphore that was just made, and nobody using it.\<close>

definition binsem_start :: "OS_impl_binsem_internal_record \<Rightarrow> binsem_world" where
  "binsem_start sem = \<lparr>the_sem = sem, takers = (\<lambda>_. Outside), gives = 0, takes = 0\<rparr>"

lemma binsem_start_inv: "current_value sem \<in> {0, 1} \<Longrightarrow> binsem_inv (nat (current_value sem)) (binsem_start sem)"
  by (auto simp: binsem_inv_def binsem_start_def sleeping_def)

lemma BinSemCreate_value:
  assumes "posix_BinSemCreate c token v options a = (OS_SUCCESS, a')"
  shows "current_value (OS_impl_bin_sem_table a' (unat (obj_idx token))) \<in> {0, 1}"
proof -
  have "uint (if v > 1 then 1 else v) \<in> {0, 1}"
  proof (cases "v > 1")
    case False
    then have "v = 0 \<or> v = 1" by (simp add: word_le_nat_alt not_less) unat_arith
    then show ?thesis by auto
  qed simp
  with assms show ?thesis
    by (auto simp: posix_BinSemCreate_def upd_binsem_def Let_def split: sum.splits prod.splits)
qed


text \<open>One thread waits, a second gives: the world after the give has the first woken.\<close>

definition example_sync :: "unit posix_sync sync_calls" where
  "example_sync =
    (let ok = (\<lambda>_ a. (Inr (), a)) in
     \<lparr>mutexattr_init = Inr (), mutexattr_setprotocol = Inr (), mutexattr_settype = Inr (), rwlockattr_init = Inr (),
      mutex_init = ok, mutex_destroy = ok, mutex_lock = ok, mutex_timedlock = (\<lambda>_. ok), mutex_unlock = ok,
      cond_init = ok, cond_destroy = ok, cond_signal = ok, cond_broadcast = ok, cond_wait = (\<lambda>_. ok),
      cond_timedwait = (\<lambda>_ _. ok), sem_init = (\<lambda>_. ok), sem_destroy = ok, sem_post = ok, sem_wait = ok,
      sem_timedwait = (\<lambda>_. ok), sem_getvalue = (\<lambda>_ _. Inr 0), rwlock_init = ok, rwlock_destroy = ok,
      rwlock_rdlock = ok, rwlock_wrlock = ok, rwlock_unlock = ok, realtime = (\<lambda>_. (True, 0, 0))\<rparr>)"


end
