(* ===== verification/Queue.thy ===== *)
theory Queue
  imports Object_Lifecycle
begin

unbundle bit_operations_syntax

text \<open>
  Message queues, \<^verbatim>\<open>src/src/os/shared/src/osapi-queue.c\<close>. The implementation layer is
  a record of functions; each reads the state and returns a status and the new implementation
  state. An output argument that is not written is \<open>None\<close>.
\<close>

record OS_queue_prop =
  queue_prop_name :: string
  queue_prop_creator :: osal_id_t

record 'i queue_impl =
  OS_QueueCreate_Impl :: "OS_object_token \<Rightarrow> u32 \<Rightarrow> 'i os_state \<Rightarrow> status \<times> 'i"
  OS_QueueDelete_Impl :: "OS_object_token \<Rightarrow> 'i os_state \<Rightarrow> status \<times> 'i"
  OS_QueueGet_Impl :: "OS_object_token \<Rightarrow> nat \<Rightarrow> u32 \<Rightarrow> 'i os_state \<Rightarrow> status \<times> string \<times> nat \<times> 'i"
  OS_QueuePut_Impl :: "OS_object_token \<Rightarrow> string \<Rightarrow> nat \<Rightarrow> u32 \<Rightarrow> 'i os_state \<Rightarrow> status \<times> 'i"

definition OS_QueueAPI_Init :: "'i os_state \<Rightarrow> status \<times> 'i os_state" where
  "OS_QueueAPI_Init s = (OS_SUCCESS, s\<lparr>OS_queue_table := (\<lambda>_. zero_queue)\<rparr>)"

text \<open>\<^verbatim>\<open>OS_OBJECT_INIT\<close> on the table entry and the two assignments after it.\<close>

definition queue_fill :: "string \<Rightarrow> nat \<times> nat \<Rightarrow> OS_object_token \<Rightarrow> 'i os_state \<Rightarrow> 'i os_state" where
  "queue_fill name = (\<lambda>(depth, data_size) token s.
    (let j = unat (obj_idx token);
         s1 = s\<lparr>OS_queue_table := (OS_queue_table s)
                  (j := zero_queue\<lparr>queue_name := strncpy_cleared name OS_MAX_API_NAME\<rparr>)\<rparr>;
         s2 = upd_common (OS_ObjectIdGlobalFromToken token) (\<lambda>ob. ob\<lparr>name_entry := Some (Queue_name j)\<rparr>) s1
     in s2\<lparr>OS_queue_table := (OS_queue_table s2)
             (j := (OS_queue_table s2 j)\<lparr>max_depth := depth, max_size := data_size\<rparr>)\<rparr>))"

definition OS_QueueCreate ::
    "'i idmap_env \<Rightarrow> 'i queue_impl \<Rightarrow> bool \<Rightarrow> string option \<Rightarrow> nat \<Rightarrow> nat \<Rightarrow> u32 \<Rightarrow> 'i os_state
      \<Rightarrow> status \<times> osal_id_t option \<times> 'i os_state" where
  "OS_QueueCreate env q has_id name depth data_size flags s =
    (if \<not> has_id then (OS_INVALID_POINTER, None, s)
     else
       case name of
         None \<Rightarrow> (OS_INVALID_POINTER, None, s)
       | Some nm \<Rightarrow>
           (if \<not> LENGTHCHECK nm OS_MAX_API_NAME then (OS_ERR_NAME_TOO_LONG, None, s)
            else if \<not> OS_CHECK_SIZE data_size then (OS_ERR_INVALID_SIZE, None, s)
            else if \<not> depth \<le> OS_QUEUE_MAX_DEPTH then (OS_QUEUE_INVALID_SIZE, None, s)
            else
              case OS_ObjectIdAllocateNew env OS_OBJECT_TYPE_OS_QUEUE (Some nm) s of
                (return_code, token, s1) \<Rightarrow>
                  (if return_code = OS_SUCCESS then
                     let s2 = queue_fill nm (depth, data_size) token s1
                     in case OS_QueueCreate_Impl q token flags s2 of
                          (st, a) \<Rightarrow>
                            (case OS_ObjectIdFinalizeNew env st token (s2\<lparr>impl := a\<rparr>) of
                               (st', i, token', s3) \<Rightarrow> (st', Some i, s3))
                   else (return_code, None, s1))))"

definition OS_QueueDelete :: "'i idmap_env \<Rightarrow> 'i queue_impl \<Rightarrow> osal_id_t \<Rightarrow> 'i os_state \<Rightarrow> status \<times> 'i os_state" where
  "OS_QueueDelete env q queue_id s =
    (case OS_ObjectIdGetById env OS_LOCK_MODE_EXCLUSIVE OS_OBJECT_TYPE_OS_QUEUE queue_id s of
       (return_code, token, s1) \<Rightarrow>
         (if return_code = OS_SUCCESS then
            (case OS_QueueDelete_Impl q token s1 of
               (st, a) \<Rightarrow>
                 (case OS_ObjectIdFinalizeDelete env st token (s1\<lparr>impl := a\<rparr>) of
                    (st', token', s2) \<Rightarrow> (st', s2)))
          else (return_code, s1)))"

text \<open>The result has the data written to the caller's buffer and \<^verbatim>\<open>*size_copied\<close>.\<close>

definition OS_QueueGet ::
    "'i idmap_env \<Rightarrow> 'i queue_impl \<Rightarrow> osal_id_t \<Rightarrow> bool \<Rightarrow> nat \<Rightarrow> bool \<Rightarrow> u32 \<Rightarrow> 'i os_state
      \<Rightarrow> status \<times> string option \<times> nat option \<times> 'i os_state" where
  "OS_QueueGet env q queue_id has_data n has_size_copied timeout s =
    (if \<not> has_data then (OS_INVALID_POINTER, None, None, s)
     else if \<not> has_size_copied then (OS_INVALID_POINTER, None, None, s)
     else if \<not> OS_CHECK_SIZE n then (OS_ERR_INVALID_SIZE, None, None, s)
     else
       case OS_ObjectIdGetById env OS_LOCK_MODE_NONE OS_OBJECT_TYPE_OS_QUEUE queue_id s of
         (return_code, token, s1) \<Rightarrow>
           (if return_code = OS_SUCCESS then
              (if n < max_size (OS_queue_table s1 (unat (obj_idx token)))
               then (OS_QUEUE_INVALID_SIZE, None, Some 0, s1)
               else (case OS_QueueGet_Impl q token n timeout s1 of
                       (st, data, copied, a) \<Rightarrow> (st, Some data, Some copied, s1\<lparr>impl := a\<rparr>)))
            else (return_code, None, None, s1)))"

definition OS_QueuePut ::
    "'i idmap_env \<Rightarrow> 'i queue_impl \<Rightarrow> osal_id_t \<Rightarrow> string option \<Rightarrow> nat \<Rightarrow> u32 \<Rightarrow> 'i os_state
      \<Rightarrow> status \<times> 'i os_state" where
  "OS_QueuePut env q queue_id data n flags s =
    (case data of
       None \<Rightarrow> (OS_INVALID_POINTER, s)
     | Some bytes \<Rightarrow>
         (if \<not> OS_CHECK_SIZE n then (OS_ERR_INVALID_SIZE, s)
          else
            case OS_ObjectIdGetById env OS_LOCK_MODE_NONE OS_OBJECT_TYPE_OS_QUEUE queue_id s of
              (return_code, token, s1) \<Rightarrow>
                (if return_code = OS_SUCCESS then
                   (if n > max_size (OS_queue_table s1 (unat (obj_idx token)))
                    then (OS_QUEUE_INVALID_SIZE, s1)
                    else (case OS_QueuePut_Impl q token bytes n flags s1 of (st, a) \<Rightarrow> (st, s1\<lparr>impl := a\<rparr>)))
                 else (return_code, s1))))"

definition OS_QueueGetIdByName ::
    "'i idmap_env \<Rightarrow> bool \<Rightarrow> string option \<Rightarrow> 'i os_state \<Rightarrow> status \<times> osal_id_t option \<times> 'i os_state" where
  "OS_QueueGetIdByName env has_id name s =
    (if \<not> has_id then (OS_INVALID_POINTER, None, s)
     else case name of None \<Rightarrow> (OS_INVALID_POINTER, None, s)
          | Some nm \<Rightarrow> OS_ObjectIdFindByName env OS_OBJECT_TYPE_OS_QUEUE (Some nm) s)"

definition OS_QueueGetInfo ::
    "'i idmap_env \<Rightarrow> osal_id_t \<Rightarrow> bool \<Rightarrow> 'i os_state \<Rightarrow> status \<times> OS_queue_prop option \<times> 'i os_state" where
  "OS_QueueGetInfo env queue_id has_prop s =
    (if \<not> has_prop then (OS_INVALID_POINTER, None, s)
     else
       let queue_prop = \<lparr>queue_prop_name = [], queue_prop_creator = 0\<rparr>
       in case OS_ObjectIdGetById env OS_LOCK_MODE_GLOBAL OS_OBJECT_TYPE_OS_QUEUE queue_id s of
            (return_code, token, s1) \<Rightarrow>
              (if return_code = OS_SUCCESS then
                 let rec = OS_common_table s1 (OS_ObjectIdGlobalFromToken token);
                     queue_prop1 = queue_prop\<lparr>queue_prop_name := strncpy_cleared (name_chars s1 (name_entry rec)) OS_MAX_API_NAME,
                                              queue_prop_creator := creator rec\<rparr>
                 in (return_code, Some queue_prop1, snd (OS_ObjectIdRelease env token s1))
               else (return_code, Some queue_prop, s1)))"

subsection \<open>The queue table as an object table\<close>

abbreviation (input) QT :: osal_objtype_t where "QT \<equiv> OS_OBJECT_TYPE_OS_QUEUE"

definition queue_filled :: "string \<Rightarrow> nat \<times> nat \<Rightarrow> OS_queue_internal_record" where
  "queue_filled nm = (\<lambda>(depth, data_size).
     \<lparr>queue_name = strncpy_cleared nm OS_MAX_API_NAME, max_size = data_size, max_depth = depth\<rparr>)"

interpretation qt: object_table QT Queue_name queue_fill OS_queue_table queue_filled
proof
  fix nm :: string and x :: "nat \<times> nat" and token :: OS_object_token and s :: "'i os_state" and p
  obtain depth n where x: "x = (depth, n)" by fastforce
  show "length nm < OS_MAX_API_NAME \<Longrightarrow> deref_name (queue_fill nm x token s) (Queue_name (unat (obj_idx token))) = nm"
    by (simp add: queue_fill_def x Let_def strncpy_cleared_fits)
  show "name_owner p \<noteq> (QT, unat (obj_idx token)) \<Longrightarrow> deref_name (queue_fill nm x token s) p = deref_name s p"
    by (cases p) (auto simp: queue_fill_def x Let_def)
qed (auto simp: queue_fill_def queue_filled_def Let_def zero_queue_def OS_GetMaxForObjectType_def os_max_defs
    split: prod.splits)

lemma QueueCreate_shape:
  assumes "length nm < OS_MAX_API_NAME" "OS_CHECK_SIZE n" "depth \<le> OS_QUEUE_MAX_DEPTH"
  shows "OS_QueueCreate env q True (Some nm) depth n flags s
    = create_object env QT nm (queue_fill nm (depth, n)) (\<lambda>token. OS_QueueCreate_Impl q token flags) s"
  using assms by (auto simp: OS_QueueCreate_def create_object_def LENGTHCHECK_def Let_def split: prod.split)

lemma QueueDelete_shape: "OS_QueueDelete env q = delete_object env QT (OS_QueueDelete_Impl q)"
  by (simp add: fun_eq_iff OS_QueueDelete_def delete_object_def)

lemma QueueGetIdByName_shape:
  "OS_QueueGetIdByName env True (Some nm) s = OS_ObjectIdFindByName env QT (Some nm) s"
  by (simp add: OS_QueueGetIdByName_def)

lemma QueuePut_shape:
  assumes "OS_CHECK_SIZE n"
  shows "OS_QueuePut env q i (Some bytes) n flags s = use_object env QT
    (\<lambda>token s. if n > max_size (OS_queue_table s (unat (obj_idx token))) then (OS_QUEUE_INVALID_SIZE, impl s)
               else OS_QueuePut_Impl q token bytes n flags s) i s"
  using assms by (auto simp: OS_QueuePut_def use_object_def split: prod.splits)

lemma QueueGetInfo_live:
  assumes "idle s" "live QT i s" "registry s (QT, index_of i) = Some (i, Some nm, c)"
  shows "OS_QueueGetInfo env i True s
    = (OS_SUCCESS, Some \<lparr>queue_prop_name = strncpy_cleared nm OS_MAX_API_NAME, queue_prop_creator = c\<rparr>, ticked QT s)"
proof -
  obtain k where "k AND 0xFF000000 = 0x4D000000"
    and "OS_ObjectIdGetById env OS_LOCK_MODE_GLOBAL QT i s
      = (OS_SUCCESS, tok OS_LOCK_MODE_GLOBAL k QT (index_of i) i,
         acquired QT k (upd_common (record_of QT (index_of i)) (\<lambda>ob. ob\<lparr>refcount := refcount ob + 1\<rparr>) s))"
    and "\<forall>s'. lock_free QT s' \<and> OS_common_table s' = OS_common_table s \<longrightarrow>
      OS_ObjectIdRelease env (tok OS_LOCK_MODE_GLOBAL k QT (index_of i) i)
        (acquired QT k (upd_common (record_of QT (index_of i)) (\<lambda>ob. ob\<lparr>refcount := refcount ob + 1\<rparr>) s'))
      = (tok OS_LOCK_MODE_NONE 0 QT (index_of i) i, ticked QT s')"
    by (rule GetById_Release_global[OF assms(1,2)])
  with idle_live_record(3)[OF assms(1,2)] qt.registered_record[OF assms] show ?thesis
    by (simp add: OS_QueueGetInfo_def Let_def)
qed

text \<open>An implementation layer that always succeeds, for concrete instances.\<close>

definition example_queue_impl :: "unit queue_impl" where
  "example_queue_impl = \<lparr>OS_QueueCreate_Impl = (\<lambda>_ _ _. (OS_SUCCESS, ())), OS_QueueDelete_Impl = (\<lambda>_ _. (OS_SUCCESS, ())),
     OS_QueueGet_Impl = (\<lambda>_ _ _ _. (OS_QUEUE_EMPTY, [], 0, ())), OS_QueuePut_Impl = (\<lambda>_ _ _ _ _. (OS_SUCCESS, ()))\<rparr>"

subsection \<open>Properties\<close>

text \<open>C1: Creating a queue refines one insertion into the registry. Whatever the implementation
  layer answers, the invariant holds afterwards; on success exactly one entry is new, with a
  fresh slot, the given name and the calling task as creator, and the queue record has the given
  depth and message size; on failure the registry is as before and the undefined ID is returned.\<close>

theorem OS_QueueCreate_refines:
  assumes "idle s" "event_ok env s" "length nm < OS_MAX_API_NAME" "OS_CHECK_SIZE n" "depth \<le> OS_QUEUE_MAX_DEPTH"
    and "\<exists>k < OS_GetMaxForObjectType QT. registry s (QT, k) = None" "\<nexists>i. registered_name s QT nm i"
  shows "case OS_QueueCreate env q True (Some nm) depth n flags s of (st, out, s') \<Rightarrow>
    \<exists>i. id_of_type QT i \<and> registry s (QT, index_of i) = None \<and> idle s' \<and>
      OS_queue_table s' = (OS_queue_table s)(unat (index_of i) := queue_filled nm (depth, n)) \<and>
      (if st = OS_SUCCESS
       then out = Some i \<and> registry s' = (registry s)((QT, index_of i) \<mapsto> (i, Some nm, OS_TaskGetId env s))
       else out = Some 0 \<and> registry s' = registry s)"
  unfolding QueueCreate_shape[OF assms(3-5)]
  using qt.create_refines[OF assms(1-3,6,7)] by (fastforce split: prod.splits)

theorem OS_QueueCreate_refines_witness:
  "case OS_QueueCreate quiet_env example_queue_impl True (Some ''CMD_PIPE'') 5 16 0 (fresh_state ()) of (st, out, s') \<Rightarrow>
    \<exists>i. id_of_type QT i \<and> registry (fresh_state ()) (QT, index_of i) = None \<and> idle s' \<and>
      OS_queue_table s' = (OS_queue_table (fresh_state ()))(unat (index_of i) := queue_filled ''CMD_PIPE'' (5, 16)) \<and>
      (if st = OS_SUCCESS
       then out = Some i \<and> registry s' = (registry (fresh_state ()))
              ((QT, index_of i) \<mapsto> (i, Some ''CMD_PIPE'', OS_TaskGetId quiet_env (fresh_state ())))
       else out = Some 0 \<and> registry s' = registry (fresh_state ()))"
  by (rule OS_QueueCreate_refines)
    (simp_all add: OS_MAX_API_NAME_def OS_CHECK_SIZE_def OS_QUEUE_MAX_DEPTH_def OS_GetMaxForObjectType_def
      os_max_defs exI[of _ 0])

text \<open>C21: When the implementation layer creates the queue, the call succeeds, and the new ID is
  what the name lookup returns; the queue's information is its name and creator; a message longer
  than the declared size is refused before the implementation sees it; and the name cannot be
  used a second time.\<close>

theorem OS_QueueCreate_usable:
  assumes "idle s" "event_ok env s" "length nm < OS_MAX_API_NAME" "OS_CHECK_SIZE n" "depth \<le> OS_QUEUE_MAX_DEPTH"
    and "\<exists>k < OS_GetMaxForObjectType QT. registry s (QT, k) = None" "\<nexists>i. registered_name s QT nm i"
    and "\<And>token s'. fst (OS_QueueCreate_Impl q token flags s') = OS_SUCCESS"
  shows "\<exists>i s1. OS_QueueCreate env q True (Some nm) depth n flags s = (OS_SUCCESS, Some i, s1) \<and>
    OS_QueueGetIdByName env True (Some nm) s1 = (OS_SUCCESS, Some i, ticked QT s1) \<and>
    OS_QueueGetInfo env i True s1
      = (OS_SUCCESS, Some \<lparr>queue_prop_name = nm, queue_prop_creator = OS_TaskGetId env s\<rparr>, ticked QT s1) \<and>
    (\<forall>bytes m fl. n < m \<and> OS_CHECK_SIZE m \<longrightarrow>
       OS_QueuePut env q i (Some bytes) m fl s1 = (OS_QUEUE_INVALID_SIZE, s1)) \<and>
    OS_QueueCreate env q True (Some nm) depth n flags s1 = (OS_ERR_NAME_TAKEN, None, ticked QT s1)"
proof -
  obtain i s1 where c: "create_object env QT nm (queue_fill nm (depth, n)) (\<lambda>token. OS_QueueCreate_Impl q token flags) s
      = (OS_SUCCESS, Some i, s1)"
    and id: "idle s1" and lv: "live QT i s1"
    and tab: "OS_queue_table s1 = (OS_queue_table s)(unat (index_of i) := queue_filled nm (depth, n))"
    and "registry s (QT, index_of i) = None"
    and reg: "registry s1 = (registry s)((QT, index_of i) \<mapsto> (i, Some nm, OS_TaskGetId env s))"
    and names: "\<And>j. registered_name s1 QT nm j \<longleftrightarrow> j = i"
    by (rule qt.create_succeeds[OF assms(1-3,6,7), of "\<lambda>token. OS_QueueCreate_Impl q token flags" "(depth, n)"])
      (use assms(8) in blast)+
  note shape = QueueCreate_shape[OF assms(3-5)]
  have reg_i: "registry s1 (QT, index_of i) = Some (i, Some nm, OS_TaskGetId env s)" by (simp add: reg)
  have "OS_QueueGetIdByName env True (Some nm) s1 = (OS_SUCCESS, Some i, ticked QT s1)"
    unfolding QueueGetIdByName_shape by (rule qt.find_unique[OF id assms(3) names])
  moreover have "OS_QueueGetInfo env i True s1
      = (OS_SUCCESS, Some \<lparr>queue_prop_name = nm, queue_prop_creator = OS_TaskGetId env s\<rparr>, ticked QT s1)"
    using QueueGetInfo_live[OF id lv reg_i] assms(3) by (simp add: strncpy_cleared_fits)
  moreover have "OS_QueuePut env q i (Some bytes) m fl s1 = (OS_QUEUE_INVALID_SIZE, s1)"
    if "n < m" "OS_CHECK_SIZE m" for bytes m fl
    using that tab by (simp add: QueuePut_shape use_object_live[OF id lv] queue_filled_def)
  moreover have "OS_QueueCreate env q True (Some nm) depth n flags s1 = (OS_ERR_NAME_TAKEN, None, ticked QT s1)"
    unfolding shape by (rule qt.create_name_taken[OF id]) (use names in blast)
  moreover have "OS_QueueCreate env q True (Some nm) depth n flags s = (OS_SUCCESS, Some i, s1)"
    using c by (simp add: shape)
  ultimately show ?thesis by blast
qed

theorem OS_QueueCreate_usable_witness:
  "\<exists>i s1. OS_QueueCreate quiet_env example_queue_impl True (Some ''CMD_PIPE'') 5 16 0 (fresh_state ())
      = (OS_SUCCESS, Some i, s1) \<and>
    OS_QueueGetIdByName quiet_env True (Some ''CMD_PIPE'') s1 = (OS_SUCCESS, Some i, ticked QT s1) \<and>
    OS_QueuePut quiet_env example_queue_impl i (Some (replicate 17 CHR ''x'')) 17 0 s1 = (OS_QUEUE_INVALID_SIZE, s1)"
proof -
  have "\<exists>k < OS_GetMaxForObjectType QT. registry (fresh_state ()) (QT, k) = None"
    by (simp add: OS_GetMaxForObjectType_def os_max_defs exI[of _ 0])
  from OS_QueueCreate_usable[of "fresh_state ()" quiet_env "''CMD_PIPE''" 16 5 example_queue_impl 0, OF _ _ _ _ _ this]
  show ?thesis
    by (auto simp: OS_MAX_API_NAME_def OS_CHECK_SIZE_def OS_QUEUE_MAX_DEPTH_def example_queue_impl_def)
qed

text \<open>Deleting a queue that the implementation layer gives up removes it: its ID is refused
  by every later operation and its name is free. An ID that is not a live queue is refused and
  nothing changes but the transaction counter.\<close>

theorem OS_QueueDelete_correct:
  assumes "idle s" "\<And>token s'. fst (OS_QueueDelete_Impl q token s') = OS_SUCCESS" "OS_CHECK_SIZE n"
  shows "case OS_QueueDelete env q i s of (st, s1) \<Rightarrow>
    if live QT i s
    then st = OS_SUCCESS \<and> idle s1 \<and> registry s1 = (registry s)((QT, index_of i) := None) \<and>
      OS_QueuePut env q i (Some bytes) n fl s1 = (OS_ERR_INVALID_ID, s1) \<and>
      OS_QueueDelete env q i s1 = (OS_ERR_INVALID_ID, ticked QT s1)
    else st = OS_ERR_INVALID_ID \<and> s1 = ticked QT s"
proof (cases "live QT i s")
  case True
  obtain st a where d: "OS_QueueDelete_Impl q (tok OS_LOCK_MODE_EXCLUSIVE 0 QT (index_of i) i) (claimed_state QT i s) = (st, a)"
    by fastforce
  with assms(2) have st: "st = OS_SUCCESS" by (metis fst_conv)
  from delete_object_live[where del = "OS_QueueDelete_Impl q", OF assms(1) True d] st
  have e: "OS_QueueDelete env q i s = (OS_SUCCESS, deleted_state env QT i OS_SUCCESS a s)"
    by (simp add: QueueDelete_shape)
  note r = deleted_registry[OF assms(1) True, of env OS_SUCCESS a] and id = deleted_idle[OF assms(1) True, of env OS_SUCCESS a]
  have dead: "\<not> live QT i (deleted_state env QT i OS_SUCCESS a s)" by (simp add: idle_live[OF id] r)
  with True e r id assms(3) show ?thesis
    by (simp add: QueuePut_shape use_object_dead[OF id dead qt.objtype_supported]
        QueueDelete_shape delete_object_dead[OF id dead qt.objtype_supported])
next
  case False
  then show ?thesis
    by (simp add: QueueDelete_shape delete_object_dead[OF assms(1) False qt.objtype_supported])
qed

theorem OS_QueueDelete_correct_witness:
  "\<exists>i s. live QT i s \<and> fst (OS_QueueDelete quiet_env example_queue_impl i s) = OS_SUCCESS \<and>
    registry (snd (OS_QueueDelete quiet_env example_queue_impl i s)) = (registry s)((QT, index_of i) := None)"
proof -
  obtain s :: "unit os_state" and i where "idle s" "live QT i s"
    by (rule qt.some_live[of "''CMD_PIPE''"]) (simp_all add: OS_MAX_API_NAME_def)
  then show ?thesis
    using OS_QueueDelete_correct[of s example_queue_impl 1 i quiet_env "[]" 0]
    by (intro exI[of _ i] exI[of _ s])
      (auto simp: example_queue_impl_def OS_CHECK_SIZE_def split: prod.splits)
qed

end
