(* ===== verification/Posix_Queues.thy ===== *)
theory Posix_Queues
  imports Queue Posix_Tasks Socket
begin

text \<open>
  The POSIX implementation of message queues, \<^verbatim>\<open>src/src/os/posix/src/os-impl-queues.c\<close>, over the
  message queues of the host, and the queues of the library as a whole: what is put is got, once,
  in the order in which it was put.
\<close>

subsection \<open>Operations\<close>

record 'h mq_calls =
  sys_getpid :: nat
  sys_mq_open :: "string \<Rightarrow> nat \<Rightarrow> nat \<Rightarrow> 'h \<Rightarrow> (errno + int) \<times> 'h"
  sys_mq_unlink :: "string \<Rightarrow> 'h \<Rightarrow> 'h"
  sys_mq_close :: "int \<Rightarrow> 'h \<Rightarrow> (errno + unit) \<times> 'h"
  sys_mq_receive :: "int \<Rightarrow> nat \<Rightarrow> 'h \<Rightarrow> (errno + string) \<times> 'h"
  sys_mq_timedreceive :: "int \<Rightarrow> nat \<Rightarrow> int \<times> int \<Rightarrow> 'h \<Rightarrow> (errno + string) \<times> 'h"
  sys_mq_timedsend :: "int \<Rightarrow> string \<Rightarrow> nat \<Rightarrow> int \<times> int \<Rightarrow> 'h \<Rightarrow> (errno + unit) \<times> 'h"
  mq_realtime :: "'h \<Rightarrow> int \<times> int"

record 'h posix_queues =
  OS_impl_queue_table :: "nat \<Rightarrow> int"
  queue_depth_limit :: nat
  mq_host :: 'h

definition OS_Posix_QueueAPI_Impl_Init :: "bool \<Rightarrow> nat \<Rightarrow> 'h posix_queues \<Rightarrow> status \<times> 'h posix_queues" where
  "OS_Posix_QueueAPI_Impl_Init permissive MaxQueueDepth a =
     (OS_SUCCESS, a\<lparr>OS_impl_queue_table := (\<lambda>_. 0), queue_depth_limit := (if permissive then MaxQueueDepth else 0)\<rparr>)"

definition posix_queue_depth :: "nat \<Rightarrow> nat \<Rightarrow> nat" where
  "posix_queue_depth limit depth = (if limit > 0 \<and> limit < depth then limit else depth)"

definition posix_QueueCreate ::
    "'h mq_calls \<Rightarrow> OS_object_token \<Rightarrow> u32 \<Rightarrow> 'h posix_queues os_state \<Rightarrow> status \<times> 'h posix_queues" where
  "posix_QueueCreate c token flags s =
    (let j = unat (obj_idx token); a = impl s; queue = OS_queue_table s j;
         mq_maxmsg = posix_queue_depth (queue_depth_limit a) (max_depth queue);
         name = take (OS_MAX_API_NAME * 2 - 1) (''/'' @ decimal (sys_getpid c) @ ''.'' @ queue_name queue)
     in case sys_mq_open c name mq_maxmsg (max_size queue) (mq_host a) of
          (Inl e, h) \<Rightarrow> (OS_ERROR, a\<lparr>mq_host := h\<rparr>)
        | (Inr queueDesc, h) \<Rightarrow>
            (OS_SUCCESS, a\<lparr>OS_impl_queue_table := (OS_impl_queue_table a)(j := queueDesc), mq_host := sys_mq_unlink c name h\<rparr>))"

definition posix_QueueDelete :: "'h mq_calls \<Rightarrow> OS_object_token \<Rightarrow> 'h posix_queues \<Rightarrow> status \<times> 'h posix_queues" where
  "posix_QueueDelete c token a =
    (case sys_mq_close c (OS_impl_queue_table a (unat (obj_idx token))) (mq_host a) of
       (Inl e, h) \<Rightarrow> (OS_ERROR, a\<lparr>mq_host := h\<rparr>)
     | (Inr _, h) \<Rightarrow> (OS_SUCCESS, a\<lparr>mq_host := h\<rparr>))"

partial_function (option) receive_loop :: "('h \<Rightarrow> (errno + string) \<times> 'h) \<Rightarrow> bool \<Rightarrow> 'h \<Rightarrow> ((errno + string) \<times> 'h) option" where
  "receive_loop receive retry h =
    (case receive h of (r, h') \<Rightarrow> if retry \<and> r = Inl EINTR then receive_loop receive retry h' else Some (r, h'))"

text \<open>The result has the message and the size copied, as well as the status.\<close>

definition posix_QueueGet ::
    "'h mq_calls \<Rightarrow> OS_object_token \<Rightarrow> nat \<Rightarrow> u32 \<Rightarrow> 'h posix_queues \<Rightarrow> (status \<times> string \<times> nat \<times> 'h posix_queues) option" where
  "posix_QueueGet c token n timeout a =
    (let d = OS_impl_queue_table a (unat (obj_idx token));
         ts = (if sint timeout = OS_CHECK then (0, 0) else delay_until timeout (mq_realtime c (mq_host a)));
         receive = (if sint timeout = OS_PEND then sys_mq_receive c d n else sys_mq_timedreceive c d n ts)
     in map_option (\<lambda>(r, h). case r of
            Inr data \<Rightarrow> (OS_SUCCESS, data, length data, a\<lparr>mq_host := h\<rparr>)
          | Inl e \<Rightarrow>
              (if e = EMSGSIZE then OS_QUEUE_INVALID_SIZE
               else if sint timeout = OS_PEND \<or> e \<noteq> ETIMEDOUT then OS_ERROR
               else if sint timeout = OS_CHECK then OS_QUEUE_EMPTY
               else OS_QUEUE_TIMEOUT, [], 0, a\<lparr>mq_host := h\<rparr>))
          (receive_loop receive (sint timeout \<noteq> OS_CHECK) (mq_host a)))"

partial_function (option) send_loop :: "('h \<Rightarrow> (errno + unit) \<times> 'h) \<Rightarrow> 'h \<Rightarrow> ((errno + unit) \<times> 'h) option" where
  "send_loop send h = (case send h of (r, h') \<Rightarrow> if r = Inl EINTR then send_loop send h' else Some (r, h'))"

definition posix_QueuePut ::
    "'h mq_calls \<Rightarrow> OS_object_token \<Rightarrow> string \<Rightarrow> nat \<Rightarrow> u32 \<Rightarrow> 'h posix_queues \<Rightarrow> (status \<times> 'h posix_queues) option" where
  "posix_QueuePut c token data n flags a =
     map_option (\<lambda>(r, h). (case r of Inr _ \<Rightarrow> OS_SUCCESS | Inl e \<Rightarrow> if e = ETIMEDOUT then OS_QUEUE_FULL else OS_ERROR,
                           a\<lparr>mq_host := h\<rparr>))
       (send_loop (sys_mq_timedsend c (OS_impl_queue_table a (unat (obj_idx token))) data n (0, 0)) (mq_host a))"

text \<open>
  The implementation as the shared layer calls it. The loops repeat a call that a signal interrupted;
  where the host goes on interrupting for ever there is no result, and \<open>the\<close> stands for none.
\<close>

definition posix_queue_impl :: "'h mq_calls \<Rightarrow> 'h posix_queues queue_impl" where
  "posix_queue_impl c =
    \<lparr>OS_QueueCreate_Impl = posix_QueueCreate c, OS_QueueDelete_Impl = (\<lambda>token s. posix_QueueDelete c token (impl s)),
     OS_QueueGet_Impl = (\<lambda>token n timeout s. the (posix_QueueGet c token n timeout (impl s))),
     OS_QueuePut_Impl = (\<lambda>token data n flags s. the (posix_QueuePut c token data n flags (impl s)))\<rparr>"

subsection \<open>A bounded queue\<close>

datatype 'm fifo_op = Fifo_put 'm | Fifo_get

primrec fifo_step ::
    "('m \<Rightarrow> 's \<Rightarrow> status \<times> 's) \<Rightarrow> ('s \<Rightarrow> status \<times> 'm option \<times> 's) \<Rightarrow> 'm fifo_op \<Rightarrow> 's \<Rightarrow> (status \<times> 'm option) \<times> 's" where
  "fifo_step put get (Fifo_put m) s = (case put m s of (st, s') \<Rightarrow> ((st, None), s'))"
| "fifo_step put get Fifo_get s = (case get s of (st, x, s') \<Rightarrow> ((st, if st = OS_SUCCESS then x else None), s'))"

primrec fifo_run ::
    "('m \<Rightarrow> 's \<Rightarrow> status \<times> 's) \<Rightarrow> ('s \<Rightarrow> status \<times> 'm option \<times> 's) \<Rightarrow> 'm fifo_op list \<Rightarrow> 's \<Rightarrow> (status \<times> 'm option) list \<times> 's" where
  "fifo_run put get [] s = ([], s)"
| "fifo_run put get (x # xs) s = (case fifo_step put get x s of (r, s') \<Rightarrow> case fifo_run put get xs s' of (rs, s'') \<Rightarrow> (r # rs, s''))"

text \<open>The same calls on a list of messages with a bound on its length.\<close>

primrec abs_step :: "nat \<Rightarrow> 'm fifo_op \<Rightarrow> 'm list \<Rightarrow> (status \<times> 'm option) \<times> 'm list" where
  "abs_step capacity (Fifo_put m) ms =
    (if length ms < capacity then ((OS_SUCCESS, None), ms @ [m]) else ((OS_QUEUE_FULL, None), ms))"
| "abs_step capacity Fifo_get ms = (case ms of [] \<Rightarrow> ((OS_QUEUE_EMPTY, None), []) | m # ms' \<Rightarrow> ((OS_SUCCESS, Some m), ms'))"

primrec abs_run :: "nat \<Rightarrow> 'm fifo_op list \<Rightarrow> 'm list \<Rightarrow> (status \<times> 'm option) list \<times> 'm list" where
  "abs_run capacity [] ms = ([], ms)"
| "abs_run capacity (x # xs) ms = (case abs_step capacity x ms of (r, ms') \<Rightarrow> case abs_run capacity xs ms' of (rs, ms'') \<Rightarrow> (r # rs, ms''))"

text \<open>What a client of a bounded queue may rely on, and what follows for any sequence of calls.\<close>

locale bounded_fifo =
  fixes put :: "'m \<Rightarrow> 's \<Rightarrow> status \<times> 's"
    and get :: "'s \<Rightarrow> status \<times> 'm option \<times> 's"
    and contents :: "'s \<Rightarrow> 'm list"
    and capacity :: nat
    and fits :: "'m \<Rightarrow> bool"
    and ready :: "'s \<Rightarrow> bool"
  assumes put_room: "ready s \<Longrightarrow> fits m \<Longrightarrow> length (contents s) < capacity
        \<Longrightarrow> \<exists>s'. put m s = (OS_SUCCESS, s') \<and> ready s' \<and> contents s' = contents s @ [m]"
    and put_full: "ready s \<Longrightarrow> fits m \<Longrightarrow> capacity \<le> length (contents s)
        \<Longrightarrow> \<exists>s'. put m s = (OS_QUEUE_FULL, s') \<and> ready s' \<and> contents s' = contents s"
    and get_some: "ready s \<Longrightarrow> contents s = m # ms \<Longrightarrow> \<exists>s'. get s = (OS_SUCCESS, Some m, s') \<and> ready s' \<and> contents s' = ms"
    and get_none: "ready s \<Longrightarrow> contents s = [] \<Longrightarrow> \<exists>x s'. get s = (OS_QUEUE_EMPTY, x, s') \<and> ready s' \<and> contents s' = []"
begin

lemma step_refines:
  assumes "ready s" "\<And>m. x = Fifo_put m \<Longrightarrow> fits m"
  shows "\<exists>s'. fifo_step put get x s = (fst (abs_step capacity x (contents s)), s') \<and> ready s' \<and> contents s' = snd (abs_step capacity x (contents s))"
proof (cases x)
  case (Fifo_put m)
  with assms put_room[of s m] put_full[of s m] show ?thesis by (cases "length (contents s) < capacity") auto
next
  case Fifo_get
  with assms get_some[of s] get_none[of s] show ?thesis by (cases "contents s") auto
qed

lemma run_refines:
  assumes "ready s" "\<And>m. Fifo_put m \<in> set xs \<Longrightarrow> fits m"
  shows "\<exists>s'. fifo_run put get xs s = (fst (abs_run capacity xs (contents s)), s') \<and> ready s' \<and> contents s' = snd (abs_run capacity xs (contents s))"
  using assms
proof (induction xs arbitrary: s)
  case (Cons x xs)
  from step_refines[of s x] Cons.prems obtain s1
    where s1: "fifo_step put get x s = (fst (abs_step capacity x (contents s)), s1)" "ready s1" "contents s1 = snd (abs_step capacity x (contents s))" by auto
  from Cons.IH[OF s1(2)] Cons.prems(2) s1 show ?case by (fastforce simp: prod.case_eq_if)
qed simp

end

subsection \<open>Queues over message queues\<close>

text \<open>
  What POSIX says of message queues, where no signal interrupts a call and the limits of the system
  are not reached: \<open>view\<close> shows for each descriptor the bounds on the number and the size of the
  messages, and the messages.
\<close>

type_synonym mq_view = "int \<Rightarrow> (nat \<times> nat \<times> string list) option"

definition mq_contract :: "'h mq_calls \<Rightarrow> ('h \<Rightarrow> mq_view) \<Rightarrow> bool" where
  "mq_contract c view \<longleftrightarrow>
    (\<forall>d mx sz ms data n h. view h d = Some (mx, sz, ms) \<and> n \<le> sz \<and> n \<le> length data \<longrightarrow>
       (\<exists>h'. if length ms < mx
             then sys_mq_timedsend c d data n (0, 0) h = (Inr (), h') \<and> view h' = (view h)(d \<mapsto> (mx, sz, ms @ [take n data]))
             else sys_mq_timedsend c d data n (0, 0) h = (Inl ETIMEDOUT, h') \<and> view h' = view h))
   \<and> (\<forall>d mx sz ms n h. view h d = Some (mx, sz, ms) \<and> sz \<le> n \<longrightarrow>
       (\<exists>h'. if ms = [] then sys_mq_timedreceive c d n (0, 0) h = (Inl ETIMEDOUT, h') \<and> view h' = view h
             else sys_mq_timedreceive c d n (0, 0) h = (Inr (hd ms), h') \<and> view h' = (view h)(d \<mapsto> (mx, sz, tl ms))))
   \<and> (\<forall>nm mx sz h. 0 < mx \<longrightarrow>
       (\<exists>d h'. sys_mq_open c nm mx sz h = (Inr d, h') \<and> view (sys_mq_unlink c nm h') = (view h)(d \<mapsto> (mx, sz, []))))"

definition queue_put :: "'h posix_queues idmap_env \<Rightarrow> 'h mq_calls \<Rightarrow> osal_id_t \<Rightarrow> string \<Rightarrow> 'h posix_queues os_state
    \<Rightarrow> status \<times> 'h posix_queues os_state" where
  "queue_put env c i m s = OS_QueuePut env (posix_queue_impl c) i (Some m) (length m) 0 s"

definition queue_get :: "'h posix_queues idmap_env \<Rightarrow> 'h mq_calls \<Rightarrow> osal_id_t \<Rightarrow> nat \<Rightarrow> 'h posix_queues os_state
    \<Rightarrow> status \<times> string option \<times> 'h posix_queues os_state" where
  "queue_get env c i sz s =
    (case OS_QueueGet env (posix_queue_impl c) i True sz True 0 s of (st, data, copied, s') \<Rightarrow> (st, data, s'))"

definition queue_view :: "('h \<Rightarrow> mq_view) \<Rightarrow> osal_id_t \<Rightarrow> 'h posix_queues os_state \<Rightarrow> (nat \<times> nat \<times> string list) option" where
  "queue_view view i s = view (mq_host (impl s)) (OS_impl_queue_table (impl s) (unat (index_of i)))"

definition queue_contents :: "('h \<Rightarrow> mq_view) \<Rightarrow> osal_id_t \<Rightarrow> 'h posix_queues os_state \<Rightarrow> string list" where
  "queue_contents view i s = snd (snd (the (queue_view view i s)))"

definition queue_fits :: "nat \<Rightarrow> string \<Rightarrow> bool" where
  "queue_fits sz m \<longleftrightarrow> OS_CHECK_SIZE (length m) \<and> length m \<le> sz"

definition queue_ready ::
    "'h mq_calls \<Rightarrow> ('h \<Rightarrow> mq_view) \<Rightarrow> osal_id_t \<Rightarrow> nat \<Rightarrow> nat \<Rightarrow> 'h posix_queues os_state \<Rightarrow> bool" where
  "queue_ready c view i mx sz s \<longleftrightarrow> mq_contract c view \<and> idle s \<and> live QT i s \<and> OS_CHECK_SIZE sz
     \<and> max_size (OS_queue_table s (unat (index_of i))) = sz \<and> (\<exists>ms. queue_view view i s = Some (mx, sz, ms))"

lemma queue_put_step:
  assumes r: "queue_ready c view i mx sz s" and m: "queue_fits sz m"
  shows "\<exists>s'. queue_put env c i m s = (if length (queue_contents view i s) < mx then OS_SUCCESS else OS_QUEUE_FULL, s')
    \<and> queue_ready c view i mx sz s'
    \<and> queue_contents view i s' = queue_contents view i s @ (if length (queue_contents view i s) < mx then [m] else [])"
proof -
  from r obtain ms where s: "mq_contract c view" "idle s" "live QT i s" "OS_CHECK_SIZE sz"
    "max_size (OS_queue_table s (unat (index_of i))) = sz" and v: "queue_view view i s = Some (mx, sz, ms)"
    by (auto simp: queue_ready_def)
  let ?d = "OS_impl_queue_table (impl s) (unat (index_of i))"
  from s(1) v m obtain h' where h': "if length ms < mx
      then sys_mq_timedsend c ?d m (length m) (0, 0) (mq_host (impl s)) = (Inr (), h')
         \<and> view h' = (view (mq_host (impl s)))(?d \<mapsto> (mx, sz, ms @ [take (length m) m]))
      else sys_mq_timedsend c ?d m (length m) (0, 0) (mq_host (impl s)) = (Inl ETIMEDOUT, h') \<and> view h' = view (mq_host (impl s))"
    unfolding mq_contract_def queue_view_def queue_fits_def by blast
  let ?s' = "s\<lparr>impl := (impl s)\<lparr>mq_host := h'\<rparr>\<rparr>"
  have p: "queue_put env c i m s = (if length ms < mx then OS_SUCCESS else OS_QUEUE_FULL, ?s')"
    using h' m s(5)
    by (auto simp: queue_put_def queue_fits_def QueuePut_shape use_object_live[OF s(2,3)] posix_queue_impl_def posix_QueuePut_def
        send_loop.simps split: if_splits)
  moreover have "live QT i ?s'" using s(3) by simp
  moreover have "queue_view view i ?s' = Some (mx, sz, ms @ (if length ms < mx then [m] else []))"
    using h' v by (auto simp: queue_view_def split: if_splits)
  ultimately show ?thesis
    using s v by (intro exI[of _ ?s']) (auto simp: queue_contents_def queue_ready_def)
qed

lemma queue_get_step:
  assumes r: "queue_ready c view i mx sz s"
  shows "\<exists>x s'. queue_get env c i sz s = (if queue_contents view i s = [] then OS_QUEUE_EMPTY else OS_SUCCESS, x, s')
    \<and> (queue_contents view i s \<noteq> [] \<longrightarrow> x = Some (hd (queue_contents view i s)))
    \<and> queue_ready c view i mx sz s' \<and> queue_contents view i s' = tl (queue_contents view i s)"
proof -
  from r obtain ms where s: "mq_contract c view" "idle s" "live QT i s" "OS_CHECK_SIZE sz"
    "max_size (OS_queue_table s (unat (index_of i))) = sz" and v: "queue_view view i s = Some (mx, sz, ms)"
    by (auto simp: queue_ready_def)
  let ?d = "OS_impl_queue_table (impl s) (unat (index_of i))"
  from s(1) v obtain h' where h': "if ms = []
      then sys_mq_timedreceive c ?d sz (0, 0) (mq_host (impl s)) = (Inl ETIMEDOUT, h') \<and> view h' = view (mq_host (impl s))
      else sys_mq_timedreceive c ?d sz (0, 0) (mq_host (impl s)) = (Inr (hd ms), h')
         \<and> view h' = (view (mq_host (impl s)))(?d \<mapsto> (mx, sz, tl ms))"
    unfolding mq_contract_def queue_view_def by blast
  let ?s' = "s\<lparr>impl := (impl s)\<lparr>mq_host := h'\<rparr>\<rparr>"
  have p: "\<exists>x. queue_get env c i sz s = (if ms = [] then OS_QUEUE_EMPTY else OS_SUCCESS, x, ?s') \<and> (ms \<noteq> [] \<longrightarrow> x = Some (hd ms))"
    using h' s(4,5)
    by (auto simp: queue_get_def OS_QueueGet_def GetById_none[OF idleD(1)[OF s(2)] s(3)] posix_queue_impl_def posix_QueueGet_def
        receive_loop.simps split: if_splits)
  have "live QT i ?s'" using s(3) by simp
  moreover have "queue_view view i ?s' = Some (mx, sz, tl ms)"
    using h' v by (auto simp: queue_view_def split: if_splits)
  ultimately show ?thesis
    using s v p by (auto simp: queue_contents_def queue_ready_def)
qed

interpretation posix_fifo: bounded_fifo "queue_put env c i" "queue_get env c i sz" "queue_contents view i" mx "queue_fits sz"
    "queue_ready c view i mx sz"
  for env c i sz view mx
proof
  fix s and m :: string and ms
  show "\<exists>s'. queue_put env c i m s = (OS_SUCCESS, s') \<and> queue_ready c view i mx sz s' \<and> queue_contents view i s' = queue_contents view i s @ [m]"
    if "queue_ready c view i mx sz s" "queue_fits sz m" "length (queue_contents view i s) < mx"
    using queue_put_step[OF that(1,2), of env] that(3) by simp
  show "\<exists>s'. queue_put env c i m s = (OS_QUEUE_FULL, s') \<and> queue_ready c view i mx sz s' \<and> queue_contents view i s' = queue_contents view i s"
    if "queue_ready c view i mx sz s" "queue_fits sz m" "mx \<le> length (queue_contents view i s)"
    using queue_put_step[OF that(1,2), of env] that(3) by simp
  show "\<exists>s'. queue_get env c i sz s = (OS_SUCCESS, Some m, s') \<and> queue_ready c view i mx sz s' \<and> queue_contents view i s' = ms"
    if "queue_ready c view i mx sz s" "queue_contents view i s = m # ms"
    using queue_get_step[OF that(1), of env] that(2) by auto
  show "\<exists>x s'. queue_get env c i sz s = (OS_QUEUE_EMPTY, x, s') \<and> queue_ready c view i mx sz s' \<and> queue_contents view i s' = []"
    if "queue_ready c view i mx sz s" "queue_contents view i s = []"
    using queue_get_step[OF that(1), of env] that(2) by auto
qed

lemma queue_created:
  assumes s: "idle s" "no_handler s" and c: "mq_contract c view"
    and args: "length nm < OS_MAX_API_NAME" "OS_CHECK_SIZE n" "0 < depth" "depth \<le> OS_QUEUE_MAX_DEPTH"
    and free: "\<exists>k < OS_GetMaxForObjectType QT. registry s (QT, k) = None" "\<nexists>i. registered_name s QT nm i"
  obtains i s' where "OS_QueueCreate env (posix_queue_impl c) True (Some nm) depth n flags s = (OS_SUCCESS, Some i, s')"
    and "queue_ready c view i (posix_queue_depth (queue_depth_limit (impl s)) depth) n s'" "queue_contents view i s' = []"
proof -
  have ev: "event_ok env s" using s(2) by (simp add: event_ok_def no_handler_def)
  let ?create = "\<lambda>token. OS_QueueCreate_Impl (posix_queue_impl c) token flags"
  obtain i where i: "id_of_type QT i" "registry s (QT, index_of i) = None"
    and cr: "\<And>st a. ?create (tok OS_LOCK_MODE_EXCLUSIVE 0 QT (index_of i) i)
            (queue_fill nm (depth, n) (tok OS_LOCK_MODE_EXCLUSIVE 0 QT (index_of i) i) (reserved_state env QT i s)) = (st, a)
         \<Longrightarrow> create_object_as env QT (Some nm) (queue_fill nm (depth, n)) ?create s
           = (st, Some (if st = OS_SUCCESS then i else 0), created_state env QT i st a
                (queue_fill nm (depth, n) (tok OS_LOCK_MODE_EXCLUSIVE 0 QT (index_of i) i) (reserved_state env QT i s)))"
    by (rule qt.create_object_ok[where name = "Some nm" and nm = nm and x = "(depth, n)" and create = ?create, OF s(1) ev free(1)])
      (use free(2) in auto)
  let ?s2 = "queue_fill nm (depth, n) (tok OS_LOCK_MODE_EXCLUSIVE 0 QT (index_of i) i) (reserved_state env QT i s)"
  let ?mx = "posix_queue_depth (queue_depth_limit (impl s)) depth"
  let ?name = "take (OS_MAX_API_NAME * 2 - 1) (''/'' @ decimal (sys_getpid c) @ ''.'' @ queue_name (OS_queue_table ?s2 (unat (index_of i))))"
  have im: "impl ?s2 = impl s" "no_handler ?s2" and tab: "OS_queue_table ?s2 (unat (index_of i)) = queue_filled nm (depth, n)"
    using s(2) by (simp_all add: queue_fill_def queue_filled_def reserved_state_def issued_def no_handler_def ticked_def
        upd_objtype_def upd_common_def event_impl_def Let_def zero_queue_def)
  have "0 < ?mx" using args(3) by (simp add: posix_queue_depth_def)
  with c obtain d h' where o: "sys_mq_open c ?name ?mx n (mq_host (impl s)) = (Inr d, h')"
    "view (sys_mq_unlink c ?name h') = (view (mq_host (impl s)))(d \<mapsto> (?mx, n, []))"
    unfolding mq_contract_def by blast
  let ?a = "(impl s)\<lparr>OS_impl_queue_table := (OS_impl_queue_table (impl s))(unat (index_of i) := d), mq_host := sys_mq_unlink c ?name h'\<rparr>"
  let ?s' = "created_state env QT i OS_SUCCESS ?a ?s2"
  have "?create (tok OS_LOCK_MODE_EXCLUSIVE 0 QT (index_of i) i) ?s2 = (OS_SUCCESS, ?a)"
    using o(1) by (simp add: posix_queue_impl_def posix_QueueCreate_def im tab queue_filled_def Let_def)
  from cr[OF this] have op: "OS_QueueCreate env (posix_queue_impl c) True (Some nm) depth n flags s = (OS_SUCCESS, Some i, ?s')"
    by (simp add: QueueCreate_shape[OF args(1,2,4)])
  have id: "idle ?s'" by (rule qt.created_idle[OF s(1) i(1)])
  have q: "OS_queue_table ?s' (unat (index_of i)) = queue_filled nm (depth, n)" "impl ?s' = ?a"
    using im(2) tab by (simp_all add: created_state_def ticked_def upd_objtype_def upd_common_def event_impl_def no_handler_def)
  then have v: "queue_view view i ?s' = Some (?mx, n, [])" using o(2) by (simp add: queue_view_def)
  have lv: "live QT i ?s'"
    by (rule qt.created_live[OF id i(1)]) (use qt.created_registry[OF s(1) i args(1), of env OS_SUCCESS ?a] in simp)
  show thesis
    using that[OF op] id c args(2) q v lv by (simp add: queue_ready_def queue_contents_def queue_filled_def)
qed


text \<open>A host with one descriptor after the other.\<close>

definition example_mq :: "mq_view mq_calls" where
  "example_mq =
    \<lparr>sys_getpid = 42, sys_mq_open = (\<lambda>nm mx sz h. (Inr 3, h(3 \<mapsto> (mx, sz, [])))), sys_mq_unlink = (\<lambda>_ h. h),
     sys_mq_close = (\<lambda>d h. (Inr (), h(d := None))),
     sys_mq_receive = (\<lambda>d n h. (Inl EAGAIN, h)),
     sys_mq_timedreceive = (\<lambda>d n ts h. case h d of Some (mx, sz, m # ms) \<Rightarrow> (Inr m, h(d \<mapsto> (mx, sz, ms))) | _ \<Rightarrow> (Inl ETIMEDOUT, h)),
     sys_mq_timedsend = (\<lambda>d data n ts h. case h d of None \<Rightarrow> (Inl EINVAL, h)
       | Some (mx, sz, ms) \<Rightarrow> if length ms < mx then (Inr (), h(d \<mapsto> (mx, sz, ms @ [take n data]))) else (Inl ETIMEDOUT, h)),
     mq_realtime = (\<lambda>_. (0, 0))\<rparr>"

lemma example_mq_contract: "mq_contract example_mq id"
  by (auto simp: mq_contract_def example_mq_def neq_Nil_conv split: list.splits)


end
