(* ===== verification/Console.thy ===== *)
theory Console
  imports Object_Lifecycle
begin

unbundle bit_operations_syntax

text \<open>
  The console behind \<^verbatim>\<open>OS_printf\<close>: \<^verbatim>\<open>src/src/os/shared/src/osapi-printf.c\<close>,
  the output loop of \<^verbatim>\<open>src/src/os/portable/os-impl-console-bsp.c\<close> and the servicing task of
  \<^verbatim>\<open>src/src/os/posix/src/os-impl-console.c\<close>. A console is a ring buffer: tasks
  put whole messages into it, and the output loop, in the caller or in a task of its own, moves
  what is there to the device.

  The text a format expands to is a parameter of \<open>OS_printf\<close> (\<open>None\<close> when
  \<^verbatim>\<open>vsnprintf\<close> fails).
\<close>

subsection \<open>Operations\<close>

text \<open>The default configuration.\<close>

definition OS_BUFFER_SIZE :: nat where "OS_BUFFER_SIZE = 172"
definition OS_BUFFER_MSG_DEPTH :: nat where "OS_BUFFER_MSG_DEPTH = 100"
definition OS_PRINTF_CONSOLE_NAME :: string where "OS_PRINTF_CONSOLE_NAME = []"

record 'i console_impl =
  OS_ConsoleCreate_Impl :: "OS_object_token \<Rightarrow> 'i os_state \<Rightarrow> status \<times> 'i"
  OS_ConsoleWakeup_Impl :: "OS_object_token \<Rightarrow> 'i \<Rightarrow> 'i"
  OS_BSP_Lock_Impl :: "'i \<Rightarrow> 'i"
  OS_BSP_Unlock_Impl :: "'i \<Rightarrow> 'i"
  OS_BSP_ConsoleOutput_Impl :: "string \<Rightarrow> 'i \<Rightarrow> 'i"

definition upd_console ::
    "nat \<Rightarrow> (OS_console_internal_record \<Rightarrow> OS_console_internal_record) \<Rightarrow> 'i os_state \<Rightarrow> 'i os_state" where
  "upd_console j f s = s\<lparr>OS_console_table := (OS_console_table s)(j := f (OS_console_table s j))\<rparr>"

definition console_fill :: "string \<Rightarrow> OS_object_token \<Rightarrow> 'i os_state \<Rightarrow> 'i os_state" where
  "console_fill name token s =
    (let j = unat (obj_idx token);
         s1 = upd_console j (\<lambda>_. zero_console\<lparr>console_device_name := strncpy_cleared name OS_MAX_API_NAME\<rparr>) s
     in upd_common (OS_ObjectIdGlobalFromToken token) (\<lambda>ob. ob\<lparr>name_entry := Some (Console_name j)\<rparr>) s1)"

text \<open>
  The buffer is static memory and therefore zero at the start; \<open>is_async\<close> is the configuration
  option \<^verbatim>\<open>OSAL_CONFIG_CONSOLE_ASYNC\<close>.
\<close>

definition OS_ConsoleAPI_Init :: "'i idmap_env \<Rightarrow> 'i console_impl \<Rightarrow> bool \<Rightarrow> 'i os_state \<Rightarrow> status \<times> 'i os_state" where
  "OS_ConsoleAPI_Init env c is_async s =
    (let s0 = s\<lparr>OS_console_table := (\<lambda>_. zero_console)\<rparr>
     in case OS_ObjectIdAllocateNew env OS_OBJECT_TYPE_OS_CONSOLE (Some OS_PRINTF_CONSOLE_NAME) s0 of
          (return_code, token, s1) \<Rightarrow>
            (if return_code = OS_SUCCESS then
               let s2 = console_fill OS_PRINTF_CONSOLE_NAME token s1;
                   s3 = upd_console (unat (obj_idx token)) (\<lambda>con. con\<lparr>BufBase := (\<lambda>_. CHR 0x00),
                          BufSize := (length OS_PRINTF_CONSOLE_NAME + 1 + OS_BUFFER_SIZE) * OS_BUFFER_MSG_DEPTH,
                          IsAsync := is_async\<rparr>) s2
               in case OS_ConsoleCreate_Impl c token s3 of
                    (st, a) \<Rightarrow>
                      (case OS_ObjectIdFinalizeNew env st token (s3\<lparr>impl := a\<rparr>) of
                         (st', i, token', s4) \<Rightarrow>
                           (st', s4\<lparr>OS_SharedGlobalVars := (OS_SharedGlobalVars s4)\<lparr>PrintfConsoleId := i, PrintfEnabled := True\<rparr>\<rparr>))
             else (return_code, s1)))"

text \<open>One turn of the copy loop: store a character, advance; the last component tells whether the buffer is full.\<close>

definition CopyOut_char :: "OS_console_internal_record \<Rightarrow> char \<Rightarrow> nat \<Rightarrow> OS_console_internal_record \<times> nat \<times> bool" where
  "CopyOut_char con ch WriteOffset =
    (let con1 = con\<lparr>BufBase := (BufBase con)(WriteOffset := ch)\<rparr>;
         offset1 = (if WriteOffset + 1 \<ge> BufSize con1 then 0 else WriteOffset + 1)
     in (con1, offset1, offset1 = ReadPos con1))"

fun CopyOut_loop :: "OS_console_internal_record \<Rightarrow> string \<Rightarrow> nat \<Rightarrow> status \<times> nat \<times> OS_console_internal_record" where
  "CopyOut_loop con [] WriteOffset = (OS_SUCCESS, WriteOffset, con)"
| "CopyOut_loop con (ch # pmsg) WriteOffset =
    (case CopyOut_char con ch WriteOffset of
       (con1, offset1, full) \<Rightarrow> (if full then (OS_QUEUE_FULL, offset1, con1) else CopyOut_loop con1 pmsg offset1))"

text \<open>The position is only passed back when the whole string was written.\<close>

definition OS_Console_CopyOut ::
    "OS_console_internal_record \<Rightarrow> string \<Rightarrow> nat \<Rightarrow> status \<times> nat \<times> OS_console_internal_record" where
  "OS_Console_CopyOut con Str NextWritePos =
    (case CopyOut_loop con Str NextWritePos of
       (return_code, WriteOffset, con1) \<Rightarrow> (return_code, if return_code = OS_SUCCESS then WriteOffset else NextWritePos, con1))"

definition ConsoleWrite_record :: "OS_console_internal_record \<Rightarrow> string \<Rightarrow> status \<times> OS_console_internal_record" where
  "ConsoleWrite_record con Str =
    (case (if console_device_name con \<noteq> [] then OS_Console_CopyOut con (console_device_name con) (WritePos con)
           else (OS_SUCCESS, WritePos con, con)) of
       (rc1, pos1, con1) \<Rightarrow>
         (case (if rc1 = OS_SUCCESS then OS_Console_CopyOut con1 Str pos1 else (rc1, pos1, con1)) of
            (rc2, pos2, con2) \<Rightarrow>
              (rc2, if rc2 = OS_SUCCESS then con2\<lparr>WritePos := pos2\<rparr>
                    else con2\<lparr>OverflowEvents := OverflowEvents con2 + 1\<rparr>)))"

text \<open>
  One chunk of the output: what lies between the positions, or up to the end of the buffer when
  the positions wrap around.
\<close>

definition Output_chunk :: "OS_console_internal_record \<Rightarrow> nat \<Rightarrow> nat \<Rightarrow> string \<times> nat" where
  "Output_chunk con StartPos EndPos =
    (let WriteSize = (if StartPos > EndPos then BufSize con - StartPos else EndPos - StartPos);
         pos1 = StartPos + WriteSize
     in (map (\<lambda>k. BufBase con (StartPos + k)) [0..<WriteSize], if pos1 \<ge> BufSize con then 0 else pos1))"

partial_function (option) Output_loop ::
    "'i console_impl \<Rightarrow> OS_console_internal_record \<Rightarrow> nat \<Rightarrow> nat \<Rightarrow> 'i \<Rightarrow> (nat \<times> 'i) option" where
  "Output_loop c con StartPos EndPos a =
    (if StartPos = EndPos then Some (StartPos, a)
     else
       case Output_chunk con StartPos EndPos of
         (data, pos1) \<Rightarrow> Output_loop c con pos1 EndPos (OS_BSP_ConsoleOutput_Impl c data a))"

definition OS_ConsoleOutput_Impl :: "'i console_impl \<Rightarrow> OS_object_token \<Rightarrow> 'i os_state \<Rightarrow> 'i os_state option" where
  "OS_ConsoleOutput_Impl c token s =
    (let j = unat (obj_idx token);
         con = OS_console_table s j
     in case Output_loop c con (ReadPos con) (WritePos con) (OS_BSP_Lock_Impl c (impl s)) of
          None \<Rightarrow> None
        | Some (StartPos, a) \<Rightarrow>
            Some (upd_console j (\<lambda>con. con\<lparr>ReadPos := StartPos\<rparr>) (s\<lparr>impl := OS_BSP_Unlock_Impl c a\<rparr>)))"

definition OS_ConsoleWrite ::
    "'i idmap_env \<Rightarrow> 'i console_impl \<Rightarrow> osal_id_t \<Rightarrow> string \<Rightarrow> 'i os_state \<Rightarrow> (status \<times> 'i os_state) option" where
  "OS_ConsoleWrite env c console_id Str s =
    (case OS_ObjectIdGetById env OS_LOCK_MODE_GLOBAL OS_OBJECT_TYPE_OS_CONSOLE console_id s of
       (return_code, token, s1) \<Rightarrow>
         (if return_code = OS_SUCCESS then
            let j = unat (obj_idx token);
                (rc, con) = ConsoleWrite_record (OS_console_table s1 j) Str;
                s2 = upd_console j (\<lambda>_. con) s1
            in case (if IsAsync con then Some (s2\<lparr>impl := OS_ConsoleWakeup_Impl c token (impl s2)\<rparr>)
                     else OS_ConsoleOutput_Impl c token s2) of
                 None \<Rightarrow> None
               | Some s3 \<Rightarrow> Some (rc, snd (OS_ObjectIdRelease env token s3))
          else Some (return_code, s1)))"

text \<open>
  Formatting goes to a buffer of fixed size; the C string in it ends at the first NUL.
\<close>

definition printf_message :: "string option \<Rightarrow> string" where
  "printf_message formatted =
    (case formatted of
       None \<Rightarrow> []
     | Some text \<Rightarrow> takeWhile (\<lambda>ch. ch \<noteq> CHR 0x00) (take (OS_BUFFER_SIZE - 1) text))"

definition printf_body :: "'i idmap_env \<Rightarrow> 'i console_impl \<Rightarrow> string option \<Rightarrow> 'i os_state \<Rightarrow> 'i os_state option" where
  "printf_body env c formatted s =
    (if GlobalState (OS_SharedGlobalVars s) \<noteq> OS_INIT_MAGIC_NUMBER then Some (OS_DEBUG Dbg_printf_uninitialized s)
     else if PrintfEnabled (OS_SharedGlobalVars s)
     then map_option snd (OS_ConsoleWrite env c (PrintfConsoleId (OS_SharedGlobalVars s)) (printf_message formatted) s)
     else Some s)"

text \<open>A null format is reported by a call of the function itself.\<close>

definition printf_bug_text :: string where
  "printf_bug_text = [CHR 0x0A] @ ''**BUG** OS_printf():269:check '' @ [CHR 0x27] @ ''String != NULL'' @ [CHR 0x27]
     @ '' FAILED --> '' @ [CHR 0x0A, CHR 0x0A]"

definition OS_printf :: "'i idmap_env \<Rightarrow> 'i console_impl \<Rightarrow> bool \<Rightarrow> string option \<Rightarrow> 'i os_state \<Rightarrow> 'i os_state option" where
  "OS_printf env c has_format formatted s =
    (if \<not> has_format then printf_body env c (Some printf_bug_text) s else printf_body env c formatted s)"

definition OS_printf_disable :: "'i os_state \<Rightarrow> 'i os_state" where
  "OS_printf_disable s = s\<lparr>OS_SharedGlobalVars := (OS_SharedGlobalVars s)\<lparr>PrintfEnabled := False\<rparr>\<rparr>"

definition OS_printf_enable :: "'i os_state \<Rightarrow> 'i os_state" where
  "OS_printf_enable s = s\<lparr>OS_SharedGlobalVars := (OS_SharedGlobalVars s)\<lparr>PrintfEnabled := True\<rparr>\<rparr>"

subsection \<open>The ring buffer as a stream\<close>

text \<open>
  What the ring buffer implements: \<open>A\<close> is everything accepted so far, of which the first \<open>r\<close>
  characters are gone; the positions are the two numbers modulo the size of the buffer.
\<close>

definition ring_holds :: "OS_console_internal_record \<Rightarrow> nat \<Rightarrow> string \<Rightarrow> bool" where
  "ring_holds con r A \<longleftrightarrow> 0 < BufSize con \<and> ReadPos con = r mod BufSize con \<and> WritePos con = length A mod BufSize con
     \<and> r \<le> length A \<and> length A < r + BufSize con
     \<and> (\<forall>k. r \<le> k \<and> k < length A \<longrightarrow> BufBase con (k mod BufSize con) = A ! k)"

text \<open>A message \<open>p\<close> that has been copied but not yet committed.\<close>

definition ring_pending :: "OS_console_internal_record \<Rightarrow> nat \<Rightarrow> string \<Rightarrow> string \<Rightarrow> nat \<Rightarrow> bool" where
  "ring_pending con r A p pos \<longleftrightarrow> ring_holds con r A \<and> pos = (length A + length p) mod BufSize con
     \<and> length A + length p < r + BufSize con \<and> (\<forall>k < length p. BufBase con ((length A + k) mod BufSize con) = p ! k)"

lemma mod_window_eq:
  fixes n :: nat
  assumes "k mod n = l mod n" "r \<le> k" "k < r + n" "r \<le> l" "l < r + n"
  shows "k = l"
proof -
  have le: "k = l" if "k mod n = l mod n" "k \<le> l" "l < k + n" for k l :: nat
  proof -
    have "n dvd l - k" using that(1,2) mod_eq_dvd_iff_nat[of k l n] by simp
    with that(2,3) show ?thesis using dvd_imp_le[of n "l - k"] by (cases "l - k") auto
  qed
  show ?thesis using assms le[of k l] le[of l k] by (cases "k \<le> l") auto
qed

lemma next_pos:
  fixes n :: nat
  assumes "0 < n"
  shows "(if k mod n + 1 \<ge> n then 0 else k mod n + 1) = (k + 1) mod n"
proof (cases "Suc (k mod n) = n")
  case False
  have "k mod n < n" using assms by simp
  with False have "Suc (k mod n) < n" by linarith
  then show ?thesis by (simp add: mod_Suc)
qed (simp add: mod_Suc)

lemma CopyOut_char_pending:
  assumes "ring_pending con r A p pos" "CopyOut_char con ch pos = (con1, pos1, full)"
  shows "ring_holds con1 r A" and "full \<longleftrightarrow> length A + length p + 1 = r + BufSize con"
    and "\<not> full \<Longrightarrow> ring_pending con1 r A (p @ [ch]) pos1"
    and "BufSize con1 = BufSize con" "console_device_name con1 = console_device_name con" "OverflowEvents con1 = OverflowEvents con"
proof -
  let ?n = "BufSize con" and ?q = "length A + length p"
  have h: "0 < ?n" "ReadPos con = r mod ?n" "WritePos con = length A mod ?n" "r \<le> length A" "?q < r + ?n" "pos = ?q mod ?n"
    and old: "\<And>k. r \<le> k \<Longrightarrow> k < length A \<Longrightarrow> BufBase con (k mod ?n) = A ! k"
    and new: "\<And>k. k < length p \<Longrightarrow> BufBase con ((length A + k) mod ?n) = p ! k"
    using assms(1) by (auto simp: ring_pending_def ring_holds_def)
  have con1: "con1 = con\<lparr>BufBase := (BufBase con)(pos := ch)\<rparr>" and pos1: "pos1 = (?q + 1) mod ?n" and full: "full \<longleftrightarrow> pos1 = r mod ?n"
    using assms(2) h next_pos[OF h(1), of ?q] by (auto simp: CopyOut_char_def Let_def)
  have other: "k mod ?n \<noteq> pos" if "r \<le> k" "k < ?q" for k
    using mod_window_eq[of k ?n ?q r] that h by auto
  show "BufSize con1 = BufSize con" "console_device_name con1 = console_device_name con" "OverflowEvents con1 = OverflowEvents con"
    by (simp_all add: con1)
  show holds: "ring_holds con1 r A"
    using h old other by (auto simp: ring_holds_def con1)
  show f: "full \<longleftrightarrow> ?q + 1 = r + ?n"
  proof
    assume "full"
    then have "(?q + 1) mod ?n = (r + ?n) mod ?n" using full pos1 by simp
    then show "?q + 1 = r + ?n" using mod_window_eq[of "?q + 1" ?n "r + ?n" "r + 1"] h by auto
  qed (simp add: full pos1)
  show "ring_pending con1 r A (p @ [ch]) pos1" if "\<not> full"
    using holds that f h new other pos1 by (auto simp: ring_pending_def con1 nth_append less_Suc_eq)
qed


lemma CopyOut_loop_pending:
  assumes "ring_pending con r A p pos" "CopyOut_loop con Str pos = (rc, pos1, con1)"
  shows "ring_holds con1 r A \<and> BufSize con1 = BufSize con \<and> console_device_name con1 = console_device_name con
    \<and> OverflowEvents con1 = OverflowEvents con
    \<and> (if length A + length p + length Str < r + BufSize con
       then rc = OS_SUCCESS \<and> ring_pending con1 r A (p @ Str) pos1 else rc = OS_QUEUE_FULL)"
  using assms
proof (induction con Str pos arbitrary: p rule: CopyOut_loop.induct)
  case (1 con pos)
  then show ?case by (auto simp: ring_pending_def)
next
  case (2 con ch pmsg pos)
  obtain con2 pos2 full where c: "CopyOut_char con ch pos = (con2, pos2, full)" by (metis prod_cases3)
  note ch = CopyOut_char_pending[OF "2.prems"(1) c]
  show ?case
  proof (cases full)
    case True
    with ch "2.prems"(2) c show ?thesis by auto
  next
    case False
    with "2.prems"(2) c have "CopyOut_loop con2 pmsg pos2 = (rc, pos1, con1)" by simp
    with "2.IH"[OF c[symmetric] refl False ch(3)[OF False]] ch False show ?thesis by (simp cong: if_cong)
  qed
qed

lemma ring_pending_start: "ring_holds con r A \<Longrightarrow> ring_pending con r A [] (WritePos con)"
  by (simp add: ring_pending_def ring_holds_def)

lemma ring_commit:
  assumes "ring_pending con r A p pos"
  shows "ring_holds (con\<lparr>WritePos := pos\<rparr>) r (A @ p)"
proof -
  have "BufBase con (k mod BufSize con) = (A @ p) ! k" if "r \<le> k" "k < length A + length p" for k
  proof (cases "k < length A")
    case False
    then obtain j where "k = length A + j" using le_Suc_ex[of "length A" k] by auto
    with assms that(2) show ?thesis by (simp add: ring_pending_def)
  qed (use assms that in \<open>auto simp: ring_pending_def ring_holds_def nth_append\<close>)
  with assms show ?thesis by (simp add: ring_pending_def ring_holds_def)
qed

lemma ring_holds_overflow: "ring_holds (con\<lparr>OverflowEvents := v\<rparr>) r A = ring_holds con r A"
  by (simp add: ring_holds_def)

lemma ConsoleWrite_record_holds:
  assumes "ring_holds con r A" "ConsoleWrite_record con Str = (rc, con1)"
  shows "if length A + length (console_device_name con @ Str) < r + BufSize con
     then rc = OS_SUCCESS \<and> ring_holds con1 r (A @ console_device_name con @ Str) \<and> OverflowEvents con1 = OverflowEvents con
     else rc = OS_QUEUE_FULL \<and> ring_holds con1 r A \<and> OverflowEvents con1 = OverflowEvents con + 1"
proof -
  let ?d = "console_device_name con"
  obtain rc1 pos1 con2 where one: "CopyOut_loop con ?d (WritePos con) = (rc1, pos1, con2)" by (metis prod_cases3)
  note p1 = CopyOut_loop_pending[OF ring_pending_start[OF assms(1)] one]
  have first: "(if ?d \<noteq> [] then OS_Console_CopyOut con ?d (WritePos con) else (OS_SUCCESS, WritePos con, con))
      = (rc1, if rc1 = OS_SUCCESS then pos1 else WritePos con, con2)"
    using one by (cases "?d = []") (auto simp: OS_Console_CopyOut_def)
  show ?thesis
  proof (cases "length A + length ?d < r + BufSize con")
    case True
    with p1 have ok: "rc1 = OS_SUCCESS" "ring_pending con2 r A ?d pos1" by auto
    obtain rc2 pos2 con3 where two: "CopyOut_loop con2 Str pos1 = (rc2, pos2, con3)" by (metis prod_cases3)
    note p2 = CopyOut_loop_pending[OF ok(2) two]
    have "rc = rc2" "con1 = (if rc2 = OS_SUCCESS then con3\<lparr>WritePos := pos2\<rparr> else con3\<lparr>OverflowEvents := OverflowEvents con3 + 1\<rparr>)"
      using assms(2) two ok(1) unfolding ConsoleWrite_record_def first by (auto simp: OS_Console_CopyOut_def)
    with p1 p2 ring_commit[of con3 r A "?d @ Str" pos2] show ?thesis
      by (auto simp: ring_holds_overflow)
  next
    case False
    with p1 have "rc1 = OS_QUEUE_FULL" "ring_holds con2 r A" "OverflowEvents con2 = OverflowEvents con" by auto
    with assms(2) False show ?thesis unfolding ConsoleWrite_record_def first by (auto simp: ring_holds_overflow)
  qed
qed


text \<open>The output loop, from absolute position \<open>a\<close> to \<open>b\<close>: one chunk advances towards \<open>b\<close> and has the right characters.\<close>

lemma Output_chunk_holds:
  assumes "ring_holds con r A" "r \<le> a" "a \<le> b" "b \<le> length A" "a mod BufSize con \<noteq> b mod BufSize con"
  obtains a1 where "Output_chunk con (a mod BufSize con) (b mod BufSize con) = (map ((!) A) [a..<a1], a1 mod BufSize con)"
    and "a < a1" "a1 \<le> b" "a1 mod BufSize con = 0 \<or> a1 = b"
proof -
  let ?n = "BufSize con" and ?p = "a mod BufSize con" and ?q = "b mod BufSize con"
  have n: "0 < ?n" "b < a + ?n" and A: "\<And>k. r \<le> k \<Longrightarrow> k < length A \<Longrightarrow> BufBase con (k mod ?n) = A ! k"
    using assms(1-4) by (auto simp: ring_holds_def)
  have pq: "?p < ?n" "?q < ?n" using n by simp_all
  define w where "w = (if ?p > ?q then ?n - ?p else ?q - ?p)"
  have ab: "a < b" using assms(3,5) by (cases "a = b") auto
  have w: "0 < w" "?p + w \<le> ?n" "a + w \<le> b" "(a + w) mod ?n = 0 \<or> a + w = b"
  proof -
    have "b = a + (b - a)" using ab by simp
    then have q: "?q = (?p + (b - a)) mod ?n" by (metis mod_add_left_eq)
    have d: "b - a < ?n" using n ab by linarith
    show "0 < w" using assms(5) pq by (auto simp: w_def)
    show "?p + w \<le> ?n" using pq by (auto simp: w_def)
    have "w = (if ?p + (b - a) < ?n then b - a else ?n - ?p) \<and> w \<le> b - a"
    proof (cases "?p + (b - a) < ?n")
      case True
      then have "?q = ?p + (b - a)" using q by simp
      then show ?thesis using ab True by (simp add: w_def)
    next
      case False
      moreover have "?p + (b - a) - ?n < ?n" using d pq(1) by linarith
      ultimately have "(?p + (b - a)) mod ?n = ?p + (b - a) - ?n" by (simp add: le_mod_geq)
      then have "?q = ?p + (b - a) - ?n" using q by (rule trans[rotated])
      then show ?thesis using False d pq by (auto simp: w_def)
    qed
    moreover have "(a + (?n - ?p)) mod ?n = 0"
    proof -
      have "(a + (?n - ?p)) mod ?n = (?p + (?n - ?p)) mod ?n" by (rule mod_add_left_eq[symmetric])
      then show ?thesis using pq by simp
    qed
    ultimately show "a + w \<le> b" "(a + w) mod ?n = 0 \<or> a + w = b" using ab by (auto split: if_splits)
  qed
  have chars: "BufBase con (?p + k) = A ! (a + k)" if "k < w" for k
  proof -
    have "(a + k) mod ?n = (?p + k) mod ?n" by (rule mod_add_left_eq[symmetric])
    also have "\<dots> = ?p + k" using that w(2) by simp
    finally show ?thesis using A[of "a + k"] that w(3) assms(2,4) by simp
  qed
  have "(if ?p + w \<ge> ?n then 0 else ?p + w) = (a + w) mod ?n"
  proof -
    have "(a + w) mod ?n = (?p + w) mod ?n" by (rule mod_add_left_eq[symmetric])
    then show ?thesis using w(2) by (cases "?p + w = ?n") simp_all
  qed
  moreover have "map (\<lambda>k. BufBase con (?p + k)) [0..<w] = map ((!) A) [a..<a + w]"
    by (rule nth_equalityI) (simp_all add: chars)
  ultimately have "Output_chunk con ?p ?q = (map ((!) A) [a..<a + w], (a + w) mod ?n)"
    by (simp add: Output_chunk_def Let_def w_def[symmetric])
  then show thesis using that w by simp
qed

lemma Output_loop_holds:
  assumes "ring_holds con r A" "r \<le> a" "a \<le> length A"
    and "\<And>x y i. OS_BSP_ConsoleOutput_Impl c y (OS_BSP_ConsoleOutput_Impl c x i) = OS_BSP_ConsoleOutput_Impl c (x @ y) i"
    and "\<And>i. OS_BSP_ConsoleOutput_Impl c [] i = i"
  shows "Output_loop c con (a mod BufSize con) (length A mod BufSize con) i
    = Some (length A mod BufSize con, OS_BSP_ConsoleOutput_Impl c (drop a A) i)"
  using assms(2,3)
proof (induction "length A - a" arbitrary: a i rule: less_induct)
  case less
  let ?n = "BufSize con"
  show ?case
  proof (cases "a mod ?n = length A mod ?n")
    case True
    then have "a = length A" using mod_window_eq[of a ?n "length A" r] less.prems assms(1) by (auto simp: ring_holds_def)
    with assms(5) show ?thesis by (simp add: Output_loop.simps)
  next
    case False
    obtain a1 where a1: "Output_chunk con (a mod ?n) (length A mod ?n) = (map ((!) A) [a..<a1], a1 mod ?n)" "a < a1" "a1 \<le> length A"
      by (rule Output_chunk_holds[OF assms(1) less.prems order_refl False]) blast
    have "drop a A = map ((!) A) [a..<a1] @ drop a1 A"
      using a1(2,3) by (intro nth_equalityI) (auto simp: nth_append add.commute)
    with False a1 less.hyps[of a1] less.prems(1) assms(4) show ?thesis
      by (simp add: Output_loop.simps[of c con "a mod ?n"])
  qed
qed


subsection \<open>Interleavings of writers and the output task\<close>

text \<open>
  The console with an output task of its own. A task that prints copies its message character by
  character and commits it at the end; printing tasks exclude each other by the lock of the
  console table. The output task takes the two positions, writes chunk after chunk to the device and
  then gives the space free. Each of these is a step, and the steps of the two sides interleave in
  any way. \<open>device\<close> is what the device has received and \<open>accepted\<close> the messages that were
  committed.
\<close>

datatype writer = Writer_idle | Copying string nat string

datatype reader = Reader_idle | Draining nat nat

record console_world =
  console :: OS_console_internal_record
  writer :: writer
  reader :: reader
  device :: string
  accepted :: string

inductive console_step :: "console_world \<Rightarrow> console_world \<Rightarrow> bool" where
  Write_start: "writer w = Writer_idle
    \<Longrightarrow> console_step w (w\<lparr>writer := Copying (console_device_name (console w) @ Str) (WritePos (console w))
                                  (console_device_name (console w) @ Str)\<rparr>)"
| Write_char: "writer w = Copying (ch # pmsg) pos msg \<Longrightarrow> CopyOut_char (console w) ch pos = (con1, pos1, False)
    \<Longrightarrow> console_step w (w\<lparr>console := con1, writer := Copying pmsg pos1 msg\<rparr>)"
| Write_full: "writer w = Copying (ch # pmsg) pos msg \<Longrightarrow> CopyOut_char (console w) ch pos = (con1, pos1, True)
    \<Longrightarrow> console_step w (w\<lparr>console := con1\<lparr>OverflowEvents := OverflowEvents con1 + 1\<rparr>, writer := Writer_idle\<rparr>)"
| Write_commit: "writer w = Copying [] pos msg
    \<Longrightarrow> console_step w (w\<lparr>console := (console w)\<lparr>WritePos := pos\<rparr>, writer := Writer_idle, accepted := accepted w @ msg\<rparr>)"
| Read_start: "reader w = Reader_idle
    \<Longrightarrow> console_step w (w\<lparr>reader := Draining (ReadPos (console w)) (WritePos (console w))\<rparr>)"
| Read_chunk: "reader w = Draining StartPos EndPos \<Longrightarrow> StartPos \<noteq> EndPos \<Longrightarrow> Output_chunk (console w) StartPos EndPos = (data, pos1)
    \<Longrightarrow> console_step w (w\<lparr>reader := Draining pos1 EndPos, device := device w @ data\<rparr>)"
| Read_done: "reader w = Draining StartPos EndPos \<Longrightarrow> StartPos = EndPos
    \<Longrightarrow> console_step w (w\<lparr>console := (console w)\<lparr>ReadPos := StartPos\<rparr>, reader := Reader_idle\<rparr>)"

fun writer_ok :: "writer \<Rightarrow> OS_console_internal_record \<Rightarrow> nat \<Rightarrow> string \<Rightarrow> bool" where
  "writer_ok Writer_idle con r A \<longleftrightarrow> True"
| "writer_ok (Copying rest pos msg) con r A \<longleftrightarrow> (\<exists>p. msg = p @ rest \<and> ring_pending con r A p pos)"

fun reader_ok :: "reader \<Rightarrow> nat \<Rightarrow> nat \<Rightarrow> string \<Rightarrow> string \<Rightarrow> bool" where
  "reader_ok Reader_idle n r A out \<longleftrightarrow> out = take r A"
| "reader_ok (Draining p q) n r A out \<longleftrightarrow>
     (\<exists>a b. p = a mod n \<and> q = b mod n \<and> r \<le> a \<and> a \<le> b \<and> b \<le> length A \<and> out = take a A)"

definition console_inv :: "console_world \<Rightarrow> bool" where
  "console_inv w \<longleftrightarrow> (\<exists>r. ring_holds (console w) r (accepted w) \<and> writer_ok (writer w) (console w) r (accepted w)
     \<and> reader_ok (reader w) (BufSize (console w)) r (accepted w) (device w))"

lemma console_invI:
  "ring_holds (console w) r (accepted w) \<Longrightarrow> writer_ok (writer w) (console w) r (accepted w)
    \<Longrightarrow> reader_ok (reader w) (BufSize (console w)) r (accepted w) (device w) \<Longrightarrow> console_inv w"
  unfolding console_inv_def by blast

lemma reader_ok_append: "reader_ok rd n r A out \<Longrightarrow> r \<le> length A \<Longrightarrow> reader_ok rd n r (A @ B) out"
  by (cases rd) force+

lemma ring_free:
  assumes "ring_holds con r A" "r \<le> a" "a \<le> length A"
  shows "ring_holds (con\<lparr>ReadPos := a mod BufSize con\<rparr>) a A"
    and "writer_ok wr con r A \<Longrightarrow> writer_ok wr (con\<lparr>ReadPos := a mod BufSize con\<rparr>) a A"
  using assms by (cases wr; fastforce simp: ring_holds_def ring_pending_def)+

lemma console_step_inv:
  assumes "console_step w w'" "console_inv w"
  shows "console_inv w'"
proof -
  let ?n = "BufSize (console w)"
  from assms(2) obtain r where h: "ring_holds (console w) r (accepted w)" and wr: "writer_ok (writer w) (console w) r (accepted w)"
    and rd: "reader_ok (reader w) ?n r (accepted w) (device w)"
    by (auto simp: console_inv_def)
  from assms(1) show ?thesis
  proof cases
    case (Write_start Str)
    with h rd ring_pending_start[OF h] show ?thesis by (intro console_invI[of _ r]) auto
  next
    case (Write_char ch pmsg pos msg con1 pos1)
    from wr Write_char(2) obtain p where p: "msg = p @ ch # pmsg" "ring_pending (console w) r (accepted w) p pos" by auto
    note ch = CopyOut_char_pending[OF p(2) Write_char(3)]
    from ch p rd Write_char(1) show ?thesis by (intro console_invI[of _ r]) (auto intro!: exI[of _ "p @ [ch]"])
  next
    case (Write_full ch pmsg pos msg con1 pos1)
    from wr Write_full(2) obtain p where p: "ring_pending (console w) r (accepted w) p pos" by auto
    note ch = CopyOut_char_pending[OF p Write_full(3)]
    from ch rd Write_full(1) show ?thesis by (intro console_invI[of _ r]) (auto simp: ring_holds_overflow)
  next
    case (Write_commit pos msg)
    from wr Write_commit(2) have "ring_pending (console w) r (accepted w) msg pos" by auto
    moreover have "r \<le> length (accepted w)" using h by (simp add: ring_holds_def)
    ultimately show ?thesis using Write_commit(1) ring_commit reader_ok_append[OF rd] by (intro console_invI[of _ r]) auto
  next
    case Read_start
    have "reader_ok (Draining (ReadPos (console w)) (WritePos (console w))) ?n r (accepted w) (device w)"
      unfolding reader_ok.simps by (rule exI[of _ r], rule exI[of _ "length (accepted w)"])
        (use h rd Read_start(2) in \<open>auto simp: ring_holds_def\<close>)
    with Read_start(1) h wr show ?thesis by (intro console_invI[of _ r]) simp_all
  next
    case (Read_chunk StartPos EndPos data pos1)
    from rd Read_chunk(2) obtain a b where ab: "StartPos = a mod ?n" "EndPos = b mod ?n"
        "r \<le> a" "a \<le> b" "b \<le> length (accepted w)" "device w = take a (accepted w)" by auto
    have "a mod ?n \<noteq> b mod ?n" using Read_chunk(3) ab(1,2) by simp
    then obtain a1 where a1: "Output_chunk (console w) StartPos EndPos = (map ((!) (accepted w)) [a..<a1], a1 mod ?n)" "a < a1" "a1 \<le> b"
      unfolding ab(1,2) by (rule Output_chunk_holds[OF h ab(3-5)])
    have "take a1 (accepted w) = take a (accepted w) @ map ((!) (accepted w)) [a..<a1]"
      using a1(2,3) ab(5) by (intro nth_equalityI) (auto simp: nth_append)
    with a1 ab Read_chunk(4) have "pos1 = a1 mod ?n \<and> EndPos = b mod ?n \<and> r \<le> a1 \<and> a1 \<le> b \<and> b \<le> length (accepted w)
        \<and> device w @ data = take a1 (accepted w)" by auto
    then have "reader_ok (Draining pos1 EndPos) ?n r (accepted w) (device w @ data)" unfolding reader_ok.simps by blast
    with Read_chunk(1) h wr show ?thesis by (intro console_invI[of _ r]) simp_all
  next
    case (Read_done StartPos EndPos)
    from rd Read_done(2) obtain a where ab: "StartPos = a mod ?n" "r \<le> a" "a \<le> length (accepted w)" "device w = take a (accepted w)"
      by auto
    with ring_free[OF h ab(2,3)] wr Read_done(1) show ?thesis by (intro console_invI[of _ a]) simp_all
  qed
qed

text \<open>A console before anything has been printed.\<close>

definition console_start :: "console_world \<Rightarrow> bool" where
  "console_start w \<longleftrightarrow> 0 < BufSize (console w) \<and> ReadPos (console w) = 0 \<and> WritePos (console w) = 0
     \<and> writer w = Writer_idle \<and> reader w = Reader_idle \<and> device w = [] \<and> accepted w = []"

lemma console_start_inv: "console_start w \<Longrightarrow> console_inv w"
  by (rule console_invI[of _ 0]) (simp_all add: console_start_def ring_holds_def)

lemma console_steps_inv: "console_step\<^sup>*\<^sup>* w w' \<Longrightarrow> console_inv w \<Longrightarrow> console_inv w'"
  by (induction rule: rtranclp_induct) (auto intro: console_step_inv)

text \<open>C6: Nothing that was accepted for printing is lost, duplicated, reordered or mixed with an unfinished
  message, however printing tasks and the output task interleave, down to single character
  stores: what the device has received is always a prefix of the accepted messages, and all of it
  when the output task is idle and the buffer is empty.\<close>

theorem console_fifo:
  assumes "console_start w0" "console_step\<^sup>*\<^sup>* w0 w"
  shows "(\<exists>rest. accepted w = device w @ rest)
    \<and> (reader w = Reader_idle \<and> ReadPos (console w) = WritePos (console w) \<longrightarrow> device w = accepted w)"
proof -
  from console_steps_inv[OF assms(2) console_start_inv[OF assms(1)]] obtain r
    where h: "ring_holds (console w) r (accepted w)" and rd: "reader_ok (reader w) (BufSize (console w)) r (accepted w) (device w)"
    by (auto simp: console_inv_def)
  have "\<exists>a. device w = take a (accepted w)" using rd by (cases "reader w") auto
  then have "\<exists>rest. accepted w = device w @ rest" by (metis append_take_drop_id)
  moreover have "device w = accepted w" if "reader w = Reader_idle" "ReadPos (console w) = WritePos (console w)"
  proof -
    have "r = length (accepted w)"
      using h that(2) mod_window_eq[of r "BufSize (console w)" "length (accepted w)" r] by (auto simp: ring_holds_def)
    with rd that(1) show ?thesis by simp
  qed
  ultimately show ?thesis by blast
qed


subsection \<open>Printing without an output task\<close>

abbreviation CNT :: osal_objtype_t where "CNT \<equiv> OS_OBJECT_TYPE_OS_CONSOLE"

lemma upd_console_simps [simp]:
  "OS_common_table (upd_console j f s) = OS_common_table s" "impl (upd_console j f s) = impl s"
  "OS_console_table (upd_console j f s) = (OS_console_table s)(j := f (OS_console_table s j))"
  "lock_free t (upd_console j f s) = lock_free t s" "OS_SharedGlobalVars (upd_console j f s) = OS_SharedGlobalVars s"
  "stuck (upd_console j f s) = stuck s"
  by (simp_all add: upd_console_def lock_free_def objtype_state_def)

lemma upd_console_held:
  "upd_console j f (acquired t k (upd_common r g s)) = acquired t k (upd_common r g (upd_console j f s))"
  by (rule os_state.equality) (simp_all add: upd_console_def acquired_def upd_common_def upd_objtype_def OS_Lock_Global_Impl_def)

lemma console_impl_held:
  "(acquired t k (upd_common r g s))\<lparr>impl := a\<rparr> = acquired t k (upd_common r g (s\<lparr>impl := a\<rparr>))"
  by (simp add: impl_acquired impl_upd_common)

lemma console_tables [simp]:
  "OS_console_table (acquired t k s) = OS_console_table s" "OS_console_table (upd_common r f s) = OS_console_table s"
  "OS_console_table (ticked t s) = OS_console_table s"
  by (simp_all add: acquired_def ticked_def upd_common_def upd_objtype_def OS_Lock_Global_Impl_def)

lemma ConsoleWrite_record_fields:
  assumes "ConsoleWrite_record con Str = (rc, con1)"
  shows "IsAsync con1 = IsAsync con" "console_device_name con1 = console_device_name con" "BufSize con1 = BufSize con"
proof -
  have loop: "IsAsync c2 = IsAsync c1 \<and> console_device_name c2 = console_device_name c1 \<and> BufSize c2 = BufSize c1"
    if "CopyOut_loop c1 str p = (r, q, c2)" for c1 c2 str p r q
    using that by (induction c1 str p rule: CopyOut_loop.induct) (auto simp: CopyOut_char_def Let_def split: if_splits prod.splits)
  have "IsAsync con1 = IsAsync con \<and> console_device_name con1 = console_device_name con \<and> BufSize con1 = BufSize con"
    using assms by (auto simp: ConsoleWrite_record_def OS_Console_CopyOut_def split: if_splits prod.splits dest!: loop)
  then show "IsAsync con1 = IsAsync con" "console_device_name con1 = console_device_name con" "BufSize con1 = BufSize con" by auto
qed

lemma upd_console_idle: "idle (upd_console j f s) = idle s"
  by (simp add: idle_def) (simp add: running_def)

lemma ConsoleWrite_sync:
  assumes "idle s" "live CNT i s" "con = OS_console_table s (unat (index_of i))" "\<not> IsAsync con" "ring_holds con r A"
    and "\<And>x y a. OS_BSP_ConsoleOutput_Impl c y (OS_BSP_ConsoleOutput_Impl c x a) = OS_BSP_ConsoleOutput_Impl c (x @ y) a"
    and "\<And>a. OS_BSP_ConsoleOutput_Impl c [] a = a"
    and "fits \<longleftrightarrow> length A + length (console_device_name con @ Str) < r + BufSize con"
    and "A' = (if fits then A @ console_device_name con @ Str else A)"
  shows "\<exists>s' con'. OS_ConsoleWrite env c i Str s = Some (if fits then OS_SUCCESS else OS_QUEUE_FULL, s')
    \<and> impl s' = OS_BSP_Unlock_Impl c (OS_BSP_ConsoleOutput_Impl c (drop r A') (OS_BSP_Lock_Impl c (impl s)))
    \<and> con' = OS_console_table s' (unat (index_of i)) \<and> ring_holds con' (length A') A'
    \<and> OverflowEvents con' = OverflowEvents con + (if fits then 0 else 1) \<and> idle s'"
proof -
  let ?j = "unat (index_of i)" and ?r = "record_of CNT (index_of i)"
  obtain k where k: "k AND 0xFF000000 = 0x4D000000"
    and get: "OS_ObjectIdGetById env OS_LOCK_MODE_GLOBAL CNT i s = (OS_SUCCESS, tok OS_LOCK_MODE_GLOBAL k CNT (index_of i) i,
      acquired CNT k (upd_common ?r (\<lambda>ob. ob\<lparr>refcount := refcount ob + 1\<rparr>) s))"
    and rel: "\<forall>s'. lock_free CNT s' \<and> OS_common_table s' = OS_common_table s \<longrightarrow>
      OS_ObjectIdRelease env (tok OS_LOCK_MODE_GLOBAL k CNT (index_of i) i)
        (acquired CNT k (upd_common ?r (\<lambda>ob. ob\<lparr>refcount := refcount ob + 1\<rparr>) s')) = (tok OS_LOCK_MODE_NONE 0 CNT (index_of i) i, ticked CNT s')"
    by (rule GetById_Release_global[OF assms(1,2)])
  obtain rc con1 where w: "ConsoleWrite_record con Str = (rc, con1)" by fastforce
  note wf = ConsoleWrite_record_fields[OF w]
  have rec: "rc = (if fits then OS_SUCCESS else OS_QUEUE_FULL)" "ring_holds con1 r A'" "OverflowEvents con1 = OverflowEvents con + (if fits then 0 else 1)"
    using ConsoleWrite_record_holds[OF assms(5) w] assms(8,9) by (auto split: if_splits)
  have pos: "ReadPos con1 = r mod BufSize con1" "WritePos con1 = length A' mod BufSize con1" "r \<le> length A'"
    using rec(2) by (auto simp: ring_holds_def)
  have out: "Output_loop c con1 (ReadPos con1) (WritePos con1) a = Some (WritePos con1, OS_BSP_ConsoleOutput_Impl c (drop r A') a)" for a
    using Output_loop_holds[OF rec(2) order_refl pos(3) assms(6,7), of a] pos by simp
  define a where "a = OS_BSP_Unlock_Impl c (OS_BSP_ConsoleOutput_Impl c (drop r A') (OS_BSP_Lock_Impl c (impl s)))"
  define s' where "s' = upd_console ?j (\<lambda>_. con1\<lparr>ReadPos := WritePos con1\<rparr>) (s\<lparr>impl := a\<rparr>)"
  have lf: "lock_free CNT s'" "OS_common_table s' = OS_common_table s"
    using idle_live_record[OF assms(1,2)] by (simp_all add: s'_def)
  have fin: "upd_console ?j (\<lambda>con. con\<lparr>ReadPos := WritePos con1\<rparr>) ((upd_console ?j (\<lambda>_. con1) x)\<lparr>impl := a\<rparr>)
      = upd_console ?j (\<lambda>_. con1\<lparr>ReadPos := WritePos con1\<rparr>) (x\<lparr>impl := a\<rparr>)" for x :: "'a os_state"
    by (simp add: upd_console_def)
  let ?tk = "tok OS_LOCK_MODE_GLOBAL k CNT (index_of i) i"
  define s1 where "s1 = acquired CNT k (upd_common ?r (\<lambda>ob. ob\<lparr>refcount := refcount ob + 1\<rparr>) s)"
  have "OS_ConsoleOutput_Impl c ?tk (upd_console ?j (\<lambda>_. con1) s1)
      = Some (upd_console ?j (\<lambda>_. con1\<lparr>ReadPos := WritePos con1\<rparr>) (s1\<lparr>impl := a\<rparr>))"
    by (simp add: OS_ConsoleOutput_Impl_def Let_def out fin a_def[symmetric] s1_def)
  moreover have "upd_console ?j (\<lambda>_. con1\<lparr>ReadPos := WritePos con1\<rparr>) (s1\<lparr>impl := a\<rparr>)
      = acquired CNT k (upd_common ?r (\<lambda>ob. ob\<lparr>refcount := refcount ob + 1\<rparr>) s')"
    unfolding s1_def s'_def console_impl_held upd_console_held ..
  moreover have "OS_console_table s1 ?j = con" by (simp add: s1_def assms(3))
  ultimately have eq: "OS_ConsoleWrite env c i Str s = Some (rc, ticked CNT s')"
    using get rel lf w wf(1) assms(4) by (simp add: OS_ConsoleWrite_def s1_def[symmetric])
  have "ring_holds (con1\<lparr>ReadPos := WritePos con1\<rparr>) (length A') A'"
    using rec(2) by (auto simp: ring_holds_def)
  moreover have "idle s'" using assms(1) unfolding s'_def by (simp add: upd_console_idle)
  ultimately show ?thesis using eq rec(1,3)
    by (intro exI[of _ "ticked CNT s'"]) (simp add: s'_def a_def)
qed


text \<open>C32: With a synchronous console a message is printed as a whole or, when the ring buffer has no room for
  it, not at all, which is reported and counted; the call always returns, everything
  waiting in the buffer goes to the device in order and the buffer is empty afterwards. The device is
  any that takes characters as a stream.\<close>

theorem OS_ConsoleWrite_sync:
  assumes "idle s" "live CNT i s" "con = OS_console_table s (unat (index_of i))" "\<not> IsAsync con" "ring_holds con r A"
    and "\<And>x y a. OS_BSP_ConsoleOutput_Impl c y (OS_BSP_ConsoleOutput_Impl c x a) = OS_BSP_ConsoleOutput_Impl c (x @ y) a"
    and "\<And>a. OS_BSP_ConsoleOutput_Impl c [] a = a"
    and "fits \<longleftrightarrow> length A + length (console_device_name con @ Str) < r + BufSize con"
    and "A' = (if fits then A @ console_device_name con @ Str else A)"
  shows "\<exists>s' con'. OS_ConsoleWrite env c i Str s = Some (if fits then OS_SUCCESS else OS_QUEUE_FULL, s')
    \<and> impl s' = OS_BSP_Unlock_Impl c (OS_BSP_ConsoleOutput_Impl c (drop r A') (OS_BSP_Lock_Impl c (impl s)))
    \<and> con' = OS_console_table s' (unat (index_of i)) \<and> ring_holds con' (length A') A'
    \<and> OverflowEvents con' = OverflowEvents con + (if fits then 0 else 1) \<and> idle s'"
  by (rule ConsoleWrite_sync[OF assms])

text \<open>On a synchronous console with an empty buffer \<^verbatim>\<open>OS_printf\<close> prints its text, cut to the size of the
  format buffer, and never overflows the ring buffer.\<close>

lemma OS_printf_prints:
  assumes "idle s" "live CNT i s" "PrintfConsoleId (OS_SharedGlobalVars s) = i" "PrintfEnabled (OS_SharedGlobalVars s)"
    and "con = OS_console_table s (unat (index_of i))" "\<not> IsAsync con" "ring_holds con r A" "r = length A"
    and "BufSize con = (length (console_device_name con) + 1 + OS_BUFFER_SIZE) * OS_BUFFER_MSG_DEPTH"
    and "\<And>x y a. OS_BSP_ConsoleOutput_Impl c y (OS_BSP_ConsoleOutput_Impl c x a) = OS_BSP_ConsoleOutput_Impl c (x @ y) a"
    and "\<And>a. OS_BSP_ConsoleOutput_Impl c [] a = a" "\<forall>ch\<in>set text. ch \<noteq> CHR 0x00"
  shows "\<exists>s'. OS_printf env c True (Some text) s = Some s'
    \<and> impl s' = OS_BSP_Unlock_Impl c (OS_BSP_ConsoleOutput_Impl c (console_device_name con @ take (OS_BUFFER_SIZE - 1) text)
        (OS_BSP_Lock_Impl c (impl s)))
    \<and> OverflowEvents (OS_console_table s' (unat (index_of i))) = OverflowEvents con"
proof -
  let ?d = "console_device_name con" and ?m = "printf_message (Some text)"
  have m: "?m = take (OS_BUFFER_SIZE - 1) text"
    using assms(12) by (auto simp: printf_message_def takeWhile_eq_all_conv dest: in_set_takeD)
  have "length ?m < OS_BUFFER_SIZE" by (simp add: m OS_BUFFER_SIZE_def)
  then have "length A + length (?d @ ?m) < r + BufSize con"
    using assms(8,9) by (simp add: OS_BUFFER_SIZE_def OS_BUFFER_MSG_DEPTH_def)
  with ConsoleWrite_sync[OF assms(1,2,5,6,7,10,11) refl refl, of env ?m] obtain s' where
    "OS_ConsoleWrite env c i ?m s = Some (OS_SUCCESS, s')"
    "impl s' = OS_BSP_Unlock_Impl c (OS_BSP_ConsoleOutput_Impl c (?d @ ?m) (OS_BSP_Lock_Impl c (impl s)))"
    "OverflowEvents (OS_console_table s' (unat (index_of i))) = OverflowEvents con"
    using assms(8) by auto
  with m assms(3,4) idleD(1)[OF assms(1)] show ?thesis by (simp add: OS_printf_def printf_body_def running_def)
qed


subsection \<open>Instances\<close>

definition console_filled :: "string \<Rightarrow> unit \<Rightarrow> OS_console_internal_record" where
  "console_filled nm x = zero_console\<lparr>console_device_name := strncpy_cleared nm OS_MAX_API_NAME\<rparr>"

interpretation cnt: object_table CNT Console_name "\<lambda>nm (x :: unit). console_fill nm" OS_console_table console_filled
proof
  fix nm :: string and x :: unit and token :: OS_object_token and s :: "'i os_state" and p
  show "length nm < OS_MAX_API_NAME \<Longrightarrow> deref_name (console_fill nm token s) (Console_name (unat (obj_idx token))) = nm"
    by (simp add: console_fill_def upd_console_def Let_def strncpy_cleared_fits)
  show "name_owner p \<noteq> (CNT, unat (obj_idx token)) \<Longrightarrow> deref_name (console_fill nm token s) p = deref_name s p"
    by (cases p) (auto simp: console_fill_def upd_console_def Let_def)
qed (simp_all add: console_fill_def console_filled_def upd_console_def Let_def OS_GetMaxForObjectType_def os_max_defs)

text \<open>A device that keeps what it receives.\<close>

definition example_console_impl :: "string console_impl" where
  "example_console_impl = \<lparr>OS_ConsoleCreate_Impl = (\<lambda>_ s. (OS_SUCCESS, impl s)), OS_ConsoleWakeup_Impl = (\<lambda>_ a. a),
     OS_BSP_Lock_Impl = (\<lambda>a. a), OS_BSP_Unlock_Impl = (\<lambda>a. a), OS_BSP_ConsoleOutput_Impl = (\<lambda>x a. a @ x)\<rparr>"

lemma example_console_simps [simp]:
  "OS_BSP_ConsoleOutput_Impl example_console_impl x a = a @ x" "OS_BSP_Lock_Impl example_console_impl a = a"
  "OS_BSP_Unlock_Impl example_console_impl a = a"
  by (simp_all add: example_console_impl_def)

theorem OS_ConsoleWrite_sync_witness:
  "\<exists>i s s'. OS_ConsoleWrite quiet_env example_console_impl i ''ab'' s = Some (OS_SUCCESS, s') \<and> impl s' = impl s @ ''>ab''"
proof -
  obtain s0 :: "string os_state" and i where si: "idle s0" "live CNT i s0" "OS_console_table s0 (unat (index_of i)) = console_filled ''>'' ()"
    by (rule cnt.some_live[of "''>''" "()"]) (simp_all add: OS_MAX_API_NAME_def)
  let ?s = "upd_console (unat (index_of i)) (\<lambda>con. con\<lparr>BufSize := 8\<rparr>) s0"
  let ?con = "(console_filled ''>'' ())\<lparr>BufSize := 8\<rparr>"
  have "idle ?s" "live CNT i ?s" "?con = OS_console_table ?s (unat (index_of i))" "\<not> IsAsync ?con" "ring_holds ?con 0 []"
    "console_device_name ?con = ''>''"
    using si by (simp_all add: upd_console_idle live_def ring_holds_def console_filled_def zero_console_def strncpy_cleared_fits OS_MAX_API_NAME_def)
  from OS_ConsoleWrite_sync[OF this(1-5), of example_console_impl _ "''ab''" _ quiet_env, OF _ _ refl refl] this(6)
  have "\<exists>s'. OS_ConsoleWrite quiet_env example_console_impl i ''ab'' ?s = Some (OS_SUCCESS, s') \<and> impl s' = impl ?s @ ''>ab''" by auto
  then show ?thesis by blast
qed

text \<open>A run in which the output task looks at the buffer while a message is being copied.\<close>

theorem console_fifo_witness:
  "\<exists>w0 w. console_start w0 \<and> console_step\<^sup>*\<^sup>* w0 w \<and> accepted w = ''ab'' \<and> (\<exists>rest. accepted w = device w @ rest)"
proof -
  let ?c = "zero_console\<lparr>BufSize := 4\<rparr>"
  let ?ca = "?c\<lparr>BufBase := (BufBase ?c)(0 := CHR ''a'')\<rparr>" and ?cb = "?c\<lparr>BufBase := (BufBase ?c)(0 := CHR ''a'', 1 := CHR ''b'')\<rparr>"
  let ?w0 = "\<lparr>console = ?c, writer = Writer_idle, reader = Reader_idle, device = [], accepted = []\<rparr>"
  let ?w1 = "?w0\<lparr>writer := Copying ''ab'' 0 ''ab''\<rparr>" and ?w2 = "?w0\<lparr>console := ?ca, writer := Copying ''b'' 1 ''ab''\<rparr>"
  let ?w3 = "?w2\<lparr>reader := Draining 0 0\<rparr>" and ?w4 = "?w0\<lparr>console := ?cb, writer := Copying [] 2 ''ab'', reader := Draining 0 0\<rparr>"
  let ?w5 = "?w4\<lparr>console := ?cb\<lparr>WritePos := 2\<rparr>, writer := Writer_idle, accepted := ''ab''\<rparr>"
  have s: "console_step ?w0 ?w1" "console_step ?w1 ?w2" "console_step ?w2 ?w3" "console_step ?w3 ?w4" "console_step ?w4 ?w5"
    using console_step.Write_start[of ?w0 "''ab''"] console_step.Write_char[of ?w1 "CHR ''a''" "''b''" 0 "''ab''" ?ca 1]
      console_step.Read_start[of ?w2] console_step.Write_char[of ?w3 "CHR ''b''" "[]" 1 "''ab''" ?cb 2]
      console_step.Write_commit[of ?w4 2 "''ab''"]
    by (simp_all add: zero_console_def CopyOut_char_def Let_def numeral_2_eq_2)
  then have "console_step\<^sup>*\<^sup>* ?w0 ?w5" by (meson converse_rtranclp_into_rtranclp rtranclp.rtrancl_refl)
  moreover have "console_start ?w0" by (simp add: console_start_def zero_console_def)
  ultimately show ?thesis using console_fifo[of ?w0 ?w5] by (intro exI[of _ ?w0] exI[of _ ?w5]) simp
qed

end
