(* ===== verification/Posix_Timebase.thy ===== *)
theory Posix_Timebase
  imports Timebase Console Posix_Tasks
begin

text \<open>
  The POSIX implementation of time bases and of the console, \<^verbatim>\<open>os-impl-timebase.c\<close> and
  \<^verbatim>\<open>os-impl-console.c\<close> under \<^verbatim>\<open>src/src/os/posix/src\<close>. A time base without an external source of
  ticks has a timer of the host, which sends a real-time signal, and a thread that waits for it.
\<close>

subsection \<open>State and host\<close>

record OS_impl_timebase_internal_record =
  handler_thread :: nat
  host_timerid :: int
  assigned_signal :: int
  tb_sigset :: "int set"
  reset_flag :: bool

record 'h posix_timebases =
  tb_globals :: POSIX_GlobalVars
  OS_impl_timebase_table :: "nat \<Rightarrow> OS_impl_timebase_internal_record"
  tb_host :: 'h

record 'h timer_calls =
  sys_clock_getres :: "errno + int \<times> int"
  sys_mutexattr_ok :: "errno + unit"
  sys_mutexattr_protocol_ok :: "errno + unit"
  sys_tb_mutex_init :: "nat \<Rightarrow> 'h \<Rightarrow> (errno + unit) \<times> 'h"
  sys_tb_mutex_lock :: "nat \<Rightarrow> 'h \<Rightarrow> 'h"
  sys_tb_mutex_unlock :: "nat \<Rightarrow> 'h \<Rightarrow> 'h"
  sys_clk_tck :: int
  sys_sigqueue_max :: int
  sys_sigtimedwait :: "int set \<Rightarrow> 'h \<Rightarrow> (errno + int) \<times> 'h"
  sys_sigwait :: "int set \<Rightarrow> 'h posix_timebases os_state \<Rightarrow> (errno + int) \<times> 'h posix_timebases os_state"
  sys_timer_create :: "int \<Rightarrow> int \<Rightarrow> 'h \<Rightarrow> (errno + int) \<times> 'h"
  sys_timer_settime :: "int \<Rightarrow> (int \<times> int) \<times> (int \<times> int) \<Rightarrow> 'h \<Rightarrow> (errno + unit) \<times> 'h"
  sys_timer_delete :: "int \<Rightarrow> 'h \<Rightarrow> (errno + unit) \<times> 'h"
  addr_SigWaitImpl :: nat

definition zero_tb :: OS_impl_timebase_internal_record where
  "zero_tb = \<lparr>handler_thread = 0, host_timerid = 0, assigned_signal = 0, tb_sigset = {}, reset_flag = False\<rparr>"

definition upd_tb ::
    "nat \<Rightarrow> (OS_impl_timebase_internal_record \<Rightarrow> OS_impl_timebase_internal_record) \<Rightarrow> 'h posix_timebases \<Rightarrow> 'h posix_timebases" where
  "upd_tb j f a = a\<lparr>OS_impl_timebase_table := (OS_impl_timebase_table a)(j := f (OS_impl_timebase_table a j))\<rparr>"

subsection \<open>Time bases\<close>

definition OS_UsecToTimespec :: "u32 \<Rightarrow> int \<times> int" where
  "OS_UsecToTimespec usecs =
    (if usecs < 1000000 then (0, uint (usecs * 1000))
     else (uint (usecs div 1000000), uint ((usecs mod 1000000) * 1000)))"

definition posix_TimeBaseLock :: "'h timer_calls \<Rightarrow> OS_object_token \<Rightarrow> 'h posix_timebases \<Rightarrow> 'h posix_timebases" where
  "posix_TimeBaseLock c token a = a\<lparr>tb_host := sys_tb_mutex_lock c (unat (obj_idx token)) (tb_host a)\<rparr>"

definition posix_TimeBaseUnlock :: "'h timer_calls \<Rightarrow> OS_object_token \<Rightarrow> 'h posix_timebases \<Rightarrow> 'h posix_timebases" where
  "posix_TimeBaseUnlock c token a = a\<lparr>tb_host := sys_tb_mutex_unlock c (unat (obj_idx token)) (tb_host a)\<rparr>"

definition OS_TimeBase_SigWaitImpl ::
    "'h posix_timebases idmap_env \<Rightarrow> 'h timer_calls \<Rightarrow> osal_id_t \<Rightarrow> 'h posix_timebases os_state \<Rightarrow> u32 \<times> 'h posix_timebases os_state" where
  "OS_TimeBase_SigWaitImpl env c timebase_id s =
    (case OS_ObjectIdGetById env OS_LOCK_MODE_NONE OS_OBJECT_TYPE_OS_TIMEBASE timebase_id s of
       (return_code, token, s1) \<Rightarrow>
         (if return_code = OS_SUCCESS then
            let j = unat (obj_idx token)
            in case sys_sigwait c (tb_sigset (OS_impl_timebase_table (impl s1) j)) s1 of
                 (Inl e, s2) \<Rightarrow> (0, s2)
               | (Inr sig, s2) \<Rightarrow>
                   (if \<not> reset_flag (OS_impl_timebase_table (impl s2) j)
                    then (nominal_interval_time (OS_timebase_table s2 j), s2)
                    else (nominal_start_time (OS_timebase_table s2 j),
                          s2\<lparr>impl := upd_tb j (\<lambda>tb. tb\<lparr>reset_flag := False\<rparr>) (impl s2)\<rparr>))
          else (0, s1)))"

text \<open>One mutex per entry of the table, until one cannot be made.\<close>

primrec init_tb_mutexes :: "'h timer_calls \<Rightarrow> nat list \<Rightarrow> 'h \<Rightarrow> bool \<times> 'h" where
  "init_tb_mutexes c [] h = (True, h)"
| "init_tb_mutexes c (j # js) h =
    (case sys_tb_mutex_init c j h of (Inl e, h') \<Rightarrow> (False, h') | (Inr _, h') \<Rightarrow> init_tb_mutexes c js h')"

text \<open>
  A mutex that cannot be made leaves only the loop over the table, not the sequence: the error code
  stays, and the tick rate is still computed.
\<close>

definition OS_Posix_TimeBaseAPI_Impl_Init ::
    "'h timer_calls \<Rightarrow> 'h posix_timebases os_state \<Rightarrow> status \<times> 'h posix_timebases os_state" where
  "OS_Posix_TimeBaseAPI_Impl_Init c s =
    (let s0 = s\<lparr>impl := (impl s)\<lparr>OS_impl_timebase_table := (\<lambda>_. zero_tb)\<rparr>\<rparr>
     in case sys_clock_getres c of
          Inl e \<Rightarrow> (OS_ERROR, s0)
        | Inr (tv_sec, tv_nsec) \<Rightarrow>
            if tv_sec > 0 then (OS_TIMER_ERR_INTERNAL, s0)
            else
              let s1 = s0\<lparr>impl := (impl s0)\<lparr>tb_globals := (tb_globals (impl s0))\<lparr>ClockAccuracyNsec := word_of_int tv_nsec\<rparr>\<rparr>\<rparr>
              in case (sys_mutexattr_ok c, sys_mutexattr_protocol_ok c) of
                   (Inr _, Inr _) \<Rightarrow>
                     (case init_tb_mutexes c [0..<unat OS_MAX_TIMEBASES] (tb_host (impl s1)) of
                        (ok, h) \<Rightarrow>
                          let s2 = s1\<lparr>impl := (impl s1)\<lparr>tb_host := h\<rparr>,
                                OS_SharedGlobalVars := (OS_SharedGlobalVars s1)\<lparr>TicksPerSecond := word_of_int (sys_clk_tck c)\<rparr>\<rparr>;
                              ticks = word_of_int (sys_clk_tck c) :: u32
                          in if ticks \<le> 0 then (OS_ERROR, s2)
                             else (if ok then OS_SUCCESS else OS_ERROR,
                                   s2\<lparr>OS_SharedGlobalVars := (OS_SharedGlobalVars s2)
                                     \<lparr>MicroSecPerTick := (1000000 + ticks div 2) div ticks\<rparr>\<rparr>))
                 | _ \<Rightarrow> (OS_ERROR, s1))"

text \<open>The signals of the time bases that exist, and the first real-time signal that is not one of them.\<close>

definition used_signals :: "'h posix_timebases os_state \<Rightarrow> int list" where
  "used_signals s =
    filter (\<lambda>sig. sig \<noteq> 0)
      (map (\<lambda>j. assigned_signal (OS_impl_timebase_table (impl s) j))
        (filter (\<lambda>j. OS_ObjectIdIsValid (active_id (OS_common_table s (record_of OS_OBJECT_TYPE_OS_TIMEBASE (of_nat j)))))
          [0..<unat OS_MAX_TIMEBASES]))"

definition choose_signal :: "int list \<Rightarrow> int" where
  "choose_signal used = (case filter (\<lambda>i. i \<notin> set used) [SIGRTMIN..SIGRTMAX] of [] \<Rightarrow> 0 | i # _ \<Rightarrow> i)"

text \<open>At least one and at most the given number of queued signals are taken.\<close>

fun drain_signals :: "'h timer_calls \<Rightarrow> int set \<Rightarrow> nat \<Rightarrow> 'h \<Rightarrow> 'h" where
  "drain_signals c sigs n h =
    (case sys_sigtimedwait c sigs h of
       (Inl e, h') \<Rightarrow> h'
     | (Inr _, h') \<Rightarrow> (case n of 0 \<Rightarrow> h' | Suc 0 \<Rightarrow> h' | Suc n' \<Rightarrow> drain_signals c sigs n' h'))"

text \<open>What is done when there is no external source: the status, the new source and the state.\<close>

definition simulated_tick ::
    "'h timer_calls \<Rightarrow> OS_object_token \<Rightarrow> int list \<Rightarrow> 'h posix_timebases \<Rightarrow> status \<times> ptr \<times> 'h posix_timebases" where
  "simulated_tick c token used a =
    (let j = unat (obj_idx token); sig = choose_signal used;
         a1 = upd_tb j (\<lambda>tb. tb\<lparr>assigned_signal := sig, tb_sigset := set used\<rparr>) a
     in if sig = 0 then (OS_TIMER_ERR_UNAVAILABLE, None, a1)
        else
          let a2 = upd_tb j (\<lambda>tb. tb\<lparr>tb_sigset := {sig}\<rparr>) a1;
              h = drain_signals c {sig} (nat (sys_sigqueue_max c)) (tb_host a2)
          in case sys_timer_create c sig (uint (OS_ObjectIdToSerialNumber_Impl (obj_id token))) h of
               (Inl e, h') \<Rightarrow> (OS_TIMER_ERR_UNAVAILABLE, None, a2\<lparr>tb_host := h'\<rparr>)
             | (Inr tid, h') \<Rightarrow>
                 (OS_SUCCESS, Some (addr_SigWaitImpl c), upd_tb j (\<lambda>tb. tb\<lparr>host_timerid := tid\<rparr>) (a2\<lparr>tb_host := h'\<rparr>)))"

definition posix_TimeBaseCreate ::
    "'h thread_calls \<Rightarrow> 'h timer_calls \<Rightarrow> OS_object_token \<Rightarrow> 'h posix_timebases os_state \<Rightarrow> status \<times> ptr \<times> 'h posix_timebases" where
  "posix_TimeBaseCreate th c token s =
    (let j = unat (obj_idx token); a = impl s; sync = external_sync (OS_timebase_table s j)
     in case OS_Posix_InternalTaskCreate_Impl th (tb_globals a) 0 None (sys_stack_min th) Entry_timebase (obj_id token) (tb_host a) of
          (return_code, thread, h) \<Rightarrow>
            if return_code \<noteq> OS_SUCCESS then (return_code, sync, a\<lparr>tb_host := h\<rparr>)
            else
              let a1 = upd_tb j (\<lambda>tb. tb\<lparr>handler_thread := the thread, assigned_signal := 0\<rparr>) (a\<lparr>tb_host := h\<rparr>);
                  (st, sync', a2) =
                    (if sync = None then simulated_tick c token (used_signals (s\<lparr>impl := a1\<rparr>)) a1
                     else (OS_SUCCESS, sync, a1))
              in if st \<noteq> OS_SUCCESS
                 then (st, sync, upd_tb j (\<lambda>tb. tb\<lparr>assigned_signal := 0\<rparr>) (a2\<lparr>tb_host := snd (sys_cancel th (the thread) (tb_host a2))\<rparr>))
                 else (st, sync', a2))"

definition posix_TimeBaseSet ::
    "'h timer_calls \<Rightarrow> OS_object_token \<Rightarrow> u32 \<Rightarrow> u32 \<Rightarrow> 'h posix_timebases os_state \<Rightarrow> status \<times> u32 \<times> 'h posix_timebases" where
  "posix_TimeBaseSet c token start interval s =
    (let j = unat (obj_idx token); a = impl s; local = OS_impl_timebase_table a j;
         accuracy = accuracy_usec (OS_timebase_table s j);
         it_value = OS_UsecToTimespec start; it_interval = OS_UsecToTimespec interval;
         (return_code, accuracy', a1) =
           (if assigned_signal local \<noteq> 0 then
              (case sys_timer_settime c (host_timerid local) (it_value, it_interval) (tb_host a) of
                 (Inl e, h) \<Rightarrow> (OS_TIMER_ERR_INTERNAL, accuracy, a\<lparr>tb_host := h\<rparr>)
               | (Inr _, h) \<Rightarrow>
                   (OS_SUCCESS,
                    if interval > 0 then word_of_int ((snd it_interval + 999) div 1000)
                    else word_of_int ((snd it_value + 999) div 1000), a\<lparr>tb_host := h\<rparr>))
            else (OS_SUCCESS, accuracy, a))
     in (return_code, accuracy', upd_tb j (\<lambda>tb. tb\<lparr>reset_flag := (return_code = OS_SUCCESS)\<rparr>) a1))"

definition posix_TimeBaseDelete ::
    "'h thread_calls \<Rightarrow> 'h timer_calls \<Rightarrow> OS_object_token \<Rightarrow> 'h posix_timebases \<Rightarrow> status \<times> 'h posix_timebases" where
  "posix_TimeBaseDelete th c token a =
    (let j = unat (obj_idx token); local = OS_impl_timebase_table a j;
         a1 = a\<lparr>tb_host := snd (sys_cancel th (handler_thread local) (tb_host a))\<rparr>
     in if assigned_signal local \<noteq> 0 then
          (case sys_timer_delete c (host_timerid local) (tb_host a1) of
             (Inl e, h) \<Rightarrow> (OS_TIMER_ERR_INTERNAL, a1\<lparr>tb_host := h\<rparr>)
           | (Inr _, h) \<Rightarrow> (OS_SUCCESS, upd_tb j (\<lambda>tb. tb\<lparr>assigned_signal := 0\<rparr>) (a1\<lparr>tb_host := h\<rparr>)))
        else (OS_SUCCESS, a1))"

definition posix_TimeBaseGetInfo :: "OS_object_token \<Rightarrow> OS_timebase_prop \<Rightarrow> status \<times> OS_timebase_prop" where
  "posix_TimeBaseGetInfo token timer_prop = (OS_SUCCESS, timer_prop)"

subsection \<open>Console\<close>

text \<open>The semaphore of the console: posting it, and a wait during which other threads run.\<close>

record 'i console_sem =
  data_sem_init :: "'i \<Rightarrow> (errno + unit) \<times> 'i"
  data_sem_destroy :: "'i \<Rightarrow> 'i"
  data_sem_post :: "'i \<Rightarrow> 'i"
  data_sem_wait :: "'i os_state \<Rightarrow> 'i os_state"

definition posix_ConsoleWakeup :: "'i console_sem \<Rightarrow> OS_object_token \<Rightarrow> 'i \<Rightarrow> 'i" where
  "posix_ConsoleWakeup c token a = data_sem_post c a"

partial_function (option) console_task_loop ::
    "'i console_impl \<Rightarrow> 'i console_sem \<Rightarrow> OS_object_token \<Rightarrow> 'i os_state \<Rightarrow> 'i os_state option" where
  "console_task_loop con c token s =
    (if GlobalState (OS_SharedGlobalVars s) = OS_SHUTDOWN_MAGIC_NUMBER then Some s
     else Option.bind (OS_ConsoleOutput_Impl con token s) (\<lambda>s1. console_task_loop con c token (data_sem_wait c s1)))"

definition OS_ConsoleTask_Entry ::
    "'i idmap_env \<Rightarrow> 'i console_impl \<Rightarrow> 'i console_sem \<Rightarrow> osal_id_t \<Rightarrow> 'i os_state \<Rightarrow> 'i os_state option" where
  "OS_ConsoleTask_Entry env con c console_id s =
    (case OS_ObjectIdGetById env OS_LOCK_MODE_REFCOUNT OS_OBJECT_TYPE_OS_CONSOLE console_id s of
       (return_code, token, s1) \<Rightarrow>
         if return_code = OS_SUCCESS
         then map_option (\<lambda>s2. snd (OS_ObjectIdRelease env token s2)) (console_task_loop con c token s1)
         else Some s1)"

text \<open>The argument \<open>start\<close> makes the thread that runs \<^verbatim>\<open>OS_ConsoleTask_Entry\<close>.\<close>

definition posix_ConsoleCreate ::
    "'i console_sem \<Rightarrow> (osal_id_t \<Rightarrow> 'i \<Rightarrow> status \<times> 'i) \<Rightarrow> OS_object_token \<Rightarrow> 'i os_state \<Rightarrow> status \<times> 'i" where
  "posix_ConsoleCreate c start token s =
    (let a = impl s
     in if obj_idx token = 0 then
          (if IsAsync (OS_console_table s (unat (obj_idx token))) then
             (case data_sem_init c a of
                (Inl e, a1) \<Rightarrow> (OS_SEM_FAILURE, a1)
              | (Inr _, a1) \<Rightarrow>
                  (case start (obj_id token) a1 of
                     (return_code, a2) \<Rightarrow> (return_code, if return_code \<noteq> OS_SUCCESS then data_sem_destroy c a2 else a2)))
           else (OS_SUCCESS, a))
        else (OS_ERR_NOT_IMPLEMENTED, a))"

subsection \<open>The signals of the time bases\<close>

abbreviation (input) TBT :: osal_objtype_t where "TBT \<equiv> OS_OBJECT_TYPE_OS_TIMEBASE"

lemma first_of_filter:
  "(case filter P xs of [] \<Rightarrow> z | x # _ \<Rightarrow> x) \<noteq> z
    \<Longrightarrow> (case filter P xs of [] \<Rightarrow> z | x # _ \<Rightarrow> x) \<in> {x \<in> set xs. P x}"
  by (induction xs) auto

lemma choose_signal_new:
  assumes "choose_signal used \<noteq> 0"
  shows "choose_signal used \<in> {SIGRTMIN..SIGRTMAX} - set used"
  using first_of_filter[OF assms[unfolded choose_signal_def]]
  unfolding choose_signal_def set_upto by blast

lemma upd_tb_simps [simp]:
  "OS_impl_timebase_table (upd_tb j f a) = (OS_impl_timebase_table a)(j := f (OS_impl_timebase_table a j))"
  "tb_host (upd_tb j f a) = tb_host a" "tb_globals (upd_tb j f a) = tb_globals a"
  by (simp_all add: upd_tb_def)

definition tb_exists :: "'i os_state \<Rightarrow> nat \<Rightarrow> bool" where
  "tb_exists s j \<longleftrightarrow> j < unat OS_MAX_TIMEBASES \<and> OS_ObjectIdIsValid (active_id (OS_common_table s (record_of TBT (of_nat j))))"

lemma tb_exists_impl [simp]: "tb_exists (s\<lparr>impl := a\<rparr>) j = tb_exists s j"
  by (simp add: tb_exists_def)

lemma in_used_signals:
  assumes "tb_exists s j" "assigned_signal (OS_impl_timebase_table (impl s) j) \<noteq> 0"
  shows "assigned_signal (OS_impl_timebase_table (impl s) j) \<in> set (used_signals s)"
  using assms by (simp add: used_signals_def tb_exists_def)

text \<open>A time base under construction is not among those whose signals are used.\<close>

lemma used_signals_frame:
  assumes "\<And>j. tb_exists s j \<Longrightarrow> assigned_signal (OS_impl_timebase_table a j) = assigned_signal (OS_impl_timebase_table (impl s) j)"
  shows "used_signals (s\<lparr>impl := a\<rparr>) = used_signals s"
proof -
  let ?exist = "filter (\<lambda>j. OS_ObjectIdIsValid (active_id (OS_common_table s (record_of TBT (of_nat j))))) [0..<unat OS_MAX_TIMEBASES]"
  have "map (\<lambda>j. assigned_signal (OS_impl_timebase_table a j)) ?exist
      = map (\<lambda>j. assigned_signal (OS_impl_timebase_table (impl s) j)) ?exist"
    unfolding map_eq_conv set_filter set_upt using assms by (auto simp: tb_exists_def simp del: unat_eq_zero)
  then show ?thesis by (simp add: used_signals_def del: map_eq_conv)
qed

lemma TimeBaseCreate_signal:
  assumes "posix_TimeBaseCreate th c token s = (OS_SUCCESS, sync, a')" "external_sync (OS_timebase_table s (unat (obj_idx token))) = None"
    and "\<not> tb_exists s (unat (obj_idx token))"
  shows "assigned_signal (OS_impl_timebase_table a' (unat (obj_idx token))) = choose_signal (used_signals s)
    \<and> choose_signal (used_signals s) \<noteq> 0 \<and> sync = Some (addr_SigWaitImpl c)
    \<and> (\<forall>j. j \<noteq> unat (obj_idx token) \<longrightarrow> OS_impl_timebase_table a' j = OS_impl_timebase_table (impl s) j)"
proof -
  let ?j = "unat (obj_idx token)"
  have u: "used_signals (s\<lparr>impl := upd_tb ?j f (a\<lparr>tb_host := h\<rparr>)\<rparr>) = used_signals s" if "a = impl s" for f h a
    using assms(3) that by (intro used_signals_frame) auto
  show ?thesis
    using assms(1,2)
    by (auto simp: posix_TimeBaseCreate_def simulated_tick_def Let_def u split: prod.splits sum.splits if_splits)
qed

text \<open>C39: A time base that makes its own ticks gets a real-time signal that no finished time base uses.
  A time base whose creation has not ended yet is passed over: two time bases that are being
  created at the same time get the same signal, and each takes ticks meant for the other. The
  code relies on the table lock for this, which creation does not hold.\<close>

theorem posix_TimeBaseCreate_signal:
  assumes "posix_TimeBaseCreate th c token s = (OS_SUCCESS, sync, a')" "external_sync (OS_timebase_table s (unat (obj_idx token))) = None"
    and "active_id (OS_common_table s (record_of TBT (obj_idx token))) = OS_OBJECT_ID_RESERVED" "obj_idx token < OS_MAX_TIMEBASES"
  shows "let sig = assigned_signal (OS_impl_timebase_table a' (unat (obj_idx token))) in
      sig \<in> {SIGRTMIN..SIGRTMAX}
    \<and> (\<forall>j. tb_exists s j \<longrightarrow> assigned_signal (OS_impl_timebase_table a' j) \<noteq> sig)
    \<and> (\<forall>token' sync' a''. posix_TimeBaseCreate th c token' (s\<lparr>impl := a'\<rparr>) = (OS_SUCCESS, sync', a'')
         \<and> external_sync (OS_timebase_table s (unat (obj_idx token'))) = None \<and> obj_idx token' < OS_MAX_TIMEBASES
         \<and> active_id (OS_common_table s (record_of TBT (obj_idx token'))) = OS_OBJECT_ID_RESERVED
         \<longrightarrow> assigned_signal (OS_impl_timebase_table a'' (unat (obj_idx token'))) = sig)"
proof -
  have ne: "\<not> tb_exists (s\<lparr>impl := a\<rparr>) (unat (obj_idx tk))"
    if "active_id (OS_common_table s (record_of TBT (obj_idx tk))) = OS_OBJECT_ID_RESERVED" for a tk
    using that reserved_not_valid by (simp add: tb_exists_def)
  have ne': "\<not> tb_exists s (unat (obj_idx token))" using ne[OF assms(3), of "impl s"] by simp
  note t = TimeBaseCreate_signal[OF assms(1,2) ne']
  have u: "used_signals (s\<lparr>impl := a'\<rparr>) = used_signals s" by (rule used_signals_frame) (metis ne' t)
  have "assigned_signal (OS_impl_timebase_table a' j) \<noteq> choose_signal (used_signals s)" if j: "tb_exists s j" for j
  proof -
    from j ne' t have e: "OS_impl_timebase_table a' j = OS_impl_timebase_table (impl s) j" by metis
    show ?thesis
    proof
      assume "assigned_signal (OS_impl_timebase_table a' j) = choose_signal (used_signals s)"
      with e t j have "choose_signal (used_signals s) \<in> set (used_signals s)" using in_used_signals[OF j] by simp
      with choose_signal_new[of "used_signals s"] t show False by simp
    qed
  qed
  moreover have "assigned_signal (OS_impl_timebase_table a'' (unat (obj_idx token'))) = choose_signal (used_signals s)"
    if "posix_TimeBaseCreate th c token' (s\<lparr>impl := a'\<rparr>) = (OS_SUCCESS, sync', a'')"
      "external_sync (OS_timebase_table s (unat (obj_idx token'))) = None"
      "active_id (OS_common_table s (record_of TBT (obj_idx token'))) = OS_OBJECT_ID_RESERVED" for token' sync' a''
    using TimeBaseCreate_signal[OF that(1) _ ne[OF that(3)]] that(2) u by simp
  ultimately show ?thesis using t choose_signal_new[of "used_signals s"] by (auto simp: Let_def)
qed

definition example_timers :: "int \<Rightarrow> unit timer_calls" where
  "example_timers tck = \<lparr>sys_clock_getres = Inr (0, 1), sys_mutexattr_ok = Inr (), sys_mutexattr_protocol_ok = Inr (),
     sys_tb_mutex_init = (\<lambda>_ h. (Inr (), h)), sys_tb_mutex_lock = (\<lambda>_ h. h), sys_tb_mutex_unlock = (\<lambda>_ h. h),
     sys_clk_tck = tck, sys_sigqueue_max = 32, sys_sigtimedwait = (\<lambda>_ h. (Inl EAGAIN, h)), sys_sigwait = (\<lambda>_ s. (Inr 34, s)),
     sys_timer_create = (\<lambda>_ _ h. (Inr 7, h)), sys_timer_settime = (\<lambda>_ _ h. (Inr (), h)),
     sys_timer_delete = (\<lambda>_ h. (Inr (), h)), addr_SigWaitImpl = 9\<rparr>"

definition example_timebases :: "unit posix_timebases os_state" where
  "example_timebases =
    (let s = fresh_state \<lparr>tb_globals = globals example_tasks, OS_impl_timebase_table = (\<lambda>_. zero_tb), tb_host = ()\<rparr>
     in s\<lparr>OS_common_table := (\<lambda>j. (OS_common_table s j)\<lparr>active_id := OS_OBJECT_ID_RESERVED\<rparr>)\<rparr>)"

lemma used_signals_none: "(\<And>j. \<not> tb_exists s j) \<Longrightarrow> used_signals s = []"
  by (auto simp: used_signals_def tb_exists_def filter_empty_conv)

lemma example_timebases_simps [simp]:
  "external_sync (OS_timebase_table example_timebases j) = None"
  "active_id (OS_common_table example_timebases r) = OS_OBJECT_ID_RESERVED"
  "tb_globals (impl example_timebases) = globals example_tasks"
  by (simp_all add: example_timebases_def fresh_state_def boot_state_def zero_timebase_def Let_def)

lemma example_TimeBaseCreate:
  assumes "tb_globals a = globals example_tasks"
  shows "\<exists>a'. posix_TimeBaseCreate example_threads (example_timers 100) token (example_timebases\<lparr>impl := a\<rparr>) = (OS_SUCCESS, Some 9, a')
    \<and> tb_globals a' = tb_globals a"
proof -
  have "\<not> tb_exists (example_timebases\<lparr>impl := b\<rparr>) j" for b j
    using reserved_not_valid by (simp add: tb_exists_def)
  then have "choose_signal (used_signals (example_timebases\<lparr>impl := b\<rparr>)) = 34" for b
    by (simp add: used_signals_none choose_signal_def)
  then show ?thesis using assms
    by (simp add: posix_TimeBaseCreate_def OS_Posix_InternalTaskCreate_Impl_def thread_attributes_def example_threads_def
        example_tasks_def simulated_tick_def example_timers_def Let_def)
qed

theorem posix_TimeBaseCreate_signal_witness:
  "\<exists>a' a''. posix_TimeBaseCreate example_threads (example_timers 100) (tok OS_LOCK_MODE_EXCLUSIVE 0 TBT 1 0x80001) example_timebases
        = (OS_SUCCESS, Some 9, a')
    \<and> posix_TimeBaseCreate example_threads (example_timers 100) (tok OS_LOCK_MODE_EXCLUSIVE 0 TBT 2 0x80002) (example_timebases\<lparr>impl := a'\<rparr>)
        = (OS_SUCCESS, Some 9, a'')
    \<and> assigned_signal (OS_impl_timebase_table a'' 2) = assigned_signal (OS_impl_timebase_table a' 1)
    \<and> assigned_signal (OS_impl_timebase_table a' 1) \<in> {SIGRTMIN..SIGRTMAX}"
proof -
  let ?c = "posix_TimeBaseCreate example_threads (example_timers 100)"
  let ?t1 = "tok OS_LOCK_MODE_EXCLUSIVE 0 TBT 1 0x80001" and ?t2 = "tok OS_LOCK_MODE_EXCLUSIVE 0 TBT 2 0x80002"
  obtain a' where a': "?c ?t1 example_timebases = (OS_SUCCESS, Some 9, a')" "tb_globals a' = globals example_tasks"
    using example_TimeBaseCreate[of "impl example_timebases" ?t1] by auto
  obtain a'' where a'': "?c ?t2 (example_timebases\<lparr>impl := a'\<rparr>) = (OS_SUCCESS, Some 9, a'')"
    using example_TimeBaseCreate[OF a'(2), of ?t2] by blast
  have o: "obj_idx ?t2 < OS_MAX_TIMEBASES" by (simp add: os_max_defs)
  show ?thesis
    using posix_TimeBaseCreate_signal[OF a'(1), unfolded Let_def, THEN conjunct2, THEN conjunct2, rule_format, of ?t2 "Some 9" a'']
      posix_TimeBaseCreate_signal[OF a'(1)] a' a'' o by (simp add: os_max_defs Let_def)
qed

lemma tick_length:
  assumes "0 < n" "n < 2 ^ 31"
  shows "uint ((1000000 + word_of_int n div 2) div (word_of_int n :: u32)) = (1000000 + n div 2) div n"
    and "uint (word_of_int n :: u32) = n"
proof -
  show w: "uint (word_of_int n :: u32) = n" using assms by (simp add: uint_word_of_int)
  have d: "uint (word_of_int n div 2 :: u32) = n div 2" using w by (simp add: uint_div)
  then have "uint (1000000 + word_of_int n div 2 :: u32) = 1000000 + n div 2"
    using assms by (simp add: uint_word_ariths)
  then show "uint ((1000000 + word_of_int n div 2) div (word_of_int n :: u32)) = (1000000 + n div 2) div n"
    by (simp add: uint_div w)
qed



end
