(* ===== verification/Module.thy ===== *)
theory Module
  imports Filesys Idmap_Properties
begin

text \<open>
  Loadable modules: \<^verbatim>\<open>src/src/os/shared/src/osapi-module.c\<close> and the POSIX loader,
  \<^verbatim>\<open>os-impl-posix-dl-loader.c\<close> and \<^verbatim>\<open>os-impl-posix-dl-symtab.c\<close> under
  \<^verbatim>\<open>src/src/os/portable\<close>. The static symbol table is supplied by the application: it is the
  argument \<open>symtab\<close>, \<open>None\<close> when the static loader is not configured, and the records before the
  end marker otherwise.
\<close>

subsection \<open>Operations\<close>

record OS_static_symbol_record =
  sym_Name :: string
  sym_Address :: nat
  sym_Module :: "string option"

record OS_module_address =
  addr_valid :: u32
  addr_flags :: u32
  code_address :: nat
  code_size :: nat
  data_address :: nat
  data_size :: nat
  bss_address :: nat
  bss_size :: nat

record OS_module_prop =
  prop_entry_point :: nat
  host_module_id :: nat
  prop_filename :: string
  prop_name :: string
  prop_addr :: OS_module_address

definition zero_module_prop :: OS_module_prop where
  "zero_module_prop = \<lparr>prop_entry_point = 0, host_module_id = 0, prop_filename = [], prop_name = [],
     prop_addr = \<lparr>addr_valid = 0, addr_flags = 0, code_address = 0, code_size = 0, data_address = 0, data_size = 0,
                  bss_address = 0, bss_size = 0\<rparr>\<rparr>"

text \<open>An address is \<open>None\<close> where the variable of the caller is not written.\<close>

record 'i module_impl =
  OS_ModuleLoad_Impl :: "OS_object_token \<Rightarrow> string \<Rightarrow> 'i os_state \<Rightarrow> status \<times> 'i"
  OS_ModuleUnload_Impl :: "OS_object_token \<Rightarrow> 'i os_state \<Rightarrow> status \<times> 'i"
  OS_ModuleGetInfo_Impl :: "OS_object_token \<Rightarrow> OS_module_prop \<Rightarrow> 'i os_state \<Rightarrow> status \<times> OS_module_prop"
  OS_SymbolLookup_Impl :: "string \<Rightarrow> 'i os_state \<Rightarrow> status \<times> nat option \<times> 'i os_state"
  OS_ModuleSymbolLookup_Impl :: "OS_object_token \<Rightarrow> string \<Rightarrow> 'i os_state \<Rightarrow> status \<times> nat option \<times> 'i"
  OS_SymbolTableDump_Impl :: "string \<Rightarrow> nat \<Rightarrow> 'i \<Rightarrow> status \<times> 'i"

text \<open>
  The search for a symbol. With a module name, the comparison reads the module name of every record
  with the right symbol name; where that is the null pointer the value is \<open>None\<close>.
\<close>

fun SymbolLookup_search :: "string \<Rightarrow> string option \<Rightarrow> OS_static_symbol_record list \<Rightarrow> (status \<times> nat option) option" where
  "SymbolLookup_search SymbolName ModuleName [] = Some (OS_ERROR, None)"
| "SymbolLookup_search SymbolName ModuleName (StaticSym # rest) =
    (if sym_Name StaticSym = SymbolName then
       (case ModuleName of
          None \<Rightarrow> Some (OS_SUCCESS, Some (sym_Address StaticSym))
        | Some m \<Rightarrow>
            (case sym_Module StaticSym of
               None \<Rightarrow> None
             | Some m' \<Rightarrow> if m' = m then Some (OS_SUCCESS, Some (sym_Address StaticSym))
                          else SymbolLookup_search SymbolName ModuleName rest))
     else SymbolLookup_search SymbolName ModuleName rest)"

definition OS_SymbolLookup_Static ::
    "OS_static_symbol_record list option \<Rightarrow> string \<Rightarrow> string option \<Rightarrow> (status \<times> nat option) option" where
  "OS_SymbolLookup_Static symtab SymbolName ModuleName =
    (case symtab of None \<Rightarrow> Some (OS_ERR_NOT_IMPLEMENTED, None) | Some tab \<Rightarrow> SymbolLookup_search SymbolName ModuleName tab)"

fun ModuleLoad_search :: "string \<Rightarrow> OS_static_symbol_record list \<Rightarrow> status" where
  "ModuleLoad_search ModuleName [] = OS_ERR_NAME_NOT_FOUND"
| "ModuleLoad_search ModuleName (StaticSym # rest) =
    (if sym_Module StaticSym = Some ModuleName then OS_SUCCESS else ModuleLoad_search ModuleName rest)"

definition OS_ModuleLoad_Static :: "OS_static_symbol_record list option \<Rightarrow> string \<Rightarrow> status" where
  "OS_ModuleLoad_Static symtab ModuleName =
    (case symtab of None \<Rightarrow> OS_ERR_NAME_NOT_FOUND | Some tab \<Rightarrow> ModuleLoad_search ModuleName tab)"

definition OS_ModuleAPI_Init :: "'i os_state \<Rightarrow> status \<times> 'i os_state" where
  "OS_ModuleAPI_Init s = (OS_SUCCESS, s\<lparr>OS_module_table := (\<lambda>_. zero_module)\<rparr>)"

definition upd_module ::
    "nat \<Rightarrow> (OS_module_internal_record \<Rightarrow> OS_module_internal_record) \<Rightarrow> 'i os_state \<Rightarrow> 'i os_state" where
  "upd_module j f s = s\<lparr>OS_module_table := (OS_module_table s)(j := f (OS_module_table s j))\<rparr>"

text \<open>What is entered before the implementation is called: the third argument has the type and the file name.\<close>

definition module_fill ::
    "string \<Rightarrow> u32 \<times> OS_module_type \<times> string \<Rightarrow> OS_object_token \<Rightarrow> 'i os_state \<Rightarrow> 'i os_state" where
  "module_fill nm = (\<lambda>(flags, mtype, file) token s.
     upd_common (OS_ObjectIdGlobalFromToken token) (\<lambda>ob. ob\<lparr>name_entry := Some (Module_name (unat (obj_idx token)))\<rparr>)
       (upd_module (unat (obj_idx token)) (\<lambda>_. zero_module\<lparr>mod_name := strncpy_cleared nm OS_MAX_API_NAME, module_flags := flags,
          module_type := mtype, file_name := file\<rparr>) s))"

definition OS_ModuleLoad ::
    "'i idmap_env \<Rightarrow> 'i module_impl \<Rightarrow> OS_static_symbol_record list option \<Rightarrow> bool \<Rightarrow> string option \<Rightarrow> string option \<Rightarrow> u32 \<Rightarrow> 'i os_state
      \<Rightarrow> status \<times> osal_id_t option \<times> 'i os_state" where
  "OS_ModuleLoad env f symtab has_id module_name filename flags s =
    (if \<not> has_id then (OS_INVALID_POINTER, None, s)
     else
       case module_name of
         None \<Rightarrow> (OS_INVALID_POINTER, None, s)
       | Some nm \<Rightarrow>
           (if \<not> LENGTHCHECK nm OS_MAX_API_NAME then (OS_ERR_NAME_TOO_LONG, None, s)
            else
              case OS_TranslatePath env filename True s of
                (filename_status, translated_path, s1) \<Rightarrow>
                  (case OS_ObjectIdAllocateNew env OS_OBJECT_TYPE_OS_MODULE (Some nm) s1 of
                     (return_code, token, s2) \<Rightarrow>
                       (if return_code = OS_SUCCESS then
                          let (st, s3) =
                            (if OS_ModuleLoad_Static symtab nm = OS_SUCCESS
                             then (OS_SUCCESS, module_fill nm (flags, OS_MODULE_TYPE_STATIC, []) token s2)
                             else if filename_status \<noteq> OS_SUCCESS
                             then (filename_status, module_fill nm (flags, OS_MODULE_TYPE_UNKNOWN, []) token s2)
                             else
                               let s3 = module_fill nm (flags, OS_MODULE_TYPE_DYNAMIC, strncpy_cleared (the filename) OS_MAX_PATH_LEN) token s2
                               in case OS_ModuleLoad_Impl f token (the translated_path) s3 of (st, a) \<Rightarrow> (st, s3\<lparr>impl := a\<rparr>))
                          in case OS_ObjectIdFinalizeNew env st token s3 of (st', i, token', s4) \<Rightarrow> (st', Some i, s4)
                        else (return_code, None, s2)))))"

definition OS_ModuleUnload :: "'i idmap_env \<Rightarrow> 'i module_impl \<Rightarrow> osal_id_t \<Rightarrow> 'i os_state \<Rightarrow> status \<times> 'i os_state" where
  "OS_ModuleUnload env f module_id s =
    (case OS_ObjectIdGetById env OS_LOCK_MODE_EXCLUSIVE OS_OBJECT_TYPE_OS_MODULE module_id s of
       (return_code, token, s1) \<Rightarrow>
         (if return_code = OS_SUCCESS then
            (case (if module_type (OS_module_table s1 (unat (obj_idx token))) = OS_MODULE_TYPE_DYNAMIC
                   then OS_ModuleUnload_Impl f token s1 else (return_code, impl s1)) of
               (st, a) \<Rightarrow>
                 (case OS_ObjectIdFinalizeDelete env st token (s1\<lparr>impl := a\<rparr>) of (st', token', s2) \<Rightarrow> (st', s2)))
          else (return_code, s1)))"

definition OS_ModuleInfo ::
    "'i idmap_env \<Rightarrow> 'i module_impl \<Rightarrow> osal_id_t \<Rightarrow> bool \<Rightarrow> 'i os_state \<Rightarrow> status \<times> OS_module_prop option \<times> 'i os_state" where
  "OS_ModuleInfo env f module_id has_info s =
    (if \<not> has_info then (OS_INVALID_POINTER, None, s)
     else
       case OS_ObjectIdGetById env OS_LOCK_MODE_GLOBAL OS_OBJECT_TYPE_OS_MODULE module_id s of
         (return_code, token, s1) \<Rightarrow>
           (if return_code = OS_SUCCESS then
              let rec = OS_common_table s1 (OS_ObjectIdGlobalFromToken token);
                  info = zero_module_prop\<lparr>prop_name := strncpy_cleared (name_chars s1 (name_entry rec)) OS_MAX_API_NAME,
                    prop_filename := strncpy_cleared (file_name (OS_module_table s1 (unat (obj_idx token)))) OS_MAX_PATH_LEN\<rparr>
              in case OS_ModuleGetInfo_Impl f token info s1 of
                   (st, info') \<Rightarrow> (st, Some info', snd (OS_ObjectIdRelease env token s1))
            else (return_code, Some zero_module_prop, s1)))"

text \<open>A successful static lookup replaces the result of the implementation, an unsuccessful one does not.\<close>

definition static_fallback ::
    "OS_static_symbol_record list option \<Rightarrow> string \<Rightarrow> string option \<Rightarrow> status \<times> nat option \<Rightarrow> (status \<times> nat option) option" where
  "static_fallback symtab SymbolName ModuleName = (\<lambda>(return_code, adr).
    if return_code \<noteq> OS_SUCCESS then
      (case OS_SymbolLookup_Static symtab SymbolName ModuleName of
         None \<Rightarrow> None
       | Some (staticsym_status, adr') \<Rightarrow>
           if staticsym_status = OS_SUCCESS then Some (staticsym_status, adr') else Some (return_code, adr))
    else Some (return_code, adr))"

definition OS_SymbolLookup ::
    "'i module_impl \<Rightarrow> OS_static_symbol_record list option \<Rightarrow> bool \<Rightarrow> string option \<Rightarrow> 'i os_state
      \<Rightarrow> (status \<times> nat option \<times> 'i os_state) option" where
  "OS_SymbolLookup f symtab has_address SymbolName s =
    (if \<not> has_address then Some (OS_INVALID_POINTER, None, s)
     else
       case SymbolName of
         None \<Rightarrow> Some (OS_INVALID_POINTER, None, s)
       | Some nm \<Rightarrow>
           (case OS_SymbolLookup_Impl f nm s of
              (return_code, adr, s1) \<Rightarrow> map_option (\<lambda>(st, adr'). (st, adr', s1)) (static_fallback symtab nm None (return_code, adr))))"

definition OS_ModuleSymbolLookup ::
    "'i idmap_env \<Rightarrow> 'i module_impl \<Rightarrow> OS_static_symbol_record list option \<Rightarrow> osal_id_t \<Rightarrow> bool \<Rightarrow> string option \<Rightarrow> 'i os_state
      \<Rightarrow> (status \<times> nat option \<times> 'i os_state) option" where
  "OS_ModuleSymbolLookup env f symtab module_id has_address symbol_name s =
    (if \<not> has_address then Some (OS_INVALID_POINTER, None, s)
     else
       case symbol_name of
         None \<Rightarrow> Some (OS_INVALID_POINTER, None, s)
       | Some nm \<Rightarrow>
           (case OS_ObjectIdGetById env OS_LOCK_MODE_GLOBAL OS_OBJECT_TYPE_OS_MODULE module_id s of
              (return_code, token, s1) \<Rightarrow>
                (if return_code = OS_SUCCESS then
                   (case OS_ModuleSymbolLookup_Impl f token nm s1 of
                      (st, adr, a) \<Rightarrow>
                        let s2 = s1\<lparr>impl := a\<rparr>;
                            rec = OS_common_table s2 (OS_ObjectIdGlobalFromToken token)
                        in map_option (\<lambda>(st', adr'). (st', adr', snd (OS_ObjectIdRelease env token s2)))
                             (static_fallback symtab nm (map_option (deref_name s2) (name_entry rec)) (st, adr)))
                 else Some (return_code, None, s1))))"

definition OS_SymbolTableDump :: "'i idmap_env \<Rightarrow> 'i module_impl \<Rightarrow> string option \<Rightarrow> nat \<Rightarrow> 'i os_state \<Rightarrow> status \<times> 'i os_state" where
  "OS_SymbolTableDump env f filename size_limit s =
    (if filename = None then (OS_INVALID_POINTER, s)
     else
       case OS_TranslatePath env filename True s of
         (rc1, translated_path, s1) \<Rightarrow>
           (if rc1 \<noteq> OS_SUCCESS then (rc1, s1)
            else
              case OS_ObjectIdTransactionInit env OS_LOCK_MODE_GLOBAL OS_OBJECT_TYPE_OS_MODULE s1 of
                (rc2, token, s2) \<Rightarrow>
                  (if rc2 \<noteq> OS_SUCCESS then (rc2, s2)
                   else
                     case OS_SymbolTableDump_Impl f (the translated_path) size_limit (impl s2) of
                       (st, a) \<Rightarrow> (st, snd (OS_ObjectIdTransactionCancel token (s2\<lparr>impl := a\<rparr>))))))"

subsection \<open>The POSIX loader\<close>

text \<open>
  The calls of the dynamic linker: \<open>dlsym\<close> gives the address, 0 for the null pointer, and what
  \<^verbatim>\<open>dlerror\<close> returns afterwards. The handle \<open>None\<close> of a lookup is the one for the whole process.
\<close>

datatype dl_mode = RTLD_LOCAL | RTLD_GLOBAL

record 'h dl_calls =
  sys_dlopen :: "string \<Rightarrow> dl_mode \<Rightarrow> 'h \<Rightarrow> ptr \<times> 'h"
  sys_dlclose :: "ptr \<Rightarrow> 'h \<Rightarrow> int \<times> 'h"
  sys_dlsym :: "ptr \<Rightarrow> string \<Rightarrow> 'h \<Rightarrow> nat \<times> string option"

record 'h posix_dl =
  dl_handle :: "nat \<Rightarrow> ptr"
  dl_host :: 'h

abbreviation (input) OS_MODULE_FLAG_LOCAL_SYMBOLS :: u32 where "OS_MODULE_FLAG_LOCAL_SYMBOLS \<equiv> 1"

unbundle bit_operations_syntax

definition posix_ModuleLoad :: "'h dl_calls \<Rightarrow> OS_object_token \<Rightarrow> string \<Rightarrow> 'h posix_dl os_state \<Rightarrow> status \<times> 'h posix_dl" where
  "posix_ModuleLoad c token translated_path s =
    (let j = unat (obj_idx token); a = impl s;
         mode = (if module_flags (OS_module_table s j) AND OS_MODULE_FLAG_LOCAL_SYMBOLS \<noteq> 0 then RTLD_LOCAL else RTLD_GLOBAL)
     in case sys_dlopen c translated_path mode (dl_host a) of
          (h, d) \<Rightarrow> (if h \<noteq> None then OS_SUCCESS else OS_ERROR, a\<lparr>dl_handle := (dl_handle a)(j := h), dl_host := d\<rparr>))"

definition posix_ModuleUnload :: "'h dl_calls \<Rightarrow> OS_object_token \<Rightarrow> 'h posix_dl \<Rightarrow> status \<times> 'h posix_dl" where
  "posix_ModuleUnload c token a =
    (let j = unat (obj_idx token)
     in case sys_dlclose c (dl_handle a j) (dl_host a) of
          (r, d) \<Rightarrow> if r = 0 then (OS_SUCCESS, a\<lparr>dl_handle := (dl_handle a)(j := None), dl_host := d\<rparr>)
                    else (OS_ERROR, a\<lparr>dl_host := d\<rparr>))"

definition posix_ModuleGetInfo :: "OS_object_token \<Rightarrow> OS_module_prop \<Rightarrow> 'h posix_dl os_state \<Rightarrow> status \<times> OS_module_prop" where
  "posix_ModuleGetInfo token module_prop s = (OS_SUCCESS, module_prop)"

definition OS_GenericSymbolLookup_Impl :: "'h dl_calls \<Rightarrow> ptr \<Rightarrow> string \<Rightarrow> 'h posix_dl \<Rightarrow> status \<times> nat" where
  "OS_GenericSymbolLookup_Impl c handle SymbolName a =
    (case sys_dlsym c handle SymbolName (dl_host a) of
       (Function, dlError) \<Rightarrow>
         (if dlError \<noteq> None then OS_ERROR else if Function = 0 then OS_ERROR else OS_SUCCESS, Function))"

definition posix_ModuleSymbolLookup :: "'h dl_calls \<Rightarrow> OS_object_token \<Rightarrow> string \<Rightarrow> 'h posix_dl \<Rightarrow> status \<times> nat" where
  "posix_ModuleSymbolLookup c token SymbolName a =
     OS_GenericSymbolLookup_Impl c (dl_handle a (unat (obj_idx token))) SymbolName a"

text \<open>The loop over the modules: the address is overwritten by every lookup, successful or not.\<close>

function symbol_loop ::
    "'h dl_calls \<Rightarrow> string \<Rightarrow> status \<times> nat \<Rightarrow> 'h posix_dl OS_object_iter \<Rightarrow> 'h posix_dl os_state
      \<Rightarrow> (status \<times> nat) \<times> 'h posix_dl OS_object_iter" where
  "symbol_loop c SymbolName found iter s =
    (case OS_ObjectIdIteratorGetNext iter s of
       (False, iter1) \<Rightarrow> (found, iter1)
     | (True, iter1) \<Rightarrow>
         (case posix_ModuleSymbolLookup c (iter_token iter1) SymbolName (impl s) of
            (local_status, adr) \<Rightarrow>
              if local_status = OS_SUCCESS then ((local_status, adr), iter1)
              else symbol_loop c SymbolName (fst found, adr) iter1 s))"
  by pat_completeness auto
termination
  by (relation "measure (\<lambda>(c, n, r, iter, s). unat (iter_limit iter) - unat (obj_idx (iter_token iter) + 1))")
    (auto intro: GetNext_decreases)

declare symbol_loop.simps [simp del]

definition posix_SymbolLookup ::
    "'h posix_dl idmap_env \<Rightarrow> 'h dl_calls \<Rightarrow> string \<Rightarrow> 'h posix_dl os_state \<Rightarrow> status \<times> nat option \<times> 'h posix_dl os_state" where
  "posix_SymbolLookup env c SymbolName s =
    (case OS_GenericSymbolLookup_Impl c None SymbolName (impl s) of
       (st, adr) \<Rightarrow>
         (if st \<noteq> OS_SUCCESS then
            (case OS_ObjectIdIterateActive env OS_OBJECT_TYPE_OS_MODULE s of
               (_, iter, s1) \<Rightarrow>
                 (case symbol_loop c SymbolName (st, adr) iter s1 of
                    ((st', adr'), iter1) \<Rightarrow> (st', Some adr', snd (OS_ObjectIdIteratorDestroy iter1 s1))))
          else (st, Some adr, s)))"

definition posix_SymbolTableDump :: "string \<Rightarrow> nat \<Rightarrow> 'h posix_dl \<Rightarrow> status \<times> 'h posix_dl" where
  "posix_SymbolTableDump filename size_limit a = (OS_ERR_NOT_IMPLEMENTED, a)"

definition posix_module_impl :: "'h posix_dl idmap_env \<Rightarrow> 'h dl_calls \<Rightarrow> 'h posix_dl module_impl" where
  "posix_module_impl env c =
    \<lparr>OS_ModuleLoad_Impl = posix_ModuleLoad c, OS_ModuleUnload_Impl = (\<lambda>token s. posix_ModuleUnload c token (impl s)),
     OS_ModuleGetInfo_Impl = posix_ModuleGetInfo, OS_SymbolLookup_Impl = posix_SymbolLookup env c,
     OS_ModuleSymbolLookup_Impl = (\<lambda>token nm s. case posix_ModuleSymbolLookup c token nm (impl s) of (st, adr) \<Rightarrow> (st, Some adr, impl s)),
     OS_SymbolTableDump_Impl = posix_SymbolTableDump\<rparr>"

subsection \<open>The order of a symbol lookup\<close>

text \<open>
  A reference definition: a symbol is looked for in the whole process, then in the modules in the
  order of their table, and then in the static symbol table; the first that has it is taken.
\<close>

abbreviation (input) MOD :: osal_objtype_t where "MOD \<equiv> OS_OBJECT_TYPE_OS_MODULE"

definition found_in :: "'h dl_calls \<Rightarrow> string \<Rightarrow> 'h posix_dl \<Rightarrow> ptr \<Rightarrow> nat option" where
  "found_in c nm a h = (case sys_dlsym c h nm (dl_host a) of (adr, err) \<Rightarrow> if err = None \<and> adr \<noteq> 0 then Some adr else None)"

definition active_from :: "'i os_state \<Rightarrow> nat \<Rightarrow> nat list" where
  "active_from s k0 = filter (\<lambda>k. OS_ObjectIdDefined (active_id (OS_common_table s (record_of MOD (of_nat k)))))
     [k0..<unat (OS_GetMaxForObjectType MOD)]"

definition loaded_handles :: "'h posix_dl os_state \<Rightarrow> ptr list" where
  "loaded_handles s = map (dl_handle (impl s)) (active_from s 0)"

definition symbol_reference ::
    "'h dl_calls \<Rightarrow> OS_static_symbol_record list option \<Rightarrow> string \<Rightarrow> 'h posix_dl os_state \<Rightarrow> nat option" where
  "symbol_reference c symtab nm s =
    (case List.map_filter (found_in c nm (impl s)) (None # loaded_handles s) of
       adr # _ \<Rightarrow> Some adr
     | [] \<Rightarrow> (case symtab of None \<Rightarrow> None
             | Some tab \<Rightarrow> map_option sym_Address (find (\<lambda>r. sym_Name r = nm) tab)))"

lemma GenericSymbolLookup_found:
  obtains adr where "OS_GenericSymbolLookup_Impl c h nm a = (if found_in c nm a h = None then OS_ERROR else OS_SUCCESS, adr)"
    and "found_in c nm a h = None \<or> found_in c nm a h = Some adr"
  by (cases "sys_dlsym c h nm (dl_host a)") (auto simp: OS_GenericSymbolLookup_Impl_def found_in_def)

definition module_iter :: "u32 \<Rightarrow> 'h posix_dl OS_object_iter \<Rightarrow> bool" where
  "module_iter q iter \<longleftrightarrow> iter_match iter = Some OS_ObjectFilterActive \<and> iter_limit iter = OS_GetMaxForObjectType MOD
     \<and> iter_base iter = OS_GetBaseForObjectType MOD
     \<and> (\<exists>j i. iter_token iter = tok OS_LOCK_MODE_GLOBAL q MOD j i)"

lemma GetNext_active:
  assumes "module_iter q iter" "OS_ObjectIdIteratorGetNext iter s = (hit, iter')"
  shows "module_iter q iter' \<and> active_from s (unat (obj_idx (iter_token iter) + 1)) =
    (if hit then unat (obj_idx (iter_token iter')) # active_from s (unat (obj_idx (iter_token iter') + 1)) else [])"
proof -
  let ?n = "OS_GetMaxForObjectType MOD"
  let ?acc = "\<lambda>i. OS_ObjectIdDefined (active_id (table_entry s (OS_GetBaseForObjectType MOD) i))"
  let ?j = "scan_from ?acc ?n (obj_idx (iter_token iter))"
  have acc: "active_from s k0 = filter (\<lambda>k. ?acc (of_nat k)) [k0..<unat ?n]" for k0
    unfolding active_from_def
    by (rule filter_cong) (auto simp: table_entry_record word_less_nat_alt unat_of_nat_below)
  from assms have "hit \<longleftrightarrow> \<not> ?n \<le> ?j" and "module_iter q iter'" and "obj_idx (iter_token iter') = ?j"
    by (auto simp: OS_ObjectIdIteratorGetNext_def module_iter_def OS_ObjectFilterActive_def Let_def split: if_splits)
  with scan_from_filter[of ?acc "obj_idx (iter_token iter)" ?n] show ?thesis
    by (cases hit) (simp_all add: acc del: not_le)
qed

lemma symbol_loop_order:
  assumes "module_iter q iter" "symbol_loop c nm (st, adr0) iter s = ((st', adr), iter')"
  shows "module_iter q iter' \<and>
    (case List.map_filter (found_in c nm (impl s)) (map (dl_handle (impl s)) (active_from s (unat (obj_idx (iter_token iter) + 1)))) of
       [] \<Rightarrow> st' = st | x # _ \<Rightarrow> st' = OS_SUCCESS \<and> adr = x)"
  using assms
proof (induction c nm "(st, adr0)" iter s arbitrary: adr0 rule: symbol_loop.induct)
  case (1 c nm iter s adr0)
  obtain hit iter1 where n: "OS_ObjectIdIteratorGetNext iter s = (hit, iter1)" by fastforce
  note g = GetNext_active[OF "1.prems"(1) n]
  show ?case
  proof (cases hit)
    case False
    with n "1.prems"(2) g show ?thesis by (simp add: symbol_loop.simps[of c nm "(st, adr0)" iter s])
  next
    case True
    obtain x where x: "posix_ModuleSymbolLookup c (iter_token iter1) nm (impl s)
        = (if found_in c nm (impl s) (dl_handle (impl s) (unat (obj_idx (iter_token iter1)))) = None then OS_ERROR else OS_SUCCESS, x)"
      and f: "found_in c nm (impl s) (dl_handle (impl s) (unat (obj_idx (iter_token iter1)))) \<in> {None, Some x}"
      unfolding posix_ModuleSymbolLookup_def by (rule GenericSymbolLookup_found) blast
    show ?thesis
    proof (cases "found_in c nm (impl s) (dl_handle (impl s) (unat (obj_idx (iter_token iter1))))")
      case None
      with x n True "1.prems"(2) have "symbol_loop c nm (st, x) iter1 s = ((st', adr), iter')"
        by (simp add: symbol_loop.simps[of c nm "(st, adr0)" iter s])
      with "1.hyps"[OF n[symmetric]] g True None x show ?thesis by simp
    next
      case (Some y)
      with x f n True "1.prems"(2) g show ?thesis by (simp add: symbol_loop.simps[of c nm "(st, adr0)" iter s])
    qed
  qed
qed

lemma posix_SymbolLookup_order:
  assumes "idle s"
  obtains st adr s' where "posix_SymbolLookup env c nm s = (st, Some adr, s')" "s' = s \<or> s' = ticked MOD s"
    and "case List.map_filter (found_in c nm (impl s)) (None # loaded_handles s) of
        [] \<Rightarrow> st = OS_ERROR | x # _ \<Rightarrow> st = OS_SUCCESS \<and> adr = x"
proof -
  have m: "OS_GetMaxForObjectType MOD \<noteq> 0" by (simp add: OS_GetMaxForObjectType_def os_max_defs)
  obtain x where g: "OS_GenericSymbolLookup_Impl c None nm (impl s) = (if found_in c nm (impl s) None = None then OS_ERROR else OS_SUCCESS, x)"
    and x: "found_in c nm (impl s) None = None \<or> found_in c nm (impl s) None = Some x"
    by (rule GenericSymbolLookup_found)
  show thesis
  proof (cases "found_in c nm (impl s) None")
    case None
    obtain q where q: "q AND 0xFF000000 = 0x4D000000"
      and ti: "OS_ObjectIdTransactionInit env OS_LOCK_MODE_GLOBAL MOD s
        = (OS_SUCCESS, tok OS_LOCK_MODE_GLOBAL q MOD (- 1) 0, acquired MOD q s)"
      using TransactionInit_locked[OF idleD(1)[OF assms] m idleD(3)[OF assms m], of OS_LOCK_MODE_GLOBAL env] by auto
    let ?it = "\<lparr>iter_match = Some OS_ObjectFilterActive, iter_limit = OS_GetMaxForObjectType MOD,
      iter_base = OS_GetBaseForObjectType MOD, iter_token = tok OS_LOCK_MODE_GLOBAL q MOD (- 1) 0\<rparr> :: 'a posix_dl OS_object_iter"
    obtain st adr iter' where l: "symbol_loop c nm (OS_ERROR, x) ?it (acquired MOD q s) = ((st, adr), iter')"
      by (metis prod.exhaust)
    have "module_iter q ?it" by (simp add: module_iter_def)
    note o = symbol_loop_order[OF this l]
    then obtain j i where "iter_token iter' = tok OS_LOCK_MODE_GLOBAL q MOD j i" by (auto simp: module_iter_def)
    then have "snd (OS_ObjectIdIteratorDestroy iter' (acquired MOD q s)) = ticked MOD s"
      using TransactionCancel_acquired[OF idleD(3)[OF assms m] max_nonzero_valid_type(2)[OF m] _ q, of OS_LOCK_MODE_GLOBAL j i]
      by (simp add: OS_ObjectIdIteratorDestroy_def)
    then have "posix_SymbolLookup env c nm s = (st, Some adr, ticked MOD s)"
      using g None l by (simp add: posix_SymbolLookup_def OS_ObjectIdIterateActive_def OS_ObjectIdIteratorInit_def ti)
    then show thesis using that[of st adr "ticked MOD s"] o None by (simp add: loaded_handles_def active_from_def)
  next
    case (Some y)
    with g x that[of OS_SUCCESS y s] show thesis by (simp add: posix_SymbolLookup_def)
  qed
qed

lemma SymbolLookup_search_find:
  "SymbolLookup_search nm None tab = Some (case find (\<lambda>r. sym_Name r = nm) tab of
     None \<Rightarrow> (OS_ERROR, None) | Some r \<Rightarrow> (OS_SUCCESS, Some (sym_Address r)))"
  by (induction tab) auto

text \<open>C13: A symbol lookup on POSIX agrees with the reference definition: the process is searched
  first, then the loaded modules in the order of their table, then the static symbol table. The
  call never reads through a null pointer and leaves the registry of objects and the table locks
  as they were; an address is given exactly when the symbol is found.\<close>

theorem OS_SymbolLookup_order:
  assumes "idle s"
  shows "\<exists>st adr s'. OS_SymbolLookup (posix_module_impl env c) symtab True (Some nm) s = Some (st, adr, s')
    \<and> idle s' \<and> registry s' = registry s \<and> impl s' = impl s
    \<and> (case symbol_reference c symtab nm s of None \<Rightarrow> st = OS_ERROR | Some x \<Rightarrow> st = OS_SUCCESS \<and> adr = Some x)"
proof -
  obtain st adr s' where p: "posix_SymbolLookup env c nm s = (st, Some adr, s')" "s' = s \<or> s' = ticked MOD s"
    and o: "case List.map_filter (found_in c nm (impl s)) (None # loaded_handles s) of
        [] \<Rightarrow> st = OS_ERROR | x # _ \<Rightarrow> st = OS_SUCCESS \<and> adr = x"
    using posix_SymbolLookup_order[OF assms] .
  have s': "idle s'" "registry s' = registry s" "impl s' = impl s" using p(2) assms by auto
  show ?thesis
  proof (cases "List.map_filter (found_in c nm (impl s)) (None # loaded_handles s)")
    case Nil
    with p(1) o s' show ?thesis
      by (auto simp: OS_SymbolLookup_def posix_module_impl_def static_fallback_def OS_SymbolLookup_Static_def
          symbol_reference_def SymbolLookup_search_find split: option.splits)
  next
    case (Cons x xs)
    with p(1) o s' show ?thesis
      by (simp add: OS_SymbolLookup_def posix_module_impl_def static_fallback_def symbol_reference_def)
  qed
qed

definition example_dl :: "unit dl_calls" where
  "example_dl = \<lparr>sys_dlopen = (\<lambda>_ _ h. (Some 1, h)), sys_dlclose = (\<lambda>_ h. (0, h)),
     sys_dlsym = (\<lambda>h nm _. if h = Some 1 \<and> nm = ''entry'' then (4096, None) else (0, Some ''undefined symbol''))\<rparr>"

definition example_loaded :: "unit posix_dl os_state" where
  "example_loaded = upd_common (record_of MOD 3)
     (\<lambda>_. \<lparr>name_entry = Some (Module_name 3), active_id = 0xA0003, creator = 0, refcount = 0\<rparr>)
     (fresh_state \<lparr>dl_handle = (\<lambda>_. None)(3 := Some 1), dl_host = ()\<rparr>)"

lemma example_loaded_facts: "idle example_loaded" "loaded_handles example_loaded = [Some 1]"
proof -
  let ?ob = "\<lparr>name_entry = Some (Module_name 3), active_id = 0xA0003, creator = 0, refcount = 0\<rparr>"
  have mx: "OS_GetMaxForObjectType MOD = 20" by (simp add: OS_GetMaxForObjectType_def os_max_defs)
  then have "index_of 0xA0003 = 3" "id_of_type MOD 0xA0003"
    by (simp_all add: index_of_def id_of_type_def OS_ObjectIdToSerialNumber_Impl_def OS_ObjectIdToType_Impl_def)
  then have sl: "idle_slot MOD 3 ?ob" by (simp add: idle_slot_def)
  show "idle example_loaded"
    by (rule idle_upd_common[OF fresh_idle _ sl]) (simp_all add: mx example_loaded_def idleD(1,2)[OF fresh_idle])
  have unat3: "unat (3 :: u32) = 3" by simp
  have "OS_ObjectIdDefined (active_id (OS_common_table example_loaded (record_of MOD (of_nat k)))) \<longleftrightarrow> k = 3" if "k < 20" for k
  proof -
    have "unat (of_nat k :: u32) = k" using that by (simp add: unat_of_nat take_bit_nat_eq_self)
    then have "of_nat k = (3 :: u32) \<longleftrightarrow> k = 3" by (metis of_nat_numeral unat3)
    with that record_of_eq[of "of_nat k" MOD 3 MOD] show ?thesis
      by (auto simp: mx example_loaded_def fresh_state_def boot_state_def zero_common_record_def OS_ObjectIdDefined_def
          word_less_nat_alt unat_of_nat take_bit_nat_eq_self)
  qed
  then have "active_from example_loaded 0 = filter (\<lambda>k. k = 3) [0..<20]"
    unfolding active_from_def by (intro filter_cong) (simp_all add: mx)
  then show "loaded_handles example_loaded = [Some 1]"
    by (simp add: loaded_handles_def upt_rec example_loaded_def fresh_state_def boot_state_def)
qed

theorem OS_SymbolLookup_order_witness:
  "\<exists>s'. OS_SymbolLookup (posix_module_impl quiet_env example_dl) None True (Some ''entry'') example_loaded = Some (OS_SUCCESS, Some 4096, s')
    \<and> registry s' = registry example_loaded"
  using OS_SymbolLookup_order[OF example_loaded_facts(1), of quiet_env example_dl None "''entry''"]
  by (auto simp: symbol_reference_def example_loaded_facts found_in_def example_dl_def)

end
