(* ===== verification/Spec2Isabelle.thy ===== *)
theory Spec2Isabelle
  imports Idmap_Properties Idmap_Concurrent Clock Timer Services Posix_Sync Posix_Queues Posix_Timebase Module
begin

text \<open>
  Verification development for the NASA Operating System Abstraction Layer.
\<close>

end
